(* ===== verification/Py_Prelude.thy ===== *)
theory Py_Prelude
  imports Main "HOL-Library.List_Lexorder" "HOL-Library.Char_ord"
begin

text \<open>
  The part of the Python runtime the modelled modules use: exceptions as values, the ordered
  validation chains of the dataclasses' \<^verbatim>\<open>__post_init__\<close> methods, string normalisation,
  insertion-ordered de-duplication (\<^verbatim>\<open>tuple(dict.fromkeys(xs))\<close>), dictionaries as association
  lists, and timezone-aware datetimes.

  Strings are \<^typ>\<open>string\<close> and range over ASCII text; \<^verbatim>\<open>strip\<close>, \<^verbatim>\<open>upper\<close> and \<^verbatim>\<open>lower\<close> are
  Python's operations on ASCII, and Python's code-point order on strings is the lexicographic
  order of \<^verbatim>\<open>List_Lexorder\<close> over \<^verbatim>\<open>Char_ord\<close>.
\<close>

named_theorems py_simps \<open>unfolding rules for the runtime layer\<close>
named_theorems post_init_defs \<open>the dataclass validation chains\<close>

section \<open>Exceptions as values\<close>

text \<open>
  The exception classes the modelled code raises. A \<^verbatim>\<open>ValueError\<close> keeps the message of the
  source, since several messages are the only way to tell two refusals apart.
\<close>

datatype py_error =
    ValueError string
  | RuntimeError string
  | OverflowError string
  | TypeError string
  | KeyError string
  | OSError string
  | IndexError
  | InvalidOperation
  | DivisionByZero
  | ExchangeHttpError string
  | ExchangePayloadError string
  | AlreadyConsumedError
  | LedgerUnavailableError
  | CorruptionError string

type_synonym 'a result = "py_error + 'a"

definition bindE :: "'a result \<Rightarrow> ('a \<Rightarrow> 'b result) \<Rightarrow> 'b result" where
  "bindE m f = (case m of Inl e \<Rightarrow> Inl e | Inr x \<Rightarrow> f x)"

text \<open>Evaluation inlines the sequencing, so that a continuation runs only on a value.\<close>

declare bindE_def [code_unfold]

definition require :: "bool \<Rightarrow> py_error \<Rightarrow> unit result" where
  "require c e = (if c then Inr () else Inl e)"

lemma bindE_simps [simp]:
  "bindE (Inl e) f = Inl e"
  "bindE (Inr x) f = f x"
  by (simp_all add: bindE_def)

lemma bindE_eq_Inr [simp]:
  "bindE m f = Inr y \<longleftrightarrow> (\<exists>x. m = Inr x \<and> f x = Inr y)"
  by (cases m) simp_all

lemma bindE_eq_Inl:
  "bindE m f = Inl e \<longleftrightarrow> m = Inl e \<or> (\<exists>x. m = Inr x \<and> f x = Inl e)"
  by (cases m) simp_all

lemma require_eq_Inr [simp]: "require c e = Inr u \<longleftrightarrow> c"
  by (simp add: require_def)

lemma require_eq_Inl [simp]: "require c e = Inl e' \<longleftrightarrow> \<not> c \<and> e' = e"
  by (auto simp: require_def)

lemma require_True [simp]: "require True e = Inr ()"
  by (simp add: require_def)

lemma require_False [simp]: "require False e = Inl e"
  by (simp add: require_def)

text \<open>
  \<^verbatim>\<open>validate\<close> is a sequence of \<^verbatim>\<open>if <bad>: raise ValueError(<message>)\<close> statements that ends
  in returning the object: the first failing test decides the message.
\<close>

fun validate :: "(bool \<times> string) list \<Rightarrow> 'a \<Rightarrow> 'a result" where
  "validate [] x = Inr x"
| "validate ((bad, msg) # cs) x = (if bad then Inl (ValueError msg) else validate cs x)"

lemma validate_eq_Inr [simp]:
  "validate cs x = Inr y \<longleftrightarrow> y = x \<and> list_all (\<lambda>c. \<not> fst c) cs"
  by (induction cs x rule: validate.induct) (auto simp: validate.simps)

declare validate.simps [simp del, py_simps]

lemma validate_Inl_ValueError:
  "validate cs x = Inl e \<Longrightarrow> \<exists>msg. e = ValueError msg \<and> (True, msg) \<in> set cs"
  by (induction cs x rule: validate.induct) (auto simp: validate.simps split: if_splits)

text \<open>Mapping a fallible function over a sequence, left to right, stopping at the first error.\<close>

fun mapE :: "('a \<Rightarrow> 'b result) \<Rightarrow> 'a list \<Rightarrow> 'b list result" where
  "mapE f [] = Inr []"
| "mapE f (x # xs) = bindE (f x) (\<lambda>y. bindE (mapE f xs) (\<lambda>ys. Inr (y # ys)))"

lemma mapE_eq_Inr_length: "mapE f xs = Inr ys \<Longrightarrow> length ys = length xs"
  by (induction xs arbitrary: ys) auto

lemma mapE_eq_Inr_nth:
  "mapE f xs = Inr ys \<Longrightarrow> i < length xs \<Longrightarrow> f (xs ! i) = Inr (ys ! i)"
  by (induction xs arbitrary: ys i) (auto simp: nth_Cons split: nat.splits)

text \<open>Folding a fallible step over a sequence: the loops that thread a state.\<close>

fun foldE :: "('s \<Rightarrow> 'a \<Rightarrow> 's result) \<Rightarrow> 's \<Rightarrow> 'a list \<Rightarrow> 's result" where
  "foldE f s [] = Inr s"
| "foldE f s (x # xs) = bindE (f s x) (\<lambda>s'. foldE f s' xs)"

lemma foldE_append:
  "foldE f s (xs @ ys) = bindE (foldE f s xs) (\<lambda>s'. foldE f s' ys)"
  by (induction xs arbitrary: s) (auto simp: bindE_def split: sum.splits)

lemma foldE_invariant:
  assumes "foldE f s xs = Inr s'" "P s"
    and "\<And>s x s'. P s \<Longrightarrow> f s x = Inr s' \<Longrightarrow> P s'"
  shows "P s'"
  using assms(1,2) by (induction xs arbitrary: s) (auto intro: assms(3))

section \<open>Strings\<close>

definition py_space :: "char \<Rightarrow> bool" where
  "py_space c \<longleftrightarrow> (let n = of_char c :: int in (9 \<le> n \<and> n \<le> 13) \<or> (28 \<le> n \<and> n \<le> 32))"

definition py_strip :: "string \<Rightarrow> string" where
  "py_strip s = rev (dropWhile py_space (rev (dropWhile py_space s)))"

definition upper_char :: "char \<Rightarrow> char" where
  "upper_char c = (let n = of_char c :: int in if 97 \<le> n \<and> n \<le> 122 then char_of (n - 32) else c)"

definition lower_char :: "char \<Rightarrow> char" where
  "lower_char c = (let n = of_char c :: int in if 65 \<le> n \<and> n \<le> 90 then char_of (n + 32) else c)"

definition py_upper :: "string \<Rightarrow> string" where
  "py_upper s = map upper_char s"

definition py_lower :: "string \<Rightarrow> string" where
  "py_lower s = map lower_char s"

text \<open>\<^verbatim>\<open>not value.strip()\<close>: nothing but whitespace.\<close>

definition blank :: "string \<Rightarrow> bool" where
  "blank s \<longleftrightarrow> py_strip s = []"

definition is_digit :: "char \<Rightarrow> bool" where
  "is_digit c \<longleftrightarrow> (let n = of_char c :: int in 48 \<le> n \<and> n \<le> 57)"

definition is_alnum_char :: "char \<Rightarrow> bool" where
  "is_alnum_char c \<longleftrightarrow>
     (let n = of_char c :: int
      in (48 \<le> n \<and> n \<le> 57) \<or> (65 \<le> n \<and> n \<le> 90) \<or> (97 \<le> n \<and> n \<le> 122))"

definition py_isascii :: "string \<Rightarrow> bool" where
  "py_isascii s \<longleftrightarrow> list_all (\<lambda>c. (of_char c :: int) < 128) s"

definition py_isalnum :: "string \<Rightarrow> bool" where
  "py_isalnum s \<longleftrightarrow> s \<noteq> [] \<and> list_all is_alnum_char s"

lemma dropWhile_idem: "dropWhile p (dropWhile p xs) = dropWhile p xs"
  by (induction xs) auto

lemma hd_dropWhile_not: "dropWhile p xs = y # ys \<Longrightarrow> \<not> p y"
  by (induction xs) (auto split: if_splits)

lemma dropWhile_rev_dropWhile:
  "dropWhile p (rev (dropWhile p (rev (dropWhile p xs)))) = rev (dropWhile p (rev (dropWhile p xs)))"
proof (cases "dropWhile p xs")
  case Nil
  then show ?thesis by (simp only: list.simps rev.simps dropWhile.simps)
next
  case (Cons y ys)
  then have "\<not> p y" by (rule hd_dropWhile_not)
  then have "dropWhile p (rev ys @ [y]) = dropWhile p (rev ys) @ [y]"
    by (induction "rev ys") (auto simp: dropWhile_append3)
  with Cons \<open>\<not> p y\<close> show ?thesis by simp
qed

lemma py_strip_idem [simp]: "py_strip (py_strip s) = py_strip s"
  unfolding py_strip_def
  by (simp add: dropWhile_rev_dropWhile dropWhile_idem)

lemma blank_strip [simp]: "blank (py_strip s) \<longleftrightarrow> blank s"
  by (simp add: blank_def)

lemma blank_Nil [simp]: "blank []"
  by (simp add: blank_def py_strip_def)

lemma blank_code [code]: "blank s \<longleftrightarrow> list_all py_space s"
proof -
  have "dropWhile py_space (rev (dropWhile py_space s)) = [] \<longleftrightarrow> dropWhile py_space s = []"
    using hd_dropWhile_not [of py_space s] by (cases "dropWhile py_space s") (auto simp: dropWhile_eq_Nil_conv dest: set_dropWhileD)
  then show ?thesis by (simp add: blank_def py_strip_def list_all_iff dropWhile_eq_Nil_conv)
qed

text \<open>The two letter cases differ in one bit, which is how they are evaluated.\<close>

definition bit_five :: "bool \<Rightarrow> char \<Rightarrow> char" where
  "bit_five b c = (case c of Char b0 b1 b2 b3 b4 _ b6 b7 \<Rightarrow> Char b0 b1 b2 b3 b4 b b6 b7)"

lemma of_char_bit_five:
  assumes "digit5 c \<noteq> b"
  shows "(of_char (bit_five b c) :: int) = of_char c + (if b then 32 else - 32)"
  using assms by (cases c) (auto simp: bit_five_def of_char_Char)

lemma digit5_upper: "(of_char c :: int) \<in> {97..122} \<Longrightarrow> digit5 c"
  by (cases c) (auto simp: of_char_Char of_bool_def split: if_splits)

lemma digit5_lower: "(of_char c :: int) \<in> {65..90} \<Longrightarrow> \<not> digit5 c"
  by (cases c) (auto simp: of_char_Char of_bool_def split: if_splits)

lemma char_of_bit_five: "(of_char d :: int) = n \<Longrightarrow> char_of n = d"
  by auto

lemma upper_char_code [code]:
  "upper_char c = (let n = of_char c :: int in if 97 \<le> n \<and> n \<le> 122 then bit_five False c else c)"
  using of_char_bit_five [of c False] digit5_upper [of c]
  by (auto simp: upper_char_def Let_def intro!: char_of_bit_five)

lemma lower_char_code [code]:
  "lower_char c = (let n = of_char c :: int in if 65 \<le> n \<and> n \<le> 90 then bit_five True c else c)"
  using of_char_bit_five [of c True] digit5_lower [of c]
  by (auto simp: lower_char_def Let_def intro!: char_of_bit_five)

lemma upper_char_idem [simp]: "upper_char (upper_char c) = upper_char c"
  by (simp add: upper_char_def Let_def)

lemma py_upper_idem [simp]: "py_upper (py_upper s) = py_upper s"
  by (simp add: py_upper_def)

lemma py_space_upper [simp]: "py_space (upper_char c) = py_space c"
  by (auto simp: upper_char_def py_space_def Let_def)

lemma py_strip_upper: "py_strip (py_upper s) = py_upper (py_strip s)"
  by (simp add: py_strip_def py_upper_def dropWhile_map rev_map o_def)

lemma normal_symbol_idem [simp]:
  "py_upper (py_strip (py_upper (py_strip s))) = py_upper (py_strip s)"
  by (simp add: py_strip_upper)

lemma py_upper_Nil_iff [simp]: "py_upper s = [] \<longleftrightarrow> s = []"
  by (simp add: py_upper_def)

lemma blank_upper_strip [simp]: "blank (py_upper (py_strip s)) \<longleftrightarrow> py_strip s = []"
  by (simp add: blank_def py_strip_upper)

section \<open>Ordered de-duplication and counting\<close>

text \<open>\<^verbatim>\<open>tuple(dict.fromkeys(xs))\<close>: first occurrences, in order.\<close>

fun fromkeys_acc :: "'a list \<Rightarrow> 'a list \<Rightarrow> 'a list" where
  "fromkeys_acc seen [] = []"
| "fromkeys_acc seen (x # xs) =
     (if x \<in> set seen then fromkeys_acc seen xs else x # fromkeys_acc (x # seen) xs)"

definition dict_fromkeys :: "'a list \<Rightarrow> 'a list" where
  "dict_fromkeys xs = fromkeys_acc [] xs"

lemma set_fromkeys_acc: "set (fromkeys_acc seen xs) = set xs - set seen"
  by (induction seen xs rule: fromkeys_acc.induct) auto

lemma set_dict_fromkeys [simp]: "set (dict_fromkeys xs) = set xs"
  by (simp add: dict_fromkeys_def set_fromkeys_acc)

lemma distinct_fromkeys_acc: "distinct (fromkeys_acc seen xs)"
  by (induction seen xs rule: fromkeys_acc.induct) (auto simp: set_fromkeys_acc)

lemma distinct_dict_fromkeys [simp]: "distinct (dict_fromkeys xs)"
  by (simp add: dict_fromkeys_def distinct_fromkeys_acc)

lemma dict_fromkeys_Nil_iff [simp]: "dict_fromkeys xs = [] \<longleftrightarrow> xs = []"
  by (metis set_dict_fromkeys set_empty)

lemma Nil_dict_fromkeys_iff [simp]: "[] = dict_fromkeys xs \<longleftrightarrow> xs = []"
  by (metis dict_fromkeys_Nil_iff)

lemma dict_fromkeys_Nil [simp]: "dict_fromkeys [] = []"
  by simp

lemma fromkeys_acc_distinct: "distinct xs \<Longrightarrow> set xs \<inter> set seen = {} \<Longrightarrow> fromkeys_acc seen xs = xs"
  by (induction seen xs rule: fromkeys_acc.induct) auto

lemma fromkeys_acc_cong: "set seen = set seen' \<Longrightarrow> fromkeys_acc seen xs = fromkeys_acc seen' xs"
proof (induction seen xs arbitrary: seen' rule: fromkeys_acc.induct)
  case (2 seen x xs)
  then show ?case by (cases "x \<in> set seen") auto
qed simp

lemma fromkeys_acc_append:
  "fromkeys_acc seen (xs @ ys) = fromkeys_acc seen xs @ fromkeys_acc (xs @ seen) ys"
proof (induction seen xs rule: fromkeys_acc.induct)
  case (2 seen x xs)
  have "fromkeys_acc (x # xs @ seen) ys = fromkeys_acc (xs @ x # seen) ys"
    "x \<in> set seen \<Longrightarrow> fromkeys_acc (x # xs @ seen) ys = fromkeys_acc (xs @ seen) ys"
    by (rule fromkeys_acc_cong, auto)+
  with 2 show ?case by auto
qed simp

lemma dict_fromkeys_distinct: "distinct xs \<Longrightarrow> dict_fromkeys xs = xs"
  by (simp add: dict_fromkeys_def fromkeys_acc_distinct)

text \<open>
  The blocker idiom \<^verbatim>\<open>if <failed>: blockers.append(<code>)\<close>: one guarded code, and the
  comprehension \<^verbatim>\<open>tuple(code for failed, code in checks if failed)\<close> over several.
\<close>

definition flag_if :: "bool \<Rightarrow> 'a \<Rightarrow> 'a list" where
  "flag_if c x = (if c then [x] else [])"

definition failed_codes :: "(bool \<times> 'a) list \<Rightarrow> 'a list" where
  "failed_codes cs = map snd (filter fst cs)"

lemma flag_if_Nil_iff [simp]: "flag_if c x = [] \<longleftrightarrow> \<not> c"
  by (simp add: flag_if_def)

lemma set_flag_if [simp]: "set (flag_if c x) = (if c then {x} else {})"
  by (cases c) (simp_all add: flag_if_def)

lemma failed_codes_Nil_iff: "failed_codes cs = [] \<longleftrightarrow> list_all (\<lambda>c. \<not> fst c) cs"
  by (induction cs) (auto simp: failed_codes_def)

lemma set_failed_codes: "set (failed_codes cs) = {code. (True, code) \<in> set cs}"
  by (induction cs) (auto simp: failed_codes_def)

section \<open>Dictionaries with a payload order\<close>

text \<open>\<^verbatim>\<open>dict(pairs)\<close> of a sequence of pairs: a later binding of a key wins.\<close>

definition py_dict :: "('k \<times> 'v) list \<Rightarrow> 'k \<Rightarrow> 'v option" where
  "py_dict ps = map_of (rev ps)"

lemma py_dict_distinct: "distinct (map fst ps) \<Longrightarrow> py_dict ps = map_of ps"
  unfolding py_dict_def by (subst map_of_inject_set) (simp_all add: rev_map [symmetric])

section \<open>Datetimes\<close>

text \<open>
  A datetime counts microseconds: of UTC for an aware one, of its own wall clock for a naive
  one. Comparing two aware datetimes compares instants. The source rejects naive datetimes at
  every boundary (\<^verbatim>\<open>value.tzinfo is None or value.utcoffset() is None\<close>); a timedelta is its
  number of microseconds.
\<close>

datatype datetime = Naive (instant: int) | Aware (instant: int)

type_synonym timedelta = int

definition is_aware :: "datetime \<Rightarrow> bool" where
  "is_aware d \<longleftrightarrow> (case d of Aware _ \<Rightarrow> True | Naive _ \<Rightarrow> False)"

lemma is_aware_simps [simp]: "is_aware (Aware t)" "\<not> is_aware (Naive t)"
  by (simp_all add: is_aware_def)

lemma is_aware_conv: "is_aware d \<longleftrightarrow> d = Aware (instant d)"
  by (cases d) auto

lemma aware_eq_iff: "is_aware a \<Longrightarrow> is_aware b \<Longrightarrow> a = b \<longleftrightarrow> instant a = instant b"
  by (cases a; cases b) auto

abbreviation seconds :: "int \<Rightarrow> timedelta" where
  "seconds n \<equiv> n * 1000000"

abbreviation live_blocked :: string where
  "live_blocked \<equiv> ''LIVE_ORDER_BLOCKED''"

end
