(* ===== verification/Decimal28.thy ===== *)
theory Decimal28
  imports Complex_Main Py_Prelude
begin

text \<open>
  Python's \<^verbatim>\<open>decimal.Decimal\<close> under the default context every module of the repository runs in:
  28 significant digits, \<^verbatim>\<open>ROUND_HALF_EVEN\<close>. A finite decimal is its rational value; every
  arithmetic operation computes the exact result and rounds it once with \<open>dround\<close>. The
  exponent limits of the context (about \<open>10 ^ 999999\<close>) are not modelled; special values appear
  where the source can see them, in parsing.

  The locale \<open>decimal_context\<close> is the interface the components rely on: what any rounding of
  this kind keeps of order, sign and already rounded values. \<open>dround\<close> is its interpretation.
\<close>

type_synonym dec = rat

section \<open>Rounding half to even\<close>

definition round_half_even :: "rat \<Rightarrow> int" where
  "round_half_even x =
     (let f = \<lfloor>x\<rfloor>; r = x - of_int f
      in if r < 1 / 2 then f else if 1 / 2 < r then f + 1 else if even f then f else f + 1)"

lemma round_half_even_code [code]:
  "round_half_even x =
     (let f = \<lfloor>x\<rfloor>; r = x - of_int f
      in if r < 1 / 2 then f else if 1 / 2 < r then f + 1 else if f mod 2 = 0 then f else f + 1)"
  by (simp add: round_half_even_def even_iff_mod_2_eq_zero Let_def)

lemma round_half_even_of_int [simp]: "round_half_even (of_int n) = n"
  by (simp add: round_half_even_def)

lemma round_half_even_bounds: "\<lfloor>x\<rfloor> \<le> round_half_even x" "round_half_even x \<le> \<lfloor>x\<rfloor> + 1"
  by (simp_all add: round_half_even_def Let_def)

lemma round_half_even_mono:
  assumes "x \<le> y" shows "round_half_even x \<le> round_half_even y"
proof (cases "\<lfloor>x\<rfloor> = \<lfloor>y\<rfloor>")
  case True
  with assms show ?thesis by (simp add: round_half_even_def Let_def)
next
  case False
  with floor_mono [OF assms] have "\<lfloor>x\<rfloor> + 1 \<le> \<lfloor>y\<rfloor>" by simp
  with round_half_even_bounds(2) [of x] round_half_even_bounds(1) [of y] show ?thesis by simp
qed

lemma round_half_even_near: "\<bar>of_int (round_half_even x) - x\<bar> \<le> 1 / 2"
proof -
  have "of_int \<lfloor>x\<rfloor> \<le> x" and "x < of_int \<lfloor>x\<rfloor> + 1" by (simp, linarith)
  then show ?thesis by (simp add: round_half_even_def Let_def)
qed

section \<open>The adjusted exponent\<close>

fun ndigits :: "nat \<Rightarrow> nat" where
  "ndigits n = (if n < 10 then 1 else Suc (ndigits (n div 10)))"

declare ndigits.simps [simp del]

lemma ndigits_pos: "0 < ndigits n"
  by (subst ndigits.simps) simp

lemma ndigits_upper: "n < 10 ^ ndigits n"
proof (induction n rule: ndigits.induct)
  case (1 n)
  show ?case
  proof (cases "n < 10")
    case True
    then show ?thesis by (simp add: ndigits.simps [of n])
  next
    case False
    with 1 have "n div 10 < 10 ^ ndigits (n div 10)" by simp
    then have "n < 10 * 10 ^ ndigits (n div 10)" by linarith
    with False show ?thesis by (simp add: ndigits.simps [of n])
  qed
qed

lemma ndigits_lower: "0 < n \<Longrightarrow> 10 ^ (ndigits n - 1) \<le> n"
proof (induction n rule: ndigits.induct)
  case (1 n)
  show ?case
  proof (cases "n < 10")
    case True
    with 1 show ?thesis by (simp add: ndigits.simps [of n])
  next
    case False
    with 1 have IH: "10 ^ (ndigits (n div 10) - 1) \<le> n div 10" by simp
    have "(10::nat) ^ ndigits (n div 10) = 10 * 10 ^ (ndigits (n div 10) - 1)"
      using ndigits_pos [of "n div 10"] by (simp flip: power_Suc)
    also have "\<dots> \<le> 10 * (n div 10)" using IH by simp
    also have "\<dots> \<le> n" by simp
    finally show ?thesis using False by (simp add: ndigits.simps [of n])
  qed
qed

definition adjusted :: "rat \<Rightarrow> int" where
  "adjusted x =
     (let y = \<bar>x\<bar>
      in if 1 \<le> y then int (ndigits (nat \<lfloor>y\<rfloor>)) - 1 else - int (ndigits (nat (\<lceil>1 / y\<rceil> - 1))))"

lemma powi_ten_pos [simp]: "0 < (10::rat) powi k"
  by (simp add: zero_less_power_int)

lemma powi_ten_mono: "i \<le> j \<Longrightarrow> (10::rat) powi i \<le> 10 powi j"
  by (simp add: power_int_increasing)

lemma powi_ten_less_iff: "(10::rat) powi i < 10 powi j \<longleftrightarrow> i < j"
proof
  assume "i < j"
  then show "(10::rat) powi i < 10 powi j" by (intro power_int_strict_increasing) simp_all
next
  assume "(10::rat) powi i < 10 powi j"
  with powi_ten_mono [of j i] show "i < j" by linarith
qed

lemma adjusted_ge_one:
  assumes "1 \<le> \<bar>x\<bar>"
  shows "10 powi adjusted x \<le> \<bar>x\<bar>" "\<bar>x\<bar> < 10 powi (adjusted x + 1)"
proof -
  define n where "n = nat \<lfloor>\<bar>x\<bar>\<rfloor>"
  have n: "0 < n" using assms by (simp add: n_def)
  have a: "adjusted x = int (ndigits n) - 1" using assms by (simp add: adjusted_def n_def)
  have int_n: "int n = \<lfloor>\<bar>x\<bar>\<rfloor>" by (simp add: n_def)
  have e: "(10::rat) powi (int (ndigits n) - 1) = of_nat (10 ^ (ndigits n - 1))"
    using ndigits_pos [of n] by (simp add: power_int_def nat_diff_distrib)
  have "of_nat (10 ^ (ndigits n - 1)) \<le> (of_nat n :: rat)"
    using ndigits_lower [OF n] of_nat_mono by blast
  also have "of_nat n \<le> \<bar>x\<bar>" by (metis int_n of_int_floor_le of_int_of_nat_eq)
  finally show "10 powi adjusted x \<le> \<bar>x\<bar>" by (simp only: a e)
  have "\<lfloor>\<bar>x\<bar>\<rfloor> + 1 \<le> int (10 ^ ndigits n)"
    using ndigits_upper [of n] int_n by linarith
  then have "of_int (\<lfloor>\<bar>x\<bar>\<rfloor> + 1) \<le> (of_int (int (10 ^ ndigits n)) :: rat)"
    using of_int_le_iff by blast
  moreover have "\<bar>x\<bar> < of_int (\<lfloor>\<bar>x\<bar>\<rfloor> + 1)" by linarith
  ultimately have "\<bar>x\<bar> < of_int (int (10 ^ ndigits n))" by linarith
  then show "\<bar>x\<bar> < 10 powi (adjusted x + 1)" by (simp add: a)
qed

lemma adjusted_lt_one:
  assumes "x \<noteq> 0" "\<bar>x\<bar> < 1"
  shows "10 powi adjusted x \<le> \<bar>x\<bar>" "\<bar>x\<bar> < 10 powi (adjusted x + 1)"
proof -
  define c where "c = \<lceil>1 / \<bar>x\<bar>\<rceil>"
  define n where "n = nat (c - 1)"
  have x: "0 < \<bar>x\<bar>" using assms by simp
  have "1 < 1 / \<bar>x\<bar>" using assms by simp
  then have c: "2 \<le> c" unfolding c_def by linarith
  then have n: "0 < n" "int n = c - 1" by (simp_all add: n_def)
  have a: "adjusted x = - int (ndigits n)" using assms by (simp add: adjusted_def n_def c_def)
  have "c \<le> int (10 ^ ndigits n)" using ndigits_upper [of n] n(2) by linarith
  then have c_le: "of_int c \<le> (of_int (int (10 ^ ndigits n)) :: rat)" using of_int_le_iff by blast
  have "1 / \<bar>x\<bar> \<le> of_int c" unfolding c_def by (rule le_of_int_ceiling)
  also note c_le
  also have "of_int (int (10 ^ ndigits n)) = (10::rat) ^ ndigits n" by simp
  finally have "1 / \<bar>x\<bar> \<le> 10 ^ ndigits n" .
  then show "10 powi adjusted x \<le> \<bar>x\<bar>"
    using x by (simp add: a power_int_minus field_simps)
  have "int (10 ^ (ndigits n - 1)) \<le> c - 1" using ndigits_lower [OF n(1)] n(2) by linarith
  then have "of_int (int (10 ^ (ndigits n - 1))) \<le> (of_int (c - 1) :: rat)"
    using of_int_le_iff by blast
  moreover have "of_int (c - 1) < 1 / \<bar>x\<bar>" unfolding c_def by linarith
  ultimately have lo: "10 ^ (ndigits n - 1) < 1 / \<bar>x\<bar>" by simp
  then have lt: "\<bar>x\<bar> < inverse (10 ^ (ndigits n - 1))" using x by (simp add: field_simps)
  have e: "(10::rat) powi (adjusted x + 1) = inverse (10 ^ (ndigits n - 1))"
    using ndigits_pos [of n]
    by (simp add: a power_int_def nat_diff_distrib power_one_over inverse_eq_divide)
  show "\<bar>x\<bar> < 10 powi (adjusted x + 1)" unfolding e by (rule lt)
qed

lemma adjusted_bounds:
  assumes "x \<noteq> 0"
  shows "10 powi adjusted x \<le> \<bar>x\<bar>" "\<bar>x\<bar> < 10 powi (adjusted x + 1)"
  using adjusted_ge_one [of x] adjusted_lt_one [of x] assms by (cases "1 \<le> \<bar>x\<bar>"; simp)+

lemma adjusted_mono:
  assumes "x \<noteq> 0" "\<bar>x\<bar> \<le> \<bar>y\<bar>" shows "adjusted x \<le> adjusted y"
proof -
  have "y \<noteq> 0" using assms by auto
  have "10 powi adjusted x < (10::rat) powi (adjusted y + 1)"
    using adjusted_bounds(1) [OF assms(1)] adjusted_bounds(2) [OF \<open>y \<noteq> 0\<close>] assms(2) by linarith
  then show ?thesis by (simp add: powi_ten_less_iff)
qed

section \<open>Rounding to 28 significant digits\<close>

definition dround :: "rat \<Rightarrow> dec" where
  "dround x =
     (if x = 0 then 0
      else sgn x * of_int (round_half_even (\<bar>x\<bar> * 10 powi (27 - adjusted x))) * 10 powi (adjusted x - 27))"

text \<open>Evaluation works on integers: digits are counted and powers of ten taken there.\<close>

function ndigits_int :: "int \<Rightarrow> int" where
  "ndigits_int n = (if n < 10 then 1 else 1 + ndigits_int (n div 10))"
  by pat_completeness auto

termination
  by (relation "measure nat") auto

declare ndigits_int.simps [simp del]

lemma ndigits_int_eq: "int (ndigits (nat n)) = ndigits_int n"
proof (induction n rule: ndigits_int.induct)
  case (1 n)
  have "nat n < 10 \<longleftrightarrow> n < 10" by linarith
  with 1 show ?case
    by (cases "n < 10") (simp_all add: ndigits.simps [of "nat n"] ndigits_int.simps [of n] nat_div_distrib)
qed

lemma adjusted_code [code]:
  "adjusted x =
     (let y = \<bar>x\<bar> in if 1 \<le> y then ndigits_int \<lfloor>y\<rfloor> - 1 else - ndigits_int (- \<lfloor>- (1 / y)\<rfloor> - 1))"
  by (simp add: adjusted_def ndigits_int_eq Let_def ceiling_def)

lemma dround_code [code]:
  "dround x =
     (if x = 0 then 0
      else let e = 27 - adjusted x
           in if 0 \<le> e
              then let t = of_int (10 ^ nat e) in sgn x * of_int (round_half_even (\<bar>x\<bar> * t)) / t
              else let t = of_int (10 ^ nat (- e)) in sgn x * of_int (round_half_even (\<bar>x\<bar> / t)) * t)"
proof -
  have "(10::rat) powi e = of_int (10 ^ nat e)" "10 powi (- e) = (1::rat) / of_int (10 ^ nat e)"
    if "0 \<le> e" for e
    using that by (simp_all add: power_int_def power_int_minus_divide power_one_over)
  from this(1) [of "27 - adjusted x"] this(2) [of "27 - adjusted x"] this(1) [of "adjusted x - 27"]
    this(2) [of "adjusted x - 27"]
  show ?thesis by (simp add: dround_def Let_def)
qed

lemma dround_zero [simp]: "dround 0 = 0"
  by (simp add: dround_def)

lemma dround_minus: "dround (- x) = - dround x"
  by (simp add: dround_def adjusted_def)

lemma powi_ten_shift: "(10::rat) powi i * 10 powi j = 10 powi (i + j)"
  by (simp add: power_int_add)

lemma scaled_bounds:
  assumes "x \<noteq> 0"
  shows "of_int (10 ^ 27) \<le> \<bar>x\<bar> * 10 powi (27 - adjusted x)"
    and "\<bar>x\<bar> * 10 powi (27 - adjusted x) < of_int (10 ^ 28)"
proof -
  have "10 powi adjusted x * 10 powi (27 - adjusted x) \<le> \<bar>x\<bar> * 10 powi (27 - adjusted x)"
    using adjusted_bounds(1) [OF assms] by simp
  then show "of_int (10 ^ 27) \<le> \<bar>x\<bar> * 10 powi (27 - adjusted x)"
    by (simp add: powi_ten_shift)
  have "\<bar>x\<bar> * 10 powi (27 - adjusted x) < 10 powi (adjusted x + 1) * 10 powi (27 - adjusted x)"
    using adjusted_bounds(2) [OF assms] by simp
  then show "\<bar>x\<bar> * 10 powi (27 - adjusted x) < of_int (10 ^ 28)"
    by (simp add: powi_ten_shift)
qed

lemma coefficient_bounds:
  assumes "x \<noteq> 0"
  shows "10 ^ 27 \<le> round_half_even (\<bar>x\<bar> * 10 powi (27 - adjusted x))"
    and "round_half_even (\<bar>x\<bar> * 10 powi (27 - adjusted x)) \<le> 10 ^ 28"
  using round_half_even_mono [OF scaled_bounds(1) [OF assms]]
    round_half_even_mono [OF less_imp_le [OF scaled_bounds(2) [OF assms]]]
  by (simp_all only: round_half_even_of_int)

lemma dround_decade:
  assumes "0 < x"
  shows "10 powi adjusted x \<le> dround x" "dround x \<le> 10 powi (adjusted x + 1)"
proof -
  let ?c = "round_half_even (\<bar>x\<bar> * 10 powi (27 - adjusted x))"
  have d: "dround x = of_int ?c * 10 powi (adjusted x - 27)"
    using assms by (simp add: dround_def)
  have "of_int (10 ^ 27) \<le> (of_int ?c :: rat)" "of_int ?c \<le> (of_int (10 ^ 28) :: rat)"
    using coefficient_bounds [of x] assms of_int_le_iff by blast+
  then have "of_int (10 ^ 27) * 10 powi (adjusted x - 27) \<le> dround x"
    and "dround x \<le> of_int (10 ^ 28) * 10 powi (adjusted x - 27)"
    unfolding d by (intro mult_right_mono; simp)+
  moreover have "of_int (10 ^ 27) * (10::rat) powi (adjusted x - 27) = 10 powi adjusted x"
    using powi_ten_shift [of 27 "adjusted x - 27"] by simp
  moreover have "of_int (10 ^ 28) * (10::rat) powi (adjusted x - 27) = 10 powi (adjusted x + 1)"
    using powi_ten_shift [of 28 "adjusted x - 27"] by (simp add: add.commute)
  ultimately show "10 powi adjusted x \<le> dround x" "dround x \<le> 10 powi (adjusted x + 1)"
    by simp_all
qed

lemma dround_pos: "0 < x \<Longrightarrow> 0 < dround x"
  using dround_decade(1) [of x] powi_ten_pos [of "adjusted x"] by linarith

lemma dround_mono_pos:
  assumes "0 < x" "x \<le> y" shows "dround x \<le> dround y"
proof (cases "adjusted x = adjusted y")
  case True
  with assms have "round_half_even (\<bar>x\<bar> * 10 powi (27 - adjusted x))
      \<le> round_half_even (\<bar>y\<bar> * 10 powi (27 - adjusted y))"
    by (intro round_half_even_mono) simp
  with assms True show ?thesis by (simp add: dround_def)
next
  case False
  with adjusted_mono [of x y] assms have "adjusted x + 1 \<le> adjusted y" by simp
  then have "10 powi (adjusted x + 1) \<le> (10::rat) powi adjusted y" by (rule powi_ten_mono)
  with dround_decade(2) [of x] dround_decade(1) [of y] assms show ?thesis by simp
qed

lemma dround_mono: assumes "x \<le> y" shows "dround x \<le> dround y"
proof -
  consider "0 < x" | "y < 0" | "x \<le> 0" "0 \<le> y" by linarith
  then show ?thesis
  proof cases
    case 1
    with assms show ?thesis by (rule dround_mono_pos [rotated -1])
  next
    case 2
    then have "dround (- y) \<le> dround (- x)" using assms by (intro dround_mono_pos) simp_all
    then show ?thesis by (simp add: dround_minus)
  next
    case 3
    have "dround x \<le> 0" using 3 dround_pos [of "- x"] by (cases "x = 0") (simp_all add: dround_minus)
    moreover have "0 \<le> dround y" using 3 dround_pos [of y] by (cases "y = 0") simp_all
    ultimately show ?thesis by simp
  qed
qed

text \<open>A value with at most 28 significant digits is a fixed point of the rounding.\<close>

lemma dround_coefficient:
  assumes "\<bar>c\<bar> < 10 ^ 28" shows "dround (of_int c * 10 powi e) = of_int c * 10 powi e"
proof (cases "c = 0")
  case False
  define x where "x = (of_int c :: rat) * 10 powi e"
  define k where "k = e + 27 - adjusted x"
  have x0: "x \<noteq> 0" using False by (simp add: x_def)
  have absx: "\<bar>x\<bar> = of_int \<bar>c\<bar> * 10 powi e" by (simp add: x_def abs_mult)
  have "10 powi adjusted x \<le> \<bar>x\<bar>" using x0 by (rule adjusted_bounds)
  also have "\<dots> < of_int (10 ^ 28) * 10 powi e"
    unfolding absx using assms of_int_less_iff [of "\<bar>c\<bar>" "10 ^ 28", where 'a = rat]
    by (intro mult_strict_right_mono) simp_all
  also have "\<dots> = 10 powi (28 + e)" using powi_ten_shift [of 28 e] by simp
  finally have k: "0 \<le> k" by (simp add: powi_ten_less_iff k_def)
  have "\<bar>x\<bar> * 10 powi (27 - adjusted x) = of_int \<bar>c\<bar> * 10 powi k"
    unfolding absx using powi_ten_shift [of e "27 - adjusted x"] by (simp add: k_def algebra_simps)
  also have "\<dots> = of_int (\<bar>c\<bar> * 10 ^ nat k)" using k by (simp add: power_int_def)
  finally have scaled: "\<bar>x\<bar> * 10 powi (27 - adjusted x) = of_int (\<bar>c\<bar> * 10 ^ nat k)" .
  have "dround x = sgn x * (\<bar>x\<bar> * 10 powi (27 - adjusted x)) * 10 powi (adjusted x - 27)"
    using x0 by (simp only: dround_def scaled round_half_even_of_int if_False)
  also have "\<dots> = sgn x * \<bar>x\<bar> * (10 powi (27 - adjusted x) * 10 powi (adjusted x - 27))"
    by (simp add: ac_simps)
  also have "\<dots> = x" by (simp add: powi_ten_shift sgn_mult_abs)
  finally show ?thesis by (simp only: x_def)
qed simp

lemma dround_of_int: "\<bar>n\<bar> < 10 ^ 28 \<Longrightarrow> dround (of_int n) = of_int n"
  using dround_coefficient [of n 0] by simp

lemma dround_numeral [simp]:
  "(numeral k :: int) < 10 ^ 28 \<Longrightarrow> dround (numeral k) = numeral k"
  using dround_of_int [of "numeral k"] by simp

lemma dround_one [simp]: "dround 1 = 1"
  using dround_of_int [of 1] by simp

lemma dround_ten_powi [simp]: "dround (10 powi k) = 10 powi k"
  using dround_coefficient [of 1 k] by simp

lemma dround_idem [simp]: "dround (dround x) = dround x"
proof (cases "x = 0")
  case False
  let ?c = "round_half_even (\<bar>x\<bar> * 10 powi (27 - adjusted x))"
  let ?e = "adjusted x - 27"
  have pos: "dround (of_int ?c * 10 powi ?e) = of_int ?c * 10 powi ?e"
  proof (cases "?c = 10 ^ 28")
    case True
    then have "of_int ?c * (10::rat) powi ?e = 10 powi (28 + ?e)"
      using powi_ten_shift [of 28 ?e] by simp
    then show ?thesis by (simp only: dround_ten_powi)
  next
    case other: False
    with coefficient_bounds [OF False] show ?thesis by (intro dround_coefficient) simp
  qed
  have "dround x = sgn x * (of_int ?c * 10 powi ?e)" using False by (simp add: dround_def)
  with pos False show ?thesis
    by (cases "0 < x") (simp_all add: sgn_if dround_minus)
qed simp

section \<open>The arithmetic context as an interface\<close>

text \<open>
  What the components use of rounded arithmetic: it is monotone, odd, fixes zero, never loses
  the sign of a non-zero value, and fixes what it has produced.
\<close>

locale decimal_context =
  fixes rnd :: "rat \<Rightarrow> rat"
  assumes rnd_zero: "rnd 0 = 0"
    and rnd_mono: "x \<le> y \<Longrightarrow> rnd x \<le> rnd y"
    and rnd_odd: "rnd (- x) = - rnd x"
    and rnd_idem: "rnd (rnd x) = rnd x"
    and rnd_pos: "0 < x \<Longrightarrow> 0 < rnd x"
begin

lemma rnd_nonneg: "0 \<le> x \<Longrightarrow> 0 \<le> rnd x"
  using rnd_mono [of 0 x] by (simp add: rnd_zero)

lemma rnd_nonpos: "x \<le> 0 \<Longrightarrow> rnd x \<le> 0"
  using rnd_mono [of x 0] by (simp add: rnd_zero)

lemma rnd_neg: "x < 0 \<Longrightarrow> rnd x < 0"
  using rnd_pos [of "- x"] by (simp add: rnd_odd)

lemma rnd_pos_iff: "0 < rnd x \<longleftrightarrow> 0 < x"
  using rnd_pos [of x] rnd_nonpos [of x] by linarith

lemma rnd_nonneg_iff: "0 \<le> rnd x \<longleftrightarrow> 0 \<le> x"
  using rnd_nonneg [of x] rnd_neg [of x] by linarith

lemma rnd_zero_iff: "rnd x = 0 \<longleftrightarrow> x = 0"
  using rnd_pos [of x] rnd_neg [of x] rnd_zero by (cases x "0::rat" rule: linorder_cases) auto

lemma rnd_le_rep: "rnd y = y \<Longrightarrow> x \<le> y \<Longrightarrow> rnd x \<le> y"
  using rnd_mono [of x y] by simp

lemma rnd_ge_rep: "rnd y = y \<Longrightarrow> y \<le> x \<Longrightarrow> y \<le> rnd x"
  using rnd_mono [of y x] by simp

lemma rnd_abs: "\<bar>rnd x\<bar> = rnd \<bar>x\<bar>"
  using rnd_nonneg_iff [of x] rnd_odd [of x] by (cases "0 \<le> x") auto

text \<open>A rounded weighted mean of two rounded positive prices lies between them.\<close>

lemma rnd_between:
  assumes "rnd a = a" "rnd b = b" "a \<le> x" "x \<le> b" shows "a \<le> rnd x" "rnd x \<le> b"
  using rnd_ge_rep [OF assms(1,3)] rnd_le_rep [OF assms(2,4)] .

end

interpretation ctx: decimal_context dround
  by unfold_locales (simp_all add: dround_mono dround_minus dround_pos)

section \<open>Operations\<close>

definition d_add :: "dec \<Rightarrow> dec \<Rightarrow> dec" where "d_add x y = dround (x + y)"

definition d_sub :: "dec \<Rightarrow> dec \<Rightarrow> dec" where "d_sub x y = dround (x - y)"

definition d_mul :: "dec \<Rightarrow> dec \<Rightarrow> dec" where "d_mul x y = dround (x * y)"

text \<open>Division where the source has already excluded a zero divisor.\<close>

definition d_quot :: "dec \<Rightarrow> dec \<Rightarrow> dec" where "d_quot x y = dround (x / y)"

definition d_div :: "dec \<Rightarrow> dec \<Rightarrow> dec result" where
  "d_div x y =
     (if y = 0 then Inl (if x = 0 then InvalidOperation else DivisionByZero) else Inr (d_quot x y))"

definition d_abs :: "dec \<Rightarrow> dec" where "d_abs x = dround \<bar>x\<bar>"

text \<open>\<^verbatim>\<open>to_integral_value(rounding=ROUND_DOWN)\<close>: towards zero, without a precision limit.\<close>

definition d_trunc :: "dec \<Rightarrow> dec" where
  "d_trunc x = (if 0 \<le> x then of_int \<lfloor>x\<rfloor> else - of_int \<lfloor>- x\<rfloor>)"

text \<open>
  \<^verbatim>\<open>x % y\<close>: the remainder of truncated division; it signals \<open>InvalidOperation\<close> when the
  integer quotient needs more than 28 digits, and on a zero divisor.
\<close>

definition d_rem :: "dec \<Rightarrow> dec \<Rightarrow> dec result" where
  "d_rem x y =
     (if y = 0 \<or> 10 ^ 28 \<le> \<bar>d_trunc (x / y)\<bar> then Inl InvalidOperation
      else Inr (dround (x - y * d_trunc (x / y))))"

text \<open>\<^verbatim>\<open>sum(xs, ZERO)\<close>.\<close>

definition d_sum :: "dec list \<Rightarrow> dec" where
  "d_sum xs = foldl d_add 0 xs"

lemmas dec_defs = d_add_def d_sub_def d_mul_def d_quot_def d_abs_def

lemma d_add_nonneg [intro]: "0 \<le> x \<Longrightarrow> 0 \<le> y \<Longrightarrow> 0 \<le> d_add x y"
  by (simp add: d_add_def ctx.rnd_nonneg)

lemma d_mul_nonneg [intro]: "0 \<le> x \<Longrightarrow> 0 \<le> y \<Longrightarrow> 0 \<le> d_mul x y"
  by (simp add: d_mul_def ctx.rnd_nonneg)

lemma d_mul_pos [intro]: "0 < x \<Longrightarrow> 0 < y \<Longrightarrow> 0 < d_mul x y"
  by (simp add: d_mul_def ctx.rnd_pos)

lemma d_quot_nonneg [intro]: "0 \<le> x \<Longrightarrow> 0 \<le> y \<Longrightarrow> 0 \<le> d_quot x y"
  by (simp add: d_quot_def ctx.rnd_nonneg)

lemma d_quot_pos [intro]: "0 < x \<Longrightarrow> 0 < y \<Longrightarrow> 0 < d_quot x y"
  by (simp add: d_quot_def ctx.rnd_pos)

lemma d_abs_nonneg [simp]: "0 \<le> d_abs x"
  by (simp add: d_abs_def ctx.rnd_nonneg)

lemma d_sub_nonneg_iff [simp]: "0 \<le> d_sub x y \<longleftrightarrow> y \<le> x"
  by (simp add: d_sub_def ctx.rnd_nonneg_iff)

lemma d_sub_pos_iff [simp]: "0 < d_sub x y \<longleftrightarrow> y < x"
  by (simp add: d_sub_def ctx.rnd_pos_iff)

lemma d_sub_zero_iff [simp]: "d_sub x y = 0 \<longleftrightarrow> x = y"
  by (simp add: d_sub_def ctx.rnd_zero_iff)

lemma d_ops_rep [simp]:
  "dround (d_add x y) = d_add x y" "dround (d_sub x y) = d_sub x y"
  "dround (d_mul x y) = d_mul x y" "dround (d_quot x y) = d_quot x y"
  "dround (d_abs x) = d_abs x"
  by (simp_all add: dec_defs)

lemma d_add_mono: "a \<le> c \<Longrightarrow> b \<le> d \<Longrightarrow> d_add a b \<le> d_add c d"
  by (simp add: d_add_def dround_mono)

lemma d_add_le_self: "dround x = x \<Longrightarrow> y \<le> 0 \<Longrightarrow> d_add x y \<le> x"
  unfolding d_add_def by (rule ctx.rnd_le_rep) simp_all

lemma d_add_ge_self: "dround x = x \<Longrightarrow> 0 \<le> y \<Longrightarrow> x \<le> d_add x y"
  unfolding d_add_def by (rule ctx.rnd_ge_rep) simp_all

lemma d_sub_le_self: "dround x = x \<Longrightarrow> 0 \<le> y \<Longrightarrow> d_sub x y \<le> x"
  unfolding d_sub_def by (rule ctx.rnd_le_rep) simp_all

lemma d_trunc_nonneg [intro]: "0 \<le> x \<Longrightarrow> 0 \<le> d_trunc x"
  by (simp add: d_trunc_def)

lemma d_trunc_le: "0 \<le> x \<Longrightarrow> d_trunc x \<le> x"
  by (simp add: d_trunc_def)

lemma d_trunc_gt: "0 \<le> x \<Longrightarrow> x < d_trunc x + 1"
  unfolding d_trunc_def by simp linarith

lemma foldl_d_add_nonneg: "0 \<le> a \<Longrightarrow> list_all (\<lambda>x. 0 \<le> x) xs \<Longrightarrow> 0 \<le> foldl d_add a xs"
  by (induction xs arbitrary: a) auto

lemma d_sum_nonneg: "list_all (\<lambda>x. 0 \<le> x) xs \<Longrightarrow> 0 \<le> d_sum xs"
  by (simp add: d_sum_def foldl_d_add_nonneg)

lemma foldl_d_add_ge: "dround a = a \<Longrightarrow> list_all (\<lambda>x. 0 \<le> x) xs \<Longrightarrow> a \<le> foldl d_add a xs"
proof (induction xs arbitrary: a)
  case (Cons x xs)
  then have "a \<le> d_add a x" by (intro d_add_ge_self) simp_all
  also have "d_add a x \<le> foldl d_add (d_add a x) xs" using Cons by simp
  finally show ?case by simp
qed simp

section \<open>Scaling by powers of ten\<close>

lemma powi_ten_cancel: "(x::rat) * 10 powi (- k) * 10 powi k = x"
  by (simp add: power_int_minus)

lemma adjusted_unique:
  assumes "x \<noteq> 0" "10 powi a \<le> \<bar>x\<bar>" "\<bar>x\<bar> < 10 powi (a + 1)" shows "adjusted x = a"
proof -
  have "(10::rat) powi a < 10 powi (adjusted x + 1)" "(10::rat) powi adjusted x < 10 powi (a + 1)"
    using assms adjusted_bounds [OF assms(1)] by linarith+
  then show ?thesis by (simp add: powi_ten_less_iff)
qed

lemma adjusted_scale:
  assumes "x \<noteq> 0" shows "adjusted (x * 10 powi k) = adjusted x + k"
proof (rule adjusted_unique)
  show "x * 10 powi k \<noteq> 0" using assms by simp
  have "10 powi adjusted x * 10 powi k \<le> \<bar>x\<bar> * 10 powi k"
    using adjusted_bounds(1) [OF assms] by simp
  then show "10 powi (adjusted x + k) \<le> \<bar>x * 10 powi k\<bar>"
    by (simp add: powi_ten_shift abs_mult)
  have "\<bar>x\<bar> * 10 powi k < 10 powi (adjusted x + 1) * 10 powi k"
    using adjusted_bounds(2) [OF assms] by simp
  then show "\<bar>x * 10 powi k\<bar> < 10 powi (adjusted x + k + 1)"
    by (simp add: powi_ten_shift abs_mult ac_simps)
qed

lemma dround_scale: "dround (x * 10 powi k) = dround x * 10 powi k"
proof (cases "x = 0")
  case False
  have "\<bar>x * 10 powi k\<bar> * 10 powi (27 - (adjusted x + k)) = \<bar>x\<bar> * (10 powi k * 10 powi (27 - (adjusted x + k)))"
    by (simp add: abs_mult)
  then have "\<bar>x * 10 powi k\<bar> * 10 powi (27 - (adjusted x + k)) = \<bar>x\<bar> * 10 powi (27 - adjusted x)"
    by (simp add: powi_ten_shift)
  moreover have "(10::rat) powi (adjusted x + k - 27) = 10 powi (adjusted x - 27) * 10 powi k"
    by (simp add: powi_ten_shift algebra_simps)
  moreover have "sgn (x * 10 powi k) = sgn x" by (simp add: sgn_mult)
  ultimately show ?thesis using False by (simp add: dround_def adjusted_scale)
qed simp

lemma dround_floor:
  assumes "dround y = y" "0 \<le> y" shows "dround (of_int \<lfloor>y\<rfloor>) = of_int \<lfloor>y\<rfloor>"
proof (cases "y < 10 ^ 28")
  case True
  with assms(2) have "\<bar>\<lfloor>y\<rfloor>\<bar> < 10 ^ 28" by (simp add: floor_less_iff)
  then show ?thesis by (rule dround_of_int)
next
  case False
  let ?c = "round_half_even (\<bar>y\<bar> * 10 powi (27 - adjusted y))"
  from False have "0 < y" by simp
  have "(10::rat) powi 28 \<le> y" using False by (simp only: power_int_numeral not_less)
  then have "(10::rat) powi 28 < 10 powi (adjusted y + 1)"
    using adjusted_bounds(2) [of y] \<open>0 < y\<close> by linarith
  then have "28 < adjusted y + 1" by (simp only: powi_ten_less_iff)
  then have "28 \<le> adjusted y" by simp
  then have "10 powi (adjusted y - 27) = (of_int (10 ^ nat (adjusted y - 27)) :: rat)"
    by (simp add: power_int_def)
  then have "y = of_int (?c * 10 ^ nat (adjusted y - 27))"
    using assms(1) \<open>0 < y\<close> by (simp add: dround_def)
  then obtain n where "y = of_int n" by blast
  with assms(1) show ?thesis by simp
qed

lemma d_quot_ten_powi: "dround v = v \<Longrightarrow> d_quot v (10 powi k) = v * 10 powi (- k)"
  using dround_scale [of v "- k"] by (simp add: d_quot_def power_int_minus_divide)

end
