(* ===== verification/Decimal_Text.thy ===== *)
theory Decimal_Text
  imports Decimal28
begin

text \<open>
  \<^verbatim>\<open>Decimal(text)\<close>: the numeric-string syntax of the standard library (surrounding whitespace
  and underscores are dropped, an optional sign, digits with an optional point and exponent, or
  a special value, in any letter case). Construction is exact: the context does not round it.
  Also the two text readers the execution modules share.
\<close>

datatype pydec = Finite dec | Infinite bool | NotANumber

definition int_of_digits :: "string \<Rightarrow> int" where
  "int_of_digits ds = foldl (\<lambda>n c. 10 * n + (of_char c - 48)) 0 ds"

definition parse_exponent :: "string \<Rightarrow> int option" where
  "parse_exponent s =
     (case s of
        [] \<Rightarrow> Some 0
      | c # rest \<Rightarrow>
          if c \<noteq> CHR ''e'' then None
          else
            let neg = (rest \<noteq> [] \<and> hd rest = CHR ''-'');
                ds = (if rest \<noteq> [] \<and> hd rest \<in> {CHR ''-'', CHR ''+''} then tl rest else rest)
            in if ds = [] \<or> \<not> list_all is_digit ds then None
               else Some (if neg then - int_of_digits ds else int_of_digits ds))"

definition parse_number :: "string \<Rightarrow> dec option" where
  "parse_number s =
     (let ip = takeWhile is_digit s; rest = dropWhile is_digit s;
          fp = (case rest of [] \<Rightarrow> [] | c # cs \<Rightarrow> if c = CHR ''.'' then takeWhile is_digit cs else []);
          tail = (case rest of [] \<Rightarrow> []
                  | c # cs \<Rightarrow> if c = CHR ''.'' then dropWhile is_digit cs else rest)
      in if ip = [] \<and> fp = [] then None
         else map_option (\<lambda>e. of_int (int_of_digits (ip @ fp)) * 10 powi (e - int (length fp)))
                (parse_exponent tail))"

definition is_nan_text :: "string \<Rightarrow> bool" where
  "is_nan_text s \<longleftrightarrow>
     (let body = (if s \<noteq> [] \<and> hd s = CHR ''s'' then tl s else s)
      in take 3 body = ''nan'' \<and> list_all is_digit (drop 3 body))"

definition parse_decimal :: "string \<Rightarrow> pydec option" where
  "parse_decimal text =
     (let s = py_lower (filter (\<lambda>c. c \<noteq> CHR ''_'') (py_strip text));
          neg = (s \<noteq> [] \<and> hd s = CHR ''-'');
          body = (if s \<noteq> [] \<and> hd s \<in> {CHR ''-'', CHR ''+''} then tl s else s)
      in if body = ''inf'' \<or> body = ''infinity'' then Some (Infinite neg)
         else if is_nan_text body then Some NotANumber
         else map_option (\<lambda>x. Finite (if neg then - x else x)) (parse_number body))"

text \<open>
  \<^verbatim>\<open>_positive_decimal(value, name)\<close> of \<^verbatim>\<open>execution/order_state.py\<close>: a missing value reads as the
  empty text.
\<close>

definition positive_decimal :: "string option \<Rightarrow> string \<Rightarrow> dec result" where
  "positive_decimal value name =
     (case parse_decimal (case value of None \<Rightarrow> [] | Some v \<Rightarrow> v) of
        None \<Rightarrow> Inl (ValueError (name @ '' must be decimal-compatible''))
      | Some (Finite x) \<Rightarrow> if x \<le> 0 then Inl (ValueError (name @ '' must be positive'')) else Inr x
      | Some _ \<Rightarrow> Inl (ValueError (name @ '' must be positive'')))"

lemma positive_decimal_pos: "positive_decimal v n = Inr x \<Longrightarrow> 0 < x"
  by (auto simp: positive_decimal_def split: option.splits pydec.splits if_splits)

text \<open>\<^verbatim>\<open>_required_text(value, name)\<close> of \<^verbatim>\<open>execution/live_order_lifecycle.py\<close>.\<close>

definition required_text :: "string option \<Rightarrow> string \<Rightarrow> string result" where
  "required_text value name =
     (case value of
        None \<Rightarrow> Inl (ValueError (name @ '' is required''))
      | Some v \<Rightarrow> if blank v then Inl (ValueError (name @ '' is required'')) else Inr (py_strip v))"

lemma required_text_Inr:
  "required_text v n = Inr s \<longleftrightarrow> (\<exists>t. v = Some t \<and> \<not> blank t \<and> s = py_strip t)"
  by (auto simp: required_text_def split: option.splits if_splits)

end
