(* ===== verification/Domain_Events.thy ===== *)
theory Domain_Events
  imports Decimal_Text "HOL-Library.Product_Lexorder"
begin

text \<open>
  \<^verbatim>\<open>events/models.py\<close>, \<^verbatim>\<open>events/bus.py\<close> and the append state of \<^verbatim>\<open>events/journal.py\<close>: immutable
  hash-linked events, the bounded in-memory bus that validates sequence, hash link and time
  before it commits, and the constant-size state the disk journal validates appends with.

  SHA-256 over canonical JSON is the parameter \<open>h\<close>, applied to the tuple of hashed fields;
  subscribers are named by numbers and their effect is the parameter \<open>deliver\<close>.
\<close>

section \<open>Events\<close>

type_synonym event_body =
  "string \<times> string \<times> string \<times> int \<times> datetime \<times> (string \<times> string) list \<times> string"

type_synonym event_digest = "event_body \<Rightarrow> string"

record domain_event =
  event_id :: string
  aggregate_id :: string
  event_type :: string
  sequence :: int
  occurred_at :: datetime
  payload :: "(string \<times> string) list"
  previous_hash :: string
  event_hash :: string

definition compute_hash :: "event_digest \<Rightarrow> string \<Rightarrow> string \<Rightarrow> string \<Rightarrow> int \<Rightarrow> datetime \<Rightarrow>
    (string \<times> string) list \<Rightarrow> string \<Rightarrow> string" where
  "compute_hash h eid aid ety sq ts pl prev = h (eid, aid, ety, sq, ts, pl, prev)"

definition domain_event_post_init :: "event_digest \<Rightarrow> domain_event \<Rightarrow> domain_event result" where
  "domain_event_post_init h e = validate
     [(blank (event_id e) \<or> blank (aggregate_id e) \<or> blank (event_type e) \<or> sequence e < 1,
       ''event identity and positive sequence are required''),
      (\<not> is_aware (occurred_at e), ''event timestamp must be timezone-aware''),
      (list_ex blank (map fst (payload e)) \<or> \<not> distinct (map fst (payload e)),
       ''event payload keys must be non-empty and unique''),
      (sort (payload e) \<noteq> payload e, ''event payload must be sorted''),
      (event_hash e \<noteq> compute_hash h (event_id e) (aggregate_id e) (event_type e) (sequence e)
         (occurred_at e) (payload e) (previous_hash e),
       ''event content hash is invalid'')] e"

definition create_event :: "event_digest \<Rightarrow> string \<Rightarrow> string \<Rightarrow> string \<Rightarrow> int \<Rightarrow> datetime \<Rightarrow>
    (string \<times> string) list \<Rightarrow> string \<Rightarrow> domain_event result" where
  "create_event h eid aid ety sq ts pl prev =
     (let ordered_payload = sort pl;
          digest = compute_hash h eid aid ety sq ts ordered_payload prev
      in domain_event_post_init h
           \<lparr>event_id = eid, aggregate_id = aid, event_type = ety, sequence = sq, occurred_at = ts,
            payload = ordered_payload, previous_hash = prev, event_hash = digest\<rparr>)"

definition payload_get :: "domain_event \<Rightarrow> string \<Rightarrow> string option" where
  "payload_get e k = py_dict (payload e) k"

text \<open>\<^verbatim>\<open>payload.get(key, "")\<close>.\<close>

definition payload_text :: "domain_event \<Rightarrow> string \<Rightarrow> string" where
  "payload_text e k = (case payload_get e k of None \<Rightarrow> [] | Some v \<Rightarrow> v)"

definition event_body_of :: "domain_event \<Rightarrow> event_body" where
  "event_body_of e = (event_id e, aggregate_id e, event_type e, sequence e, occurred_at e,
     payload e, previous_hash e)"

definition event_ok :: "event_digest \<Rightarrow> domain_event \<Rightarrow> bool" where
  "event_ok h e \<longleftrightarrow> domain_event_post_init h e = Inr e"

lemma event_ok_hash: "event_ok h e \<Longrightarrow> event_hash e = h (event_body_of e)"
  by (simp add: event_ok_def domain_event_post_init_def compute_hash_def event_body_of_def)

lemma event_ok_aware: "event_ok h e \<Longrightarrow> is_aware (occurred_at e)"
  by (simp add: event_ok_def domain_event_post_init_def)

lemma event_eqI:
  fixes e e' :: domain_event
  assumes "event_body_of e = event_body_of e'" "event_hash e = event_hash e'" shows "e = e'"
  using assms by (cases e; cases e') (simp add: event_body_of_def)

section \<open>The bus\<close>

record event_bus =
  bus_capacity :: int
  bus_events :: "domain_event list"
  bus_event_ids :: "string list"
  bus_subscribers :: "nat list"

definition genesis :: string where "genesis = ''GENESIS''"

definition last_event :: "domain_event list \<Rightarrow> domain_event option" where
  "last_event es = (if es = [] then None else Some (last es))"

definition expected_hash :: "domain_event option \<Rightarrow> string" where
  "expected_hash latest = (case latest of None \<Rightarrow> genesis | Some e \<Rightarrow> event_hash e)"

definition validate_next_event :: "domain_event \<Rightarrow> int \<Rightarrow> int \<Rightarrow> string list \<Rightarrow> domain_event option \<Rightarrow>
    unit result" where
  "validate_next_event e cap event_count event_ids latest =
     (if event_count \<ge> cap then Inl (OverflowError ''event journal capacity exceeded'')
      else validate
        [(event_id e \<in> set event_ids, ''duplicate event identity''),
         (sequence e \<noteq> event_count + 1, ''event sequence is not contiguous''),
         (previous_hash e \<noteq> expected_hash latest, ''event hash chain is broken''),
         (case latest of None \<Rightarrow> False | Some l \<Rightarrow> instant (occurred_at e) < instant (occurred_at l),
          ''event time cannot move backwards'')] ())"

definition new_bus :: "int \<Rightarrow> event_bus result" where
  "new_bus cap = validate
     [(\<not> (1 \<le> cap \<and> cap \<le> 1000000), ''event bus capacity must be between 1 and 1000000'')]
     \<lparr>bus_capacity = cap, bus_events = [], bus_event_ids = [], bus_subscribers = []\<rparr>"

definition subscribe :: "event_bus \<Rightarrow> nat \<Rightarrow> event_bus result" where
  "subscribe b s =
     (if s \<in> set (bus_subscribers b) then Inl (ValueError ''event subscriber is already registered'')
      else Inr (b\<lparr>bus_subscribers := bus_subscribers b @ [s]\<rparr>))"

text \<open>Subscribers run in order after the commit; the first that raises ends the call.\<close>

fun deliver_all :: "(nat \<Rightarrow> domain_event \<Rightarrow> unit result) \<Rightarrow> nat list \<Rightarrow> domain_event \<Rightarrow> unit result" where
  "deliver_all deliver [] e = Inr ()"
| "deliver_all deliver (s # ss) e = bindE (deliver s e) (\<lambda>_. deliver_all deliver ss e)"

definition commit_event :: "event_bus \<Rightarrow> domain_event \<Rightarrow> event_bus" where
  "commit_event b e =
     b\<lparr>bus_events := bus_events b @ [e], bus_event_ids := event_id e # bus_event_ids b\<rparr>"

definition publish :: "(nat \<Rightarrow> domain_event \<Rightarrow> unit result) \<Rightarrow> event_bus \<Rightarrow> domain_event \<Rightarrow>
    unit result \<times> event_bus" where
  "publish deliver b e =
     (case validate_next_event e (bus_capacity b) (int (length (bus_events b))) (bus_event_ids b)
             (last_event (bus_events b)) of
        Inl err \<Rightarrow> (Inl err, b)
      | Inr _ \<Rightarrow> (deliver_all deliver (bus_subscribers b) e, commit_event b e))"

fun replay_events :: "(nat \<Rightarrow> domain_event \<Rightarrow> unit result) \<Rightarrow> event_bus \<Rightarrow> domain_event list \<Rightarrow>
    unit result \<times> event_bus" where
  "replay_events deliver b [] = (Inr (), b)"
| "replay_events deliver b (e # es) =
     (case publish deliver b e of
        (Inl err, b') \<Rightarrow> (Inl err, b')
      | (Inr _, b') \<Rightarrow> replay_events deliver b' es)"

section \<open>The chain invariant\<close>

text \<open>
  A chain: the \<open>i\<close>-th event carries sequence \<open>i + 1\<close>, its previous hash is the hash of the event
  before it (\<open>GENESIS\<close> for the first), identities are distinct and time never decreases.
\<close>

definition chain_link :: "domain_event list \<Rightarrow> nat \<Rightarrow> bool" where
  "chain_link es i \<longleftrightarrow>
     sequence (es ! i) = int i + 1 \<and>
     previous_hash (es ! i) = (if i = 0 then genesis else event_hash (es ! (i - 1))) \<and>
     (i = 0 \<or> instant (occurred_at (es ! (i - 1))) \<le> instant (occurred_at (es ! i)))"

definition chain_ok :: "domain_event list \<Rightarrow> bool" where
  "chain_ok es \<longleftrightarrow> (\<forall>i < length es. chain_link es i) \<and> distinct (map event_id es)"

definition bus_ok :: "event_bus \<Rightarrow> bool" where
  "bus_ok b \<longleftrightarrow> chain_ok (bus_events b) \<and> int (length (bus_events b)) \<le> bus_capacity b \<and>
     set (bus_event_ids b) = event_id ` set (bus_events b)"

lemma chain_ok_Nil [simp]: "chain_ok []"
  by (simp add: chain_ok_def)

lemma chain_link_append: "i < length es \<Longrightarrow> chain_link (es @ fs) i \<longleftrightarrow> chain_link es i"
  by (auto simp: chain_link_def nth_append)

lemma chain_link_snoc:
  "chain_link (es @ [e]) (length es) \<longleftrightarrow>
     sequence e = int (length es) + 1 \<and> previous_hash e = expected_hash (last_event es) \<and>
     (case last_event es of None \<Rightarrow> True | Some l \<Rightarrow> instant (occurred_at l) \<le> instant (occurred_at e))"
  by (cases es rule: rev_cases)
    (auto simp: chain_link_def nth_append expected_hash_def last_event_def)

lemma chain_ok_snoc:
  "chain_ok (es @ [e]) \<longleftrightarrow> chain_ok es \<and> event_id e \<notin> event_id ` set es \<and>
     sequence e = int (length es) + 1 \<and> previous_hash e = expected_hash (last_event es) \<and>
     (case last_event es of None \<Rightarrow> True | Some l \<Rightarrow> instant (occurred_at l) \<le> instant (occurred_at e))"
proof -
  have "(\<forall>i < length (es @ [e]). chain_link (es @ [e]) i) \<longleftrightarrow>
      (\<forall>i < length es. chain_link es i) \<and> chain_link (es @ [e]) (length es)"
    by (auto simp: less_Suc_eq chain_link_append)
  then show ?thesis by (auto simp: chain_ok_def chain_link_snoc)
qed

lemma validate_next_event_Inr:
  "validate_next_event e cap n ids latest = Inr u \<longleftrightarrow>
     n < cap \<and> event_id e \<notin> set ids \<and> sequence e = n + 1 \<and> previous_hash e = expected_hash latest \<and>
     (case latest of None \<Rightarrow> True | Some l \<Rightarrow> instant (occurred_at l) \<le> instant (occurred_at e))"
  by (auto simp: validate_next_event_def split: option.splits)

lemma validate_next_event_chain:
  assumes "chain_ok es" "set ids = event_id ` set es"
  shows "validate_next_event e cap (int (length es)) ids (last_event es) = Inr u \<longleftrightarrow>
     int (length es) < cap \<and> chain_ok (es @ [e])"
  using assms by (auto simp: validate_next_event_Inr chain_ok_snoc)

lemma bus_ok_commit:
  assumes "bus_ok b"
    and "validate_next_event e (bus_capacity b) (int (length (bus_events b))) (bus_event_ids b)
      (last_event (bus_events b)) = Inr u"
  shows "bus_ok (commit_event b e)"
proof -
  have "int (length (bus_events b)) < bus_capacity b \<and> chain_ok (bus_events b @ [e])"
    using assms validate_next_event_chain [of "bus_events b" "bus_event_ids b" e "bus_capacity b" u]
    by (simp add: bus_ok_def)
  with assms(1) show ?thesis by (auto simp: bus_ok_def commit_event_def)
qed

lemma bus_ok_publish: "bus_ok b \<Longrightarrow> bus_ok (snd (publish deliver b e))"
  by (auto simp: publish_def split: sum.splits intro: bus_ok_commit)

lemma bus_ok_replay: "bus_ok b \<Longrightarrow> bus_ok (snd (replay_events deliver b es))"
proof (induction deliver b es rule: replay_events.induct)
  case (2 deliver b e es)
  then show ?case using bus_ok_publish [of b deliver e]
    by (cases "publish deliver b e") (auto split: sum.splits)
qed simp

lemma bus_ok_new: "new_bus cap = Inr b \<Longrightarrow> bus_ok b"
  by (auto simp: new_bus_def bus_ok_def)

section \<open>The final hash determines the history\<close>

lemma chain_ok_butlast: "chain_ok (es @ [e]) \<Longrightarrow> chain_ok es"
  by (simp add: chain_ok_snoc)

text \<open>
  The last hash determines the history. Two chains of valid events of the same length with
  the same final hash are equal, when the digest has no collision among their event bodies.
\<close>

theorem chain_determined:
  assumes "chain_ok es" "chain_ok fs" "length es = length fs"
    and "list_all (event_ok h) es" "list_all (event_ok h) fs"
    and "inj_on h (event_body_of ` (set es \<union> set fs))"
    and "expected_hash (last_event es) = expected_hash (last_event fs)"
  shows "es = fs"
  using assms
proof (induction es arbitrary: fs rule: rev_induct)
  case (snoc e es)
  obtain f fs' where fs: "fs = fs' @ [f]"
    using snoc.prems(3) by (cases fs rule: rev_cases) auto
  have hash: "event_hash e = event_hash f"
    using snoc.prems(7) by (simp add: fs expected_hash_def last_event_def)
  with snoc.prems(4,5) have "h (event_body_of e) = h (event_body_of f)"
    by (simp add: fs) (metis event_ok_hash)
  then have body: "event_body_of e = event_body_of f"
    by (rule inj_onD [OF snoc.prems(6)]) (simp_all add: fs)
  then have ef: "e = f" using hash by (rule event_eqI)
  have "expected_hash (last_event es) = expected_hash (last_event fs')"
    using snoc.prems(1,2) ef by (simp add: fs chain_ok_snoc)
  moreover have "inj_on h (event_body_of ` (set es \<union> set fs'))"
    using snoc.prems(6) by (rule inj_on_subset) (auto simp: fs)
  ultimately have "es = fs'" using snoc.prems by (intro snoc.IH) (auto simp: fs dest: chain_ok_butlast)
  with ef show ?case by (simp add: fs)
qed simp

theorem chain_determined_witness:
  "let e = \<lparr>event_id = ''a'', aggregate_id = ''o'', event_type = ''NOTE'', sequence = 1,
       occurred_at = Aware 0, payload = [(''k'', ''v'')], previous_hash = ''GENESIS'', event_hash = ''a''\<rparr>;
       h = (\<lambda>b. fst b)
   in event_ok h e \<and> chain_ok [e] \<and> [e] = [e]"
proof -
  let ?e = "\<lparr>event_id = ''a'', aggregate_id = ''o'', event_type = ''NOTE'', sequence = 1,
       occurred_at = Aware 0, payload = [(''k'', ''v'')], previous_hash = ''GENESIS'', event_hash = ''a''\<rparr>"
  have ok: "event_ok (\<lambda>b. fst b) ?e" and chain: "chain_ok [?e]" by code_simp+
  then have "[?e] = [?e]"
    by (intro chain_determined [where h = "\<lambda>b. fst b"]) (simp_all add: inj_on_def)
  with ok chain show ?thesis by (simp add: Let_def)
qed

section \<open>The disk journal\<close>

text \<open>
  The file is the sequence of its decoded lines (a line that does not decode is an error), its
  size in bytes and the change signature the operating system reports; \<open>enc_len\<close> is the encoded
  length of an event and \<open>touch\<close> the signature after a write, both outside the model.
\<close>

record append_state =
  st_count :: int
  st_ids :: "string list"
  st_latest :: "domain_event option"
  st_signature :: "int option"

record journal_file =
  jf_lines :: "domain_event result list"
  jf_size :: int
  jf_signature :: int

record disk_journal =
  maximum_event_bytes :: int
  maximum_journal_bytes :: int
  jr_file :: "journal_file option"
  jr_append_state :: "append_state option"

definition disk_journal_post_init :: "disk_journal \<Rightarrow> disk_journal result" where
  "disk_journal_post_init j = validate
     [(min (maximum_event_bytes j) (maximum_journal_bytes j) < 256
        \<or> maximum_event_bytes j > maximum_journal_bytes j, ''journal size limits are invalid'')] j"

definition journal_capacity :: "disk_journal \<Rightarrow> int" where
  "journal_capacity j = min 1000000 (max 1 (maximum_journal_bytes j div 256))"

definition summary_of :: "domain_event list \<Rightarrow> int option \<Rightarrow> append_state" where
  "summary_of es sig =
     \<lparr>st_count = int (length es), st_ids = map event_id es, st_latest = last_event es,
      st_signature = sig\<rparr>"

definition state_validate :: "append_state \<Rightarrow> domain_event \<Rightarrow> int \<Rightarrow> unit result" where
  "state_validate st e cap = validate_next_event e cap (st_count st) (st_ids st) (st_latest st)"

definition state_record :: "append_state \<Rightarrow> domain_event \<Rightarrow> int \<Rightarrow> append_state" where
  "state_record st e sig =
     st\<lparr>st_count := st_count st + 1, st_ids := event_id e # st_ids st, st_latest := Some e,
        st_signature := Some sig\<rparr>"

text \<open>\<^verbatim>\<open>_load_unlocked\<close>: every line must decode within the size limit and the whole chain must replay.\<close>

definition decode_line :: "(domain_event \<Rightarrow> int) \<Rightarrow> int \<Rightarrow> domain_event result \<Rightarrow> domain_event result" where
  "decode_line enc_len limit line =
     (case line of
        Inl _ \<Rightarrow> Inl (CorruptionError ''event record is invalid'')
      | Inr e \<Rightarrow> if enc_len e > limit then Inl (CorruptionError ''event record is empty or oversized'')
                 else Inr e)"

definition silent :: "nat \<Rightarrow> domain_event \<Rightarrow> unit result" where
  "silent _ _ = Inr ()"

definition check_chain :: "int \<Rightarrow> domain_event list \<Rightarrow> domain_event list result" where
  "check_chain cap es =
     (case new_bus cap of
        Inl _ \<Rightarrow> Inl (CorruptionError ''event journal chain is invalid'')
      | Inr b \<Rightarrow> (case fst (replay_events silent b es) of
           Inl _ \<Rightarrow> Inl (CorruptionError ''event journal chain is invalid'')
         | Inr _ \<Rightarrow> Inr es))"

definition load_unlocked :: "(domain_event \<Rightarrow> int) \<Rightarrow> disk_journal \<Rightarrow>
    domain_event list result \<times> disk_journal" where
  "load_unlocked enc_len j =
     (case jr_file j of
        None \<Rightarrow> (Inr [], j\<lparr>jr_append_state := Some (summary_of [] None)\<rparr>)
      | Some f \<Rightarrow>
          (case (if jf_size f > maximum_journal_bytes j
                 then Inl (CorruptionError ''event journal exceeds byte capacity'')
                 else bindE (mapE (decode_line enc_len (maximum_event_bytes j)) (jf_lines f))
                        (check_chain (journal_capacity j))) of
             Inl e \<Rightarrow> (Inl e, j\<lparr>jr_append_state := None\<rparr>)
           | Inr es \<Rightarrow>
               (Inr es, j\<lparr>jr_append_state := Some (summary_of es (Some (jf_signature f)))\<rparr>)))"

definition cache_reusable :: "append_state option \<Rightarrow> journal_file option \<Rightarrow> bool" where
  "cache_reusable st f \<longleftrightarrow>
     (case st of None \<Rightarrow> False | Some s \<Rightarrow>
        (case f of None \<Rightarrow> False | Some f' \<Rightarrow> st_signature s = Some (jf_signature f')))"

definition append_state_for_current_file :: "(domain_event \<Rightarrow> int) \<Rightarrow> disk_journal \<Rightarrow>
    append_state result \<times> disk_journal" where
  "append_state_for_current_file enc_len j =
     (if cache_reusable (jr_append_state j) (jr_file j) then (Inr (the (jr_append_state j)), j)
      else case load_unlocked enc_len j of
             (Inl e, j') \<Rightarrow> (Inl e, j')
           | (Inr _, j') \<Rightarrow>
               (case jr_append_state j' of
                  None \<Rightarrow> (Inl (RuntimeError ''event journal append state was not initialized''), j')
                | Some st \<Rightarrow> (Inr st, j')))"

definition file_size :: "disk_journal \<Rightarrow> int" where
  "file_size j = (case jr_file j of None \<Rightarrow> 0 | Some f \<Rightarrow> jf_size f)"

definition file_lines :: "disk_journal \<Rightarrow> domain_event result list" where
  "file_lines j = (case jr_file j of None \<Rightarrow> [] | Some f \<Rightarrow> jf_lines f)"

definition write_record :: "(domain_event \<Rightarrow> int) \<Rightarrow> int \<Rightarrow> disk_journal \<Rightarrow> domain_event \<Rightarrow> append_state \<Rightarrow>
    disk_journal" where
  "write_record enc_len sig j e st =
     j\<lparr>jr_file := Some \<lparr>jf_lines = file_lines j @ [Inr e], jf_size = file_size j + enc_len e,
                        jf_signature = sig\<rparr>,
       jr_append_state := Some (state_record st e sig)\<rparr>"

definition append_validated :: "(domain_event \<Rightarrow> int) \<Rightarrow> (disk_journal \<Rightarrow> domain_event \<Rightarrow> int) \<Rightarrow>
    disk_journal \<Rightarrow> domain_event \<Rightarrow> append_state \<Rightarrow> unit result \<times> disk_journal" where
  "append_validated enc_len touch j e st =
     (case state_validate st e (journal_capacity j) of
        Inl err \<Rightarrow> (Inl err, j)
      | Inr _ \<Rightarrow>
          if enc_len e > maximum_event_bytes j
          then (Inl (OverflowError ''event record exceeds byte capacity''), j)
          else if file_size j + enc_len e > maximum_journal_bytes j
          then (Inl (OverflowError ''event journal byte capacity exceeded''), j)
          else (Inr (), write_record enc_len (touch j e) j e st))"

definition journal_append :: "(domain_event \<Rightarrow> int) \<Rightarrow> (disk_journal \<Rightarrow> domain_event \<Rightarrow> int) \<Rightarrow>
    disk_journal \<Rightarrow> domain_event \<Rightarrow> unit result \<times> disk_journal" where
  "journal_append enc_len touch j e =
     (case append_state_for_current_file enc_len j of
        (Inl err, j') \<Rightarrow> (Inl err, j')
      | (Inr st, j') \<Rightarrow> append_validated enc_len touch j' e st)"

section \<open>Journal soundness\<close>

lemma deliver_silent [simp]: "deliver_all silent ss e = Inr ()"
  by (induction ss) (simp_all add: silent_def)

lemma replay_silent_succeeds:
  assumes "bus_ok b" "chain_ok (bus_events b @ es)"
    and "int (length (bus_events b @ es)) \<le> bus_capacity b"
  shows "\<exists>b'. replay_events silent b es = (Inr (), b')"
  using assms
proof (induction es arbitrary: b)
  case (Cons e es)
  have prefix: "chain_ok (bus_events b @ [e])"
    using Cons.prems(2) by (induction es rule: rev_induct) (auto simp: chain_ok_snoc simp flip: append_assoc append_Cons)
  then have v: "validate_next_event e (bus_capacity b) (int (length (bus_events b))) (bus_event_ids b)
      (last_event (bus_events b)) = Inr ()"
    using Cons.prems validate_next_event_chain [of "bus_events b" "bus_event_ids b"]
    by (simp add: bus_ok_def)
  have "bus_ok (commit_event b e)" using Cons.prems(1) v by (rule bus_ok_commit)
  moreover have "chain_ok (bus_events (commit_event b e) @ es)"
    using Cons.prems(2) by (simp add: commit_event_def)
  ultimately have "\<exists>b'. replay_events silent (commit_event b e) es = (Inr (), b')"
    using Cons.prems(3) by (intro Cons.IH) (simp_all add: commit_event_def)
  then show ?case by (simp add: publish_def v)
qed simp

lemma check_chain_succeeds:
  assumes "chain_ok es" "int (length es) \<le> cap" "1 \<le> cap" "cap \<le> 1000000"
  shows "check_chain cap es = Inr es"
proof -
  let ?b = "\<lparr>bus_capacity = cap, bus_events = [], bus_event_ids = [], bus_subscribers = []\<rparr>"
  have new: "new_bus cap = Inr ?b" using assms by (simp add: new_bus_def)
  then have "bus_ok ?b" by (rule bus_ok_new)
  then obtain b' where "replay_events silent ?b es = (Inr (), b')"
    using replay_silent_succeeds [of ?b es] assms by auto
  with new show ?thesis by (simp add: check_chain_def)
qed

text \<open>
  What a journal that was only ever written through its own operations satisfies: the lines
  decode to a chain within the limits, and a cache whose signature is current describes it.
\<close>

definition journal_sound :: "(domain_event \<Rightarrow> int) \<Rightarrow> disk_journal \<Rightarrow> domain_event list \<Rightarrow> bool" where
  "journal_sound enc_len j es \<longleftrightarrow>
     chain_ok es \<and> int (length es) \<le> journal_capacity j \<and>
     list_all (\<lambda>e. enc_len e \<le> maximum_event_bytes j) es \<and>
     (case jr_file j of
        None \<Rightarrow> es = []
      | Some f \<Rightarrow> jf_lines f = map Inr es \<and> jf_size f \<le> maximum_journal_bytes j) \<and>
     (cache_reusable (jr_append_state j) (jr_file j) \<longrightarrow>
        (case jr_append_state j of None \<Rightarrow> False | Some st \<Rightarrow>
           st_count st = int (length es) \<and> set (st_ids st) = event_id ` set es \<and>
           st_latest st = last_event es))"

lemma journal_capacity_range: "1 \<le> journal_capacity j" "journal_capacity j \<le> 1000000"
  by (simp_all add: journal_capacity_def)

lemma mapE_decode_sound:
  "list_all (\<lambda>e. enc_len e \<le> limit) es \<Longrightarrow> mapE (decode_line enc_len limit) (map Inr es) = Inr es"
  by (induction es) (auto simp: decode_line_def)

lemma load_sound:
  assumes "journal_sound enc_len j es"
  shows "load_unlocked enc_len j =
    (Inr es, j\<lparr>jr_append_state := Some (summary_of es (map_option jf_signature (jr_file j)))\<rparr>)"
proof (cases "jr_file j")
  case None
  with assms show ?thesis by (simp add: load_unlocked_def journal_sound_def)
next
  case (Some f)
  with assms have f: "jf_lines f = map Inr es" "jf_size f \<le> maximum_journal_bytes j"
    and lim: "list_all (\<lambda>e. enc_len e \<le> maximum_event_bytes j) es"
    and chain: "check_chain (journal_capacity j) es = Inr es"
    by (auto simp: journal_sound_def journal_capacity_range intro!: check_chain_succeeds)
  show ?thesis using Some f mapE_decode_sound [OF lim] chain
    by (simp add: load_unlocked_def)
qed

lemma append_state_sound:
  assumes "journal_sound enc_len j es"
  obtains st c where "append_state_for_current_file enc_len j = (Inr st, j\<lparr>jr_append_state := c\<rparr>)"
    and "st_count st = int (length es)" "set (st_ids st) = event_id ` set es"
    and "st_latest st = last_event es"
proof (cases "cache_reusable (jr_append_state j) (jr_file j)")
  case True
  with assms obtain st where "jr_append_state j = Some st" "st_count st = int (length es)"
    "set (st_ids st) = event_id ` set es" "st_latest st = last_event es"
    by (auto simp: journal_sound_def split: option.splits)
  with True that [of st "jr_append_state j"] show ?thesis
    by (simp add: append_state_for_current_file_def)
next
  case False
  with load_sound [OF assms] that [of "summary_of es (map_option jf_signature (jr_file j))"]
  show ?thesis by (simp add: append_state_for_current_file_def summary_of_def)
qed

text \<open>
  The specification of an append, free of caches and files: the event joins the chain, or one of
  the limits refuses it.
\<close>

definition append_accepts :: "(domain_event \<Rightarrow> int) \<Rightarrow> disk_journal \<Rightarrow> domain_event list \<Rightarrow>
    domain_event \<Rightarrow> bool" where
  "append_accepts enc_len j es e \<longleftrightarrow>
     int (length es) < journal_capacity j \<and> chain_ok (es @ [e]) \<and>
     enc_len e \<le> maximum_event_bytes j \<and>
     (case jr_file j of None \<Rightarrow> 0 | Some f \<Rightarrow> jf_size f) + enc_len e \<le> maximum_journal_bytes j"

lemma state_validate_sound:
  assumes "chain_ok es" "st_count st = int (length es)" "set (st_ids st) = event_id ` set es"
    and "st_latest st = last_event es"
  shows "state_validate st e cap = Inr u \<longleftrightarrow> int (length es) < cap \<and> chain_ok (es @ [e])"
  using assms validate_next_event_chain [of es "st_ids st" e cap u]
  by (simp add: state_validate_def)

lemma append_validated_accepted:
  "fst (append_validated enc_len touch j e st) = Inr () \<longleftrightarrow>
     state_validate st e (journal_capacity j) = Inr () \<and> enc_len e \<le> maximum_event_bytes j \<and>
     file_size j + enc_len e \<le> maximum_journal_bytes j"
  by (auto simp: append_validated_def split: sum.splits)

lemma journal_sound_cache [simp]:
  "maximum_event_bytes (j\<lparr>jr_append_state := c\<rparr>) = maximum_event_bytes j"
  "maximum_journal_bytes (j\<lparr>jr_append_state := c\<rparr>) = maximum_journal_bytes j"
  "journal_capacity (j\<lparr>jr_append_state := c\<rparr>) = journal_capacity j"
  "file_size (j\<lparr>jr_append_state := c\<rparr>) = file_size j"
  "file_lines (j\<lparr>jr_append_state := c\<rparr>) = file_lines j"
  by (simp_all add: journal_capacity_def file_size_def file_lines_def)

lemma journal_sound_lines: "journal_sound enc_len j es \<Longrightarrow> file_lines j = map Inr es"
  by (auto simp: journal_sound_def file_lines_def split: option.splits)

lemma write_record_fields [simp]:
  "maximum_event_bytes (write_record enc_len sig j e st) = maximum_event_bytes j"
  "maximum_journal_bytes (write_record enc_len sig j e st) = maximum_journal_bytes j"
  "journal_capacity (write_record enc_len sig j e st) = journal_capacity j"
  "jr_file (write_record enc_len sig j e st) = Some \<lparr>jf_lines = file_lines j @ [Inr e],
     jf_size = file_size j + enc_len e, jf_signature = sig\<rparr>"
  "jr_append_state (write_record enc_len sig j e st) = Some (state_record st e sig)"
  by (simp_all add: write_record_def journal_capacity_def)

lemma journal_sound_extend:
  assumes "chain_ok (es @ [e])" "int (length es) < journal_capacity j"
    and "list_all (\<lambda>e. enc_len e \<le> maximum_event_bytes j) (es @ [e])"
    and "file_lines j = map Inr es" "file_size j + enc_len e \<le> maximum_journal_bytes j"
    and "st_count st = int (length es)" "set (st_ids st) = event_id ` set es"
  shows "journal_sound enc_len (write_record enc_len sig j e st) (es @ [e])"
  using assms by (simp add: journal_sound_def state_record_def last_event_def)

lemma journal_append_accepted:
  assumes "journal_sound enc_len j es"
  shows "fst (journal_append enc_len touch j e) = Inr () \<longleftrightarrow> append_accepts enc_len j es e"
    and "fst (journal_append enc_len touch j e) = Inr () \<Longrightarrow>
      journal_sound enc_len (snd (journal_append enc_len touch j e)) (es @ [e])"
proof -
  obtain st c where st: "append_state_for_current_file enc_len j = (Inr st, j\<lparr>jr_append_state := c\<rparr>)"
    and sm: "st_count st = int (length es)" "set (st_ids st) = event_id ` set es"
      "st_latest st = last_event es"
    using append_state_sound [OF assms] by blast
  let ?j = "j\<lparr>jr_append_state := c\<rparr>"
  have app: "journal_append enc_len touch j e = append_validated enc_len touch ?j e st"
    by (simp add: journal_append_def st)
  have chain: "chain_ok es" using assms by (simp add: journal_sound_def)
  show "fst (journal_append enc_len touch j e) = Inr () \<longleftrightarrow> append_accepts enc_len j es e"
    using state_validate_sound [OF chain sm, of e "journal_capacity j" "()"]
    by (auto simp: app append_validated_accepted append_accepts_def file_size_def)
  assume "fst (journal_append enc_len touch j e) = Inr ()"
  then have acc: "state_validate st e (journal_capacity j) = Inr ()"
    "enc_len e \<le> maximum_event_bytes j" "file_size j + enc_len e \<le> maximum_journal_bytes j"
    by (simp_all add: app append_validated_accepted)
  have "journal_sound enc_len (write_record enc_len (touch ?j e) ?j e st) (es @ [e])"
    using assms acc sm journal_sound_lines [OF assms] state_validate_sound [OF chain sm]
    by (intro journal_sound_extend) (simp_all add: journal_sound_def)
  moreover have "snd (journal_append enc_len touch j e) = write_record enc_len (touch ?j e) ?j e st"
    using acc by (simp add: app append_validated_def)
  ultimately show "journal_sound enc_len (snd (journal_append enc_len touch j e)) (es @ [e])"
    by simp
qed

lemma journal_append_refused:
  assumes "journal_sound enc_len j es" "fst (journal_append enc_len touch j e) \<noteq> Inr ()"
  shows "jr_file (snd (journal_append enc_len touch j e)) = jr_file j"
proof -
  obtain st c where st: "append_state_for_current_file enc_len j = (Inr st, j\<lparr>jr_append_state := c\<rparr>)"
    by (rule append_state_sound [OF assms(1)])
  with assms(2) show ?thesis
    by (auto simp: journal_append_def append_validated_def split: sum.splits if_splits)
qed

section \<open>Properties\<close>

text \<open>
  C9: whatever events are published on a new bus, and whether or not publishing raised, the bus
  holds a chain: contiguous sequence numbers from 1, every previous hash the hash of the event
  before, distinct identities, time that never decreases, and no more events than its capacity.
\<close>

theorem bus_chain_invariant:
  assumes "new_bus cap = Inr b"
  shows "bus_ok (foldl (\<lambda>b e. snd (publish deliver b e)) b es)"
proof -
  have "bus_ok c \<Longrightarrow> bus_ok (foldl (\<lambda>b e. snd (publish deliver b e)) c es)" for c
    by (induction es arbitrary: c) (simp_all add: bus_ok_publish)
  then show ?thesis using bus_ok_new [OF assms] by blast
qed

definition example_event :: "int \<Rightarrow> string \<Rightarrow> string \<Rightarrow> domain_event" where
  "example_event sq eid prev = \<lparr>event_id = eid, aggregate_id = ''order-1'', event_type = ''NOTE'',
     sequence = sq, occurred_at = Aware sq, payload = [], previous_hash = prev, event_hash = eid\<rparr>"

theorem bus_chain_invariant_witness:
  "case new_bus 1 of Inl _ \<Rightarrow> False | Inr b \<Rightarrow>
     (let b' = foldl (\<lambda>b e. snd (publish silent b e)) b
        [example_event 2 ''x'' ''GENESIS'', example_event 1 ''a'' ''GENESIS'', example_event 2 ''c'' ''a'']
      in bus_ok b' \<and> map event_id (bus_events b') = [''a''])"
proof -
  let ?es = "[example_event 2 ''x'' ''GENESIS'', example_event 1 ''a'' ''GENESIS'',
    example_event 2 ''c'' ''a'']"
  obtain b where b: "new_bus 1 = Inr b" by (simp add: new_bus_def)
  have "case new_bus 1 of Inl _ \<Rightarrow> False | Inr b \<Rightarrow>
      map event_id (bus_events (foldl (\<lambda>b e. snd (publish silent b e)) b ?es)) = [''a'']" by code_simp
  with b bus_chain_invariant [OF b, of silent ?es] show ?thesis by (simp only: sum.case Let_def simp_thms)
qed

text \<open>
  Publishing commits the event exactly when it extends the chain within capacity. A refused
  event raises and leaves the bus unchanged; a committed one stays committed even when a
  subscriber raises afterwards.
\<close>

theorem publish_commits_iff_chain:
  assumes "bus_ok b"
  shows "let accepted = (int (length (bus_events b)) < bus_capacity b \<and> chain_ok (bus_events b @ [e])) in
    (accepted \<longrightarrow> publish deliver b e = (deliver_all deliver (bus_subscribers b) e, commit_event b e)) \<and>
    (\<not> accepted \<longrightarrow> (\<exists>err. publish deliver b e = (Inl err, b)))"
proof -
  let ?v = "validate_next_event e (bus_capacity b) (int (length (bus_events b))) (bus_event_ids b)
    (last_event (bus_events b))"
  have v: "?v = Inr () \<longleftrightarrow> int (length (bus_events b)) < bus_capacity b \<and> chain_ok (bus_events b @ [e])"
    using assms by (intro validate_next_event_chain) (simp_all add: bus_ok_def)
  show ?thesis
  proof (cases ?v)
    case (Inl err)
    with v show ?thesis by (auto simp: publish_def Let_def)
  next
    case (Inr u)
    with v show ?thesis by (simp add: publish_def Let_def)
  qed
qed

theorem publish_commits_iff_chain_witness:
  "publish (\<lambda>_ _. Inl (RuntimeError ''down'')) \<lparr>bus_capacity = 5, bus_events = [], bus_event_ids = [],
       bus_subscribers = [7]\<rparr> (example_event 1 ''a'' ''GENESIS'') =
     (Inl (RuntimeError ''down''), \<lparr>bus_capacity = 5, bus_events = [example_event 1 ''a'' ''GENESIS''],
       bus_event_ids = [''a''], bus_subscribers = [7]\<rparr>)"
proof -
  let ?b = "\<lparr>bus_capacity = 5, bus_events = [], bus_event_ids = [], bus_subscribers = [7]\<rparr>"
  have "bus_ok ?b" by (simp add: bus_ok_def)
  from publish_commits_iff_chain [OF this, of "example_event 1 ''a'' ''GENESIS''" "\<lambda>_ _. Inl (RuntimeError ''down'')"]
  show ?thesis
    by (simp add: chain_ok_snoc [of "[]", simplified] example_event_def last_event_def expected_hash_def
        genesis_def commit_event_def)
qed

text \<open>
  C36: appending to the disk journal refines appending to the list of its events. On a journal
  that holds the chain \<open>es\<close>, whether its cache is current, stale or missing, the append succeeds
  exactly when the event extends the chain within the count and byte limits; then the journal
  holds \<open>es\<close> with the event added and a reload returns just that; otherwise the file is untouched.
\<close>

theorem journal_append_refines:
  assumes "journal_sound enc_len j es"
  shows "let j' = snd (journal_append enc_len touch j e) in
    if append_accepts enc_len j es e
    then fst (journal_append enc_len touch j e) = Inr () \<and> journal_sound enc_len j' (es @ [e]) \<and>
      fst (load_unlocked enc_len j') = Inr (es @ [e])
    else (\<exists>err. fst (journal_append enc_len touch j e) = Inl err) \<and> jr_file j' = jr_file j"
proof (cases "append_accepts enc_len j es e")
  case True
  then have ok: "fst (journal_append enc_len touch j e) = Inr ()"
    by (simp add: journal_append_accepted(1) [OF assms])
  from journal_append_accepted(2) [OF assms ok]
  have "journal_sound enc_len (snd (journal_append enc_len touch j e)) (es @ [e])" .
  with True ok load_sound [OF this] show ?thesis by simp
next
  case False
  then have no: "fst (journal_append enc_len touch j e) \<noteq> Inr ()"
    by (simp add: journal_append_accepted(1) [OF assms])
  then obtain err where "fst (journal_append enc_len touch j e) = Inl err"
    by (cases "fst (journal_append enc_len touch j e)") auto
  with False journal_append_refused [OF assms no] show ?thesis by simp
qed

theorem journal_append_refines_witness:
  "let j = \<lparr>maximum_event_bytes = 300, maximum_journal_bytes = 600, jr_file = None, jr_append_state = None\<rparr>;
       j' = snd (journal_append (\<lambda>_. 250) (\<lambda>_ _. 1) j (example_event 1 ''a'' ''GENESIS''))
   in fst (load_unlocked (\<lambda>_. 250) j') = Inr [example_event 1 ''a'' ''GENESIS'']"
proof -
  let ?j = "\<lparr>maximum_event_bytes = 300, maximum_journal_bytes = 600, jr_file = None,
    jr_append_state = None\<rparr>" and ?e = "example_event 1 ''a'' ''GENESIS''"
  have "journal_sound (\<lambda>_. 250) ?j []"
    by (simp add: journal_sound_def journal_capacity_def cache_reusable_def)
  moreover have "append_accepts (\<lambda>_. 250) ?j [] ?e"
    by (simp add: append_accepts_def journal_capacity_def chain_ok_snoc [of "[]", simplified]
        example_event_def last_event_def expected_hash_def genesis_def)
  ultimately show ?thesis
    using journal_append_refines [of "\<lambda>_. 250" ?j "[]" "\<lambda>_ _. 1" ?e] by (simp add: Let_def)
qed

end
