(* ===== verification/Aggregate.thy ===== *)
theory Aggregate
  imports Domain_Events
begin

text \<open>
  Event-sourced aggregates. Both order state machines of the repository (the paper order of
  \<^verbatim>\<open>execution/order_state.py\<close> and the live order of \<^verbatim>\<open>execution/live_order_lifecycle.py\<close>) are a
  classmethod \<^verbatim>\<open>apply(state | None, event)\<close> and a \<^verbatim>\<open>replay\<close> that folds it over a non-empty
  event sequence. The locale \<open>aggregate\<close> states what such a machine promises of one step and
  derives what a replay then guarantees.
\<close>

fun replay_from :: "('s option \<Rightarrow> domain_event \<Rightarrow> 's result) \<Rightarrow> 's option \<Rightarrow> domain_event list \<Rightarrow>
    's option result" where
  "replay_from step st [] = Inr st"
| "replay_from step st (e # es) = bindE (step st e) (\<lambda>s. replay_from step (Some s) es)"

text \<open>\<^verbatim>\<open>replay\<close>: the two messages are those of the empty input and of a fold without a state.\<close>

definition replay_machine :: "('s option \<Rightarrow> domain_event \<Rightarrow> 's result) \<Rightarrow> string \<Rightarrow> string \<Rightarrow>
    domain_event list \<Rightarrow> 's result" where
  "replay_machine step empty_msg none_msg es =
     (if es = [] then Inl (ValueError empty_msg)
      else bindE (replay_from step None es)
             (\<lambda>st. case st of None \<Rightarrow> Inl (RuntimeError none_msg) | Some s \<Rightarrow> Inr s))"

lemma replay_from_append:
  "replay_from step st (es @ fs) = bindE (replay_from step st es) (\<lambda>st'. replay_from step st' fs)"
  by (induction step st es rule: replay_from.induct) (auto simp: bindE_def split: sum.splits)

lemma replay_from_Some: "replay_from step (Some s) es = Inr st \<Longrightarrow> \<exists>s'. st = Some s'"
  by (induction es arbitrary: s) auto

lemma replay_from_nonempty: "es \<noteq> [] \<Longrightarrow> replay_from step st es = Inr r \<Longrightarrow> \<exists>s. r = Some s"
  by (cases es) (auto dest: replay_from_Some)

lemma replay_machine_Inr:
  "replay_machine step m1 m2 es = Inr s \<longleftrightarrow> es \<noteq> [] \<and> replay_from step None es = Inr (Some s)"
  by (auto simp: replay_machine_def split: option.splits dest: replay_from_nonempty)

text \<open>The second message is unreachable: a fold over a non-empty sequence has a state.\<close>

lemma replay_machine_no_runtime:
  assumes "\<And>st e m. step st e \<noteq> Inl (RuntimeError m)"
  shows "replay_machine step m1 m2 es \<noteq> Inl (RuntimeError m)"
proof
  assume *: "replay_machine step m1 m2 es = Inl (RuntimeError m)"
  have steps: "replay_from step st es \<noteq> Inl (RuntimeError m)" for st
    by (induction es arbitrary: st) (auto simp: bindE_eq_Inl assms)
  from * have "es \<noteq> []" by (auto simp: replay_machine_def)
  with * steps show False
    by (auto simp: replay_machine_def bindE_eq_Inl split: option.splits dest: replay_from_nonempty)
qed

text \<open>Sequence numbers that increase by one.\<close>

definition contiguous :: "domain_event list \<Rightarrow> bool" where
  "contiguous es \<longleftrightarrow> (\<forall>i < length es. sequence (es ! i) = sequence (es ! 0) + int i)"

locale aggregate =
  fixes step :: "'s option \<Rightarrow> domain_event \<Rightarrow> 's result"
    and ident :: "'s \<Rightarrow> string"
    and seqno :: "'s \<Rightarrow> int"
    and inv :: "'s \<Rightarrow> bool"
  assumes first_inv: "step None e = Inr s \<Longrightarrow> inv s"
    and first_ident: "step None e = Inr s \<Longrightarrow> ident s = aggregate_id e \<and> seqno s = sequence e"
    and next_inv: "inv s \<Longrightarrow> step (Some s) e = Inr s' \<Longrightarrow> inv s'"
    and next_ident: "step (Some s) e = Inr s' \<Longrightarrow>
      ident s' = ident s \<and> aggregate_id e = ident s \<and> sequence e = seqno s + 1 \<and> seqno s' = sequence e"
begin

lemma replay_Some_inv:
  "inv s \<Longrightarrow> replay_from step (Some s) es = Inr (Some s') \<Longrightarrow> inv s'"
  by (induction es arbitrary: s) (auto intro: next_inv)

lemma replay_inv: "replay_machine step m1 m2 es = Inr s \<Longrightarrow> inv s"
  by (cases es) (auto simp: replay_machine_Inr intro: replay_Some_inv first_inv)

lemma replay_Some_trace:
  assumes "replay_from step (Some s) es = Inr (Some s')"
  shows "list_all (\<lambda>e. aggregate_id e = ident s) es \<and> ident s' = ident s \<and>
    seqno s' = seqno s + int (length es) \<and> (\<forall>i < length es. sequence (es ! i) = seqno s + 1 + int i)"
  using assms
proof (induction es arbitrary: s)
  case (Cons e es)
  then obtain t where t: "step (Some s) e = Inr t" "replay_from step (Some t) es = Inr (Some s')"
    by auto
  note idt = next_ident [OF t(1)]
  note IH = Cons.IH [OF t(2)]
  have "\<forall>i < length (e # es). sequence ((e # es) ! i) = seqno s + 1 + int i"
    using IH idt by (auto simp: nth_Cons split: nat.splits)
  with IH idt show ?case by simp
qed simp

lemma replay_trace:
  assumes "replay_machine step m1 m2 es = Inr s"
  shows "list_all (\<lambda>e. aggregate_id e = ident s) es" "contiguous es"
    "seqno s = sequence (es ! 0) + int (length es) - 1"
proof -
  obtain e es' t where es: "es = e # es'" "step None e = Inr t"
    "replay_from step (Some t) es' = Inr (Some s)"
    using assms by (cases es) (auto simp: replay_machine_Inr)
  note tr = replay_Some_trace [OF es(3)]
  note fst = first_ident [OF es(2)]
  show "list_all (\<lambda>e. aggregate_id e = ident s) es" using tr fst by (simp add: es(1))
  show "seqno s = sequence (es ! 0) + int (length es) - 1" using tr fst by (simp add: es(1))
  show "contiguous es" using tr fst by (auto simp: contiguous_def es(1) nth_Cons split: nat.splits)
qed

lemma replay_prefix:
  assumes "replay_machine step m1 m2 (es @ fs) = Inr s" "es \<noteq> []"
  shows "\<exists>t. replay_machine step m1 m2 es = Inr t \<and> replay_from step (Some t) fs = Inr (Some s)"
  using assms replay_from_nonempty [of es step None]
  by (fastforce simp: replay_machine_Inr replay_from_append)

end

end
