(* ===== verification/Domain_Enums.thy ===== *)
theory Domain_Enums
  imports Py_Prelude
begin

text \<open>
  The enumerations of \<^verbatim>\<open>domain.py\<close> and \<^verbatim>\<open>core/contracts/execution_surface.py\<close>, and the reading
  of an action from its text value (\<^verbatim>\<open>Action(text)\<close>).
\<close>

datatype action = BUY | SELL | HOLD | WAIT | NO_TRADE

definition action_value :: "action \<Rightarrow> string" where
  "action_value a =
     (case a of BUY \<Rightarrow> ''BUY'' | SELL \<Rightarrow> ''SELL'' | HOLD \<Rightarrow> ''HOLD'' | WAIT \<Rightarrow> ''WAIT''
      | NO_TRADE \<Rightarrow> ''NO_TRADE'')"

definition parse_action :: "string \<Rightarrow> action option" where
  "parse_action s =
     (if s = ''BUY'' then Some BUY else if s = ''SELL'' then Some SELL
      else if s = ''HOLD'' then Some HOLD else if s = ''WAIT'' then Some WAIT
      else if s = ''NO_TRADE'' then Some NO_TRADE else None)"

lemma parse_action_value [simp]: "parse_action (action_value a) = Some a"
  by (cases a) (simp_all add: action_value_def parse_action_def)

datatype validation_status =
  VS_UNVALIDATED | VS_RESEARCH_ONLY | VS_STAGED_CANDIDATE | VS_PAPER_APPROVED | VS_LIVE_ELIGIBLE
  | VS_REJECTED

datatype candidate_status =
  CS_WAIT_FOR_RETEST | CS_READY_FOR_RISK | CS_RESEARCH_ONLY | CS_REJECTED

datatype execution_status = EXECUTION_NOT_ALLOWED | LIVE_ORDER_BLOCKED | EXECUTION_ALLOWED

datatype execution_surface = BINANCE_MARKET | VIRTUAL_MARKET

end
