(* ===== verification/Order_State.thy ===== *)
theory Order_State
  imports Aggregate Domain_Enums
begin

text \<open>
  \<^verbatim>\<open>execution/order_state.py\<close>: the paper order as a reduction of its events, with partial fills.
  \<open>apply_order\<close> is \<^verbatim>\<open>OrderStateMachine.apply\<close>, \<open>replay_order\<close> is \<^verbatim>\<open>OrderStateMachine.replay\<close>. The
  abstract life cycle \<open>order_moves\<close> is what the machine promises of the status alone.
\<close>

datatype order_status =
  OS_SUBMITTED | OS_ACCEPTED | OS_PARTIALLY_FILLED | OS_PENDING_CANCEL | OS_FILLED | OS_CANCELLED
  | OS_REJECTED

record order_state =
  os_order_id :: string
  os_symbol :: string
  os_action :: action
  os_requested_quantity :: dec
  os_filled_quantity :: dec
  os_average_fill_price :: dec
  os_status :: order_status
  os_last_sequence :: int

definition os_remaining_quantity :: "order_state \<Rightarrow> dec" where
  "os_remaining_quantity s = d_sub (os_requested_quantity s) (os_filled_quantity s)"

definition os_with_status :: "order_state \<Rightarrow> order_status \<Rightarrow> int \<Rightarrow> order_state" where
  "os_with_status s st sq = s\<lparr>os_status := st, os_last_sequence := sq\<rparr>"

definition os_validate_identity_and_sequence :: "order_state \<Rightarrow> domain_event \<Rightarrow> unit result" where
  "os_validate_identity_and_sequence s e = validate
     [(aggregate_id e \<noteq> os_order_id s, ''order event aggregate identity mismatch''),
      (sequence e \<noteq> os_last_sequence s + 1, ''order event sequence is not contiguous'')] ()"

definition os_require_status :: "order_state \<Rightarrow> order_status list \<Rightarrow> unit result" where
  "os_require_status s allowed =
     require (os_status s \<in> set allowed) (ValueError ''illegal order state transition'')"

definition os_submit :: "domain_event \<Rightarrow> order_state result" where
  "os_submit e =
     (if event_type e \<noteq> ''ORDER_SUBMITTED''
      then Inl (ValueError ''first order event must be ORDER_SUBMITTED'')
      else bindE (positive_decimal (payload_get e ''quantity'') ''quantity'') (\<lambda>quantity.
        case parse_action (payload_text e ''action'') of
          None \<Rightarrow> Inl (ValueError ''order action is invalid'')
        | Some act \<Rightarrow>
            let symbol = py_upper (py_strip (payload_text e ''symbol''))
            in if symbol = [] then Inl (ValueError ''order symbol is required'')
               else Inr \<lparr>os_order_id = aggregate_id e, os_symbol = symbol, os_action = act,
                         os_requested_quantity = quantity, os_filled_quantity = 0,
                         os_average_fill_price = 0, os_status = OS_SUBMITTED,
                         os_last_sequence = sequence e\<rparr>))"

definition os_apply_fill :: "order_state \<Rightarrow> domain_event \<Rightarrow> order_state result" where
  "os_apply_fill s e =
     bindE (os_require_status s [OS_ACCEPTED, OS_PARTIALLY_FILLED, OS_PENDING_CANCEL]) (\<lambda>_.
     bindE (positive_decimal (payload_get e ''fill_quantity'') ''fill_quantity'') (\<lambda>quantity.
     bindE (positive_decimal (payload_get e ''fill_price'') ''fill_price'') (\<lambda>price.
       let new_quantity = d_add (os_filled_quantity s) quantity;
           is_complete = (new_quantity = os_requested_quantity s);
           previous_value = d_mul (os_average_fill_price s) (os_filled_quantity s);
           average = d_quot (d_add previous_value (d_mul price quantity)) new_quantity
       in if new_quantity > os_requested_quantity s
          then Inl (ValueError ''order fill exceeds requested quantity'')
          else if (event_type e = ''ORDER_FILLED'') \<noteq> is_complete
          then Inl (ValueError ''fill event type and cumulative quantity disagree'')
          else Inr (s\<lparr>os_filled_quantity := new_quantity, os_average_fill_price := average,
                      os_status := (if is_complete then OS_FILLED else OS_PARTIALLY_FILLED),
                      os_last_sequence := sequence e\<rparr>))))"

definition os_status_event :: "order_state \<Rightarrow> domain_event \<Rightarrow> order_status list \<Rightarrow> order_status \<Rightarrow>
    order_state result" where
  "os_status_event s e allowed target =
     bindE (os_require_status s allowed) (\<lambda>_. Inr (os_with_status s target (sequence e)))"

definition apply_order :: "order_state option \<Rightarrow> domain_event \<Rightarrow> order_state result" where
  "apply_order st e =
     (case st of
        None \<Rightarrow> os_submit e
      | Some s \<Rightarrow>
          bindE (os_validate_identity_and_sequence s e) (\<lambda>_.
            if event_type e = ''ORDER_ACCEPTED'' then os_status_event s e [OS_SUBMITTED] OS_ACCEPTED
            else if event_type e = ''ORDER_REJECTED'' then os_status_event s e [OS_SUBMITTED] OS_REJECTED
            else if event_type e = ''ORDER_CANCELLED''
            then os_status_event s e
                   [OS_SUBMITTED, OS_ACCEPTED, OS_PARTIALLY_FILLED, OS_PENDING_CANCEL] OS_CANCELLED
            else if event_type e = ''ORDER_CANCEL_REQUESTED''
            then os_status_event s e [OS_ACCEPTED, OS_PARTIALLY_FILLED] OS_PENDING_CANCEL
            else if event_type e = ''ORDER_PARTIALLY_FILLED'' \<or> event_type e = ''ORDER_FILLED''
            then os_apply_fill s e
            else Inl (ValueError ''unsupported order event type'')))"

definition replay_order :: "domain_event list \<Rightarrow> order_state result" where
  "replay_order es = replay_machine apply_order ''order replay requires events''
     ''order replay did not produce state'' es"

section \<open>The abstract life cycle\<close>

inductive order_moves :: "order_status \<Rightarrow> order_status \<Rightarrow> bool" where
  accept: "order_moves OS_SUBMITTED OS_ACCEPTED"
| reject: "order_moves OS_SUBMITTED OS_REJECTED"
| cancel: "s \<in> {OS_SUBMITTED, OS_ACCEPTED, OS_PARTIALLY_FILLED, OS_PENDING_CANCEL} \<Longrightarrow>
    order_moves s OS_CANCELLED"
| request_cancel: "s \<in> {OS_ACCEPTED, OS_PARTIALLY_FILLED} \<Longrightarrow> order_moves s OS_PENDING_CANCEL"
| fill_part: "s \<in> {OS_ACCEPTED, OS_PARTIALLY_FILLED, OS_PENDING_CANCEL} \<Longrightarrow>
    order_moves s OS_PARTIALLY_FILLED"
| fill_all: "s \<in> {OS_ACCEPTED, OS_PARTIALLY_FILLED, OS_PENDING_CANCEL} \<Longrightarrow> order_moves s OS_FILLED"

inductive_simps order_moves_from_terminal [simp]:
  "order_moves OS_FILLED s" "order_moves OS_CANCELLED s" "order_moves OS_REJECTED s"

definition os_terminal :: "order_status set" where
  "os_terminal = {OS_FILLED, OS_CANCELLED, OS_REJECTED}"

text \<open>
  The invariant of a replayed order: quantities are ordered, an order is filled exactly when the
  cumulative quantity reached the request, only statuses after an acceptance carry fills, and
  there is an average price exactly when there is a fill.
\<close>

definition order_ok :: "order_state \<Rightarrow> bool" where
  "order_ok s \<longleftrightarrow>
     0 < os_requested_quantity s \<and> 0 \<le> os_filled_quantity s \<and>
     os_filled_quantity s \<le> os_requested_quantity s \<and>
     dround (os_filled_quantity s) = os_filled_quantity s \<and>
     (os_status s = OS_FILLED \<longleftrightarrow> os_filled_quantity s = os_requested_quantity s) \<and>
     (os_status s \<in> {OS_SUBMITTED, OS_ACCEPTED, OS_REJECTED} \<longrightarrow> os_filled_quantity s = 0) \<and>
     (os_status s = OS_PARTIALLY_FILLED \<longrightarrow> 0 < os_filled_quantity s) \<and>
     0 \<le> os_average_fill_price s \<and>
     (0 < os_average_fill_price s \<longleftrightarrow> 0 < os_filled_quantity s) \<and> \<not> blank (os_symbol s)"

lemmas apply_order_defs = apply_order_def os_submit_def os_apply_fill_def os_status_event_def
  os_require_status_def os_with_status_def os_validate_identity_and_sequence_def Let_def

lemma os_submit_Inr:
  assumes "os_submit e = Inr s"
  obtains q act where "0 < q" "py_upper (py_strip (payload_text e ''symbol'')) \<noteq> []"
    and "s = \<lparr>os_order_id = aggregate_id e, os_symbol = py_upper (py_strip (payload_text e ''symbol'')),
       os_action = act, os_requested_quantity = q, os_filled_quantity = 0,
       os_average_fill_price = 0, os_status = OS_SUBMITTED, os_last_sequence = sequence e\<rparr>"
proof (cases "positive_decimal (payload_get e ''quantity'') ''quantity''")
  case (Inl err)
  with assms show ?thesis by (simp add: os_submit_def split: if_splits)
next
  case (Inr q)
  show ?thesis
  proof (cases "parse_action (payload_text e ''action'')")
    case None
    with assms Inr show ?thesis by (simp add: os_submit_def split: if_splits)
  next
    case (Some act)
    with assms Inr show ?thesis
      by (intro that [of q act] positive_decimal_pos [OF Inr])
        (auto simp: os_submit_def Let_def split: if_splits)
  qed
qed

lemma os_submit_ok: "os_submit e = Inr s \<Longrightarrow> order_ok s"
  by (erule os_submit_Inr) (simp add: order_ok_def)

lemma os_submit_ident: "os_submit e = Inr s \<Longrightarrow> os_order_id s = aggregate_id e \<and> os_last_sequence s = sequence e
    \<and> os_status s = OS_SUBMITTED"
  by (erule os_submit_Inr) simp

lemma os_status_event_Inr:
  "os_status_event s e allowed target = Inr s' \<longleftrightarrow>
     os_status s \<in> set allowed \<and> s' = s\<lparr>os_status := target, os_last_sequence := sequence e\<rparr>"
  by (auto simp: os_status_event_def os_require_status_def os_with_status_def)

lemma os_apply_fill_Inr:
  assumes "os_apply_fill s e = Inr s'"
  obtains q p where "0 < q" "0 < p" "os_status s \<in> {OS_ACCEPTED, OS_PARTIALLY_FILLED, OS_PENDING_CANCEL}"
    and "positive_decimal (payload_get e ''fill_quantity'') ''fill_quantity'' = Inr q"
    and "positive_decimal (payload_get e ''fill_price'') ''fill_price'' = Inr p"
    and "d_add (os_filled_quantity s) q \<le> os_requested_quantity s"
    and "event_type e = ''ORDER_FILLED'' \<longleftrightarrow> d_add (os_filled_quantity s) q = os_requested_quantity s"
    and "s' = s\<lparr>os_filled_quantity := d_add (os_filled_quantity s) q,
        os_average_fill_price := d_quot (d_add (d_mul (os_average_fill_price s) (os_filled_quantity s))
          (d_mul p q)) (d_add (os_filled_quantity s) q),
        os_status := (if d_add (os_filled_quantity s) q = os_requested_quantity s then OS_FILLED
          else OS_PARTIALLY_FILLED), os_last_sequence := sequence e\<rparr>"
proof -
  from assms obtain q p where
    st: "os_status s \<in> {OS_ACCEPTED, OS_PARTIALLY_FILLED, OS_PENDING_CANCEL}"
    and q: "positive_decimal (payload_get e ''fill_quantity'') ''fill_quantity'' = Inr q"
    and p: "positive_decimal (payload_get e ''fill_price'') ''fill_price'' = Inr p"
    and rest: "\<not> d_add (os_filled_quantity s) q > os_requested_quantity s"
      "event_type e = ''ORDER_FILLED'' \<longleftrightarrow> d_add (os_filled_quantity s) q = os_requested_quantity s"
      "s' = s\<lparr>os_filled_quantity := d_add (os_filled_quantity s) q,
        os_average_fill_price := d_quot (d_add (d_mul (os_average_fill_price s) (os_filled_quantity s))
          (d_mul p q)) (d_add (os_filled_quantity s) q),
        os_status := (if d_add (os_filled_quantity s) q = os_requested_quantity s then OS_FILLED
          else OS_PARTIALLY_FILLED), os_last_sequence := sequence e\<rparr>"
    unfolding os_apply_fill_def os_require_status_def Let_def
    by (auto split: if_splits)
  show ?thesis
    using that [OF positive_decimal_pos [OF q] positive_decimal_pos [OF p] st q p _ rest(2,3)] rest(1)
    by simp
qed

lemma os_apply_fill_fields:
  assumes "os_apply_fill s e = Inr s'"
  shows "os_order_id s' = os_order_id s" "os_symbol s' = os_symbol s" "os_action s' = os_action s"
    "os_requested_quantity s' = os_requested_quantity s" "os_last_sequence s' = sequence e"
    "os_status s \<in> {OS_ACCEPTED, OS_PARTIALLY_FILLED, OS_PENDING_CANCEL}"
    "os_status s' = OS_FILLED \<or> os_status s' = OS_PARTIALLY_FILLED"
  by (rule os_apply_fill_Inr [OF assms], simp)+

lemma os_apply_fill_mono:
  assumes "os_apply_fill s e = Inr s'" "dround (os_filled_quantity s) = os_filled_quantity s"
  shows "os_filled_quantity s \<le> os_filled_quantity s'"
  by (rule os_apply_fill_Inr [OF assms(1)]) (simp add: d_add_ge_self assms(2))

text \<open>One event of a live order: which of the cases of \<open>apply_order\<close> it was.\<close>

lemma apply_order_identity:
  "apply_order (Some s) e = Inr s' \<Longrightarrow> aggregate_id e = os_order_id s \<and> sequence e = os_last_sequence s + 1"
  by (simp add: apply_order_def os_validate_identity_and_sequence_def)

lemma apply_order_dispatch:
  assumes "apply_order (Some s) e = Inr s'"
  shows "os_status_event s e [OS_SUBMITTED] OS_ACCEPTED = Inr s' \<or>
    os_status_event s e [OS_SUBMITTED] OS_REJECTED = Inr s' \<or>
    os_status_event s e [OS_SUBMITTED, OS_ACCEPTED, OS_PARTIALLY_FILLED, OS_PENDING_CANCEL] OS_CANCELLED = Inr s' \<or>
    os_status_event s e [OS_ACCEPTED, OS_PARTIALLY_FILLED] OS_PENDING_CANCEL = Inr s' \<or>
    os_apply_fill s e = Inr s'"
proof -
  from assms obtain "os_validate_identity_and_sequence s e = Inr ()"
    by (auto simp: apply_order_def)
  with assms show ?thesis
    by (simp add: apply_order_def del: char.inject split: if_split_asm)
qed

lemma apply_order_cases:
  assumes "apply_order (Some s) e = Inr s'"
  obtains (status) target where "order_moves (os_status s) target" "target \<noteq> OS_FILLED"
      "target = OS_ACCEPTED \<longrightarrow> os_status s = OS_SUBMITTED"
      "target = OS_REJECTED \<longrightarrow> os_status s = OS_SUBMITTED"
      "target \<noteq> OS_SUBMITTED" "target \<noteq> OS_PARTIALLY_FILLED"
      "os_status s \<noteq> OS_FILLED" "s' = s\<lparr>os_status := target, os_last_sequence := sequence e\<rparr>"
  | (fill) "os_apply_fill s e = Inr s'"
  using apply_order_dispatch [OF assms]
proof (elim disjE)
  assume "os_status_event s e [OS_SUBMITTED] OS_ACCEPTED = Inr s'"
  then show thesis by (intro status [of OS_ACCEPTED]) (auto simp: os_status_event_Inr intro: order_moves.intros)
next
  assume "os_status_event s e [OS_SUBMITTED] OS_REJECTED = Inr s'"
  then show thesis by (intro status [of OS_REJECTED]) (auto simp: os_status_event_Inr intro: order_moves.intros)
next
  assume "os_status_event s e [OS_SUBMITTED, OS_ACCEPTED, OS_PARTIALLY_FILLED, OS_PENDING_CANCEL] OS_CANCELLED = Inr s'"
  then show thesis by (intro status [of OS_CANCELLED]) (auto simp: os_status_event_Inr intro: order_moves.intros)
next
  assume "os_status_event s e [OS_ACCEPTED, OS_PARTIALLY_FILLED] OS_PENDING_CANCEL = Inr s'"
  then show thesis by (intro status [of OS_PENDING_CANCEL]) (auto simp: os_status_event_Inr intro: order_moves.intros)
qed (rule fill)

lemma apply_order_ident:
  assumes "apply_order (Some s) e = Inr s'"
  shows "os_order_id s' = os_order_id s \<and> aggregate_id e = os_order_id s \<and>
     sequence e = os_last_sequence s + 1 \<and> os_last_sequence s' = sequence e"
  using apply_order_identity [OF assms] assms
  by (elim apply_order_cases) (simp_all add: os_apply_fill_fields)

lemma os_apply_fill_ok:
  assumes "order_ok s" "os_apply_fill s e = Inr s'" shows "order_ok s'"
proof -
  obtain q p where q: "0 < q" and p: "0 < p"
    and le: "d_add (os_filled_quantity s) q \<le> os_requested_quantity s"
    and s': "s' = s\<lparr>os_filled_quantity := d_add (os_filled_quantity s) q,
        os_average_fill_price := d_quot (d_add (d_mul (os_average_fill_price s) (os_filled_quantity s))
          (d_mul p q)) (d_add (os_filled_quantity s) q),
        os_status := (if d_add (os_filled_quantity s) q = os_requested_quantity s then OS_FILLED
          else OS_PARTIALLY_FILLED), os_last_sequence := sequence e\<rparr>"
    by (rule os_apply_fill_Inr [OF assms(2)])
  have pos: "0 < d_add (os_filled_quantity s) q"
    using assms(1) q by (simp add: d_add_def order_ok_def ctx.rnd_pos)
  have "0 \<le> d_mul (os_average_fill_price s) (os_filled_quantity s)" and "0 < d_mul p q"
    using assms(1) q p by (auto simp: order_ok_def)
  then have "0 < d_add (d_mul (os_average_fill_price s) (os_filled_quantity s)) (d_mul p q)"
    by (simp add: d_add_def ctx.rnd_pos)
  then have "0 < d_quot (d_add (d_mul (os_average_fill_price s) (os_filled_quantity s)) (d_mul p q))
      (d_add (os_filled_quantity s) q)" using pos by auto
  with pos le assms(1) show ?thesis by (simp add: order_ok_def s')
qed

lemma apply_order_ok: "order_ok s \<Longrightarrow> apply_order (Some s) e = Inr s' \<Longrightarrow> order_ok s'"
proof (elim apply_order_cases)
  fix target
  assume "order_ok s" "target \<noteq> OS_FILLED" "os_status s \<noteq> OS_FILLED"
    "target = OS_ACCEPTED \<longrightarrow> os_status s = OS_SUBMITTED" "target = OS_REJECTED \<longrightarrow> os_status s = OS_SUBMITTED"
    "target \<noteq> OS_SUBMITTED" "target \<noteq> OS_PARTIALLY_FILLED"
    "s' = s\<lparr>os_status := target, os_last_sequence := sequence e\<rparr>"
  then show ?thesis by (auto simp: order_ok_def)
qed (rule os_apply_fill_ok)

interpretation paper_order: aggregate apply_order os_order_id os_last_sequence order_ok
  by unfold_locales
    (auto simp: apply_order_def [of None] intro: os_submit_ok apply_order_ok
      dest: os_submit_ident apply_order_ident)

lemma apply_order_moves:
  "apply_order (Some s) e = Inr s' \<Longrightarrow> order_moves (os_status s) (os_status s')"
proof (elim apply_order_cases)
  assume "os_apply_fill s e = Inr s'"
  from os_apply_fill_fields(6,7) [OF this] show ?thesis by (elim disjE) (simp_all add: order_moves.intros)
qed simp

lemma apply_order_filled_mono:
  assumes "order_ok s" "apply_order (Some s) e = Inr s'"
  shows "os_filled_quantity s \<le> os_filled_quantity s'"
  using assms(2)
proof (elim apply_order_cases)
  assume "os_apply_fill s e = Inr s'"
  then show ?thesis using assms(1) by (intro os_apply_fill_mono) (simp_all add: order_ok_def)
qed simp

lemma apply_order_frame:
  "apply_order (Some s) e = Inr s' \<Longrightarrow> os_requested_quantity s' = os_requested_quantity s \<and>
     os_symbol s' = os_symbol s \<and> os_action s' = os_action s"
  by (elim apply_order_cases) (simp_all add: os_apply_fill_fields)

lemma replay_order_mono:
  assumes "order_ok s" "replay_from apply_order (Some s) es = Inr (Some s')"
  shows "os_filled_quantity s \<le> os_filled_quantity s' \<and>
    os_requested_quantity s' = os_requested_quantity s \<and>
    order_moves\<^sup>*\<^sup>* (os_status s) (os_status s')"
  using assms
proof (induction es arbitrary: s)
  case (Cons e es)
  then obtain t where t: "apply_order (Some s) e = Inr t" "replay_from apply_order (Some t) es = Inr (Some s')"
    by auto
  have "order_ok t" using Cons.prems(1) t(1) by (rule apply_order_ok)
  with Cons.IH t(2) apply_order_filled_mono [OF Cons.prems(1) t(1)] apply_order_frame [OF t(1)]
    apply_order_moves [OF t(1)]
  show ?case by (force intro: converse_rtranclp_into_rtranclp)
qed simp

lemma apply_order_terminal:
  "os_status s \<in> os_terminal \<Longrightarrow> \<exists>err. apply_order (Some s) e = Inl err"
proof -
  assume "os_status s \<in> os_terminal"
  then have "\<not> order_moves (os_status s) st" for st by (auto simp: os_terminal_def)
  then show ?thesis using apply_order_moves [of s e] by (cases "apply_order (Some s) e") auto
qed

section \<open>Properties\<close>

text \<open>
  C7: an order replayed from events is well formed (quantities ordered, FILLED exactly when the
  cumulative quantity is the request, fills only after acceptance, an average price exactly when
  there are fills), its events all carry its identity, their sequence numbers are contiguous and
  the last one is the order's.
\<close>

theorem replay_order_ok:
  assumes "replay_order es = Inr s"
  shows "order_ok s \<and> list_all (\<lambda>e. aggregate_id e = os_order_id s) es \<and> contiguous es \<and>
    os_last_sequence s = sequence (es ! 0) + int (length es) - 1"
  using assms paper_order.replay_inv paper_order.replay_trace unfolding replay_order_def by blast

definition order_event :: "int \<Rightarrow> string \<Rightarrow> (string \<times> string) list \<Rightarrow> domain_event" where
  "order_event sq ety pl = \<lparr>event_id = ''e'', aggregate_id = ''paper-1'', event_type = ety,
     sequence = sq, occurred_at = Aware sq, payload = pl, previous_hash = [], event_hash = []\<rparr>"

definition example_order :: "domain_event list" where
  "example_order =
     [order_event 1 ''ORDER_SUBMITTED'' [(''action'', ''BUY''), (''quantity'', ''2.5''), (''symbol'', ''btcusdt'')],
      order_event 2 ''ORDER_ACCEPTED'' [],
      order_event 3 ''ORDER_PARTIALLY_FILLED'' [(''fill_price'', ''100''), (''fill_quantity'', ''1'')]]"

definition example_fill :: domain_event where
  "example_fill = order_event 4 ''ORDER_FILLED'' [(''fill_price'', ''110''), (''fill_quantity'', ''1.5'')]"

theorem replay_order_ok_witness:
  "case replay_order (example_order @ [example_fill]) of Inl _ \<Rightarrow> False
   | Inr s \<Rightarrow> order_ok s \<and> os_status s = OS_FILLED \<and> os_average_fill_price s = 106"
proof -
  have run: "case replay_order (example_order @ [example_fill]) of Inl _ \<Rightarrow> False
     | Inr s \<Rightarrow> os_status s = OS_FILLED \<and> os_average_fill_price s = 106" by code_simp
  then show ?thesis using replay_order_ok by (auto split: sum.splits)
qed

text \<open>
  The paper order refines its life cycle. Replaying more events moves the status only along
  the allowed transitions, never lowers the filled quantity and never changes what was requested.
\<close>

theorem replay_order_extends:
  assumes "replay_order (es @ fs) = Inr s'" "es \<noteq> []"
  shows "\<exists>s. replay_order es = Inr s \<and> order_moves\<^sup>*\<^sup>* (os_status s) (os_status s') \<and>
    os_filled_quantity s \<le> os_filled_quantity s' \<and> os_requested_quantity s' = os_requested_quantity s"
proof -
  obtain s where s: "replay_order es = Inr s" "replay_from apply_order (Some s) fs = Inr (Some s')"
    using paper_order.replay_prefix assms unfolding replay_order_def by blast
  have "order_ok s" using s(1) paper_order.replay_inv unfolding replay_order_def by blast
  from replay_order_mono [OF this s(2)] s(1) show ?thesis by blast
qed

theorem replay_order_extends_witness:
  "\<exists>s. replay_order example_order = Inr s \<and> order_moves\<^sup>*\<^sup>* (os_status s) OS_FILLED"
proof -
  have "case replay_order (example_order @ [example_fill]) of Inl _ \<Rightarrow> False
     | Inr s \<Rightarrow> os_status s = OS_FILLED" by code_simp
  then obtain s' where "replay_order (example_order @ [example_fill]) = Inr s'" "os_status s' = OS_FILLED"
    by (auto split: sum.splits)
  with replay_order_extends [of example_order "[example_fill]" s'] show ?thesis
    by (auto simp: example_order_def)
qed

text \<open>A FILLED, CANCELLED or REJECTED paper order is final: any further event is refused.\<close>

theorem terminal_order_final:
  assumes "replay_order es = Inr s" "os_status s \<in> os_terminal" "fs \<noteq> []"
  shows "\<exists>err. replay_order (es @ fs) = Inl err"
proof -
  obtain f fs' where fs: "fs = f # fs'" using assms(3) by (cases fs) auto
  obtain err where "apply_order (Some s) f = Inl err" using apply_order_terminal [OF assms(2)] by blast
  moreover have "es \<noteq> []" "replay_from apply_order None es = Inr (Some s)"
    using assms(1) by (simp_all add: replay_order_def replay_machine_Inr)
  ultimately show ?thesis by (simp add: replay_order_def replay_machine_def replay_from_append fs)
qed

theorem terminal_order_final_witness:
  "\<exists>err. replay_order ((example_order @ [example_fill]) @ [order_event 5 ''ORDER_CANCELLED'' []]) = Inl err"
proof -
  have "case replay_order (example_order @ [example_fill]) of Inl _ \<Rightarrow> False
     | Inr s \<Rightarrow> os_status s = OS_FILLED" by code_simp
  then obtain s where s: "replay_order (example_order @ [example_fill]) = Inr s" "os_status s = OS_FILLED"
    by (auto split: sum.splits)
  show ?thesis by (rule terminal_order_final [OF s(1)]) (simp_all add: s(2) os_terminal_def)
qed

end
