(* ===== verification/Symbol_Filters.thy ===== *)
theory Symbol_Filters
  imports Decimal_Text
begin

text \<open>
  \<^verbatim>\<open>exchange/filters.py\<close>: the PRICE_FILTER, LOT_SIZE and NOTIONAL filters of a Spot symbol, how
  they are read from the exchange's metadata, how a price or quantity is rounded down to its
  step and when an order passes. A filter value of the exchange is text, an integer, a float
  (given by its \<^verbatim>\<open>str()\<close>), a boolean or null.
\<close>

datatype filter_value = FStr string | FInt int | FFloat string | FBool bool | FNone

type_synonym filter_values = "string \<Rightarrow> filter_value option"

definition filter_decimal :: "string \<Rightarrow> pydec option \<Rightarrow> dec result" where
  "filter_decimal name parsed =
     (case parsed of
        None \<Rightarrow> Inl (ExchangePayloadError (''filter field '' @ name @ '' is invalid''))
      | Some (Finite x) \<Rightarrow>
          if x < 0 then Inl (ExchangePayloadError (''filter field '' @ name @ '' must be non-negative''))
          else Inr x
      | Some _ \<Rightarrow> Inl (ExchangePayloadError (''filter field '' @ name @ '' must be non-negative'')))"

definition decimal_field :: "filter_values \<Rightarrow> string \<Rightarrow> dec option \<Rightarrow> dec result" where
  "decimal_field values name dflt =
     (let missing = Inl (ExchangePayloadError (''filter field '' @ name @ '' is missing or invalid''));
          absent = (case dflt of None \<Rightarrow> missing | Some d \<Rightarrow> Inr d)
      in case values name of
           None \<Rightarrow> absent
         | Some FNone \<Rightarrow> absent
         | Some (FBool _) \<Rightarrow> missing
         | Some (FStr s) \<Rightarrow> filter_decimal name (parse_decimal s)
         | Some (FFloat s) \<Rightarrow> filter_decimal name (parse_decimal s)
         | Some (FInt i) \<Rightarrow> filter_decimal name (Some (Finite (of_int i))))"

definition round_down :: "dec \<Rightarrow> dec \<Rightarrow> dec" where
  "round_down value step =
     (if step \<le> 0 then value else d_mul (d_trunc (d_quot value step)) step)"

record price_filter =
  pf_min_price :: dec
  pf_max_price :: dec
  pf_tick_size :: dec

record lot_size_filter =
  ls_min_quantity :: dec
  ls_max_quantity :: dec
  ls_step_size :: dec

record notional_filter =
  nf_min_notional :: dec
  nf_max_notional :: dec

record symbol_filters =
  sf_price :: price_filter
  sf_lot_size :: lot_size_filter
  sf_notional :: notional_filter

definition pf_round_down :: "price_filter \<Rightarrow> dec \<Rightarrow> dec" where
  "pf_round_down f price = round_down price (pf_tick_size f)"

text \<open>\<^verbatim>\<open>step > ZERO and value % step != ZERO\<close>.\<close>

definition off_step :: "dec \<Rightarrow> dec \<Rightarrow> bool result" where
  "off_step value step =
     (if 0 < step then bindE (d_rem value step) (\<lambda>r. Inr (r \<noteq> 0)) else Inr False)"

definition pf_blockers :: "price_filter \<Rightarrow> dec \<Rightarrow> string list result" where
  "pf_blockers f price =
     bindE (off_step price (pf_tick_size f)) (\<lambda>off.
       Inr (flag_if (0 < pf_min_price f \<and> price < pf_min_price f) ''PRICE_BELOW_MINIMUM''
          @ flag_if (0 < pf_max_price f \<and> pf_max_price f < price) ''PRICE_ABOVE_MAXIMUM''
          @ flag_if off ''PRICE_TICK_SIZE_INVALID''))"

definition ls_round_down :: "lot_size_filter \<Rightarrow> dec \<Rightarrow> dec" where
  "ls_round_down f quantity = round_down quantity (ls_step_size f)"

definition ls_blockers :: "lot_size_filter \<Rightarrow> dec \<Rightarrow> string list result" where
  "ls_blockers f quantity =
     bindE (off_step quantity (ls_step_size f)) (\<lambda>off.
       Inr (flag_if (quantity < ls_min_quantity f) ''QUANTITY_BELOW_MINIMUM''
          @ flag_if (0 < ls_max_quantity f \<and> ls_max_quantity f < quantity) ''QUANTITY_ABOVE_MAXIMUM''
          @ flag_if off ''QUANTITY_STEP_SIZE_INVALID''))"

definition nf_blockers :: "notional_filter \<Rightarrow> dec \<Rightarrow> dec \<Rightarrow> string list" where
  "nf_blockers f price quantity =
     (let notional = d_mul price quantity
      in flag_if (notional < nf_min_notional f) ''NOTIONAL_BELOW_MINIMUM''
       @ flag_if (0 < nf_max_notional f \<and> nf_max_notional f < notional) ''NOTIONAL_ABOVE_MAXIMUM'')"

text \<open>\<^verbatim>\<open>SymbolFilters.from_symbol_info\<close>: \<open>filters\<close> is the symbol's filter mapping.\<close>

definition from_symbol_info :: "(string \<Rightarrow> filter_values option) \<Rightarrow> symbol_filters result" where
  "from_symbol_info filters =
     (let notional = (case filters ''NOTIONAL'' of None \<Rightarrow> filters ''MIN_NOTIONAL'' | Some v \<Rightarrow> Some v)
      in case (filters ''PRICE_FILTER'', filters ''LOT_SIZE'', notional) of
           (Some pv, Some lv, Some nv) \<Rightarrow>
             bindE (decimal_field pv ''minPrice'' None) (\<lambda>min_price.
             bindE (decimal_field pv ''maxPrice'' None) (\<lambda>max_price.
             bindE (decimal_field pv ''tickSize'' None) (\<lambda>tick_size.
             bindE (decimal_field lv ''minQty'' None) (\<lambda>min_quantity.
             bindE (decimal_field lv ''maxQty'' None) (\<lambda>max_quantity.
             bindE (decimal_field lv ''stepSize'' None) (\<lambda>step_size.
             bindE (decimal_field nv ''minNotional'' None) (\<lambda>min_notional.
             bindE (decimal_field nv ''maxNotional'' (Some 0)) (\<lambda>max_notional.
               Inr \<lparr>sf_price = \<lparr>pf_min_price = min_price, pf_max_price = max_price,
                                pf_tick_size = tick_size\<rparr>,
                    sf_lot_size = \<lparr>ls_min_quantity = min_quantity, ls_max_quantity = max_quantity,
                                   ls_step_size = step_size\<rparr>,
                    sf_notional = \<lparr>nf_min_notional = min_notional, nf_max_notional = max_notional\<rparr>\<rparr>))))))))
         | _ \<Rightarrow> Inl (ExchangePayloadError
                  ''PRICE_FILTER, LOT_SIZE and NOTIONAL/MIN_NOTIONAL are required''))"

definition validate_order :: "symbol_filters \<Rightarrow> dec \<Rightarrow> dec \<Rightarrow> string list result" where
  "validate_order f price quantity =
     (if price \<le> 0 \<or> quantity \<le> 0 then Inr [''PRICE_AND_QUANTITY_MUST_BE_POSITIVE'']
      else bindE (pf_blockers (sf_price f) price) (\<lambda>pb.
           bindE (ls_blockers (sf_lot_size f) quantity) (\<lambda>lb.
             Inr (dict_fromkeys (pb @ lb @ nf_blockers (sf_notional f) price quantity)))))"

section \<open>Rounding down\<close>

lemma round_down_nonneg: "0 \<le> v \<Longrightarrow> 0 \<le> round_down v step"
  by (auto simp: round_down_def intro!: d_mul_nonneg d_trunc_nonneg d_quot_nonneg)

text \<open>
  For a step that is a power of ten, the only kind the exchange publishes, rounding a
  28-digit value is exact: the largest multiple of the step not above it.
\<close>

lemma round_down_ten_powi:
  assumes "dround v = v" "0 \<le> v"
  shows "round_down v (10 powi k) = of_int \<lfloor>v * 10 powi (- k)\<rfloor> * 10 powi k"
proof -
  let ?y = "v * 10 powi (- k)"
  have y: "dround ?y = ?y" "0 \<le> ?y" using assms dround_scale [of v "- k"] by simp_all
  have "d_trunc (d_quot v (10 powi k)) = of_int \<lfloor>?y\<rfloor>"
    using assms y by (simp add: d_quot_ten_powi d_trunc_def)
  moreover have "\<not> (10::rat) powi k \<le> 0" by (simp only: not_le powi_ten_pos)
  ultimately show ?thesis
    using dround_scale [of "of_int \<lfloor>?y\<rfloor>" k] dround_floor [OF y]
    by (simp add: round_down_def d_mul_def)
qed

lemma round_down_bracket:
  assumes "dround v = v" "0 \<le> v"
  shows "round_down v (10 powi k) \<le> v" "v < round_down v (10 powi k) + 10 powi k"
proof -
  let ?y = "v * 10 powi (- k)"
  have v: "?y * 10 powi k = v" by (rule powi_ten_cancel)
  have "of_int \<lfloor>?y\<rfloor> * 10 powi k \<le> ?y * 10 powi k" by (intro mult_right_mono) simp_all
  then show "round_down v (10 powi k) \<le> v" unfolding v round_down_ten_powi [OF assms] .
  have "?y < of_int \<lfloor>?y\<rfloor> + 1" by linarith
  then have "?y * 10 powi k < (of_int \<lfloor>?y\<rfloor> + 1) * 10 powi k" by (rule mult_strict_right_mono) simp
  then show "v < round_down v (10 powi k) + 10 powi k"
    unfolding v round_down_ten_powi [OF assms] by (simp add: algebra_simps)
qed

lemma off_step_round_down:
  assumes "dround v = v" "0 \<le> v" "v < 10 ^ 28 * 10 powi k"
  shows "off_step (round_down v (10 powi k)) (10 powi k) = Inr False"
proof -
  let ?n = "\<lfloor>v * 10 powi (- k)\<rfloor>"
  have "v * 10 powi (- k) < 10 ^ 28 * 10 powi k * 10 powi (- k)"
    using assms(3) by (intro mult_strict_right_mono) simp_all
  also have "10 ^ 28 * 10 powi k * 10 powi (- k) = (10::rat) ^ 28"
    using powi_ten_cancel [of "10 ^ 28" "- k"] by (simp only: minus_minus)
  finally have "v * 10 powi (- k) < 10 ^ 28" .
  then have n: "0 \<le> ?n" "?n < 10 ^ 28" using assms(2) by (simp_all add: floor_less_iff)
  then have lt: "(of_int ?n :: rat) < 10 ^ 28"
    using of_int_less_iff [of ?n "10 ^ 28", where 'a = rat] by simp
  have t: "d_trunc (of_int ?n * 10 powi k / 10 powi k) = of_int ?n" using n by (simp add: d_trunc_def)
  show ?thesis
    using n lt unfolding round_down_ten_powi [OF assms(1,2)] off_step_def d_rem_def t
    by (simp add: not_le)
qed

section \<open>Passing the filters\<close>

lemma off_step_False_iff:
  "off_step v step = Inr False \<longleftrightarrow> \<not> 0 < step \<or> d_rem v step = Inr 0"
  by (auto simp: off_step_def bindE_def split: sum.splits)

lemma pf_blockers_Nil:
  "pf_blockers f p = Inr [] \<longleftrightarrow> (0 < pf_min_price f \<longrightarrow> pf_min_price f \<le> p) \<and>
     (0 < pf_max_price f \<longrightarrow> p \<le> pf_max_price f) \<and> off_step p (pf_tick_size f) = Inr False"
  by (auto simp: pf_blockers_def)

lemma ls_blockers_Nil:
  "ls_blockers f q = Inr [] \<longleftrightarrow> ls_min_quantity f \<le> q \<and>
     (0 < ls_max_quantity f \<longrightarrow> q \<le> ls_max_quantity f) \<and> off_step q (ls_step_size f) = Inr False"
  by (auto simp: ls_blockers_def)

lemma nf_blockers_Nil:
  "nf_blockers f p q = [] \<longleftrightarrow> nf_min_notional f \<le> d_mul p q \<and>
     (0 < nf_max_notional f \<longrightarrow> d_mul p q \<le> nf_max_notional f)"
  by (auto simp: nf_blockers_def Let_def)

lemma validate_order_Nil:
  "validate_order f p q = Inr [] \<longleftrightarrow> 0 < p \<and> 0 < q \<and> pf_blockers (sf_price f) p = Inr [] \<and>
     ls_blockers (sf_lot_size f) q = Inr [] \<and> nf_blockers (sf_notional f) p q = []"
  by (auto simp: validate_order_def)

text \<open>What the metadata reader guarantees of the filters it returns.\<close>

definition filters_ok :: "symbol_filters \<Rightarrow> bool" where
  "filters_ok f \<longleftrightarrow>
     0 \<le> pf_min_price (sf_price f) \<and> 0 \<le> pf_max_price (sf_price f) \<and> 0 \<le> pf_tick_size (sf_price f) \<and>
     0 \<le> ls_min_quantity (sf_lot_size f) \<and> 0 \<le> ls_max_quantity (sf_lot_size f) \<and>
     0 \<le> ls_step_size (sf_lot_size f) \<and>
     0 \<le> nf_min_notional (sf_notional f) \<and> 0 \<le> nf_max_notional (sf_notional f)"

lemma filter_decimal_nonneg: "filter_decimal n p = Inr x \<Longrightarrow> 0 \<le> x"
  by (auto simp: filter_decimal_def split: option.splits pydec.splits if_splits)

lemma decimal_field_nonneg:
  assumes "decimal_field v n d = Inr x" "\<And>y. d = Some y \<Longrightarrow> 0 \<le> y" shows "0 \<le> x"
proof -
  have "(case d of None \<Rightarrow> Inl (ExchangePayloadError m) | Some y \<Rightarrow> Inr y) = Inr x \<Longrightarrow> 0 \<le> x" for m
    using assms(2) by (cases d) auto
  with assms(1) show ?thesis
    by (auto simp: decimal_field_def Let_def filter_decimal_nonneg
        split: option.splits filter_value.splits)
qed

lemma from_symbol_info_ok: "from_symbol_info fs = Inr f \<Longrightarrow> filters_ok f"
  unfolding from_symbol_info_def Let_def
  by (clarsimp simp: filters_ok_def split: option.splits; intro conjI; (erule decimal_field_nonneg, simp)+)

section \<open>Properties\<close>

text \<open>
  For a step that is a power of ten, rounding a non-negative 28-digit value down gives the
  largest multiple of the step not above it, and the result passes the step filter.
\<close>

theorem round_down_correct:
  assumes "dround v = v" "0 \<le> v" "v < 10 ^ 28 * 10 powi k"
  shows "(\<exists>n. round_down v (10 powi k) = of_int n * 10 powi k) \<and> round_down v (10 powi k) \<le> v \<and>
    v < round_down v (10 powi k) + 10 powi k \<and>
    off_step (round_down v (10 powi k)) (10 powi k) = Inr False"
  using round_down_ten_powi [OF assms(1,2)] round_down_bracket [OF assms(1,2)]
    off_step_round_down [OF assms] by blast

theorem round_down_correct_witness:
  "round_down 12.3456 (10 powi (- 2)) \<le> 12.3456 \<and> 12.3456 < round_down 12.3456 (10 powi (- 2)) + 10 powi (- 2)"
proof -
  have "dround 12.3456 = 12.3456" by code_simp
  from round_down_correct [OF this, of "- 2"] show ?thesis by (simp add: power_int_minus)
qed

text \<open>
  For other steps rounding down can round up. The quotient is rounded to 28 digits before it
  is truncated, so a value just below a multiple of the step is moved to that multiple.
\<close>

theorem round_down_can_round_up:
  "\<exists>v step. dround v = v \<and> dround step = step \<and> 0 < step \<and> 0 < v \<and> v < round_down v step"
proof -
  have "let v = 9.799999999999999999999999999; step = 4.9 in
      dround v = v \<and> dround step = step \<and> 0 < step \<and> 0 < v \<and> v < round_down v step" by code_simp
  then show ?thesis unfolding Let_def by blast
qed

text \<open>
  An order with a positive price and quantity passes the filters read from the exchange
  exactly when its price is inside the bounds that are set and on the tick, its quantity inside
  the lot bounds and on the step, and the rounded notional inside the notional bounds.
\<close>

theorem validate_order_passes_iff:
  assumes "from_symbol_info fs = Inr f" "0 < p" "0 < q"
  shows "validate_order f p q = Inr [] \<longleftrightarrow>
    (pf_min_price (sf_price f) = 0 \<or> pf_min_price (sf_price f) \<le> p) \<and>
    (pf_max_price (sf_price f) = 0 \<or> p \<le> pf_max_price (sf_price f)) \<and>
    (pf_tick_size (sf_price f) = 0 \<or> d_rem p (pf_tick_size (sf_price f)) = Inr 0) \<and>
    ls_min_quantity (sf_lot_size f) \<le> q \<and>
    (ls_max_quantity (sf_lot_size f) = 0 \<or> q \<le> ls_max_quantity (sf_lot_size f)) \<and>
    (ls_step_size (sf_lot_size f) = 0 \<or> d_rem q (ls_step_size (sf_lot_size f)) = Inr 0) \<and>
    nf_min_notional (sf_notional f) \<le> d_mul p q \<and>
    (nf_max_notional (sf_notional f) = 0 \<or> d_mul p q \<le> nf_max_notional (sf_notional f))"
proof -
  have nonneg: "(0 < x \<longrightarrow> P) \<longleftrightarrow> x = 0 \<or> P" if "0 \<le> x" for x :: dec and P using that by auto
  have "(\<not> 0 < x) = (x = 0)" if "0 \<le> x" for x :: dec using that by auto
  with from_symbol_info_ok [OF assms(1)] assms(2,3) show ?thesis
    unfolding filters_ok_def
    by (simp add: validate_order_Nil pf_blockers_Nil ls_blockers_Nil nf_blockers_Nil off_step_False_iff nonneg
        conj_assoc)
qed

definition example_filters :: "string \<Rightarrow> filter_values option" where
  "example_filters = map_of
     [(''PRICE_FILTER'', map_of [(''minPrice'', FStr ''0.01''), (''maxPrice'', FStr ''1000000''), (''tickSize'', FStr ''0.01'')]),
      (''LOT_SIZE'', map_of [(''minQty'', FStr ''0.001''), (''maxQty'', FStr ''9000''), (''stepSize'', FStr ''0.001'')]),
      (''MIN_NOTIONAL'', map_of [(''minNotional'', FInt 10)])]"

theorem validate_order_passes_iff_witness:
  "case from_symbol_info example_filters of Inl _ \<Rightarrow> False
   | Inr f \<Rightarrow> validate_order f 100.25 2 = Inr [] \<and> d_rem 100.25 (pf_tick_size (sf_price f)) = Inr 0 \<and>
       pf_tick_size (sf_price f) = 1 / 100"
proof -
  have *: "case from_symbol_info example_filters of Inl _ \<Rightarrow> False
     | Inr f \<Rightarrow> validate_order f 100.25 2 = Inr [] \<and> pf_tick_size (sf_price f) = 1 / 100" by code_simp
  then obtain f where f: "from_symbol_info example_filters = Inr f" by (auto split: sum.splits)
  from validate_order_passes_iff [OF f, of "100.25" 2] * f show ?thesis by auto
qed

end
