(* ===== verification/Order_Book.thy ===== *)
theory Order_Book
  imports Decimal28 "HOL-Library.AList" "HOL-Library.Product_Lexorder"
begin

text \<open>
  \<^verbatim>\<open>exchange/order_book.py\<close>: the read-only order book, rebuilt from a snapshot and absolute-quantity
  deltas, that refuses to continue over a sequence gap. A side is the dictionary from price to
  quantity, as an association list in insertion order. An operation returns its result and the
  book it leaves behind, also when it raises.
\<close>

section \<open>Data\<close>

datatype book_state = BK_EMPTY | BK_LIVE | BK_GAP_DETECTED | BK_DEGRADED

record book_level =
  lv_price :: dec
  lv_quantity :: dec

record order_book_snapshot =
  sn_symbol :: string
  sn_last_update_id :: int
  sn_observed_at :: datetime
  sn_bids :: "book_level list"
  sn_asks :: "book_level list"
  sn_sequence_bridged :: bool

record order_book_delta =
  dl_first_update_id :: int
  dl_last_update_id :: int
  dl_event_time :: datetime
  dl_bids :: "book_level list"
  dl_asks :: "book_level list"
  dl_previous_update_id :: "int option"

record order_book_observation =
  ob_state :: book_state
  ob_accepted :: bool
  ob_last_update_id :: "int option"
  ob_best_bid :: "dec option"
  ob_best_ask :: "dec option"
  ob_spread_bps :: "dec option"
  ob_top_imbalance :: "dec option"
  ob_blockers :: "string list"
  ob_execution_allowed :: bool

type_synonym book_side = "(dec \<times> dec) list"

record order_book =
  bk_symbol :: string
  bk_maximum_levels :: int
  bk_futures_sequence :: bool
  bk_state :: book_state
  bk_last_update_id :: "int option"
  bk_last_event_at :: "datetime option"
  bk_bids :: book_side
  bk_asks :: book_side
  bk_bridged :: bool

definition book_level_post_init :: "book_level \<Rightarrow> book_level result" where
  "book_level_post_init l = validate
     [(lv_price l \<le> 0 \<or> lv_quantity l < 0, ''book level price and quantity are invalid'')] l"

definition snapshot_post_init :: "order_book_snapshot \<Rightarrow> order_book_snapshot result" where
  "snapshot_post_init s = validate
     [(sn_last_update_id s < 1 \<or> blank (sn_symbol s), ''order-book snapshot identity is invalid''),
      (\<not> is_aware (sn_observed_at s), ''order-book snapshot timestamp must be timezone-aware''),
      (sn_bids s = [] \<or> sn_asks s = [], ''order-book snapshot must contain both sides'')] s"

definition delta_post_init :: "order_book_delta \<Rightarrow> order_book_delta result" where
  "delta_post_init d = validate
     [(dl_first_update_id d < 1 \<or> dl_last_update_id d < dl_first_update_id d,
       ''order-book delta sequence is invalid''),
      (case dl_previous_update_id d of None \<Rightarrow> False | Some p \<Rightarrow> p < 0,
       ''order-book previous sequence is invalid''),
      (\<not> is_aware (dl_event_time d), ''order-book delta timestamp must be timezone-aware'')] d"

definition observation_post_init :: "order_book_observation \<Rightarrow> order_book_observation result" where
  "observation_post_init ob = validate
     [(ob_execution_allowed ob, ''public order-book evidence cannot authorize execution'')] ob"

text \<open>
  \<^verbatim>\<open>[^\W_]{2,24}(?:_(?:PERP|[0-9]{6}))?\<close> over ASCII: the name is the longest alphanumeric prefix,
  since a suffix starts with an underscore.
\<close>

definition book_symbol_valid :: "string \<Rightarrow> bool" where
  "book_symbol_valid s \<longleftrightarrow>
     (let name = takeWhile is_alnum_char s; suffix = dropWhile is_alnum_char s
      in 2 \<le> length name \<and> length name \<le> 24 \<and>
         (suffix = [] \<or> suffix = ''_PERP'' \<or>
          (length suffix = 7 \<and> hd suffix = CHR ''_'' \<and> list_all is_digit (tl suffix))))"

definition new_order_book :: "string \<Rightarrow> int \<Rightarrow> bool \<Rightarrow> order_book result" where
  "new_order_book symbol levels futures =
     (let normalized = py_upper (py_strip symbol)
      in validate
           [(\<not> book_symbol_valid normalized, ''order-book symbol is invalid''),
            (\<not> (1 \<le> levels \<and> levels \<le> 100000), ''order-book maximum levels are invalid'')]
           \<lparr>bk_symbol = normalized, bk_maximum_levels = levels, bk_futures_sequence = futures,
            bk_state = BK_EMPTY, bk_last_update_id = None, bk_last_event_at = None,
            bk_bids = [], bk_asks = [], bk_bridged = False\<rparr>)"

section \<open>Operations\<close>

definition best_bid :: "book_side \<Rightarrow> dec" where
  "best_bid side = Max (set (map fst side))"

definition best_ask :: "book_side \<Rightarrow> dec" where
  "best_ask side = Min (set (map fst side))"

definition side_get :: "book_side \<Rightarrow> dec \<Rightarrow> dec" where
  "side_get side p = the (map_of side p)"

definition book_observation :: "order_book \<Rightarrow> bool \<Rightarrow> string list \<Rightarrow> order_book_observation" where
  "book_observation b accepted blockers =
     (if bk_bids b = [] \<or> bk_asks b = []
      then \<lparr>ob_state = bk_state b, ob_accepted = accepted, ob_last_update_id = bk_last_update_id b,
            ob_best_bid = None, ob_best_ask = None, ob_spread_bps = None, ob_top_imbalance = None,
            ob_blockers = blockers, ob_execution_allowed = False\<rparr>
      else
        let bid = best_bid (bk_bids b); ask = best_ask (bk_asks b);
            midpoint = d_quot (d_add bid ask) 2;
            spread = d_mul (d_quot (d_sub ask bid) midpoint) 10000;
            bid_quantity = side_get (bk_bids b) bid;
            ask_quantity = side_get (bk_asks b) ask;
            total = d_add bid_quantity ask_quantity;
            imbalance = (if 0 < total then d_quot (d_sub bid_quantity ask_quantity) total else 0)
        in \<lparr>ob_state = bk_state b, ob_accepted = accepted, ob_last_update_id = bk_last_update_id b,
            ob_best_bid = Some bid, ob_best_ask = Some ask, ob_spread_bps = Some spread,
            ob_top_imbalance = Some imbalance, ob_blockers = blockers,
            ob_execution_allowed = False\<rparr>)"

definition validate_and_observe :: "order_book \<Rightarrow> order_book_observation \<times> order_book" where
  "validate_and_observe b =
     (let finish = (\<lambda>st accepted blockers.
            let b' = b\<lparr>bk_state := st\<rparr> in (book_observation b' accepted blockers, b'))
      in if bk_bids b = [] \<or> bk_asks b = []
         then finish BK_DEGRADED False [''ORDER_BOOK_SIDE_EMPTY'']
         else if int (length (bk_bids b)) > bk_maximum_levels b
               \<or> int (length (bk_asks b)) > bk_maximum_levels b
         then finish BK_DEGRADED False [''ORDER_BOOK_LEVEL_LIMIT_EXCEEDED'']
         else if best_bid (bk_bids b) \<ge> best_ask (bk_asks b)
         then finish BK_DEGRADED False [''ORDER_BOOK_CROSSED'']
         else finish BK_LIVE True [])"

definition unique_prices :: "book_level list \<Rightarrow> bool" where
  "unique_prices ls \<longleftrightarrow> distinct (map lv_price ls)"

definition book_levels_of :: "book_level list \<Rightarrow> book_side result" where
  "book_levels_of ls =
     (if unique_prices ls
      then Inr (map (\<lambda>l. (lv_price l, lv_quantity l)) (filter (\<lambda>l. 0 < lv_quantity l) ls))
      else Inl (ValueError ''order-book levels must have unique prices''))"

fun apply_levels :: "book_side \<Rightarrow> book_level list \<Rightarrow> book_side" where
  "apply_levels side [] = side"
| "apply_levels side (l # ls) =
     apply_levels (if lv_quantity l = 0 then AList.delete (lv_price l) side
                   else AList.update (lv_price l) (lv_quantity l) side) ls"

definition apply_side :: "book_side \<Rightarrow> book_level list \<Rightarrow> book_side result" where
  "apply_side side ls =
     (if unique_prices ls then Inr (apply_levels side ls)
      else Inl (ValueError ''order-book delta prices must be unique''))"

definition book_apply_snapshot :: "order_book \<Rightarrow> order_book_snapshot \<Rightarrow>
    order_book_observation result \<times> order_book" where
  "book_apply_snapshot b s =
     (if sn_symbol s \<noteq> bk_symbol b
      then (Inl (ValueError ''order-book snapshot symbol mismatch''), b)
      else case book_levels_of (sn_bids s) of
        Inl e \<Rightarrow> (Inl e, b)
      | Inr bids \<Rightarrow>
          let b1 = b\<lparr>bk_bids := bids\<rparr>
          in case book_levels_of (sn_asks s) of
               Inl e \<Rightarrow> (Inl e, b1)
             | Inr asks \<Rightarrow>
                 let (ob, b2) = validate_and_observe
                       (b1\<lparr>bk_asks := asks, bk_last_update_id := Some (sn_last_update_id s),
                           bk_last_event_at := Some (sn_observed_at s),
                           bk_bridged := sn_sequence_bridged s\<rparr>)
                 in (Inr ob, b2))"

definition delta_in_sequence :: "order_book \<Rightarrow> int \<Rightarrow> int \<Rightarrow> order_book_delta \<Rightarrow> bool" where
  "delta_in_sequence b last_id expected d =
     (let valid_sequence = (dl_first_update_id d \<le> expected \<and> expected \<le> dl_last_update_id d)
      in if bk_futures_sequence b
         then (case dl_previous_update_id d of
                 None \<Rightarrow> False
               | Some p \<Rightarrow> if bk_bridged b then p = last_id else valid_sequence)
         else valid_sequence)"

definition book_apply_delta :: "order_book \<Rightarrow> order_book_delta \<Rightarrow>
    order_book_observation result \<times> order_book" where
  "book_apply_delta b d =
     (case (bk_state b = BK_LIVE, bk_last_update_id b) of
        (True, Some last_id) \<Rightarrow>
          if (case bk_last_event_at b of None \<Rightarrow> False | Some t \<Rightarrow> instant (dl_event_time d) < instant t)
          then (Inl (ValueError ''order-book event time cannot move backwards''), b)
          else
            let expected = last_id + (if bk_futures_sequence b \<and> \<not> bk_bridged b then 0 else 1)
            in if dl_last_update_id d < expected
               then (Inr (book_observation b False [''ORDER_BOOK_OLD_DELTA'']), b)
               else if \<not> delta_in_sequence b last_id expected d
               then let b' = b\<lparr>bk_state := BK_GAP_DETECTED\<rparr>
                    in (Inr (book_observation b' False [''ORDER_BOOK_SEQUENCE_GAP'']), b')
               else case apply_side (bk_bids b) (dl_bids d) of
                 Inl e \<Rightarrow> (Inl e, b)
               | Inr bids \<Rightarrow>
                   let b1 = b\<lparr>bk_bids := bids\<rparr>
                   in case apply_side (bk_asks b) (dl_asks d) of
                        Inl e \<Rightarrow> (Inl e, b1)
                      | Inr asks \<Rightarrow>
                          let (ob, b2) = validate_and_observe
                                (b1\<lparr>bk_asks := asks, bk_last_update_id := Some (dl_last_update_id d),
                                    bk_last_event_at := Some (dl_event_time d), bk_bridged := True\<rparr>)
                          in (Inr ob, b2)
      | _ \<Rightarrow> (Inr (book_observation b False [''ORDER_BOOK_SNAPSHOT_REQUIRED'']), b))"

text \<open>\<^verbatim>\<open>levels()\<close>: \<^verbatim>\<open>sorted\<close> on the items, the bids in reverse.\<close>

definition book_levels :: "order_book \<Rightarrow> (dec \<times> dec) list \<times> (dec \<times> dec) list" where
  "book_levels b = (rev (sort (bk_bids b)), sort (bk_asks b))"

section \<open>The invariant\<close>

definition level_ok :: "book_level \<Rightarrow> bool" where
  "level_ok l \<longleftrightarrow> book_level_post_init l = Inr l"

definition side_ok :: "book_side \<Rightarrow> bool" where
  "side_ok side \<longleftrightarrow> distinct (map fst side) \<and> (\<forall>(p, q) \<in> set side. 0 < p \<and> 0 < q)"

definition book_ok :: "order_book \<Rightarrow> bool" where
  "book_ok b \<longleftrightarrow> side_ok (bk_bids b) \<and> side_ok (bk_asks b) \<and>
     (bk_state b = BK_LIVE \<longrightarrow>
        bk_bids b \<noteq> [] \<and> bk_asks b \<noteq> [] \<and> bk_last_update_id b \<noteq> None \<and>
        int (length (bk_bids b)) \<le> bk_maximum_levels b \<and>
        int (length (bk_asks b)) \<le> bk_maximum_levels b \<and>
        best_bid (bk_bids b) < best_ask (bk_asks b))"

lemma level_ok_iff: "level_ok l \<longleftrightarrow> 0 < lv_price l \<and> 0 \<le> lv_quantity l"
  by (auto simp: level_ok_def book_level_post_init_def)

lemma side_ok_Nil [simp]: "side_ok []"
  by (simp add: side_ok_def)

lemma set_update_subset: "set (AList.update k v al) \<subseteq> insert (k, v) (set al)"
  by (induction al) auto

lemma side_ok_update:
  "side_ok side \<Longrightarrow> 0 < p \<Longrightarrow> 0 < q \<Longrightarrow> side_ok (AList.update p q side)"
  using set_update_subset [of p q side] by (fastforce simp: side_ok_def distinct_update)

lemma side_ok_delete: "side_ok side \<Longrightarrow> side_ok (AList.delete p side)"
  by (auto simp: side_ok_def AList.delete_eq distinct_map_filter)

lemma observation_flags [simp]:
  "ob_accepted (book_observation b acc bl) = acc" "ob_blockers (book_observation b acc bl) = bl"
  "ob_state (book_observation b acc bl) = bk_state b"
  by (simp_all add: book_observation_def Let_def)

lemma apply_levels_ok:
  "side_ok side \<Longrightarrow> list_all level_ok ls \<Longrightarrow> side_ok (apply_levels side ls)"
  by (induction side ls rule: apply_levels.induct)
    (auto simp: level_ok_iff side_ok_update side_ok_delete)

lemma book_levels_of_ok:
  "book_levels_of ls = Inr side \<Longrightarrow> list_all level_ok ls \<Longrightarrow> side_ok side"
  by (auto simp: book_levels_of_def unique_prices_def side_ok_def level_ok_iff list_all_iff o_def
      distinct_map_filter split: if_splits)

lemma validate_and_observe_cases:
  obtains "snd (validate_and_observe b) = b\<lparr>bk_state := BK_DEGRADED\<rparr>"
      "\<not> ob_accepted (fst (validate_and_observe b))"
      "ob_state (fst (validate_and_observe b)) = BK_DEGRADED"
  | "snd (validate_and_observe b) = b\<lparr>bk_state := BK_LIVE\<rparr>"
      "ob_accepted (fst (validate_and_observe b))" "ob_state (fst (validate_and_observe b)) = BK_LIVE"
      "bk_bids b \<noteq> []" "bk_asks b \<noteq> []" "int (length (bk_bids b)) \<le> bk_maximum_levels b"
      "int (length (bk_asks b)) \<le> bk_maximum_levels b" "best_bid (bk_bids b) < best_ask (bk_asks b)"
proof (cases "bk_bids b = [] \<or> bk_asks b = [] \<or> int (length (bk_bids b)) > bk_maximum_levels b \<or>
    int (length (bk_asks b)) > bk_maximum_levels b \<or> best_bid (bk_bids b) \<ge> best_ask (bk_asks b)")
  case True
  then show ?thesis by (intro that(1)) (auto simp: validate_and_observe_def Let_def)
next
  case False
  then show ?thesis by (intro that(2)) (simp_all add: validate_and_observe_def Let_def)
qed

lemma validate_and_observe_ok:
  assumes "side_ok (bk_bids b)" "side_ok (bk_asks b)" "bk_last_update_id b \<noteq> None"
  shows "book_ok (snd (validate_and_observe b))"
  by (rule validate_and_observe_cases [of b]) (use assms in \<open>simp_all add: book_ok_def\<close>)

text \<open>What an accepted or refused delta can do to a book.\<close>

lemma book_apply_delta_cases:
  assumes "book_apply_delta b d = (Inr ob, b')"
  obtains (refused) "b' = b" "\<not> ob_accepted ob"
  | (gap) last_id where "bk_state b = BK_LIVE" "bk_last_update_id b = Some last_id"
      "\<not> delta_in_sequence b last_id
         (last_id + (if bk_futures_sequence b \<and> \<not> bk_bridged b then 0 else 1)) d"
      "b' = b\<lparr>bk_state := BK_GAP_DETECTED\<rparr>" "\<not> ob_accepted ob"
      "ob_blockers ob = [''ORDER_BOOK_SEQUENCE_GAP'']"
  | (applied) last_id where "bk_state b = BK_LIVE" "bk_last_update_id b = Some last_id"
      "delta_in_sequence b last_id
         (last_id + (if bk_futures_sequence b \<and> \<not> bk_bridged b then 0 else 1)) d"
      "last_id + (if bk_futures_sequence b \<and> \<not> bk_bridged b then 0 else 1) \<le> dl_last_update_id d"
      "unique_prices (dl_bids d)" "unique_prices (dl_asks d)"
      "(ob, b') = validate_and_observe
         (b\<lparr>bk_bids := apply_levels (bk_bids b) (dl_bids d),
            bk_asks := apply_levels (bk_asks b) (dl_asks d),
            bk_last_update_id := Some (dl_last_update_id d),
            bk_last_event_at := Some (dl_event_time d), bk_bridged := True\<rparr>)"
proof (cases "bk_state b = BK_LIVE \<and> bk_last_update_id b \<noteq> None")
  case False
  then have "book_apply_delta b d =
      (Inr (book_observation b False [''ORDER_BOOK_SNAPSHOT_REQUIRED'']), b)"
    by (cases "bk_state b = BK_LIVE"; cases "bk_last_update_id b") (simp_all add: book_apply_delta_def)
  with assms show ?thesis by (intro refused) auto
next
  case True
  then obtain last_id where live: "bk_state b = BK_LIVE" "bk_last_update_id b = Some last_id" by auto
  let ?expected = "last_id + (if bk_futures_sequence b \<and> \<not> bk_bridged b then 0 else 1)"
  consider "dl_last_update_id d < ?expected"
    | "?expected \<le> dl_last_update_id d" "\<not> delta_in_sequence b last_id ?expected d"
    | "?expected \<le> dl_last_update_id d" "delta_in_sequence b last_id ?expected d"
    by linarith
  then show ?thesis
  proof cases
    case 1
    with assms live show ?thesis
      by (intro refused) (auto simp: book_apply_delta_def Let_def split: if_splits)
  next
    case 2
    with assms live show ?thesis
      by (intro gap [of last_id]) (auto simp: book_apply_delta_def Let_def split: if_splits)
  next
    case 3
    from assms live this have "unique_prices (dl_bids d)" "unique_prices (dl_asks d)"
      "(ob, b') = validate_and_observe (b\<lparr>bk_bids := apply_levels (bk_bids b) (dl_bids d),
         bk_asks := apply_levels (bk_asks b) (dl_asks d), bk_last_update_id := Some (dl_last_update_id d),
         bk_last_event_at := Some (dl_event_time d), bk_bridged := True\<rparr>)"
      by (auto simp: book_apply_delta_def apply_side_def Let_def case_prod_unfold split: if_splits)
    with live 3 show ?thesis by (intro applied [of last_id]) simp_all
  qed
qed

lemma book_apply_delta_ok:
  assumes "book_ok b" "list_all level_ok (dl_bids d @ dl_asks d)" "book_apply_delta b d = (Inr ob, b')"
  shows "book_ok b'"
  using assms(3)
proof (cases rule: book_apply_delta_cases)
  case (applied last_id)
  then show ?thesis
    using assms(1,2) validate_and_observe_ok [of "b\<lparr>bk_bids := apply_levels (bk_bids b) (dl_bids d),
            bk_asks := apply_levels (bk_asks b) (dl_asks d),
            bk_last_update_id := Some (dl_last_update_id d),
            bk_last_event_at := Some (dl_event_time d), bk_bridged := True\<rparr>"]
    by (simp add: book_ok_def apply_levels_ok flip: applied(7))
qed (use assms(1) in \<open>simp_all add: book_ok_def\<close>)

lemma book_apply_snapshot_ok:
  assumes "list_all level_ok (sn_bids s @ sn_asks s)" "book_apply_snapshot b s = (Inr ob, b')"
  shows "book_ok b'"
proof -
  obtain bids asks where sides: "book_levels_of (sn_bids s) = Inr bids" "book_levels_of (sn_asks s) = Inr asks"
    and b': "b' = snd (validate_and_observe (b\<lparr>bk_bids := bids, bk_asks := asks,
        bk_last_update_id := Some (sn_last_update_id s), bk_last_event_at := Some (sn_observed_at s),
        bk_bridged := sn_sequence_bridged s\<rparr>))"
    using assms(2) by (auto simp: book_apply_snapshot_def Let_def case_prod_unfold split: if_splits sum.splits)
  show ?thesis unfolding b'
    using assms(1) book_levels_of_ok [OF sides(1)] book_levels_of_ok [OF sides(2)]
    by (intro validate_and_observe_ok) simp_all
qed

section \<open>Books fed by messages\<close>

datatype book_input = Snapshot order_book_snapshot | Delta order_book_delta

fun input_ok :: "book_input \<Rightarrow> bool" where
  "input_ok (Snapshot s) = list_all level_ok (sn_bids s @ sn_asks s)"
| "input_ok (Delta d) = list_all level_ok (dl_bids d @ dl_asks d)"

fun book_feed :: "order_book \<Rightarrow> book_input \<Rightarrow> order_book_observation result \<times> order_book" where
  "book_feed b (Snapshot s) = book_apply_snapshot b s"
| "book_feed b (Delta d) = book_apply_delta b d"

text \<open>A run that stops at the first exception, as a consumer that lets it propagate.\<close>

definition book_run :: "order_book \<Rightarrow> book_input list \<Rightarrow> order_book result" where
  "book_run = foldE (\<lambda>b i. case book_feed b i of (Inl e, _) \<Rightarrow> Inl e | (Inr _, b') \<Rightarrow> Inr b')"

lemma book_feed_ok: "book_ok b \<Longrightarrow> input_ok i \<Longrightarrow> book_feed b i = (Inr ob, b') \<Longrightarrow> book_ok b'"
  by (cases i) (auto intro: book_apply_delta_ok book_apply_snapshot_ok)

lemma book_run_ok:
  "book_run b is = Inr b' \<Longrightarrow> book_ok b \<Longrightarrow> list_all input_ok is \<Longrightarrow> book_ok b'"
proof (induction "is" arbitrary: b)
  case (Cons i "is")
  then show ?case
    by (cases "book_feed b i") (auto simp: book_run_def split: sum.splits intro: book_feed_ok)
qed (simp add: book_run_def)

lemma new_order_book_ok: "new_order_book symbol n fut = Inr b \<Longrightarrow> book_ok b"
  by (auto simp: new_order_book_def Let_def book_ok_def)

section \<open>What a delta does to the price map\<close>

definition level_change :: "book_level list \<Rightarrow> (dec \<Rightarrow> dec option) \<Rightarrow> dec \<Rightarrow> dec option" where
  "level_change ls m p =
     (case find (\<lambda>l. lv_price l = p) ls of
        None \<Rightarrow> m p
      | Some l \<Rightarrow> if lv_quantity l = 0 then None else Some (lv_quantity l))"

lemma apply_levels_map:
  "unique_prices ls \<Longrightarrow> map_of (apply_levels side ls) = level_change ls (map_of side)"
proof (induction side ls rule: apply_levels.induct)
  case (2 side l ls)
  let ?side = "if lv_quantity l = 0 then AList.delete (lv_price l) side
    else AList.update (lv_price l) (lv_quantity l) side"
  have fresh: "find (\<lambda>k. lv_price k = lv_price l) ls = None"
    using 2(2) unfolding unique_prices_def find_None_iff by (simp add: image_iff) metis
  have "level_change ls (map_of ?side) p = level_change (l # ls) (map_of side) p" for p
    by (cases "p = lv_price l")
      (use fresh in \<open>auto simp: level_change_def update_conv' delete_conv' split: option.splits\<close>)
  moreover have "map_of (apply_levels ?side ls) = level_change ls (map_of ?side)"
    using 2 by (simp add: unique_prices_def)
  ultimately show ?case by (simp add: fun_eq_iff)
qed (simp add: level_change_def fun_eq_iff)

section \<open>Properties\<close>

text \<open>
  C38: feeding a new book any sequence of snapshots and deltas that raises nothing leaves it well
  formed: prices are unique per side, prices and quantities positive, and a LIVE book has both
  sides, respects its level limit, knows its update id and is not crossed.
\<close>

theorem order_book_run_ok:
  assumes "new_order_book symbol levels futures = Inr b" "list_all input_ok msgs"
    and "book_run b msgs = Inr b'"
  shows "book_ok b'"
  using assms(3) new_order_book_ok [OF assms(1)] assms(2) by (rule book_run_ok)

definition example_snapshot :: order_book_snapshot where
  "example_snapshot = \<lparr>sn_symbol = ''BTCUSDT'', sn_last_update_id = 10, sn_observed_at = Aware 0,
     sn_bids = [\<lparr>lv_price = 99, lv_quantity = 2\<rparr>, \<lparr>lv_price = 98, lv_quantity = 1\<rparr>],
     sn_asks = [\<lparr>lv_price = 101, lv_quantity = 3\<rparr>], sn_sequence_bridged = False\<rparr>"

definition example_delta :: order_book_delta where
  "example_delta = \<lparr>dl_first_update_id = 11, dl_last_update_id = 12, dl_event_time = Aware 5,
     dl_bids = [\<lparr>lv_price = 98, lv_quantity = 0\<rparr>, \<lparr>lv_price = 100, lv_quantity = 4\<rparr>],
     dl_asks = [\<lparr>lv_price = 101, lv_quantity = 1\<rparr>], dl_previous_update_id = None\<rparr>"

theorem order_book_run_ok_witness:
  "case new_order_book ''btcusdt'' 5000 False of Inl _ \<Rightarrow> False | Inr b \<Rightarrow>
     (case book_run b [Snapshot example_snapshot, Delta example_delta] of
        Inl _ \<Rightarrow> False
      | Inr b' \<Rightarrow> book_ok b' \<and> bk_state b' = BK_LIVE \<and> bk_bids b' = [(99, 2), (100, 4)])"
proof -
  have run: "case new_order_book ''btcusdt'' 5000 False of Inl _ \<Rightarrow> False | Inr b \<Rightarrow>
     (case book_run b [Snapshot example_snapshot, Delta example_delta] of
        Inl _ \<Rightarrow> False
      | Inr b' \<Rightarrow> bk_state b' = BK_LIVE \<and> bk_bids b' = [(99, 2), (100, 4)])" by code_simp
  moreover have "list_all input_ok [Snapshot example_snapshot, Delta example_delta]" by code_simp
  ultimately show ?thesis
    using order_book_run_ok [of "''btcusdt''" 5000 False _ "[Snapshot example_snapshot, Delta example_delta]"]
    by (auto split: sum.splits)
qed

text \<open>
  A delta that is accepted replaces exactly the price levels it names, a zero quantity
  removing the level, and advances the update id; the observation is LIVE.
\<close>

theorem accepted_delta_levels:
  assumes "book_apply_delta b d = (Inr ob, b')" "ob_accepted ob"
  shows "map_of (bk_bids b') = level_change (dl_bids d) (map_of (bk_bids b)) \<and>
    map_of (bk_asks b') = level_change (dl_asks d) (map_of (bk_asks b)) \<and>
    bk_last_update_id b' = Some (dl_last_update_id d) \<and> bk_state b' = BK_LIVE \<and> ob_state ob = BK_LIVE"
  using assms(1)
proof (cases rule: book_apply_delta_cases)
  case (applied last_id)
  let ?b = "b\<lparr>bk_bids := apply_levels (bk_bids b) (dl_bids d),
     bk_asks := apply_levels (bk_asks b) (dl_asks d), bk_last_update_id := Some (dl_last_update_id d),
     bk_last_event_at := Some (dl_event_time d), bk_bridged := True\<rparr>"
  have "ob = fst (validate_and_observe ?b)" "b' = snd (validate_and_observe ?b)"
    by (simp_all flip: applied(7))
  with assms(2) have "b' = ?b\<lparr>bk_state := BK_LIVE\<rparr>" "ob_state ob = BK_LIVE"
    by (rule_tac [!] validate_and_observe_cases [of ?b]) simp_all
  with applied(5,6) show ?thesis by (simp add: apply_levels_map)
qed (use assms(2) in simp_all)

theorem accepted_delta_levels_witness:
  "case snd (book_feed \<lparr>bk_symbol = ''BTCUSDT'', bk_maximum_levels = 10, bk_futures_sequence = False,
       bk_state = BK_EMPTY, bk_last_update_id = None, bk_last_event_at = None, bk_bids = [],
       bk_asks = [], bk_bridged = False\<rparr> (Snapshot example_snapshot)) of b \<Rightarrow>
     map_of (bk_bids (snd (book_apply_delta b example_delta))) =
       level_change (dl_bids example_delta) (map_of (bk_bids b)) \<and>
     bk_last_update_id (snd (book_apply_delta b example_delta)) = Some 12"
proof -
  let ?b0 = "\<lparr>bk_symbol = ''BTCUSDT'', bk_maximum_levels = 10, bk_futures_sequence = False,
       bk_state = BK_EMPTY, bk_last_update_id = None, bk_last_event_at = None, bk_bids = [],
       bk_asks = [], bk_bridged = False\<rparr>"
  let ?b = "snd (book_feed ?b0 (Snapshot example_snapshot))"
  have "case fst (book_apply_delta ?b example_delta) of Inl _ \<Rightarrow> False | Inr ob \<Rightarrow> ob_accepted ob"
    by code_simp
  then obtain ob where "book_apply_delta ?b example_delta = (Inr ob, snd (book_apply_delta ?b example_delta))"
    "ob_accepted ob"
    by (cases "book_apply_delta ?b example_delta") (auto split: sum.splits)
  from accepted_delta_levels [OF this] show ?thesis by (simp add: example_delta_def)
qed

text \<open>
  The spot book fails closed on a sequence gap. A delta that starts after the next expected
  update id is refused with a gap blocker and changes no level; from then on every delta is
  refused and the book stays as it is, until a snapshot is applied.
\<close>

theorem sequence_gap_fails_closed:
  assumes "bk_state b = BK_LIVE" "bk_last_update_id b = Some n" "\<not> bk_futures_sequence b"
    and "n + 1 < dl_first_update_id d" "delta_post_init d = Inr d"
    and "case bk_last_event_at b of None \<Rightarrow> True | Some t \<Rightarrow> instant t \<le> instant (dl_event_time d)"
  shows "\<exists>ob. book_apply_delta b d = (Inr ob, b\<lparr>bk_state := BK_GAP_DETECTED\<rparr>) \<and>
      \<not> ob_accepted ob \<and> ob_blockers ob = [''ORDER_BOOK_SEQUENCE_GAP''] \<and>
      (\<forall>later. \<exists>ob'. book_apply_delta (b\<lparr>bk_state := BK_GAP_DETECTED\<rparr>) later =
         (Inr ob', b\<lparr>bk_state := BK_GAP_DETECTED\<rparr>) \<and> \<not> ob_accepted ob')"
proof -
  have "dl_first_update_id d \<le> dl_last_update_id d" using assms(5) by (simp add: delta_post_init_def)
  with assms(4) have "\<not> dl_last_update_id d < n + 1" "\<not> dl_first_update_id d \<le> n + 1" by linarith+
  moreover have "\<not> (case bk_last_event_at b of None \<Rightarrow> False | Some t \<Rightarrow> instant (dl_event_time d) < instant t)"
    using assms(6) by (cases "bk_last_event_at b") simp_all
  ultimately show ?thesis
    using assms(1-3) by (simp add: book_apply_delta_def delta_in_sequence_def Let_def)
qed

theorem sequence_gap_fails_closed_witness:
  "\<exists>ob. book_apply_delta
      \<lparr>bk_symbol = ''BTCUSDT'', bk_maximum_levels = 10, bk_futures_sequence = False,
       bk_state = BK_LIVE, bk_last_update_id = Some 5, bk_last_event_at = Some (Aware 1),
       bk_bids = [(99, 1)], bk_asks = [(100, 1)], bk_bridged = True\<rparr> example_delta =
      (Inr ob, \<lparr>bk_symbol = ''BTCUSDT'', bk_maximum_levels = 10, bk_futures_sequence = False,
       bk_state = BK_GAP_DETECTED, bk_last_update_id = Some 5, bk_last_event_at = Some (Aware 1),
       bk_bids = [(99, 1)], bk_asks = [(100, 1)], bk_bridged = True\<rparr>)"
  using sequence_gap_fails_closed [of "\<lparr>bk_symbol = ''BTCUSDT'', bk_maximum_levels = 10,
      bk_futures_sequence = False, bk_state = BK_LIVE, bk_last_update_id = Some 5,
      bk_last_event_at = Some (Aware 1), bk_bids = [(99, 1)], bk_asks = [(100, 1)],
      bk_bridged = True\<rparr>" 5 example_delta]
  by (auto simp: example_delta_def delta_post_init_def)

text \<open>
  A delta is not applied atomically. When its bid levels are fine and its ask levels repeat a
  price, the call raises after the bids were changed and the book stays LIVE; such a book can be
  crossed, so the invariant of a LIVE book does not survive a raising delta.
\<close>

theorem delta_not_atomic:
  "\<exists>b d e b'. book_ok b \<and> delta_post_init d = Inr d \<and> list_all level_ok (dl_bids d @ dl_asks d) \<and>
     book_apply_delta b d = (Inl e, b') \<and> bk_state b' = BK_LIVE \<and>
     best_bid (bk_bids b') \<ge> best_ask (bk_asks b') \<and> \<not> book_ok b'"
proof -
  let ?b = "\<lparr>bk_symbol = ''BTCUSDT'', bk_maximum_levels = 10, bk_futures_sequence = False,
      bk_state = BK_LIVE, bk_last_update_id = Some 10, bk_last_event_at = None,
      bk_bids = [(99, 1)], bk_asks = [(100, 1)], bk_bridged = True\<rparr>"
  let ?d = "\<lparr>dl_first_update_id = 11, dl_last_update_id = 11, dl_event_time = Aware 1,
      dl_bids = [\<lparr>lv_price = 101, lv_quantity = 1\<rparr>],
      dl_asks = [\<lparr>lv_price = 100, lv_quantity = 0\<rparr>, \<lparr>lv_price = 100, lv_quantity = 2\<rparr>],
      dl_previous_update_id = None\<rparr>"
  have "book_apply_delta ?b ?d = (Inl (ValueError ''order-book delta prices must be unique''),
      ?b\<lparr>bk_bids := [(99, 1), (101, 1)]\<rparr>)"
    by (simp add: book_apply_delta_def delta_in_sequence_def apply_side_def unique_prices_def)
  moreover have "book_ok ?b" by (simp add: book_ok_def side_ok_def best_bid_def best_ask_def)
  moreover have "delta_post_init ?d = Inr ?d" by (simp add: delta_post_init_def)
  moreover have "list_all level_ok (dl_bids ?d @ dl_asks ?d)" by (simp add: level_ok_iff)
  moreover have "best_bid [(99, 1), (101, 1)] \<ge> best_ask [(100, 1)]"
    by (simp add: best_bid_def best_ask_def)
  ultimately show ?thesis
    by (intro exI [of _ ?b] exI [of _ ?d] exI conjI) (auto simp: book_ok_def)
qed

end
