(* ===== verification/Stream_Recovery.thy ===== *)
theory Stream_Recovery
  imports Py_Prelude Complex_Main
begin

text \<open>
  \<^verbatim>\<open>exchange/stream_state.py\<close>: the state machine of a public stream (connect, snapshot, updates,
  gaps, backfill, reconnect, staleness, stop). Every method returns its transition, or the
  exception it raises, with the machine it leaves behind. Retry delays are floats in the source;
  they are a positive float scaled by a power of two and a minimum, both exact, so they are
  rationals here. \<^verbatim>\<open>2**exponent\<close> no longer converts to a float beyond exponent 1023.
\<close>

section \<open>Data\<close>

datatype stream_state =
  SS_DISCONNECTED | SS_CONNECTING | SS_SYNCING_SNAPSHOT | SS_LIVE | SS_GAP_DETECTED
  | SS_BACKFILLING | SS_DEGRADED | SS_STOPPED

record stream_policy =
  sp_max_reconnect_attempts :: int
  sp_maximum_sequence_gap :: int
  sp_maximum_queue_depth :: int
  sp_stale_after :: timedelta
  sp_base_retry_seconds :: rat
  sp_maximum_retry_seconds :: rat
  sp_maximum_connection_age :: timedelta

definition stream_policy_post_init :: "stream_policy \<Rightarrow> stream_policy result" where
  "stream_policy_post_init p = validate
     [(min (sp_max_reconnect_attempts p) (min (sp_maximum_sequence_gap p) (sp_maximum_queue_depth p)) < 1
        \<or> sp_stale_after p \<le> 0 \<or> sp_maximum_connection_age p \<le> 0 \<or> sp_base_retry_seconds p \<le> 0
        \<or> sp_maximum_retry_seconds p < sp_base_retry_seconds p,
       ''stream recovery policy is invalid'')] p"

definition default_stream_policy :: stream_policy where
  "default_stream_policy =
     \<lparr>sp_max_reconnect_attempts = 5, sp_maximum_sequence_gap = 10000, sp_maximum_queue_depth = 50000,
      sp_stale_after = seconds 30, sp_base_retry_seconds = 1, sp_maximum_retry_seconds = 30,
      sp_maximum_connection_age = seconds (23 * 3600 + 55 * 60)\<rparr>"

record stream_transition =
  tr_state :: stream_state
  tr_accepted :: bool
  tr_last_sequence :: "int option"
  tr_retry_after_seconds :: rat
  tr_blockers :: "string list"
  tr_execution_allowed :: bool

record stream =
  sr_policy :: stream_policy
  sr_state :: stream_state
  sr_last_sequence :: "int option"
  sr_reconnect_attempts :: int
  sr_last_event_at :: "datetime option"
  sr_connected_at :: "datetime option"

definition new_stream :: "stream_policy \<Rightarrow> stream" where
  "new_stream p = \<lparr>sr_policy = p, sr_state = SS_DISCONNECTED, sr_last_sequence = None,
     sr_reconnect_attempts = 0, sr_last_event_at = None, sr_connected_at = None\<rparr>"

section \<open>Operations\<close>

type_synonym stream_outcome = "stream_transition result \<times> stream"

definition stream_result :: "stream \<Rightarrow> bool \<Rightarrow> string list \<Rightarrow> rat \<Rightarrow> stream_transition" where
  "stream_result s accepted blockers retry =
     \<lparr>tr_state = sr_state s, tr_accepted = accepted, tr_last_sequence = sr_last_sequence s,
      tr_retry_after_seconds = retry, tr_blockers = blockers, tr_execution_allowed = False\<rparr>"

text \<open>\<^verbatim>\<open>return self._result(...)\<close> of a machine.\<close>

definition settle :: "stream \<Rightarrow> bool \<Rightarrow> string list \<Rightarrow> stream_outcome" where
  "settle s accepted blockers = (Inr (stream_result s accepted blockers 0), s)"

definition stream_state_name :: "stream_state \<Rightarrow> string" where
  "stream_state_name st =
     (case st of SS_DISCONNECTED \<Rightarrow> ''DISCONNECTED'' | SS_CONNECTING \<Rightarrow> ''CONNECTING''
      | SS_SYNCING_SNAPSHOT \<Rightarrow> ''SYNCING_SNAPSHOT'' | SS_LIVE \<Rightarrow> ''LIVE''
      | SS_GAP_DETECTED \<Rightarrow> ''GAP_DETECTED'' | SS_BACKFILLING \<Rightarrow> ''BACKFILLING''
      | SS_DEGRADED \<Rightarrow> ''DEGRADED'' | SS_STOPPED \<Rightarrow> ''STOPPED'')"

definition stream_require_state :: "stream \<Rightarrow> stream_state list \<Rightarrow> unit result" where
  "stream_require_state s allowed = require (sr_state s \<in> set allowed)
     (ValueError (''invalid stream transition from '' @ stream_state_name (sr_state s)))"

definition stream_require_aware :: "datetime \<Rightarrow> unit result" where
  "stream_require_aware t = require (is_aware t) (ValueError ''stream timestamp must be timezone-aware'')"

definition validate_sequence_and_time :: "stream \<Rightarrow> int \<Rightarrow> datetime \<Rightarrow> unit result" where
  "validate_sequence_and_time s sq t = validate
     [(sq < 1, ''stream sequence must be positive''),
      (\<not> is_aware t, ''stream timestamp must be timezone-aware''),
      (case sr_last_event_at s of None \<Rightarrow> False | Some l \<Rightarrow> instant t < instant l,
       ''stream event time cannot move backwards'')] ()"

text \<open>A guard that raises leaves the machine alone.\<close>

definition guarded :: "stream \<Rightarrow> unit result \<Rightarrow> stream_outcome \<Rightarrow> stream_outcome" where
  "guarded s g k = (case g of Inl e \<Rightarrow> (Inl e, s) | Inr _ \<Rightarrow> k)"

definition stream_start :: "stream \<Rightarrow> stream_outcome" where
  "stream_start s = guarded s (stream_require_state s [SS_DISCONNECTED])
     (settle (s\<lparr>sr_state := SS_CONNECTING\<rparr>) True [])"

definition stream_connected :: "stream \<Rightarrow> datetime option \<Rightarrow> stream_outcome" where
  "stream_connected s observed =
     guarded s (stream_require_state s [SS_CONNECTING])
       (guarded s (case observed of None \<Rightarrow> Inr () | Some t \<Rightarrow> stream_require_aware t)
         (settle (s\<lparr>sr_connected_at := observed, sr_state := SS_SYNCING_SNAPSHOT\<rparr>) True []))"

definition stream_apply_snapshot :: "stream \<Rightarrow> int \<Rightarrow> datetime \<Rightarrow> stream_outcome" where
  "stream_apply_snapshot s sq t =
     guarded s (stream_require_state s [SS_SYNCING_SNAPSHOT, SS_BACKFILLING])
       (guarded s (validate_sequence_and_time s sq t)
         (settle (s\<lparr>sr_last_sequence := Some sq, sr_last_event_at := Some t,
                    sr_reconnect_attempts := 0, sr_state := SS_LIVE\<rparr>) True []))"

definition stream_apply_update :: "stream \<Rightarrow> int \<Rightarrow> int \<Rightarrow> datetime \<Rightarrow> int \<Rightarrow> stream_outcome" where
  "stream_apply_update s first_sequence last_sequence t queue_depth =
     guarded s (stream_require_state s [SS_LIVE])
       (guarded s (validate_sequence_and_time s last_sequence t)
         (guarded s (validate
              [(first_sequence < 1 \<or> first_sequence > last_sequence \<or> queue_depth < 0,
                ''stream update sequence or queue depth is invalid'')] ())
           (if queue_depth > sp_maximum_queue_depth (sr_policy s)
            then settle (s\<lparr>sr_state := SS_DEGRADED\<rparr>) False [''STREAM_BACKPRESSURE_LIMIT_EXCEEDED'']
            else case sr_last_sequence s of
              None \<Rightarrow> (Inl (RuntimeError ''live stream is missing its snapshot sequence''), s)
            | Some l \<Rightarrow>
                let expected = l + 1
                in if last_sequence < expected then settle s False []
                   else if first_sequence > expected
                   then if first_sequence - expected > sp_maximum_sequence_gap (sr_policy s)
                        then settle (s\<lparr>sr_state := SS_DEGRADED\<rparr>) False
                               [''STREAM_SEQUENCE_GAP_EXCEEDS_LIMIT'']
                        else settle (s\<lparr>sr_state := SS_GAP_DETECTED\<rparr>) False [''STREAM_SEQUENCE_GAP'']
                   else settle (s\<lparr>sr_last_sequence := Some last_sequence,
                                  sr_last_event_at := Some t\<rparr>) True [])))"

definition stream_begin_backfill :: "stream \<Rightarrow> stream_outcome" where
  "stream_begin_backfill s = guarded s (stream_require_state s [SS_GAP_DETECTED])
     (settle (s\<lparr>sr_state := SS_BACKFILLING\<rparr>) True [''REST_BACKFILL_IN_PROGRESS''])"

definition reject_unsequenced_update :: "stream \<Rightarrow> stream_outcome" where
  "reject_unsequenced_update s = guarded s (stream_require_state s [SS_LIVE])
     (settle s False [''KLINE_TRADE_SEQUENCE_UNAVAILABLE''])"

definition stream_disconnected :: "stream \<Rightarrow> stream_outcome" where
  "stream_disconnected s =
     guarded s (stream_require_state s
         [SS_CONNECTING, SS_SYNCING_SNAPSHOT, SS_LIVE, SS_GAP_DETECTED, SS_BACKFILLING])
       (let attempts = sr_reconnect_attempts s + 1; s1 = s\<lparr>sr_reconnect_attempts := attempts\<rparr>
        in if attempts > sp_max_reconnect_attempts (sr_policy s)
           then settle (s1\<lparr>sr_state := SS_DEGRADED\<rparr>) False [''STREAM_RECONNECT_CIRCUIT_OPEN'']
           else
             let s2 = s1\<lparr>sr_state := SS_DISCONNECTED\<rparr>; exponent = attempts - 1
             in if exponent > 1023
                then (Inl (OverflowError ''int too large to convert to float''), s2)
                else let retry = min (sp_maximum_retry_seconds (sr_policy s))
                                     (sp_base_retry_seconds (sr_policy s) * 2 ^ nat exponent)
                     in (Inr (stream_result s2 False [''PUBLIC_STREAM_DISCONNECTED''] retry), s2))"

definition server_shutdown :: "stream \<Rightarrow> stream_outcome" where
  "server_shutdown s =
     guarded s (stream_require_state s [SS_SYNCING_SNAPSHOT, SS_LIVE, SS_GAP_DETECTED, SS_BACKFILLING])
       (settle (s\<lparr>sr_state := SS_DISCONNECTED, sr_connected_at := None\<rparr>) False
          [''STREAM_SERVER_SHUTDOWN''])"

definition check_connection_rollover :: "stream \<Rightarrow> datetime \<Rightarrow> stream_outcome" where
  "check_connection_rollover s now =
     guarded s (stream_require_state s [SS_LIVE])
       (guarded s (stream_require_aware now)
         (case sr_connected_at s of
            None \<Rightarrow> (Inl (ValueError ''stream connection age is unavailable or invalid''), s)
          | Some c \<Rightarrow>
              if instant now < instant c
              then (Inl (ValueError ''stream connection age is unavailable or invalid''), s)
              else if instant now - instant c \<ge> sp_maximum_connection_age (sr_policy s)
              then settle (s\<lparr>sr_state := SS_DISCONNECTED, sr_connected_at := None\<rparr>) False
                     [''STREAM_CONNECTION_ROLLOVER_REQUIRED'']
              else settle s True []))"

definition check_staleness :: "stream \<Rightarrow> datetime \<Rightarrow> stream_outcome" where
  "check_staleness s now =
     guarded s (stream_require_state s [SS_LIVE])
       (guarded s (stream_require_aware now)
         (case sr_last_event_at s of
            None \<Rightarrow> (Inl (ValueError ''stream staleness time is invalid''), s)
          | Some l \<Rightarrow>
              if instant now < instant l then (Inl (ValueError ''stream staleness time is invalid''), s)
              else if instant now - instant l > sp_stale_after (sr_policy s)
              then settle (s\<lparr>sr_state := SS_DEGRADED\<rparr>) False [''PUBLIC_STREAM_STALE'']
              else settle s True []))"

definition stream_stop :: "stream \<Rightarrow> stream_outcome" where
  "stream_stop s =
     (if sr_state s = SS_STOPPED then (Inl (ValueError ''stream is already stopped''), s)
      else settle (s\<lparr>sr_state := SS_STOPPED\<rparr>) True [])"

section \<open>The machine as a step relation\<close>

datatype stream_call =
    Call_start | Call_connected "datetime option" | Call_apply_snapshot int datetime
  | Call_apply_update int int datetime int | Call_begin_backfill | Call_reject_unsequenced
  | Call_disconnected | Call_server_shutdown | Call_check_rollover datetime
  | Call_check_staleness datetime | Call_stop

fun perform :: "stream \<Rightarrow> stream_call \<Rightarrow> stream_outcome" where
  "perform s Call_start = stream_start s"
| "perform s (Call_connected t) = stream_connected s t"
| "perform s (Call_apply_snapshot n t) = stream_apply_snapshot s n t"
| "perform s (Call_apply_update f l t q) = stream_apply_update s f l t q"
| "perform s Call_begin_backfill = stream_begin_backfill s"
| "perform s Call_reject_unsequenced = reject_unsequenced_update s"
| "perform s Call_disconnected = stream_disconnected s"
| "perform s Call_server_shutdown = server_shutdown s"
| "perform s (Call_check_rollover t) = check_connection_rollover s t"
| "perform s (Call_check_staleness t) = check_staleness s t"
| "perform s Call_stop = stream_stop s"

text \<open>A call that raises is a step too: the machine it leaves behind goes on being used.\<close>

inductive stream_step :: "stream \<Rightarrow> stream \<Rightarrow> bool" where
  call: "perform s c = (r, s') \<Longrightarrow> stream_step s s'"

inductive stream_reach :: "stream_policy \<Rightarrow> stream \<Rightarrow> bool" for p where
  init: "stream_reach p (new_stream p)"
| step: "stream_reach p s \<Longrightarrow> stream_step s s' \<Longrightarrow> stream_reach p s'"

definition stream_ok :: "stream_policy \<Rightarrow> stream \<Rightarrow> bool" where
  "stream_ok p s \<longleftrightarrow> sr_policy s = p \<and>
     (sr_state s \<in> {SS_LIVE, SS_GAP_DETECTED, SS_BACKFILLING} \<longrightarrow>
        (\<exists>n t. sr_last_sequence s = Some n \<and> 1 \<le> n \<and> sr_last_event_at s = Some t \<and> is_aware t)) \<and>
     (sr_state s \<in> {SS_LIVE, SS_GAP_DETECTED, SS_BACKFILLING} \<longrightarrow> sr_reconnect_attempts s = 0) \<and>
     0 \<le> sr_reconnect_attempts s \<and>
     (sr_state s \<in> {SS_DISCONNECTED, SS_CONNECTING, SS_SYNCING_SNAPSHOT} \<longrightarrow>
        sr_reconnect_attempts s \<le> sp_max_reconnect_attempts p)"

lemmas stream_op_defs = stream_start_def stream_connected_def stream_apply_snapshot_def
  stream_begin_backfill_def reject_unsequenced_update_def server_shutdown_def
  check_connection_rollover_def check_staleness_def stream_stop_def

lemmas stream_guard_defs = guarded_def settle_def stream_require_state_def stream_require_aware_def
  require_def validate_sequence_and_time_def

inductive_cases stream_stepE: "stream_step s s'"

lemma guarded_cases:
  assumes "guarded s g k = (r, s')"
  obtains e where "g = Inl e" "r = Inl e" "s' = s" | "g = Inr ()" "k = (r, s')"
  using assms by (cases g) (auto simp: guarded_def)

lemma stream_ok_stop: "stream_ok p s \<Longrightarrow> stream_ok p (s\<lparr>sr_state := SS_STOPPED\<rparr>)"
  "stream_ok p s \<Longrightarrow> stream_ok p (s\<lparr>sr_state := SS_DEGRADED\<rparr>)"
  by (simp_all add: stream_ok_def)

lemma stream_update_cases:
  assumes "stream_apply_update s f l t q = (r, s')"
  obtains (raised) e where "r = Inl e" "s' = s"
  | (closed) st tr where "s' = s\<lparr>sr_state := st\<rparr>" "st = SS_DEGRADED \<or> st = SS_GAP_DETECTED"
      "sr_state s = SS_LIVE" "r = Inr tr" "\<not> tr_accepted tr"
  | (stale) tr where "s' = s" "r = Inr tr" "\<not> tr_accepted tr"
  | (advanced) n tr where "sr_state s = SS_LIVE" "sr_last_sequence s = Some n" "f \<le> n + 1" "n < l" "is_aware t"
      "s' = s\<lparr>sr_last_sequence := Some l, sr_last_event_at := Some t\<rparr>" "r = Inr tr" "tr_accepted tr"
proof (cases r)
  case (Inl e)
  with assms have "s' = s"
    by (auto simp: stream_apply_update_def Let_def settle_def split: if_splits option.splits elim!: guarded_cases)
  with Inl show ?thesis by (rule raised)
next
  case (Inr tr)
  from assms have live: "sr_state s = SS_LIVE" and t: "is_aware t"
    and body: "(if q > sp_maximum_queue_depth (sr_policy s)
        then settle (s\<lparr>sr_state := SS_DEGRADED\<rparr>) False [''STREAM_BACKPRESSURE_LIMIT_EXCEEDED'']
        else case sr_last_sequence s of
          None \<Rightarrow> (Inl (RuntimeError ''live stream is missing its snapshot sequence''), s)
        | Some n \<Rightarrow> if l < n + 1 then settle s False []
            else if f > n + 1
            then if f - (n + 1) > sp_maximum_sequence_gap (sr_policy s)
                 then settle (s\<lparr>sr_state := SS_DEGRADED\<rparr>) False [''STREAM_SEQUENCE_GAP_EXCEEDS_LIMIT'']
                 else settle (s\<lparr>sr_state := SS_GAP_DETECTED\<rparr>) False [''STREAM_SEQUENCE_GAP'']
            else settle (s\<lparr>sr_last_sequence := Some l, sr_last_event_at := Some t\<rparr>) True []) = (r, s')"
    unfolding stream_apply_update_def Let_def Inr
    by (auto elim!: guarded_cases simp: stream_require_state_def validate_sequence_and_time_def)
  show ?thesis
  proof (cases "sr_last_sequence s")
    case None
    with body Inr live show ?thesis
      by (intro closed [of SS_DEGRADED tr]) (auto simp: settle_def stream_result_def split: if_splits)
  next
    case (Some n)
    consider "q > sp_maximum_queue_depth (sr_policy s)" | "\<not> q > sp_maximum_queue_depth (sr_policy s)" "l < n + 1"
      | "\<not> q > sp_maximum_queue_depth (sr_policy s)" "\<not> l < n + 1" "f > n + 1"
      | "\<not> q > sp_maximum_queue_depth (sr_policy s)" "\<not> l < n + 1" "\<not> f > n + 1" by blast
    then show ?thesis
    proof cases
      case 1
      with body Inr live show ?thesis
        by (intro closed [of SS_DEGRADED tr]) (auto simp: settle_def stream_result_def)
    next
      case 2
      with body Inr Some show ?thesis by (intro stale) (auto simp: settle_def stream_result_def)
    next
      case 3
      with body Inr Some live show ?thesis
        by (intro closed [of "sr_state s'" tr]) (auto simp: settle_def stream_result_def split: if_splits)
    next
      case 4
      with body Inr Some live t show ?thesis
        by (intro advanced [of n tr]) (auto simp: settle_def stream_result_def)
    qed
  qed
qed

text \<open>The other operations: one preservation lemma each.\<close>

lemma snd_settle [simp]: "snd (settle s a bl) = s"
  by (simp add: settle_def)

lemma guarded_ok:
  "stream_ok p s \<Longrightarrow> (g = Inr () \<Longrightarrow> stream_ok p (snd k)) \<Longrightarrow> stream_ok p (snd (guarded s g k))"
  by (cases g) (simp_all add: guarded_def)

lemma stream_require_state_Inr [simp]:
  "stream_require_state s allowed = Inr u \<longleftrightarrow> sr_state s \<in> set allowed"
  by (simp add: stream_require_state_def)

lemma stream_ok_update: "stream_ok p s \<Longrightarrow> stream_ok p (snd (stream_apply_update s f l t q))"
proof -
  assume ok: "stream_ok p s"
  obtain r s' where upd: "stream_apply_update s f l t q = (r, s')" by (rule prod.exhaust)
  then have "stream_ok p s'"
  proof (cases rule: stream_update_cases)
    case (closed st tr)
    with ok show ?thesis by (auto simp: stream_ok_def)
  next
    case (advanced n tr)
    with ok show ?thesis by (auto simp: stream_ok_def)
  qed (use ok in simp_all)
  with upd show ?thesis by simp
qed

lemma stream_ok_disconnected: "stream_ok p s \<Longrightarrow> stream_ok p (snd (stream_disconnected s))"
  unfolding stream_disconnected_def Let_def by (intro guarded_ok) (auto simp: stream_ok_def)

lemma stream_ok_start: "stream_ok p s \<Longrightarrow> stream_ok p (snd (stream_start s))"
  unfolding stream_start_def by (intro guarded_ok) (auto simp: stream_ok_def)

lemma stream_ok_connected: "stream_ok p s \<Longrightarrow> stream_ok p (snd (stream_connected s t))"
  unfolding stream_connected_def by (intro guarded_ok) (auto simp: stream_ok_def)

lemma stream_ok_snapshot: "stream_ok p s \<Longrightarrow> stream_ok p (snd (stream_apply_snapshot s n t))"
  unfolding stream_apply_snapshot_def
  by (intro guarded_ok) (auto simp: stream_ok_def validate_sequence_and_time_def)

lemma stream_ok_backfill: "stream_ok p s \<Longrightarrow> stream_ok p (snd (stream_begin_backfill s))"
  unfolding stream_begin_backfill_def by (intro guarded_ok) (auto simp: stream_ok_def)

lemma stream_ok_reject: "stream_ok p s \<Longrightarrow> stream_ok p (snd (reject_unsequenced_update s))"
  unfolding reject_unsequenced_update_def by (intro guarded_ok) simp_all

lemma stream_policy_attempts: "stream_policy_post_init p = Inr p \<Longrightarrow> 1 \<le> sp_max_reconnect_attempts p"
  by (auto simp: stream_policy_post_init_def)

lemma stream_ok_shutdown:
  "stream_policy_post_init p = Inr p \<Longrightarrow> stream_ok p s \<Longrightarrow> stream_ok p (snd (server_shutdown s))"
  unfolding server_shutdown_def
  by (intro guarded_ok) (auto simp: stream_ok_def dest: stream_policy_attempts)

lemma stream_ok_rollover:
  assumes "stream_policy_post_init p = Inr p" "stream_ok p s"
  shows "stream_ok p (snd (check_connection_rollover s t))"
  unfolding check_connection_rollover_def
proof (intro guarded_ok)
  assume "stream_require_state s [SS_LIVE] = Inr ()"
  with assms stream_policy_attempts [OF assms(1)]
  have "stream_ok p (s\<lparr>sr_state := SS_DISCONNECTED, sr_connected_at := None\<rparr>)"
    by (auto simp: stream_ok_def)
  with assms(2) show "stream_ok p (snd (case sr_connected_at s of
      None \<Rightarrow> (Inl (ValueError ''stream connection age is unavailable or invalid''), s)
    | Some c \<Rightarrow> if instant t < instant c
        then (Inl (ValueError ''stream connection age is unavailable or invalid''), s)
        else if instant t - instant c \<ge> sp_maximum_connection_age (sr_policy s)
        then settle (s\<lparr>sr_state := SS_DISCONNECTED, sr_connected_at := None\<rparr>) False
               [''STREAM_CONNECTION_ROLLOVER_REQUIRED'']
        else settle s True []))" by (cases "sr_connected_at s") simp_all
qed (use assms in simp_all)

lemma stream_ok_staleness: "stream_ok p s \<Longrightarrow> stream_ok p (snd (check_staleness s t))"
  unfolding check_staleness_def
  by (intro guarded_ok) (simp_all add: stream_ok_stop split: option.split)

lemma stream_ok_stopped: "stream_ok p s \<Longrightarrow> stream_ok p (snd (stream_stop s))"
  by (simp add: stream_stop_def stream_ok_stop)

lemma stream_ok_call:
  assumes "stream_policy_post_init p = Inr p" "stream_ok p s" shows "stream_ok p (snd (perform s c))"
  using assms
  by (cases c) (simp_all add: stream_ok_start stream_ok_connected stream_ok_snapshot stream_ok_update
      stream_ok_backfill stream_ok_reject stream_ok_disconnected stream_ok_shutdown
      stream_ok_rollover stream_ok_staleness stream_ok_stopped)

lemma stream_reach_ok: "stream_reach p s \<Longrightarrow> stream_policy_post_init p = Inr p \<Longrightarrow> stream_ok p s"
proof (induction rule: stream_reach.induct)
  case init
  then show ?case using stream_policy_attempts [of p] by (simp add: stream_ok_def new_stream_def)
next
  case (step s s')
  from step.hyps(2) obtain c where "s' = snd (perform s c)" by (metis stream_stepE snd_conv)
  with step show ?case by (simp add: stream_ok_call)
qed

section \<open>Coverage of the sequence\<close>

text \<open>
  The accepted updates since the last applied snapshot, read off the calls: the snapshot's
  sequence and the ranges of the updates.
\<close>

fun stream_run :: "stream \<Rightarrow> stream_call list \<Rightarrow> stream" where
  "stream_run s [] = s"
| "stream_run s (c # cs) = stream_run (snd (perform s c)) cs"

definition was_accepted :: "stream_outcome \<Rightarrow> bool" where
  "was_accepted out \<longleftrightarrow> (case fst out of Inl _ \<Rightarrow> False | Inr tr \<Rightarrow> tr_accepted tr)"

fun log_call :: "stream \<Rightarrow> stream_call \<Rightarrow> int \<times> (int \<times> int) list \<Rightarrow> int \<times> (int \<times> int) list" where
  "log_call s (Call_apply_snapshot n t) g =
     (if was_accepted (stream_apply_snapshot s n t) then (n, []) else g)"
| "log_call s (Call_apply_update f l t q) g =
     (if was_accepted (stream_apply_update s f l t q) then (fst g, (f, l) # snd g) else g)"
| "log_call s _ g = g"

fun accepted_log :: "stream \<Rightarrow> int \<times> (int \<times> int) list \<Rightarrow> stream_call list \<Rightarrow> int \<times> (int \<times> int) list" where
  "accepted_log s g [] = g"
| "accepted_log s g (c # cs) = accepted_log (snd (perform s c)) (log_call s c g) cs"

definition covers :: "int \<times> (int \<times> int) list \<Rightarrow> int option \<Rightarrow> bool" where
  "covers g latest \<longleftrightarrow>
     (case latest of None \<Rightarrow> True
      | Some n \<Rightarrow> fst g \<le> n \<and> {fst g <.. n} \<subseteq> (\<Union>(f, l) \<in> set (snd g). {f..l}))"

lemma covers_extend:
  assumes "covers g (Some n)" "f \<le> n + 1" "n < l" shows "covers (fst g, (f, l) # snd g) (Some l)"
proof -
  have "{fst g <.. l} \<subseteq> {fst g <.. n} \<union> {f..l}" using assms(2) by auto
  with assms show ?thesis unfolding covers_def by fastforce
qed

lemma perform_last_sequence:
  assumes "\<And>n t. c \<noteq> Call_apply_snapshot n t" "\<And>f l t q. c \<noteq> Call_apply_update f l t q"
  shows "sr_last_sequence (snd (perform s c)) = sr_last_sequence s \<and> log_call s c g = g"
  using assms
  by (cases c) (auto simp: stream_op_defs stream_disconnected_def guarded_def settle_def Let_def
      split: sum.splits option.splits)

lemma covers_call:
  assumes "covers g (sr_last_sequence s)"
  shows "covers (log_call s c g) (sr_last_sequence (snd (perform s c)))"
proof (cases c)
  case (Call_apply_snapshot n t)
  then show ?thesis using assms
    by (auto simp: stream_apply_snapshot_def guarded_def settle_def stream_result_def was_accepted_def
        covers_def split: sum.splits)
next
  case (Call_apply_update f l t q)
  then show ?thesis
  proof (cases "stream_apply_update s f l t q" rule: prod.exhaust)
    case (Pair r s')
    then show ?thesis using assms Call_apply_update
      by (rule_tac stream_update_cases [OF Pair]) (auto simp: was_accepted_def intro: covers_extend)
  qed
qed (use assms perform_last_sequence [of c s g] in simp_all)

lemma covers_run:
  "covers g (sr_last_sequence s) \<Longrightarrow> covers (accepted_log s g cs) (sr_last_sequence (stream_run s cs))"
  by (induction cs arbitrary: s g) (simp_all add: covers_call)

section \<open>Properties\<close>

text \<open>
  In every machine reachable from a new one by any sequence of calls, raising ones included,
  a LIVE, GAP_DETECTED or BACKFILLING stream knows a positive sequence and an aware event time and
  has no failed reconnect on record, and a stream that may still connect has not used up its
  reconnect attempts. In particular an update on a live stream never meets a missing snapshot.
\<close>

theorem stream_reachable_ok:
  assumes "stream_policy_post_init p = Inr p" "stream_reach p s"
  shows "stream_ok p s \<and>
    fst (stream_apply_update s f l t q) \<noteq> Inl (RuntimeError ''live stream is missing its snapshot sequence'')"
proof -
  have ok: "stream_ok p s" using assms(2,1) by (rule stream_reach_ok)
  then have "sr_state s = SS_LIVE \<Longrightarrow> sr_last_sequence s \<noteq> None" by (auto simp: stream_ok_def)
  then have "fst (stream_apply_update s f l t q) \<noteq> Inl (RuntimeError ''live stream is missing its snapshot sequence'')"
    by (cases "sr_last_sequence s")
      (auto simp: stream_apply_update_def guarded_def settle_def Let_def stream_require_state_def
        validate_sequence_and_time_def dest: validate_Inl_ValueError split: sum.splits)
  with ok show ?thesis by simp
qed

theorem stream_reachable_ok_witness:
  "stream_ok default_stream_policy (snd (stream_start (new_stream default_stream_policy)))"
proof -
  have "stream_policy_post_init default_stream_policy = Inr default_stream_policy"
    by (simp add: stream_policy_post_init_def default_stream_policy_def)
  moreover have "stream_reach default_stream_policy (snd (stream_start (new_stream default_stream_policy)))"
    by (rule stream_reach.step [OF stream_reach.init], rule stream_step.call [of _ Call_start])
      (simp add: stream_start_def guarded_def settle_def stream_require_state_def new_stream_def)
  ultimately show ?thesis by (rule stream_reachable_ok [THEN conjunct1])
qed

text \<open>
  C8: no sequence number is skipped silently. Whatever calls are made on a new stream, when it
  has a last sequence, every number between the last applied snapshot and that sequence lies in
  the range of an update that was accepted after the snapshot.
\<close>

theorem stream_coverage:
  assumes "sr_last_sequence (stream_run (new_stream p) calls) = Some n"
    and "fst (accepted_log (new_stream p) (0, []) calls) < k" "k \<le> n"
  shows "\<exists>(f, l) \<in> set (snd (accepted_log (new_stream p) (0, []) calls)). f \<le> k \<and> k \<le> l"
proof -
  have "covers (accepted_log (new_stream p) (0, []) calls) (Some n)"
    using covers_run [of "(0, [])" "new_stream p" calls] assms(1) by (simp add: covers_def new_stream_def)
  with assms(2,3) show ?thesis unfolding covers_def by fastforce
qed

definition example_calls :: "stream_call list" where
  "example_calls = [Call_start, Call_connected (Some (Aware 0)), Call_apply_snapshot 10 (Aware 1),
     Call_apply_update 9 12 (Aware 2) 0, Call_apply_update 5 11 (Aware 3) 0,
     Call_apply_update 13 15 (Aware 4) 0, Call_apply_update 20 21 (Aware 5) 0]"

theorem stream_coverage_witness:
  "\<exists>(f, l) \<in> set (snd (accepted_log (new_stream default_stream_policy) (0, []) example_calls)).
     f \<le> 14 \<and> 14 \<le> l"
proof (rule stream_coverage)
  show "sr_last_sequence (stream_run (new_stream default_stream_policy) example_calls) = Some 15"
    by code_simp
  show "fst (accepted_log (new_stream default_stream_policy) (0, []) example_calls) < 14" by code_simp
qed simp

text \<open>
  Reconnecting backs off exponentially and ends. The \<open>k\<close>-th disconnect in a row without a
  snapshot waits the base delay doubled \<open>k - 1\<close> times, capped by the maximum, for every \<open>k\<close> up to
  the allowed attempts (at most 1024); the next one opens the circuit: the stream is DEGRADED, and
  from there every call but stop raises and changes nothing.
\<close>

theorem reconnect_backoff:
  assumes "sr_state s \<in> {SS_CONNECTING, SS_SYNCING_SNAPSHOT, SS_LIVE, SS_GAP_DETECTED, SS_BACKFILLING}"
    and "0 \<le> sr_reconnect_attempts s" "sp_max_reconnect_attempts (sr_policy s) \<le> 1024"
  shows "let k = sr_reconnect_attempts s + 1; s' = snd (stream_disconnected s) in
    sr_reconnect_attempts s' = k \<and>
    (if k \<le> sp_max_reconnect_attempts (sr_policy s)
     then sr_state s' = SS_DISCONNECTED \<and>
       map_sum id tr_retry_after_seconds (fst (stream_disconnected s)) =
         Inr (min (sp_maximum_retry_seconds (sr_policy s))
                  (sp_base_retry_seconds (sr_policy s) * 2 ^ nat (k - 1)))
     else sr_state s' = SS_DEGRADED \<and>
       (\<forall>c. c \<noteq> Call_stop \<longrightarrow> (\<exists>e. perform s' c = (Inl e, s'))))"
proof -
  have live: "stream_require_state s
      [SS_CONNECTING, SS_SYNCING_SNAPSHOT, SS_LIVE, SS_GAP_DETECTED, SS_BACKFILLING] = Inr ()"
    using assms(1) by auto
  have degraded: "\<exists>e. perform d c = (Inl e, d)" if "sr_state d = SS_DEGRADED" "c \<noteq> Call_stop" for d c
    using that
    by (cases c) (simp_all add: stream_op_defs stream_disconnected_def stream_apply_update_def
        stream_require_state_def guarded_def)
  show ?thesis
  proof (cases "sr_reconnect_attempts s + 1 \<le> sp_max_reconnect_attempts (sr_policy s)")
    case True
    with assms live show ?thesis
      by (simp add: stream_disconnected_def guarded_def stream_result_def Let_def
          del: stream_require_state_Inr)
  next
    case False
    with live have s': "sr_state (snd (stream_disconnected s)) = SS_DEGRADED"
      "sr_reconnect_attempts (snd (stream_disconnected s)) = sr_reconnect_attempts s + 1"
      by (simp_all add: stream_disconnected_def guarded_def settle_def Let_def
          del: stream_require_state_Inr)
    with False degraded [OF s'(1)] show ?thesis by (simp add: Let_def)
  qed
qed

theorem reconnect_backoff_witness:
  "map_sum id tr_retry_after_seconds (fst (stream_disconnected
     ((new_stream default_stream_policy)\<lparr>sr_state := SS_CONNECTING, sr_reconnect_attempts := 3\<rparr>))) = Inr 8"
  using reconnect_backoff [of "(new_stream default_stream_policy)
    \<lparr>sr_state := SS_CONNECTING, sr_reconnect_attempts := 3\<rparr>"]
  by (simp add: new_stream_def default_stream_policy_def Let_def)

end
