(* ===== verification/Exchange_Health.thy ===== *)
theory Exchange_Health
  imports Py_Prelude
begin

text \<open>
  The exchange health gates: the fixed-window request budget and the server-time check of
  \<^verbatim>\<open>exchange/resilience.py\<close>, and the connector readiness gate of \<^verbatim>\<open>exchange/readiness.py\<close>. The
  retry delay of a refused request is in microseconds (the source converts it to seconds).
\<close>

section \<open>Request budget\<close>

record rate_limit_decision =
  rd_allowed :: bool
  rd_used_weight :: int
  rd_remaining_weight :: int
  rd_retry_after :: timedelta
  rd_blockers :: "string list"

record rate_limit_budget =
  rb_maximum_weight :: int
  rb_window :: timedelta
  rb_window_started_at :: "datetime option"
  rb_used_weight :: int

definition new_budget :: "int \<Rightarrow> timedelta \<Rightarrow> rate_limit_budget result" where
  "new_budget maximum window = validate
     [(maximum < 1 \<or> window \<le> 0, ''rate-limit budget and window must be positive'')]
     \<lparr>rb_maximum_weight = maximum, rb_window = window, rb_window_started_at = None,
      rb_used_weight = 0\<rparr>"

definition roll_window :: "rate_limit_budget \<Rightarrow> datetime \<Rightarrow> rate_limit_budget" where
  "roll_window b now =
     (if (case rb_window_started_at b of None \<Rightarrow> True
          | Some s \<Rightarrow> instant now - instant s \<ge> rb_window b)
      then b\<lparr>rb_window_started_at := Some now, rb_used_weight := 0\<rparr> else b)"

definition consume_guard :: "rate_limit_budget \<Rightarrow> int \<Rightarrow> datetime \<Rightarrow> unit result" where
  "consume_guard b weight now = validate
     [(weight < 1 \<or> weight > rb_maximum_weight b,
       ''request weight must fit within the configured budget''),
      (\<not> is_aware now, ''rate-limit timestamp must be timezone-aware''),
      (case rb_window_started_at b of None \<Rightarrow> False | Some s \<Rightarrow> instant now < instant s,
       ''rate-limit time cannot move backwards'')] ()"

definition consume :: "rate_limit_budget \<Rightarrow> int \<Rightarrow> datetime \<Rightarrow>
    rate_limit_decision result \<times> rate_limit_budget" where
  "consume b weight now =
     (case consume_guard b weight now of
        Inl e \<Rightarrow> (Inl e, b)
      | Inr _ \<Rightarrow>
          let b1 = roll_window b now;
              projected = rb_used_weight b1 + weight;
              started = (case rb_window_started_at b1 of None \<Rightarrow> instant now | Some s \<Rightarrow> instant s)
          in if projected > rb_maximum_weight b1
             then (Inr \<lparr>rd_allowed = False, rd_used_weight = rb_used_weight b1,
                        rd_remaining_weight = rb_maximum_weight b1 - rb_used_weight b1,
                        rd_retry_after = max 0 (rb_window b1 - (instant now - started)),
                        rd_blockers = [''EXCHANGE_RATE_LIMIT_BUDGET_EXHAUSTED'']\<rparr>, b1)
             else (Inr \<lparr>rd_allowed = True, rd_used_weight = projected,
                        rd_remaining_weight = rb_maximum_weight b1 - projected,
                        rd_retry_after = 0, rd_blockers = []\<rparr>, b1\<lparr>rb_used_weight := projected\<rparr>))"

section \<open>Server time\<close>

record server_time_assessment =
  sta_drift_ms :: int
  sta_acceptable :: bool
  sta_blockers :: "string list"

definition assess_server_time :: "int \<Rightarrow> int \<Rightarrow> int \<Rightarrow> server_time_assessment result" where
  "assess_server_time local_time_ms server_time_ms maximum_drift_ms =
     (if min local_time_ms server_time_ms < 0 \<or> maximum_drift_ms < 1
      then Inl (ValueError ''server-time values and threshold are invalid'')
      else let drift = \<bar>local_time_ms - server_time_ms\<bar>;
               blockers = flag_if (drift > maximum_drift_ms) ''EXCHANGE_SERVER_TIME_DRIFT''
           in Inr \<lparr>sta_drift_ms = drift, sta_acceptable = (blockers = []), sta_blockers = blockers\<rparr>)"

section \<open>Connector readiness\<close>

record connector_readiness_input =
  ci_api_reachable :: bool
  ci_server_time_synchronized :: bool
  ci_exchange_info_fresh :: bool
  ci_trading_rules_loaded :: bool
  ci_order_book_snapshot_ready :: bool
  ci_stream_connected :: bool
  ci_sequence_contiguous :: bool
  ci_rest_backfill_complete :: bool
  ci_private_state_required :: bool
  ci_wallet_known :: bool
  ci_open_orders_reconciled :: bool

record connector_readiness =
  cr_ready_for_research :: bool
  cr_blockers :: "string list"
  cr_execution_allowed :: bool
  cr_live_eligibility_status :: string

definition connector_readiness_post_init :: "connector_readiness \<Rightarrow> connector_readiness result" where
  "connector_readiness_post_init r = validate
     [(cr_ready_for_research r = (cr_blockers r \<noteq> []), ''connector readiness and blockers disagree''),
      (cr_execution_allowed r, ''connector readiness cannot authorize execution'')] r"

definition assess_connector_readiness :: "connector_readiness_input \<Rightarrow> connector_readiness result" where
  "assess_connector_readiness e =
     (let blockers = failed_codes
            [(\<not> ci_api_reachable e, ''CONNECTOR_API_UNREACHABLE''),
             (\<not> ci_server_time_synchronized e, ''CONNECTOR_TIME_UNSYNCHRONIZED''),
             (\<not> ci_exchange_info_fresh e, ''EXCHANGE_INFO_STALE''),
             (\<not> ci_trading_rules_loaded e, ''TRADING_RULES_UNAVAILABLE''),
             (\<not> ci_order_book_snapshot_ready e, ''ORDER_BOOK_SNAPSHOT_UNAVAILABLE''),
             (\<not> ci_stream_connected e, ''PUBLIC_STREAM_DISCONNECTED''),
             (\<not> ci_sequence_contiguous e, ''STREAM_SEQUENCE_GAP''),
             (\<not> ci_rest_backfill_complete e, ''REST_BACKFILL_INCOMPLETE'')]
          @ (if ci_private_state_required e
             then flag_if (\<not> ci_wallet_known e) ''WALLET_STATE_UNKNOWN''
                @ flag_if (\<not> ci_open_orders_reconciled e) ''OPEN_ORDERS_NOT_RECONCILED''
             else [])
      in connector_readiness_post_init
           \<lparr>cr_ready_for_research = (blockers = []), cr_blockers = blockers,
            cr_execution_allowed = False, cr_live_eligibility_status = live_blocked\<rparr>)"

section \<open>What the budget bounds\<close>

text \<open>The allowed requests of a run of calls, newest first, as (time, weight).\<close>

type_synonym request_log = "(int \<times> int) list"

fun budget_run :: "rate_limit_budget \<Rightarrow> request_log \<Rightarrow> (int \<times> datetime) list \<Rightarrow>
    rate_limit_budget \<times> request_log" where
  "budget_run b log [] = (b, log)"
| "budget_run b log ((w, t) # cs) =
     (case consume b w t of
        (Inr d, b') \<Rightarrow> budget_run b' (if rd_allowed d then (instant t, w) # log else log) cs
      | (Inl _, b') \<Rightarrow> budget_run b' log cs)"

definition weight_in :: "request_log \<Rightarrow> (int \<Rightarrow> bool) \<Rightarrow> int" where
  "weight_in log P = sum_list (map snd (filter (\<lambda>e. P (fst e)) log))"

definition budget_ok :: "rate_limit_budget \<Rightarrow> request_log \<Rightarrow> bool" where
  "budget_ok b log \<longleftrightarrow>
     0 < rb_window b \<and> 0 \<le> rb_used_weight b \<and> rb_used_weight b \<le> rb_maximum_weight b \<and>
     (\<forall>e \<in> set log. 0 < snd e) \<and>
     (case rb_window_started_at b of
        None \<Rightarrow> log = []
      | Some s \<Rightarrow> weight_in log (\<lambda>t. instant s \<le> t) = rb_used_weight b \<and>
          (\<forall>e \<in> set log. fst e < instant s + rb_window b) \<and>
          weight_in log (\<lambda>t. instant s - rb_window b \<le> t \<and> t < instant s) \<le> rb_maximum_weight b) \<and>
     (\<forall>a. weight_in log (\<lambda>t. a \<le> t \<and> t < a + rb_window b) \<le> 2 * rb_maximum_weight b)"

lemma weight_in_Nil [simp]: "weight_in [] P = 0"
  by (simp add: weight_in_def)

lemma weight_in_Cons [simp]: "weight_in ((t, w) # log) P = (if P t then w else 0) + weight_in log P"
  by (simp add: weight_in_def)

lemma weight_in_nonneg: "\<forall>e \<in> set log. 0 < snd e \<Longrightarrow> 0 \<le> weight_in log P"
  unfolding weight_in_def by (intro sum_list_nonneg) fastforce

lemma weight_in_mono:
  "\<forall>e \<in> set log. 0 < snd e \<Longrightarrow> (\<And>e. e \<in> set log \<Longrightarrow> P (fst e) \<Longrightarrow> Q (fst e)) \<Longrightarrow> weight_in log P \<le> weight_in log Q"
  by (induction log) fastforce+

lemma weight_in_empty: "(\<And>e. e \<in> set log \<Longrightarrow> \<not> P (fst e)) \<Longrightarrow> weight_in log P = 0"
  by (induction log) fastforce+

lemma weight_in_split:
  assumes "\<forall>e \<in> set log. 0 < snd e" "\<And>e. e \<in> set log \<Longrightarrow> P (fst e) \<Longrightarrow> Q (fst e) \<or> R (fst e)"
  shows "weight_in log P \<le> weight_in log Q + weight_in log R"
  using assms
proof (induction log)
  case (Cons e log)
  have "weight_in log P \<le> weight_in log Q + weight_in log R" using Cons by simp
  with Cons.prems Cons.prems(2) [of e] show ?case by (cases e) auto
qed simp

lemma budget_ok_roll:
  assumes ok: "budget_ok b log"
    and fwd: "case rb_window_started_at b of None \<Rightarrow> True | Some s \<Rightarrow> instant s \<le> instant now"
  shows "budget_ok (roll_window b now) log \<and>
    (\<exists>s. rb_window_started_at (roll_window b now) = Some s \<and> instant s \<le> instant now \<and>
       instant now < instant s + rb_window b)"
proof (cases "rb_window_started_at b")
  case None
  with ok show ?thesis by (auto simp: budget_ok_def roll_window_def)
next
  case (Some s)
  with ok have pos: "\<forall>e \<in> set log. 0 < snd e" and old: "\<forall>e \<in> set log. fst e < instant s + rb_window b"
    and cur: "weight_in log (\<lambda>t. instant s \<le> t) \<le> rb_maximum_weight b" and w: "0 < rb_window b"
    by (simp_all add: budget_ok_def)
  show ?thesis
  proof (cases "instant now - instant s \<ge> rb_window b")
    case True
    have "weight_in log (\<lambda>t. instant now \<le> t) = 0"
      using old True by (intro weight_in_empty) fastforce
    moreover have "weight_in log (\<lambda>t. instant now - rb_window b \<le> t \<and> t < instant now) \<le>
        weight_in log (\<lambda>t. instant s \<le> t)"
      using True by (intro weight_in_mono [OF pos]) simp
    moreover have "\<forall>e \<in> set log. fst e < instant now + rb_window b" using old True w by fastforce
    ultimately show ?thesis
      using ok cur True Some by (simp add: budget_ok_def roll_window_def)
  next
    case False
    with ok fwd Some show ?thesis by (auto simp: roll_window_def)
  qed
qed

lemma budget_ok_use:
  assumes ok: "budget_ok b log" and s: "rb_window_started_at b = Some s"
    and t: "instant s \<le> t" "t < instant s + rb_window b"
    and w: "0 < w" "rb_used_weight b + w \<le> rb_maximum_weight b"
  shows "budget_ok (b\<lparr>rb_used_weight := rb_used_weight b + w\<rparr>) ((t, w) # log)"
proof -
  have pos: "\<forall>e \<in> set log. 0 < snd e" using ok by (simp add: budget_ok_def)
  have cur: "weight_in log (\<lambda>t. instant s \<le> t) = rb_used_weight b"
    and prev: "weight_in log (\<lambda>t. instant s - rb_window b \<le> t \<and> t < instant s) \<le> rb_maximum_weight b"
    using ok s by (simp_all add: budget_ok_def)
  have "weight_in ((t, w) # log) (\<lambda>u. a \<le> u \<and> u < a + rb_window b) \<le> 2 * rb_maximum_weight b" for a
  proof (cases "a + rb_window b \<le> instant s")
    case True
    with t ok show ?thesis by (auto simp: budget_ok_def)
  next
    case False
    have "weight_in log (\<lambda>u. a \<le> u \<and> u < a + rb_window b) \<le>
        weight_in log (\<lambda>t. instant s - rb_window b \<le> t \<and> t < instant s) + weight_in log (\<lambda>t. instant s \<le> t)"
      using False by (intro weight_in_split [OF pos]) linarith
    with cur prev w show ?thesis by auto
  qed
  with ok s t w cur show ?thesis by (auto simp: budget_ok_def)
qed

lemma roll_window_frame [simp]:
  "rb_maximum_weight (roll_window b now) = rb_maximum_weight b" "rb_window (roll_window b now) = rb_window b"
  by (simp_all add: roll_window_def)

lemma consume_cases:
  assumes "budget_ok b log"
  obtains (raised) e where "consume b w t = (Inl e, b)"
  | (refused) d where "consume b w t = (Inr d, roll_window b t)" "\<not> rd_allowed d"
      "budget_ok (roll_window b t) log" "rd_blockers d \<noteq> []"
  | (allowed) d b' where "consume b w t = (Inr d, b')" "rd_allowed d"
      "budget_ok b' ((instant t, w) # log)" "rd_blockers d = []"
proof (cases "consume_guard b w t")
  case (Inl e)
  then show ?thesis by (intro raised [of e]) (simp add: consume_def)
next
  case (Inr u)
  then have w: "0 < w" and fwd: "case rb_window_started_at b of None \<Rightarrow> True | Some s \<Rightarrow> instant s \<le> instant t"
    by (auto simp: consume_guard_def split: option.splits)
  obtain s where roll: "budget_ok (roll_window b t) log"
    and s: "rb_window_started_at (roll_window b t) = Some s" "instant s \<le> instant t"
      "instant t < instant s + rb_window b"
    using budget_ok_roll [OF assms fwd] by blast
  show ?thesis
  proof (cases "rb_used_weight (roll_window b t) + w > rb_maximum_weight b")
    case True
    with Inr roll show ?thesis
      by (intro refused) (simp add: consume_def Let_def, simp_all)
  next
    case False
    with w roll s
    have "budget_ok ((roll_window b t)\<lparr>rb_used_weight := rb_used_weight (roll_window b t) + w\<rparr>)
        ((instant t, w) # log)"
      by (intro budget_ok_use) simp_all
    with False Inr show ?thesis
      by (intro allowed) (simp add: consume_def Let_def, simp_all)
  qed
qed

lemma budget_run_ok: "budget_ok b log \<Longrightarrow> case budget_run b log cs of (b', log') \<Rightarrow> budget_ok b' log'"
proof (induction cs arbitrary: b log)
  case (Cons c cs)
  obtain w t where c: "c = (w, t)" by (rule prod.exhaust)
  from Cons.prems show ?case
    by (cases rule: consume_cases [of b log w t]) (use Cons c in simp_all)
qed simp

lemma consume_frame:
  "rb_maximum_weight (snd (consume b w t)) = rb_maximum_weight b \<and> rb_window (snd (consume b w t)) = rb_window b"
  by (simp add: consume_def Let_def split: sum.split)

lemma budget_run_frame:
  "rb_maximum_weight (fst (budget_run b log cs)) = rb_maximum_weight b \<and>
   rb_window (fst (budget_run b log cs)) = rb_window b"
proof (induction b log cs rule: budget_run.induct)
  case (2 b log w t cs)
  then show ?case using consume_frame [of b w t]
    by (cases "consume b w t") (auto split: sum.splits)
qed simp

section \<open>Properties\<close>

text \<open>
  C39: the request budget bounds traffic. Whatever calls are made on a new budget, refused and
  raising ones included, the weight it allowed in any half-open interval as long as its window is
  at most twice the configured maximum, and the current window never holds more than the maximum.
\<close>

theorem budget_bounds_traffic:
  assumes "new_budget maximum window = Inr b" "budget_run b [] calls = (b', log)"
  shows "weight_in log (\<lambda>t. a \<le> t \<and> t < a + window) \<le> 2 * maximum \<and>
    0 \<le> rb_used_weight b' \<and> rb_used_weight b' \<le> maximum"
proof -
  from assms(1) have b: "rb_maximum_weight b = maximum" "rb_window b = window" "budget_ok b []"
    by (auto simp: new_budget_def budget_ok_def)
  then have "budget_ok b' log" using budget_run_ok [of b "[]" calls] assms(2) by simp
  moreover have "rb_maximum_weight b' = maximum" "rb_window b' = window"
    using budget_run_frame [of b "[]" calls] assms(2) b by simp_all
  ultimately show ?thesis by (simp add: budget_ok_def)
qed

theorem budget_bounds_traffic_witness:
  "case new_budget 6 10 of Inl _ \<Rightarrow> False | Inr b \<Rightarrow>
     snd (budget_run b [] [(5, Aware 9), (1, Aware 18), (2, Aware 18), (6, Aware 19)]) =
       [(19, 6), (18, 1), (9, 5)] \<and>
     weight_in [(19, 6), (18, 1), (9, 5)] (\<lambda>t. 10 \<le> t \<and> t < 10 + 10) \<le> 2 * 6"
proof -
  let ?b = "\<lparr>rb_maximum_weight = 6, rb_window = 10, rb_window_started_at = None, rb_used_weight = 0\<rparr>"
  have new: "new_budget 6 10 = Inr ?b" by (simp add: new_budget_def)
  have run: "budget_run ?b [] [(5, Aware 9), (1, Aware 18), (2, Aware 18), (6, Aware 19)] =
      (?b\<lparr>rb_window_started_at := Some (Aware 19), rb_used_weight := 6\<rparr>, [(19, 6), (18, 1), (9, 5)])"
    by code_simp
  from budget_bounds_traffic [OF new run, of 10] show ?thesis unfolding new sum.case run by simp
qed

text \<open>
  The connector is ready exactly when every public check passed and, where private state is
  required, the wallet is known and open orders are reconciled; the assessment is never an error
  and never authorizes execution.
\<close>

theorem connector_readiness_iff:
  "\<exists>r. assess_connector_readiness e = Inr r \<and> \<not> cr_execution_allowed r \<and>
     cr_live_eligibility_status r = live_blocked \<and>
     (cr_ready_for_research r \<longleftrightarrow>
        ci_api_reachable e \<and> ci_server_time_synchronized e \<and> ci_exchange_info_fresh e \<and>
        ci_trading_rules_loaded e \<and> ci_order_book_snapshot_ready e \<and> ci_stream_connected e \<and>
        ci_sequence_contiguous e \<and> ci_rest_backfill_complete e \<and>
        (if ci_private_state_required e then ci_wallet_known e \<and> ci_open_orders_reconciled e else True))"
  by (simp add: assess_connector_readiness_def connector_readiness_post_init_def Let_def py_simps
      failed_codes_Nil_iff)

end
