(* ===== verification/Text_Rules.thy ===== *)
theory Text_Rules
  imports Py_Prelude
begin

text \<open>
  The text normalisations the approval, authorization and evidence records share
  (\<^verbatim>\<open>_required_text\<close>, \<^verbatim>\<open>_bounded_text\<close>, \<^verbatim>\<open>_sha256\<close>, the symbol rule), and the selection of the
  unique newest record of a group, which the approval queue and both evidence registries use.
\<close>

section \<open>Normalised text\<close>

definition forbidden_char :: "char \<Rightarrow> bool" where
  "forbidden_char c \<longleftrightarrow> (let n = of_char c :: int in n = 13 \<or> n = 10 \<or> n = 0)"

text \<open>
  A stripped, non-empty, bounded ASCII text without line breaks and NUL; \<open>msg\<close> is the message of
  the refusal.
\<close>

definition bounded_text :: "int \<Rightarrow> string \<Rightarrow> string \<Rightarrow> string result" where
  "bounded_text maximum msg value =
     (let normalized = py_strip value
      in if normalized = [] \<or> int (length normalized) > maximum \<or> \<not> py_isascii normalized
            \<or> list_ex forbidden_char normalized
         then Inl (ValueError msg) else Inr normalized)"

definition is_hex_char :: "char \<Rightarrow> bool" where
  "is_hex_char c \<longleftrightarrow>
     (let n = of_char c :: int in (48 \<le> n \<and> n \<le> 57) \<or> (97 \<le> n \<and> n \<le> 102))"

definition hex_text :: "nat \<Rightarrow> string \<Rightarrow> bool" where
  "hex_text n s \<longleftrightarrow> length s = n \<and> list_all is_hex_char s"

definition sha256_text :: "string \<Rightarrow> string \<Rightarrow> string result" where
  "sha256_text msg value =
     (let normalized = py_lower (py_strip value)
      in if hex_text 64 normalized then Inr normalized else Inl (ValueError msg))"

text \<open>\<^verbatim>\<open>symbol.isascii() and symbol.isalnum()\<close>.\<close>

definition symbol_text :: "string \<Rightarrow> bool" where
  "symbol_text s \<longleftrightarrow> py_isascii s \<and> py_isalnum s"

lemma bounded_text_Inr:
  "bounded_text n m v = Inr s \<longleftrightarrow> s = py_strip v \<and> s \<noteq> [] \<and> int (length s) \<le> n \<and> py_isascii s \<and>
     \<not> list_ex forbidden_char s"
  by (auto simp: bounded_text_def Let_def)

lemma bounded_text_idem: "bounded_text n m v = Inr s \<Longrightarrow> bounded_text n m' s = Inr s"
  by (auto simp: bounded_text_Inr)

lemma sha256_text_Inr:
  "sha256_text m v = Inr s \<longleftrightarrow> s = py_lower (py_strip v) \<and> hex_text 64 s"
  by (auto simp: sha256_text_def Let_def)

text \<open>Hexadecimal text is a fixed point of the normalisation.\<close>

lemma is_hex_char_fixed:
  assumes "is_hex_char c" shows "lower_char c = c" "\<not> py_space c"
  using assms by (auto simp: is_hex_char_def lower_char_def py_space_def Let_def)

lemma hex_text_lower: "list_all is_hex_char s \<Longrightarrow> py_lower s = s"
  by (induction s) (auto simp: py_lower_def is_hex_char_fixed)

lemma dropWhile_none: "list_all (\<lambda>c. \<not> p c) s \<Longrightarrow> dropWhile p s = s"
  by (induction s) auto

lemma hex_text_strip:
  assumes "list_all is_hex_char s" shows "py_strip s = s"
proof -
  have "list_all (\<lambda>c. \<not> py_space c) s" "list_all (\<lambda>c. \<not> py_space c) (rev s)"
    using assms by (auto simp: list_all_iff is_hex_char_fixed)
  then show ?thesis by (simp add: py_strip_def dropWhile_none)
qed

lemma sha256_text_hex [simp]: "hex_text 64 s \<Longrightarrow> sha256_text m s = Inr s"
  by (simp add: sha256_text_Inr hex_text_def hex_text_lower hex_text_strip)

section \<open>The unique newest record\<close>

text \<open>
  \<^verbatim>\<open>latest_at = max(...)\<close>, then the records at that time: a result only when there is exactly
  one. \<open>None\<close> stands for an empty group as well as for an ambiguous one.
\<close>

definition latest_records :: "('a \<Rightarrow> int) \<Rightarrow> 'a list \<Rightarrow> 'a list" where
  "latest_records at_time rs = filter (\<lambda>r. at_time r = Max (set (map at_time rs))) rs"

definition latest_unique :: "('a \<Rightarrow> int) \<Rightarrow> 'a list \<Rightarrow> 'a option" where
  "latest_unique at_time rs =
     (if rs = [] then None
      else case latest_records at_time rs of [r] \<Rightarrow> Some r | _ \<Rightarrow> None)"

lemma filter_single_nth:
  "filter p xs = [x] \<longleftrightarrow> (\<exists>ys zs. xs = ys @ x # zs \<and> p x \<and> list_all (\<lambda>y. \<not> p y) (ys @ zs))"
proof
  assume "filter p xs = [x]"
  then obtain ys zs where "xs = ys @ x # zs" "\<forall>u \<in> set ys. \<not> p u" "p x" "filter p zs = []"
    by (auto simp: filter_eq_Cons_iff)
  then show "\<exists>ys zs. xs = ys @ x # zs \<and> p x \<and> list_all (\<lambda>y. \<not> p y) (ys @ zs)"
    by (auto simp: list_all_iff filter_empty_conv)
next
  assume "\<exists>ys zs. xs = ys @ x # zs \<and> p x \<and> list_all (\<lambda>y. \<not> p y) (ys @ zs)"
  then show "filter p xs = [x]" by (auto simp: list_all_iff filter_empty_conv)
qed

text \<open>The selected record is the one every other record of the group is older than.\<close>

lemma latest_unique_Some:
  "latest_unique t rs = Some r \<longleftrightarrow>
     (\<exists>ys zs. rs = ys @ r # zs \<and> list_all (\<lambda>y. t y < t r) (ys @ zs))"
proof
  assume "latest_unique t rs = Some r"
  then have ne: "rs \<noteq> []" and one: "latest_records t rs = [r]"
    by (auto simp: latest_unique_def split: if_splits list.splits)
  from one obtain ys zs where rs: "rs = ys @ r # zs" and top: "t r = Max (set (map t rs))"
    and others: "list_all (\<lambda>y. t y \<noteq> Max (set (map t rs))) (ys @ zs)"
    unfolding latest_records_def filter_single_nth by (elim exE conjE) (rule that)
  have "t y < t r" if "y \<in> set (ys @ zs)" for y
  proof -
    have "t y \<le> Max (set (map t rs))" using that by (intro Max_ge) (auto simp: rs)
    moreover have "t y \<noteq> Max (set (map t rs))" using that others by (auto simp: list_all_iff)
    ultimately show ?thesis using top by simp
  qed
  with rs show "\<exists>ys zs. rs = ys @ r # zs \<and> list_all (\<lambda>y. t y < t r) (ys @ zs)"
    by (auto simp: list_all_iff)
next
  assume "\<exists>ys zs. rs = ys @ r # zs \<and> list_all (\<lambda>y. t y < t r) (ys @ zs)"
  then obtain ys zs where rs: "rs = ys @ r # zs" and old: "list_all (\<lambda>y. t y < t r) (ys @ zs)" by blast
  have top: "Max (set (map t rs)) = t r"
    using old by (intro Max_eqI) (auto simp: rs list_all_iff less_imp_le)
  have "filter (\<lambda>y. t y = t r) ys = []" "filter (\<lambda>y. t y = t r) zs = []"
    using old by (simp_all add: list_all_iff filter_empty_conv order_less_imp_not_eq)
  then have "filter (\<lambda>y. t y = t r) rs = [r]" by (simp add: rs)
  then have "latest_records t rs = [r]" unfolding latest_records_def top .
  then show "latest_unique t rs = Some r" by (simp add: latest_unique_def rs)
qed

lemma latest_unique_mem: "latest_unique t rs = Some r \<Longrightarrow> r \<in> set rs"
  by (auto simp: latest_unique_Some)

lemma latest_unique_newest: "latest_unique t rs = Some r \<Longrightarrow> x \<in> set rs \<Longrightarrow> x = r \<or> t x < t r"
  by (auto simp: latest_unique_Some list_all_iff)

end
