(* ===== verification/Spot_Order.thy ===== *)
theory Spot_Order
  imports Decimal_Text Text_Rules "HOL-Library.Product_Lexorder"
begin

text \<open>
  \<^verbatim>\<open>domain/order_command.py\<close>: the immutable Spot order command, its exchange payload and its preview
  hash. A \<^verbatim>\<open>Decimal\<close> that is printed keeps its \<^verbatim>\<open>str()\<close> beside its value, since numerically equal
  decimals may print differently (\<^verbatim>\<open>1.0\<close> and \<^verbatim>\<open>1.00\<close>) and the hash is over the text. SHA-256 over
  the sorted JSON payload is the parameter \<open>h\<close>.
\<close>

record shown_dec =
  dv :: dec
  dtext :: string

text \<open>\<^verbatim>\<open>Decimal(str(d)) == d\<close>, which holds of every finite decimal.\<close>

definition shown_ok :: "shown_dec \<Rightarrow> bool" where
  "shown_ok q \<longleftrightarrow> parse_decimal (dtext q) = Some (Finite (dv q))"

record spot_order_command =
  oc_symbol :: string
  oc_side :: string
  oc_order_type :: string
  oc_quantity :: shown_dec
  oc_client_order_id :: string
  oc_price :: "shown_dec option"
  oc_time_in_force :: "string option"

type_synonym order_payload = "(string \<times> string) list"

type_synonym preview_digest = "order_payload \<Rightarrow> string"

definition limit_terms :: "shown_dec option \<Rightarrow> string option \<Rightarrow> bool" where
  "limit_terms price tif \<longleftrightarrow>
     (case price of None \<Rightarrow> False | Some p \<Rightarrow> 0 < dv p) \<and>
     (case tif of None \<Rightarrow> False | Some t \<Rightarrow> t \<in> {''GTC'', ''IOC'', ''FOK''})"

definition spot_order_post_init :: "spot_order_command \<Rightarrow> spot_order_command result" where
  "spot_order_post_init c =
     (let symbol = py_upper (py_strip (oc_symbol c));
          side = py_upper (py_strip (oc_side c));
          order_type = py_upper (py_strip (oc_order_type c));
          client_id = py_strip (oc_client_order_id c)
      in validate
        [(\<not> symbol_text symbol, ''order symbol must be ASCII alphanumeric''),
         (side \<notin> {''BUY'', ''SELL''} \<or> order_type \<notin> {''LIMIT'', ''MARKET''},
          ''unsupported Spot order side or type''),
         (dv (oc_quantity c) \<le> 0, ''order quantity must be finite and positive''),
         (client_id = [] \<or> length client_id > 36 \<or> \<not> py_isascii client_id, ''client order ID is invalid''),
         (order_type = ''LIMIT'' \<and> \<not> limit_terms (oc_price c) (oc_time_in_force c),
          ''LIMIT order requires valid price and time-in-force''),
         (order_type = ''MARKET'' \<and> (oc_price c \<noteq> None \<or> oc_time_in_force c \<noteq> None),
          ''MARKET order cannot contain price or time-in-force'')]
        (c\<lparr>oc_symbol := symbol, oc_side := side, oc_order_type := order_type,
           oc_client_order_id := client_id\<rparr>))"

definition order_payload :: "spot_order_command \<Rightarrow> order_payload" where
  "order_payload c =
     [(''symbol'', oc_symbol c), (''side'', oc_side c), (''type'', oc_order_type c),
      (''quantity'', dtext (oc_quantity c)), (''newClientOrderId'', oc_client_order_id c),
      (''newOrderRespType'', ''FULL'')]
     @ (case oc_price c of None \<Rightarrow> [] | Some p \<Rightarrow> [(''price'', dtext p)])
     @ (case oc_time_in_force c of None \<Rightarrow> [] | Some t \<Rightarrow> [(''timeInForce'', t)])"

definition preview_hash :: "preview_digest \<Rightarrow> spot_order_command \<Rightarrow> string" where
  "preview_hash h c = h (sort (order_payload c))"

definition command_ok :: "spot_order_command \<Rightarrow> bool" where
  "command_ok c \<longleftrightarrow> spot_order_post_init c = Inr c"

lemma spot_order_post_init_Inr:
  assumes "spot_order_post_init c = Inr c'"
  shows "symbol_text (oc_symbol c')" "oc_symbol c' = py_upper (py_strip (oc_symbol c))"
    "oc_side c' \<in> {''BUY'', ''SELL''}" "oc_order_type c' \<in> {''LIMIT'', ''MARKET''}"
    "0 < dv (oc_quantity c')" "oc_quantity c' = oc_quantity c"
    "oc_client_order_id c' \<noteq> []" "length (oc_client_order_id c') \<le> 36"
    "oc_client_order_id c' = py_strip (oc_client_order_id c)"
    "oc_price c' = oc_price c" "oc_time_in_force c' = oc_time_in_force c"
    "oc_order_type c' = ''LIMIT'' \<Longrightarrow> limit_terms (oc_price c') (oc_time_in_force c')"
    "oc_order_type c' = ''MARKET'' \<Longrightarrow> oc_price c' = None \<and> oc_time_in_force c' = None"
  using assms by (auto simp: spot_order_post_init_def Let_def)

text \<open>Normalising is idempotent: a constructed command is a fixed point.\<close>

lemma spot_order_post_init_idem: "spot_order_post_init c = Inr c' \<Longrightarrow> command_ok c'"
  by (auto simp: command_ok_def spot_order_post_init_def Let_def)

end
