(* ===== verification/Authorization.thy ===== *)
theory Authorization
  imports Spot_Order
begin

text \<open>
  \<^verbatim>\<open>execution/authorization.py\<close>: the human authorization bound to one exact Spot order, its
  normalisation, the comparison with an order command, and the ledger that claims an authorization
  once. The ledger is its SQLite table (\<^verbatim>\<open>migrations/queries/authorization.sql\<close>): a primary key on
  the authorization id and a unique nonce; \<open>fault\<close> says whether the database can be used at all.
  The envelope digest is the parameter \<open>d\<close>, over the fields of the canonical payload; timestamps
  appear there as instants.
\<close>

section \<open>The envelope\<close>

record authorization =
  au_authorization_id :: string
  au_approval_id :: string
  au_preview_hash :: string
  au_decision_id :: string
  au_snapshot_id :: string
  au_strategy_id :: string
  au_strategy_version :: string
  au_symbol :: string
  au_market_type :: string
  au_side :: string
  au_order_type :: string
  au_quantity :: shown_dec
  au_client_order_id :: string
  au_risk_assessment_hash :: string
  au_validation_bundle_hash :: string
  au_created_at :: datetime
  au_expires_at :: datetime
  au_approved_by :: string
  au_single_use_nonce :: string
  au_price :: "shown_dec option"
  au_time_in_force :: "string option"
  au_execution_allowed :: bool
  au_live_eligibility_status :: string

definition auth_text :: "string \<Rightarrow> string \<Rightarrow> string result" where
  "auth_text name value = bounded_text 256 (''authorization '' @ name @ '' is invalid'') value"

definition auth_sha256 :: "string \<Rightarrow> string result" where
  "auth_sha256 value = sha256_text ''authorization SHA-256 is invalid'' value"

definition auth_aware :: "string \<Rightarrow> datetime \<Rightarrow> datetime result" where
  "auth_aware name t =
     (if is_aware t then Inr t
      else Inl (ValueError (''authorization '' @ name @ '' must be timezone-aware'')))"

definition auth_order_checks :: "authorization \<Rightarrow> authorization \<Rightarrow> authorization result" where
  "auth_order_checks a a' = validate
     [(\<not> symbol_text (au_symbol a'), ''authorization symbol must be ASCII alphanumeric''),
      (au_market_type a' \<noteq> ''SPOT'', ''authorization market type must be SPOT''),
      (au_side a' \<notin> {''BUY'', ''SELL''}, ''authorization side is invalid''),
      (au_order_type a' \<notin> {''LIMIT'', ''MARKET''}, ''authorization order type is invalid''),
      (dv (au_quantity a) \<le> 0, ''authorization quantity must be finite and positive''),
      (au_order_type a' = ''LIMIT'' \<and> \<not> limit_terms (au_price a) (au_time_in_force a'),
       ''LIMIT authorization requires exact price constraints''),
      (au_order_type a' = ''MARKET'' \<and> (au_price a \<noteq> None \<or> au_time_in_force a' \<noteq> None),
       ''MARKET authorization cannot contain price constraints''),
      (\<not> is_aware (au_created_at a), ''authorization created_at must be timezone-aware''),
      (\<not> is_aware (au_expires_at a), ''authorization expires_at must be timezone-aware''),
      (instant (au_expires_at a) \<le> instant (au_created_at a), ''authorization expiry must follow creation''),
      (au_execution_allowed a \<or> au_live_eligibility_status a \<noteq> live_blocked,
       ''authorization envelope cannot grant execution authority'')] a'"

definition authorization_post_init :: "authorization \<Rightarrow> authorization result" where
  "authorization_post_init a =
     bindE (auth_text ''authorization_id'' (au_authorization_id a)) (\<lambda>aid.
     bindE (auth_text ''approval_id'' (au_approval_id a)) (\<lambda>apid.
     bindE (auth_text ''decision_id'' (au_decision_id a)) (\<lambda>did.
     bindE (auth_text ''snapshot_id'' (au_snapshot_id a)) (\<lambda>snid.
     bindE (auth_text ''strategy_id'' (au_strategy_id a)) (\<lambda>stid.
     bindE (auth_text ''strategy_version'' (au_strategy_version a)) (\<lambda>stver.
     bindE (auth_text ''client_order_id'' (au_client_order_id a)) (\<lambda>coid.
     bindE (auth_text ''approved_by'' (au_approved_by a)) (\<lambda>by_whom.
     bindE (auth_text ''single_use_nonce'' (au_single_use_nonce a)) (\<lambda>nonce.
     bindE (auth_sha256 (au_preview_hash a)) (\<lambda>ph.
     bindE (auth_sha256 (au_risk_assessment_hash a)) (\<lambda>rh.
     bindE (auth_sha256 (au_validation_bundle_hash a)) (\<lambda>vh.
       auth_order_checks a
         (a\<lparr>au_authorization_id := aid, au_approval_id := apid, au_decision_id := did,
            au_snapshot_id := snid, au_strategy_id := stid, au_strategy_version := stver,
            au_client_order_id := coid, au_approved_by := by_whom, au_single_use_nonce := nonce,
            au_preview_hash := ph, au_risk_assessment_hash := rh, au_validation_bundle_hash := vh,
            au_symbol := py_upper (py_strip (au_symbol a)),
            au_market_type := py_upper (py_strip (au_market_type a)),
            au_side := py_upper (py_strip (au_side a)),
            au_order_type := py_upper (py_strip (au_order_type a)),
            au_time_in_force := map_option (\<lambda>t. py_upper (py_strip t)) (au_time_in_force a)\<rparr>)))))))))))))"

datatype payload_value = PText string | PNull | PFalse | PTime int

type_synonym envelope_digest = "(string \<times> payload_value) list \<Rightarrow> string"

definition authorization_payload :: "authorization \<Rightarrow> (string \<times> payload_value) list" where
  "authorization_payload a =
     [(''approval_id'', PText (au_approval_id a)), (''approved_by'', PText (au_approved_by a)),
      (''authorization_id'', PText (au_authorization_id a)),
      (''client_order_id'', PText (au_client_order_id a)),
      (''created_at'', PTime (instant (au_created_at a))), (''decision_id'', PText (au_decision_id a)),
      (''execution_allowed'', PFalse), (''expires_at'', PTime (instant (au_expires_at a))),
      (''live_eligibility_status'', PText live_blocked), (''market_type'', PText (au_market_type a)),
      (''order_type'', PText (au_order_type a)), (''preview_hash'', PText (au_preview_hash a)),
      (''price'', (case au_price a of None \<Rightarrow> PNull | Some p \<Rightarrow> PText (dtext p))),
      (''quantity'', PText (dtext (au_quantity a))),
      (''risk_assessment_hash'', PText (au_risk_assessment_hash a)), (''side'', PText (au_side a)),
      (''single_use_nonce'', PText (au_single_use_nonce a)), (''snapshot_id'', PText (au_snapshot_id a)),
      (''strategy_id'', PText (au_strategy_id a)), (''strategy_version'', PText (au_strategy_version a)),
      (''symbol'', PText (au_symbol a)),
      (''time_in_force'', (case au_time_in_force a of None \<Rightarrow> PNull | Some t \<Rightarrow> PText t)),
      (''validation_bundle_hash'', PText (au_validation_bundle_hash a))]"

definition envelope_sha256 :: "envelope_digest \<Rightarrow> authorization \<Rightarrow> string" where
  "envelope_sha256 d a = d (authorization_payload a)"

definition to_spot_order_command :: "authorization \<Rightarrow> spot_order_command result" where
  "to_spot_order_command a = spot_order_post_init
     \<lparr>oc_symbol = au_symbol a, oc_side = au_side a, oc_order_type = au_order_type a,
      oc_quantity = au_quantity a, oc_client_order_id = au_client_order_id a,
      oc_price = au_price a, oc_time_in_force = au_time_in_force a\<rparr>"

definition blockers_for :: "preview_digest \<Rightarrow> authorization \<Rightarrow> spot_order_command \<Rightarrow> datetime \<Rightarrow>
    string list result" where
  "blockers_for h a c observed_at =
     bindE (auth_aware ''observed_at'' observed_at) (\<lambda>now. Inr (failed_codes
       [(instant now < instant (au_created_at a), ''EXECUTION_AUTHORIZATION_NOT_YET_VALID''),
        (instant now \<ge> instant (au_expires_at a), ''EXECUTION_AUTHORIZATION_EXPIRED''),
        (au_preview_hash a \<noteq> preview_hash h c, ''EXECUTION_AUTHORIZATION_PREVIEW_HASH_MISMATCH''),
        (au_symbol a \<noteq> oc_symbol c, ''EXECUTION_AUTHORIZATION_SYMBOL_MISMATCH''),
        (au_side a \<noteq> oc_side c, ''EXECUTION_AUTHORIZATION_SIDE_MISMATCH''),
        (au_order_type a \<noteq> oc_order_type c, ''EXECUTION_AUTHORIZATION_ORDER_TYPE_MISMATCH''),
        (dv (au_quantity a) \<noteq> dv (oc_quantity c), ''EXECUTION_AUTHORIZATION_QUANTITY_MISMATCH''),
        (map_option dv (au_price a) \<noteq> map_option dv (oc_price c), ''EXECUTION_AUTHORIZATION_PRICE_MISMATCH''),
        (au_time_in_force a \<noteq> oc_time_in_force c, ''EXECUTION_AUTHORIZATION_TIME_IN_FORCE_MISMATCH''),
        (au_client_order_id a \<noteq> oc_client_order_id c,
         ''EXECUTION_AUTHORIZATION_CLIENT_ORDER_ID_MISMATCH'')]))"

section \<open>The consumption ledger\<close>

record consumption =
  cn_authorization_id :: string
  cn_single_use_nonce :: string
  cn_envelope_sha256 :: string
  cn_preview_hash :: string
  cn_execution_id :: string
  cn_claimed_at :: datetime

type_synonym ledger = "consumption list"

definition consumption_post_init :: "consumption \<Rightarrow> consumption result" where
  "consumption_post_init c =
     bindE (auth_text ''authorization_id'' (cn_authorization_id c)) (\<lambda>aid.
     bindE (auth_text ''single_use_nonce'' (cn_single_use_nonce c)) (\<lambda>nonce.
     bindE (auth_text ''execution_id'' (cn_execution_id c)) (\<lambda>eid.
     bindE (auth_sha256 (cn_envelope_sha256 c)) (\<lambda>esha.
     bindE (auth_sha256 (cn_preview_hash c)) (\<lambda>ph.
     bindE (auth_aware ''claimed_at'' (cn_claimed_at c)) (\<lambda>t.
       Inr \<lparr>cn_authorization_id = aid, cn_single_use_nonce = nonce, cn_envelope_sha256 = esha,
            cn_preview_hash = ph, cn_execution_id = eid, cn_claimed_at = t\<rparr>))))))"

text \<open>
  The transaction: the insertion fails on a repeated key, the read-back compares the stored row
  with the expected one, and only a commit changes the table.
\<close>

definition ledger_insert :: "ledger \<Rightarrow> consumption \<Rightarrow> ledger option" where
  "ledger_insert l row =
     (if cn_authorization_id row \<in> cn_authorization_id ` set l
         \<or> cn_single_use_nonce row \<in> cn_single_use_nonce ` set l
      then None else Some (l @ [row]))"

definition ledger_claim :: "envelope_digest \<Rightarrow> ledger \<Rightarrow> bool \<Rightarrow> authorization \<Rightarrow> string \<Rightarrow> datetime \<Rightarrow>
    consumption result \<times> ledger" where
  "ledger_claim d l fault a execution_id claimed_at =
     (case bindE (auth_text ''execution_id'' execution_id) (\<lambda>eid.
             bindE (auth_aware ''claimed_at'' claimed_at) (\<lambda>t. Inr (eid, t))) of
        Inl e \<Rightarrow> (Inl e, l)
      | Inr (eid, t) \<Rightarrow>
          if fault then (Inl LedgerUnavailableError, l)
          else
            let row = \<lparr>cn_authorization_id = au_authorization_id a,
                       cn_single_use_nonce = au_single_use_nonce a,
                       cn_envelope_sha256 = envelope_sha256 d a, cn_preview_hash = au_preview_hash a,
                       cn_execution_id = eid, cn_claimed_at = t\<rparr>
            in case ledger_insert l row of
                 None \<Rightarrow> (Inl AlreadyConsumedError, l)
               | Some l' \<Rightarrow>
                   if find (\<lambda>r. cn_authorization_id r = au_authorization_id a) l' \<noteq> Some row
                   then (Inl LedgerUnavailableError, l)
                   else (consumption_post_init row, l'))"

text \<open>Without a database file nothing was consumed.\<close>

definition ledger_is_consumed :: "ledger option \<Rightarrow> bool \<Rightarrow> string \<Rightarrow> bool result" where
  "ledger_is_consumed file fault authorization_id =
     (case file of
        None \<Rightarrow> Inr False
      | Some l \<Rightarrow>
          if fault then Inl LedgerUnavailableError
          else bindE (auth_text ''authorization_id'' authorization_id) (\<lambda>aid.
                 Inr (aid \<in> cn_authorization_id ` set l)))"

section \<open>Single use\<close>

text \<open>
  A store of attempts that grants at most once per key: \<open>attempt\<close> says whether it granted and what
  the store is afterwards, \<open>used\<close> the keys the store has marked. What the ledger promises, and what
  the executor built on it promises again.
\<close>

fun attempts :: "('s \<Rightarrow> 'r \<Rightarrow> bool \<times> 's) \<Rightarrow> 's \<Rightarrow> 'r list \<Rightarrow> bool list" where
  "attempts attempt s [] = []"
| "attempts attempt s (r # rs) = (case attempt s r of (g, s') \<Rightarrow> g # attempts attempt s' rs)"

definition grants_of :: "('r \<Rightarrow> 'k) \<Rightarrow> 'k \<Rightarrow> 'r list \<Rightarrow> bool list \<Rightarrow> nat" where
  "grants_of key k rs gs = length (filter (\<lambda>(r, g). g \<and> key r = k) (zip rs gs))"

locale single_use =
  fixes attempt :: "'s \<Rightarrow> 'r \<Rightarrow> bool \<times> 's"
    and key :: "'r \<Rightarrow> 'k"
    and used :: "'s \<Rightarrow> 'k set"
  assumes grant_fresh: "attempt s r = (True, s') \<Longrightarrow> key r \<notin> used s \<and> key r \<in> used s'"
    and used_mono: "attempt s r = (g, s') \<Longrightarrow> used s \<subseteq> used s'"
begin

lemma grants_used: "k \<in> used s \<Longrightarrow> grants_of key k rs (attempts attempt s rs) = 0"
proof (induction rs arbitrary: s)
  case (Cons r rs)
  obtain g s' where a: "attempt s r = (g, s')" by (cases "attempt s r")
  have "\<not> (g \<and> key r = k)" using Cons.prems grant_fresh [of s r s'] a by auto
  moreover have "k \<in> used s'" using Cons.prems used_mono [OF a] by blast
  ultimately show ?case using Cons.IH a by (simp add: grants_of_def)
qed (simp add: grants_of_def)

lemma grants_once: "grants_of key k rs (attempts attempt s rs) \<le> 1"
proof (induction rs arbitrary: s)
  case (Cons r rs)
  obtain g s' where a: "attempt s r = (g, s')" by (cases "attempt s r")
  show ?case
  proof (cases "g \<and> key r = k")
    case True
    then have "k \<in> used s'" using grant_fresh [of s r s'] a by auto
    then have "grants_of key k rs (attempts attempt s' rs) = 0" by (rule grants_used)
    with True a show ?thesis by (simp add: grants_of_def)
  next
    case False
    with Cons.IH [of s'] a show ?thesis by (auto simp: grants_of_def)
  qed
qed (simp add: grants_of_def)

end

text \<open>A request to claim: the authorization, the execution id, the time and the database's state.\<close>

type_synonym claim_request = "authorization \<times> string \<times> datetime \<times> bool"

definition claim_attempt :: "envelope_digest \<Rightarrow> ledger \<Rightarrow> claim_request \<Rightarrow> bool \<times> ledger" where
  "claim_attempt d l = (\<lambda>(a, eid, t, fault).
     case ledger_claim d l fault a eid t of (r, l') \<Rightarrow> ((case r of Inl _ \<Rightarrow> False | Inr _ \<Rightarrow> True), l'))"

lemma ledger_claim_cases:
  obtains e where "ledger_claim d l fault a eid t = (Inl e, l)"
  | row where "ledger_claim d l fault a eid t = (consumption_post_init row, l @ [row])"
      "cn_authorization_id row = au_authorization_id a" "cn_single_use_nonce row = au_single_use_nonce a"
      "au_authorization_id a \<notin> cn_authorization_id ` set l"
      "au_single_use_nonce a \<notin> cn_single_use_nonce ` set l"
proof (cases "bindE (auth_text ''execution_id'' eid) (\<lambda>eid.
      bindE (auth_aware ''claimed_at'' t) (\<lambda>t. Inr (eid, t)))")
  case (Inl e)
  then show ?thesis by (intro that(1)) (simp add: ledger_claim_def)
next
  case (Inr p)
  obtain e u where p: "p = (e, u)" by (rule prod.exhaust)
  let ?row = "\<lparr>cn_authorization_id = au_authorization_id a, cn_single_use_nonce = au_single_use_nonce a,
     cn_envelope_sha256 = envelope_sha256 d a, cn_preview_hash = au_preview_hash a,
     cn_execution_id = e, cn_claimed_at = u\<rparr>"
  have ins: "ledger_insert l ?row = (if au_authorization_id a \<in> cn_authorization_id ` set l \<or>
      au_single_use_nonce a \<in> cn_single_use_nonce ` set l then None else Some (l @ [?row]))"
    by (simp add: ledger_insert_def)
  consider "fault" | "\<not> fault" "ledger_insert l ?row = None" | "\<not> fault" "ledger_insert l ?row = Some (l @ [?row])"
      "au_authorization_id a \<notin> cn_authorization_id ` set l"
      "au_single_use_nonce a \<notin> cn_single_use_nonce ` set l"
    unfolding ins by (cases fault; cases "au_authorization_id a \<in> cn_authorization_id ` set l";
        cases "au_single_use_nonce a \<in> cn_single_use_nonce ` set l") simp_all
  then show ?thesis
  proof cases
    case 3
    have "find (\<lambda>r. cn_authorization_id r = au_authorization_id a) (l @ [?row]) = Some ?row"
      using 3(3) by (induction l) auto
    then show ?thesis using 3 Inr p by (intro that(2) [of ?row]) (simp_all add: ledger_claim_def Let_def)
  qed (use Inr p in \<open>auto simp: ledger_claim_def Let_def intro: that(1)\<close>)
qed

lemma claim_attempt_cases:
  assumes "claim_attempt d l (a, eid, t, fault) = (g, l')"
  shows "l' = l \<and> \<not> g \<or>
    (\<exists>row. l' = l @ [row] \<and> cn_authorization_id row = au_authorization_id a \<and>
       cn_single_use_nonce row = au_single_use_nonce a \<and>
       au_authorization_id a \<notin> cn_authorization_id ` set l \<and>
       au_single_use_nonce a \<notin> cn_single_use_nonce ` set l)"
  by (rule ledger_claim_cases [of d l fault a eid t]) (use assms in \<open>auto simp: claim_attempt_def\<close>)

interpretation ledger_ids: single_use "claim_attempt d" "\<lambda>(a, _). au_authorization_id a"
    "\<lambda>l. cn_authorization_id ` set l" for d
  by unfold_locales (auto dest!: claim_attempt_cases)

interpretation ledger_nonces: single_use "claim_attempt d" "\<lambda>(a, _). au_single_use_nonce a"
    "\<lambda>l. cn_single_use_nonce ` set l" for d
  by unfold_locales (auto dest!: claim_attempt_cases)

section \<open>Exact orders\<close>

definition authorization_ok :: "authorization \<Rightarrow> bool" where
  "authorization_ok a \<longleftrightarrow> authorization_post_init a = Inr a"

lemma auth_text_Inr: "auth_text n v = Inr s \<Longrightarrow> s = py_strip v \<and> auth_text n s = Inr s"
  by (auto simp: auth_text_def bounded_text_Inr)

lemma auth_sha256_Inr: "auth_sha256 v = Inr s \<Longrightarrow> hex_text 64 s \<and> auth_sha256 s = Inr s"
  by (auto simp: auth_sha256_def sha256_text_Inr hex_text_def hex_text_lower hex_text_strip)

lemma authorization_post_init_checks:
  assumes "authorization_post_init a = Inr a'" shows "auth_order_checks a a' = Inr a'"
proof -
  have "a'' = a'" if "auth_order_checks a a'' = Inr a'" for a''
    using that by (simp add: auth_order_checks_def)
  with assms show ?thesis by (auto simp: authorization_post_init_def)
qed

lemma authorization_ok_checks:
  assumes "authorization_ok a"
  shows "symbol_text (au_symbol a)" "au_market_type a = ''SPOT''" "au_side a \<in> {''BUY'', ''SELL''}"
    "au_order_type a \<in> {''LIMIT'', ''MARKET''}" "0 < dv (au_quantity a)"
    "au_order_type a = ''LIMIT'' \<Longrightarrow> limit_terms (au_price a) (au_time_in_force a)"
    "au_order_type a = ''MARKET'' \<Longrightarrow> au_price a = None \<and> au_time_in_force a = None"
    "is_aware (au_created_at a)" "is_aware (au_expires_at a)"
    "instant (au_created_at a) < instant (au_expires_at a)"
    "\<not> au_execution_allowed a" "au_live_eligibility_status a = live_blocked"
  using authorization_post_init_checks [of a a] assms
  by (auto simp: authorization_ok_def auth_order_checks_def)

definition example_authorization :: authorization where
  "example_authorization = \<lparr>au_authorization_id = ''auth1'', au_approval_id = ''ap1'',
     au_preview_hash = replicate 64 (CHR ''a''), au_decision_id = ''d1'', au_snapshot_id = ''sn1'',
     au_strategy_id = ''s1'', au_strategy_version = ''1'', au_symbol = ''BTCUSDT'',
     au_market_type = ''SPOT'', au_side = ''BUY'', au_order_type = ''LIMIT'',
     au_quantity = \<lparr>dv = 1 / 2, dtext = ''0.5''\<rparr>, au_client_order_id = ''c1'',
     au_risk_assessment_hash = replicate 64 (CHR ''b''),
     au_validation_bundle_hash = replicate 64 (CHR ''a''), au_created_at = Aware 10,
     au_expires_at = Aware 100, au_approved_by = ''human'', au_single_use_nonce = ''n1'',
     au_price = Some \<lparr>dv = 100, dtext = ''100''\<rparr>, au_time_in_force = Some ''GTC'',
     au_execution_allowed = False, au_live_eligibility_status = live_blocked\<rparr>"

end
