(* ===== verification/Approval_Queue.thy ===== *)
theory Approval_Queue
  imports Authorization
begin

text \<open>
  \<^verbatim>\<open>execution/manual_approval.py\<close>: proposals, approval requests, the queue records that join them
  with an exact-order authorization, and the append-only queue file. The file is the sequence of
  its decoded lines; a line that does not decode raises when the file is read. Writing a record and
  decoding it again gives the record (the JSON round trip of the fields), so an appended line
  decodes to the appended record.
\<close>

section \<open>Records\<close>

datatype manual_action_type =
  PLACE_SPOT_ORDER | PLACE_FUTURES_ORDER | CANCEL_ORDER | REDUCE_SPOT_HOLDING | EXIT_SPOT_HOLDING
  | CLOSE_FUTURES_POSITION | REDUCE_FUTURES_POSITION | TRANSFER_SPOT_TO_FUTURES
  | TRANSFER_FUTURES_TO_SPOT | CONVERT_ASSET

datatype approval_status = AP_PENDING | AP_APPROVED | AP_REJECTED | AP_EXPIRED | AP_CANCELLED

record manual_action_proposal =
  mp_action_id :: string
  mp_action_type :: manual_action_type
  mp_asset_or_symbol :: string
  mp_suggested_notional_usdt :: dec
  mp_reason :: string
  mp_expected_effect :: string
  mp_risk :: string
  mp_approval_status :: approval_status
  mp_blockers :: "string list"
  mp_execution_allowed :: bool
  mp_live_eligibility_status :: string

definition proposal_post_init :: "manual_action_proposal \<Rightarrow> manual_action_proposal result" where
  "proposal_post_init p = validate
     [(blank (mp_action_id p) \<or> blank (mp_asset_or_symbol p) \<or> blank (mp_reason p)
         \<or> blank (mp_expected_effect p) \<or> blank (mp_risk p),
       ''manual action proposal identity is required''),
      (mp_suggested_notional_usdt p < 0, ''manual action notional must be non-negative''),
      (list_ex blank (mp_blockers p), ''manual action blockers cannot be empty''),
      (mp_execution_allowed p \<or> mp_live_eligibility_status p \<noteq> live_blocked,
       ''manual action cannot grant execution authority'')] p"

record approval_request =
  ar_approval_id :: string
  ar_action_id :: string
  ar_action_type :: manual_action_type
  ar_approval_status :: approval_status
  ar_execution_allowed :: bool
  ar_live_eligibility_status :: string

definition approval_request_post_init :: "approval_request \<Rightarrow> approval_request result" where
  "approval_request_post_init r = validate
     [(blank (ar_approval_id r) \<or> blank (ar_action_id r), ''approval request identity is required''),
      (ar_execution_allowed r \<or> ar_live_eligibility_status r \<noteq> live_blocked,
       ''approval request cannot grant execution authority'')] r"

record queue_record =
  qr_action :: manual_action_proposal
  qr_approval :: approval_request
  qr_created_at :: datetime
  qr_authorization :: "authorization option"

definition queue_record_post_init :: "queue_record \<Rightarrow> queue_record result" where
  "queue_record_post_init r = validate
     [(\<not> is_aware (qr_created_at r), ''approval queue timestamp must be timezone-aware''),
      (mp_action_id (qr_action r) \<noteq> ar_action_id (qr_approval r), ''approval record action IDs must match''),
      (mp_action_type (qr_action r) \<noteq> ar_action_type (qr_approval r),
       ''approval record action types must match''),
      (case qr_authorization r of None \<Rightarrow> False | Some a \<Rightarrow>
         mp_action_type (qr_action r) \<noteq> PLACE_SPOT_ORDER
         \<or> au_approval_id a \<noteq> ar_approval_id (qr_approval r)
         \<or> au_symbol a \<noteq> py_upper (py_strip (mp_asset_or_symbol (qr_action r))),
       ''execution authorization does not match approval record'')] r"

section \<open>The queue\<close>

type_synonym queue_file = "queue_record result list"

definition queue_records :: "queue_file \<Rightarrow> queue_record list result" where
  "queue_records f = mapE id f"

definition queue_by_action_id :: "queue_file \<Rightarrow> string \<Rightarrow> queue_record option result" where
  "queue_by_action_id f action_id =
     (let normalized = py_strip action_id
      in bindE (queue_records f) (\<lambda>rs. Inr (find (\<lambda>r. mp_action_id (qr_action r) = normalized) rs)))"

text \<open>Append a line and read it back under the action id.\<close>

definition queue_append_verified :: "queue_file \<Rightarrow> string \<Rightarrow> queue_record \<Rightarrow>
    queue_record result \<times> queue_file" where
  "queue_append_verified f action_id record =
     (let f' = f @ [Inr record]
      in case queue_by_action_id f' action_id of
           Inl e \<Rightarrow> (Inl e, f')
         | Inr observed \<Rightarrow>
             if observed \<noteq> Some record
             then (Inl (RuntimeError ''APPROVAL_QUEUE_DESTINATION_VERIFY_FAILED''), f')
             else (Inr record, f'))"

text \<open>\<open>approval_id\<close> and \<open>now\<close>: the optional identity and the creation time given or read from the clock.\<close>

definition pending_record :: "manual_action_proposal \<Rightarrow> string option \<Rightarrow> datetime \<Rightarrow> queue_record result" where
  "pending_record action approval_id now =
     (let aid = (case approval_id of
                   None \<Rightarrow> ''approval-'' @ mp_action_id action
                 | Some i \<Rightarrow> if i = [] then ''approval-'' @ mp_action_id action else i)
      in bindE (approval_request_post_init
           \<lparr>ar_approval_id = aid, ar_action_id = mp_action_id action,
            ar_action_type = mp_action_type action, ar_approval_status = AP_PENDING,
            ar_execution_allowed = False, ar_live_eligibility_status = live_blocked\<rparr>)
         (\<lambda>approval. queue_record_post_init
           \<lparr>qr_action = action, qr_approval = approval, qr_created_at = now,
            qr_authorization = None\<rparr>))"

definition queue_enqueue :: "queue_file \<Rightarrow> manual_action_proposal \<Rightarrow> string option \<Rightarrow> datetime \<Rightarrow>
    queue_record result \<times> queue_file" where
  "queue_enqueue f action approval_id now =
     (case queue_by_action_id f (mp_action_id action) of
        Inl e \<Rightarrow> (Inl e, f)
      | Inr (Some existing) \<Rightarrow> (Inr existing, f)
      | Inr None \<Rightarrow>
          (case pending_record action approval_id now of
             Inl e \<Rightarrow> (Inl e, f)
           | Inr record \<Rightarrow> queue_append_verified f (mp_action_id action) record))"

definition record_authorization_id :: "queue_record \<Rightarrow> string option" where
  "record_authorization_id r = map_option au_authorization_id (qr_authorization r)"

definition approved_authorization :: "string \<Rightarrow> queue_record \<Rightarrow> authorization option" where
  "approved_authorization normalized r =
     (case qr_authorization r of
        None \<Rightarrow> None
      | Some a \<Rightarrow>
          if mp_approval_status (qr_action r) \<noteq> AP_APPROVED
             \<or> ar_approval_status (qr_approval r) \<noteq> AP_APPROVED
             \<or> au_authorization_id a \<noteq> normalized
             \<or> mp_action_type (qr_action r) \<noteq> PLACE_SPOT_ORDER
             \<or> ar_action_type (qr_approval r) \<noteq> PLACE_SPOT_ORDER
             \<or> au_approval_id a \<noteq> ar_approval_id (qr_approval r)
             \<or> au_symbol a \<noteq> py_upper (py_strip (mp_asset_or_symbol (qr_action r)))
          then None else Some a)"

definition bound_approval_ids :: "string \<Rightarrow> queue_record list \<Rightarrow> string list" where
  "bound_approval_ids normalized records =
     remdups (concat (map (\<lambda>r. case qr_authorization r of None \<Rightarrow> [] | Some a \<Rightarrow> [au_approval_id a])
       (filter (\<lambda>r. record_authorization_id r = Some normalized) records)))"

definition newest_approved :: "string \<Rightarrow> queue_record list \<Rightarrow> string \<Rightarrow> authorization option" where
  "newest_approved normalized records approval_id =
     (let matching = filter (\<lambda>r. ar_approval_id (qr_approval r) = approval_id) records
      in case latest_unique (\<lambda>r. instant (qr_created_at r)) matching of
           None \<Rightarrow> None
         | Some r \<Rightarrow> approved_authorization normalized r)"

definition resolve_execution_authorization :: "queue_file \<Rightarrow> string \<Rightarrow> authorization option result" where
  "resolve_execution_authorization f authorization_id =
     (let normalized = py_strip authorization_id
      in if normalized = [] then Inr None
         else bindE (queue_records f) (\<lambda>records.
           Inr (case bound_approval_ids normalized records of
                  [approval_id] \<Rightarrow> newest_approved normalized records approval_id
                | _ \<Rightarrow> None)))"

section \<open>Reading the file\<close>

lemma queue_records_map: "queue_records (map Inr rs) = Inr rs"
  unfolding queue_records_def by (induction rs) simp_all

lemma queue_records_Inr: "queue_records f = Inr rs \<longleftrightarrow> f = map Inr rs"
proof
  show "queue_records f = Inr rs \<Longrightarrow> f = map Inr rs"
    unfolding queue_records_def by (induction f arbitrary: rs) auto
qed (simp add: queue_records_map)

lemma queue_by_action_id_map:
  "queue_by_action_id (map Inr rs) i = Inr (find (\<lambda>r. mp_action_id (qr_action r) = py_strip i) rs)"
  by (simp add: queue_by_action_id_def Let_def queue_records_map)

lemma find_append: "find p (xs @ ys) = (case find p xs of None \<Rightarrow> find p ys | Some x \<Rightarrow> Some x)"
  by (induction xs) auto

lemma queue_by_action_id_snoc:
  "queue_by_action_id (map Inr rs @ [Inr r]) i =
     Inr (case find (\<lambda>r. mp_action_id (qr_action r) = py_strip i) rs of
            None \<Rightarrow> if mp_action_id (qr_action r) = py_strip i then Some r else None
          | Some x \<Rightarrow> Some x)"
  using queue_by_action_id_map [of "rs @ [r]" i] by (simp add: find_append split: option.split)

lemma pending_record_fields:
  assumes "pending_record p ai now = Inr r"
  shows "qr_action r = p" "qr_authorization r = None" "ar_approval_status (qr_approval r) = AP_PENDING"
    "ar_action_id (qr_approval r) = mp_action_id p" "qr_created_at r = now"
  using assms
  by (auto simp: pending_record_def queue_record_post_init_def approval_request_post_init_def Let_def)

lemma queue_enqueue_new:
  assumes "find (\<lambda>r. mp_action_id (qr_action r) = py_strip (mp_action_id p)) rs = None"
    and "pending_record p ai now = Inr r"
  shows "queue_enqueue (map Inr rs) p ai now =
    (if py_strip (mp_action_id p) = mp_action_id p then Inr r
     else Inl (RuntimeError ''APPROVAL_QUEUE_DESTINATION_VERIFY_FAILED''), map Inr (rs @ [r]))"
  using assms pending_record_fields(1) [OF assms(2)]
  by (simp add: queue_enqueue_def queue_append_verified_def Let_def queue_by_action_id_map
      queue_by_action_id_snoc)

section \<open>Properties\<close>

text \<open>
  Queueing an action once is enough. For a readable queue and an action whose id has no
  surrounding whitespace, enqueueing a valid new action appends one pending record without any
  authorization and returns it; enqueueing the same action again, with any approval id and time,
  returns that record and leaves the file as it is.
\<close>

theorem enqueue_idempotent:
  assumes "queue_records f = Inr rs" "py_strip (mp_action_id p) = mp_action_id p"
    and "list_all (\<lambda>r. mp_action_id (qr_action r) \<noteq> mp_action_id p) rs"
    and "pending_record p ai now = Inr r"
  shows "queue_enqueue f p ai now = (Inr r, f @ [Inr r]) \<and> qr_authorization r = None \<and>
    ar_approval_status (qr_approval r) = AP_PENDING \<and>
    queue_enqueue (f @ [Inr r]) p ai' now' = (Inr r, f @ [Inr r])"
proof -
  have f: "f = map Inr rs" using assms(1) by (simp add: queue_records_Inr)
  have none: "find (\<lambda>r. mp_action_id (qr_action r) = py_strip (mp_action_id p)) rs = None"
    using assms(2,3) by (simp add: find_None_iff list_all_iff)
  have "queue_by_action_id (f @ [Inr r]) (mp_action_id p) = Inr (Some r)"
    using none assms(2) pending_record_fields(1) [OF assms(4)] by (simp add: f queue_by_action_id_snoc)
  then have "queue_enqueue (f @ [Inr r]) p ai' now' = (Inr r, f @ [Inr r])" by (simp add: queue_enqueue_def)
  with queue_enqueue_new [OF none assms(4)] assms(2) pending_record_fields [OF assms(4)] f show ?thesis
    by simp
qed

definition example_proposal :: "string \<Rightarrow> manual_action_proposal" where
  "example_proposal i = \<lparr>mp_action_id = i, mp_action_type = PLACE_SPOT_ORDER,
     mp_asset_or_symbol = ''BTCUSDT'', mp_suggested_notional_usdt = 100, mp_reason = ''r'',
     mp_expected_effect = ''e'', mp_risk = ''k'', mp_approval_status = AP_PENDING,
     mp_blockers = [''MANUAL_APPROVAL_REQUIRED''], mp_execution_allowed = False,
     mp_live_eligibility_status = live_blocked\<rparr>"

definition example_pending :: "string \<Rightarrow> queue_record" where
  "example_pending i = \<lparr>qr_action = example_proposal i,
     qr_approval = \<lparr>ar_approval_id = ''approval-'' @ i, ar_action_id = i, ar_action_type = PLACE_SPOT_ORDER,
       ar_approval_status = AP_PENDING, ar_execution_allowed = False,
       ar_live_eligibility_status = live_blocked\<rparr>,
     qr_created_at = Aware 7, qr_authorization = None\<rparr>"

lemma example_pending_record:
  "\<not> blank i \<Longrightarrow> pending_record (example_proposal i) None (Aware 7) = Inr (example_pending i)"
  by (simp add: pending_record_def example_proposal_def example_pending_def approval_request_post_init_def
      queue_record_post_init_def blank_def py_strip_def py_space_def)

theorem enqueue_idempotent_witness:
  "queue_enqueue (snd (queue_enqueue [] (example_proposal ''a1'') None (Aware 7))) (example_proposal ''a1'')
     (Some ''other'') (Aware 9) = (Inr (example_pending ''a1''), [Inr (example_pending ''a1'')])"
proof -
  have strip: "py_strip ''a1'' = ''a1''" by code_simp
  then have "pending_record (example_proposal ''a1'') None (Aware 7) = Inr (example_pending ''a1'')"
    by (intro example_pending_record) (simp add: blank_def)
  then show ?thesis
    using enqueue_idempotent [of "[]" "[]" "example_proposal ''a1''" None "Aware 7" "example_pending ''a1''"
        "Some ''other''" "Aware 9"] strip
    by (simp add: queue_records_def example_proposal_def)
qed

text \<open>
  An action id with surrounding whitespace can never be queued. The look-up strips the id and
  the record keeps it, so the read-back fails after the line was written: every attempt raises and
  every attempt leaves one more line in the file.
\<close>

theorem enqueue_unstripped_id:
  assumes "py_strip (mp_action_id p) \<noteq> mp_action_id p"
    and "list_all (\<lambda>r. mp_action_id (qr_action r) \<noteq> py_strip (mp_action_id p)) rs"
    and "pending_record p ai now = Inr r"
  shows "queue_enqueue (map Inr rs @ replicate n (Inr r)) p ai now =
    (Inl (RuntimeError ''APPROVAL_QUEUE_DESTINATION_VERIFY_FAILED''),
     map Inr rs @ replicate (Suc n) (Inr r))"
proof -
  let ?rs = "rs @ replicate n r"
  have "find (\<lambda>r. mp_action_id (qr_action r) = py_strip (mp_action_id p)) ?rs = None"
    using assms pending_record_fields(1) [OF assms(3)] by (auto simp: find_None_iff list_all_iff)
  from queue_enqueue_new [OF this assms(3)] assms(1) show ?thesis
    by (simp add: replicate_append_same)
qed

theorem enqueue_unstripped_id_witness:
  "queue_enqueue [Inr (example_pending '' a1'')] (example_proposal '' a1'') None (Aware 7) =
     (Inl (RuntimeError ''APPROVAL_QUEUE_DESTINATION_VERIFY_FAILED''),
      [Inr (example_pending '' a1''), Inr (example_pending '' a1'')])"
proof -
  have strip: "py_strip '' a1'' = ''a1''" by code_simp
  then have "pending_record (example_proposal '' a1'') None (Aware 7) = Inr (example_pending '' a1'')"
    by (intro example_pending_record) (simp add: blank_def)
  then show ?thesis
    using enqueue_unstripped_id [of "example_proposal '' a1''" "[]" None "Aware 7" "example_pending '' a1''" 1] strip
    by (simp add: example_proposal_def numeral_2_eq_2)
qed

lemma resolved_newest:
  assumes "resolve_execution_authorization f i = Inr (Some a)"
  shows "\<exists>rs r. queue_records f = Inr rs \<and> r \<in> set rs \<and> qr_authorization r = Some a \<and>
    au_authorization_id a = py_strip i \<and>
    mp_approval_status (qr_action r) = AP_APPROVED \<and> ar_approval_status (qr_approval r) = AP_APPROVED \<and>
    mp_action_type (qr_action r) = PLACE_SPOT_ORDER \<and>
    au_approval_id a = ar_approval_id (qr_approval r) \<and>
    au_symbol a = py_upper (py_strip (mp_asset_or_symbol (qr_action r))) \<and>
    (\<forall>x \<in> set rs. ar_approval_id (qr_approval x) = au_approval_id a \<longrightarrow>
       x = r \<or> instant (qr_created_at x) < instant (qr_created_at r))"
proof -
  from assms obtain rs where rs: "queue_records f = Inr rs"
    and "(case bound_approval_ids (py_strip i) rs of
      [apid] \<Rightarrow> newest_approved (py_strip i) rs apid | _ \<Rightarrow> None) = Some a"
    by (auto simp: resolve_execution_authorization_def Let_def split: if_split_asm)
  then obtain apid where "newest_approved (py_strip i) rs apid = Some a"
    by (cases "bound_approval_ids (py_strip i) rs" rule: remdups_adj.cases) auto
  then obtain r where latest: "latest_unique (\<lambda>r. instant (qr_created_at r))
      (filter (\<lambda>r. ar_approval_id (qr_approval r) = apid) rs) = Some r"
    and ok: "approved_authorization (py_strip i) r = Some a"
    by (auto simp: newest_approved_def Let_def split: option.splits)
  have r: "r \<in> set rs" "ar_approval_id (qr_approval r) = apid"
    using latest_unique_mem [OF latest] by simp_all
  have "qr_authorization r = Some a" "au_authorization_id a = py_strip i"
    "mp_approval_status (qr_action r) = AP_APPROVED" "ar_approval_status (qr_approval r) = AP_APPROVED"
    "mp_action_type (qr_action r) = PLACE_SPOT_ORDER" "au_approval_id a = ar_approval_id (qr_approval r)"
    "au_symbol a = py_upper (py_strip (mp_asset_or_symbol (qr_action r)))"
    using ok by (auto simp: approved_authorization_def split: option.splits if_splits)
  with rs r latest_unique_newest [OF latest] show ?thesis by auto
qed

text \<open>
  An authorization is resolved only from a current approval. When the queue resolves an
  authorization, it stands in the only newest record of its approval, action and approval are both
  APPROVED for placing a Spot order of its symbol, and every other record of that approval is
  strictly older: a later rejection or edit of the approval withdraws it.
\<close>

theorem resolved_authorization_current:
  assumes "resolve_execution_authorization f i = Inr (Some a)"
  shows "\<exists>rs r. queue_records f = Inr rs \<and> r \<in> set rs \<and> qr_authorization r = Some a \<and>
    au_authorization_id a = py_strip i \<and>
    mp_approval_status (qr_action r) = AP_APPROVED \<and> ar_approval_status (qr_approval r) = AP_APPROVED \<and>
    mp_action_type (qr_action r) = PLACE_SPOT_ORDER \<and>
    au_approval_id a = ar_approval_id (qr_approval r) \<and>
    au_symbol a = py_upper (py_strip (mp_asset_or_symbol (qr_action r))) \<and>
    (\<forall>x \<in> set rs. ar_approval_id (qr_approval x) = au_approval_id a \<longrightarrow>
       x = r \<or> instant (qr_created_at x) < instant (qr_created_at r))"
  by (rule resolved_newest [OF assms])

definition example_approved :: queue_record where
  "example_approved = \<lparr>qr_action = (example_proposal ''a1'')\<lparr>mp_approval_status := AP_APPROVED\<rparr>,
     qr_approval = \<lparr>ar_approval_id = ''ap1'', ar_action_id = ''a1'', ar_action_type = PLACE_SPOT_ORDER,
       ar_approval_status = AP_APPROVED, ar_execution_allowed = False,
       ar_live_eligibility_status = live_blocked\<rparr>,
     qr_created_at = Aware 8, qr_authorization = Some example_authorization\<rparr>"

theorem resolved_authorization_current_witness:
  "\<exists>rs r. queue_records [Inr example_approved] = Inr rs \<and> r \<in> set rs \<and>
     qr_authorization r = Some example_authorization"
proof -
  have "resolve_execution_authorization [Inr example_approved] ''auth1'' = Inr (Some example_authorization)"
    by (simp add: resolve_execution_authorization_def queue_records_def example_approved_def
        example_proposal_def example_authorization_def record_authorization_id_def latest_unique_def
        bound_approval_ids_def newest_approved_def
        latest_records_def approved_authorization_def py_strip_def py_space_def py_upper_def upper_char_def)
  from resolved_authorization_current [OF this] show ?thesis by blast
qed

end
