(* ===== verification/Gate_Evidence.thy ===== *)
theory Gate_Evidence
  imports Text_Rules Domain_Enums
begin

text \<open>
  The evidence the live gate is bound to: the exact promotion subject
  (\<^verbatim>\<open>domain/promotion_evidence.py\<close>), the promotion registry (\<^verbatim>\<open>validation/promotion_evidence.py\<close>)
  and the four-way validation evidence registry (\<^verbatim>\<open>validation/live_gate_evidence.py\<close>) with its
  resolution record (\<^verbatim>\<open>domain/live_gate_evidence.py\<close>). The bundle digest, SHA-256 over the canonical
  JSON of the subject and the four selected records, is the parameter \<open>h\<close>.
\<close>

section \<open>The exact subject\<close>

record exact_subject =
  sj_strategy_id :: string
  sj_strategy_version :: string
  sj_strategy_sha256 :: string
  sj_symbol :: string
  sj_market_type :: string
  sj_timeframe :: string
  sj_parameter_set_sha256 :: string
  sj_dataset_sha256 :: string
  sj_code_revision :: string

record promotion_query =
  pq_subject :: exact_subject
  pq_as_of :: datetime

definition normalize_exact_identity :: "exact_subject \<Rightarrow> exact_subject result" where
  "normalize_exact_identity s =
     (let symbol = py_upper (py_strip (sj_symbol s));
          market = py_upper (py_strip (sj_market_type s))
      in validate
        [(blank (sj_strategy_id s), ''promotion strategy_id is required''),
         (blank (sj_strategy_version s), ''promotion strategy_version is required''),
         (blank (sj_timeframe s), ''promotion timeframe is required''),
         (\<not> symbol_text symbol, ''promotion symbol identity is invalid''),
         (market \<notin> {''SPOT'', ''USD_M_FUTURES''}, ''promotion market type is invalid''),
         (\<not> hex_text 64 (sj_strategy_sha256 s), ''promotion strategy_sha256 is invalid''),
         (\<not> hex_text 64 (sj_parameter_set_sha256 s), ''promotion parameter_set_sha256 is invalid''),
         (\<not> hex_text 64 (sj_dataset_sha256 s), ''promotion dataset_sha256 is invalid''),
         (\<not> (hex_text 40 (sj_code_revision s) \<or> hex_text 64 (sj_code_revision s)),
          ''promotion code revision is invalid'')]
        (s\<lparr>sj_strategy_id := py_strip (sj_strategy_id s),
           sj_strategy_version := py_strip (sj_strategy_version s),
           sj_timeframe := py_strip (sj_timeframe s), sj_symbol := symbol,
           sj_market_type := market\<rparr>))"

definition promotion_query_post_init :: "promotion_query \<Rightarrow> promotion_query result" where
  "promotion_query_post_init q =
     bindE (normalize_exact_identity (pq_subject q)) (\<lambda>s.
       validate [(\<not> is_aware (pq_as_of q), ''promotion query as_of must be timezone-aware'')]
         (q\<lparr>pq_subject := s\<rparr>))"

section \<open>Promotion evidence\<close>

datatype promotion_source_kind = PS_VALIDATION_SUMMARY | PS_VALIDATION_LEDGER | PS_MANUAL_REVIEW
  | PS_GOVERNED_ARTIFACT

record promotion_record =
  pr_evidence_id :: string
  pr_symbol :: string
  pr_source_kind :: promotion_source_kind
  pr_source_ref :: string
  pr_observed_at :: datetime
  pr_promotion_status :: validation_status
  pr_timeframe :: "string option"
  pr_blockers :: "string list"
  pr_strategy_id :: "string option"
  pr_strategy_version :: "string option"
  pr_strategy_sha256 :: "string option"
  pr_market_type :: "string option"
  pr_parameter_set_sha256 :: "string option"
  pr_dataset_sha256 :: "string option"
  pr_code_revision :: "string option"
  pr_expires_at :: "datetime option"
  pr_revoked_at :: "datetime option"
  pr_execution_allowed :: bool
  pr_live_eligibility_status :: string

definition promotion_exact_key :: "promotion_record \<Rightarrow> exact_subject option" where
  "promotion_exact_key r =
     (case (pr_strategy_id r, pr_strategy_version r, pr_strategy_sha256 r, pr_market_type r,
            pr_timeframe r, pr_parameter_set_sha256 r, pr_dataset_sha256 r, pr_code_revision r) of
        (Some sid, Some ver, Some ssha, Some mk, Some tf, Some psha, Some dsha, Some revision) \<Rightarrow>
          Some \<lparr>sj_strategy_id = sid, sj_strategy_version = ver, sj_strategy_sha256 = ssha,
                sj_symbol = pr_symbol r, sj_market_type = mk, sj_timeframe = tf,
                sj_parameter_set_sha256 = psha, sj_dataset_sha256 = dsha, sj_code_revision = revision\<rparr>
      | _ \<Rightarrow> None)"

definition with_exact_key :: "promotion_record \<Rightarrow> exact_subject \<Rightarrow> promotion_record" where
  "with_exact_key r s =
     r\<lparr>pr_symbol := sj_symbol s, pr_timeframe := Some (sj_timeframe s),
       pr_strategy_id := Some (sj_strategy_id s), pr_strategy_version := Some (sj_strategy_version s),
       pr_strategy_sha256 := Some (sj_strategy_sha256 s), pr_market_type := Some (sj_market_type s),
       pr_parameter_set_sha256 := Some (sj_parameter_set_sha256 s),
       pr_dataset_sha256 := Some (sj_dataset_sha256 s), pr_code_revision := Some (sj_code_revision s)\<rparr>"

definition exact_values :: "promotion_record \<Rightarrow> string option list" where
  "exact_values r = [pr_strategy_id r, pr_strategy_version r, pr_strategy_sha256 r, pr_market_type r,
     pr_parameter_set_sha256 r, pr_dataset_sha256 r, pr_code_revision r]"

definition normalize_promotion_record :: "promotion_record \<Rightarrow> promotion_record result" where
  "normalize_promotion_record r =
     (if list_all (\<lambda>v. v = None) (exact_values r) then Inr r
      else case promotion_exact_key r of
        None \<Rightarrow> Inl (ValueError ''promotion evidence exact identity must be complete'')
      | Some s \<Rightarrow> bindE (normalize_exact_identity s) (\<lambda>s'. Inr (with_exact_key r s')))"

definition promotion_record_post_init :: "promotion_record \<Rightarrow> promotion_record result" where
  "promotion_record_post_init r =
     bindE (validate
        [(blank (pr_evidence_id r) \<or> blank (pr_symbol r) \<or> blank (pr_source_ref r),
          ''promotion evidence identity is required''),
         (case pr_timeframe r of None \<Rightarrow> False | Some t \<Rightarrow> blank t,
          ''promotion evidence timeframe cannot be blank''),
         (\<not> is_aware (pr_observed_at r), ''promotion evidence timestamp must be timezone-aware''),
         (pr_promotion_status r \<notin>
            {VS_RESEARCH_ONLY, VS_STAGED_CANDIDATE, VS_PAPER_APPROVED, VS_LIVE_ELIGIBLE},
          ''promotion evidence status is invalid'')]
        (r\<lparr>pr_symbol := py_upper (py_strip (pr_symbol r)),
           pr_timeframe := map_option py_strip (pr_timeframe r)\<rparr>)) (\<lambda>r1.
     bindE (normalize_promotion_record r1) (\<lambda>r2. validate
        [(pr_promotion_status r2 = VS_LIVE_ELIGIBLE \<and> promotion_exact_key r2 = None,
          ''live-eligible promotion evidence must be exact-bound''),
         (pr_promotion_status r2 = VS_LIVE_ELIGIBLE \<and> pr_source_kind r2 \<noteq> PS_GOVERNED_ARTIFACT,
          ''live-eligible promotion requires a governed artifact''),
         (case pr_expires_at r2 of None \<Rightarrow> False | Some t \<Rightarrow> \<not> is_aware t,
          ''promotion evidence expiry must be timezone-aware''),
         (case pr_expires_at r2 of None \<Rightarrow> False | Some t \<Rightarrow> instant t \<le> instant (pr_observed_at r2),
          ''promotion evidence expiry must follow observation''),
         (case pr_revoked_at r2 of None \<Rightarrow> False | Some t \<Rightarrow> \<not> is_aware t,
          ''promotion evidence revocation must be timezone-aware''),
         (case pr_revoked_at r2 of None \<Rightarrow> False | Some t \<Rightarrow> instant t < instant (pr_observed_at r2),
          ''promotion evidence revocation cannot predate observation''),
         (pr_execution_allowed r2 \<or> pr_live_eligibility_status r2 \<noteq> live_blocked,
          ''promotion evidence cannot grant execution authority'')] r2))"

record promotion_registry =
  pg_records :: "promotion_record list"
  pg_max_evidence_age :: timedelta
  pg_future_tolerance :: timedelta

definition promotion_registry_post_init :: "promotion_registry \<Rightarrow> promotion_registry result" where
  "promotion_registry_post_init g = validate
     [(pg_max_evidence_age g \<le> 0, ''promotion evidence age bound must be positive''),
      (pg_future_tolerance g < 0, ''promotion future tolerance cannot be negative'')] g"

definition promotion_is_current :: "promotion_registry \<Rightarrow> promotion_record \<Rightarrow> promotion_query \<Rightarrow> bool" where
  "promotion_is_current g r q =
     (let as_of = instant (pq_as_of q); age = as_of - instant (pr_observed_at r)
      in \<not> (pr_blockers r \<noteq> [] \<or> age < - pg_future_tolerance g \<or> age > pg_max_evidence_age g
            \<or> (case pr_expires_at r of None \<Rightarrow> False | Some t \<Rightarrow> instant t \<le> as_of)
            \<or> (case pr_revoked_at r of None \<Rightarrow> False | Some t \<Rightarrow> instant t \<le> as_of)))"

definition promotion_resolve :: "promotion_registry \<Rightarrow> promotion_query \<Rightarrow> validation_status" where
  "promotion_resolve g q =
     (let matched = filter (\<lambda>r. promotion_exact_key r = Some (pq_subject q)) (pg_records g)
      in case latest_unique (\<lambda>r. instant (pr_observed_at r)) matched of
           None \<Rightarrow> VS_RESEARCH_ONLY
         | Some latest \<Rightarrow>
             if promotion_is_current g latest q then pr_promotion_status latest else VS_RESEARCH_ONLY)"

definition has_promotion_evidence :: "promotion_registry \<Rightarrow> promotion_query \<Rightarrow> bool" where
  "has_promotion_evidence g q \<longleftrightarrow>
     promotion_resolve g q \<in> {VS_STAGED_CANDIDATE, VS_PAPER_APPROVED, VS_LIVE_ELIGIBLE}"

definition promotion_with_record :: "promotion_registry \<Rightarrow> promotion_record \<Rightarrow> promotion_registry result" where
  "promotion_with_record g r =
     promotion_registry_post_init (g\<lparr>pg_records := pg_records g @ [r]\<rparr>)"

section \<open>Validation evidence\<close>

datatype evidence_kind = EK_BACKTEST | EK_WALK_FORWARD | EK_TUNING | EK_OOS

datatype evidence_source_kind = ES_GOVERNED_ARTIFACT | ES_VALIDATION_ARTIFACT

datatype verification_status = EV_VERIFIED | EV_UNVERIFIED

definition evidence_kinds :: "evidence_kind list" where
  "evidence_kinds = [EK_BACKTEST, EK_WALK_FORWARD, EK_TUNING, EK_OOS]"

definition kind_value :: "evidence_kind \<Rightarrow> string" where
  "kind_value k =
     (case k of EK_BACKTEST \<Rightarrow> ''BACKTEST'' | EK_WALK_FORWARD \<Rightarrow> ''WALK_FORWARD''
      | EK_TUNING \<Rightarrow> ''TUNING'' | EK_OOS \<Rightarrow> ''OOS'')"

record evidence_record =
  er_evidence_id :: string
  er_kind :: evidence_kind
  er_source_kind :: evidence_source_kind
  er_source_ref :: string
  er_artifact_sha256 :: string
  er_observed_at :: datetime
  er_verification_status :: verification_status
  er_subject :: exact_subject
  er_blockers :: "string list"
  er_expires_at :: "datetime option"
  er_revoked_at :: "datetime option"
  er_promotion_status :: validation_status
  er_execution_allowed :: bool
  er_live_eligibility_status :: string

definition evidence_aware :: "string \<Rightarrow> datetime \<Rightarrow> datetime result" where
  "evidence_aware name t =
     (if is_aware t then Inr t
      else Inl (ValueError (''live gate evidence '' @ name @ '' must be timezone-aware'')))"

definition evidence_record_post_init :: "evidence_record \<Rightarrow> evidence_record result" where
  "evidence_record_post_init r =
     bindE (bounded_text 256 ''live gate evidence evidence_id is invalid'' (er_evidence_id r)) (\<lambda>eid.
     bindE (bounded_text 1024 ''live gate evidence source_ref is invalid'' (er_source_ref r)) (\<lambda>ref.
     bindE (sha256_text ''live gate evidence artifact_sha256 is invalid'' (er_artifact_sha256 r)) (\<lambda>sha.
     bindE (evidence_aware ''observed_at'' (er_observed_at r)) (\<lambda>observed.
     bindE (promotion_query_post_init \<lparr>pq_subject = er_subject r, pq_as_of = observed\<rparr>) (\<lambda>q.
     bindE (mapE (bounded_text 256 ''live gate evidence blocker is invalid'') (er_blockers r)) (\<lambda>bl.
     bindE (if (er_verification_status r = EV_VERIFIED) = (bl \<noteq> [])
            then Inl (ValueError ''live gate evidence verification result is inconsistent'')
            else Inr ()) (\<lambda>_.
     bindE (case er_expires_at r of None \<Rightarrow> Inr ()
            | Some t \<Rightarrow> bindE (evidence_aware ''expires_at'' t) (\<lambda>t'. require (instant t' > instant observed)
                         (ValueError ''live gate evidence expiry must follow observation''))) (\<lambda>_.
     bindE (case er_revoked_at r of None \<Rightarrow> Inr ()
            | Some t \<Rightarrow> bindE (evidence_aware ''revoked_at'' t) (\<lambda>t'. require (instant t' \<ge> instant observed)
                         (ValueError ''live gate evidence revocation cannot predate observation''))) (\<lambda>_.
     validate
       [(er_promotion_status r \<noteq> VS_RESEARCH_ONLY \<or> er_execution_allowed r
           \<or> er_live_eligibility_status r \<noteq> live_blocked,
         ''live gate evidence cannot grant authority'')]
       (r\<lparr>er_evidence_id := eid, er_source_ref := ref, er_artifact_sha256 := sha,
          er_observed_at := observed, er_subject := pq_subject q,
          er_blockers := dict_fromkeys bl\<rparr>))))))))))"

record evidence_registry =
  eg_records :: "evidence_record list"
  eg_max_evidence_age :: timedelta

definition evidence_registry_post_init :: "evidence_registry \<Rightarrow> evidence_registry result" where
  "evidence_registry_post_init g = validate
     [(eg_max_evidence_age g \<le> 0, ''live gate evidence age bound must be positive''),
      (\<not> distinct (map er_evidence_id (eg_records g)), ''live gate evidence identity must be unique'')] g"

definition evidence_current_blocker :: "evidence_registry \<Rightarrow> evidence_record \<Rightarrow> promotion_query \<Rightarrow>
    string option" where
  "evidence_current_blocker g r q =
     (let as_of = instant (pq_as_of q); observed = instant (er_observed_at r)
      in if er_source_kind r \<noteq> ES_GOVERNED_ARTIFACT then Some ''SOURCE_NOT_GOVERNED''
         else if observed > as_of then Some ''FUTURE_DATED''
         else if as_of - observed > eg_max_evidence_age g then Some ''STALE''
         else if (case er_expires_at r of None \<Rightarrow> False | Some t \<Rightarrow> instant t \<le> as_of) then Some ''EXPIRED''
         else if (case er_revoked_at r of None \<Rightarrow> False | Some t \<Rightarrow> instant t \<le> as_of) then Some ''REVOKED''
         else if er_verification_status r \<noteq> EV_VERIFIED then Some ''NOT_VERIFIED''
         else if er_blockers r \<noteq> [] then Some ''BLOCKED''
         else None)"

definition evidence_blocker :: "evidence_kind \<Rightarrow> string \<Rightarrow> string" where
  "evidence_blocker kind suffix = ''LIVE_GATE_EVIDENCE_'' @ kind_value kind @ ''_'' @ suffix"

text \<open>One round of the selection loop: the record of a kind, or its blocker.\<close>

definition select_kind :: "evidence_registry \<Rightarrow> promotion_query \<Rightarrow> evidence_kind \<Rightarrow> string + evidence_record" where
  "select_kind g q kind =
     (let matching = filter (\<lambda>r. er_kind r = kind \<and> er_subject r = pq_subject q) (eg_records g)
      in if matching = [] then Inl (evidence_blocker kind ''MISSING'')
         else case latest_unique (\<lambda>r. instant (er_observed_at r)) matching of
                None \<Rightarrow> Inl (evidence_blocker kind ''AMBIGUOUS'')
              | Some r \<Rightarrow>
                  (case evidence_current_blocker g r q of
                     Some b \<Rightarrow> Inl (evidence_blocker kind b)
                   | None \<Rightarrow> Inr r))"

definition evidence_select :: "evidence_registry \<Rightarrow> promotion_query \<Rightarrow> evidence_record list \<times> string list" where
  "evidence_select g q =
     (let picks = map (select_kind g q) evidence_kinds
      in (concat (map (\<lambda>p. case p of Inl _ \<Rightarrow> [] | Inr r \<Rightarrow> [r]) picks),
          concat (map (\<lambda>p. case p of Inl b \<Rightarrow> [b] | Inr _ \<Rightarrow> []) picks)))"

record evidence_resolution =
  rs_backtest_approved :: bool
  rs_walk_forward_approved :: bool
  rs_tuning_report_approved :: bool
  rs_oos_approved :: bool
  rs_validation_bundle_sha256 :: "string option"
  rs_evidence_refs :: "(evidence_kind \<times> string \<times> string) list"
  rs_blockers :: "string list"

definition no_resolution :: evidence_resolution where
  "no_resolution = \<lparr>rs_backtest_approved = False, rs_walk_forward_approved = False,
     rs_tuning_report_approved = False, rs_oos_approved = False, rs_validation_bundle_sha256 = None,
     rs_evidence_refs = [], rs_blockers = []\<rparr>"

definition evidence_resolution_post_init :: "evidence_resolution \<Rightarrow> evidence_resolution result" where
  "evidence_resolution_post_init rs =
     (let flags = [rs_backtest_approved rs, rs_walk_forward_approved rs, rs_tuning_report_approved rs,
                   rs_oos_approved rs]
      in bindE (validate [(list_ex id flags \<and> \<not> list_all id flags,
                  ''partial live gate validation bundle is not permitted'')] ()) (\<lambda>_.
         bindE (case rs_validation_bundle_sha256 rs of None \<Rightarrow> Inr None
                | Some b \<Rightarrow> bindE (sha256_text ''live gate evidence validation_bundle_sha256 is invalid'' b)
                             (\<lambda>b'. Inr (Some b'))) (\<lambda>bundle.
         bindE (mapE (\<lambda>(k, i, a).
                  bindE (bounded_text 256 ''live gate evidence evidence_id is invalid'' i) (\<lambda>i'.
                  bindE (sha256_text ''live gate evidence artifact_sha256 is invalid'' a) (\<lambda>a'.
                    Inr (k, i', a')))) (rs_evidence_refs rs)) (\<lambda>refs.
         bindE (validate [(refs \<noteq> [] \<and> (bundle = None \<or> map fst refs \<noteq> evidence_kinds),
                  ''live gate evidence references are incomplete or unordered'')] ()) (\<lambda>_.
         bindE (mapE (bounded_text 256 ''live gate evidence blocker is invalid'') (rs_blockers rs)) (\<lambda>bl.
         validate [(list_all id flags \<and> (bundle = None \<or> length refs \<noteq> 4 \<or> bl \<noteq> []),
                    ''approved live gate evidence must be complete and clear'')]
           (rs\<lparr>rs_validation_bundle_sha256 := bundle, rs_evidence_refs := refs,
               rs_blockers := dict_fromkeys bl\<rparr>)))))))"

definition evidence_resolve :: "(exact_subject \<times> evidence_record list \<Rightarrow> string) \<Rightarrow> evidence_registry \<Rightarrow>
    promotion_query \<Rightarrow> string \<Rightarrow> evidence_resolution result" where
  "evidence_resolve h g q expected =
     (case evidence_select g q of (selected, blockers) \<Rightarrow>
        if blockers \<noteq> [] then evidence_resolution_post_init (no_resolution\<lparr>rs_blockers := blockers\<rparr>)
        else
          let actual = h (pq_subject q, selected);
              base = no_resolution\<lparr>rs_validation_bundle_sha256 := Some actual,
                rs_evidence_refs := map (\<lambda>r. (er_kind r, er_evidence_id r, er_artifact_sha256 r)) selected\<rparr>
          in case sha256_text ''live gate evidence expected_bundle_sha256 is invalid'' expected of
               Inl _ \<Rightarrow> evidence_resolution_post_init
                          (base\<lparr>rs_blockers := [''LIVE_GATE_EVIDENCE_BUNDLE_HASH_INVALID'']\<rparr>)
             | Inr e \<Rightarrow>
                 if actual \<noteq> e
                 then evidence_resolution_post_init
                        (base\<lparr>rs_blockers := [''LIVE_GATE_EVIDENCE_BUNDLE_HASH_MISMATCH'']\<rparr>)
                 else evidence_resolution_post_init
                        (base\<lparr>rs_backtest_approved := True, rs_walk_forward_approved := True,
                              rs_tuning_report_approved := True, rs_oos_approved := True\<rparr>))"

definition canonical_bundle_sha256 :: "(exact_subject \<times> evidence_record list \<Rightarrow> string) \<Rightarrow>
    evidence_registry \<Rightarrow> promotion_query \<Rightarrow> string option" where
  "canonical_bundle_sha256 h g q =
     (case evidence_select g q of (selected, blockers) \<Rightarrow>
        if blockers \<noteq> [] then None else Some (h (pq_subject q, selected)))"

section \<open>Selection\<close>

text \<open>
  The record the registry may use for a kind: the only newest one of its kind and subject,
  governed, observed in time, fresh, neither expired nor revoked, verified and without blockers.
\<close>

definition evidence_fresh :: "evidence_registry \<Rightarrow> promotion_query \<Rightarrow> evidence_record \<Rightarrow> bool" where
  "evidence_fresh g q r \<longleftrightarrow>
     er_source_kind r = ES_GOVERNED_ARTIFACT \<and>
     instant (er_observed_at r) \<le> instant (pq_as_of q) \<and>
     instant (pq_as_of q) - instant (er_observed_at r) \<le> eg_max_evidence_age g \<and>
     (case er_expires_at r of None \<Rightarrow> True | Some t \<Rightarrow> instant (pq_as_of q) < instant t) \<and>
     (case er_revoked_at r of None \<Rightarrow> True | Some t \<Rightarrow> instant (pq_as_of q) < instant t) \<and>
     er_verification_status r = EV_VERIFIED \<and> er_blockers r = []"

definition evidence_usable :: "evidence_registry \<Rightarrow> promotion_query \<Rightarrow> evidence_kind \<Rightarrow> evidence_record \<Rightarrow> bool" where
  "evidence_usable g q k r \<longleftrightarrow>
     latest_unique (\<lambda>r. instant (er_observed_at r))
       (filter (\<lambda>r. er_kind r = k \<and> er_subject r = pq_subject q) (eg_records g)) = Some r \<and>
     evidence_fresh g q r"

lemma evidence_current_blocker_None:
  "evidence_current_blocker g r q = None \<longleftrightarrow> evidence_fresh g q r"
  by (simp add: evidence_current_blocker_def evidence_fresh_def Let_def not_less not_le split: option.split)

lemma select_kind_Inr: "select_kind g q k = Inr r \<longleftrightarrow> evidence_usable g q k r"
proof (cases "latest_unique (\<lambda>r. instant (er_observed_at r))
    (filter (\<lambda>r. er_kind r = k \<and> er_subject r = pq_subject q) (eg_records g))")
  case None
  then show ?thesis by (simp add: select_kind_def evidence_usable_def Let_def)
next
  case (Some x)
  then have "filter (\<lambda>r. er_kind r = k \<and> er_subject r = pq_subject q) (eg_records g) \<noteq> []"
    by (auto dest: latest_unique_mem)
  with Some evidence_current_blocker_None [of g x q] show ?thesis
    by (cases "evidence_current_blocker g x q") (auto simp: select_kind_def evidence_usable_def Let_def)
qed

lemma evidence_usable_mem:
  "evidence_usable g q k r \<Longrightarrow> r \<in> set (eg_records g) \<and> er_kind r = k \<and> er_subject r = pq_subject q"
  unfolding evidence_usable_def by (auto dest!: latest_unique_mem)

text \<open>Which blockers a kind can have: plain upper-case texts.\<close>

definition plain_char :: "char \<Rightarrow> bool" where
  "plain_char c \<longleftrightarrow> (let n = of_char c :: int in (65 \<le> n \<and> n \<le> 90) \<or> n = 95)"

definition plain_text :: "string \<Rightarrow> bool" where
  "plain_text s \<longleftrightarrow> list_all plain_char s"

lemma plain_text_simps [simp]:
  "plain_text []" "plain_text (c # s) \<longleftrightarrow> plain_char c \<and> plain_text s"
  "plain_text (a @ b) \<longleftrightarrow> plain_text a \<and> plain_text b"
  by (simp_all add: plain_text_def)

lemma plain_text_bounded:
  assumes "plain_text s" "s \<noteq> []" "int (length s) \<le> n" shows "bounded_text n m s = Inr s"
proof -
  have c: "\<not> py_space c \<and> \<not> forbidden_char c \<and> (of_char c :: int) < 128" if "c \<in> set s" for c
    using that assms(1)
    by (auto simp: plain_text_def plain_char_def list_all_iff py_space_def forbidden_char_def Let_def)
  then have "py_strip s = s" by (simp add: py_strip_def dropWhile_none list_all_iff)
  with c assms show ?thesis by (simp add: bounded_text_Inr py_isascii_def list_all_iff list_ex_iff)
qed

lemma kind_value_plain: "plain_text (kind_value k)" "length (kind_value k) \<le> 12" "kind_value k \<noteq> []"
  by (cases k; simp add: kind_value_def plain_char_def)+

lemma current_blocker_plain:
  assumes "evidence_current_blocker g r q = Some b" shows "plain_text b \<and> length b \<le> 19"
proof -
  have "b \<in> {''SOURCE_NOT_GOVERNED'', ''FUTURE_DATED'', ''STALE'', ''EXPIRED'', ''REVOKED'', ''NOT_VERIFIED'',
      ''BLOCKED''}"
    using assms by (simp add: evidence_current_blocker_def Let_def split: if_split_asm)
  then show ?thesis by (elim insertE) (simp_all add: plain_char_def)
qed

lemma evidence_blocker_plain:
  "plain_text s \<Longrightarrow> length s \<le> 19 \<Longrightarrow>
     plain_text (evidence_blocker k s) \<and> evidence_blocker k s \<noteq> [] \<and> length (evidence_blocker k s) \<le> 256"
  using kind_value_plain [of k] by (simp add: evidence_blocker_def plain_char_def)

lemma select_kind_Inl_plain:
  assumes "select_kind g q k = Inl b" shows "plain_text b \<and> b \<noteq> [] \<and> length b \<le> 256"
proof -
  from assms obtain s where "b = evidence_blocker k s"
      "s = ''MISSING'' \<or> s = ''AMBIGUOUS'' \<or> (\<exists>r. evidence_current_blocker g r q = Some s)"
    by (auto simp: select_kind_def Let_def split: if_splits option.splits)
  moreover from this(2) have "plain_text s \<and> length s \<le> 19"
    by (elim disjE exE) (simp_all add: plain_char_def current_blocker_plain)
  ultimately show ?thesis using evidence_blocker_plain by simp
qed

lemma mapE_fixed: "list_all (\<lambda>x. f x = Inr x) xs \<Longrightarrow> mapE f xs = Inr xs"
  by (induction xs) auto

lemma select_blockers_bounded:
  "mapE (bounded_text 256 m) (snd (evidence_select g q)) = Inr (snd (evidence_select g q))"
proof (rule mapE_fixed)
  have "bounded_text 256 m b = Inr b" if "select_kind g q k = Inl b" for k b
    using select_kind_Inl_plain [OF that] by (intro plain_text_bounded) simp_all
  then show "list_all (\<lambda>b. bounded_text 256 m b = Inr b) (snd (evidence_select g q))"
    by (fastforce simp: evidence_select_def Let_def list_all_iff split: sum.splits)
qed

lemma evidence_select_clear:
  assumes "snd (evidence_select g q) = []"
  obtains f where "fst (evidence_select g q) = map f evidence_kinds"
    and "\<And>k. k \<in> set evidence_kinds \<Longrightarrow> evidence_usable g q k (f k)"
proof -
  have "\<exists>r. select_kind g q k = Inr r" if "k \<in> set evidence_kinds" for k
    using assms that by (cases "select_kind g q k") (auto simp: evidence_select_def Let_def split: sum.splits)
  then obtain f where f: "\<And>k. k \<in> set evidence_kinds \<Longrightarrow> select_kind g q k = Inr (f k)" by metis
  then have "fst (evidence_select g q) = map f evidence_kinds"
    by (simp add: evidence_select_def Let_def evidence_kinds_def)
  then show ?thesis by (rule that) (use f in \<open>simp add: select_kind_Inr\<close>)
qed

lemma evidence_select_blocked:
  assumes "k \<in> set evidence_kinds" "\<not> (\<exists>r. evidence_usable g q k r)"
  shows "snd (evidence_select g q) \<noteq> []"
proof -
  have "\<exists>b. select_kind g q k = Inl b" using assms(2) select_kind_Inr [of g q k]
    by (cases "select_kind g q k") auto
  with assms(1) show ?thesis by (force simp: evidence_select_def Let_def split: sum.splits)
qed

section \<open>Resolution\<close>

definition evidence_record_ok :: "evidence_record \<Rightarrow> bool" where
  "evidence_record_ok r \<longleftrightarrow> evidence_record_post_init r = Inr r"

lemma evidence_record_ok_text:
  assumes "evidence_record_ok r"
  shows "bounded_text 256 m (er_evidence_id r) = Inr (er_evidence_id r)"
    "sha256_text m (er_artifact_sha256 r) = Inr (er_artifact_sha256 r)"
proof -
  from assms obtain eid sha a b c d where
    norm: "bounded_text 256 ''live gate evidence evidence_id is invalid'' (er_evidence_id r) = Inr eid"
      "sha256_text ''live gate evidence artifact_sha256 is invalid'' (er_artifact_sha256 r) = Inr sha"
    and same: "r = r\<lparr>er_evidence_id := eid, er_source_ref := a, er_artifact_sha256 := sha,
      er_observed_at := b, er_subject := c, er_blockers := d\<rparr>"
    unfolding evidence_record_ok_def evidence_record_post_init_def by auto
  have "er_evidence_id r = eid" "er_artifact_sha256 r = sha"
    using arg_cong [OF same, of er_evidence_id] arg_cong [OF same, of er_artifact_sha256] by simp_all
  with norm have "bounded_text 256 ''live gate evidence evidence_id is invalid'' (er_evidence_id r) = Inr (er_evidence_id r)"
    "sha256_text ''live gate evidence artifact_sha256 is invalid'' (er_artifact_sha256 r) = Inr (er_artifact_sha256 r)"
    by simp_all
  then show "bounded_text 256 m (er_evidence_id r) = Inr (er_evidence_id r)"
    "sha256_text m (er_artifact_sha256 r) = Inr (er_artifact_sha256 r)"
    by (auto simp: bounded_text_Inr sha256_text_Inr)
qed

definition all_approved :: "evidence_resolution \<Rightarrow> bool" where
  "all_approved rs \<longleftrightarrow> rs_backtest_approved rs \<and> rs_walk_forward_approved rs \<and>
     rs_tuning_report_approved rs \<and> rs_oos_approved rs"

definition none_approved :: "evidence_resolution \<Rightarrow> bool" where
  "none_approved rs \<longleftrightarrow> \<not> rs_backtest_approved rs \<and> \<not> rs_walk_forward_approved rs \<and>
     \<not> rs_tuning_report_approved rs \<and> \<not> rs_oos_approved rs"

lemmas resolution_defs = evidence_resolution_post_init_def no_resolution_def all_approved_def
  none_approved_def

lemma resolution_blocked:
  assumes "bl \<noteq> []" "\<And>m. mapE (bounded_text 256 m) bl = Inr bl"
  shows "\<exists>rs. evidence_resolution_post_init (no_resolution\<lparr>rs_blockers := bl\<rparr>) = Inr rs \<and>
    none_approved rs \<and> rs_blockers rs \<noteq> []"
  using assms by (simp add: resolution_defs Let_def)

text \<open>The resolutions that carry references: with a blocker, and the approved one.\<close>

lemma mapE_refs:
  assumes "list_all evidence_record_ok rs"
  shows "mapE (\<lambda>(k, i, a). bindE (bounded_text 256 m1 i) (\<lambda>i'. bindE (sha256_text m2 a) (\<lambda>a'. Inr (k, i', a'))))
      (map (\<lambda>r. (er_kind r, er_evidence_id r, er_artifact_sha256 r)) rs) =
    Inr (map (\<lambda>r. (er_kind r, er_evidence_id r, er_artifact_sha256 r)) rs)"
  using assms by (intro mapE_fixed) (auto simp: list_all_iff evidence_record_ok_text)

lemma resolution_with_refs:
  assumes "list_all evidence_record_ok rs" "map er_kind rs = evidence_kinds" "hex_text 64 b"
  shows "\<exists>x. evidence_resolution_post_init (no_resolution\<lparr>rs_validation_bundle_sha256 := Some b,
        rs_evidence_refs := map (\<lambda>r. (er_kind r, er_evidence_id r, er_artifact_sha256 r)) rs,
        rs_backtest_approved := True, rs_walk_forward_approved := True,
        rs_tuning_report_approved := True, rs_oos_approved := True\<rparr>) = Inr x \<and>
      all_approved x \<and> rs_blockers x = []"
    and "plain_text c \<Longrightarrow> c \<noteq> [] \<Longrightarrow> length c \<le> 256 \<Longrightarrow>
      \<exists>x. evidence_resolution_post_init (no_resolution\<lparr>rs_validation_bundle_sha256 := Some b,
        rs_evidence_refs := map (\<lambda>r. (er_kind r, er_evidence_id r, er_artifact_sha256 r)) rs,
        rs_blockers := [c]\<rparr>) = Inr x \<and> none_approved x \<and> rs_blockers x = [c]"
proof -
  have len: "length rs = 4" using arg_cong [OF assms(2), of length] by (simp add: evidence_kinds_def)
  have kinds: "map (fst \<circ> (\<lambda>r. (er_kind r, er_evidence_id r, er_artifact_sha256 r))) rs = evidence_kinds"
    using assms(2) by (simp add: o_def)
  show "\<exists>x. evidence_resolution_post_init (no_resolution\<lparr>rs_validation_bundle_sha256 := Some b,
        rs_evidence_refs := map (\<lambda>r. (er_kind r, er_evidence_id r, er_artifact_sha256 r)) rs,
        rs_backtest_approved := True, rs_walk_forward_approved := True,
        rs_tuning_report_approved := True, rs_oos_approved := True\<rparr>) = Inr x \<and>
      all_approved x \<and> rs_blockers x = []"
    using assms(3) len kinds mapE_refs [OF assms(1)] by (simp add: resolution_defs Let_def)
  show "\<exists>x. evidence_resolution_post_init (no_resolution\<lparr>rs_validation_bundle_sha256 := Some b,
        rs_evidence_refs := map (\<lambda>r. (er_kind r, er_evidence_id r, er_artifact_sha256 r)) rs,
        rs_blockers := [c]\<rparr>) = Inr x \<and> none_approved x \<and> rs_blockers x = [c]"
    if "plain_text c" "c \<noteq> []" "length c \<le> 256"
    using assms(3) len kinds mapE_refs [OF assms(1)] plain_text_bounded [of c 256] that
    by (simp add: resolution_defs Let_def dict_fromkeys_distinct)
qed

lemma evidence_kinds_all [simp]: "k \<in> set evidence_kinds"
  by (cases k) (simp_all add: evidence_kinds_def)

lemma evidence_usable_unique: "evidence_usable g q k r \<Longrightarrow> evidence_usable g q k r' \<Longrightarrow> r' = r"
  by (simp add: evidence_usable_def)

lemma evidence_usable_map:
  assumes "\<And>k. evidence_usable g q k (f k)" "list_all evidence_record_ok (eg_records g)"
  shows "list_all evidence_record_ok (map f evidence_kinds)" "map er_kind (map f evidence_kinds) = evidence_kinds"
proof -
  have mem: "f k \<in> set (eg_records g) \<and> er_kind (f k) = k" for k
    using evidence_usable_mem [OF assms(1)] by blast
  with assms(2) show "list_all evidence_record_ok (map f evidence_kinds)" by (auto simp: list_all_iff)
  from mem show "map er_kind (map f evidence_kinds) = evidence_kinds" by (simp add: o_def)
qed

lemma evidence_select_usable:
  assumes "\<And>k. evidence_usable g q k (f k)" shows "evidence_select g q = (map f evidence_kinds, [])"
proof -
  have "select_kind g q k = Inr (f k)" for k using assms by (simp add: select_kind_Inr)
  then show ?thesis by (simp add: evidence_select_def Let_def evidence_kinds_def)
qed

lemma evidence_resolve_approved:
  assumes "list_all evidence_record_ok (eg_records g)" "\<And>k. evidence_usable g q k (f k)"
    and "hex_text 64 expected" "h (pq_subject q, map f evidence_kinds) = expected"
  shows "\<exists>rs. evidence_resolve h g q expected = Inr rs \<and> all_approved rs \<and> rs_blockers rs = []"
  using resolution_with_refs(1) [OF evidence_usable_map [OF assms(2,1)] assms(3)] assms(3,4)
  unfolding evidence_resolve_def evidence_select_usable [OF assms(2)] by (simp add: Let_def)

text \<open>An approved resolution carries no blocker.\<close>

lemma resolution_post_init_approved:
  assumes "evidence_resolution_post_init rs = Inr rs'" "all_approved rs'"
  shows "rs_blockers rs' = []"
  using assms by (auto simp: evidence_resolution_post_init_def all_approved_def Let_def)

lemma evidence_resolve_post_init:
  assumes "evidence_resolve h g q expected = Inr rs"
  shows "\<exists>rs0. evidence_resolution_post_init rs0 = Inr rs"
  using assms by (auto simp: evidence_resolve_def Let_def split: prod.splits if_splits sum.splits)

lemma evidence_resolve_clear:
  "evidence_resolve h g q expected = Inr rs \<Longrightarrow> all_approved rs \<Longrightarrow> rs_blockers rs = []"
  using evidence_resolve_post_init resolution_post_init_approved by blast

section \<open>Properties\<close>

text \<open>
  C10: the validation registry approves all four gates or none. On well-formed records it always
  returns a resolution; it approves, without blockers, exactly when each of the four evidence
  kinds has a usable record (the only newest of its kind and exact subject, governed, not in the
  future, fresh, neither expired nor revoked, verified, unblocked) and the digest of those four is
  the expected one; otherwise nothing is approved and there is a blocker.
\<close>

theorem evidence_resolution_exact:
  assumes "list_all evidence_record_ok (eg_records g)" "\<And>x. hex_text 64 (h x)"
  shows "\<exists>rs. evidence_resolve h g q expected = Inr rs \<and>
    (if \<exists>f. (\<forall>k. evidence_usable g q k (f k)) \<and>
          sha256_text [] expected = Inr (h (pq_subject q, map f evidence_kinds))
     then all_approved rs \<and> rs_blockers rs = [] else none_approved rs \<and> rs_blockers rs \<noteq> [])"
proof (cases "\<exists>f. \<forall>k. evidence_usable g q k (f k)")
  case False
  then obtain k where k: "\<not> (\<exists>r. evidence_usable g q k r)" by metis
  have "snd (evidence_select g q) \<noteq> []" by (rule evidence_select_blocked [OF _ k]) simp
  moreover have "mapE (bounded_text 256 m) (snd (evidence_select g q)) = Inr (snd (evidence_select g q))" for m
    by (rule select_blockers_bounded)
  ultimately show ?thesis
    using False resolution_blocked [of "snd (evidence_select g q)"]
    by (auto simp: evidence_resolve_def split: prod.split)
next
  case True
  then obtain f where f: "\<And>k. evidence_usable g q k (f k)" by blast
  have uniq: "f' = f" if "\<forall>k. evidence_usable g q k (f' k)" for f'
    using that evidence_usable_unique [OF f] by (intro ext) blast
  let ?h = "h (pq_subject q, map f evidence_kinds)"
  have cond: "(\<exists>f. (\<forall>k. evidence_usable g q k (f k)) \<and>
      sha256_text [] expected = Inr (h (pq_subject q, map f evidence_kinds))) \<longleftrightarrow> sha256_text [] expected = Inr ?h"
    using f uniq by blast
  have msg: "sha256_text m expected = Inr e \<longleftrightarrow> sha256_text [] expected = Inr e" for m e
    by (simp add: sha256_text_Inr)
  note refs = resolution_with_refs [OF evidence_usable_map [OF f assms(1)] assms(2) [of "(pq_subject q, map f evidence_kinds)"]]
  have bl: "plain_text ''LIVE_GATE_EVIDENCE_BUNDLE_HASH_INVALID''"
    "plain_text ''LIVE_GATE_EVIDENCE_BUNDLE_HASH_MISMATCH''" by (simp_all add: plain_char_def)
  show ?thesis
  proof (cases "sha256_text ''live gate evidence expected_bundle_sha256 is invalid'' expected")
    case (Inl e)
    then have "sha256_text [] expected \<noteq> Inr ?h" using msg by (metis sum.distinct(1))
    with refs(2) [OF bl(1)] show ?thesis
      unfolding cond evidence_resolve_def evidence_select_usable [OF f] by (auto simp: Let_def Inl)
  next
    case (Inr e)
    then have "sha256_text [] expected = Inr e" using msg by blast
    with refs(1) refs(2) [OF bl(2)] Inr show ?thesis
      unfolding cond evidence_resolve_def evidence_select_usable [OF f] by (auto simp: Let_def)
  qed
qed

definition example_subject :: exact_subject where
  "example_subject = \<lparr>sj_strategy_id = ''s1'', sj_strategy_version = ''1'',
     sj_strategy_sha256 = replicate 64 (CHR ''0''), sj_symbol = ''BTCUSDT'', sj_market_type = ''SPOT'',
     sj_timeframe = ''1h'', sj_parameter_set_sha256 = replicate 64 (CHR ''1''),
     sj_dataset_sha256 = replicate 64 (CHR ''2''), sj_code_revision = replicate 40 (CHR ''3'')\<rparr>"

definition example_evidence :: "evidence_kind \<Rightarrow> evidence_record" where
  "example_evidence k = \<lparr>er_evidence_id = kind_value k, er_kind = k, er_source_kind = ES_GOVERNED_ARTIFACT,
     er_source_ref = ''ref'', er_artifact_sha256 = replicate 64 (CHR ''4''), er_observed_at = Aware 5,
     er_verification_status = EV_VERIFIED, er_subject = example_subject, er_blockers = [],
     er_expires_at = Some (Aware 50), er_revoked_at = None, er_promotion_status = VS_RESEARCH_ONLY,
     er_execution_allowed = False, er_live_eligibility_status = live_blocked\<rparr>"

definition example_evidence_registry :: evidence_registry where
  "example_evidence_registry =
     \<lparr>eg_records = map example_evidence evidence_kinds, eg_max_evidence_age = 100\<rparr>"

lemma hex_text_replicate [simp]: "is_hex_char c \<Longrightarrow> hex_text n (replicate n c)"
  by (simp add: hex_text_def list_all_iff)

lemma hex_digits [simp]:
  "is_hex_char (CHR ''0'')" "is_hex_char (CHR ''1'')" "is_hex_char (CHR ''2'')" "is_hex_char (CHR ''3'')"
  "is_hex_char (CHR ''4'')" "is_hex_char (CHR ''a'')"
  by (simp_all add: is_hex_char_def)

lemma example_evidence_ok: "evidence_record_ok (example_evidence k)"
proof -
  have "bounded_text 256 m (kind_value k) = Inr (kind_value k)" for m
    using kind_value_plain [of k] by (intro plain_text_bounded) simp_all
  moreover have "bounded_text 1024 m ''ref'' = Inr ''ref''" for m
    by (simp add: bounded_text_Inr py_strip_def py_space_def py_isascii_def forbidden_char_def)
  moreover have "normalize_exact_identity example_subject = Inr example_subject"
    by (simp add: normalize_exact_identity_def example_subject_def Let_def blank_def py_strip_def py_space_def
        py_upper_def upper_char_def symbol_text_def py_isascii_def py_isalnum_def is_alnum_char_def)
  ultimately show ?thesis
    by (simp add: evidence_record_ok_def evidence_record_post_init_def example_evidence_def evidence_aware_def
        promotion_query_post_init_def)
qed

lemma example_evidence_usable:
  "evidence_usable example_evidence_registry \<lparr>pq_subject = example_subject, pq_as_of = Aware 20\<rparr> k (example_evidence k)"
  by (cases k) (simp_all add: evidence_usable_def evidence_fresh_def example_evidence_registry_def
      evidence_kinds_def example_evidence_def latest_unique_def latest_records_def)

lemma example_records_ok: "list_all evidence_record_ok (eg_records example_evidence_registry)"
  by (simp add: example_evidence_registry_def list_all_iff example_evidence_ok)

theorem evidence_resolution_exact_witness:
  "\<exists>rs. evidence_resolve (\<lambda>_. replicate 64 (CHR ''a'')) example_evidence_registry
     \<lparr>pq_subject = example_subject, pq_as_of = Aware 20\<rparr> (replicate 64 (CHR ''a'')) = Inr rs \<and> all_approved rs"
proof -
  let ?q = "\<lparr>pq_subject = example_subject, pq_as_of = Aware 20\<rparr>" and ?h = "\<lambda>_. replicate 64 (CHR ''a'')"
  have hex: "hex_text 64 (replicate 64 (CHR ''a''))" by simp
  have "\<exists>f. (\<forall>k. evidence_usable example_evidence_registry ?q k (f k)) \<and>
      sha256_text [] (replicate 64 (CHR ''a'')) = Inr (?h (pq_subject ?q, map f evidence_kinds))"
    using hex example_evidence_usable by auto
  with evidence_resolution_exact [OF example_records_ok, of ?h ?q "replicate 64 (CHR ''a'')", OF hex]
  show ?thesis by auto
qed


definition example_promotion :: promotion_registry where
  "example_promotion = \<lparr>pg_records = [\<lparr>pr_evidence_id = ''p1'', pr_symbol = ''BTCUSDT'',
     pr_source_kind = PS_GOVERNED_ARTIFACT, pr_source_ref = ''ref'', pr_observed_at = Aware 5,
     pr_promotion_status = VS_LIVE_ELIGIBLE, pr_timeframe = Some ''1h'', pr_blockers = [],
     pr_strategy_id = Some ''s1'', pr_strategy_version = Some ''1'',
     pr_strategy_sha256 = Some (replicate 64 (CHR ''0'')), pr_market_type = Some ''SPOT'',
     pr_parameter_set_sha256 = Some (replicate 64 (CHR ''1'')),
     pr_dataset_sha256 = Some (replicate 64 (CHR ''2'')),
     pr_code_revision = Some (replicate 40 (CHR ''3'')), pr_expires_at = None, pr_revoked_at = None,
     pr_execution_allowed = False, pr_live_eligibility_status = live_blocked\<rparr>],
     pg_max_evidence_age = 100, pg_future_tolerance = 5\<rparr>"

lemma example_promotion_eligible:
  "promotion_resolve example_promotion \<lparr>pq_subject = example_subject, pq_as_of = Aware 20\<rparr> = VS_LIVE_ELIGIBLE"
  by (simp add: promotion_resolve_def example_promotion_def promotion_exact_key_def example_subject_def
      latest_unique_def latest_records_def promotion_is_current_def Let_def)


end
