(* ===== verification/Live_Gate.thy ===== *)
theory Live_Gate
  imports Domain_Enums
begin

text \<open>
  \<^verbatim>\<open>LiveGateInput\<close> and \<^verbatim>\<open>LiveGateResult\<close> of \<^verbatim>\<open>domain.py\<close> and the gate of \<^verbatim>\<open>domain/live_gate.py\<close>: every
  prerequisite of a real Spot order, in the order of the dataclass fields.
\<close>

record live_gate_input =
  gi_live_mode :: bool
  gi_auto_mode :: bool
  gi_allow_auto_live_orders :: bool
  gi_confirm_live :: bool
  gi_explicit_user_request :: bool
  gi_api_valid :: bool
  gi_account_status_valid :: bool
  gi_server_time_valid :: bool
  gi_exchange_info_valid :: bool
  gi_price_filter_valid :: bool
  gi_lot_size_valid :: bool
  gi_notional_filter_valid :: bool
  gi_tick_size_valid :: bool
  gi_step_size_valid :: bool
  gi_latest_spot_price_confirmed :: bool
  gi_spread_acceptable :: bool
  gi_slippage_acceptable :: bool
  gi_balances_known :: bool
  gi_inventory_known :: bool
  gi_no_conflicting_open_orders :: bool
  gi_latest_signal_exists :: bool
  gi_signal_not_expired :: bool
  gi_entry_not_missed :: bool
  gi_backtest_approved :: bool
  gi_walk_forward_approved :: bool
  gi_tuning_report_approved :: bool
  gi_oos_approved :: bool
  gi_risk_approved :: bool
  gi_strategy_promotion_approved :: bool
  gi_daily_loss_limit_clear :: bool
  gi_cooldown_clear :: bool
  gi_circuit_breaker_clear :: bool
  gi_decision_logged :: bool
  gi_order_preview_created :: bool
  gi_user_authorization_recorded :: bool

record live_gate_result =
  gr_status :: execution_status
  gr_blockers :: "string list"

text \<open>\<^verbatim>\<open>LIVE_GATE_REQUIREMENTS\<close>: the field names, each with its getter.\<close>

definition live_gate_requirements :: "(string \<times> (live_gate_input \<Rightarrow> bool)) list" where
  "live_gate_requirements =
     [(''live_mode'', gi_live_mode), (''auto_mode'', gi_auto_mode),
      (''allow_auto_live_orders'', gi_allow_auto_live_orders), (''confirm_live'', gi_confirm_live),
      (''explicit_user_request'', gi_explicit_user_request), (''api_valid'', gi_api_valid),
      (''account_status_valid'', gi_account_status_valid),
      (''server_time_valid'', gi_server_time_valid),
      (''exchange_info_valid'', gi_exchange_info_valid),
      (''price_filter_valid'', gi_price_filter_valid), (''lot_size_valid'', gi_lot_size_valid),
      (''notional_filter_valid'', gi_notional_filter_valid),
      (''tick_size_valid'', gi_tick_size_valid), (''step_size_valid'', gi_step_size_valid),
      (''latest_spot_price_confirmed'', gi_latest_spot_price_confirmed),
      (''spread_acceptable'', gi_spread_acceptable),
      (''slippage_acceptable'', gi_slippage_acceptable), (''balances_known'', gi_balances_known),
      (''inventory_known'', gi_inventory_known),
      (''no_conflicting_open_orders'', gi_no_conflicting_open_orders),
      (''latest_signal_exists'', gi_latest_signal_exists),
      (''signal_not_expired'', gi_signal_not_expired), (''entry_not_missed'', gi_entry_not_missed),
      (''backtest_approved'', gi_backtest_approved),
      (''walk_forward_approved'', gi_walk_forward_approved),
      (''tuning_report_approved'', gi_tuning_report_approved), (''oos_approved'', gi_oos_approved),
      (''risk_approved'', gi_risk_approved),
      (''strategy_promotion_approved'', gi_strategy_promotion_approved),
      (''daily_loss_limit_clear'', gi_daily_loss_limit_clear),
      (''cooldown_clear'', gi_cooldown_clear),
      (''circuit_breaker_clear'', gi_circuit_breaker_clear),
      (''decision_logged'', gi_decision_logged),
      (''order_preview_created'', gi_order_preview_created),
      (''user_authorization_recorded'', gi_user_authorization_recorded)]"

definition evaluate_live_gate :: "live_gate_input \<Rightarrow> live_gate_result" where
  "evaluate_live_gate g =
     (let blockers = map fst (filter (\<lambda>(_, holds). \<not> holds g) live_gate_requirements)
      in \<lparr>gr_status = (if blockers \<noteq> [] then LIVE_ORDER_BLOCKED else EXECUTION_ALLOWED),
          gr_blockers = blockers\<rparr>)"

definition gate_open :: "live_gate_input \<Rightarrow> bool" where
  "gate_open g \<longleftrightarrow> list_all (\<lambda>(_, holds). holds g) live_gate_requirements"

lemma gate_blockers_Nil: "gr_blockers (evaluate_live_gate g) = [] \<longleftrightarrow> gate_open g"
  by (auto simp: evaluate_live_gate_def gate_open_def Let_def filter_empty_conv list_all_iff)

lemma gate_status_allowed: "gr_status (evaluate_live_gate g) = EXECUTION_ALLOWED \<longleftrightarrow> gate_open g"
  using gate_blockers_Nil [of g] by (auto simp: evaluate_live_gate_def Let_def)

end
