(* ===== verification/Spot_Executor.thy ===== *)
theory Spot_Executor
  imports Approval_Queue Gate_Evidence Live_Gate
begin

text \<open>
  \<^verbatim>\<open>execution/live_spot.py\<close>: the gated Spot order executor, its history verifier, and cancelling.
  What the executor is built with is a record of its collaborators: the authorization source (its
  answer to the first and the second look-up), the verifier, the order session, the evidence
  registries and the promotion query. \<open>h\<close>, \<open>d\<close> and \<open>bd\<close> are the preview, envelope and bundle
  digests. A placement returns its result, the ledger, and the calls made to the exchange, so that
  what reached the exchange is part of the outcome.
\<close>

section \<open>Verification by reading the order history\<close>

type_synonym order_snapshot = "(string \<times> string) list"

record order_verification =
  vf_verified :: bool
  vf_blockers :: "string list"
  vf_observed_status :: "string option"
  vf_order_snapshot :: "order_snapshot option"

definition verification_post_init :: "order_verification \<Rightarrow> order_verification result" where
  "verification_post_init v = validate
     [(vf_verified v \<and> vf_blockers v \<noteq> [], ''verified order destination cannot contain blockers''),
      (\<not> vf_verified v \<and> vf_blockers v = [], ''unverified order destination requires blockers'')] v"

definition verification_failed :: "string list \<Rightarrow> order_verification result" where
  "verification_failed blockers = verification_post_init
     \<lparr>vf_verified = False, vf_blockers = dict_fromkeys blockers, vf_observed_status = None,
      vf_order_snapshot = None\<rparr>"

text \<open>The history the reader returns: a list whose non-mapping items are skipped, or another object.\<close>

datatype order_history = History "order_snapshot option list" | NotAList

definition snapshot_text :: "order_snapshot \<Rightarrow> string \<Rightarrow> string" where
  "snapshot_text o1 k = (case map_of o1 k of None \<Rightarrow> [] | Some v \<Rightarrow> v)"

fun first_matching :: "order_snapshot option list \<Rightarrow> string \<Rightarrow> string \<Rightarrow> order_snapshot option" where
  "first_matching [] client_order_id exchange_order_id = None"
| "first_matching (None # items) client_order_id exchange_order_id =
     first_matching items client_order_id exchange_order_id"
| "first_matching (Some item # items) client_order_id exchange_order_id =
     (if py_strip (snapshot_text item ''clientOrderId'') = client_order_id
         \<and> py_strip (snapshot_text item ''orderId'') = exchange_order_id
      then Some item else first_matching items client_order_id exchange_order_id)"

definition matching_order :: "order_history result \<Rightarrow> string \<Rightarrow> string \<Rightarrow> order_snapshot option result" where
  "matching_order history client_order_id exchange_order_id =
     bindE history (\<lambda>hs. case hs of
       NotAList \<Rightarrow> Inl (RuntimeError ''order destination read-back must be a list'')
     | History items \<Rightarrow> Inr (first_matching items client_order_id exchange_order_id))"

definition verify_with :: "string list \<Rightarrow> string \<Rightarrow> string \<Rightarrow> order_history result \<Rightarrow> string \<Rightarrow> string \<Rightarrow>
    order_verification result" where
  "verify_with accepted missing unverified history client_order_id exchange_order_id =
     bindE (matching_order history client_order_id exchange_order_id) (\<lambda>m. case m of
       None \<Rightarrow> verification_failed [missing]
     | Some item \<Rightarrow>
         (let status = py_upper (snapshot_text item ''status'')
          in if status \<notin> set accepted then verification_failed [unverified]
             else verification_post_init
                    \<lparr>vf_verified = True, vf_blockers = [], vf_observed_status = Some status,
                     vf_order_snapshot = Some item\<rparr>))"

definition verify_placed :: "(string \<Rightarrow> order_history result) \<Rightarrow> spot_order_command \<Rightarrow> string \<Rightarrow>
    order_verification result" where
  "verify_placed reader c exchange_order_id =
     verify_with [''NEW'', ''PARTIALLY_FILLED'', ''FILLED'', ''CANCELED'', ''EXPIRED'', ''REJECTED'']
       ''ORDER_DESTINATION_READ_BACK_MISSING'' ''ORDER_DESTINATION_STATUS_UNVERIFIED''
       (reader (oc_symbol c)) (oc_client_order_id c) exchange_order_id"

definition verify_cancelled :: "(string \<Rightarrow> order_history result) \<Rightarrow> string \<Rightarrow> string \<Rightarrow> string \<Rightarrow>
    order_verification result" where
  "verify_cancelled reader symbol client_order_id exchange_order_id =
     verify_with [''CANCELED'', ''EXPIRED'']
       ''ORDER_CANCEL_DESTINATION_READ_BACK_MISSING'' ''ORDER_CANCEL_DESTINATION_STATUS_UNVERIFIED''
       (reader symbol) client_order_id exchange_order_id"

section \<open>Results\<close>

datatype live_command_status = LC_BLOCKED | LC_SUBMITTED | LC_CANCELLED | LC_ATTEMPT_FAILED
  | LC_UNVERIFIED_REVIEW_REQUIRED

record live_command_result =
  lr_status :: live_command_status
  lr_blockers :: "string list"
  lr_client_order_id :: string
  lr_exchange_order_id :: "string option"
  lr_preview_hash :: "string option"
  lr_exchange_order_status :: "string option"
  lr_exchange_order_snapshot :: "order_snapshot option"
  lr_authorization_id :: "string option"
  lr_authorization_envelope_sha256 :: "string option"
  lr_approval_id :: "string option"

definition early_blocked :: "envelope_digest \<Rightarrow> authorization option \<Rightarrow> string list \<Rightarrow> live_command_result" where
  "early_blocked d auth blockers =
     \<lparr>lr_status = LC_BLOCKED, lr_blockers = dict_fromkeys blockers,
      lr_client_order_id = (case auth of None \<Rightarrow> [] | Some a \<Rightarrow> au_client_order_id a),
      lr_exchange_order_id = None, lr_preview_hash = map_option au_preview_hash auth,
      lr_exchange_order_status = None, lr_exchange_order_snapshot = None,
      lr_authorization_id = map_option au_authorization_id auth,
      lr_authorization_envelope_sha256 = map_option (envelope_sha256 d) auth,
      lr_approval_id = map_option au_approval_id auth\<rparr>"

definition command_result :: "preview_digest \<Rightarrow> envelope_digest \<Rightarrow> authorization \<Rightarrow> spot_order_command \<Rightarrow>
    live_command_status \<Rightarrow> string list \<Rightarrow> (string \<times> order_verification) option \<Rightarrow> live_command_result" where
  "command_result h d a c status blockers placed =
     \<lparr>lr_status = status, lr_blockers = blockers, lr_client_order_id = oc_client_order_id c,
      lr_exchange_order_id = map_option fst placed, lr_preview_hash = Some (preview_hash h c),
      lr_exchange_order_status = Option.bind placed (\<lambda>p. vf_observed_status (snd p)),
      lr_exchange_order_snapshot = Option.bind placed (\<lambda>p. vf_order_snapshot (snd p)),
      lr_authorization_id = Some (au_authorization_id a),
      lr_authorization_envelope_sha256 = Some (envelope_sha256 d a),
      lr_approval_id = Some (au_approval_id a)\<rparr>"

section \<open>The executor\<close>

text \<open>The exchange's answer: not a mapping, or a mapping with the text of its \<^verbatim>\<open>orderId\<close>, if any.\<close>

datatype order_response = NotAMapping | Response "string option"

definition exchange_order_id :: "order_response \<Rightarrow> string result" where
  "exchange_order_id r =
     (case r of
        NotAMapping \<Rightarrow> Inl (RuntimeError ''exchange order response must be an object'')
      | Response None \<Rightarrow> Inl (RuntimeError ''exchange order response has no orderId'')
      | Response (Some i) \<Rightarrow>
          if blank i then Inl (RuntimeError ''exchange order response has no orderId'') else Inr i)"

datatype exchange_call = Call_order_test order_payload | Call_order_place order_payload
  | Call_order_cancel order_payload

record executor_env =
  ev_order_test :: "order_payload \<Rightarrow> unit result"
  ev_order_place :: "order_payload \<Rightarrow> order_response result"
  ev_order_cancel :: "order_payload \<Rightarrow> order_response result"
  ev_verify_placed :: "(spot_order_command \<Rightarrow> string \<Rightarrow> order_verification result) option"
  ev_verify_cancelled :: "(string \<Rightarrow> string \<Rightarrow> string \<Rightarrow> order_verification result) option"
  ev_source :: "(nat \<Rightarrow> string \<Rightarrow> authorization option result) option"
  ev_has_ledger :: bool
  ev_ledger_fault :: bool
  ev_evidence_registry :: "evidence_registry option"
  ev_promotion_registry :: "promotion_registry option"
  ev_promotion_query :: "promotion_query option"

text \<open>\<^verbatim>\<open>except OSError, TypeError, ValueError\<close>.\<close>

definition source_error_caught :: "py_error \<Rightarrow> bool" where
  "source_error_caught e =
     (case e of ValueError _ \<Rightarrow> True | TypeError _ \<Rightarrow> True | OSError _ \<Rightarrow> True | _ \<Rightarrow> False)"

definition denied_gate_input :: "live_gate_input \<Rightarrow> live_gate_input" where
  "denied_gate_input g = g\<lparr>gi_backtest_approved := False, gi_walk_forward_approved := False,
     gi_tuning_report_approved := False, gi_oos_approved := False,
     gi_strategy_promotion_approved := False\<rparr>"

type_synonym bundle_digest = "exact_subject \<times> evidence_record list \<Rightarrow> string"

definition validation_evidence :: "bundle_digest \<Rightarrow> executor_env \<Rightarrow> promotion_query \<Rightarrow> authorization \<Rightarrow>
    evidence_resolution result" where
  "validation_evidence bd env q a =
     (case ev_evidence_registry env of
        None \<Rightarrow> Inr (no_resolution\<lparr>rs_blockers := [''LIVE_GATE_EVIDENCE_REGISTRY_REQUIRED'']\<rparr>)
      | Some g \<Rightarrow>
          (case evidence_resolve bd g q (au_validation_bundle_hash a) of
             Inr rs \<Rightarrow> Inr rs
           | Inl (ValueError _) \<Rightarrow> Inr (no_resolution\<lparr>rs_blockers := [''LIVE_GATE_EVIDENCE_INVALID'']\<rparr>)
           | Inl (TypeError _) \<Rightarrow> Inr (no_resolution\<lparr>rs_blockers := [''LIVE_GATE_EVIDENCE_INVALID'']\<rparr>)
           | Inl e \<Rightarrow> Inl e))"

definition promotion_evidence :: "executor_env \<Rightarrow> promotion_query \<Rightarrow> validation_status \<times> string list" where
  "promotion_evidence env q =
     (case ev_promotion_registry env of
        None \<Rightarrow> (VS_RESEARCH_ONLY, [''PROMOTION_EVIDENCE_REGISTRY_REQUIRED''])
      | Some g \<Rightarrow>
          let status = promotion_resolve g q
          in (status, flag_if (status \<noteq> VS_LIVE_ELIGIBLE) ''PROMOTION_EVIDENCE_LIVE_ELIGIBLE_REQUIRED''))"

definition evidence_bound_gate_input :: "bundle_digest \<Rightarrow> executor_env \<Rightarrow> live_gate_input \<Rightarrow> authorization \<Rightarrow>
    datetime \<Rightarrow> (live_gate_input \<times> string list) result" where
  "evidence_bound_gate_input bd env g a observed_at =
     (case ev_promotion_query env of
        None \<Rightarrow> Inr (denied_gate_input g, [''EXECUTION_EVIDENCE_EXACT_QUERY_REQUIRED''])
      | Some query \<Rightarrow>
          bindE (promotion_query_post_init (query\<lparr>pq_as_of := observed_at\<rparr>)) (\<lambda>q.
            if sj_strategy_id (pq_subject q) \<noteq> au_strategy_id a
               \<or> sj_strategy_version (pq_subject q) \<noteq> au_strategy_version a
               \<or> sj_symbol (pq_subject q) \<noteq> au_symbol a
               \<or> sj_market_type (pq_subject q) \<noteq> au_market_type a
            then Inr (denied_gate_input g, [''EXECUTION_EVIDENCE_AUTHORIZATION_SUBJECT_MISMATCH''])
            else bindE (validation_evidence bd env q a) (\<lambda>rs.
              case promotion_evidence env q of (status, promotion_blockers) \<Rightarrow>
                Inr (g\<lparr>gi_backtest_approved := rs_backtest_approved rs,
                       gi_walk_forward_approved := rs_walk_forward_approved rs,
                       gi_tuning_report_approved := rs_tuning_report_approved rs,
                       gi_oos_approved := rs_oos_approved rs,
                       gi_strategy_promotion_approved := (status = VS_LIVE_ELIGIBLE)\<rparr>,
                     dict_fromkeys (rs_blockers rs @ promotion_blockers)))))"

definition authorization_check :: "preview_digest \<Rightarrow> envelope_digest \<Rightarrow> executor_env \<Rightarrow>
    authorization option \<Rightarrow> datetime \<Rightarrow> (string list \<times> authorization option) result" where
  "authorization_check h d env auth observed_at =
     (case auth of
        None \<Rightarrow> Inr ([''EXECUTION_AUTHORIZATION_REQUIRED''], None)
      | Some a \<Rightarrow>
          (case ev_source env of
             None \<Rightarrow> Inr ([''EXECUTION_AUTHORIZATION_SOURCE_UNAVAILABLE''], None)
           | Some source \<Rightarrow>
               (case source 0 (au_authorization_id a) of
                  Inl e \<Rightarrow>
                    if source_error_caught e
                    then Inr ([''EXECUTION_AUTHORIZATION_EVIDENCE_INVALID'',
                               ''EXECUTION_AUTHORIZATION_NOT_APPROVED''], None)
                    else Inl e
                | Inr None \<Rightarrow> Inr ([''EXECUTION_AUTHORIZATION_NOT_APPROVED''], None)
                | Inr (Some r) \<Rightarrow>
                    if envelope_sha256 d r \<noteq> envelope_sha256 d a
                    then Inr ([''EXECUTION_AUTHORIZATION_RECORD_MISMATCH''], Some r)
                    else bindE (to_spot_order_command a) (\<lambda>c.
                           bindE (blockers_for h a c observed_at) (\<lambda>bl. Inr (bl, Some r))))))"

definition gate_check :: "preview_digest \<Rightarrow> envelope_digest \<Rightarrow> bundle_digest \<Rightarrow> executor_env \<Rightarrow>
    live_gate_input \<Rightarrow> authorization option \<Rightarrow> datetime \<Rightarrow> (live_gate_input \<times> string list) result" where
  "gate_check h d bd env g auth observed_at =
     bindE (authorization_check h d env auth observed_at) (\<lambda>(blockers, resolved).
       case (blockers, resolved) of
         ([], Some r) \<Rightarrow> evidence_bound_gate_input bd env g r observed_at
       | _ \<Rightarrow> Inr (g, blockers))"

text \<open>The exchange calls after a claim, and the result they lead to.\<close>

definition exchange_attempt :: "preview_digest \<Rightarrow> envelope_digest \<Rightarrow> executor_env \<Rightarrow> authorization \<Rightarrow>
    spot_order_command \<Rightarrow> (spot_order_command \<Rightarrow> string \<Rightarrow> order_verification result) \<Rightarrow>
    live_command_result \<times> exchange_call list" where
  "exchange_attempt h d env a c verify =
     (let payload = order_payload c;
          failed = command_result h d a c LC_ATTEMPT_FAILED [''LIVE_ORDER_ATTEMPT_OUTCOME_UNVERIFIED''] None
      in case ev_order_test env payload of
           Inl _ \<Rightarrow> (failed, [Call_order_test payload])
         | Inr _ \<Rightarrow>
             (case bindE (ev_order_place env payload) (\<lambda>response.
                     bindE (exchange_order_id response) (\<lambda>order_id.
                       bindE (verify c order_id) (\<lambda>v. Inr (order_id, v)))) of
                Inl _ \<Rightarrow> (failed, [Call_order_test payload, Call_order_place payload])
              | Inr (order_id, v) \<Rightarrow>
                  (if vf_verified v
                   then command_result h d a c LC_SUBMITTED [] (Some (order_id, v))
                   else command_result h d a c LC_UNVERIFIED_REVIEW_REQUIRED (vf_blockers v)
                          (Some (order_id, v)),
                   [Call_order_test payload, Call_order_place payload])))"

definition after_claim :: "preview_digest \<Rightarrow> envelope_digest \<Rightarrow> executor_env \<Rightarrow>
    (nat \<Rightarrow> string \<Rightarrow> authorization option result) \<Rightarrow> authorization \<Rightarrow> spot_order_command \<Rightarrow>
    (spot_order_command \<Rightarrow> string \<Rightarrow> order_verification result) \<Rightarrow>
    live_command_result result \<times> exchange_call list" where
  "after_claim h d env source a c verify =
     (let revoked = command_result h d a c LC_BLOCKED
            [''EXECUTION_AUTHORIZATION_REVOKED_BEFORE_ATTEMPT''] None
      in case source 1 (au_authorization_id a) of
           Inl e \<Rightarrow> if source_error_caught e then (Inr revoked, []) else (Inl e, [])
         | Inr None \<Rightarrow> (Inr revoked, [])
         | Inr (Some r) \<Rightarrow>
             if envelope_sha256 d r \<noteq> envelope_sha256 d a then (Inr revoked, [])
             else case exchange_attempt h d env a c verify of (res, calls) \<Rightarrow> (Inr res, calls))"

definition claim_and_place :: "preview_digest \<Rightarrow> envelope_digest \<Rightarrow> executor_env \<Rightarrow> ledger \<Rightarrow>
    authorization \<Rightarrow> spot_order_command \<Rightarrow> datetime \<Rightarrow>
    live_command_result result \<times> ledger \<times> exchange_call list" where
  "claim_and_place h d env l a c observed_at =
     (case (ev_source env, ev_verify_placed env) of
        (None, _) \<Rightarrow> (Inl (RuntimeError ''validated authorization source is unavailable''), l, [])
      | (Some source, None) \<Rightarrow>
          (Inr (command_result h d a c LC_BLOCKED [''ORDER_DESTINATION_VERIFIER_UNAVAILABLE''] None), l, [])
      | (Some source, Some verify) \<Rightarrow>
          if \<not> ev_has_ledger env
          then (Inr (command_result h d a c LC_BLOCKED [''EXECUTION_AUTHORIZATION_LEDGER_UNAVAILABLE''] None),
                l, [])
          else
            (case ledger_claim d l (ev_ledger_fault env) a (oc_client_order_id c) observed_at of
               (Inl AlreadyConsumedError, l') \<Rightarrow>
                 (Inr (command_result h d a c LC_BLOCKED [''EXECUTION_AUTHORIZATION_ALREADY_CONSUMED''] None),
                  l', [])
             | (Inl LedgerUnavailableError, l') \<Rightarrow>
                 (Inr (command_result h d a c LC_BLOCKED [''EXECUTION_AUTHORIZATION_LEDGER_UNAVAILABLE''] None),
                  l', [])
             | (Inl e, l') \<Rightarrow> (Inl e, l', [])
             | (Inr _, l') \<Rightarrow>
                 (case after_claim h d env source a c verify of (r, calls) \<Rightarrow> (r, l', calls))))"

definition spot_place :: "preview_digest \<Rightarrow> envelope_digest \<Rightarrow> bundle_digest \<Rightarrow> executor_env \<Rightarrow> ledger \<Rightarrow>
    live_gate_input \<Rightarrow> authorization option \<Rightarrow> datetime \<Rightarrow>
    live_command_result result \<times> ledger \<times> exchange_call list" where
  "spot_place h d bd env l g auth observed_at =
     (case (case auth of None \<Rightarrow> Inr None
            | Some a \<Rightarrow> bindE (to_spot_order_command a) (\<lambda>c. Inr (Some c))) of
        Inl e \<Rightarrow> (Inl e, l, [])
      | Inr command \<Rightarrow>
          (case gate_check h d bd env g auth observed_at of
             Inl e \<Rightarrow> (Inl e, l, [])
           | Inr (g', blockers) \<Rightarrow>
               let gate = evaluate_live_gate g'; all_blockers = blockers @ gr_blockers gate
               in if gr_status gate \<noteq> EXECUTION_ALLOWED \<or> all_blockers \<noteq> []
                  then (Inr (early_blocked d auth all_blockers), l, [])
                  else (case (auth, command) of
                          (Some a, Some c) \<Rightarrow> claim_and_place h d env l a c observed_at
                        | _ \<Rightarrow> (Inl (RuntimeError ''validated execution authorization is unavailable''),
                                l, []))))"

section \<open>Cancelling\<close>

definition bare_result :: "live_command_status \<Rightarrow> string list \<Rightarrow> string \<Rightarrow>
    (string \<times> order_verification) option \<Rightarrow> live_command_result" where
  "bare_result status blockers client_id placed =
     \<lparr>lr_status = status, lr_blockers = blockers, lr_client_order_id = client_id,
      lr_exchange_order_id = map_option fst placed, lr_preview_hash = None,
      lr_exchange_order_status = Option.bind placed (\<lambda>p. vf_observed_status (snd p)),
      lr_exchange_order_snapshot = Option.bind placed (\<lambda>p. vf_order_snapshot (snd p)),
      lr_authorization_id = None, lr_authorization_envelope_sha256 = None, lr_approval_id = None\<rparr>"

definition spot_cancel :: "executor_env \<Rightarrow> string \<Rightarrow> string \<Rightarrow> live_gate_input \<Rightarrow>
    live_command_result result \<times> exchange_call list" where
  "spot_cancel env symbol client_order_id g =
     (let gate = evaluate_live_gate g;
          normalized_symbol = py_upper (py_strip symbol);
          normalized_id = py_strip client_order_id;
          blockers = gr_blockers gate
            @ flag_if (\<not> symbol_text normalized_symbol) ''ORDER_SYMBOL_INVALID''
            @ flag_if (normalized_id = [] \<or> \<not> py_isascii normalized_id) ''CLIENT_ORDER_ID_INVALID'';
          payload = [(''symbol'', normalized_symbol), (''origClientOrderId'', normalized_id)]
      in if gr_status gate \<noteq> EXECUTION_ALLOWED \<or> blockers \<noteq> []
         then (Inr (bare_result LC_BLOCKED (dict_fromkeys blockers) normalized_id None), [])
         else case ev_verify_cancelled env of
           None \<Rightarrow> (Inr (bare_result LC_BLOCKED [''ORDER_DESTINATION_VERIFIER_UNAVAILABLE''] normalized_id None), [])
         | Some verify \<Rightarrow>
             (bindE (ev_order_cancel env payload) (\<lambda>response.
                bindE (exchange_order_id response) (\<lambda>order_id.
                  bindE (verify normalized_symbol normalized_id order_id) (\<lambda>v.
                    Inr (if vf_verified v
                         then bare_result LC_CANCELLED [] normalized_id (Some (order_id, v))
                         else bare_result LC_UNVERIFIED_REVIEW_REQUIRED (vf_blockers v) normalized_id
                                (Some (order_id, v)))))),
              [Call_order_cancel payload]))"

section \<open>What reaches the exchange\<close>

lemma exchange_attempt_calls:
  "snd (exchange_attempt h d env a c verify) \<in>
     {[Call_order_test (order_payload c)],
      [Call_order_test (order_payload c), Call_order_place (order_payload c)]}"
  by (auto simp: exchange_attempt_def Let_def split: sum.splits)

lemma exchange_attempt_place:
  "Call_order_place p \<in> set (snd (exchange_attempt h d env a c verify)) \<Longrightarrow> p = order_payload c"
  using exchange_attempt_calls [of h d env a c verify] by auto

definition still_approved :: "envelope_digest \<Rightarrow> (nat \<Rightarrow> string \<Rightarrow> authorization option result) \<Rightarrow> nat \<Rightarrow>
    authorization \<Rightarrow> bool" where
  "still_approved d source n a \<longleftrightarrow>
     (\<exists>r. source n (au_authorization_id a) = Inr (Some r) \<and> envelope_sha256 d r = envelope_sha256 d a)"

lemma after_claim_calls:
  assumes "after_claim h d env source a c verify = (r, calls)" "calls \<noteq> []"
  shows "still_approved d source 1 a" "(Inr (fst (exchange_attempt h d env a c verify)), snd (exchange_attempt h d env a c verify)) = (r, calls)"
  using assms
  by (auto simp: after_claim_def still_approved_def Let_def case_prod_unfold
      split: sum.splits option.splits if_splits)

text \<open>The ledger row of a claim, and the only way to the exchange.\<close>

definition claimed_row :: "ledger \<Rightarrow> ledger \<Rightarrow> authorization \<Rightarrow> bool" where
  "claimed_row l l' a \<longleftrightarrow>
     (\<exists>row. l' = l @ [row] \<and> cn_authorization_id row = au_authorization_id a \<and>
        cn_single_use_nonce row = au_single_use_nonce a \<and>
        au_authorization_id a \<notin> cn_authorization_id ` set l \<and>
        au_single_use_nonce a \<notin> cn_single_use_nonce ` set l)"

lemma ledger_claim_row:
  assumes "ledger_claim d l fault a eid t = (r, l')"
  shows "(\<exists>e. r = Inl e) \<and> l' = l \<or> claimed_row l l' a"
  by (rule ledger_claim_cases [of d l fault a eid t]) (use assms in \<open>auto simp: claimed_row_def\<close>)

lemma claim_and_place_calls:
  assumes "claim_and_place h d env l a c t = (r, l', calls)"
  shows "calls = [] \<and> l' = l \<or> calls = [] \<and> claimed_row l l' a \<or>
    claimed_row l l' a \<and> (\<exists>source verify. ev_source env = Some source \<and> ev_verify_placed env = Some verify \<and>
      still_approved d source 1 a \<and> calls = snd (exchange_attempt h d env a c verify))"
proof (cases "(ev_source env, ev_verify_placed env)" rule: prod.exhaust)
  case (Pair so vo)
  show ?thesis
  proof (cases "so = None \<or> vo = None \<or> \<not> ev_has_ledger env")
    case True
    with assms Pair show ?thesis
      by (cases so; cases vo) (auto simp: claim_and_place_def)
  next
    case False
    then obtain source verify where sv: "so = Some source" "vo = Some verify" "ev_has_ledger env" by auto
    obtain cr m where cl: "ledger_claim d l (ev_ledger_fault env) a (oc_client_order_id c) t = (cr, m)"
      by (rule prod.exhaust)
    show ?thesis
    proof (cases cr)
      case (Inl e)
      have "l' = m \<and> calls = []"
        using assms Pair sv cl Inl by (cases e) (simp_all add: claim_and_place_def)
      with ledger_claim_row [OF cl] show ?thesis by auto
    next
      case (Inr w)
      obtain r2 calls2 where ac: "after_claim h d env source a c verify = (r2, calls2)" by (rule prod.exhaust)
      have "l' = m \<and> calls = calls2" using assms Pair sv cl Inr ac by (simp add: claim_and_place_def)
      moreover have "claimed_row l m a" using ledger_claim_row [OF cl] Inr by auto
      ultimately show ?thesis
        using after_claim_calls [OF ac] Pair sv by (cases "calls2 = []") auto
    qed
  qed
qed

lemma spot_place_cases:
  assumes "spot_place h d bd env l g auth t = (r, l', calls)"
  obtains (quiet) "l' = l" "calls = []"
  | (claim) a c g' where "auth = Some a" "to_spot_order_command a = Inr c"
      "gate_check h d bd env g auth t = Inr (g', [])" "gate_open g'"
      "claim_and_place h d env l a c t = (r, l', calls)"
proof (cases auth)
  case None
  with assms have "l' = l \<and> calls = []"
    by (auto simp: spot_place_def Let_def split: sum.splits prod.splits if_splits)
  then show ?thesis by (simp add: quiet)
next
  case (Some a)
  show ?thesis
  proof (cases "to_spot_order_command a")
    case (Inl e)
    with assms Some show ?thesis by (intro quiet) (simp_all add: spot_place_def)
  next
    case (Inr c)
    show ?thesis
    proof (cases "gate_check h d bd env g auth t")
      case (Inl e)
      with assms Some Inr show ?thesis by (intro quiet) (simp_all add: spot_place_def)
    next
      case (Inr p)
      obtain g' bl where p: "p = (g', bl)" by (rule prod.exhaust)
      show ?thesis
      proof (cases "bl = [] \<and> gate_open g'")
        case True
        with assms Some Inr p \<open>to_spot_order_command a = Inr c\<close> show ?thesis
          by (intro claim [of a c g'])
            (simp_all add: spot_place_def Let_def gate_blockers_Nil gate_status_allowed)
      next
        case False
        then have "gr_status (evaluate_live_gate g') \<noteq> EXECUTION_ALLOWED \<or>
            bl @ gr_blockers (evaluate_live_gate g') \<noteq> []"
          by (auto simp: gate_status_allowed)
        with assms Some Inr p \<open>to_spot_order_command a = Inr c\<close> show ?thesis
          by (intro quiet) (simp_all add: spot_place_def Let_def)
      qed
    qed
  qed
qed

lemma authorization_check_clear:
  assumes "authorization_check h d env auth t = Inr ([], resolved)"
  obtains a c source r where "auth = Some a" "ev_source env = Some source"
    "source 0 (au_authorization_id a) = Inr (Some r)" "envelope_sha256 d r = envelope_sha256 d a"
    "resolved = Some r" "to_spot_order_command a = Inr c" "blockers_for h a c t = Inr []"
proof (cases auth)
  case None
  with assms show ?thesis by (simp add: authorization_check_def)
next
  case (Some a)
  show ?thesis
  proof (cases "ev_source env")
    case None
    with assms Some show ?thesis by (simp add: authorization_check_def)
  next
    case src: (Some source)
    show ?thesis
    proof (cases "source 0 (au_authorization_id a)")
      case (Inl e)
      with assms Some src show ?thesis by (simp add: authorization_check_def split: if_split_asm)
    next
      case (Inr ro)
      with assms Some src obtain r c where "ro = Some r" "envelope_sha256 d r = envelope_sha256 d a"
        "to_spot_order_command a = Inr c" "blockers_for h a c t = Inr []" "resolved = Some r"
        by (cases ro) (auto simp: authorization_check_def split: if_split_asm)
      with Some src Inr that show ?thesis by blast
    qed
  qed
qed

lemma blockers_for_Nil:
  assumes "blockers_for h a c t = Inr []"
  shows "is_aware t" "instant (au_created_at a) \<le> instant t" "instant t < instant (au_expires_at a)"
    "au_preview_hash a = preview_hash h c"
  using assms by (auto simp: blockers_for_def auth_aware_def failed_codes_Nil_iff split: if_splits)

definition evidence_overridden :: "live_gate_input \<Rightarrow> bool \<Rightarrow> live_gate_input" where
  "evidence_overridden g b = g\<lparr>gi_backtest_approved := b, gi_walk_forward_approved := b,
     gi_tuning_report_approved := b, gi_oos_approved := b, gi_strategy_promotion_approved := b\<rparr>"

lemma gate_open_fields:
  assumes "gate_open g"
  shows "gi_backtest_approved g" "gi_walk_forward_approved g" "gi_tuning_report_approved g"
    "gi_oos_approved g" "gi_strategy_promotion_approved g"
  using assms by (simp_all add: gate_open_def live_gate_requirements_def)

text \<open>What an open, evidence-bound gate stands on.\<close>

definition evidence_stands :: "bundle_digest \<Rightarrow> executor_env \<Rightarrow> authorization \<Rightarrow> datetime \<Rightarrow> bool" where
  "evidence_stands bd env a t \<longleftrightarrow>
     (\<exists>query q eg pg rs. ev_promotion_query env = Some query \<and>
        promotion_query_post_init (query\<lparr>pq_as_of := t\<rparr>) = Inr q \<and>
        sj_strategy_id (pq_subject q) = au_strategy_id a \<and>
        sj_strategy_version (pq_subject q) = au_strategy_version a \<and>
        sj_symbol (pq_subject q) = au_symbol a \<and> sj_market_type (pq_subject q) = au_market_type a \<and>
        ev_evidence_registry env = Some eg \<and>
        evidence_resolve bd eg q (au_validation_bundle_hash a) = Inr rs \<and> all_approved rs \<and>
        ev_promotion_registry env = Some pg \<and> promotion_resolve pg q = VS_LIVE_ELIGIBLE)"

lemma evidence_bound_open:
  assumes "evidence_bound_gate_input bd env g r t = Inr (g', [])" "gate_open g'"
  shows "evidence_stands bd env r t \<and> gate_open (evidence_overridden g True)"
proof -
  obtain query where query: "ev_promotion_query env = Some query"
    using assms(1) by (auto simp: evidence_bound_gate_input_def split: option.splits)
  obtain q where q: "promotion_query_post_init (query\<lparr>pq_as_of := t\<rparr>) = Inr q"
    using assms(1) query by (auto simp: evidence_bound_gate_input_def)
  have subject: "sj_strategy_id (pq_subject q) = au_strategy_id r"
    "sj_strategy_version (pq_subject q) = au_strategy_version r"
    "sj_symbol (pq_subject q) = au_symbol r" "sj_market_type (pq_subject q) = au_market_type r"
    using assms(1) query q by (auto simp: evidence_bound_gate_input_def split: if_split_asm)
  then obtain rs where rs: "validation_evidence bd env q r = Inr rs" "rs_blockers rs = []"
    and pe: "snd (promotion_evidence env q) = []"
    and g': "g' = g\<lparr>gi_backtest_approved := rs_backtest_approved rs,
      gi_walk_forward_approved := rs_walk_forward_approved rs,
      gi_tuning_report_approved := rs_tuning_report_approved rs, gi_oos_approved := rs_oos_approved rs,
      gi_strategy_promotion_approved := (fst (promotion_evidence env q) = VS_LIVE_ELIGIBLE)\<rparr>"
    using assms(1) query q by (auto simp: evidence_bound_gate_input_def case_prod_unfold)
  have flags: "all_approved rs" "fst (promotion_evidence env q) = VS_LIVE_ELIGIBLE"
    using gate_open_fields [OF assms(2)] by (simp_all add: g' all_approved_def)
  then have "g' = evidence_overridden g True" by (simp add: g' evidence_overridden_def all_approved_def)
  moreover obtain eg where "ev_evidence_registry env = Some eg"
    "evidence_resolve bd eg q (au_validation_bundle_hash r) = Inr rs"
    using rs by (auto simp: validation_evidence_def split: option.splits sum.splits py_error.splits)
  moreover obtain pg where "ev_promotion_registry env = Some pg" "promotion_resolve pg q = VS_LIVE_ELIGIBLE"
    using flags(2) by (auto simp: promotion_evidence_def Let_def split: option.splits)
  ultimately show ?thesis
    using assms(2) query q subject flags(1) unfolding evidence_stands_def by blast
qed

lemma gate_check_open:
  assumes "gate_check h d bd env g auth t = Inr (g', [])" "gate_open g'"
  obtains a c source r where "auth = Some a" "ev_source env = Some source"
    "source 0 (au_authorization_id a) = Inr (Some r)" "envelope_sha256 d r = envelope_sha256 d a"
    "to_spot_order_command a = Inr c" "blockers_for h a c t = Inr []"
    "evidence_stands bd env r t" "gate_open (evidence_overridden g True)"
proof -
  obtain bl resolved where chk: "authorization_check h d env auth t = Inr (bl, resolved)"
    and rest: "(case (bl, resolved) of ([], Some r) \<Rightarrow> evidence_bound_gate_input bd env g r t
      | _ \<Rightarrow> Inr (g, bl)) = Inr (g', [])"
    using assms(1) by (auto simp: gate_check_def)
  have "bl = []" using rest by (cases bl) auto
  with chk obtain a c source r where *: "auth = Some a" "ev_source env = Some source"
    "source 0 (au_authorization_id a) = Inr (Some r)" "envelope_sha256 d r = envelope_sha256 d a"
    "resolved = Some r" "to_spot_order_command a = Inr c" "blockers_for h a c t = Inr []"
    by (auto elim: authorization_check_clear)
  with rest \<open>bl = []\<close> have "evidence_bound_gate_input bd env g r t = Inr (g', [])" by simp
  from evidence_bound_open [OF this assms(2)] * that show ?thesis by blast
qed

section \<open>Single use of an authorization\<close>

type_synonym place_request = "executor_env \<times> live_gate_input \<times> authorization option \<times> datetime"

definition placed_order :: "exchange_call list \<Rightarrow> bool" where
  "placed_order calls \<longleftrightarrow> list_ex (\<lambda>x. case x of Call_order_place _ \<Rightarrow> True | _ \<Rightarrow> False) calls"

text \<open>A placement as an attempt on the ledger, granted when an order reached the exchange.\<close>

definition place_attempt :: "preview_digest \<Rightarrow> envelope_digest \<Rightarrow> bundle_digest \<Rightarrow> ledger \<Rightarrow> place_request \<Rightarrow>
    bool \<times> ledger" where
  "place_attempt h d bd l = (\<lambda>(env, g, auth, t).
     case spot_place h d bd env l g auth t of (_, l', calls) \<Rightarrow> (placed_order calls, l'))"

definition request_authorization_id :: "place_request \<Rightarrow> string option" where
  "request_authorization_id = (\<lambda>(env, g, auth, t). map_option au_authorization_id auth)"

definition request_nonce :: "place_request \<Rightarrow> string option" where
  "request_nonce = (\<lambda>(env, g, auth, t). map_option au_single_use_nonce auth)"

lemma place_attempt_cases:
  assumes "place_attempt h d bd l (env, g, auth, t) = (granted, l')"
  shows "\<not> granted \<and> l' = l \<or> (\<exists>a. auth = Some a \<and> claimed_row l l' a)"
proof -
  obtain r m calls where sp: "spot_place h d bd env l g auth t = (r, m, calls)" by (rule prod_cases3)
  with assms have eq: "l' = m" "granted = placed_order calls" by (simp_all add: place_attempt_def)
  from sp show ?thesis
  proof (cases rule: spot_place_cases)
    case quiet
    then show ?thesis by (simp add: eq placed_order_def)
  next
    case (claim a c g')
    from claim_and_place_calls [OF claim(5)] claim(1) show ?thesis by (auto simp: eq placed_order_def)
  qed
qed

interpretation executor_ids: single_use "place_attempt h d bd" request_authorization_id
    "\<lambda>l. Some ` cn_authorization_id ` set l" for h d bd
proof
  fix l r l' assume *: "place_attempt h d bd l r = (True, l')"
  obtain env g auth t where "r = (env, g, auth, t)" by (rule prod_cases4)
  with * place_attempt_cases [of h d bd l env g auth t True l']
  show "request_authorization_id r \<notin> Some ` cn_authorization_id ` set l \<and>
      request_authorization_id r \<in> Some ` cn_authorization_id ` set l'"
    by (auto simp: claimed_row_def request_authorization_id_def)
next
  fix l r granted l' assume *: "place_attempt h d bd l r = (granted, l')"
  obtain env g auth t where "r = (env, g, auth, t)" by (rule prod_cases4)
  with * place_attempt_cases [of h d bd l env g auth t granted l']
  show "Some ` cn_authorization_id ` set l \<subseteq> Some ` cn_authorization_id ` set l'"
    by (auto simp: claimed_row_def)
qed

interpretation executor_nonces: single_use "place_attempt h d bd" request_nonce
    "\<lambda>l. Some ` cn_single_use_nonce ` set l" for h d bd
proof
  fix l r l' assume *: "place_attempt h d bd l r = (True, l')"
  obtain env g auth t where "r = (env, g, auth, t)" by (rule prod_cases4)
  with * place_attempt_cases [of h d bd l env g auth t True l']
  show "request_nonce r \<notin> Some ` cn_single_use_nonce ` set l \<and>
      request_nonce r \<in> Some ` cn_single_use_nonce ` set l'"
    by (auto simp: claimed_row_def request_nonce_def)
next
  fix l r granted l' assume *: "place_attempt h d bd l r = (granted, l')"
  obtain env g auth t where "r = (env, g, auth, t)" by (rule prod_cases4)
  with * place_attempt_cases [of h d bd l env g auth t granted l']
  show "Some ` cn_single_use_nonce ` set l \<subseteq> Some ` cn_single_use_nonce ` set l'"
    by (auto simp: claimed_row_def)
qed

section \<open>The way through\<close>

text \<open>What a placement needs before it may touch the exchange, as one condition.\<close>

definition placement_cleared :: "preview_digest \<Rightarrow> envelope_digest \<Rightarrow> bundle_digest \<Rightarrow> executor_env \<Rightarrow>
    live_gate_input \<Rightarrow> authorization \<Rightarrow> spot_order_command \<Rightarrow> datetime \<Rightarrow> bool" where
  "placement_cleared h d bd env g a c t \<longleftrightarrow>
     to_spot_order_command a = Inr c \<and> blockers_for h a c t = Inr [] \<and>
     gate_open (evidence_overridden g True) \<and>
     (\<exists>source r. ev_source env = Some source \<and> source 0 (au_authorization_id a) = Inr (Some r) \<and>
        envelope_sha256 d r = envelope_sha256 d a \<and> evidence_stands bd env r t)"

lemma gate_check_pass:
  assumes "placement_cleared h d bd env g a c t"
  shows "gate_check h d bd env g (Some a) t = Inr (evidence_overridden g True, [])"
proof -
  obtain source r where src: "ev_source env = Some source" "source 0 (au_authorization_id a) = Inr (Some r)"
    "envelope_sha256 d r = envelope_sha256 d a" "evidence_stands bd env r t"
    and c: "to_spot_order_command a = Inr c" "blockers_for h a c t = Inr []"
    using assms unfolding placement_cleared_def by blast
  obtain query q eg pg rs where st: "ev_promotion_query env = Some query"
    "promotion_query_post_init (query\<lparr>pq_as_of := t\<rparr>) = Inr q"
    "sj_strategy_id (pq_subject q) = au_strategy_id r"
    "sj_strategy_version (pq_subject q) = au_strategy_version r"
    "sj_symbol (pq_subject q) = au_symbol r" "sj_market_type (pq_subject q) = au_market_type r"
    "ev_evidence_registry env = Some eg"
    "evidence_resolve bd eg q (au_validation_bundle_hash r) = Inr rs" "all_approved rs"
    "ev_promotion_registry env = Some pg" "promotion_resolve pg q = VS_LIVE_ELIGIBLE"
    using src(4) unfolding evidence_stands_def by blast
  have "rs_blockers rs = []" by (rule evidence_resolve_clear [OF st(8,9)])
  with st have "evidence_bound_gate_input bd env g r t = Inr (evidence_overridden g True, [])"
    by (simp add: evidence_bound_gate_input_def validation_evidence_def promotion_evidence_def Let_def
        evidence_overridden_def all_approved_def)
  moreover have "authorization_check h d env (Some a) t = Inr ([], Some r)"
    using src c by (simp add: authorization_check_def)
  ultimately show ?thesis by (simp add: gate_check_def)
qed

lemma ledger_claim_fresh:
  assumes "au_authorization_id a \<notin> cn_authorization_id ` set l"
    and "au_single_use_nonce a \<notin> cn_single_use_nonce ` set l"
    and "auth_text ''execution_id'' eid = Inr eid'" "is_aware t"
  shows "\<exists>row. ledger_claim d l False a eid t = (consumption_post_init row, l @ [row]) \<and>
    row = \<lparr>cn_authorization_id = au_authorization_id a, cn_single_use_nonce = au_single_use_nonce a,
           cn_envelope_sha256 = envelope_sha256 d a, cn_preview_hash = au_preview_hash a,
           cn_execution_id = eid', cn_claimed_at = t\<rparr>"
proof -
  let ?row = "\<lparr>cn_authorization_id = au_authorization_id a, cn_single_use_nonce = au_single_use_nonce a,
     cn_envelope_sha256 = envelope_sha256 d a, cn_preview_hash = au_preview_hash a,
     cn_execution_id = eid', cn_claimed_at = t\<rparr>"
  have "find (\<lambda>r. cn_authorization_id r = au_authorization_id a) (l @ [?row]) = Some ?row"
    using assms(1) by (induction l) auto
  with assms show ?thesis
    by (simp add: ledger_claim_def auth_aware_def ledger_insert_def Let_def)
qed

lemma spot_place_cleared:
  assumes clear: "placement_cleared h d bd env g a c t"
    and env: "ev_source env = Some source" "ev_verify_placed env = Some verify"
      "ev_has_ledger env" "\<not> ev_ledger_fault env"
    and again: "source 1 (au_authorization_id a) = Inr (Some r)" "envelope_sha256 d r = envelope_sha256 d a"
    and claim: "ledger_claim d l False a (oc_client_order_id c) t = (Inr row, l')"
  shows "spot_place h d bd env l g (Some a) t =
    (Inr (fst (exchange_attempt h d env a c verify)), l', snd (exchange_attempt h d env a c verify))"
proof -
  have "claim_and_place h d env l a c t =
      (Inr (fst (exchange_attempt h d env a c verify)), l', snd (exchange_attempt h d env a c verify))"
    using env again claim by (simp add: claim_and_place_def after_claim_def Let_def case_prod_unfold)
  moreover have "gate_open (evidence_overridden g True)" "to_spot_order_command a = Inr c"
    using clear by (simp_all add: placement_cleared_def)
  ultimately show ?thesis
    using gate_check_pass [OF clear]
    by (simp add: spot_place_def Let_def gate_blockers_Nil gate_status_allowed)
qed

section \<open>An environment that lets one order through\<close>

definition example_gate :: live_gate_input where
  "example_gate = \<lparr>gi_live_mode = True, gi_auto_mode = True, gi_allow_auto_live_orders = True,
     gi_confirm_live = True, gi_explicit_user_request = True, gi_api_valid = True,
     gi_account_status_valid = True, gi_server_time_valid = True, gi_exchange_info_valid = True,
     gi_price_filter_valid = True, gi_lot_size_valid = True, gi_notional_filter_valid = True,
     gi_tick_size_valid = True, gi_step_size_valid = True, gi_latest_spot_price_confirmed = True,
     gi_spread_acceptable = True, gi_slippage_acceptable = True, gi_balances_known = True,
     gi_inventory_known = True, gi_no_conflicting_open_orders = True, gi_latest_signal_exists = True,
     gi_signal_not_expired = True, gi_entry_not_missed = True, gi_backtest_approved = True,
     gi_walk_forward_approved = True, gi_tuning_report_approved = True, gi_oos_approved = True,
     gi_risk_approved = True, gi_strategy_promotion_approved = True,
     gi_daily_loss_limit_clear = True, gi_cooldown_clear = True, gi_circuit_breaker_clear = True,
     gi_decision_logged = True, gi_order_preview_created = True,
     gi_user_authorization_recorded = True\<rparr>"

definition example_command :: spot_order_command where
  "example_command = \<lparr>oc_symbol = ''BTCUSDT'', oc_side = ''BUY'', oc_order_type = ''LIMIT'',
     oc_quantity = \<lparr>dv = 1 / 2, dtext = ''0.5''\<rparr>, oc_client_order_id = ''c1'',
     oc_price = Some \<lparr>dv = 100, dtext = ''100''\<rparr>, oc_time_in_force = Some ''GTC''\<rparr>"

definition example_history :: "string \<Rightarrow> string \<Rightarrow> order_history result" where
  "example_history status symbol =
     Inr (History [None, Some [(''clientOrderId'', ''c1''), (''orderId'', ''77''), (''status'', status)]])"

definition example_env :: executor_env where
  "example_env = \<lparr>ev_order_test = \<lambda>_. Inr (), ev_order_place = \<lambda>_. Inr (Response (Some ''77'')),
     ev_order_cancel = \<lambda>_. Inr (Response (Some ''77'')),
     ev_verify_placed = Some (verify_placed (example_history ''NEW'')),
     ev_verify_cancelled = Some (verify_cancelled (example_history ''CANCELED'')),
     ev_source = Some (\<lambda>_. resolve_execution_authorization [Inr example_approved]),
     ev_has_ledger = True, ev_ledger_fault = False,
     ev_evidence_registry = Some example_evidence_registry,
     ev_promotion_registry = Some example_promotion,
     ev_promotion_query = Some \<lparr>pq_subject = example_subject, pq_as_of = Aware 0\<rparr>\<rparr>"

lemma example_env_fields:
  "ev_source example_env = Some (\<lambda>_. resolve_execution_authorization [Inr example_approved])"
  "ev_verify_placed example_env = Some (verify_placed (example_history ''NEW''))"
  "ev_has_ledger example_env" "\<not> ev_ledger_fault example_env"
  "ev_order_test example_env p = Inr ()" "ev_order_place example_env p = Inr (Response (Some ''77''))"
  by (simp_all add: example_env_def)

abbreviation hash_a :: "'a \<Rightarrow> string" where
  "hash_a \<equiv> \<lambda>_. replicate 64 (CHR ''a'')"

lemma example_source:
  "resolve_execution_authorization [Inr example_approved] ''auth1'' = Inr (Some example_authorization)"
  by (simp add: resolve_execution_authorization_def queue_records_def example_approved_def
      example_proposal_def example_authorization_def record_authorization_id_def latest_unique_def
      bound_approval_ids_def newest_approved_def
      latest_records_def approved_authorization_def py_strip_def py_space_def py_upper_def upper_char_def)

lemma example_command_of: "to_spot_order_command example_authorization = Inr example_command"
  by (simp add: to_spot_order_command_def spot_order_post_init_def example_authorization_def
      example_command_def limit_terms_def symbol_text_def py_strip_def py_space_def py_upper_def
      upper_char_def py_isascii_def py_isalnum_def is_alnum_char_def Let_def)

lemma example_blockers: "blockers_for hash_a example_authorization example_command (Aware 20) = Inr []"
  by (simp add: blockers_for_def auth_aware_def failed_codes_Nil_iff preview_hash_def
      example_authorization_def example_command_def)

lemma example_evidence_stands: "evidence_stands hash_a example_env example_authorization (Aware 20)"
proof -
  obtain rs where "evidence_resolve hash_a example_evidence_registry
      \<lparr>pq_subject = example_subject, pq_as_of = Aware 20\<rparr> (replicate 64 (CHR ''a'')) = Inr rs" "all_approved rs"
    using evidence_resolve_approved [OF example_records_ok example_evidence_usable,
        of "replicate 64 (CHR ''a'')" hash_a] hex_text_replicate [OF hex_digits(6)] by blast
  moreover have "promotion_query_post_init \<lparr>pq_subject = example_subject, pq_as_of = Aware 20\<rparr> =
      Inr \<lparr>pq_subject = example_subject, pq_as_of = Aware 20\<rparr>"
    by (simp add: promotion_query_post_init_def example_subject_def normalize_exact_identity_def Let_def
        blank_def py_strip_def py_space_def py_upper_def upper_char_def symbol_text_def py_isascii_def
        py_isalnum_def is_alnum_char_def)
  ultimately show ?thesis
    unfolding evidence_stands_def using example_promotion_eligible
    by (simp add: example_env_def example_authorization_def) (simp add: example_subject_def)
qed

lemma example_cleared:
  "placement_cleared hash_a hash_a hash_a example_env example_gate example_authorization example_command (Aware 20)"
  unfolding placement_cleared_def
  using example_command_of example_blockers example_evidence_stands example_source
  by (auto simp: gate_open_def live_gate_requirements_def evidence_overridden_def example_gate_def
      example_env_def example_authorization_def)

lemma example_claim:
  "\<exists>row. ledger_claim hash_a [] False example_authorization (oc_client_order_id example_command) (Aware 20) =
     (Inr row, [row])"
proof -
  have "bounded_text 256 m ''c1'' = Inr ''c1''" "bounded_text 256 m ''auth1'' = Inr ''auth1''"
    "bounded_text 256 m ''n1'' = Inr ''n1''" for m
    by (simp_all add: bounded_text_Inr py_strip_def py_space_def py_isascii_def forbidden_char_def)
  then show ?thesis
    using ledger_claim_fresh [of example_authorization "[]" "''c1''" "''c1''" "Aware 20" hash_a]
    by (simp add: auth_text_def auth_sha256_def auth_aware_def consumption_post_init_def
        example_command_def example_authorization_def envelope_sha256_def)
qed

lemma example_attempt:
  "snd (exchange_attempt hash_a hash_a example_env example_authorization example_command
      (verify_placed (example_history ''NEW''))) =
    [Call_order_test (order_payload example_command), Call_order_place (order_payload example_command)]"
  by (simp add: exchange_attempt_def example_env_def Let_def split: sum.split)

abbreviation example_attempted :: "live_command_result \<times> exchange_call list" where
  "example_attempted \<equiv> exchange_attempt hash_a hash_a example_env example_authorization example_command
     (verify_placed (example_history ''NEW''))"

lemma example_place_result:
  "\<exists>row. spot_place hash_a hash_a hash_a example_env [] example_gate (Some example_authorization) (Aware 20) =
     (Inr (fst example_attempted), [row], snd example_attempted)"
proof -
  obtain row where claim: "ledger_claim hash_a [] False example_authorization
      (oc_client_order_id example_command) (Aware 20) = (Inr row, [row])"
    using example_claim by blast
  from spot_place_cleared [OF example_cleared _ _ _ _ _ _ claim] show ?thesis
    using example_source by (simp add: example_env_def example_authorization_def)
qed

lemma example_place:
  "\<exists>r row. spot_place hash_a hash_a hash_a example_env [] example_gate (Some example_authorization) (Aware 20) =
     (Inr r, [row], [Call_order_test (order_payload example_command), Call_order_place (order_payload example_command)])"
  using example_place_result unfolding example_attempt by blast

lemma spot_place_requires:
  assumes "spot_place h d bd env l g auth t = (res, l', calls)" "Call_order_place p \<in> set calls"
  shows "\<exists>a c source r. auth = Some a \<and> to_spot_order_command a = Inr c \<and> p = order_payload c \<and>
    au_preview_hash a = preview_hash h c \<and> is_aware t \<and>
    instant (au_created_at a) \<le> instant t \<and> instant t < instant (au_expires_at a) \<and>
    ev_source env = Some source \<and> source 0 (au_authorization_id a) = Inr (Some r) \<and>
    envelope_sha256 d r = envelope_sha256 d a \<and> still_approved d source 1 a \<and> claimed_row l l' a \<and>
    evidence_stands bd env r t \<and> gate_open (evidence_overridden g True)"
  using assms(1)
proof (cases rule: spot_place_cases)
  case quiet
  with assms(2) show ?thesis by simp
next
  case (claim a c g')
  obtain source r where chk: "ev_source env = Some source" "source 0 (au_authorization_id a) = Inr (Some r)"
    "envelope_sha256 d r = envelope_sha256 d a" "blockers_for h a c t = Inr []"
    "evidence_stands bd env r t" "gate_open (evidence_overridden g True)"
    by (rule gate_check_open [OF claim(3,4)]) (use claim(1,2) in auto)
  have "claimed_row l l' a" "still_approved d source 1 a"
    "\<exists>verify. calls = snd (exchange_attempt h d env a c verify)"
    using claim_and_place_calls [OF claim(5)] assms(2) chk(1) by auto
  moreover from this(3) assms(2) have "p = order_payload c" by (auto dest: exchange_attempt_place)
  ultimately show ?thesis using claim(1,2) chk blockers_for_Nil [OF chk(4)] by blast
qed

section \<open>Properties\<close>

text \<open>
  C1: no order reaches the exchange unless every safeguard held. If a placement called
  \<^verbatim>\<open>order.place\<close>, then there was an authorization whose own command was placed unchanged, its preview
  hash is that of the placed payload, the observation time is aware and inside its validity window,
  the approval source returned the same envelope both before and after the claim, the ledger gained
  exactly one row for it and had neither its id nor its nonce before, the validation and promotion
  registries supported it for its exact subject, and every requirement of the live gate held.
\<close>

theorem placement_requires:
  assumes "spot_place h d bd env l g auth t = (res, l', calls)" "Call_order_place p \<in> set calls"
  shows "\<exists>a c source r. auth = Some a \<and> to_spot_order_command a = Inr c \<and> p = order_payload c \<and>
    au_preview_hash a = preview_hash h c \<and> is_aware t \<and>
    instant (au_created_at a) \<le> instant t \<and> instant t < instant (au_expires_at a) \<and>
    ev_source env = Some source \<and> source 0 (au_authorization_id a) = Inr (Some r) \<and>
    envelope_sha256 d r = envelope_sha256 d a \<and> still_approved d source 1 a \<and> claimed_row l l' a \<and>
    evidence_stands bd env r t \<and> gate_open (evidence_overridden g True)"
  by (rule spot_place_requires [OF assms])

theorem placement_requires_witness:
  "\<exists>l'. claimed_row [] l' example_authorization \<and> gate_open (evidence_overridden example_gate True) \<and>
     au_preview_hash example_authorization = preview_hash hash_a example_command"
proof -
  obtain r row where "spot_place hash_a hash_a hash_a example_env [] example_gate (Some example_authorization)
      (Aware 20) = (Inr r, [row], [Call_order_test (order_payload example_command),
        Call_order_place (order_payload example_command)])"
    using example_place by blast
  from placement_requires [OF this] show ?thesis using example_command_of by auto
qed

text \<open>
  C2: an authorization places at most one order. Over any sequence of placement requests, with any
  collaborators, gate inputs and times, sharing one ledger, at most one request carrying a given
  authorization id calls \<^verbatim>\<open>order.place\<close>, whatever the exchange answers.
\<close>

theorem authorization_single_use:
  "grants_of request_authorization_id (Some i) rs (attempts (place_attempt h d bd) l rs) \<le> 1"
  by (rule executor_ids.grants_once)

text \<open>
  The same for the single-use nonce: two different authorizations that share a nonce cannot
  both place an order.
\<close>

theorem nonce_single_use:
  "grants_of request_nonce (Some n) rs (attempts (place_attempt h d bd) l rs) \<le> 1"
  by (rule executor_nonces.grants_once)

text \<open>
  C37: when every safeguard holds and the exchange cooperates, the order is placed and reported:
  a cleared placement with a fresh id and nonce, whose approval still stands after the claim,
  consumes the authorization, tests and places exactly the approved payload, and returns SUBMITTED
  with the exchange's order id and the verified status.
\<close>

theorem placement_completes:
  assumes "placement_cleared h d bd env g a c t"
    and "ev_source env = Some source" "ev_verify_placed env = Some verify"
      "ev_has_ledger env" "\<not> ev_ledger_fault env"
    and "still_approved d source 1 a"
    and "ledger_claim d l False a (oc_client_order_id c) t = (Inr row, l')"
    and "ev_order_test env (order_payload c) = Inr ()"
    and "ev_order_place env (order_payload c) = Inr (Response (Some i))" "\<not> blank i"
    and "verify c i = Inr v" "vf_verified v"
  shows "\<exists>r. spot_place h d bd env l g (Some a) t =
      (Inr r, l', [Call_order_test (order_payload c), Call_order_place (order_payload c)]) \<and>
    lr_status r = LC_SUBMITTED \<and> lr_blockers r = [] \<and> lr_exchange_order_id r = Some i \<and>
    lr_exchange_order_status r = vf_observed_status v \<and> lr_preview_hash r = Some (preview_hash h c) \<and>
    lr_authorization_id r = Some (au_authorization_id a) \<and> claimed_row l l' a"
proof -
  obtain r where "source 1 (au_authorization_id a) = Inr (Some r)" "envelope_sha256 d r = envelope_sha256 d a"
    using assms(6) by (auto simp: still_approved_def)
  note place = spot_place_cleared [OF assms(1-5) this assms(7)]
  have "exchange_attempt h d env a c verify = (command_result h d a c LC_SUBMITTED [] (Some (i, v)),
      [Call_order_test (order_payload c), Call_order_place (order_payload c)])"
    using assms(8-12) by (simp add: exchange_attempt_def Let_def exchange_order_id_def)
  with place ledger_claim_row [OF assms(7)] show ?thesis by (simp add: command_result_def)
qed

theorem placement_completes_witness:
  "\<exists>r l'. spot_place hash_a hash_a hash_a example_env [] example_gate (Some example_authorization) (Aware 20) =
      (Inr r, l', [Call_order_test (order_payload example_command), Call_order_place (order_payload example_command)]) \<and>
    lr_status r = LC_SUBMITTED \<and> lr_exchange_order_id r = Some ''77'' \<and> lr_exchange_order_status r = Some ''NEW''"
proof -
  obtain row where claim: "ledger_claim hash_a [] False example_authorization
      (oc_client_order_id example_command) (Aware 20) = (Inr row, [row])"
    using example_claim by blast
  have "verify_placed (example_history ''NEW'') example_command ''77'' =
      Inr \<lparr>vf_verified = True, vf_blockers = [], vf_observed_status = Some ''NEW'',
        vf_order_snapshot = Some [(''clientOrderId'', ''c1''), (''orderId'', ''77''), (''status'', ''NEW'')]\<rparr>"
    by (simp add: verify_placed_def verify_with_def matching_order_def example_history_def example_command_def
        snapshot_text_def verification_post_init_def py_strip_def py_space_def py_upper_def upper_char_def Let_def)
  moreover have "still_approved hash_a (\<lambda>_. resolve_execution_authorization [Inr example_approved]) 1
      example_authorization"
    using example_source by (simp add: still_approved_def example_authorization_def)
  moreover have "\<not> blank ''77''" by (simp add: blank_def py_strip_def py_space_def)
  ultimately show ?thesis
    using placement_completes [OF example_cleared example_env_fields(1-4) _ claim example_env_fields(5,6)] by fastforce
qed

lemma first_matching_Some:
  assumes "first_matching items cid oid = Some x"
  shows "\<exists>pre post. items = pre @ Some x # post \<and> py_strip (snapshot_text x ''clientOrderId'') = cid \<and>
    py_strip (snapshot_text x ''orderId'') = oid \<and> first_matching pre cid oid = None"
  using assms
proof (induction items cid oid rule: first_matching.induct)
  case (2 items cid oid)
  then obtain pre post where "items = pre @ Some x # post" "py_strip (snapshot_text x ''clientOrderId'') = cid"
    "py_strip (snapshot_text x ''orderId'') = oid" "first_matching pre cid oid = None" by auto
  then show ?case by - (rule exI [of _ "None # pre"], rule exI [of _ post], auto)
next
  case (3 item items cid oid)
  show ?case
  proof (cases "py_strip (snapshot_text item ''clientOrderId'') = cid \<and> py_strip (snapshot_text item ''orderId'') = oid")
    case True
    with 3(2) show ?thesis by - (rule exI [of _ "[]"], rule exI [of _ items], auto)
  next
    case False
    with 3 obtain pre post where "items = pre @ Some x # post" "py_strip (snapshot_text x ''clientOrderId'') = cid"
      "py_strip (snapshot_text x ''orderId'') = oid" "first_matching pre cid oid = None" by auto
    with False show ?thesis by - (rule exI [of _ "Some item # pre"], rule exI [of _ post], auto)
  qed
qed simp

text \<open>
  A verified destination is the order that was placed. When the history verifier reports an
  order as verified, the history was read and holds a snapshot with that client order id and
  exchange order id, the first such snapshot, whose upper-cased status is one of the six known ones
  and is what is reported.
\<close>

theorem verified_order_matches:
  assumes "verify_placed reader c i = Inr v" "vf_verified v"
  shows "\<exists>pre x post. reader (oc_symbol c) = Inr (History (pre @ Some x # post)) \<and>
    first_matching pre (oc_client_order_id c) i = None \<and>
    py_strip (snapshot_text x ''clientOrderId'') = oc_client_order_id c \<and>
    py_strip (snapshot_text x ''orderId'') = i \<and> vf_order_snapshot v = Some x \<and>
    vf_observed_status v = Some (py_upper (snapshot_text x ''status'')) \<and>
    py_upper (snapshot_text x ''status'') \<in> {''NEW'', ''PARTIALLY_FILLED'', ''FILLED'', ''CANCELED'', ''EXPIRED'', ''REJECTED''}"
proof -
  obtain m where m: "matching_order (reader (oc_symbol c)) (oc_client_order_id c) i = Inr m"
    and rest: "(case m of None \<Rightarrow> verification_failed [''ORDER_DESTINATION_READ_BACK_MISSING'']
     | Some item \<Rightarrow>
         (let status = py_upper (snapshot_text item ''status'')
          in if status \<notin> set [''NEW'', ''PARTIALLY_FILLED'', ''FILLED'', ''CANCELED'', ''EXPIRED'', ''REJECTED'']
             then verification_failed [''ORDER_DESTINATION_STATUS_UNVERIFIED'']
             else verification_post_init
                    \<lparr>vf_verified = True, vf_blockers = [], vf_observed_status = Some status,
                     vf_order_snapshot = Some item\<rparr>)) = Inr v"
    using assms(1) unfolding verify_placed_def verify_with_def bindE_eq_Inr by blast
  have fails: "verification_failed bl \<noteq> Inr v" for bl
    using assms(2) by (auto simp: verification_failed_def verification_post_init_def)
  then obtain x where x: "m = Some x" using rest by (cases m) auto
  have st: "py_upper (snapshot_text x ''status'') \<in>
      set [''NEW'', ''PARTIALLY_FILLED'', ''FILLED'', ''CANCELED'', ''EXPIRED'', ''REJECTED'']"
  proof (rule ccontr)
    assume "\<not> ?thesis"
    with rest x fails show False unfolding Let_def by (simp only: option.case if_True simp_thms)
  qed
  then have v: "v = \<lparr>vf_verified = True, vf_blockers = [],
      vf_observed_status = Some (py_upper (snapshot_text x ''status'')), vf_order_snapshot = Some x\<rparr>"
    using rest unfolding x Let_def option.case
    by (simp only: st not_True_eq_False if_False verification_post_init_def) simp
  obtain items where items: "reader (oc_symbol c) = Inr (History items)"
    "first_matching items (oc_client_order_id c) i = Some x"
  proof -
    obtain hs where hs: "reader (oc_symbol c) = Inr hs" using m by (auto simp: matching_order_def)
    with m x that show ?thesis by (cases hs) (auto simp: matching_order_def)
  qed
  obtain pre post where "items = pre @ Some x # post"
    "py_strip (snapshot_text x ''clientOrderId'') = oc_client_order_id c"
    "py_strip (snapshot_text x ''orderId'') = i" "first_matching pre (oc_client_order_id c) i = None"
    using first_matching_Some [OF items(2)] by blast
  with items(1) st v show ?thesis
    by - (rule exI [of _ pre], rule exI [of _ x], rule exI [of _ post], simp)
qed

theorem verified_order_matches_witness:
  "\<exists>pre x post. example_history ''new'' ''BTCUSDT'' = Inr (History (pre @ Some x # post)) \<and>
     py_upper (snapshot_text x ''status'') = ''NEW''"
proof -
  have v: "verify_placed (example_history ''new'') example_command ''77'' =
      Inr \<lparr>vf_verified = True, vf_blockers = [], vf_observed_status = Some ''NEW'',
        vf_order_snapshot = Some [(''clientOrderId'', ''c1''), (''orderId'', ''77''), (''status'', ''new'')]\<rparr>"
    by (simp add: verify_placed_def verify_with_def matching_order_def example_history_def example_command_def
        snapshot_text_def verification_post_init_def py_strip_def py_space_def py_upper_def upper_char_def char_of_def Let_def)
  have "oc_symbol example_command = ''BTCUSDT''" by (simp add: example_command_def)
  with verified_order_matches [OF v] show ?thesis by fastforce
qed

text \<open>
  A cancellation is gated the same way. A cancel request reaches the exchange only when the
  whole live gate holds, the symbol and client order id are valid and a verifier exists, and then
  it is the one call with the normalised symbol and id; a gate that is shut or an invalid request
  makes no call and is BLOCKED.
\<close>

theorem cancel_gated:
  assumes "spot_cancel env symbol cid g = (res, calls)"
  shows "calls = (if gate_open g \<and> symbol_text (py_upper (py_strip symbol)) \<and> py_strip cid \<noteq> [] \<and>
      py_isascii (py_strip cid) \<and> ev_verify_cancelled env \<noteq> None
    then [Call_order_cancel [(''symbol'', py_upper (py_strip symbol)), (''origClientOrderId'', py_strip cid)]]
    else []) \<and>
    (if calls = [] then \<exists>r. res = Inr r \<and> lr_status r = LC_BLOCKED \<and> lr_blockers r \<noteq> [] else True)"
proof (cases "gate_open g \<and> symbol_text (py_upper (py_strip symbol)) \<and> py_strip cid \<noteq> [] \<and>
      py_isascii (py_strip cid)")
  case True
  then show ?thesis
    using assms gate_status_allowed [of g] gate_blockers_Nil [of g]
    by (auto simp: spot_cancel_def Let_def bare_result_def split: option.splits)
next
  case False
  then have "gr_status (evaluate_live_gate g) \<noteq> EXECUTION_ALLOWED \<or> gr_blockers (evaluate_live_gate g)
      @ flag_if (\<not> symbol_text (py_upper (py_strip symbol))) ''ORDER_SYMBOL_INVALID''
      @ flag_if (py_strip cid = [] \<or> \<not> py_isascii (py_strip cid)) ''CLIENT_ORDER_ID_INVALID'' \<noteq> []"
    and "gr_blockers (evaluate_live_gate g)
      @ flag_if (\<not> symbol_text (py_upper (py_strip symbol))) ''ORDER_SYMBOL_INVALID''
      @ flag_if (py_strip cid = [] \<or> \<not> py_isascii (py_strip cid)) ''CLIENT_ORDER_ID_INVALID'' \<noteq> []"
    using gate_status_allowed [of g] gate_blockers_Nil [of g] by auto
  with False assms show ?thesis by (auto simp: spot_cancel_def Let_def bare_result_def)
qed

theorem cancel_gated_witness:
  "snd (spot_cancel example_env '' btcusdt'' ''c1'' example_gate) =
     [Call_order_cancel [(''symbol'', ''BTCUSDT''), (''origClientOrderId'', ''c1'')]]"
proof -
  have "gate_open example_gate" by (simp add: gate_open_def live_gate_requirements_def example_gate_def)
  moreover have "py_upper (py_strip '' btcusdt'') = ''BTCUSDT''" "py_strip ''c1'' = ''c1''"
    "symbol_text ''BTCUSDT''" "py_isascii ''c1''"
    by (simp_all add: py_upper_def upper_char_def py_strip_def py_space_def symbol_text_def py_isascii_def
        py_isalnum_def is_alnum_char_def char_of_def)
  ultimately show ?thesis
    using cancel_gated [of example_env "'' btcusdt''" "''c1''" example_gate] by (simp add: example_env_def prod_eq_iff)
qed

end
