(* ===== verification/Int_Text.thy ===== *)
theory Int_Text
  imports Decimal_Text
begin

text \<open>
  \<^verbatim>\<open>str(n)\<close> and \<^verbatim>\<open>int(text)\<close> for integers: the decimal digits with a minus sign, and the syntax that accepts
  surrounding whitespace, a sign, leading zeros and single underscores between digits. Printing and
  reading back is the identity.
\<close>

fun nat_text :: "nat \<Rightarrow> string" where
  "nat_text n = (if n < 10 then [char_of (48 + n)] else nat_text (n div 10) @ [char_of (48 + n mod 10)])"

declare nat_text.simps [simp del]

definition int_text :: "int \<Rightarrow> string" where
  "int_text n = (if n < 0 then CHR ''-'' # nat_text (nat (- n)) else nat_text (nat n))"

fun digit_groups :: "string \<Rightarrow> bool" where
  "digit_groups [] \<longleftrightarrow> False"
| "digit_groups [c] \<longleftrightarrow> is_digit c"
| "digit_groups (c # d # cs) \<longleftrightarrow> is_digit c \<and> (if d = CHR ''_'' then digit_groups cs else digit_groups (d # cs))"

definition py_int :: "string \<Rightarrow> int option" where
  "py_int text =
     (let s = py_strip text;
          neg = (s \<noteq> [] \<and> hd s = CHR ''-'');
          body = (if s \<noteq> [] \<and> hd s \<in> {CHR ''-'', CHR ''+''} then tl s else s)
      in if digit_groups body
         then (let n = int_of_digits (filter is_digit body) in Some (if neg then - n else n))
         else None)"

lemma of_char_digit: "k < 10 \<Longrightarrow> (of_char (char_of (48 + k :: nat) :: char) :: int) = 48 + int k"
proof -
  assume "k < 10"
  then have "of_char (char_of (48 + k) :: char) = 48 + k" by (simp add: of_char_of)
  then show ?thesis using of_nat_of_char [where 'a = int, of "char_of (48 + k)"] by simp
qed

lemma digit_char: "k < 10 \<Longrightarrow> is_digit (char_of (48 + k :: nat))"
  by (simp add: is_digit_def Let_def of_char_digit)

lemma nat_text_digits: "list_all is_digit (nat_text n)" "nat_text n \<noteq> []"
proof (induction n rule: nat_text.induct)
  case (1 n)
  { case 1 then show ?case using "1.IH" by (cases "n < 10") (simp_all add: nat_text.simps [of n] digit_char) }
  { case 2 then show ?case by (simp add: nat_text.simps [of n]) }
qed

lemma int_of_digits_snoc: "int_of_digits (ds @ [c]) = 10 * int_of_digits ds + (of_char c - 48)"
  by (simp add: int_of_digits_def)

lemma int_of_nat_text: "int_of_digits (nat_text n) = int n"
proof (induction n rule: nat_text.induct)
  case (1 n)
  show ?case
  proof (cases "n < 10")
    case True
    then show ?thesis by (simp add: nat_text.simps [of n] int_of_digits_def of_char_digit)
  next
    case False
    then show ?thesis using 1
      by (simp add: nat_text.simps [of n] int_of_digits_snoc of_char_digit) (metis mult_div_mod_eq of_nat_add of_nat_mult of_nat_numeral)
  qed
qed

lemma digit_groups_digits: "ds \<noteq> [] \<Longrightarrow> list_all is_digit ds \<Longrightarrow> digit_groups ds"
proof (induction ds rule: digit_groups.induct)
  case (3 c d cs)
  have "d \<noteq> CHR ''_''" using 3(4) by (auto simp: is_digit_def Let_def)
  then show ?case using 3 by simp
qed simp_all

lemma digit_plain: "is_digit c \<Longrightarrow> \<not> py_space c \<and> c \<noteq> CHR ''-'' \<and> c \<noteq> CHR ''+''"
  by (auto simp: is_digit_def py_space_def Let_def)

lemma strip_plain: "list_all (\<lambda>c. \<not> py_space c) s \<Longrightarrow> py_strip s = s"
proof -
  have "dropWhile py_space t = t" if "list_all (\<lambda>c. \<not> py_space c) t" for t
    using that by (induction t) auto
  then show "list_all (\<lambda>c. \<not> py_space c) s \<Longrightarrow> py_strip s = s" by (simp add: py_strip_def)
qed

lemma py_int_text: "py_int (int_text n) = Some n"
proof -
  have digits: "list_all is_digit (nat_text k)" "nat_text k \<noteq> []" "is_digit (hd (nat_text k))" for k
    using nat_text_digits [of k] by (auto simp: list_all_iff)
  have strip: "py_strip (int_text n) = int_text n"
    using digits digit_plain by (intro strip_plain) (auto simp: int_text_def list_all_iff py_space_def)
  have same: "filter is_digit (nat_text k) = nat_text k" for k using digits by (simp add: list_all_iff)
  show ?thesis
  proof (cases "n < 0")
    case True
    then show ?thesis
      unfolding py_int_def strip
      using digit_groups_digits [OF digits(2,1)] by (simp add: Let_def int_text_def same int_of_nat_text)
  next
    case False
    then show ?thesis
      unfolding py_int_def strip
      using digit_groups_digits [OF digits(2,1)] digit_plain [OF digits(3)]
      by (simp add: Let_def int_text_def same int_of_nat_text)
  qed
qed

end
