(* ===== verification/Live_Lifecycle.thy ===== *)
theory Live_Lifecycle
  imports Spot_Executor Aggregate Int_Text
begin

text \<open>
  \<^verbatim>\<open>execution/live_order_lifecycle.py\<close>: the replayable life cycle of a live order, the event chain a
  placement is recorded as, and the journal it is appended to. \<open>live_apply\<close> and \<open>live_replay\<close> are
  \<^verbatim>\<open>LiveOrderLifecycleStateMachine.apply\<close> and \<^verbatim>\<open>replay\<close>; \<open>append_place_result\<close> is the journal's
  operation, on the disk journal of \<^verbatim>\<open>events/journal.py\<close>. \<open>live_moves\<close> is what the machine promises
  of the stage alone.
\<close>

section \<open>Stages, events and the record\<close>

datatype live_stage = LS_DRAFT | LS_PREVIEWED | LS_PROMOTION_REQUIRED | LS_HUMAN_APPROVAL_REQUIRED
  | LS_READY_FOR_SUBMISSION | LS_SUBMISSION_ATTEMPT_FAILED_REVIEW_REQUIRED | LS_SUBMITTED | LS_ACCEPTED
  | LS_PARTIALLY_FILLED | LS_FILLED | LS_CANCEL_REQUESTED | LS_CANCELLED | LS_REJECTED | LS_EXPIRED

datatype live_event = LE_PREVIEWED | LE_PROMOTION_REQUESTED | LE_HUMAN_APPROVAL_REQUESTED
  | LE_HUMAN_APPROVED | LE_SUBMISSION_ATTEMPT_FAILED | LE_SUBMITTED | LE_ACCEPTED | LE_PARTIALLY_FILLED
  | LE_FILLED | LE_CANCEL_REQUESTED | LE_CANCELLED | LE_REJECTED | LE_EXPIRED

fun live_event_value :: "live_event \<Rightarrow> string" where
  "live_event_value LE_PREVIEWED = ''LIVE_ORDER_PREVIEWED''"
| "live_event_value LE_PROMOTION_REQUESTED = ''LIVE_ORDER_PROMOTION_REQUESTED''"
| "live_event_value LE_HUMAN_APPROVAL_REQUESTED = ''LIVE_ORDER_HUMAN_APPROVAL_REQUESTED''"
| "live_event_value LE_HUMAN_APPROVED = ''LIVE_ORDER_HUMAN_APPROVED''"
| "live_event_value LE_SUBMISSION_ATTEMPT_FAILED = ''LIVE_ORDER_SUBMISSION_ATTEMPT_FAILED_REVIEW_REQUIRED''"
| "live_event_value LE_SUBMITTED = ''LIVE_ORDER_SUBMITTED''"
| "live_event_value LE_ACCEPTED = ''LIVE_ORDER_ACCEPTED''"
| "live_event_value LE_PARTIALLY_FILLED = ''LIVE_ORDER_PARTIALLY_FILLED''"
| "live_event_value LE_FILLED = ''LIVE_ORDER_FILLED''"
| "live_event_value LE_CANCEL_REQUESTED = ''LIVE_ORDER_CANCEL_REQUESTED''"
| "live_event_value LE_CANCELLED = ''LIVE_ORDER_CANCELLED''"
| "live_event_value LE_REJECTED = ''LIVE_ORDER_REJECTED''"
| "live_event_value LE_EXPIRED = ''LIVE_ORDER_EXPIRED''"

definition live_events :: "live_event list" where
  "live_events = [LE_PREVIEWED, LE_PROMOTION_REQUESTED, LE_HUMAN_APPROVAL_REQUESTED, LE_HUMAN_APPROVED,
     LE_SUBMISSION_ATTEMPT_FAILED, LE_SUBMITTED, LE_ACCEPTED, LE_PARTIALLY_FILLED, LE_FILLED,
     LE_CANCEL_REQUESTED, LE_CANCELLED, LE_REJECTED, LE_EXPIRED]"

definition live_event_type :: "string \<Rightarrow> live_event result" where
  "live_event_type value =
     (case find (\<lambda>k. live_event_value k = value) live_events of
        None \<Rightarrow> Inl (ValueError ''unsupported live order event type'')
      | Some k \<Rightarrow> Inr k)"

record live_record =
  ll_order_id :: string
  ll_symbol :: string
  ll_stage :: live_stage
  ll_preview_hash :: string
  ll_promotion_status :: validation_status
  ll_requested_quantity :: "dec option"
  ll_approval_id :: "string option"
  ll_authorization_id :: "string option"
  ll_authorization_envelope_sha256 :: "string option"
  ll_promoted_at :: "datetime option"
  ll_human_approval_requested_at :: "datetime option"
  ll_human_approved_at :: "datetime option"
  ll_submission_attempted_at :: "datetime option"
  ll_submitted_at :: "datetime option"
  ll_accepted_at :: "datetime option"
  ll_filled_quantity :: dec
  ll_average_fill_price :: dec
  ll_last_sequence :: int
  ll_execution_allowed :: bool
  ll_live_eligibility_status :: string

text \<open>The stage sets of \<^verbatim>\<open>_validate_stage_evidence\<close>, each extending the one below it.\<close>

definition quantity_stages :: "live_stage list" where
  "quantity_stages = [LS_PARTIALLY_FILLED, LS_FILLED, LS_CANCEL_REQUESTED, LS_CANCELLED]"

definition accepted_stages :: "live_stage list" where
  "accepted_stages = LS_ACCEPTED # quantity_stages"

definition submitted_stages :: "live_stage list" where
  "submitted_stages = LS_SUBMITTED # accepted_stages"

definition approved_stages :: "live_stage list" where
  "approved_stages = LS_READY_FOR_SUBMISSION # LS_SUBMISSION_ATTEMPT_FAILED_REVIEW_REQUIRED # submitted_stages"

definition requested_stages :: "live_stage list" where
  "requested_stages = LS_HUMAN_APPROVAL_REQUIRED # approved_stages"

definition promoted_stages :: "live_stage list" where
  "promoted_stages = LS_PREVIEWED # LS_PROMOTION_REQUIRED # requested_stages"

lemmas stage_sets = promoted_stages_def requested_stages_def approved_stages_def submitted_stages_def
  accepted_stages_def quantity_stages_def

definition fills_exceed :: "live_record \<Rightarrow> bool" where
  "fills_exceed r \<longleftrightarrow>
     (case ll_requested_quantity r of None \<Rightarrow> False | Some q \<Rightarrow>
        ll_stage r \<in> {LS_PARTIALLY_FILLED, LS_FILLED} \<and> ll_filled_quantity r > q)"

definition filled_mismatch :: "live_record \<Rightarrow> bool" where
  "filled_mismatch r \<longleftrightarrow>
     (case ll_requested_quantity r of None \<Rightarrow> False | Some q \<Rightarrow>
        ll_stage r = LS_FILLED \<and> ll_filled_quantity r \<noteq> q)"

definition live_stage_evidence :: "live_record \<Rightarrow> live_record result" where
  "live_stage_evidence r =
     (if ll_stage r = LS_DRAFT then Inr r
      else validate
        [(ll_stage r \<in> set promoted_stages \<and> ll_promoted_at r = None,
          ''promoted live orders require promotion evidence''),
         (ll_stage r \<in> set requested_stages \<and> ll_human_approval_requested_at r = None,
          ''human approval requested live orders require request evidence''),
         (ll_stage r \<in> set approved_stages \<and> ll_human_approved_at r = None,
          ''approved live orders require approval evidence''),
         (ll_stage r \<in> set approved_stages
            \<and> (ll_authorization_id r = None \<or> ll_authorization_envelope_sha256 r = None),
          ''approved live orders require exact authorization evidence''),
         (ll_stage r = LS_SUBMISSION_ATTEMPT_FAILED_REVIEW_REQUIRED \<and> ll_submission_attempted_at r = None,
          ''failed live order attempts require an attempt timestamp''),
         (ll_stage r \<in> set submitted_stages \<and> ll_submitted_at r = None,
          ''submitted live orders require a submission timestamp''),
         (ll_stage r \<in> set accepted_stages \<and> ll_accepted_at r = None,
          ''accepted or terminal live orders require acceptance evidence''),
         (ll_stage r \<in> set quantity_stages \<and> ll_requested_quantity r = None,
          ''filled live orders require requested quantity evidence''),
         (fills_exceed r, ''live order fills cannot exceed requested quantity''),
         (filled_mismatch r, ''filled live orders must match requested quantity'')] r)"

definition live_fill_geometry :: "live_record \<Rightarrow> live_record result" where
  "live_fill_geometry r =
     (if ll_filled_quantity r = 0 then Inr r
      else validate [(ll_stage r \<notin> set quantity_stages, ''fill evidence is only allowed after submission'')] r)"

definition live_record_post_init :: "live_record \<Rightarrow> live_record result" where
  "live_record_post_init r =
     bindE (validate
       [(blank (ll_order_id r) \<or> blank (ll_symbol r) \<or> blank (ll_preview_hash r),
         ''live order lifecycle identity is required''),
        (case ll_requested_quantity r of None \<Rightarrow> False | Some q \<Rightarrow> q \<le> 0,
         ''requested_quantity must be positive''),
        (ll_filled_quantity r < 0 \<or> ll_average_fill_price r < 0,
         ''live order fill evidence cannot be negative''),
        (ll_last_sequence r < 0, ''live order lifecycle sequence cannot be negative''),
        ((ll_authorization_id r = None) \<noteq> (ll_authorization_envelope_sha256 r = None),
         ''live order authorization evidence must be complete''),
        (ll_execution_allowed r \<or> ll_live_eligibility_status r \<noteq> live_blocked,
         ''live order lifecycle cannot grant execution authority''),
        (ll_promotion_status r \<notin> {VS_RESEARCH_ONLY, VS_STAGED_CANDIDATE, VS_PAPER_APPROVED, VS_LIVE_ELIGIBLE},
         ''live order promotion status is invalid'')]
       (r\<lparr>ll_symbol := py_upper (py_strip (ll_symbol r))\<rparr>)) (\<lambda>r'.
     bindE (live_stage_evidence r') live_fill_geometry)"

section \<open>The state machine\<close>

definition decimal_or_none :: "string option \<Rightarrow> string \<Rightarrow> dec option result" where
  "decimal_or_none value name =
     (case value of None \<Rightarrow> Inr None
      | Some _ \<Rightarrow> bindE (positive_decimal value name) (\<lambda>x. Inr (Some x)))"

definition live_preview :: "live_event \<Rightarrow> domain_event \<Rightarrow> live_record result" where
  "live_preview k e =
     (if k \<noteq> LE_PREVIEWED then Inl (ValueError ''first live order event must be LIVE_ORDER_PREVIEWED'')
      else bindE (required_text (payload_get e ''symbol'') ''symbol'') (\<lambda>symbol.
        bindE (required_text (payload_get e ''preview_hash'') ''preview_hash'') (\<lambda>hash.
        bindE (decimal_or_none (payload_get e ''requested_quantity'') ''requested_quantity'') (\<lambda>quantity.
          live_record_post_init
            \<lparr>ll_order_id = aggregate_id e, ll_symbol = symbol, ll_stage = LS_PREVIEWED,
             ll_preview_hash = hash, ll_promotion_status = VS_RESEARCH_ONLY,
             ll_requested_quantity = quantity, ll_approval_id = None, ll_authorization_id = None,
             ll_authorization_envelope_sha256 = None, ll_promoted_at = Some (occurred_at e),
             ll_human_approval_requested_at = None, ll_human_approved_at = None,
             ll_submission_attempted_at = None, ll_submitted_at = None, ll_accepted_at = None,
             ll_filled_quantity = 0, ll_average_fill_price = 0, ll_last_sequence = sequence e,
             ll_execution_allowed = False, ll_live_eligibility_status = live_blocked\<rparr>))))"

definition live_identity_and_sequence :: "live_record \<Rightarrow> domain_event \<Rightarrow> unit result" where
  "live_identity_and_sequence s e = validate
     [(aggregate_id e \<noteq> ll_order_id s, ''live order event aggregate identity mismatch''),
      (sequence e \<noteq> ll_last_sequence s + 1, ''live order event sequence is not contiguous'')] ()"

text \<open>An optional payload value that contradicts what the state already holds.\<close>

definition contradicts :: "'a option \<Rightarrow> 'a option \<Rightarrow> bool" where
  "contradicts given known \<longleftrightarrow>
     (case given of None \<Rightarrow> False | Some v \<Rightarrow> (case known of None \<Rightarrow> False | Some w \<Rightarrow> v \<noteq> w))"

definition live_symbol_and_hash :: "live_record \<Rightarrow> domain_event \<Rightarrow> unit result" where
  "live_symbol_and_hash s e = validate
     [(contradicts (map_option (\<lambda>v. py_upper (py_strip v)) (payload_get e ''symbol'')) (Some (ll_symbol s)),
       ''live order symbol mismatch''),
      (contradicts (payload_get e ''preview_hash'') (Some (ll_preview_hash s)),
       ''live order preview hash mismatch''),
      (contradicts (payload_get e ''authorization_id'') (ll_authorization_id s),
       ''live order authorization ID mismatch''),
      (contradicts (payload_get e ''authorization_envelope_sha256'') (ll_authorization_envelope_sha256 s),
       ''live order authorization envelope mismatch'')] ()"

definition live_require_stage :: "live_record \<Rightarrow> live_stage list \<Rightarrow> unit result" where
  "live_require_stage s allowed =
     require (ll_stage s \<in> set allowed) (ValueError ''illegal live order state transition'')"

text \<open>\<^verbatim>\<open>replace\<close> runs the constructor's validation again.\<close>

definition live_transition :: "domain_event \<Rightarrow> live_record \<Rightarrow> live_record result" where
  "live_transition e changed = live_record_post_init (changed\<lparr>ll_last_sequence := sequence e\<rparr>)"

definition fill_refusals :: "bool \<Rightarrow> dec option \<Rightarrow> dec \<Rightarrow> unit result" where
  "fill_refusals partial requested next_quantity =
     (case requested of
        None \<Rightarrow> Inr ()
      | Some q \<Rightarrow> validate
          [(next_quantity > q, ''live order fill exceeds requested quantity''),
           (\<not> partial \<and> next_quantity \<noteq> q, ''filled live orders must match requested quantity''),
           (partial \<and> next_quantity \<ge> q, ''partial fill cannot complete the requested quantity'')] ())"

definition live_apply_fill :: "live_record \<Rightarrow> domain_event \<Rightarrow> bool \<Rightarrow> live_record result" where
  "live_apply_fill s e partial =
     bindE (positive_decimal (payload_get e ''fill_quantity'') ''fill_quantity'') (\<lambda>fill_quantity.
     bindE (positive_decimal (payload_get e ''fill_price'') ''fill_price'') (\<lambda>fill_price.
       let next_quantity = d_add (ll_filled_quantity s) fill_quantity;
           weighted_value = d_mul (ll_average_fill_price s) (ll_filled_quantity s);
           average_price = d_quot (d_add weighted_value (d_mul fill_price fill_quantity)) next_quantity
       in bindE (fill_refusals partial (ll_requested_quantity s) next_quantity) (\<lambda>_.
            live_transition e
              (s\<lparr>ll_stage := (if partial then LS_PARTIALLY_FILLED else LS_FILLED),
                 ll_filled_quantity := next_quantity, ll_average_fill_price := average_price\<rparr>))))"

definition live_human_approved :: "live_record \<Rightarrow> domain_event \<Rightarrow> live_record result" where
  "live_human_approved s e =
     bindE (live_require_stage s [LS_HUMAN_APPROVAL_REQUIRED]) (\<lambda>_.
     bindE (required_text (payload_get e ''approval_id'') ''approval_id'') (\<lambda>approval_id.
     bindE (required_text (payload_get e ''authorization_id'') ''authorization_id'') (\<lambda>authorization_id.
     bindE (required_text (payload_get e ''authorization_envelope_sha256'')
              ''authorization_envelope_sha256'') (\<lambda>envelope.
       live_transition e
         (s\<lparr>ll_stage := LS_READY_FOR_SUBMISSION, ll_approval_id := Some approval_id,
            ll_authorization_id := Some authorization_id,
            ll_authorization_envelope_sha256 := Some envelope,
            ll_promotion_status := VS_PAPER_APPROVED, ll_human_approved_at := Some (occurred_at e)\<rparr>)))))"

definition live_guarded :: "live_record \<Rightarrow> domain_event \<Rightarrow> live_stage list \<Rightarrow> live_record \<Rightarrow> live_record result" where
  "live_guarded s e allowed changed =
     bindE (live_require_stage s allowed) (\<lambda>_. live_transition e changed)"

fun live_step :: "live_record \<Rightarrow> domain_event \<Rightarrow> live_event \<Rightarrow> live_record result" where
  "live_step s e LE_PREVIEWED = Inl (ValueError ''live order preview can only be recorded once'')"
| "live_step s e LE_PROMOTION_REQUESTED =
     live_transition e (s\<lparr>ll_stage := LS_PROMOTION_REQUIRED, ll_promotion_status := VS_STAGED_CANDIDATE,
       ll_promoted_at := Some (occurred_at e)\<rparr>)"
| "live_step s e LE_HUMAN_APPROVAL_REQUESTED =
     live_guarded s e [LS_PROMOTION_REQUIRED]
       (s\<lparr>ll_stage := LS_HUMAN_APPROVAL_REQUIRED, ll_promotion_status := VS_STAGED_CANDIDATE,
          ll_human_approval_requested_at := Some (occurred_at e)\<rparr>)"
| "live_step s e LE_HUMAN_APPROVED = live_human_approved s e"
| "live_step s e LE_SUBMITTED =
     live_guarded s e [LS_READY_FOR_SUBMISSION]
       (s\<lparr>ll_stage := LS_SUBMITTED, ll_promotion_status := VS_LIVE_ELIGIBLE,
          ll_submission_attempted_at := Some (occurred_at e), ll_submitted_at := Some (occurred_at e)\<rparr>)"
| "live_step s e LE_SUBMISSION_ATTEMPT_FAILED =
     bindE (live_require_stage s [LS_READY_FOR_SUBMISSION]) (\<lambda>_.
     bindE (required_text (payload_get e ''blockers'') ''blockers'') (\<lambda>_.
       live_transition e (s\<lparr>ll_stage := LS_SUBMISSION_ATTEMPT_FAILED_REVIEW_REQUIRED,
         ll_submission_attempted_at := Some (occurred_at e)\<rparr>)))"
| "live_step s e LE_ACCEPTED =
     live_guarded s e [LS_SUBMITTED] (s\<lparr>ll_stage := LS_ACCEPTED, ll_accepted_at := Some (occurred_at e)\<rparr>)"
| "live_step s e LE_PARTIALLY_FILLED =
     bindE (live_require_stage s [LS_ACCEPTED, LS_PARTIALLY_FILLED]) (\<lambda>_. live_apply_fill s e True)"
| "live_step s e LE_FILLED =
     bindE (live_require_stage s [LS_ACCEPTED, LS_PARTIALLY_FILLED]) (\<lambda>_. live_apply_fill s e False)"
| "live_step s e LE_CANCEL_REQUESTED =
     live_guarded s e [LS_SUBMITTED, LS_ACCEPTED, LS_PARTIALLY_FILLED] (s\<lparr>ll_stage := LS_CANCEL_REQUESTED\<rparr>)"
| "live_step s e LE_CANCELLED =
     live_guarded s e [LS_SUBMITTED, LS_ACCEPTED, LS_PARTIALLY_FILLED, LS_CANCEL_REQUESTED]
       (s\<lparr>ll_stage := LS_CANCELLED\<rparr>)"
| "live_step s e LE_REJECTED =
     live_guarded s e [LS_READY_FOR_SUBMISSION, LS_SUBMITTED, LS_ACCEPTED, LS_PARTIALLY_FILLED]
       (s\<lparr>ll_stage := LS_REJECTED\<rparr>)"
| "live_step s e LE_EXPIRED =
     live_guarded s e [LS_READY_FOR_SUBMISSION, LS_SUBMITTED, LS_ACCEPTED, LS_PARTIALLY_FILLED]
       (s\<lparr>ll_stage := LS_EXPIRED\<rparr>)"

definition live_apply :: "live_record option \<Rightarrow> domain_event \<Rightarrow> live_record result" where
  "live_apply st e =
     bindE (live_event_type (event_type e)) (\<lambda>k.
       case st of
         None \<Rightarrow> live_preview k e
       | Some s \<Rightarrow> bindE (live_identity_and_sequence s e) (\<lambda>_.
                     bindE (live_symbol_and_hash s e) (\<lambda>_. live_step s e k)))"

definition live_replay :: "domain_event list \<Rightarrow> live_record result" where
  "live_replay es = replay_machine live_apply ''live order replay requires events''
     ''live order replay did not produce state'' es"

section \<open>Recording a placement\<close>

text \<open>
  The decimals a snapshot yields: a text that was parsed, or the quotient of two. \<open>shw\<close> is the
  \<^verbatim>\<open>str()\<close> of such a decimal, a function of how it came about since equal values may print
  differently.
\<close>

datatype dec_source = Parsed string | Quotient string string

type_synonym dec_printer = "dec_source \<Rightarrow> string"

definition snapshot_status :: "string option \<Rightarrow> order_snapshot option \<Rightarrow> string option" where
  "snapshot_status status snapshot =
     (case (case status of None \<Rightarrow> Option.bind snapshot (\<lambda>o1. map_of o1 ''status'') | Some v \<Rightarrow> Some v) of
        None \<Rightarrow> None
      | Some v \<Rightarrow> (let normalized = py_upper (py_strip v) in if normalized = [] then None else Some normalized))"

definition first_present :: "order_snapshot \<Rightarrow> string list \<Rightarrow> (string \<times> string) option" where
  "first_present o1 keys =
     (case filter (\<lambda>k. map_of o1 k \<noteq> None) keys of [] \<Rightarrow> None | k # _ \<Rightarrow> Some (k, the (map_of o1 k)))"

definition snapshot_decimal :: "order_snapshot option \<Rightarrow> string list \<Rightarrow> string \<Rightarrow> string result" where
  "snapshot_decimal snapshot keys name =
     (case snapshot of
        None \<Rightarrow> Inl (ValueError (name @ '' evidence is required''))
      | Some o1 \<Rightarrow>
          (case first_present o1 keys of
             None \<Rightarrow> Inl (ValueError (name @ '' evidence is required''))
           | Some (_, v) \<Rightarrow> bindE (positive_decimal (Some v) name) (\<lambda>_. Inr v)))"

text \<open>
  The price keys are tried in order and the first one present decides: \<^verbatim>\<open>_positive_decimal\<close> raises on
  a value that is not positive, so the loop never continues past a present key.
\<close>

definition snapshot_fill_price :: "order_snapshot option \<Rightarrow> string \<Rightarrow> dec_source result" where
  "snapshot_fill_price snapshot fill_quantity =
     (case snapshot of
        None \<Rightarrow> Inl (ValueError ''fill price evidence is required'')
      | Some o1 \<Rightarrow>
          (case first_present o1 [''avgPrice'', ''avg_price'', ''averagePrice'', ''price''] of
             Some (_, v) \<Rightarrow> bindE (positive_decimal (Some v) ''fill_price'') (\<lambda>_. Inr (Parsed v))
           | None \<Rightarrow>
               (case first_present o1 [''cummulativeQuoteQty'', ''cumQuote'', ''cumulativeQuoteQty''] of
                  Some (k, v) \<Rightarrow> bindE (positive_decimal (Some v) k) (\<lambda>_. Inr (Quotient v fill_quantity))
                | None \<Rightarrow> Inl (ValueError ''fill price evidence is required''))))"

type_synonym event_payload = "(string \<times> string) list"

definition order_identity :: "preview_digest \<Rightarrow> spot_order_command \<Rightarrow> event_payload" where
  "order_identity h c = [(''symbol'', oc_symbol c), (''preview_hash'', preview_hash h c)]"

definition or_empty :: "string option \<Rightarrow> string" where
  "or_empty v = (case v of None \<Rightarrow> [] | Some t \<Rightarrow> t)"

definition join_pipe :: "string list \<Rightarrow> string" where
  "join_pipe xs = concat (case xs of [] \<Rightarrow> [] | x # ys \<Rightarrow> x # map (\<lambda>y. CHR ''|'' # y) ys)"

definition approval_payloads :: "preview_digest \<Rightarrow> spot_order_command \<Rightarrow> event_payload \<Rightarrow>
    (live_event \<times> event_payload) list" where
  "approval_payloads h c evidence =
     [(LE_PREVIEWED, order_identity h c @ [(''requested_quantity'', dtext (oc_quantity c)),
         (''client_order_id'', oc_client_order_id c), (''side'', oc_side c), (''order_type'', oc_order_type c)]),
      (LE_PROMOTION_REQUESTED, order_identity h c @ [(''requested_quantity'', dtext (oc_quantity c))]),
      (LE_HUMAN_APPROVAL_REQUESTED, order_identity h c @ [(''requested_quantity'', dtext (oc_quantity c))]),
      (LE_HUMAN_APPROVED, order_identity h c @ evidence)]"

definition observed_payload :: "preview_digest \<Rightarrow> spot_order_command \<Rightarrow> live_command_result \<Rightarrow> string \<Rightarrow>
    event_payload" where
  "observed_payload h c r status =
     order_identity h c @ [(''exchange_order_id'', or_empty (lr_exchange_order_id r)),
       (''exchange_order_status'', status)]"

definition fill_payloads :: "preview_digest \<Rightarrow> dec_printer \<Rightarrow> spot_order_command \<Rightarrow> live_command_result \<Rightarrow>
    string \<Rightarrow> live_event \<Rightarrow> (live_event \<times> event_payload) list result" where
  "fill_payloads h shw c r status k =
     bindE (snapshot_decimal (lr_exchange_order_snapshot r) [''executedQty'', ''executed_qty''] ''executedQty'')
       (\<lambda>quantity. bindE (snapshot_fill_price (lr_exchange_order_snapshot r) quantity) (\<lambda>price.
         Inr [(LE_ACCEPTED, observed_payload h c r status),
              (k, observed_payload h c r status
                 @ [(''fill_quantity'', shw (Parsed quantity)), (''fill_price'', shw price)])]))"

definition terminal_event :: "string \<Rightarrow> live_event option" where
  "terminal_event status =
     (if status = ''CANCELED'' then Some LE_CANCELLED else if status = ''EXPIRED'' then Some LE_EXPIRED
      else if status = ''REJECTED'' then Some LE_REJECTED else None)"

definition status_payloads :: "preview_digest \<Rightarrow> dec_printer \<Rightarrow> spot_order_command \<Rightarrow> live_command_result \<Rightarrow>
    (live_event \<times> event_payload) list result" where
  "status_payloads h shw c r =
     (case snapshot_status (lr_exchange_order_status r) (lr_exchange_order_snapshot r) of
        None \<Rightarrow> Inr []
      | Some status \<Rightarrow>
          if status = ''NEW'' then Inr [(LE_ACCEPTED, observed_payload h c r status)]
          else if status = ''PARTIALLY_FILLED'' then fill_payloads h shw c r status LE_PARTIALLY_FILLED
          else if status = ''FILLED'' then fill_payloads h shw c r status LE_FILLED
          else (case terminal_event status of
                  None \<Rightarrow> Inr []
                | Some k \<Rightarrow> Inr [(k, observed_payload h c r status)]))"

fun build_events_from :: "event_digest \<Rightarrow> string \<Rightarrow> datetime \<Rightarrow> nat \<Rightarrow> string \<Rightarrow>
    (live_event \<times> event_payload) list \<Rightarrow> domain_event list result" where
  "build_events_from eh aid observed_at n prev [] = Inr []"
| "build_events_from eh aid observed_at n prev ((k, pl) # rest) =
     bindE (create_event eh (aid @ '':'' @ live_event_value k @ '':'' @ nat_text n) aid (live_event_value k)
              (int n) observed_at (sort pl) prev) (\<lambda>e.
     bindE (build_events_from eh aid observed_at (n + 1) (event_hash e) rest) (\<lambda>es. Inr (e # es)))"

definition place_payloads :: "preview_digest \<Rightarrow> dec_printer \<Rightarrow> spot_order_command \<Rightarrow> live_command_result \<Rightarrow>
    (live_event \<times> event_payload) list result" where
  "place_payloads h shw c r =
     bindE (required_text (lr_approval_id r) ''approval_id'') (\<lambda>approval_id.
     bindE (required_text (lr_authorization_id r) ''authorization_id'') (\<lambda>authorization_id.
     bindE (required_text (lr_authorization_envelope_sha256 r) ''authorization_envelope_sha256'') (\<lambda>envelope.
       let evidence = [(''approval_id'', approval_id), (''authorization_id'', authorization_id),
                       (''authorization_envelope_sha256'', envelope)];
           approved = approval_payloads h c evidence
       in case lr_status r of
            LC_ATTEMPT_FAILED \<Rightarrow>
              bindE (required_text (Some (join_pipe (lr_blockers r))) ''blockers'') (\<lambda>blockers.
                Inr (approved @ [(LE_SUBMISSION_ATTEMPT_FAILED, order_identity h c @ evidence
                       @ [(''client_order_id'', oc_client_order_id c), (''blockers'', blockers)])]))
          | LC_SUBMITTED \<Rightarrow>
              bindE (status_payloads h shw c r) (\<lambda>rest.
                Inr (approved @ (LE_SUBMITTED, order_identity h c @ evidence
                       @ [(''exchange_order_id'', or_empty (lr_exchange_order_id r)),
                          (''client_order_id'', oc_client_order_id c)]) # rest))
          | LC_UNVERIFIED_REVIEW_REQUIRED \<Rightarrow>
              bindE (status_payloads h shw c r) (\<lambda>rest.
                Inr (approved @ (LE_SUBMITTED, order_identity h c @ evidence
                       @ [(''exchange_order_id'', or_empty (lr_exchange_order_id r)),
                          (''client_order_id'', oc_client_order_id c)]) # rest))
          | _ \<Rightarrow> Inl (ValueError ''unsupported live order place result''))))"

definition build_place_events :: "preview_digest \<Rightarrow> event_digest \<Rightarrow> dec_printer \<Rightarrow> spot_order_command \<Rightarrow>
    live_command_result \<Rightarrow> datetime \<Rightarrow> domain_event list result" where
  "build_place_events h eh shw c r observed_at =
     bindE (place_payloads h shw c r) (build_events_from eh (oc_client_order_id c) observed_at 1 genesis)"

text \<open>The journal's file operations: event by event, stopping at the first refusal.\<close>

type_synonym journal_ops = "(domain_event \<Rightarrow> int) \<times> (disk_journal \<Rightarrow> domain_event \<Rightarrow> int)"

fun append_all :: "journal_ops \<Rightarrow> disk_journal \<Rightarrow> domain_event list \<Rightarrow> unit result \<times> disk_journal" where
  "append_all ops j [] = (Inr (), j)"
| "append_all ops j (e # es) =
     (case journal_append (fst ops) (snd ops) j e of
        (Inl err, j') \<Rightarrow> (Inl err, j')
      | (Inr _, j') \<Rightarrow> append_all ops j' es)"

definition append_place_result :: "preview_digest \<Rightarrow> event_digest \<Rightarrow> dec_printer \<Rightarrow> journal_ops \<Rightarrow>
    disk_journal \<Rightarrow> spot_order_command \<Rightarrow> live_command_result \<Rightarrow> datetime \<Rightarrow>
    live_record option result \<times> disk_journal" where
  "append_place_result h eh shw ops j c r observed_at =
     (if lr_status r = LC_BLOCKED then (Inr None, j)
      else case build_place_events h eh shw c r observed_at of
             Inl e \<Rightarrow> (Inl e, j)
           | Inr es \<Rightarrow>
               (case append_all ops (j\<lparr>jr_append_state := None\<rparr>) es of
                  (Inl e, j') \<Rightarrow> (Inl e, j')
                | (Inr _, j') \<Rightarrow> (bindE (live_replay es) (\<lambda>s. Inr (Some s)), j')))"

section \<open>Well-formed records\<close>

definition live_wf :: "live_record \<Rightarrow> bool" where
  "live_wf s \<longleftrightarrow> live_record_post_init s = Inr s"

lemma live_stage_evidence_same: "live_stage_evidence r = Inr s \<Longrightarrow> s = r"
  by (simp add: live_stage_evidence_def split: if_split_asm)

lemma live_fill_geometry_same: "live_fill_geometry r = Inr s \<Longrightarrow> s = r"
  by (simp add: live_fill_geometry_def split: if_split_asm)

lemma live_record_post_init_Inr:
  assumes "live_record_post_init r = Inr s"
  shows "s = r\<lparr>ll_symbol := py_upper (py_strip (ll_symbol r))\<rparr>" "live_wf s"
proof -
  let ?r = "r\<lparr>ll_symbol := py_upper (py_strip (ll_symbol r))\<rparr>"
  from assms obtain r2 where "live_stage_evidence ?r = Inr r2" "live_fill_geometry r2 = Inr s"
    by (auto simp: live_record_post_init_def)
  then show s: "s = ?r" using live_stage_evidence_same live_fill_geometry_same by blast
  from assms show "live_wf s"
    by (auto simp: live_wf_def live_record_post_init_def s blank_def py_strip_upper)
qed

lemma live_wf_facts:
  assumes "live_wf s"
  shows "py_upper (py_strip (ll_symbol s)) = ll_symbol s" "live_stage_evidence s = Inr s"
    "live_fill_geometry s = Inr s" "0 \<le> ll_filled_quantity s" "0 \<le> ll_average_fill_price s"
    "case ll_requested_quantity s of None \<Rightarrow> True | Some q \<Rightarrow> 0 < q"
    "ll_authorization_id s = None \<longleftrightarrow> ll_authorization_envelope_sha256 s = None"
    "\<not> ll_execution_allowed s" "ll_live_eligibility_status s = live_blocked"
proof -
  show sym: "py_upper (py_strip (ll_symbol s)) = ll_symbol s"
    using live_record_post_init_Inr(1) [of s s] assms unfolding live_wf_def
    by (metis live_record.select_convs(2) live_record.surjective live_record.update_convs(2))
  then have upd: "s\<lparr>ll_symbol := py_upper (py_strip (ll_symbol s))\<rparr> = s" by simp
  show "live_stage_evidence s = Inr s" "live_fill_geometry s = Inr s"
    using assms live_stage_evidence_same unfolding live_wf_def live_record_post_init_def upd by auto
  show "0 \<le> ll_filled_quantity s" "0 \<le> ll_average_fill_price s"
    "ll_authorization_id s = None \<longleftrightarrow> ll_authorization_envelope_sha256 s = None"
    "\<not> ll_execution_allowed s" "ll_live_eligibility_status s = live_blocked"
    "case ll_requested_quantity s of None \<Rightarrow> True | Some q \<Rightarrow> 0 < q"
    using assms unfolding live_wf_def live_record_post_init_def
    by (auto simp: not_le not_less split: option.splits)
qed

lemma live_wf_no_early_fills:
  assumes "live_wf s" "ll_stage s \<notin> set quantity_stages" shows "ll_filled_quantity s = 0"
  using live_wf_facts(3) [OF assms(1)] assms(2)
  by (simp add: live_fill_geometry_def split: if_split_asm)

lemma live_transition_Inr:
  assumes "live_transition e r = Inr s'" "py_upper (py_strip (ll_symbol r)) = ll_symbol r"
  shows "s' = r\<lparr>ll_last_sequence := sequence e\<rparr>" "live_wf s'"
  using live_record_post_init_Inr [of "r\<lparr>ll_last_sequence := sequence e\<rparr>" s'] assms
  by (simp_all add: live_transition_def)

section \<open>The abstract life cycle\<close>

inductive live_moves :: "live_stage \<Rightarrow> live_stage \<Rightarrow> bool" where
  promote: "s \<notin> {LS_PARTIALLY_FILLED, LS_FILLED} \<Longrightarrow> live_moves s LS_PROMOTION_REQUIRED"
| request: "live_moves LS_PROMOTION_REQUIRED LS_HUMAN_APPROVAL_REQUIRED"
| approve: "live_moves LS_HUMAN_APPROVAL_REQUIRED LS_READY_FOR_SUBMISSION"
| attempt_failed: "live_moves LS_READY_FOR_SUBMISSION LS_SUBMISSION_ATTEMPT_FAILED_REVIEW_REQUIRED"
| submit: "live_moves LS_READY_FOR_SUBMISSION LS_SUBMITTED"
| accept: "live_moves LS_SUBMITTED LS_ACCEPTED"
| fill: "s \<in> {LS_ACCEPTED, LS_PARTIALLY_FILLED} \<Longrightarrow> t \<in> {LS_PARTIALLY_FILLED, LS_FILLED} \<Longrightarrow> live_moves s t"
| request_cancel: "s \<in> {LS_SUBMITTED, LS_ACCEPTED, LS_PARTIALLY_FILLED} \<Longrightarrow> live_moves s LS_CANCEL_REQUESTED"
| cancel: "s \<in> {LS_SUBMITTED, LS_ACCEPTED, LS_PARTIALLY_FILLED, LS_CANCEL_REQUESTED} \<Longrightarrow>
    live_moves s LS_CANCELLED"
| refuse: "s \<in> {LS_READY_FOR_SUBMISSION, LS_SUBMITTED, LS_ACCEPTED} \<Longrightarrow> t \<in> {LS_REJECTED, LS_EXPIRED} \<Longrightarrow>
    live_moves s t"

inductive_simps live_moves_from_filled [simp]: "live_moves LS_FILLED t"

text \<open>
  The invariant of a replayed order: what the constructor checks, the request is never exceeded, an
  order is FILLED only at exactly the requested quantity, a partial fill is a proper one, and there
  is an average price exactly when there is a fill.
\<close>

definition live_ok :: "live_record \<Rightarrow> bool" where
  "live_ok s \<longleftrightarrow> live_wf s \<and> ll_stage s \<noteq> LS_DRAFT \<and>
     dround (ll_filled_quantity s) = ll_filled_quantity s \<and>
     (case ll_requested_quantity s of None \<Rightarrow> ll_filled_quantity s = 0 | Some q \<Rightarrow> ll_filled_quantity s \<le> q) \<and>
     (ll_stage s = LS_FILLED \<longrightarrow> ll_requested_quantity s = Some (ll_filled_quantity s)) \<and>
     (ll_stage s \<in> {LS_PARTIALLY_FILLED, LS_FILLED} \<longrightarrow> 0 < ll_filled_quantity s) \<and>
     (ll_stage s = LS_PARTIALLY_FILLED \<longrightarrow> ll_requested_quantity s \<noteq> Some (ll_filled_quantity s)) \<and>
     (0 < ll_average_fill_price s \<longleftrightarrow> 0 < ll_filled_quantity s)"

text \<open>What no event changes, and what every event sets.\<close>

definition live_frame :: "live_record \<Rightarrow> domain_event \<Rightarrow> live_record \<Rightarrow> bool" where
  "live_frame s e s' \<longleftrightarrow> ll_order_id s' = ll_order_id s \<and> ll_symbol s' = ll_symbol s \<and>
     ll_preview_hash s' = ll_preview_hash s \<and> ll_requested_quantity s' = ll_requested_quantity s \<and>
     ll_last_sequence s' = sequence e"

definition same_fills :: "live_record \<Rightarrow> live_record \<Rightarrow> bool" where
  "same_fills s s' \<longleftrightarrow> ll_filled_quantity s' = ll_filled_quantity s \<and>
     ll_average_fill_price s' = ll_average_fill_price s"

lemma live_guarded_Inr:
  "live_guarded s e allowed r = Inr s' \<longleftrightarrow> ll_stage s \<in> set allowed \<and> live_transition e r = Inr s'"
  by (auto simp: live_guarded_def live_require_stage_def)

text \<open>A transition that changes neither identity nor fills.\<close>

lemma live_transition_quiet:
  assumes "live_transition e r = Inr s'" "live_wf s" "ll_stage r = t"
    and "ll_symbol r = ll_symbol s" "ll_order_id r = ll_order_id s" "ll_preview_hash r = ll_preview_hash s"
      "ll_requested_quantity r = ll_requested_quantity s" "ll_filled_quantity r = ll_filled_quantity s"
      "ll_average_fill_price r = ll_average_fill_price s"
  shows "live_frame s e s' \<and> same_fills s s' \<and> live_wf s' \<and> ll_stage s' = t"
  using live_transition_Inr [OF assms(1)] live_wf_facts(1) [OF assms(2)] assms(3-)
  by (simp add: live_frame_def same_fills_def)

definition is_fill :: "live_event \<Rightarrow> bool" where
  "is_fill k \<longleftrightarrow> k \<in> {LE_PARTIALLY_FILLED, LE_FILLED}"

text \<open>The stages a non-fill event is allowed in, and the stage it leads to.\<close>

fun event_target :: "live_event \<Rightarrow> live_stage" where
  "event_target LE_PREVIEWED = LS_PREVIEWED"
| "event_target LE_PROMOTION_REQUESTED = LS_PROMOTION_REQUIRED"
| "event_target LE_HUMAN_APPROVAL_REQUESTED = LS_HUMAN_APPROVAL_REQUIRED"
| "event_target LE_HUMAN_APPROVED = LS_READY_FOR_SUBMISSION"
| "event_target LE_SUBMISSION_ATTEMPT_FAILED = LS_SUBMISSION_ATTEMPT_FAILED_REVIEW_REQUIRED"
| "event_target LE_SUBMITTED = LS_SUBMITTED"
| "event_target LE_ACCEPTED = LS_ACCEPTED"
| "event_target LE_PARTIALLY_FILLED = LS_PARTIALLY_FILLED"
| "event_target LE_FILLED = LS_FILLED"
| "event_target LE_CANCEL_REQUESTED = LS_CANCEL_REQUESTED"
| "event_target LE_CANCELLED = LS_CANCELLED"
| "event_target LE_REJECTED = LS_REJECTED"
| "event_target LE_EXPIRED = LS_EXPIRED"

lemma live_step_quiet:
  assumes "live_step s e k = Inr s'" "live_wf s" "\<not> is_fill k"
  shows "live_frame s e s' \<and> same_fills s s' \<and> live_wf s' \<and> ll_stage s' = event_target k"
proof (cases k)
  case LE_HUMAN_APPROVED
  with assms(1) obtain ap au en where
    "live_transition e (s\<lparr>ll_stage := LS_READY_FOR_SUBMISSION, ll_approval_id := Some ap,
       ll_authorization_id := Some au, ll_authorization_envelope_sha256 := Some en,
       ll_promotion_status := VS_PAPER_APPROVED, ll_human_approved_at := Some (occurred_at e)\<rparr>) = Inr s'"
    by (auto simp: live_human_approved_def)
  from live_transition_quiet [OF this assms(2) refl] LE_HUMAN_APPROVED show ?thesis by simp
next
  case LE_SUBMISSION_ATTEMPT_FAILED
  with assms(1) have "live_transition e (s\<lparr>ll_stage := LS_SUBMISSION_ATTEMPT_FAILED_REVIEW_REQUIRED,
       ll_submission_attempted_at := Some (occurred_at e)\<rparr>) = Inr s'" by auto
  from live_transition_quiet [OF this assms(2) refl] LE_SUBMISSION_ATTEMPT_FAILED show ?thesis by simp
qed (use assms in \<open>auto simp: live_guarded_Inr is_fill_def dest!: live_transition_quiet\<close>)

lemma live_step_moves:
  assumes "live_step s e k = Inr s'" "live_ok s" "\<not> is_fill k"
  shows "live_moves (ll_stage s) (ll_stage s')"
proof -
  have wf: "live_wf s" and pos: "ll_stage s \<in> {LS_PARTIALLY_FILLED, LS_FILLED} \<longrightarrow> 0 < ll_filled_quantity s"
    using assms(2) by (simp_all add: live_ok_def)
  note q = live_step_quiet [OF assms(1) wf assms(3)]
  have early: "ll_stage s' \<notin> set quantity_stages \<Longrightarrow> ll_stage s \<notin> {LS_PARTIALLY_FILLED, LS_FILLED}"
    using q pos live_wf_no_early_fills [of s'] by (auto simp: same_fills_def)
  show ?thesis
    using q assms(1,3) early
    by (cases k) (auto simp: live_guarded_Inr is_fill_def live_require_stage_def live_human_approved_def
        stage_sets intro: live_moves.intros)
qed

lemma live_apply_fill_Inr:
  assumes "live_apply_fill s e partial = Inr s'" "live_ok s"
  obtains q p where "0 < q" "0 < p"
    "positive_decimal (payload_get e ''fill_quantity'') ''fill_quantity'' = Inr q"
    "fill_refusals partial (ll_requested_quantity s) (d_add (ll_filled_quantity s) q) = Inr ()"
    "s' = s\<lparr>ll_stage := (if partial then LS_PARTIALLY_FILLED else LS_FILLED),
       ll_filled_quantity := d_add (ll_filled_quantity s) q,
       ll_average_fill_price := d_quot (d_add (d_mul (ll_average_fill_price s) (ll_filled_quantity s))
         (d_mul p q)) (d_add (ll_filled_quantity s) q), ll_last_sequence := sequence e\<rparr>"
    "live_wf s'"
proof -
  obtain q p where q: "positive_decimal (payload_get e ''fill_quantity'') ''fill_quantity'' = Inr q"
    and p: "positive_decimal (payload_get e ''fill_price'') ''fill_price'' = Inr p"
    and ref: "fill_refusals partial (ll_requested_quantity s) (d_add (ll_filled_quantity s) q) = Inr ()"
    and tr: "live_transition e (s\<lparr>ll_stage := (if partial then LS_PARTIALLY_FILLED else LS_FILLED),
       ll_filled_quantity := d_add (ll_filled_quantity s) q,
       ll_average_fill_price := d_quot (d_add (d_mul (ll_average_fill_price s) (ll_filled_quantity s))
         (d_mul p q)) (d_add (ll_filled_quantity s) q)\<rparr>) = Inr s'"
    using assms(1) by (auto simp: live_apply_fill_def Let_def)
  have "py_upper (py_strip (ll_symbol s)) = ll_symbol s"
    using assms(2) live_wf_facts(1) by (simp add: live_ok_def)
  then show ?thesis
    using that [OF positive_decimal_pos [OF q] positive_decimal_pos [OF p] q ref] live_transition_Inr [OF tr]
    by simp
qed

lemma live_apply_fill_ok:
  assumes "live_apply_fill s e partial = Inr s'" "live_ok s"
  shows "live_ok s' \<and> live_frame s e s' \<and> ll_filled_quantity s \<le> ll_filled_quantity s' \<and>
    ll_stage s' = (if partial then LS_PARTIALLY_FILLED else LS_FILLED)"
proof -
  obtain q p where q: "0 < q" and p: "0 < p"
    and ref: "fill_refusals partial (ll_requested_quantity s) (d_add (ll_filled_quantity s) q) = Inr ()"
    and s': "s' = s\<lparr>ll_stage := (if partial then LS_PARTIALLY_FILLED else LS_FILLED),
       ll_filled_quantity := d_add (ll_filled_quantity s) q,
       ll_average_fill_price := d_quot (d_add (d_mul (ll_average_fill_price s) (ll_filled_quantity s))
         (d_mul p q)) (d_add (ll_filled_quantity s) q), ll_last_sequence := sequence e\<rparr>"
    and wf: "live_wf s'"
    by (rule live_apply_fill_Inr [OF assms])
  have ok: "live_wf s" "dround (ll_filled_quantity s) = ll_filled_quantity s" using assms(2) by (simp_all add: live_ok_def)
  note nn = live_wf_facts(4,5) [OF ok(1)]
  have pos: "0 < d_add (ll_filled_quantity s) q" using nn q by (simp add: d_add_def ctx.rnd_pos)
  have "0 \<le> d_mul (ll_average_fill_price s) (ll_filled_quantity s)" "0 < d_mul p q" using nn q p by auto
  then have "0 < d_add (d_mul (ll_average_fill_price s) (ll_filled_quantity s)) (d_mul p q)"
    by (simp add: d_add_def ctx.rnd_pos)
  then have avg: "0 < d_quot (d_add (d_mul (ll_average_fill_price s) (ll_filled_quantity s)) (d_mul p q))
      (d_add (ll_filled_quantity s) q)" using pos by auto
  have "ll_requested_quantity s' \<noteq> None"
    using live_wf_facts(2) [OF wf] by (auto simp: live_stage_evidence_def s' stage_sets split: if_splits)
  then obtain Q where Q: "ll_requested_quantity s = Some Q" by (auto simp: s')
  with ref have "d_add (ll_filled_quantity s) q \<le> Q" "\<not> partial \<Longrightarrow> d_add (ll_filled_quantity s) q = Q"
    "partial \<Longrightarrow> d_add (ll_filled_quantity s) q < Q"
    by (auto simp: fill_refusals_def)
  with wf pos avg Q q d_add_ge_self [OF ok(2), of q] show ?thesis
    by (auto simp: live_ok_def live_frame_def s')
qed

lemma live_apply_Some:
  assumes "live_apply (Some s) e = Inr s'"
  obtains k where "live_event_type (event_type e) = Inr k" "aggregate_id e = ll_order_id s"
    "sequence e = ll_last_sequence s + 1" "live_symbol_and_hash s e = Inr ()" "live_step s e k = Inr s'"
  using assms by (auto simp: live_apply_def live_identity_and_sequence_def)

lemma live_step_fill:
  assumes "live_step s e k = Inr s'" "is_fill k"
  shows "live_apply_fill s e (k = LE_PARTIALLY_FILLED) = Inr s'" "ll_stage s \<in> {LS_ACCEPTED, LS_PARTIALLY_FILLED}"
  using assms by (auto simp: is_fill_def live_require_stage_def)

lemma live_step_ok:
  assumes "live_step s e k = Inr s'" "live_ok s"
  shows "live_ok s' \<and> live_frame s e s' \<and> ll_filled_quantity s \<le> ll_filled_quantity s' \<and>
    live_moves (ll_stage s) (ll_stage s')"
proof (cases "is_fill k")
  case True
  from live_step_fill [OF assms(1) True] live_apply_fill_ok [OF _ assms(2)] show ?thesis
    by (auto intro: live_moves.fill)
next
  case False
  have wf: "live_wf s" using assms(2) by (simp add: live_ok_def)
  note q = live_step_quiet [OF assms(1) wf False]
  have "event_target k \<noteq> LS_DRAFT" "event_target k \<notin> {LS_PARTIALLY_FILLED, LS_FILLED}"
    using False by (cases k; simp add: is_fill_def)+
  with q live_step_moves [OF assms False] assms(2) show ?thesis
    by (simp add: live_ok_def live_frame_def same_fills_def cong: option.case_cong)
qed

lemma live_preview_Inr:
  assumes "live_preview k e = Inr s"
  shows "live_ok s \<and> ll_order_id s = aggregate_id e \<and> ll_last_sequence s = sequence e \<and>
    ll_stage s = LS_PREVIEWED \<and> k = LE_PREVIEWED \<and> ll_authorization_id s = None \<and> ll_submitted_at s = None"
proof -
  from assms obtain r where "live_record_post_init r = Inr s" "ll_filled_quantity r = 0"
    "ll_average_fill_price r = 0" "ll_stage r = LS_PREVIEWED" "ll_order_id r = aggregate_id e"
    "ll_last_sequence r = sequence e" "k = LE_PREVIEWED" "ll_authorization_id r = None" "ll_submitted_at r = None"
    by (auto simp: live_preview_def split: if_split_asm)
  with live_record_post_init_Inr [OF this(1)] live_wf_facts(6) [of s] show ?thesis
    by (auto simp: live_ok_def split: option.splits)
qed

lemma live_apply_None: "live_apply None e = Inr s \<Longrightarrow> live_preview LE_PREVIEWED e = Inr s"
  using live_preview_Inr by (auto simp: live_apply_def)

lemma live_apply_ok:
  assumes "live_apply (Some s) e = Inr s'" "live_ok s"
  shows "live_ok s' \<and> live_frame s e s' \<and> ll_filled_quantity s \<le> ll_filled_quantity s' \<and>
    live_moves (ll_stage s) (ll_stage s')"
  by (rule live_apply_Some [OF assms(1)]) (rule live_step_ok [OF _ assms(2)])

lemma live_apply_ident:
  assumes "live_apply (Some s) e = Inr s'"
  shows "aggregate_id e = ll_order_id s" "sequence e = ll_last_sequence s + 1"
    "ll_order_id s' = ll_order_id s" "ll_last_sequence s' = sequence e"
proof -
  obtain k where k: "aggregate_id e = ll_order_id s" "sequence e = ll_last_sequence s + 1" "live_step s e k = Inr s'"
    by (rule live_apply_Some [OF assms])
  then show "aggregate_id e = ll_order_id s" "sequence e = ll_last_sequence s + 1" by simp_all
  have tr: "live_transition e r = Inr s' \<Longrightarrow> ll_order_id s' = ll_order_id r \<and> ll_last_sequence s' = sequence e" for r
    using live_record_post_init_Inr(1) by (fastforce simp: live_transition_def)
  have "\<exists>r. live_transition e r = Inr s' \<and> ll_order_id r = ll_order_id s"
    using k(3) by (cases k) (auto simp: live_guarded_Inr live_human_approved_def live_apply_fill_def Let_def)
  with tr show "ll_order_id s' = ll_order_id s" "ll_last_sequence s' = sequence e" by force+
qed

interpretation live_order: aggregate live_apply ll_order_id ll_last_sequence live_ok
  by unfold_locales
    (auto dest!: live_apply_None live_preview_Inr dest: live_apply_ok live_apply_ident)

section \<open>Approval before submission\<close>

definition event_kind :: "live_event \<Rightarrow> domain_event \<Rightarrow> bool" where
  "event_kind k e \<longleftrightarrow> live_event_type (event_type e) = Inr k"

text \<open>An approval event carrying this authorization evidence.\<close>

definition approves :: "string \<Rightarrow> string \<Rightarrow> domain_event \<Rightarrow> bool" where
  "approves i h e \<longleftrightarrow> event_kind LE_HUMAN_APPROVED e \<and>
     required_text (payload_get e ''authorization_id'') ''authorization_id'' = Inr i \<and>
     required_text (payload_get e ''authorization_envelope_sha256'') ''authorization_envelope_sha256'' = Inr h"

definition submitted_after_approval :: "string \<Rightarrow> string \<Rightarrow> domain_event list \<Rightarrow> bool" where
  "submitted_after_approval i h es \<longleftrightarrow>
     (\<exists>pre a mid b post. es = pre @ a # mid @ b # post \<and> approves i h a \<and> event_kind LE_SUBMITTED b)"

definition live_history :: "domain_event list \<Rightarrow> live_record \<Rightarrow> bool" where
  "live_history es s \<longleftrightarrow>
     (\<forall>i h. ll_authorization_id s = Some i \<longrightarrow> ll_authorization_envelope_sha256 s = Some h \<longrightarrow>
        (\<exists>a \<in> set es. approves i h a) \<and> (ll_submitted_at s \<noteq> None \<longrightarrow> submitted_after_approval i h es)) \<and>
     (ll_authorization_id s = None \<longrightarrow> ll_submitted_at s = None)"

text \<open>Once set, the authorization evidence never changes; only an approval sets it.\<close>

lemma live_step_authorization:
  assumes "live_step s e k = Inr s'" "live_wf s" "live_symbol_and_hash s e = Inr ()"
    and "live_event_type (event_type e) = Inr k"
  shows "(ll_authorization_id s' = ll_authorization_id s \<and>
      ll_authorization_envelope_sha256 s' = ll_authorization_envelope_sha256 s \<and> k \<noteq> LE_HUMAN_APPROVED) \<or>
    (k = LE_HUMAN_APPROVED \<and> ll_submitted_at s' = ll_submitted_at s \<and>
      (\<exists>i h. ll_authorization_id s' = Some i \<and> ll_authorization_envelope_sha256 s' = Some h \<and> approves i h e))"
proof (cases "k = LE_HUMAN_APPROVED")
  case True
  with assms(1) obtain ap i h where
    tr: "live_transition e (s\<lparr>ll_stage := LS_READY_FOR_SUBMISSION, ll_approval_id := Some ap,
       ll_authorization_id := Some i, ll_authorization_envelope_sha256 := Some h,
       ll_promotion_status := VS_PAPER_APPROVED, ll_human_approved_at := Some (occurred_at e)\<rparr>) = Inr s'"
    and ih: "required_text (payload_get e ''authorization_id'') ''authorization_id'' = Inr i"
      "required_text (payload_get e ''authorization_envelope_sha256'') ''authorization_envelope_sha256'' = Inr h"
    by (auto simp: live_human_approved_def)
  from live_transition_Inr(1) [OF tr] live_wf_facts(1) [OF assms(2)] ih True assms(4) show ?thesis
    by (simp add: approves_def event_kind_def)
next
  case False
  have "\<exists>r. live_transition e r = Inr s' \<and> ll_symbol r = ll_symbol s \<and> ll_authorization_id r = ll_authorization_id s \<and>
      ll_authorization_envelope_sha256 r = ll_authorization_envelope_sha256 s"
    using assms(1) False by (cases k) (auto simp: live_guarded_Inr live_apply_fill_def Let_def)
  then obtain r where r: "live_transition e r = Inr s'" "ll_symbol r = ll_symbol s"
    "ll_authorization_id r = ll_authorization_id s"
    "ll_authorization_envelope_sha256 r = ll_authorization_envelope_sha256 s" by blast
  have "py_upper (py_strip (ll_symbol r)) = ll_symbol r" using r(2) live_wf_facts(1) [OF assms(2)] by simp
  from live_transition_Inr(1) [OF r(1) this] r False show ?thesis by simp
qed

lemma live_step_submitted_at:
  assumes "live_step s e k = Inr s'" "live_wf s" "k \<noteq> LE_SUBMITTED"
  shows "ll_submitted_at s' = ll_submitted_at s"
proof -
  have "\<exists>r. live_transition e r = Inr s' \<and> ll_symbol r = ll_symbol s \<and> ll_submitted_at r = ll_submitted_at s"
    using assms(1,3) by (cases k) (auto simp: live_guarded_Inr live_apply_fill_def live_human_approved_def Let_def)
  then obtain r where r: "live_transition e r = Inr s'" "ll_symbol r = ll_symbol s"
    "ll_submitted_at r = ll_submitted_at s" by blast
  have "py_upper (py_strip (ll_symbol r)) = ll_symbol r" using r(2) live_wf_facts(1) [OF assms(2)] by simp
  from live_transition_Inr(1) [OF r(1) this] r(3) show ?thesis by simp
qed

lemma submitted_after_approval_snoc:
  "submitted_after_approval i h es \<Longrightarrow> submitted_after_approval i h (es @ [e])"
  unfolding submitted_after_approval_def by (metis append.assoc append_Cons)

lemma submitted_after_approval_new:
  assumes "a \<in> set es" "approves i h a" "event_kind LE_SUBMITTED e"
  shows "submitted_after_approval i h (es @ [e])"
proof -
  obtain pre mid where "es = pre @ a # mid" using split_list [OF assms(1)] by blast
  then have "es @ [e] = pre @ a # mid @ e # []" by simp
  with assms(2,3) show ?thesis unfolding submitted_after_approval_def by blast
qed

lemma approves_stripped: "approves i h e \<Longrightarrow> py_strip i = i \<and> py_strip h = h"
  by (auto simp: approves_def required_text_Inr)

lemma not_contradicting:
  assumes "required_text v n = Inr i" "\<not> contradicts v (Some j)" "py_strip j = j" shows "i = j"
  using assms by (auto simp: required_text_Inr contradicts_def)

lemma live_wf_approved:
  assumes "live_wf s" "ll_stage s \<in> set approved_stages"
  shows "\<exists>i h. ll_authorization_id s = Some i \<and> ll_authorization_envelope_sha256 s = Some h"
proof -
  have "ll_stage s \<noteq> LS_DRAFT" using assms(2) by (auto simp: stage_sets)
  with live_wf_facts(2) [OF assms(1)] assms(2) show ?thesis by (auto simp: live_stage_evidence_def)
qed

lemma live_wf_submitted:
  assumes "live_wf s" "ll_stage s \<in> set submitted_stages"
  shows "ll_submitted_at s \<noteq> None" "ll_stage s \<in> set approved_stages"
proof -
  have "ll_stage s \<noteq> LS_DRAFT" using assms(2) by (auto simp: stage_sets)
  with live_wf_facts(2) [OF assms(1)] assms(2) show "ll_submitted_at s \<noteq> None"
    by (auto simp: live_stage_evidence_def)
  show "ll_stage s \<in> set approved_stages" using assms(2) by (simp add: approved_stages_def)
qed

lemma live_history_approve:
  assumes hist: "live_history es s" and wf: "live_wf s" and sym: "live_symbol_and_hash s e = Inr ()"
    and new: "ll_authorization_id s' = Some i" "ll_authorization_envelope_sha256 s' = Some h"
      "approves i h e" "ll_submitted_at s' = ll_submitted_at s"
  shows "live_history (es @ [e]) s'"
proof (cases "ll_submitted_at s")
  case None
  with new show ?thesis by (auto simp: live_history_def)
next
  case (Some t)
  then obtain i0 h0 where old: "ll_authorization_id s = Some i0" "ll_authorization_envelope_sha256 s = Some h0"
    using hist live_wf_facts(7) [OF wf] by (auto simp: live_history_def)
  then obtain a where a: "approves i0 h0 a" and sub: "submitted_after_approval i0 h0 es"
    using hist Some by (auto simp: live_history_def)
  have "\<not> contradicts (payload_get e ''authorization_id'') (Some i0)"
    "\<not> contradicts (payload_get e ''authorization_envelope_sha256'') (Some h0)"
    using sym old by (simp_all add: live_symbol_and_hash_def)
  with new(3) approves_stripped [OF a] have "i = i0" "h = h0"
    by (auto simp: approves_def dest: not_contradicting)
  with sub new show ?thesis by (auto simp: live_history_def intro: submitted_after_approval_snoc)
qed

lemma live_apply_history:
  assumes "live_apply (Some s) e = Inr s'" "live_wf s" "live_history es s"
  shows "live_history (es @ [e]) s'"
proof -
  obtain k where k: "live_event_type (event_type e) = Inr k" "live_symbol_and_hash s e = Inr ()"
    "live_step s e k = Inr s'"
    by (rule live_apply_Some [OF assms(1)])
  from live_step_authorization [OF k(3) assms(2) k(2,1)] show ?thesis
  proof (elim disjE conjE exE)
    assume same: "ll_authorization_id s' = ll_authorization_id s"
      "ll_authorization_envelope_sha256 s' = ll_authorization_envelope_sha256 s" "k \<noteq> LE_HUMAN_APPROVED"
    show ?thesis
    proof (cases "k = LE_SUBMITTED")
      case True
      then have "ll_stage s \<in> set approved_stages" using k(3) by (simp add: live_guarded_Inr stage_sets)
      then obtain i h where ih: "ll_authorization_id s = Some i" "ll_authorization_envelope_sha256 s = Some h"
        using live_wf_approved [OF assms(2)] by blast
      then obtain a where a: "a \<in> set es" "approves i h a" using assms(3) by (auto simp: live_history_def)
      have "submitted_after_approval i h (es @ [e])"
        by (rule submitted_after_approval_new [OF a]) (use k(1) True in \<open>simp add: event_kind_def\<close>)
      with a ih same show ?thesis by (auto simp: live_history_def)
    next
      case False
      with live_step_submitted_at [OF k(3) assms(2)] same assms(3) show ?thesis
        by (auto simp: live_history_def intro: submitted_after_approval_snoc)
    qed
  qed (rule live_history_approve [OF assms(3,2) k(2)])
qed

lemma live_replay_snoc:
  "es \<noteq> [] \<Longrightarrow> live_replay (es @ [e]) = Inr s' \<longleftrightarrow> (\<exists>s. live_replay es = Inr s \<and> live_apply (Some s) e = Inr s')"
  unfolding live_replay_def replay_machine_Inr replay_from_append
  by (auto dest: replay_from_nonempty)

lemma live_replay_history: "live_replay es = Inr s \<Longrightarrow> live_history es s"
proof (induction es arbitrary: s rule: rev_induct)
  case Nil
  then show ?case by (simp add: live_replay_def replay_machine_def)
next
  case (snoc e es)
  show ?case
  proof (cases "es = []")
    case True
    with snoc.prems have "live_apply None e = Inr s" by (simp add: live_replay_def replay_machine_Inr)
    from live_preview_Inr [OF live_apply_None [OF this]] show ?thesis by (simp add: live_history_def)
  next
    case False
    then obtain t where t: "live_replay es = Inr t" "live_apply (Some t) e = Inr s"
      using snoc.prems by (auto simp: live_replay_snoc)
    then have "live_wf t" using live_order.replay_inv unfolding live_replay_def by (auto simp: live_ok_def)
    with t snoc.IH show ?thesis by (blast intro: live_apply_history)
  qed
qed

section \<open>Properties of the life cycle\<close>

text \<open>
  C6: a live order replayed from events is well formed. The requested quantity is never exceeded,
  FILLED means exactly the requested quantity, fills exist only after acceptance, the evidence each
  stage needs is there, the record never grants execution authority, all its events carry its
  identity and their sequence numbers are contiguous up to the record's own.
\<close>

theorem live_replay_ok:
  assumes "live_replay es = Inr s"
  shows "live_ok s \<and> \<not> ll_execution_allowed s \<and> list_all (\<lambda>e. aggregate_id e = ll_order_id s) es \<and>
    contiguous es \<and> ll_last_sequence s = sequence (es ! 0) + int (length es) - 1"
  using assms live_order.replay_inv live_order.replay_trace live_wf_facts(8)
  unfolding live_replay_def by (fastforce simp: live_ok_def)

definition live_example_event :: "int \<Rightarrow> live_event \<Rightarrow> (string \<times> string) list \<Rightarrow> domain_event" where
  "live_example_event sq k pl = \<lparr>event_id = ''e'', aggregate_id = ''c1'', event_type = live_event_value k,
     sequence = sq, occurred_at = Aware sq, payload = pl, previous_hash = [], event_hash = []\<rparr>"

definition live_example :: "domain_event list" where
  "live_example =
     [live_example_event 1 LE_PREVIEWED [(''preview_hash'', ''p''), (''requested_quantity'', ''2.5''), (''symbol'', ''btcusdt'')],
      live_example_event 2 LE_PROMOTION_REQUESTED [],
      live_example_event 3 LE_HUMAN_APPROVAL_REQUESTED [],
      live_example_event 4 LE_HUMAN_APPROVED [(''approval_id'', ''ap1''), (''authorization_envelope_sha256'', ''x''),
        (''authorization_id'', ''auth1'')],
      live_example_event 5 LE_SUBMITTED []]"

definition live_example_filled :: "domain_event list" where
  "live_example_filled = live_example @
     [live_example_event 6 LE_ACCEPTED [],
      live_example_event 7 LE_PARTIALLY_FILLED [(''fill_price'', ''100''), (''fill_quantity'', ''1'')],
      live_example_event 8 LE_FILLED [(''fill_price'', ''110''), (''fill_quantity'', ''1.5'')]]"

theorem live_replay_ok_witness:
  "case live_replay live_example_filled of Inl _ \<Rightarrow> False
   | Inr s \<Rightarrow> live_ok s \<and> ll_stage s = LS_FILLED \<and> ll_average_fill_price s = 106"
proof -
  have "case live_replay live_example_filled of Inl _ \<Rightarrow> False
     | Inr s \<Rightarrow> ll_stage s = LS_FILLED \<and> ll_average_fill_price s = 106" by code_simp
  then show ?thesis using live_replay_ok by (auto split: sum.splits)
qed



lemma live_replay_mono:
  assumes "live_ok s" "replay_from live_apply (Some s) es = Inr (Some s')"
  shows "ll_filled_quantity s \<le> ll_filled_quantity s' \<and> live_moves\<^sup>*\<^sup>* (ll_stage s) (ll_stage s') \<and>
    ll_requested_quantity s' = ll_requested_quantity s \<and> ll_symbol s' = ll_symbol s \<and>
    ll_preview_hash s' = ll_preview_hash s \<and> (ll_stage s = LS_FILLED \<longrightarrow> es = [])"
  using assms
proof (induction es arbitrary: s)
  case (Cons e es)
  then obtain t where t: "live_apply (Some s) e = Inr t" "replay_from live_apply (Some t) es = Inr (Some s')"
    by auto
  note st = live_apply_ok [OF t(1) Cons.prems(1)]
  then have "ll_stage s \<noteq> LS_FILLED" by auto
  with st Cons.IH [OF _ t(2)] show ?case
    by (force simp: live_frame_def intro: converse_rtranclp_into_rtranclp)
qed simp

text \<open>
  The live order refines its life cycle. Replaying more events moves the stage only along
  \<open>live_moves\<close>, never lowers the filled quantity, never changes what was requested, and nothing
  follows a FILLED order.
\<close>

theorem live_replay_extends:
  assumes "live_replay (es @ fs) = Inr s'" "es \<noteq> []"
  shows "\<exists>s. live_replay es = Inr s \<and> live_moves\<^sup>*\<^sup>* (ll_stage s) (ll_stage s') \<and>
    ll_filled_quantity s \<le> ll_filled_quantity s' \<and> ll_requested_quantity s' = ll_requested_quantity s \<and>
    ll_symbol s' = ll_symbol s \<and> ll_preview_hash s' = ll_preview_hash s \<and>
    (ll_stage s = LS_FILLED \<longrightarrow> fs = [])"
proof -
  obtain s where s: "live_replay es = Inr s" "replay_from live_apply (Some s) fs = Inr (Some s')"
    using live_order.replay_prefix assms unfolding live_replay_def by blast
  have "live_ok s" using s(1) live_order.replay_inv unfolding live_replay_def by blast
  from live_replay_mono [OF this s(2)] s(1) show ?thesis by blast
qed

theorem live_replay_extends_witness:
  "\<exists>s. live_replay live_example = Inr s \<and> live_moves\<^sup>*\<^sup>* (ll_stage s) LS_FILLED"
proof -
  have "case live_replay live_example_filled of Inl _ \<Rightarrow> False | Inr s \<Rightarrow> ll_stage s = LS_FILLED" by code_simp
  then obtain s' where "live_replay live_example_filled = Inr s'" "ll_stage s' = LS_FILLED"
    by (auto split: sum.splits)
  moreover obtain fs where "live_example_filled = live_example @ fs" by (simp add: live_example_filled_def)
  ultimately show ?thesis using live_replay_extends [of live_example fs s'] by (auto simp: live_example_def)
qed

text \<open>
  An order without fills can be reopened from every stage, also from REJECTED, EXPIRED and
  CANCELLED: a promotion request is accepted wherever the order stands and starts the approval and
  submission again.
\<close>

theorem terminal_live_order_reopens:
  assumes "live_ok s" "ll_filled_quantity s = 0" "event_kind LE_PROMOTION_REQUESTED e"
    and "live_identity_and_sequence s e = Inr ()" "live_symbol_and_hash s e = Inr ()" "0 \<le> sequence e"
  shows "\<exists>s'. live_apply (Some s) e = Inr s' \<and> ll_stage s' = LS_PROMOTION_REQUIRED \<and>
    ll_authorization_id s' = ll_authorization_id s"
proof -
  let ?r = "s\<lparr>ll_stage := LS_PROMOTION_REQUIRED, ll_promotion_status := VS_STAGED_CANDIDATE,
    ll_promoted_at := Some (occurred_at e), ll_last_sequence := sequence e\<rparr>"
  have wf: "live_wf s" using assms(1) by (simp add: live_ok_def)
  have id: "\<not> blank (ll_order_id s)" "\<not> blank (ll_symbol s)" "\<not> blank (ll_preview_hash s)"
    using wf by (auto simp: live_wf_def live_record_post_init_def)
  have "live_record_post_init ?r = Inr ?r"
    using live_wf_facts [OF wf] assms(2,6) id
    by (auto simp: live_record_post_init_def live_stage_evidence_def live_fill_geometry_def stage_sets
        fills_exceed_def filled_mismatch_def not_less not_le split: option.splits)
  then have "live_step s e LE_PROMOTION_REQUESTED = Inr ?r" by (simp add: live_transition_def)
  with assms(3-5) have "live_apply (Some s) e = Inr ?r" by (simp add: live_apply_def event_kind_def)
  then show ?thesis by simp
qed

definition live_example_rejected :: "domain_event list" where
  "live_example_rejected = live_example @ [live_example_event 6 LE_REJECTED []]"

theorem terminal_live_order_reopens_witness:
  "\<exists>s s'. live_replay live_example_rejected = Inr s \<and> ll_stage s = LS_REJECTED \<and>
     live_apply (Some s) (live_example_event 7 LE_PROMOTION_REQUESTED []) = Inr s'"
proof -
  let ?e = "live_example_event 7 LE_PROMOTION_REQUESTED []"
  have "case live_replay live_example_rejected of Inl _ \<Rightarrow> False | Inr s \<Rightarrow> ll_stage s = LS_REJECTED \<and>
      ll_filled_quantity s = 0 \<and> live_identity_and_sequence s ?e = Inr () \<and> live_symbol_and_hash s ?e = Inr ()"
    by code_simp
  then obtain s where s: "live_replay live_example_rejected = Inr s" "ll_stage s = LS_REJECTED"
    "ll_filled_quantity s = 0" "live_identity_and_sequence s ?e = Inr ()" "live_symbol_and_hash s ?e = Inr ()"
    by (auto split: sum.splits)
  have ok: "live_ok s" using s(1) live_order.replay_inv unfolding live_replay_def by blast
  have kind: "event_kind LE_PROMOTION_REQUESTED ?e" "0 \<le> sequence ?e" by code_simp+
  from terminal_live_order_reopens [OF ok s(3) kind(1) s(4,5) kind(2)] s(1,2) show ?thesis by blast
qed

section \<open>The recorded chain of a placement\<close>

lemma create_event_Inr:
  assumes "create_event eh eid aid ety sq ts pl prev = Inr e"
  shows "event_id e = eid" "aggregate_id e = aid" "event_type e = ety" "sequence e = sq" "occurred_at e = ts"
    "previous_hash e = prev" "payload e = sort pl" "distinct (map fst pl)" "payload_get e = map_of pl"
proof -
  have e: "event_id e = eid \<and> aggregate_id e = aid \<and> event_type e = ety \<and> sequence e = sq \<and>
      occurred_at e = ts \<and> previous_hash e = prev \<and> payload e = sort pl" and d: "distinct (map fst (payload e))"
    using assms by (auto simp: create_event_def domain_event_post_init_def Let_def)
  then show "event_id e = eid" "aggregate_id e = aid" "event_type e = ety" "sequence e = sq"
    "occurred_at e = ts" "previous_hash e = prev" "payload e = sort pl" by simp_all
  have "distinct (map fst (sort pl)) \<longleftrightarrow> distinct (map fst pl)"
    by (metis distinct_map distinct_sort set_sort)
  with d e show dpl: "distinct (map fst pl)" by simp
  show "payload_get e = map_of pl"
    unfolding payload_get_def using e d map_of_inject_set [OF _ dpl, of "sort pl"]
    by (auto simp: py_dict_distinct)
qed

lemma sort_payload: "payload_get e = map_of (sort pl) \<Longrightarrow> distinct (map fst (sort pl)) \<Longrightarrow> payload_get e = map_of pl"
  by (metis distinct_map distinct_sort map_of_inject_set set_sort)

text \<open>An event of the chain: its kind, place, order, time and the values its payload gives.\<close>

definition chain_event :: "string \<Rightarrow> datetime \<Rightarrow> nat \<Rightarrow> live_event \<Rightarrow> event_payload \<Rightarrow> domain_event \<Rightarrow> bool" where
  "chain_event aid t n k pl e \<longleftrightarrow> event_type e = live_event_value k \<and> aggregate_id e = aid \<and>
     sequence e = int n \<and> occurred_at e = t \<and> payload_get e = map_of pl"

lemma build_events_Cons:
  assumes "build_events_from eh aid t n prev ((k, pl) # rest) = Inr es"
  obtains e fs where "es = e # fs" "chain_event aid t n k pl e" "previous_hash e = prev"
    "build_events_from eh aid t (n + 1) (event_hash e) rest = Inr fs"
proof -
  from assms obtain e fs where
    e: "create_event eh (aid @ '':'' @ live_event_value k @ '':'' @ nat_text n) aid (live_event_value k)
      (int n) t (sort pl) prev = Inr e"
    and fs: "build_events_from eh aid t (n + 1) (event_hash e) rest = Inr fs" "es = e # fs"
    by auto
  note c = create_event_Inr [OF e]
  have "chain_event aid t n k pl e"
    unfolding chain_event_def using c(2-5) sort_payload [OF c(9,8)] by simp
  with that fs c(6) show ?thesis by blast
qed

lemma build_events_single:
  assumes "build_events_from eh aid t n prev [(k, pl)] = Inr fs"
  shows "\<exists>e. fs = [e] \<and> chain_event aid t n k pl e"
  by (rule build_events_Cons [OF assms]) simp

lemma live_event_type_value [simp]: "live_event_type (live_event_value k) = Inr k"
  by (cases k) (simp_all add: live_event_type_def live_events_def)

text \<open>One event of the chain on a state of its order.\<close>

lemma live_apply_chain:
  assumes "chain_event aid t n k pl e" "ll_order_id s = aid" "ll_last_sequence s + 1 = int n"
    and "map_of pl ''symbol'' = Some (ll_symbol s)" "py_upper (py_strip (ll_symbol s)) = ll_symbol s"
    and "map_of pl ''preview_hash'' = Some (ll_preview_hash s)"
    and "\<not> contradicts (map_of pl ''authorization_id'') (ll_authorization_id s)"
    and "\<not> contradicts (map_of pl ''authorization_envelope_sha256'') (ll_authorization_envelope_sha256 s)"
  shows "live_apply (Some s) e = live_step s e k"
  using assms
  by (simp add: live_apply_def chain_event_def live_identity_and_sequence_def live_symbol_and_hash_def contradicts_def
      validate.simps)

text \<open>The record after the five events that lead to a submission.\<close>

definition submitted_record :: "preview_digest \<Rightarrow> spot_order_command \<Rightarrow> datetime \<Rightarrow> string \<Rightarrow> string \<Rightarrow> string \<Rightarrow>
    live_record" where
  "submitted_record h c t ap au en =
     \<lparr>ll_order_id = oc_client_order_id c, ll_symbol = oc_symbol c, ll_stage = LS_SUBMITTED,
      ll_preview_hash = preview_hash h c, ll_promotion_status = VS_LIVE_ELIGIBLE,
      ll_requested_quantity = Some (dv (oc_quantity c)), ll_approval_id = Some ap,
      ll_authorization_id = Some au, ll_authorization_envelope_sha256 = Some en,
      ll_promoted_at = Some t, ll_human_approval_requested_at = Some t, ll_human_approved_at = Some t,
      ll_submission_attempted_at = Some t, ll_submitted_at = Some t, ll_accepted_at = None,
      ll_filled_quantity = 0, ll_average_fill_price = 0, ll_last_sequence = 5,
      ll_execution_allowed = False, ll_live_eligibility_status = live_blocked\<rparr>"

definition recordable :: "preview_digest \<Rightarrow> spot_order_command \<Rightarrow> bool" where
  "recordable h c \<longleftrightarrow> command_ok c \<and> shown_ok (oc_quantity c) \<and> hex_text 64 (preview_hash h c)"

lemma recordable_facts:
  assumes "recordable h c"
  shows "\<not> blank (oc_client_order_id c)" "\<not> blank (oc_symbol c)" "\<not> blank (preview_hash h c)"
    "py_upper (py_strip (oc_symbol c)) = oc_symbol c" "py_strip (oc_symbol c) = oc_symbol c"
    "py_strip (preview_hash h c) = preview_hash h c" "0 < dv (oc_quantity c)"
    "positive_decimal (Some (dtext (oc_quantity c))) n = Inr (dv (oc_quantity c))"
proof -
  have c: "spot_order_post_init c = Inr c" using assms by (simp add: recordable_def command_ok_def)
  note f = spot_order_post_init_Inr [OF c]
  show sym: "py_upper (py_strip (oc_symbol c)) = oc_symbol c" using f(2) by simp
  have "py_strip (py_upper (py_strip (oc_symbol c))) = py_upper (py_strip (oc_symbol c))"
    by (simp add: py_strip_upper)
  then show "py_strip (oc_symbol c) = oc_symbol c" by (simp only: sym)
  moreover have "oc_symbol c \<noteq> []" using f(1) by (auto simp: symbol_text_def py_isalnum_def)
  ultimately show "\<not> blank (oc_symbol c)" by (simp add: blank_def)
  show "\<not> blank (oc_client_order_id c)" using f(7,9) by (simp add: blank_def)
  have hex: "hex_text 64 (preview_hash h c)" using assms by (simp add: recordable_def)
  then show "py_strip (preview_hash h c) = preview_hash h c" by (simp add: hex_text_def hex_text_strip)
  with hex show "\<not> blank (preview_hash h c)" by (auto simp: blank_def hex_text_def)
  show pos: "0 < dv (oc_quantity c)" by (rule f(5))
  with assms show "positive_decimal (Some (dtext (oc_quantity c))) n = Inr (dv (oc_quantity c))"
    by (simp add: recordable_def shown_ok_def positive_decimal_def)
qed

lemma recordable_upper: "recordable h c \<Longrightarrow> py_upper (oc_symbol c) = oc_symbol c"
  using recordable_facts(4,5) by metis

lemma contradicts_None [simp]: "\<not> contradicts v None"
  by (cases v) (simp_all add: contradicts_def)

lemma None_contradicts [simp]: "\<not> contradicts None v"
  by (simp add: contradicts_def)

lemma contradicts_Some [simp]: "contradicts (Some v) (Some w) \<longleftrightarrow> v \<noteq> w"
  by (simp add: contradicts_def)

lemmas post_init_eval = live_record_post_init_def live_stage_evidence_def live_fill_geometry_def stage_sets
  fills_exceed_def filled_mismatch_def

definition approval_evidence :: "string \<Rightarrow> string \<Rightarrow> string \<Rightarrow> event_payload" where
  "approval_evidence ap au en = [(''approval_id'', ap), (''authorization_id'', au),
     (''authorization_envelope_sha256'', en)]"

definition evidence_text :: "string \<Rightarrow> bool" where
  "evidence_text v \<longleftrightarrow> \<not> blank v \<and> py_strip v = v"

lemma required_evidence: "evidence_text v \<Longrightarrow> required_text (Some v) n = Inr v"
  by (simp add: evidence_text_def required_text_def)

text \<open>The record in an earlier stage of the same order.\<close>

definition early_record :: "preview_digest \<Rightarrow> spot_order_command \<Rightarrow> datetime \<Rightarrow> live_stage \<Rightarrow> validation_status \<Rightarrow>
    datetime option \<Rightarrow> int \<Rightarrow> live_record" where
  "early_record h c t stage status asked n =
     (submitted_record h c t [] [] [])\<lparr>ll_stage := stage, ll_promotion_status := status,
       ll_approval_id := None, ll_authorization_id := None, ll_authorization_envelope_sha256 := None,
       ll_human_approval_requested_at := asked, ll_human_approved_at := None,
       ll_submission_attempted_at := None, ll_submitted_at := None, ll_last_sequence := n\<rparr>"

definition ready_record :: "preview_digest \<Rightarrow> spot_order_command \<Rightarrow> datetime \<Rightarrow> string \<Rightarrow> string \<Rightarrow> string \<Rightarrow>
    live_record" where
  "ready_record h c t ap au en =
     (submitted_record h c t ap au en)\<lparr>ll_stage := LS_READY_FOR_SUBMISSION,
       ll_promotion_status := VS_PAPER_APPROVED, ll_submission_attempted_at := None,
       ll_submitted_at := None, ll_last_sequence := 4\<rparr>"

lemmas record_stages = early_record_def ready_record_def submitted_record_def

lemma chain_previewed:
  assumes "recordable h c" "chain_event (oc_client_order_id c) t 1 LE_PREVIEWED (order_identity h c
    @ [(''requested_quantity'', dtext (oc_quantity c)), (''client_order_id'', x), (''side'', y), (''order_type'', z)]) e"
  shows "live_apply None e = Inr (early_record h c t LS_PREVIEWED VS_RESEARCH_ONLY None 1)"
  using recordable_facts [OF assms(1)] assms(2)
  by (simp add: live_apply_def chain_event_def live_preview_def required_text_def decimal_or_none_def
      post_init_eval validate.simps record_stages order_identity_def recordable_upper [OF assms(1)]
      del: live_event_value.simps)

lemma chain_promotion:
  assumes "recordable h c" "chain_event (oc_client_order_id c) t 2 LE_PROMOTION_REQUESTED
    (order_identity h c @ [(''requested_quantity'', q)]) e"
  shows "live_apply (Some (early_record h c t LS_PREVIEWED VS_RESEARCH_ONLY None 1)) e =
    Inr (early_record h c t LS_PROMOTION_REQUIRED VS_STAGED_CANDIDATE None 2)"
proof -
  have "live_apply (Some (early_record h c t LS_PREVIEWED VS_RESEARCH_ONLY None 1)) e =
      live_step (early_record h c t LS_PREVIEWED VS_RESEARCH_ONLY None 1) e LE_PROMOTION_REQUESTED"
    by (rule live_apply_chain [OF assms(2)]) (simp_all add: record_stages order_identity_def recordable_upper [OF assms(1)] recordable_facts [OF assms(1)])
  with recordable_facts [OF assms(1)] assms(2) show ?thesis
    by (simp add: live_transition_def post_init_eval validate.simps record_stages chain_event_def order_identity_def recordable_upper [OF assms(1)])
qed

lemma chain_requested:
  assumes "recordable h c" "chain_event (oc_client_order_id c) t 3 LE_HUMAN_APPROVAL_REQUESTED
    (order_identity h c @ [(''requested_quantity'', q)]) e"
  shows "live_apply (Some (early_record h c t LS_PROMOTION_REQUIRED VS_STAGED_CANDIDATE None 2)) e =
    Inr (early_record h c t LS_HUMAN_APPROVAL_REQUIRED VS_STAGED_CANDIDATE (Some t) 3)"
proof -
  have "live_apply (Some (early_record h c t LS_PROMOTION_REQUIRED VS_STAGED_CANDIDATE None 2)) e =
      live_step (early_record h c t LS_PROMOTION_REQUIRED VS_STAGED_CANDIDATE None 2) e LE_HUMAN_APPROVAL_REQUESTED"
    by (rule live_apply_chain [OF assms(2)]) (simp_all add: record_stages order_identity_def recordable_upper [OF assms(1)] recordable_facts [OF assms(1)])
  with recordable_facts [OF assms(1)] assms(2) show ?thesis
    by (simp add: live_guarded_def live_require_stage_def live_transition_def post_init_eval validate.simps
        record_stages chain_event_def order_identity_def recordable_upper [OF assms(1)])
qed

lemma chain_approved:
  assumes "recordable h c" "evidence_text ap" "evidence_text au" "evidence_text en"
    and "chain_event (oc_client_order_id c) t 4 LE_HUMAN_APPROVED (order_identity h c @ approval_evidence ap au en) e"
  shows "live_apply (Some (early_record h c t LS_HUMAN_APPROVAL_REQUIRED VS_STAGED_CANDIDATE (Some t) 3)) e =
    Inr (ready_record h c t ap au en)"
proof -
  have "live_apply (Some (early_record h c t LS_HUMAN_APPROVAL_REQUIRED VS_STAGED_CANDIDATE (Some t) 3)) e =
      live_step (early_record h c t LS_HUMAN_APPROVAL_REQUIRED VS_STAGED_CANDIDATE (Some t) 3) e LE_HUMAN_APPROVED"
    by (rule live_apply_chain [OF assms(5)])
      (simp_all add: record_stages order_identity_def recordable_upper [OF assms(1)] recordable_facts [OF assms(1)] approval_evidence_def)
  with recordable_facts [OF assms(1)] assms(5) required_evidence [OF assms(2)] required_evidence [OF assms(3)]
    required_evidence [OF assms(4)]
  show ?thesis
    by (simp add: live_human_approved_def live_require_stage_def live_transition_def post_init_eval validate.simps
        record_stages chain_event_def order_identity_def recordable_upper [OF assms(1)] approval_evidence_def)
qed

lemma chain_submitted:
  assumes "recordable h c"
    and "chain_event (oc_client_order_id c) t 5 LE_SUBMITTED (order_identity h c @ approval_evidence ap au en @ ys) e"
  shows "live_apply (Some (ready_record h c t ap au en)) e = Inr (submitted_record h c t ap au en)"
proof -
  have "live_apply (Some (ready_record h c t ap au en)) e = live_step (ready_record h c t ap au en) e LE_SUBMITTED"
    by (rule live_apply_chain [OF assms(2)])
      (simp_all add: record_stages order_identity_def recordable_upper [OF assms(1)] recordable_facts [OF assms(1)] approval_evidence_def)
  with recordable_facts [OF assms(1)] assms(2) show ?thesis
    by (simp add: live_guarded_def live_require_stage_def live_transition_def post_init_eval validate.simps
        record_stages chain_event_def order_identity_def recordable_upper [OF assms(1)])
qed

lemma chain_to_submission:
  assumes "build_events_from eh (oc_client_order_id c) t 1 genesis
      (approval_payloads h c (approval_evidence ap au en)
        @ (LE_SUBMITTED, order_identity h c @ approval_evidence ap au en @ ys) # rest) = Inr es"
    and "recordable h c" "evidence_text ap" "evidence_text au" "evidence_text en"
  obtains pre fs prev where "es = pre @ fs" "pre \<noteq> []"
    "replay_from live_apply None pre = Inr (Some (submitted_record h c t ap au en))"
    "build_events_from eh (oc_client_order_id c) t 6 prev rest = Inr fs"
proof -
  have pl: "approval_payloads h c (approval_evidence ap au en)
        @ (LE_SUBMITTED, order_identity h c @ approval_evidence ap au en @ ys) # rest =
     (LE_PREVIEWED, order_identity h c @ [(''requested_quantity'', dtext (oc_quantity c)),
         (''client_order_id'', oc_client_order_id c), (''side'', oc_side c), (''order_type'', oc_order_type c)]) #
      (LE_PROMOTION_REQUESTED, order_identity h c @ [(''requested_quantity'', dtext (oc_quantity c))]) #
      (LE_HUMAN_APPROVAL_REQUESTED, order_identity h c @ [(''requested_quantity'', dtext (oc_quantity c))]) #
      (LE_HUMAN_APPROVED, order_identity h c @ approval_evidence ap au en) #
      (LE_SUBMITTED, order_identity h c @ approval_evidence ap au en @ ys) # rest"
    by (simp add: approval_payloads_def)
  obtain e1 e2 e3 e4 e5 fs where es: "es = e1 # e2 # e3 # e4 # e5 # fs"
    and ch: "chain_event (oc_client_order_id c) t 1 LE_PREVIEWED (order_identity h c @
        [(''requested_quantity'', dtext (oc_quantity c)), (''client_order_id'', oc_client_order_id c),
         (''side'', oc_side c), (''order_type'', oc_order_type c)]) e1"
      "chain_event (oc_client_order_id c) t (1 + 1) LE_PROMOTION_REQUESTED
        (order_identity h c @ [(''requested_quantity'', dtext (oc_quantity c))]) e2"
      "chain_event (oc_client_order_id c) t (1 + 1 + 1) LE_HUMAN_APPROVAL_REQUESTED
        (order_identity h c @ [(''requested_quantity'', dtext (oc_quantity c))]) e3"
      "chain_event (oc_client_order_id c) t (1 + 1 + 1 + 1) LE_HUMAN_APPROVED
        (order_identity h c @ approval_evidence ap au en) e4"
      "chain_event (oc_client_order_id c) t (1 + 1 + 1 + 1 + 1) LE_SUBMITTED
        (order_identity h c @ approval_evidence ap au en @ ys) e5"
    and fs: "build_events_from eh (oc_client_order_id c) t (1 + 1 + 1 + 1 + 1 + 1) (event_hash e5) rest = Inr fs"
    using assms(1) unfolding pl by (elim build_events_Cons) blast
  have "replay_from live_apply None [e1, e2, e3, e4, e5] = Inr (Some (submitted_record h c t ap au en))"
    using chain_previewed [OF assms(2) ch(1)] chain_promotion [OF assms(2)] chain_requested [OF assms(2)]
      chain_approved [OF assms(2-5)] chain_submitted [OF assms(2)] ch(2-5)
    by (simp add: eval_nat_numeral)
  with that [of "[e1, e2, e3, e4, e5]" fs "event_hash e5"] es fs show ?thesis by (simp add: eval_nat_numeral)
qed

text \<open>What a submitted result is recorded as, up to its status events.\<close>

lemma build_place_submitted:
  assumes "build_place_events h eh shw c r t = Inr es" "lr_status r = LC_SUBMITTED" "recordable h c"
  obtains ap au en pre fs prev rest where "required_text (lr_approval_id r) ''approval_id'' = Inr ap"
    "required_text (lr_authorization_id r) ''authorization_id'' = Inr au"
    "required_text (lr_authorization_envelope_sha256 r) ''authorization_envelope_sha256'' = Inr en"
    "status_payloads h shw c r = Inr rest" "es = pre @ fs" "pre \<noteq> []"
    "replay_from live_apply None pre = Inr (Some (submitted_record h c t ap au en))"
    "build_events_from eh (oc_client_order_id c) t 6 prev rest = Inr fs"
proof -
  obtain ap au en rest where ev: "required_text (lr_approval_id r) ''approval_id'' = Inr ap"
    "required_text (lr_authorization_id r) ''authorization_id'' = Inr au"
    "required_text (lr_authorization_envelope_sha256 r) ''authorization_envelope_sha256'' = Inr en"
    and rest: "status_payloads h shw c r = Inr rest"
    and es: "build_events_from eh (oc_client_order_id c) t 1 genesis
      (approval_payloads h c (approval_evidence ap au en)
        @ (LE_SUBMITTED, order_identity h c @ approval_evidence ap au en
          @ [(''exchange_order_id'', or_empty (lr_exchange_order_id r)),
             (''client_order_id'', oc_client_order_id c)]) # rest) = Inr es"
    using assms(1,2) by (auto simp: build_place_events_def place_payloads_def Let_def approval_evidence_def)
  have "evidence_text ap" "evidence_text au" "evidence_text en"
    using ev by (auto simp: required_text_Inr evidence_text_def)
  from chain_to_submission [OF es assms(3) this] that [OF ev rest] show ?thesis by metis
qed

lemma live_replay_from: "es \<noteq> [] \<Longrightarrow> live_replay es = bindE (replay_from live_apply None es)
    (\<lambda>st. case st of None \<Rightarrow> Inl (RuntimeError ''live order replay did not produce state'') | Some s \<Rightarrow> Inr s)"
  by (simp add: live_replay_def replay_machine_def)

lemma submitted_observed:
  assumes "recordable h c" "chain_event (oc_client_order_id c) t 6 k (observed_payload h c r st) e"
  shows "live_apply (Some (submitted_record h c t ap au en)) e = live_step (submitted_record h c t ap au en) e k"
  by (rule live_apply_chain [OF assms(2)])
    (simp_all add: submitted_record_def observed_payload_def order_identity_def recordable_upper [OF assms(1)]
      recordable_facts [OF assms(1)])

definition example_result :: "string \<Rightarrow> live_command_result" where
  "example_result status = command_result (\<lambda>_. []) (\<lambda>_. ''x'') example_authorization example_command LC_SUBMITTED []
     (Some (''77'', \<lparr>vf_verified = True, vf_blockers = [], vf_observed_status = Some status,
        vf_order_snapshot = None\<rparr>))"

lemma example_recordable: "recordable hash_a example_command"
proof -
  have "command_ok example_command" "shown_ok (oc_quantity example_command)" by code_simp+
  moreover have "hex_text 64 (preview_hash hash_a example_command)" by (simp add: preview_hash_def)
  ultimately show ?thesis by (simp add: recordable_def)
qed

lemma example_built:
  "st \<in> {''NEW'', ''CANCELED''} \<Longrightarrow> \<exists>es. build_place_events hash_a (\<lambda>_. ''e'') (\<lambda>_. ''1'') example_command
     (example_result st) (Aware 20) = Inr es"
proof -
  have "case build_place_events hash_a (\<lambda>_. ''e'') (\<lambda>_. ''1'') example_command (example_result ''NEW'') (Aware 20) of
      Inl _ \<Rightarrow> False | Inr _ \<Rightarrow> True"
    "case build_place_events hash_a (\<lambda>_. ''e'') (\<lambda>_. ''1'') example_command (example_result ''CANCELED'') (Aware 20) of
      Inl _ \<Rightarrow> False | Inr _ \<Rightarrow> True"
    by code_simp+
  then show "st \<in> {''NEW'', ''CANCELED''} \<Longrightarrow> ?thesis" by (auto split: sum.splits)
qed

text \<open>
  A verified new order is recorded as an accepted one. For a valid command and a SUBMITTED result
  whose read-back status is NEW, the recorded chain replays to an ACCEPTED record that carries the
  command's symbol, quantity and preview hash and the result's authorization evidence.
\<close>

theorem new_order_recorded:
  assumes "build_place_events h eh shw c r t = Inr es" "lr_status r = LC_SUBMITTED" "recordable h c"
    and "snapshot_status (lr_exchange_order_status r) (lr_exchange_order_snapshot r) = Some ''NEW''"
  shows "\<exists>s. live_replay es = Inr s \<and> ll_stage s = LS_ACCEPTED \<and> ll_order_id s = oc_client_order_id c \<and>
    ll_symbol s = oc_symbol c \<and> ll_requested_quantity s = Some (dv (oc_quantity c)) \<and>
    ll_preview_hash s = preview_hash h c \<and> ll_authorization_id s = map_option py_strip (lr_authorization_id r) \<and>
    ll_filled_quantity s = 0"
proof -
  obtain ap au en pre fs prev rest where ev: "required_text (lr_authorization_id r) ''authorization_id'' = Inr au"
    and rest: "status_payloads h shw c r = Inr rest" and es: "es = pre @ fs" "pre \<noteq> []"
    and rep: "replay_from live_apply None pre = Inr (Some (submitted_record h c t ap au en))"
    and fs: "build_events_from eh (oc_client_order_id c) t 6 prev rest = Inr fs"
    by (rule build_place_submitted [OF assms(1-3)])
  have "rest = [(LE_ACCEPTED, observed_payload h c r ''NEW'')]" using rest assms(4) by (simp add: status_payloads_def)
  with fs obtain e where e: "fs = [e]" "chain_event (oc_client_order_id c) t 6 LE_ACCEPTED (observed_payload h c r ''NEW'') e"
    using build_events_single by blast
  have "live_apply (Some (submitted_record h c t ap au en)) e =
      Inr ((submitted_record h c t ap au en)\<lparr>ll_stage := LS_ACCEPTED, ll_accepted_at := Some t, ll_last_sequence := 6\<rparr>)"
    unfolding submitted_observed [OF assms(3) e(2)]
    using recordable_facts [OF assms(3)] recordable_upper [OF assms(3)] e(2)
    by (simp add: live_guarded_def live_require_stage_def live_transition_def post_init_eval validate.simps
        submitted_record_def chain_event_def)
  with rep es e(1) ev show ?thesis
    by (auto simp: live_replay_from replay_from_append submitted_record_def required_text_Inr)
qed

theorem new_order_recorded_witness:
  "\<exists>es s. build_place_events hash_a (\<lambda>_. ''e'') (\<lambda>_. ''1'') example_command (example_result ''NEW'') (Aware 20) = Inr es \<and>
     live_replay es = Inr s \<and> ll_stage s = LS_ACCEPTED \<and> ll_symbol s = ''BTCUSDT''"
proof -
  obtain es where es: "build_place_events hash_a (\<lambda>_. ''e'') (\<lambda>_. ''1'') example_command (example_result ''NEW'')
      (Aware 20) = Inr es" using example_built by blast
  have "lr_status (example_result ''NEW'') = LC_SUBMITTED" "snapshot_status (lr_exchange_order_status (example_result ''NEW''))
      (lr_exchange_order_snapshot (example_result ''NEW'')) = Some ''NEW''" by code_simp+
  from new_order_recorded [OF es this(1) example_recordable this(2)] es show ?thesis
    by (auto simp: example_command_def)
qed

text \<open>
  An order the exchange reports as CANCELED right away cannot be recorded. The chain goes from
  SUBMITTED to CANCELLED, which the record refuses for want of an acceptance, so replaying it always
  raises although the order was placed and its events are already in the journal.
\<close>

theorem cancelled_read_back_unrecordable:
  assumes "build_place_events h eh shw c r t = Inr es" "lr_status r = LC_SUBMITTED" "recordable h c"
    and "snapshot_status (lr_exchange_order_status r) (lr_exchange_order_snapshot r) = Some ''CANCELED''"
  shows "live_replay es = Inl (ValueError ''accepted or terminal live orders require acceptance evidence'')"
proof -
  obtain ap au en pre fs prev rest where
    rest: "status_payloads h shw c r = Inr rest" and es: "es = pre @ fs" "pre \<noteq> []"
    and rep: "replay_from live_apply None pre = Inr (Some (submitted_record h c t ap au en))"
    and fs: "build_events_from eh (oc_client_order_id c) t 6 prev rest = Inr fs"
    by (rule build_place_submitted [OF assms(1-3)])
  have "rest = [(LE_CANCELLED, observed_payload h c r ''CANCELED'')]"
    using rest assms(4) by (simp add: status_payloads_def terminal_event_def)
  with fs obtain e where e: "fs = [e]" "chain_event (oc_client_order_id c) t 6 LE_CANCELLED (observed_payload h c r ''CANCELED'') e"
    using build_events_single by blast
  have "live_apply (Some (submitted_record h c t ap au en)) e =
      Inl (ValueError ''accepted or terminal live orders require acceptance evidence'')"
    unfolding submitted_observed [OF assms(3) e(2)]
    using recordable_facts [OF assms(3)] recordable_upper [OF assms(3)] e(2)
    by (simp add: live_guarded_def live_require_stage_def live_transition_def post_init_eval validate.simps
        submitted_record_def chain_event_def)
  with rep es e(1) show ?thesis by (simp add: live_replay_from replay_from_append)
qed

theorem cancelled_read_back_unrecordable_witness:
  "\<exists>es. build_place_events hash_a (\<lambda>_. ''e'') (\<lambda>_. ''1'') example_command (example_result ''CANCELED'') (Aware 20) = Inr es \<and>
     live_replay es = Inl (ValueError ''accepted or terminal live orders require acceptance evidence'')"
proof -
  obtain es where es: "build_place_events hash_a (\<lambda>_. ''e'') (\<lambda>_. ''1'') example_command (example_result ''CANCELED'')
      (Aware 20) = Inr es" using example_built by blast
  have "lr_status (example_result ''CANCELED'') = LC_SUBMITTED"
    "snapshot_status (lr_exchange_order_status (example_result ''CANCELED''))
      (lr_exchange_order_snapshot (example_result ''CANCELED'')) = Some ''CANCELED''" by code_simp+
  from cancelled_read_back_unrecordable [OF es this(1) example_recordable this(2)] es show ?thesis by blast
qed

lemma place_payloads_nonempty: "place_payloads h shw c r = Inr pls \<Longrightarrow> pls \<noteq> []"
  by (cases "lr_status r") (auto simp: place_payloads_def Let_def)

lemma build_place_first:
  assumes "build_place_events h eh shw c r t = Inr es"
  obtains e fs where "es = e # fs" "sequence e = 1"
proof -
  from assms obtain pls where pls: "place_payloads h shw c r = Inr pls"
    "build_events_from eh (oc_client_order_id c) t 1 genesis pls = Inr es"
    by (auto simp: build_place_events_def)
  obtain k pl rest where "pls = (k, pl) # rest" using place_payloads_nonempty [OF pls(1)] by (cases pls) auto
  with pls(2) have "build_events_from eh (oc_client_order_id c) t 1 genesis ((k, pl) # rest) = Inr es" by simp
  then obtain e fs where "es = e # fs" "chain_event (oc_client_order_id c) t 1 k pl e" by (rule build_events_Cons)
  with that show ?thesis by (simp add: chain_event_def)
qed

lemma journal_sound_fresh_cache:
  "journal_sound enc_len j es \<Longrightarrow> journal_sound enc_len (j\<lparr>jr_append_state := None\<rparr>) es"
  by (auto simp: journal_sound_def cache_reusable_def split: option.splits)

lemma append_all_refused:
  assumes "journal_sound (fst ops) j es" "es \<noteq> []" "sequence e = 1"
  shows "(\<exists>err. fst (append_all ops j (e # fs)) = Inl err) \<and> jr_file (snd (append_all ops j (e # fs))) = jr_file j"
proof -
  have "\<not> append_accepts (fst ops) j es e" using assms(2,3) by (auto simp: append_accepts_def chain_ok_snoc)
  then have no: "fst (journal_append (fst ops) (snd ops) j e) \<noteq> Inr ()"
    by (simp add: journal_append_accepted(1) [OF assms(1)])
  obtain err j' where "journal_append (fst ops) (snd ops) j e = (Inl err, j')"
    using no by (cases "journal_append (fst ops) (snd ops) j e"; cases "fst (journal_append (fst ops) (snd ops) j e)") auto
  with journal_append_refused [OF assms(1) no] show ?thesis by simp
qed

text \<open>
  C40: the second order of a shared journal is refused. Every placement's chain starts again at
  sequence 1 from GENESIS, while the journal only takes events that continue its own chain, so on a
  journal that already holds an event recording any placement that was not blocked raises and writes
  nothing.
\<close>

theorem second_order_unrecordable:
  assumes "journal_sound (fst ops) j es" "es \<noteq> []" "lr_status r \<noteq> LC_BLOCKED"
  shows "(\<exists>err. fst (append_place_result h eh shw ops j c r t) = Inl err) \<and>
    jr_file (snd (append_place_result h eh shw ops j c r t)) = jr_file j"
proof (cases "build_place_events h eh shw c r t")
  case (Inl e)
  with assms(3) show ?thesis by (simp add: append_place_result_def)
next
  case (Inr evs)
  then obtain e fs where evs: "evs = e # fs" "sequence e = 1" by (rule build_place_first)
  obtain err j' where app: "append_all ops (j\<lparr>jr_append_state := None\<rparr>) (e # fs) = (Inl err, j')" "jr_file j' = jr_file j"
    using append_all_refused [OF journal_sound_fresh_cache [OF assms(1)] assms(2) evs(2), of fs]
    by (cases "append_all ops (j\<lparr>jr_append_state := None\<rparr>) (e # fs)") auto
  with assms(3) Inr evs(1) show ?thesis by (simp add: append_place_result_def)
qed

theorem second_order_unrecordable_witness:
  "\<exists>err. fst (append_place_result hash_a (\<lambda>_. ''e'') (\<lambda>_. ''1'') (\<lambda>_. 250, \<lambda>_ _. 1)
     \<lparr>maximum_event_bytes = 300, maximum_journal_bytes = 600,
      jr_file = Some \<lparr>jf_lines = [Inr (example_event 1 ''a'' ''GENESIS'')], jf_size = 250, jf_signature = 0\<rparr>,
      jr_append_state = None\<rparr>
     example_command (example_result ''NEW'') (Aware 20)) = Inl err"
proof -
  let ?j = "\<lparr>maximum_event_bytes = 300, maximum_journal_bytes = 600,
      jr_file = Some \<lparr>jf_lines = [Inr (example_event 1 ''a'' ''GENESIS'')], jf_size = 250, jf_signature = 0\<rparr>,
      jr_append_state = None\<rparr>"
  have "journal_sound (\<lambda>_. 250) ?j [example_event 1 ''a'' ''GENESIS'']"
    by (simp add: journal_sound_def journal_capacity_def cache_reusable_def chain_ok_snoc [of "[]", simplified]
        example_event_def last_event_def expected_hash_def genesis_def)
  then show ?thesis
    using second_order_unrecordable [of "(\<lambda>_. 250, \<lambda>_ _. 1)" ?j "[example_event 1 ''a'' ''GENESIS'']"
        "example_result ''NEW''"] by (simp add: example_result_def command_result_def)
qed

end
