(* ===== verification/Trade_Attribution.thy ===== *)
theory Trade_Attribution
  imports Decimal_Text
begin

text \<open>
  \<^verbatim>\<open>domain/research/virtual_runtime_attribution.py\<close>: the sources of a trade's parameters, the evidence
  recorded when it was decided, and the assessment made when it closes. The factors of an evidence
  record are the decoded JSON object; \<open>edig\<close> is the digest of its five recorded parts and \<open>rdig\<close> the
  digest of a method registry, both SHA-256 over canonical JSON. A JSON number is given by its
  \<^verbatim>\<open>str()\<close> and \<open>encoded\<close> is the byte length of the text the factors were read from.
\<close>

section \<open>Values\<close>

datatype json =
  JNull | JBool bool | JNumber string | JText string | JList "json list" | JObject "(string \<times> json) list"

definition json_get :: "json option \<Rightarrow> string \<Rightarrow> json option" where
  "json_get v k = (case v of Some (JObject ps) \<Rightarrow> map_of ps k | _ \<Rightarrow> None)"

text \<open>\<^verbatim>\<open>Decimal(str(value))\<close>, \<open>None\<close> where it raises: no other JSON value prints as a number.\<close>

definition json_decimal :: "json option \<Rightarrow> pydec option" where
  "json_decimal v = (case v of Some (JNumber s) \<Rightarrow> parse_decimal s | Some (JText s) \<Rightarrow> parse_decimal s | _ \<Rightarrow> None)"

section \<open>Parameter methods\<close>

record trade_methods =
  tm_quantity :: string
  tm_leverage :: string
  tm_stop_loss :: string
  tm_entry :: string
  tm_take_profit :: string
  tm_risk_reward :: string
  tm_pnl :: string

definition trade_methods_post_init :: "trade_methods \<Rightarrow> trade_methods result" where
  "trade_methods_post_init m = validate
     [(list_ex blank [tm_quantity m, tm_leverage m, tm_stop_loss m, tm_entry m, tm_take_profit m,
         tm_risk_reward m, tm_pnl m], ''trade parameter methods must be nonblank strings'')] m"

definition default_methods :: trade_methods where
  "default_methods =
     \<lparr>tm_quantity = ''NOT_RECORDED'', tm_leverage = ''NOT_RECORDED'', tm_stop_loss = ''NOT_RECORDED'',
      tm_entry = ''NOT_RECORDED'', tm_take_profit = ''NOT_RECORDED'', tm_risk_reward = ''NOT_RECORDED'',
      tm_pnl = ''NOT_RECORDED''\<rparr>"

section \<open>Decision evidence\<close>

record decision_evidence =
  de_status :: string
  de_as_of :: "datetime option"
  de_direction_method :: string
  de_entry_method :: string
  de_factors :: "(string \<times> json) list"
  de_sha256 :: string

type_synonym evidence_body = "string \<times> datetime option \<times> string \<times> string \<times> (string \<times> json) list"

definition evidence_body :: "decision_evidence \<Rightarrow> evidence_body" where
  "evidence_body e = (de_status e, de_as_of e, de_direction_method e, de_entry_method e, de_factors e)"

definition registry_checks :: "((string \<times> json) list \<Rightarrow> string) \<Rightarrow> (string \<times> json) list \<Rightarrow> (bool \<times> string) list" where
  "registry_checks rdig factors =
     (case map_of factors ''method_registry'' of
        None \<Rightarrow> [] | Some JNull \<Rightarrow> []
      | Some registry \<Rightarrow>
          (case json_get (Some registry) ''definition'' of
             Some (JObject definition) \<Rightarrow>
               [(json_get (Some registry) ''sha256'' \<noteq> Some (JText (rdig definition)),
                 ''recorded method registry digest mismatch'')]
           | _ \<Rightarrow> [(True, ''recorded method registry requires definitions and digest'')]))"

definition decision_evidence_post_init :: "(evidence_body \<Rightarrow> string) \<Rightarrow> ((string \<times> json) list \<Rightarrow> string) \<Rightarrow> int \<Rightarrow>
    decision_evidence \<Rightarrow> decision_evidence result" where
  "decision_evidence_post_init edig rdig encoded e =
     (let unrecorded = de_status e = ''NOT_RECORDED'';
          methods = [de_direction_method e, de_entry_method e]
      in validate
        ([(de_status e \<notin> {''NOT_RECORDED'', ''RECORDED_AT_DECISION'', ''RECONSTRUCTED_FROM_ARCHIVE''},
           ''unsupported decision evidence status''),
          (encoded > 1000000, ''decision evidence exceeds the payload bound'')]
         @ registry_checks rdig (de_factors e)
         @ [(unrecorded \<and> (de_factors e \<noteq> [] \<or> de_as_of e \<noteq> None
               \<or> methods \<noteq> [''NOT_RECORDED'', ''NOT_RECORDED'']),
             ''unrecorded evidence cannot claim observed factors''),
            (\<not> unrecorded \<and> (\<not> (case de_as_of e of None \<Rightarrow> False | Some t \<Rightarrow> is_aware t) \<or> de_factors e = []
               \<or> list_ex blank methods \<or> ''NOT_RECORDED'' \<in> set methods),
             ''recorded evidence requires aware time, methods and factors'')])
        (e\<lparr>de_sha256 := edig (evidence_body e)\<rparr>))"

text \<open>\<^verbatim>\<open>TradeDecisionEvidence()\<close>: nothing recorded.\<close>

definition no_evidence :: "(evidence_body \<Rightarrow> string) \<Rightarrow> decision_evidence" where
  "no_evidence edig =
     (let e = \<lparr>de_status = ''NOT_RECORDED'', de_as_of = None, de_direction_method = ''NOT_RECORDED'',
                de_entry_method = ''NOT_RECORDED'', de_factors = [], de_sha256 = []\<rparr>
      in e\<lparr>de_sha256 := edig (evidence_body e)\<rparr>)"

section \<open>Closure assessment\<close>

record closure_assessment =
  ca_decision_evidence_sha256 :: string
  ca_decision_lineage_status :: string
  ca_selected_scenario_id :: "string option"
  ca_entry_quality :: string
  ca_stop_quality :: string
  ca_target_quality :: string

definition entry_quality :: "json option \<Rightarrow> dec \<Rightarrow> string" where
  "entry_quality zone price =
     (case zone of
        Some (JObject _) \<Rightarrow>
          (case (json_decimal (json_get zone ''lower''), json_decimal (json_get zone ''upper'')) of
             (Some (Finite low), Some (Finite high)) \<Rightarrow>
               if \<not> (0 < low \<and> low \<le> high) then ''NOT_EVALUABLE_INVALID_RECORDED_ENTRY_ZONE''
               else if low \<le> price \<and> price \<le> high then ''FILL_WITHIN_RECORDED_ENTRY_ZONE''
               else ''FILL_OUTSIDE_RECORDED_ENTRY_ZONE''
           | _ \<Rightarrow> ''NOT_EVALUABLE_INVALID_RECORDED_ENTRY_ZONE'')
      | _ \<Rightarrow> ''NOT_EVALUABLE_NO_RECORDED_ENTRY_ZONE'')"

text \<open>The evidence stands for the decision when it was recorded at it, no later than the entry.\<close>

definition causal_evidence :: "decision_evidence \<Rightarrow> datetime \<Rightarrow> bool" where
  "causal_evidence e entry_time \<longleftrightarrow> de_status e = ''RECORDED_AT_DECISION'' \<and> is_aware entry_time \<and>
     (case de_as_of e of None \<Rightarrow> False | Some t \<Rightarrow> instant t \<le> instant entry_time)"

definition selected_scenario :: "json option \<Rightarrow> string option" where
  "selected_scenario state =
     (case (json_get state ''selected_scenario_id'', json_get state ''scenarios'') of
        (Some (JText selected), Some (JList rows)) \<Rightarrow>
          if list_ex (\<lambda>row. json_get (Some row) ''scenario_id'' = Some (JText selected)) rows
          then Some selected else None
      | _ \<Rightarrow> None)"

definition closure_build :: "decision_evidence \<Rightarrow> datetime \<Rightarrow> dec \<Rightarrow> string \<Rightarrow> closure_assessment" where
  "closure_build e entry_time price exit_reason =
     (let causal = causal_evidence e entry_time;
          factors = (if causal then de_factors e else [])
      in \<lparr>ca_decision_evidence_sha256 = de_sha256 e,
          ca_decision_lineage_status =
            (if causal then ''CAUSAL_DECISION_EVIDENCE''
             else ''NOT_EVALUABLE_MISSING_OR_NONCAUSAL_DECISION_EVIDENCE''),
          ca_selected_scenario_id = selected_scenario (map_of factors ''state''),
          ca_entry_quality = entry_quality (map_of factors ''entry_zone'') price,
          ca_stop_quality =
            (if exit_reason \<in> {''HARD_STOP'', ''STOP_LOSS_EXIT''} then ''INITIAL_STOP_EXIT_RECORDED''
             else if exit_reason \<in> {''TRAILING_STOP'', ''TRAILING_STOP_EXIT''} then ''TRAILING_STOP_EXIT_RECORDED''
             else ''NO_STOP_EXIT_RECORDED''),
          ca_target_quality =
            (if exit_reason \<in> {''TARGET'', ''TAKE_PROFIT_EXIT''} then ''TARGET_EXIT_RECORDED''
             else ''NO_FINAL_TARGET_EXIT_RECORDED'')\<rparr>)"

section \<open>Properties\<close>

lemma no_evidence_valid:
  "encoded \<le> 1000000 \<Longrightarrow>
   decision_evidence_post_init edig rdig encoded (no_evidence edig) = Inr (no_evidence edig)"
  by (simp add: no_evidence_def decision_evidence_post_init_def registry_checks_def Let_def evidence_body_def)

text \<open>
  Evidence recorded after the entry never vouches for a trade: without causal evidence the
  assessment names no scenario and calls the entry not evaluable.
\<close>

lemma closure_needs_causal_evidence:
  assumes "\<not> causal_evidence e entry_time"
  shows "ca_selected_scenario_id (closure_build e entry_time price why) = None"
    and "ca_entry_quality (closure_build e entry_time price why) = ''NOT_EVALUABLE_NO_RECORDED_ENTRY_ZONE''"
  using assms
  by (simp_all add: closure_build_def selected_scenario_def entry_quality_def json_get_def)

text \<open>A scenario the assessment names is one the evidence lists.\<close>

lemma selected_scenario_listed:
  assumes "selected_scenario state = Some i"
  shows "\<exists>rows. json_get state ''scenarios'' = Some (JList rows) \<and>
    (\<exists>row \<in> set rows. json_get (Some row) ''scenario_id'' = Some (JText i))"
  using assms
  by (auto simp: selected_scenario_def list_ex_iff split: option.splits json.splits if_splits)

end
