(* ===== verification/Trade_Candidate.thy ===== *)
theory Trade_Candidate
  imports Trade_Attribution Domain_Enums
begin

text \<open>
  \<^verbatim>\<open>TradeCandidate\<close>, \<^verbatim>\<open>PriceZone\<close>, \<^verbatim>\<open>StopCandidate\<close> and \<^verbatim>\<open>TargetCandidate\<close> of \<^verbatim>\<open>domain.py\<close> and the part
  of \<^verbatim>\<open>MarketSnapshot\<close> of \<^verbatim>\<open>schemas.py\<close> that sizing reads. A float is a rational number, infinite or
  not a number; the nested mappings of a snapshot are \<open>meta\<close> values, in which a number is given by
  its \<^verbatim>\<open>str()\<close>.
\<close>

section \<open>Values\<close>

datatype pyfloat = FlFinite rat | FlInfinite | FlNaN

definition float_within :: "rat \<Rightarrow> rat \<Rightarrow> pyfloat \<Rightarrow> bool" where
  "float_within lo hi v \<longleftrightarrow> (case v of FlFinite x \<Rightarrow> lo \<le> x \<and> x \<le> hi | _ \<Rightarrow> False)"

datatype meta = MText string | MNumber string | MBool bool | MOther | MMap "(string \<times> meta) list"

definition finite_decimal :: "string \<Rightarrow> dec option" where
  "finite_decimal s = (case parse_decimal s of Some (Finite x) \<Rightarrow> Some x | _ \<Rightarrow> None)"

definition metadata_decimal :: "meta option \<Rightarrow> dec option" where
  "metadata_decimal value =
     (case value of
        Some (MText s) \<Rightarrow> finite_decimal s
      | Some (MNumber s) \<Rightarrow> finite_decimal s
      | _ \<Rightarrow> None)"

section \<open>Zones and planning evidence\<close>

record price_zone =
  pz_lower :: dec
  pz_upper :: dec

definition price_zone_post_init :: "price_zone \<Rightarrow> price_zone result" where
  "price_zone_post_init z = validate
     [(pz_lower z < 0 \<or> pz_upper z < 0, ''price zone values must be finite and non-negative''),
      (pz_lower z > pz_upper z, ''price zone lower cannot exceed upper'')] z"

record stop_candidate =
  sc_source :: string
  sc_source_method :: string
  sc_source_family :: string
  sc_timeframe :: string
  sc_structural_meaning :: string
  sc_price :: dec
  sc_distance :: dec
  sc_atr_distance :: dec
  sc_selected :: bool
  sc_reason :: string
  sc_spread_buffer :: "dec option"
  sc_slippage_buffer :: "dec option"

definition below_zero :: "dec option \<Rightarrow> bool" where
  "below_zero v \<longleftrightarrow> (case v of None \<Rightarrow> False | Some x \<Rightarrow> x < 0)"

definition stop_candidate_post_init :: "stop_candidate \<Rightarrow> stop_candidate result" where
  "stop_candidate_post_init s = validate
     [(list_ex blank [sc_source s, sc_source_method s, sc_source_family s, sc_timeframe s,
         sc_structural_meaning s, sc_reason s], ''stop candidate requires provenance and rationale''),
      (list_ex (\<lambda>x. x < 0) [sc_price s, sc_distance s, sc_atr_distance s],
       ''stop candidate measurements must be finite''),
      (sc_price s \<le> 0, ''stop candidate price must be positive''),
      (below_zero (sc_spread_buffer s) \<or> below_zero (sc_slippage_buffer s),
       ''stop buffer must be nonnegative when measured'')] s"

record target_candidate =
  tg_source :: string
  tg_evidence_ref :: string
  tg_source_family :: string
  tg_timeframe :: string
  tg_price :: dec
  tg_observed_price :: dec
  tg_structural_strength :: pyfloat
  tg_selected :: bool
  tg_reason :: string

definition target_candidate_post_init :: "target_candidate \<Rightarrow> target_candidate result" where
  "target_candidate_post_init t = validate
     [(list_ex blank [tg_source t, tg_evidence_ref t, tg_source_family t, tg_timeframe t, tg_reason t],
       ''target candidate requires provenance and rationale''),
      (list_ex (\<lambda>x. x \<le> 0) [tg_price t, tg_observed_price t],
       ''target candidate prices must be finite and positive''),
      (\<not> float_within 0 1 (tg_structural_strength t),
       ''target structural strength must be between zero and one'')] t"

section \<open>The candidate\<close>

record trade_candidate =
  tc_candidate_id :: string
  tc_snapshot_id :: string
  tc_timestamp :: datetime
  tc_symbol :: string
  tc_timeframe :: string
  tc_action :: action
  tc_setup_name :: string
  tc_status :: candidate_status
  tc_entry_zone :: price_zone
  tc_invalidation_level :: dec
  tc_stop_loss :: dec
  tc_take_profit_levels :: "dec list"
  tc_trailing_stop :: dec
  tc_atr :: dec
  tc_risk_reward :: dec
  tc_score :: pyfloat
  tc_confidence :: pyfloat
  tc_ranking_score :: "pyfloat option"
  tc_promotion_status :: validation_status
  tc_inventory_action :: string
  tc_evidence :: "string list"
  tc_blockers :: "string list"
  tc_market_type :: string
  tc_scenario_id :: "string option"
  tc_scenario_type :: "string option"
  tc_scenario_state :: "string option"
  tc_scenario_invalidation :: "string option"
  tc_structural_risk_reward :: "dec option"
  tc_net_risk_reward :: "dec option"
  tc_estimated_round_trip_cost_ratio :: "dec option"
  tc_expected_r :: "dec option"
  tc_probability_calibration_state :: string
  tc_entry_trigger :: string
  tc_entry_state :: string
  tc_entry_expiry :: "datetime option"
  tc_target_sources :: "string list"
  tc_decision_evidence :: decision_evidence
  tc_target_net_risk_rewards :: "dec list"
  tc_target_conditional_pnl_per_unit :: "dec list"
  tc_signed_funding_cost_ratio :: "dec option"
  tc_stop_alternatives :: "(string \<times> dec) list"
  tc_stop_candidates :: "stop_candidate list"
  tc_target_candidates :: "target_candidate list"

definition entry_price :: "trade_candidate \<Rightarrow> dec" where
  "entry_price c = d_quot (d_add (pz_lower (tc_entry_zone c)) (pz_upper (tc_entry_zone c))) 2"

definition normalize_market_type :: "string \<Rightarrow> string result" where
  "normalize_market_type market_type =
     (let normalized = py_upper (py_strip market_type)
      in validate
        [(normalized = [], ''market_type cannot be empty''),
         (normalized \<notin> {''SPOT'', ''USD_M_FUTURES''}, ''market_type must be SPOT or USD_M_FUTURES'')]
        normalized)"

definition candidate_identity :: "trade_candidate \<Rightarrow> unit result" where
  "candidate_identity c = validate
     [(blank (tc_candidate_id c), ''candidate_id cannot be empty''),
      (blank (tc_snapshot_id c), ''snapshot_id cannot be empty''),
      (blank (tc_symbol c), ''symbol cannot be empty''),
      (blank (tc_timeframe c), ''timeframe cannot be empty''),
      (blank (tc_setup_name c), ''setup_name cannot be empty''),
      (\<not> is_aware (tc_timestamp c), ''candidate timestamp must be timezone-aware''),
      (tc_action c \<notin> {BUY, SELL}, ''trade candidate action must be BUY or SELL'')] ()"

definition candidate_values :: "trade_candidate \<Rightarrow> unit result" where
  "candidate_values c = validate
     [(tc_market_type c = ''SPOT'' \<and> tc_action c = SELL \<and> tc_inventory_action c = ''NONE'',
       ''Spot SELL candidate requires inventory_action''),
      (tc_invalidation_level c \<le> 0, ''invalidation_level must be positive''),
      (tc_stop_loss c \<le> 0, ''stop_loss must be positive''),
      (tc_trailing_stop c \<le> 0, ''trailing_stop must be positive''),
      (tc_atr c \<le> 0, ''atr must be positive''),
      (tc_risk_reward c \<le> 0, ''risk_reward must be positive''),
      (tc_take_profit_levels c = [] \<or> list_ex (\<lambda>x. x \<le> 0) (tc_take_profit_levels c),
       ''take_profit_levels must contain positive values''),
      (\<not> float_within 0 100 (tc_score c), ''score must be finite and between 0 and 100''),
      (\<not> float_within 0 1 (tc_confidence c), ''confidence must be finite and between 0 and 1''),
      (case tc_ranking_score c of None \<Rightarrow> False | Some v \<Rightarrow> \<not> float_within 0 100 v,
       ''ranking_score must be finite and between 0 and 100'')] ()"

definition not_positive :: "dec option \<Rightarrow> bool" where
  "not_positive v \<longleftrightarrow> (case v of None \<Rightarrow> False | Some x \<Rightarrow> x \<le> 0)"

definition candidate_plan_metrics :: "trade_candidate \<Rightarrow> unit result" where
  "candidate_plan_metrics c = validate
     [(not_positive (tc_structural_risk_reward c), ''structural_risk_reward must be finite and positive''),
      (not_positive (tc_net_risk_reward c), ''net_risk_reward must be finite and positive''),
      (below_zero (tc_estimated_round_trip_cost_ratio c), ''estimated round-trip cost ratio is invalid''),
      (tc_probability_calibration_state c \<notin> {''PROBABILITY_NOT_CALIBRATED'', ''OOS_CALIBRATED''},
       ''probability calibration state is invalid''),
      (tc_expected_r c \<noteq> None \<and> tc_probability_calibration_state c \<noteq> ''OOS_CALIBRATED'',
       ''expected_r requires OOS-calibrated probability'')] ()"

definition candidate_entry_contract :: "trade_candidate \<Rightarrow> unit result" where
  "candidate_entry_contract c = validate
     [(case tc_entry_expiry c of None \<Rightarrow> False | Some t \<Rightarrow> \<not> is_aware t,
       ''entry_expiry must be timezone-aware''),
      (case tc_entry_expiry c of None \<Rightarrow> False | Some t \<Rightarrow> instant t \<le> instant (tc_timestamp c),
       ''entry_expiry must be after candidate timestamp''),
      (blank (tc_entry_trigger c) \<or> tc_entry_state c \<notin>
         {''ENTRY_NOT_READY'', ''ENTRY_VALID'', ''ENTRY_MISSED'', ''ENTRY_INVALIDATED''},
       ''entry trigger/state is invalid''),
      (list_ex blank (tc_target_sources c), ''target_sources cannot contain blank values'')] ()"

definition candidate_economics :: "trade_candidate \<Rightarrow> unit result" where
  "candidate_economics c =
     (let ladder = length (tc_take_profit_levels c);
          mismatch = (\<lambda>xs. xs \<noteq> [] \<and> length xs \<noteq> ladder)
      in validate
        [(mismatch (tc_target_net_risk_rewards c) \<or> mismatch (tc_target_conditional_pnl_per_unit c),
          ''target economics must be finite and match the target ladder''),
         (list_ex (\<lambda>(source, price). blank source \<or> price \<le> 0) (tc_stop_alternatives c),
          ''stop alternatives require observed prices and provenance'')] ())"

definition stop_evidence_off :: "trade_candidate \<Rightarrow> stop_candidate \<Rightarrow> bool" where
  "stop_evidence_off c row \<longleftrightarrow>
     sc_distance row \<noteq> d_abs (d_sub (entry_price c) (sc_price row))
     \<or> sc_atr_distance row \<noteq> d_quot (sc_distance row) (tc_atr c)"

definition candidate_planning :: "trade_candidate \<Rightarrow> unit result" where
  "candidate_planning c =
     (let stops = tc_stop_candidates c; targets = tc_target_candidates c;
          selected_targets = map tg_price (filter tg_selected targets)
      in validate
        [(stops \<noteq> [] \<and> map sc_price (filter sc_selected stops) \<noteq> [tc_stop_loss c],
          ''selected stop evidence must match the initial stop''),
         (stops \<noteq> [] \<and> list_ex (stop_evidence_off c) stops,
          ''stop evidence distance must match entry geometry''),
         (targets \<noteq> [] \<and> selected_targets \<noteq> [] \<and> selected_targets \<noteq> tc_take_profit_levels c,
          ''selected target evidence must match the ladder''),
         (targets \<noteq> [] \<and> selected_targets = [] \<and> tc_status c = CS_READY_FOR_RISK,
          ''ready plan requires a selected structural target'')] ())"

definition missing_text :: "string option \<Rightarrow> bool" where
  "missing_text v \<longleftrightarrow> (case v of None \<Rightarrow> True | Some s \<Rightarrow> blank s)"

definition candidate_scenario_contract :: "trade_candidate \<Rightarrow> unit result" where
  "candidate_scenario_contract c =
     (case tc_scenario_id c of
        None \<Rightarrow> validate
          [(tc_scenario_type c \<noteq> None \<or> tc_scenario_state c \<noteq> None \<or> tc_scenario_invalidation c \<noteq> None,
            ''scenario metadata requires scenario_id'')] ()
      | Some i \<Rightarrow> validate
          [(blank i, ''scenario_id cannot be blank''),
           (missing_text (tc_scenario_type c), ''scenario_type is required for a bound scenario''),
           (missing_text (tc_scenario_state c), ''scenario_state is required for a bound scenario''),
           (case tc_scenario_invalidation c of None \<Rightarrow> False | Some v \<Rightarrow> blank v,
            ''scenario_invalidation cannot be blank'')] ())"

definition candidate_geometry :: "trade_candidate \<Rightarrow> unit result" where
  "candidate_geometry c =
     (let entry = entry_price c
      in if tc_action c = BUY
         then validate [(tc_stop_loss c \<ge> entry \<or> list_ex (\<lambda>x. x \<le> entry) (tc_take_profit_levels c),
                         ''BUY candidate geometry is invalid'')] ()
         else validate [(tc_stop_loss c \<le> entry \<or> list_ex (\<lambda>x. x \<ge> entry) (tc_take_profit_levels c),
                         ''SELL candidate geometry is invalid'')] ())"

text \<open>The constructor: the checks in the source's order, on the normalised symbol and market type.\<close>

definition trade_candidate_post_init :: "trade_candidate \<Rightarrow> trade_candidate result" where
  "trade_candidate_post_init c0 =
     bindE (candidate_identity c0) (\<lambda>_.
     bindE (normalize_market_type (tc_market_type c0)) (\<lambda>market_type.
       let c = c0\<lparr>tc_symbol := py_upper (py_strip (tc_symbol c0)), tc_market_type := market_type\<rparr>
       in bindE (candidate_values c) (\<lambda>_.
          bindE (candidate_plan_metrics c) (\<lambda>_.
          bindE (candidate_entry_contract c) (\<lambda>_.
          bindE (candidate_economics c) (\<lambda>_.
          bindE (candidate_planning c) (\<lambda>_.
          bindE (candidate_scenario_contract c) (\<lambda>_.
          bindE (candidate_geometry c) (\<lambda>_.
            validate [(tc_status c = CS_READY_FOR_RISK \<and> tc_blockers c \<noteq> [],
                       ''READY_FOR_RISK candidate cannot contain blockers'')] c)))))))))"

definition candidate_ok :: "trade_candidate \<Rightarrow> bool" where
  "candidate_ok c \<longleftrightarrow> trade_candidate_post_init c = Inr c \<and> price_zone_post_init (tc_entry_zone c) = Inr (tc_entry_zone c)"

section \<open>The snapshot\<close>

record market_snapshot =
  ms_snapshot_id :: string
  ms_created_at :: datetime
  ms_market_type :: string
  ms_symbol :: string
  ms_timeframes :: "string list"
  ms_latest_price :: "dec option"
  ms_bid :: "dec option"
  ms_ask :: "dec option"
  ms_spread :: "dec option"
  ms_server_time :: "datetime option"
  ms_market_metadata :: "(string \<times> meta) list"
  ms_derivatives_snapshot :: "(string \<times> meta) list"

definition market_snapshot_post_init :: "market_snapshot \<Rightarrow> market_snapshot result" where
  "market_snapshot_post_init s =
     (let symbol = py_upper (py_strip (ms_symbol s)); market_type = py_upper (py_strip (ms_market_type s))
      in validate
        [(blank (ms_snapshot_id s), ''snapshot_id cannot be empty''),
         (\<not> is_aware (ms_created_at s), ''created_at must be timezone-aware''),
         (case ms_server_time s of None \<Rightarrow> False | Some t \<Rightarrow> \<not> is_aware t, ''server_time must be timezone-aware''),
         (symbol = [], ''symbol cannot be empty''),
         (market_type \<notin> {''SPOT'', ''USD_M_FUTURES''}, ''market_type must be SPOT or USD_M_FUTURES''),
         (ms_timeframes s = [] \<or> list_ex blank (ms_timeframes s), ''timeframes must contain non-empty values''),
         (below_zero (ms_latest_price s), ''latest_price must be finite and cannot be negative''),
         (below_zero (ms_bid s), ''bid must be finite and cannot be negative''),
         (below_zero (ms_ask s), ''ask must be finite and cannot be negative''),
         (below_zero (ms_spread s), ''spread must be finite and cannot be negative''),
         (case (ms_bid s, ms_ask s) of (Some b, Some a) \<Rightarrow> b > a | _ \<Rightarrow> False, ''bid cannot exceed ask'')]
        (s\<lparr>ms_symbol := symbol, ms_market_type := market_type\<rparr>))"

section \<open>What a constructed candidate guarantees\<close>

lemma candidate_ok_checks:
  assumes "candidate_ok c"
  shows "candidate_values c = Inr ()" "candidate_geometry c = Inr ()" "candidate_plan_metrics c = Inr ()"
    "tc_action c \<in> {BUY, SELL}" "tc_market_type c \<in> {''SPOT'', ''USD_M_FUTURES''}"
    "0 \<le> pz_lower (tc_entry_zone c)" "pz_lower (tc_entry_zone c) \<le> pz_upper (tc_entry_zone c)"
proof -
  obtain mt where id: "candidate_identity c = Inr ()" and mt: "normalize_market_type (tc_market_type c) = Inr mt"
    and rest: "(let c' = c\<lparr>tc_symbol := py_upper (py_strip (tc_symbol c)), tc_market_type := mt\<rparr>
       in bindE (candidate_values c') (\<lambda>_.
          bindE (candidate_plan_metrics c') (\<lambda>_.
          bindE (candidate_entry_contract c') (\<lambda>_.
          bindE (candidate_economics c') (\<lambda>_.
          bindE (candidate_planning c') (\<lambda>_.
          bindE (candidate_scenario_contract c') (\<lambda>_.
          bindE (candidate_geometry c') (\<lambda>_.
            validate [(tc_status c' = CS_READY_FOR_RISK \<and> tc_blockers c' \<noteq> [],
                       ''READY_FOR_RISK candidate cannot contain blockers'')] c')))))))) = Inr c"
    using assms unfolding candidate_ok_def trade_candidate_post_init_def bindE_eq_Inr by auto
  have c: "c\<lparr>tc_symbol := py_upper (py_strip (tc_symbol c)), tc_market_type := mt\<rparr> = c"
    using rest by (simp add: Let_def)
  show "candidate_values c = Inr ()" "candidate_geometry c = Inr ()" "candidate_plan_metrics c = Inr ()"
    using rest unfolding Let_def c by auto
  have "tc_market_type c = mt" by (subst c [symmetric]) simp
  with mt show "tc_market_type c \<in> {''SPOT'', ''USD_M_FUTURES''}" by (auto simp: normalize_market_type_def Let_def)
  show "tc_action c \<in> {BUY, SELL}" using id by (simp add: candidate_identity_def)
  show "0 \<le> pz_lower (tc_entry_zone c)" "pz_lower (tc_entry_zone c) \<le> pz_upper (tc_entry_zone c)"
    using assms by (auto simp: candidate_ok_def price_zone_post_init_def)
qed

text \<open>The stop is on the losing side of the entry, every target on the winning side.\<close>

lemma candidate_ok_geometry:
  assumes "candidate_ok c"
  shows "if tc_action c = BUY
    then tc_stop_loss c < entry_price c \<and> (\<forall>x \<in> set (tc_take_profit_levels c). entry_price c < x)
    else entry_price c < tc_stop_loss c \<and> (\<forall>x \<in> set (tc_take_profit_levels c). x < entry_price c)"
  using candidate_ok_checks(2) [OF assms]
  by (auto simp: candidate_geometry_def Let_def list_ex_iff not_le split: if_splits)

lemma candidate_ok_entry_pos:
  assumes "candidate_ok c" shows "0 < entry_price c"
proof (cases "tc_action c = BUY")
  case True
  moreover have "0 < tc_stop_loss c"
    using candidate_ok_checks(1) [OF assms] by (simp add: candidate_values_def not_le)
  ultimately show ?thesis using candidate_ok_geometry [OF assms] by simp
next
  case False
  have "tc_take_profit_levels c \<noteq> []" "\<forall>x \<in> set (tc_take_profit_levels c). 0 < x"
    using candidate_ok_checks(1) [OF assms] by (auto simp: candidate_values_def list_ex_iff not_le)
  then have "0 < hd (tc_take_profit_levels c)" "hd (tc_take_profit_levels c) < entry_price c"
    using candidate_ok_geometry [OF assms] False by simp_all
  then show ?thesis by simp
qed

end
