(* ===== verification/Risk_Engine.thy ===== *)
theory Risk_Engine
  imports Trade_Candidate Symbol_Filters
begin

text \<open>
  \<^verbatim>\<open>core/contracts/risk.py\<close>, \<^verbatim>\<open>domain/risk_geometry.py\<close> and \<^verbatim>\<open>risk.py\<close>: the capital-protection limits,
  what is known about the account, the admission checks of a candidate, and the engine that sizes a
  position and collects every reason to refuse it. Arithmetic is the 28-digit decimal context.
\<close>

section \<open>Limits\<close>

record virtual_market_policy =
  vm_risk_per_trade_ratio :: dec
  vm_maximum_open_risk_ratio :: dec
  vm_maximum_positions :: int

definition not_a_ratio :: "dec \<Rightarrow> bool" where
  "not_a_ratio v \<longleftrightarrow> v \<le> 0 \<or> v > 1"

definition virtual_market_post_init :: "virtual_market_policy \<Rightarrow> virtual_market_policy result" where
  "virtual_market_post_init p = validate
     [(list_ex not_a_ratio [vm_risk_per_trade_ratio p, vm_maximum_open_risk_ratio p],
       ''virtual market risk ratios must be within zero and one''),
      (vm_maximum_positions p < 1, ''virtual market maximum_positions must be positive'')] p"

record risk_config =
  rc_max_risk_per_trade :: dec
  rc_max_trade_usdt :: dec
  rc_daily_loss_limit_ratio :: dec
  rc_max_open_position_size_usdt :: dec
  rc_max_inventory_allocation_ratio :: dec
  rc_minimum_risk_reward :: dec
  rc_maximum_spread_ratio :: dec
  rc_maximum_slippage_ratio :: dec
  rc_repeated_loss_limit :: int
  rc_virtual_market :: virtual_market_policy

definition default_risk_config :: risk_config where
  "default_risk_config = \<lparr>rc_max_risk_per_trade = 1 / 100, rc_max_trade_usdt = 100,
     rc_daily_loss_limit_ratio = 3 / 100, rc_max_open_position_size_usdt = 500,
     rc_max_inventory_allocation_ratio = 25 / 100, rc_minimum_risk_reward = 2,
     rc_maximum_spread_ratio = 5 / 1000, rc_maximum_slippage_ratio = 3 / 1000, rc_repeated_loss_limit = 3,
     rc_virtual_market = \<lparr>vm_risk_per_trade_ratio = 5 / 1000, vm_maximum_open_risk_ratio = 2 / 100,
       vm_maximum_positions = 4\<rparr>\<rparr>"

definition risk_config_post_init :: "risk_config \<Rightarrow> risk_config result" where
  "risk_config_post_init c = validate
     [(list_ex not_a_ratio [rc_max_risk_per_trade c, rc_daily_loss_limit_ratio c,
         rc_max_inventory_allocation_ratio c, rc_maximum_spread_ratio c, rc_maximum_slippage_ratio c],
       ''risk ratios must be within zero and one''),
      (min (rc_max_trade_usdt c) (min (rc_max_open_position_size_usdt c) (rc_minimum_risk_reward c)) \<le> 0,
       ''risk limits must be positive''),
      (rc_repeated_loss_limit c < 1, ''repeated_loss_limit must be positive'')] c"

definition config_ok :: "risk_config \<Rightarrow> bool" where
  "config_ok c \<longleftrightarrow> risk_config_post_init c = Inr c \<and>
     virtual_market_post_init (rc_virtual_market c) = Inr (rc_virtual_market c)"

section \<open>The account\<close>

record risk_context =
  rx_equity_usdt :: "dec option"
  rx_current_exposure_usdt :: dec
  rx_open_risk_usdt :: dec
  rx_open_position_count :: int
  rx_inventory_quantity :: "dec option"
  rx_daily_loss_usdt :: dec
  rx_estimated_slippage_ratio :: dec
  rx_consecutive_losses :: int
  rx_cooldown_active :: bool

definition risk_context_post_init :: "risk_context \<Rightarrow> risk_context result" where
  "risk_context_post_init x = validate
     [(rx_current_exposure_usdt x < 0, ''current_exposure_usdt must be finite and non-negative''),
      (rx_open_risk_usdt x < 0, ''open_risk_usdt must be finite and non-negative''),
      (rx_daily_loss_usdt x < 0, ''daily_loss_usdt must be finite and non-negative''),
      (rx_estimated_slippage_ratio x < 0, ''estimated_slippage_ratio must be finite and non-negative''),
      (not_positive (rx_equity_usdt x), ''equity_usdt must be positive when known''),
      (below_zero (rx_inventory_quantity x), ''inventory_quantity cannot be negative''),
      (rx_consecutive_losses x < 0, ''consecutive_losses cannot be negative''),
      (rx_open_position_count x < 0, ''open_position_count cannot be negative'')] x"

record risk_assessment =
  ra_candidate_id :: string
  ra_approved :: bool
  ra_size_usdt :: dec
  ra_quantity :: dec
  ra_risk_amount_usdt :: dec
  ra_blockers :: "string list"
  ra_scenario_id :: "string option"

definition risk_assessment_post_init :: "risk_assessment \<Rightarrow> risk_assessment result" where
  "risk_assessment_post_init a =
     (let least = min (ra_size_usdt a) (min (ra_quantity a) (ra_risk_amount_usdt a))
      in validate
        [(blank (ra_candidate_id a), ''candidate_id cannot be empty''),
         (case ra_scenario_id a of None \<Rightarrow> False | Some i \<Rightarrow> blank i, ''scenario_id cannot be blank''),
         (least < 0, ''risk assessment values cannot be negative''),
         (ra_approved a \<and> ra_blockers a \<noteq> [], ''approved risk assessment cannot contain blockers''),
         (ra_approved a \<and> least \<le> 0, ''approved risk assessment values must be positive'')] a)"

section \<open>Admission of a candidate\<close>

definition candidate_risk_distance :: "trade_candidate \<Rightarrow> dec" where
  "candidate_risk_distance c =
     (let distance = d_abs (d_sub (entry_price c) (tc_invalidation_level c))
      in case tc_scenario_id c of
           None \<Rightarrow> distance
         | Some _ \<Rightarrow>
             let wider = max distance (d_abs (d_sub (entry_price c) (tc_stop_loss c)))
             in case tc_estimated_round_trip_cost_ratio c of
                  None \<Rightarrow> wider
                | Some cost \<Rightarrow> d_add wider (d_mul (entry_price c) cost))"

text \<open>\<^verbatim>\<open>take_profit_levels[0]\<close>, of a ladder the constructor keeps non-empty.\<close>

definition first_target :: "trade_candidate \<Rightarrow> dec result" where
  "first_target c = (case tc_take_profit_levels c of [] \<Rightarrow> Inl IndexError | x # _ \<Rightarrow> Inr x)"

definition candidate_economics_blockers :: "trade_candidate \<Rightarrow> string list result" where
  "candidate_economics_blockers c =
     (case (tc_estimated_round_trip_cost_ratio c, tc_net_risk_reward c) of
        (Some cost, Some net) \<Rightarrow>
          bindE (first_target c) (\<lambda>target.
            let distance = candidate_risk_distance c;
                reward = d_sub (d_abs (d_sub target (entry_price c))) (d_mul (entry_price c) cost)
            in Inr (if distance \<le> 0 \<or> net > d_quot reward distance
                    then [''NET_RISK_REWARD_INCONSISTENT''] else []))
      | _ \<Rightarrow> Inr [''NET_RISK_REWARD_UNAVAILABLE''])"

definition scenario_range_blockers :: "trade_candidate \<Rightarrow> string list" where
  "scenario_range_blockers c =
     (case Option.bind (tc_scenario_invalidation c) finite_decimal of
        None \<Rightarrow> [''SCENARIO_INVALIDATION_UNAVAILABLE_OR_INVALID'']
      | Some i \<Rightarrow>
          if \<not> (if tc_action c = BUY then 0 < i \<and> i < pz_lower (tc_entry_zone c)
                else i > pz_upper (tc_entry_zone c))
          then [''SCENARIO_INVALIDATION_UNAVAILABLE_OR_INVALID'']
          else if (tc_action c = BUY \<and> (tc_stop_loss c < i \<or> tc_invalidation_level c < i))
               \<or> (tc_action c = SELL \<and> (tc_stop_loss c > i \<or> tc_invalidation_level c > i))
          then [''CANDIDATE_RISK_EXTENDS_BEYOND_SCENARIO''] else [])"

definition candidate_safety_blockers :: "trade_candidate \<Rightarrow> market_snapshot \<Rightarrow> string list result" where
  "candidate_safety_blockers c s =
     (let common = tc_blockers c
        @ flag_if (tc_snapshot_id c \<noteq> ms_snapshot_id s \<or> tc_symbol c \<noteq> ms_symbol s
              \<or> tc_timestamp c \<noteq> ms_created_at s \<or> tc_market_type c \<noteq> py_upper (ms_market_type s)
              \<or> tc_timeframe c \<notin> set (ms_timeframes s)) ''CANDIDATE_SNAPSHOT_IDENTITY_MISMATCH''
        @ flag_if (tc_status c \<noteq> CS_READY_FOR_RISK) ''CANDIDATE_NOT_READY_FOR_RISK''
        @ flag_if (case tc_entry_expiry c of None \<Rightarrow> False | Some t \<Rightarrow> instant (ms_created_at s) \<ge> instant t)
            ''CANDIDATE_ENTRY_EXPIRED''
      in case tc_scenario_id c of
           None \<Rightarrow> Inr (dict_fromkeys common)
         | Some _ \<Rightarrow>
             bindE (candidate_economics_blockers c) (\<lambda>economics.
               Inr (dict_fromkeys (common
                 @ flag_if (tc_scenario_state c \<noteq> Some ''CONFIRMED'' \<or> tc_entry_state c \<noteq> ''ENTRY_VALID'')
                     ''SCENARIO_ENTRY_NOT_VALID''
                 @ flag_if (tc_entry_expiry c = None) ''ENTRY_EXPIRY_UNAVAILABLE''
                 @ scenario_range_blockers c @ economics))))"

section \<open>Stressed distances\<close>

definition structural_margin_loss_per_unit :: "dec \<Rightarrow> dec \<Rightarrow> dec \<Rightarrow> dec \<Rightarrow> dec \<Rightarrow> dec \<times> dec" where
  "structural_margin_loss_per_unit entry stop mark_price cost_and_funding_ratio mark_stress_ratio =
     (let sign = (if stop < entry then 1 else - 1);
          stressed_stop = d_sub stop (d_mul sign
            (d_add (d_abs (d_sub mark_price entry)) (d_mul entry mark_stress_ratio)));
          loss = d_add (d_abs (d_sub entry stressed_stop)) (d_mul entry cost_and_funding_ratio)
      in (stressed_stop, loss))"

definition execution_mapping :: "market_snapshot \<Rightarrow> (string \<times> meta) list option" where
  "execution_mapping s =
     (case map_of (ms_market_metadata s) ''historical_virtual_execution'' of
        None \<Rightarrow> Some (ms_derivatives_snapshot s)
      | Some (MMap m) \<Rightarrow> Some m
      | Some _ \<Rightarrow> None)"

definition margin_proof :: "market_snapshot \<Rightarrow> (string \<times> meta) list \<Rightarrow> (string \<times> meta) list option" where
  "margin_proof s raw =
     (case map_of raw ''structural_margin_context'' of
        Some (MMap proof) \<Rightarrow>
          if map_of proof ''snapshot_id'' = Some (MText (ms_snapshot_id s))
             \<and> map_of proof ''symbol'' = Some (MText (ms_symbol s))
             \<and> map_of proof ''margin_mode'' = Some (MText ''ISOLATED'')
          then Some proof else None
      | _ \<Rightarrow> None)"

definition stress_loss :: "trade_candidate \<Rightarrow> dec list \<Rightarrow> dec option" where
  "stress_loss c values =
     (case values of
        [mark, fee, slippage, spread, liquidation, funding, stress] \<Rightarrow>
          if mark \<le> 0 \<or> list_ex (\<lambda>x. x < 0) [fee, slippage, spread, liquidation, funding, stress] then None
          else
            let costs = max (case tc_estimated_round_trip_cost_ratio c of None \<Rightarrow> 0 | Some r \<Rightarrow> r)
                  (d_add (d_add (d_mul 2 (d_add (d_add fee slippage) spread)) liquidation) funding)
            in case structural_margin_loss_per_unit (entry_price c) (tc_stop_loss c) mark costs stress of
                 (stressed_stop, loss) \<Rightarrow> if stressed_stop > 0 then Some loss else None
      | _ \<Rightarrow> None)"

definition structural_sizing_distance :: "trade_candidate \<Rightarrow> market_snapshot \<Rightarrow> dec option" where
  "structural_sizing_distance c s =
     Option.bind (execution_mapping s) (\<lambda>raw.
       Option.bind (margin_proof s raw) (\<lambda>proof.
         let values = map metadata_decimal
               [map_of raw ''mark_price'', map_of raw ''fee_ratio'', map_of raw ''slippage_ratio'',
                map_of raw ''half_spread_ratio'', map_of raw ''liquidation_fee_ratio'',
                map_of proof ''adverse_funding_ratio'', map_of proof ''mark_stress_ratio'']
         in if None \<in> set values then None else stress_loss c (map the values)))"

section \<open>The engine\<close>

definition account_blockers :: "risk_config \<Rightarrow> trade_candidate \<Rightarrow> market_snapshot \<Rightarrow> risk_context \<Rightarrow>
    execution_surface \<Rightarrow> string list" where
  "account_blockers cfg c s x surface =
     flag_if (surface = BINANCE_MARKET \<and> tc_promotion_status c \<notin> {VS_PAPER_APPROVED, VS_LIVE_ELIGIBLE})
       ''STRATEGY_NOT_PROMOTED''
     @ flag_if (rx_equity_usdt x = None) ''EQUITY_UNKNOWN''
     @ flag_if (rx_cooldown_active x) ''STOP_LOSS_COOLDOWN_ACTIVE''
     @ flag_if (rx_consecutive_losses x \<ge> rc_repeated_loss_limit cfg) ''REPEATED_LOSS_CIRCUIT_BREAKER''
     @ flag_if (case rx_equity_usdt x of None \<Rightarrow> False
                | Some e \<Rightarrow> rx_daily_loss_usdt x \<ge> d_mul e (rc_daily_loss_limit_ratio cfg))
         ''DAILY_LOSS_LIMIT_REACHED''
     @ flag_if (rx_estimated_slippage_ratio x > rc_maximum_slippage_ratio cfg) ''SLIPPAGE_EXCEEDS_LIMIT''
     @ (case ms_latest_price s of
          None \<Rightarrow> [''LATEST_PRICE_INVALID'']
        | Some p \<Rightarrow>
            if p \<le> 0 then [''LATEST_PRICE_INVALID'']
            else flag_if (case ms_spread s of None \<Rightarrow> True | Some sp \<Rightarrow> d_quot sp p > rc_maximum_spread_ratio cfg)
                   ''SPREAD_EXCEEDS_LIMIT'')
     @ flag_if (tc_risk_reward c < rc_minimum_risk_reward cfg) ''RISK_REWARD_BELOW_MINIMUM''
     @ flag_if (tc_market_type c = ''USD_M_FUTURES'' \<and> tc_net_risk_reward c = None)
         ''FUTURES_NET_RISK_REWARD_UNAVAILABLE''
     @ flag_if (case tc_net_risk_reward c of None \<Rightarrow> False | Some r \<Rightarrow> r < rc_minimum_risk_reward cfg)
         ''NET_RISK_REWARD_BELOW_MINIMUM''
     @ flag_if (rx_open_position_count x \<ge> vm_maximum_positions (rc_virtual_market cfg))
         ''MAX_OPEN_POSITIONS_EXCEEDED''"

definition engine_stop_distance :: "risk_config \<Rightarrow> trade_candidate \<Rightarrow> market_snapshot \<Rightarrow>
    (string list \<times> dec) result" where
  "engine_stop_distance cfg c s =
     (let base = candidate_risk_distance c
      in if tc_market_type c = ''USD_M_FUTURES'' \<and> ''STRUCTURAL_PLAN_V2'' \<in> set (tc_evidence c)
         then case structural_sizing_distance c s of
                None \<Rightarrow> Inr ([''STRUCTURAL_RISK_SIZING_EVIDENCE_UNAVAILABLE''], 0)
              | Some stressed \<Rightarrow>
                  let distance = max base stressed;
                      reserve = d_sub distance (d_abs (d_sub (entry_price c) (tc_stop_loss c)))
                  in bindE (first_target c) (\<lambda>target.
                     bindE (d_div (d_sub (d_abs (d_sub target (entry_price c))) reserve) distance) (\<lambda>rr.
                       Inr (flag_if (rr < rc_minimum_risk_reward cfg) ''STRESSED_NET_RISK_REWARD_BELOW_MINIMUM'',
                            distance)))
         else Inr ([], base))"

definition distance_blockers :: "trade_candidate \<Rightarrow> risk_context \<Rightarrow> dec \<Rightarrow> string list" where
  "distance_blockers c x distance =
     flag_if (distance \<le> 0) ''STOP_DISTANCE_INVALID''
     @ flag_if (tc_market_type c = ''SPOT'' \<and> tc_action c = SELL \<and> rx_inventory_quantity x = None)
         ''INVENTORY_UNKNOWN_FOR_SPOT_SELL''"

definition notional_cap :: "risk_config \<Rightarrow> trade_candidate \<Rightarrow> risk_context \<Rightarrow> execution_surface \<Rightarrow> dec" where
  "notional_cap cfg c x surface =
     (let available = max 0 (d_sub (rc_max_open_position_size_usdt cfg) (rx_current_exposure_usdt x))
      in if surface = BINANCE_MARKET \<and> tc_promotion_status c = VS_LIVE_ELIGIBLE
         then min (rc_max_trade_usdt cfg) available else available)"

text \<open>The quantity before it is rounded to the lot size.\<close>

definition raw_quantity :: "risk_config \<Rightarrow> trade_candidate \<Rightarrow> risk_context \<Rightarrow> execution_surface \<Rightarrow> dec \<Rightarrow>
    dec \<Rightarrow> dec" where
  "raw_quantity cfg c x surface equity distance =
     (let entry = entry_price c;
          by_risk = d_quot (d_mul equity (vm_risk_per_trade_ratio (rc_virtual_market cfg))) distance;
          cap = notional_cap cfg c x surface;
          capped = (if d_mul by_risk entry > cap \<and> entry > 0 then d_quot cap entry else by_risk)
      in case rx_inventory_quantity x of
           None \<Rightarrow> capped
         | Some held \<Rightarrow>
             if tc_action c = SELL \<and> tc_market_type c = ''SPOT'' then min capped held else capped)"

definition size_position :: "risk_config \<Rightarrow> trade_candidate \<Rightarrow> risk_context \<Rightarrow> symbol_filters \<Rightarrow>
    execution_surface \<Rightarrow> dec \<Rightarrow> dec \<Rightarrow> (string list \<times> dec \<times> dec \<times> dec) result" where
  "size_position cfg c x f surface equity distance =
     (let quantity = ls_round_down (sf_lot_size f) (raw_quantity cfg c x surface equity distance);
          size = d_mul quantity (entry_price c);
          risk = d_mul quantity distance
      in bindE (validate_order f (entry_price c) quantity) (\<lambda>order_blockers.
           Inr (flag_if (d_add (rx_open_risk_usdt x) risk
                   > d_mul equity (vm_maximum_open_risk_ratio (rc_virtual_market cfg))) ''MAX_OPEN_RISK_EXCEEDED''
                @ order_blockers
                @ flag_if (quantity \<le> 0) ''ROUNDED_QUANTITY_IS_ZERO''
                @ flag_if (d_add size (rx_current_exposure_usdt x)
                    > d_mul equity (rc_max_inventory_allocation_ratio cfg)) ''MAX_INVENTORY_ALLOCATION_EXCEEDED'',
                quantity, size, risk)))"

definition engine_sizing :: "risk_config \<Rightarrow> trade_candidate \<Rightarrow> risk_context \<Rightarrow> symbol_filters \<Rightarrow>
    execution_surface \<Rightarrow> dec \<Rightarrow> (string list \<times> dec \<times> dec \<times> dec) result" where
  "engine_sizing cfg c x f surface distance =
     (case rx_equity_usdt x of
        None \<Rightarrow> Inr ([], 0, 0, 0)
      | Some equity \<Rightarrow>
          if distance > 0 then size_position cfg c x f surface equity distance else Inr ([], 0, 0, 0))"

definition risk_evaluate :: "risk_config \<Rightarrow> trade_candidate \<Rightarrow> market_snapshot \<Rightarrow> risk_context \<Rightarrow>
    symbol_filters \<Rightarrow> execution_surface \<Rightarrow> risk_assessment result" where
  "risk_evaluate cfg c s x f surface =
     bindE (candidate_safety_blockers c s) (\<lambda>safety.
     bindE (engine_stop_distance cfg c s) (\<lambda>(structural, distance).
     bindE (engine_sizing cfg c x f surface distance) (\<lambda>(sizing, quantity, size_usdt, risk).
       let unique_blockers = dict_fromkeys (safety @ account_blockers cfg c s x surface @ structural
             @ distance_blockers c x distance @ sizing)
       in risk_assessment_post_init
            \<lparr>ra_candidate_id = tc_candidate_id c, ra_approved = (unique_blockers = []),
             ra_size_usdt = size_usdt, ra_quantity = quantity, ra_risk_amount_usdt = risk,
             ra_blockers = unique_blockers, ra_scenario_id = tc_scenario_id c\<rparr>)))"

definition risk_evaluate_many :: "risk_config \<Rightarrow> trade_candidate list \<Rightarrow> market_snapshot \<Rightarrow> risk_context \<Rightarrow>
    symbol_filters \<Rightarrow> int \<Rightarrow> execution_surface \<Rightarrow> risk_assessment list result" where
  "risk_evaluate_many cfg cs s x f limit surface =
     (if \<not> (1 \<le> limit \<and> limit \<le> 5)
      then Inl (ValueError ''risk candidate limit must be between one and five'')
      else mapE (\<lambda>c. risk_evaluate cfg c s x f surface) (take (nat limit) cs))"

section \<open>The risk agent's result\<close>

text \<open>
  \<^verbatim>\<open>agents/risk_gate.py\<close> reports the best assessment in an agent result, whose metadata
  \<^verbatim>\<open>RiskAssessment.from_agent_result\<close> reads back downstream. \<open>texts\<close> are the \<^verbatim>\<open>str()\<close> of size, quantity
  and risk amount; the metadata keys nothing reads back are left out.
\<close>

record agent_result =
  ag_agent_name :: string
  ag_blockers :: "string list"
  ag_calculation_metadata :: "(string \<times> meta) list"

definition optional_text :: "string option \<Rightarrow> meta" where
  "optional_text v = (case v of None \<Rightarrow> MOther | Some s \<Rightarrow> MText s)"

definition assessment_metadata :: "string \<times> string \<times> string \<Rightarrow> risk_assessment \<Rightarrow> (string \<times> meta) list" where
  "assessment_metadata texts a =
     (case texts of (size_text, quantity_text, risk_text) \<Rightarrow>
        [(''candidate_id'', MText (ra_candidate_id a)), (''scenario_id'', optional_text (ra_scenario_id a)),
         (''approved'', MBool (ra_approved a)), (''size_usdt'', MText size_text),
         (''quantity'', MText quantity_text), (''risk_amount_usdt'', MText risk_text)])"

definition from_agent_result :: "agent_result \<Rightarrow> risk_assessment option" where
  "from_agent_result r =
     (let metadata = map_of (ag_calculation_metadata r)
      in if ag_agent_name r \<noteq> ''risk'' then None
         else case metadata ''candidate_id'' of
           Some (MText candidate_id) \<Rightarrow>
             if blank candidate_id then None
             else (case (metadata_decimal (metadata ''size_usdt''), metadata_decimal (metadata ''quantity''),
                         metadata_decimal (metadata ''risk_amount_usdt'')) of
                     (Some size_usdt, Some quantity, Some risk) \<Rightarrow>
                       (case risk_assessment_post_init
                          \<lparr>ra_candidate_id = candidate_id, ra_approved = (metadata ''approved'' = Some (MBool True)),
                           ra_size_usdt = size_usdt, ra_quantity = quantity, ra_risk_amount_usdt = risk,
                           ra_blockers = ag_blockers r,
                           ra_scenario_id = (case metadata ''scenario_id'' of Some (MText i) \<Rightarrow> Some i | _ \<Rightarrow> None)\<rparr> of
                          Inl _ \<Rightarrow> None
                        | Inr a \<Rightarrow> Some a)
                   | _ \<Rightarrow> None)
         | _ \<Rightarrow> None)"

text \<open>\<^verbatim>\<open>min(assessments, key=...)\<close>: the first one with the least key.\<close>

definition assessment_key_less :: "risk_assessment \<Rightarrow> risk_assessment \<Rightarrow> bool" where
  "assessment_key_less a b \<longleftrightarrow>
     (ra_approved a \<and> \<not> ra_approved b) \<or>
     (ra_approved a = ra_approved b \<and>
       (length (ra_blockers a) < length (ra_blockers b) \<or>
        (length (ra_blockers a) = length (ra_blockers b) \<and> ra_candidate_id a < ra_candidate_id b)))"

fun select_assessment :: "risk_assessment \<Rightarrow> risk_assessment list \<Rightarrow> risk_assessment" where
  "select_assessment best [] = best"
| "select_assessment best (a # as) = select_assessment (if assessment_key_less a best then a else best) as"

section \<open>What approval and sizing guarantee\<close>

lemma risk_evaluate_Inr:
  assumes "risk_evaluate cfg c s x f surface = Inr a"
  obtains safety structural distance sizing where
    "candidate_safety_blockers c s = Inr safety" "engine_stop_distance cfg c s = Inr (structural, distance)"
    "engine_sizing cfg c x f surface distance = Inr (sizing, ra_quantity a, ra_size_usdt a, ra_risk_amount_usdt a)"
    "ra_blockers a = dict_fromkeys (safety @ account_blockers cfg c s x surface @ structural
       @ distance_blockers c x distance @ sizing)"
    "ra_approved a \<longleftrightarrow> ra_blockers a = []" "risk_assessment_post_init a = Inr a"
proof -
  from assms obtain safety structural distance sizing q sz r where
    st: "candidate_safety_blockers c s = Inr safety" "engine_stop_distance cfg c s = Inr (structural, distance)"
    "engine_sizing cfg c x f surface distance = Inr (sizing, q, sz, r)"
    and a: "risk_assessment_post_init
       \<lparr>ra_candidate_id = tc_candidate_id c, ra_approved = (dict_fromkeys (safety @ account_blockers cfg c s x surface
          @ structural @ distance_blockers c x distance @ sizing) = []),
        ra_size_usdt = sz, ra_quantity = q, ra_risk_amount_usdt = r,
        ra_blockers = dict_fromkeys (safety @ account_blockers cfg c s x surface @ structural
          @ distance_blockers c x distance @ sizing), ra_scenario_id = tc_scenario_id c\<rparr> = Inr a"
    unfolding risk_evaluate_def bindE_eq_Inr Let_def by auto
  moreover have "a = \<lparr>ra_candidate_id = tc_candidate_id c, ra_approved = (dict_fromkeys (safety
          @ account_blockers cfg c s x surface @ structural @ distance_blockers c x distance @ sizing) = []),
        ra_size_usdt = sz, ra_quantity = q, ra_risk_amount_usdt = r,
        ra_blockers = dict_fromkeys (safety @ account_blockers cfg c s x surface @ structural
          @ distance_blockers c x distance @ sizing), ra_scenario_id = tc_scenario_id c\<rparr>"
    using a by (simp add: risk_assessment_post_init_def Let_def)
  ultimately show ?thesis by (intro that [of safety structural distance sizing]) simp_all
qed

lemma engine_sizing_sized:
  assumes "engine_sizing cfg c x f surface distance = Inr (sizing, q, sz, r)"
    and "rx_equity_usdt x = Some equity" "0 < distance"
  shows "size_position cfg c x f surface equity distance = Inr (sizing, q, sz, r)"
  using assms by (simp add: engine_sizing_def)

lemma size_position_Inr:
  assumes "size_position cfg c x f surface equity distance = Inr (sizing, q, sz, r)"
  obtains ob where "validate_order f (entry_price c) q = Inr ob"
    "q = ls_round_down (sf_lot_size f) (raw_quantity cfg c x surface equity distance)"
    "sz = d_mul q (entry_price c)" "r = d_mul q distance"
    "sizing = flag_if (d_add (rx_open_risk_usdt x) r
         > d_mul equity (vm_maximum_open_risk_ratio (rc_virtual_market cfg))) ''MAX_OPEN_RISK_EXCEEDED''
       @ ob @ flag_if (q \<le> 0) ''ROUNDED_QUANTITY_IS_ZERO''
       @ flag_if (d_add sz (rx_current_exposure_usdt x) > d_mul equity (rc_max_inventory_allocation_ratio cfg))
           ''MAX_INVENTORY_ALLOCATION_EXCEEDED''"
  using assms unfolding size_position_def Let_def bindE_eq_Inr by auto

definition market_acceptable :: "risk_config \<Rightarrow> market_snapshot \<Rightarrow> bool" where
  "market_acceptable cfg s \<longleftrightarrow>
     (\<exists>p sp. ms_latest_price s = Some p \<and> 0 < p \<and> ms_spread s = Some sp \<and>
        d_quot sp p \<le> rc_maximum_spread_ratio cfg)"

lemma account_blockers_Nil:
  assumes "account_blockers cfg c s x surface = []"
  shows "surface = BINANCE_MARKET \<Longrightarrow> tc_promotion_status c \<in> {VS_PAPER_APPROVED, VS_LIVE_ELIGIBLE}"
    "\<exists>e. rx_equity_usdt x = Some e \<and> rx_daily_loss_usdt x < d_mul e (rc_daily_loss_limit_ratio cfg)"
    "\<not> rx_cooldown_active x" "rx_consecutive_losses x < rc_repeated_loss_limit cfg"
    "rx_estimated_slippage_ratio x \<le> rc_maximum_slippage_ratio cfg" "market_acceptable cfg s"
    "rc_minimum_risk_reward cfg \<le> tc_risk_reward c"
    "rx_open_position_count x < vm_maximum_positions (rc_virtual_market cfg)"
  using assms
  by (auto simp: account_blockers_def market_acceptable_def not_le not_less split: option.splits if_splits)


definition example_candidate :: trade_candidate where
  "example_candidate = \<lparr>tc_candidate_id = ''c1'', tc_snapshot_id = ''s1'', tc_timestamp = Aware 5, tc_symbol = ''BTCUSDT'',
     tc_timeframe = ''1h'', tc_action = BUY, tc_setup_name = ''setup'', tc_status = CS_READY_FOR_RISK,
     tc_entry_zone = \<lparr>pz_lower = 100, pz_upper = 100\<rparr>, tc_invalidation_level = 90, tc_stop_loss = 90,
     tc_take_profit_levels = [120], tc_trailing_stop = 90, tc_atr = 5, tc_risk_reward = 2,
     tc_score = FlFinite 80, tc_confidence = FlFinite (1 / 2), tc_ranking_score = None,
     tc_promotion_status = VS_LIVE_ELIGIBLE, tc_inventory_action = ''NONE'', tc_evidence = [], tc_blockers = [],
     tc_market_type = ''SPOT'', tc_scenario_id = None, tc_scenario_type = None, tc_scenario_state = None,
     tc_scenario_invalidation = None, tc_structural_risk_reward = None, tc_net_risk_reward = None,
     tc_estimated_round_trip_cost_ratio = None, tc_expected_r = None,
     tc_probability_calibration_state = ''PROBABILITY_NOT_CALIBRATED'', tc_entry_trigger = ''NOT_SPECIFIED'',
     tc_entry_state = ''ENTRY_NOT_READY'', tc_entry_expiry = None, tc_target_sources = [],
     tc_decision_evidence = no_evidence (\<lambda>_. ''digest''), tc_target_net_risk_rewards = [],
     tc_target_conditional_pnl_per_unit = [], tc_signed_funding_cost_ratio = None, tc_stop_alternatives = [],
     tc_stop_candidates = [], tc_target_candidates = []\<rparr>"

definition risk_example_snapshot :: market_snapshot where
  "risk_example_snapshot = \<lparr>ms_snapshot_id = ''s1'', ms_created_at = Aware 5, ms_market_type = ''SPOT'',
     ms_symbol = ''BTCUSDT'', ms_timeframes = [''1h''], ms_latest_price = Some 100, ms_bid = None, ms_ask = None,
     ms_spread = Some (1 / 10), ms_server_time = None, ms_market_metadata = [], ms_derivatives_snapshot = []\<rparr>"

definition example_context :: risk_context where
  "example_context = \<lparr>rx_equity_usdt = Some 1000, rx_current_exposure_usdt = 0, rx_open_risk_usdt = 0,
     rx_open_position_count = 0, rx_inventory_quantity = None, rx_daily_loss_usdt = 0,
     rx_estimated_slippage_ratio = 0, rx_consecutive_losses = 0, rx_cooldown_active = False\<rparr>"

definition risk_example_filters :: symbol_filters where
  "risk_example_filters = \<lparr>sf_price = \<lparr>pf_min_price = 1, pf_max_price = 0, pf_tick_size = 1 / 100\<rparr>,
     sf_lot_size = \<lparr>ls_min_quantity = 1 / 10, ls_max_quantity = 0, ls_step_size = 1 / 10\<rparr>,
     sf_notional = \<lparr>nf_min_notional = 5, nf_max_notional = 0\<rparr>\<rparr>"

lemma example_assessment:
  "case risk_evaluate default_risk_config example_candidate risk_example_snapshot example_context
      risk_example_filters BINANCE_MARKET of Inl _ \<Rightarrow> False
   | Inr a \<Rightarrow> ra_approved a \<and> ra_quantity a = 1 / 2 \<and> ra_size_usdt a = 50"
  by code_simp


section \<open>Sizing bounds\<close>

lemma notional_cap_rep:
  "dround (rc_max_trade_usdt cfg) = rc_max_trade_usdt cfg \<Longrightarrow>
     dround (notional_cap cfg c x surface) = notional_cap cfg c x surface"
  by (simp add: notional_cap_def Let_def max_def min_def)

lemma cap_below_risk:
  assumes "dround cap = cap" "0 < entry" "d_mul q entry > cap" "dround q = q"
  shows "d_quot cap entry \<le> q"
proof -
  have "cap \<le> q * entry"
  proof (rule ccontr)
    assume "\<not> cap \<le> q * entry"
    then have "dround (q * entry) \<le> cap" using dround_mono [of "q * entry" cap] assms(1) by simp
    with assms(3) show False by (simp add: d_mul_def)
  qed
  then have "cap / entry \<le> q" using assms(2) by (simp add: pos_divide_le_eq)
  then show ?thesis using dround_mono [of "cap / entry" q] assms(4) by (simp add: d_quot_def)
qed

text \<open>The three bounds on the quantity before rounding, whichever of them binds.\<close>

lemma raw_quantity_bounds:
  fixes cfg c x surface equity distance
  defines "q \<equiv> raw_quantity cfg c x surface equity distance"
    and "by_risk \<equiv> d_quot (d_mul equity (vm_risk_per_trade_ratio (rc_virtual_market cfg))) distance"
    and "cap \<equiv> notional_cap cfg c x surface"
  assumes "0 < entry_price c" "dround (rc_max_trade_usdt cfg) = rc_max_trade_usdt cfg"
  shows "q \<le> by_risk" "d_mul q (entry_price c) \<le> cap \<or> q \<le> d_quot cap (entry_price c)"
    "\<And>held. rx_inventory_quantity x = Some held \<Longrightarrow> tc_action c = SELL \<Longrightarrow> tc_market_type c = ''SPOT'' \<Longrightarrow> q \<le> held"
proof -
  let ?entry = "entry_price c"
  let ?capped = "if d_mul by_risk ?entry > cap \<and> ?entry > 0 then d_quot cap ?entry else by_risk"
  have q: "q = (case rx_inventory_quantity x of None \<Rightarrow> ?capped | Some held \<Rightarrow>
      if tc_action c = SELL \<and> tc_market_type c = ''SPOT'' then min ?capped held else ?capped)"
    unfolding q_def by_risk_def cap_def raw_quantity_def Let_def ..
  have le: "q \<le> ?capped" by (simp add: q split: option.splits)
  have rep: "dround by_risk = by_risk" by (simp add: by_risk_def)
  have cap_rep: "dround cap = cap" unfolding cap_def by (rule notional_cap_rep [OF assms(5)])
  have "?capped \<le> by_risk" using cap_below_risk [OF cap_rep assms(4) _ rep] by auto
  with le show "q \<le> by_risk" by linarith
  show "d_mul q ?entry \<le> cap \<or> q \<le> d_quot cap ?entry"
  proof (cases "d_mul by_risk ?entry > cap")
    case True
    with le assms(4) show ?thesis by simp
  next
    case False
    then have "q * ?entry \<le> by_risk * ?entry" using le assms(4) by simp
    then have "d_mul q ?entry \<le> d_mul by_risk ?entry" by (simp add: d_mul_def dround_mono)
    with False show ?thesis by simp
  qed
  show "q \<le> held" if "rx_inventory_quantity x = Some held" "tc_action c = SELL" "tc_market_type c = ''SPOT''" for held
    using that by (simp add: q)
qed

lemma raw_quantity_nonneg:
  assumes "0 < entry_price c" "0 \<le> rc_max_trade_usdt cfg" "0 < equity" "0 < distance"
    and "0 \<le> vm_risk_per_trade_ratio (rc_virtual_market cfg)" "\<not> below_zero (rx_inventory_quantity x)"
  shows "0 \<le> raw_quantity cfg c x surface equity distance"
proof -
  have "0 \<le> notional_cap cfg c x surface" using assms(2) by (simp add: notional_cap_def Let_def)
  with assms(1) have "0 \<le> d_quot (notional_cap cfg c x surface) (entry_price c)" by auto
  moreover have "0 \<le> d_quot (d_mul equity (vm_risk_per_trade_ratio (rc_virtual_market cfg))) distance"
    using assms by (intro d_quot_nonneg d_mul_nonneg) auto
  ultimately show ?thesis using assms(6) by (auto simp: raw_quantity_def Let_def below_zero_def split: option.splits)
qed



section \<open>Reporting and reading back\<close>

lemma assessment_key_less_trans:
  "assessment_key_less a b \<Longrightarrow> assessment_key_less b c \<Longrightarrow> assessment_key_less a c"
  unfolding assessment_key_less_def by (elim disjE conjE) (auto intro: less_trans)

lemma assessment_key_less_irrefl [simp]: "\<not> assessment_key_less a a"
  by (auto simp: assessment_key_less_def)

lemma select_assessment_mem: "select_assessment b as \<in> set (b # as)"
  by (induction b as rule: select_assessment.induct) auto

lemma select_assessment_least: "x \<in> set (b # as) \<Longrightarrow> \<not> assessment_key_less x (select_assessment b as)"
proof (induction b as arbitrary: x rule: select_assessment.induct)
  case (2 best a as)
  let ?best = "if assessment_key_less a best then a else best"
  have IH: "\<not> assessment_key_less y (select_assessment ?best as)" if "y \<in> set (?best # as)" for y
    using 2(1) [OF that] .
  show ?case
  proof (cases "x \<in> set (?best # as)")
    case True
    then show ?thesis using IH by simp
  next
    case False
    then have "x = best \<and> assessment_key_less a best \<or> x = a \<and> \<not> assessment_key_less a best"
      using 2(2) by (auto split: if_splits)
    then show ?thesis
    proof
      assume *: "x = best \<and> assessment_key_less a best"
      show ?thesis
      proof
        assume "assessment_key_less x (select_assessment best (a # as))"
        with * have "assessment_key_less a (select_assessment ?best as)"
          by (auto intro: assessment_key_less_trans)
        with IH [of a] * show False by simp
      qed
    next
      assume *: "x = a \<and> \<not> assessment_key_less a best"
      show ?thesis
      proof
        assume "assessment_key_less x (select_assessment best (a # as))"
        with * have lt: "assessment_key_less a (select_assessment best as)" by simp
        have "\<not> assessment_key_less best (select_assessment best as)" using IH [of best] * by simp
        with lt * show False
          by (auto simp: assessment_key_less_def)
      qed
    qed
  qed
qed simp

text \<open>
  What the risk agent reports is what its consumers read. The agent picks, of all assessments it
  made, an approved one whenever there is one, and the metadata it writes for a constructed
  assessment, read back by \<^verbatim>\<open>from_agent_result\<close>, yields that assessment exactly.
\<close>

theorem assessment_round_trip:
  assumes "a = select_assessment b as" "list_all (\<lambda>a. risk_assessment_post_init a = Inr a) (b # as)"
    and "finite_decimal size_text = Some (ra_size_usdt a)" "finite_decimal quantity_text = Some (ra_quantity a)"
      "finite_decimal risk_text = Some (ra_risk_amount_usdt a)"
  shows "from_agent_result \<lparr>ag_agent_name = ''risk'', ag_blockers = ra_blockers a,
      ag_calculation_metadata = assessment_metadata (size_text, quantity_text, risk_text) a\<rparr> = Some a \<and>
    (ra_approved a \<longleftrightarrow> (\<exists>x \<in> set (b # as). ra_approved x))"
proof
  have mem: "a \<in> set (b # as)" unfolding assms(1) by (rule select_assessment_mem)
  with assms(2) have ok: "risk_assessment_post_init a = Inr a" by (auto simp: list_all_iff)
  then have "\<not> blank (ra_candidate_id a)" by (auto simp: risk_assessment_post_init_def Let_def)
  with ok assms(3-5) show "from_agent_result \<lparr>ag_agent_name = ''risk'', ag_blockers = ra_blockers a,
      ag_calculation_metadata = assessment_metadata (size_text, quantity_text, risk_text) a\<rparr> = Some a"
    by (cases a; cases "ra_scenario_id a")
      (simp_all add: from_agent_result_def assessment_metadata_def metadata_decimal_def optional_text_def)
  show "ra_approved a \<longleftrightarrow> (\<exists>x \<in> set (b # as). ra_approved x)"
    using mem select_assessment_least [of _ b as] unfolding assms(1) [symmetric]
    by (auto simp: assessment_key_less_def)
qed

theorem assessment_round_trip_witness:
  "from_agent_result \<lparr>ag_agent_name = ''risk'', ag_blockers = [], ag_calculation_metadata =
      assessment_metadata (''50.0'', ''0.5'', ''5'') \<lparr>ra_candidate_id = ''c2'', ra_approved = True,
        ra_size_usdt = 50, ra_quantity = 1 / 2, ra_risk_amount_usdt = 5, ra_blockers = [], ra_scenario_id = None\<rparr>\<rparr> =
    Some \<lparr>ra_candidate_id = ''c2'', ra_approved = True, ra_size_usdt = 50, ra_quantity = 1 / 2,
      ra_risk_amount_usdt = 5, ra_blockers = [], ra_scenario_id = None\<rparr>"
proof -
  let ?b = "\<lparr>ra_candidate_id = ''c1'', ra_approved = False, ra_size_usdt = 0, ra_quantity = 0,
      ra_risk_amount_usdt = 0, ra_blockers = [''EQUITY_UNKNOWN''], ra_scenario_id = Some ''s''\<rparr>"
  let ?a = "\<lparr>ra_candidate_id = ''c2'', ra_approved = True, ra_size_usdt = 50, ra_quantity = 1 / 2,
      ra_risk_amount_usdt = 5, ra_blockers = [], ra_scenario_id = None\<rparr>"
  have sel: "?a = select_assessment ?b [?a]" by code_simp
  have ok: "list_all (\<lambda>a. risk_assessment_post_init a = Inr a) [?b, ?a]" by code_simp
  have dec: "(finite_decimal ''50.0'' = Some 50) \<and>
      (finite_decimal ''0.5'' = Some (1 / 2)) \<and>
      (finite_decimal ''5'' = Some 5)"
    by code_simp
  show ?thesis
    using assessment_round_trip [OF sel ok, of "''50.0''" "''0.5''" "''5''"] dec by simp
qed

end
