(* ===== verification/Portfolio_Risk.thy ===== *)
theory Portfolio_Risk
  imports Decimal28
begin

text \<open>
  \<^verbatim>\<open>domain/portfolio_risk.py\<close>: the limits on gross, symbol, correlation-group and strategy exposure,
  the assessment of a proposal on top of a portfolio, and the assessment of a portfolio as it stands.
  A dictionary of totals per symbol is a map over the symbols that occur; only its values are read.
\<close>

record position_exposure =
  pe_symbol :: string
  pe_strategy_id :: string
  pe_correlation_group :: string
  pe_notional_usdt :: dec

definition position_exposure_post_init :: "position_exposure \<Rightarrow> position_exposure result" where
  "position_exposure_post_init p = validate
     [(list_ex blank [pe_symbol p, pe_strategy_id p, pe_correlation_group p] \<or> pe_notional_usdt p < 0,
       ''position exposure is invalid'')] p"

record portfolio_risk_policy =
  pp_maximum_gross_usdt :: dec
  pp_maximum_symbol_usdt :: dec
  pp_maximum_correlation_group_usdt :: dec
  pp_maximum_strategy_usdt :: dec

definition default_portfolio_policy :: portfolio_risk_policy where
  "default_portfolio_policy = \<lparr>pp_maximum_gross_usdt = 500, pp_maximum_symbol_usdt = 250,
     pp_maximum_correlation_group_usdt = 300, pp_maximum_strategy_usdt = 250\<rparr>"

definition portfolio_policy_post_init :: "portfolio_risk_policy \<Rightarrow> portfolio_risk_policy result" where
  "portfolio_policy_post_init p = validate
     [(min (pp_maximum_gross_usdt p) (min (pp_maximum_symbol_usdt p)
         (min (pp_maximum_correlation_group_usdt p) (pp_maximum_strategy_usdt p))) \<le> 0,
       ''portfolio risk limits must be positive'')] p"

record portfolio_assessment =
  pa_proposed_symbol :: string
  pa_gross_after_usdt :: dec
  pa_approved_for_proposal :: bool
  pa_blockers :: "string list"
  pa_execution_allowed :: bool

definition portfolio_assessment_post_init :: "portfolio_assessment \<Rightarrow> portfolio_assessment result" where
  "portfolio_assessment_post_init a = validate
     [(blank (pa_proposed_symbol a) \<or> pa_gross_after_usdt a < 0, ''portfolio assessment is invalid''),
      (pa_approved_for_proposal a \<and> pa_blockers a \<noteq> [], ''approved proposal cannot contain blockers''),
      (pa_execution_allowed a, ''portfolio assessment cannot authorize execution'')] a"

definition gross_total :: "position_exposure list \<Rightarrow> dec" where
  "gross_total ps = d_sum (map pe_notional_usdt ps)"

text \<open>The total of the positions that agree in a key.\<close>

definition total_by :: "(position_exposure \<Rightarrow> string) \<Rightarrow> string \<Rightarrow> position_exposure list \<Rightarrow> dec" where
  "total_by key k ps = gross_total (filter (\<lambda>p. key p = k) ps)"

definition portfolio_assessment_of :: "string \<Rightarrow> dec \<Rightarrow> string list \<Rightarrow> portfolio_assessment result" where
  "portfolio_assessment_of symbol gross blockers = portfolio_assessment_post_init
     \<lparr>pa_proposed_symbol = symbol, pa_gross_after_usdt = gross, pa_approved_for_proposal = (blockers = []),
      pa_blockers = blockers, pa_execution_allowed = False\<rparr>"

definition assess_proposed_exposure :: "position_exposure list \<Rightarrow> position_exposure \<Rightarrow>
    portfolio_risk_policy \<Rightarrow> portfolio_assessment result" where
  "assess_proposed_exposure current proposed policy =
     (let combined = current @ [proposed];
          blockers = failed_codes
            [(gross_total combined > pp_maximum_gross_usdt policy, ''PORTFOLIO_GROSS_LIMIT_EXCEEDED''),
             (total_by pe_symbol (pe_symbol proposed) combined > pp_maximum_symbol_usdt policy,
              ''SYMBOL_EXPOSURE_LIMIT_EXCEEDED''),
             (total_by pe_correlation_group (pe_correlation_group proposed) combined
                > pp_maximum_correlation_group_usdt policy, ''CORRELATION_GROUP_LIMIT_EXCEEDED''),
             (total_by pe_strategy_id (pe_strategy_id proposed) combined > pp_maximum_strategy_usdt policy,
              ''STRATEGY_EXPOSURE_LIMIT_EXCEEDED'')]
      in portfolio_assessment_of (pe_symbol proposed) (gross_total combined) blockers)"

definition any_total_above :: "(position_exposure \<Rightarrow> string) \<Rightarrow> dec \<Rightarrow> position_exposure list \<Rightarrow> bool" where
  "any_total_above key limit ps \<longleftrightarrow> list_ex (\<lambda>k. total_by key k ps > limit) (remdups (map key ps))"

definition assess_current_exposure :: "position_exposure list \<Rightarrow> portfolio_risk_policy \<Rightarrow>
    portfolio_assessment result" where
  "assess_current_exposure current policy =
     portfolio_assessment_of ''CURRENT_PORTFOLIO'' (gross_total current)
       (flag_if (gross_total current > pp_maximum_gross_usdt policy) ''PORTFOLIO_GROSS_LIMIT_EXCEEDED''
        @ flag_if (any_total_above pe_symbol (pp_maximum_symbol_usdt policy) current)
            ''SYMBOL_EXPOSURE_LIMIT_EXCEEDED''
        @ flag_if (any_total_above pe_correlation_group (pp_maximum_correlation_group_usdt policy) current)
            ''CORRELATION_GROUP_LIMIT_EXCEEDED''
        @ flag_if (any_total_above pe_strategy_id (pp_maximum_strategy_usdt policy) current)
            ''STRATEGY_EXPOSURE_LIMIT_EXCEEDED'')"

section \<open>Admission keeps the portfolio within its limits\<close>

lemma total_by_snoc_same: "key p = k \<Longrightarrow> total_by key k (ps @ [p]) = gross_total (filter (\<lambda>p. key p = k) ps @ [p])"
  by (simp add: total_by_def)

lemma total_by_snoc_other: "key p \<noteq> k \<Longrightarrow> total_by key k (ps @ [p]) = total_by key k ps"
  by (simp add: total_by_def)

lemma any_total_above_snoc:
  assumes "\<not> any_total_above key limit ps" "total_by key (key p) (ps @ [p]) \<le> limit"
  shows "\<not> any_total_above key limit (ps @ [p])"
proof -
  have "total_by key k (ps @ [p]) \<le> limit" if "k \<in> key ` set (ps @ [p])" for k
    using assms that by (cases "k = key p") (auto simp: any_total_above_def list_ex_iff not_less total_by_snoc_other)
  then show ?thesis by (auto simp: any_total_above_def list_ex_iff not_less)
qed

lemma gross_total_nonneg: "list_all (\<lambda>p. 0 \<le> pe_notional_usdt p) ps \<Longrightarrow> 0 \<le> gross_total ps"
  unfolding gross_total_def by (rule d_sum_nonneg) (simp add: list_all_iff)

definition portfolio_within :: "portfolio_risk_policy \<Rightarrow> position_exposure list \<Rightarrow> bool" where
  "portfolio_within policy ps \<longleftrightarrow> (\<exists>a. assess_current_exposure ps policy = Inr a \<and> pa_approved_for_proposal a)"

definition positions_ok :: "position_exposure list \<Rightarrow> bool" where
  "positions_ok ps \<longleftrightarrow> list_all (\<lambda>p. position_exposure_post_init p = Inr p) ps"

lemma positions_ok_nonneg: "positions_ok ps \<Longrightarrow> list_all (\<lambda>p. 0 \<le> pe_notional_usdt p) ps"
  by (auto simp: positions_ok_def position_exposure_post_init_def list_all_iff not_less)

lemma current_label: "\<not> blank ''CURRENT_PORTFOLIO''"
  by code_simp

lemma portfolio_within_iff:
  assumes "positions_ok ps"
  shows "portfolio_within policy ps \<longleftrightarrow> gross_total ps \<le> pp_maximum_gross_usdt policy \<and>
    \<not> any_total_above pe_symbol (pp_maximum_symbol_usdt policy) ps \<and>
    \<not> any_total_above pe_correlation_group (pp_maximum_correlation_group_usdt policy) ps \<and>
    \<not> any_total_above pe_strategy_id (pp_maximum_strategy_usdt policy) ps"
  using gross_total_nonneg [OF positions_ok_nonneg [OF assms]] current_label
  by (auto simp: portfolio_within_def assess_current_exposure_def portfolio_assessment_of_def
      portfolio_assessment_post_init_def not_less)

lemma proposal_approved:
  assumes "assess_proposed_exposure current proposed policy = Inr a" "pa_approved_for_proposal a"
  shows "gross_total (current @ [proposed]) \<le> pp_maximum_gross_usdt policy"
    "total_by pe_symbol (pe_symbol proposed) (current @ [proposed]) \<le> pp_maximum_symbol_usdt policy"
    "total_by pe_correlation_group (pe_correlation_group proposed) (current @ [proposed])
       \<le> pp_maximum_correlation_group_usdt policy"
    "total_by pe_strategy_id (pe_strategy_id proposed) (current @ [proposed]) \<le> pp_maximum_strategy_usdt policy"
  using assms
  by (auto simp: assess_proposed_exposure_def portfolio_assessment_of_def portfolio_assessment_post_init_def
      failed_codes_Nil_iff Let_def not_less)

text \<open>Adding every approved proposal and skipping the rest.\<close>

fun admit_all :: "portfolio_risk_policy \<Rightarrow> position_exposure list \<Rightarrow> position_exposure list \<Rightarrow>
    position_exposure list" where
  "admit_all policy current [] = current"
| "admit_all policy current (p # ps) =
     (case assess_proposed_exposure current p policy of
        Inl _ \<Rightarrow> admit_all policy current ps
      | Inr a \<Rightarrow> admit_all policy (if pa_approved_for_proposal a then current @ [p] else current) ps)"

text \<open>
  C24: admitting only approved proposals keeps the whole portfolio within every limit. Starting from a
  portfolio the current-exposure assessment approves, adding any sequence of proposals and keeping
  just the approved ones ends in a portfolio that assessment approves again: checking the totals of
  the proposal's own symbol, group and strategy is enough.
\<close>

theorem admission_preserves_limits:
  assumes "positions_ok current" "positions_ok proposals" "portfolio_within policy current"
  shows "portfolio_within policy (admit_all policy current proposals)"
  using assms
proof (induction policy current proposals rule: admit_all.induct)
  case (2 policy current p ps)
  have ok: "positions_ok ps" "positions_ok (current @ [p])" using "2.prems" by (auto simp: positions_ok_def)
  show ?case
  proof (cases "assess_proposed_exposure current p policy")
    case (Inl e)
    with "2.prems" ok "2.IH"(1) show ?thesis by simp
  next
    case (Inr a)
    show ?thesis
    proof (cases "pa_approved_for_proposal a")
      case True
      have "portfolio_within policy (current @ [p])"
        using "2.prems"(3) proposal_approved [OF Inr True]
        unfolding portfolio_within_iff [OF ok(2)] portfolio_within_iff [OF "2.prems"(1)]
        by (simp add: any_total_above_snoc)
      with Inr True ok "2.IH"(2) [OF Inr] show ?thesis by simp
    next
      case False
      with Inr "2.prems" ok "2.IH"(2) [OF Inr] show ?thesis by simp
    qed
  qed
qed simp

definition example_position :: "string \<Rightarrow> dec \<Rightarrow> position_exposure" where
  "example_position symbol notional = \<lparr>pe_symbol = symbol, pe_strategy_id = symbol, pe_correlation_group = ''majors'',
     pe_notional_usdt = notional\<rparr>"

theorem admission_preserves_limits_witness:
  "let ps = admit_all default_portfolio_policy [example_position ''BTC'' 200]
        [example_position ''ETH'' 90, example_position ''SOL'' 50, example_position ''BTC'' 10]
   in map pe_symbol ps = [''BTC'', ''ETH'', ''BTC''] \<and> portfolio_within default_portfolio_policy ps"
proof -
  have "positions_ok [example_position ''BTC'' 200]"
    "positions_ok [example_position ''ETH'' 90, example_position ''SOL'' 50, example_position ''BTC'' 10]"
    by code_simp+
  moreover have "case assess_current_exposure [example_position ''BTC'' 200] default_portfolio_policy of
      Inl _ \<Rightarrow> False | Inr a \<Rightarrow> pa_approved_for_proposal a" by code_simp
  then have "portfolio_within default_portfolio_policy [example_position ''BTC'' 200]"
    by (auto simp: portfolio_within_def split: sum.splits)
  moreover have "map pe_symbol (admit_all default_portfolio_policy [example_position ''BTC'' 200]
        [example_position ''ETH'' 90, example_position ''SOL'' 50, example_position ''BTC'' 10]) = [''BTC'', ''ETH'', ''BTC'']"
    by code_simp
  ultimately show ?thesis
    unfolding Let_def by (intro conjI admission_preserves_limits)
qed

end
