(* ===== verification/Execution_Authority.thy ===== *)
theory Execution_Authority
  imports Domain_Enums
begin

text \<open>
  \<^verbatim>\<open>domain/execution_authority.py\<close> and \<^verbatim>\<open>domain/execution_envelope.py\<close>: which automation a surface may
  have, as a validated profile, and the envelope derived from it. No profile and no envelope that
  can be constructed authorizes an external or a live order.
\<close>

datatype automation_mode = HUMAN_HAND_MANUAL_ONLY | BOUNDED_AUTONOMOUS_SIMULATION | BOUNDED_AUTO_PAPER_ALGO

record authority_profile =
  ap_authority_profile_id :: string
  ap_execution_surface :: execution_surface
  ap_automation_mode :: automation_mode
  ap_simulated_execution_allowed :: bool
  ap_paper_execution_allowed :: bool
  ap_auto_execution_allowed :: bool
  ap_autonomous_learning_allowed :: bool
  ap_bounded_self_improvement_allowed :: bool
  ap_simulated_spot_allowed :: bool
  ap_simulated_futures_allowed :: bool
  ap_requires_manual_confirmation :: bool
  ap_reason_codes :: "string list"
  ap_execution_allowed :: bool
  ap_live_execution_allowed :: bool
  ap_promotion_status :: string
  ap_live_eligibility_status :: string

definition unique_nonblank :: "string \<Rightarrow> string \<Rightarrow> string list \<Rightarrow> unit result" where
  "unique_nonblank unique_msg blank_msg values = validate
     [(\<not> distinct values, unique_msg), (list_ex blank values, blank_msg)] ()"

definition manual_mode_broken :: "authority_profile \<Rightarrow> bool" where
  "manual_mode_broken p \<longleftrightarrow> ap_automation_mode p = HUMAN_HAND_MANUAL_ONLY \<and>
     (ap_auto_execution_allowed p \<or> ap_simulated_execution_allowed p \<or> ap_autonomous_learning_allowed p
      \<or> ap_bounded_self_improvement_allowed p \<or> ap_simulated_spot_allowed p \<or> ap_simulated_futures_allowed p
      \<or> \<not> ap_requires_manual_confirmation p)"

definition bounded_mode_broken :: "authority_profile \<Rightarrow> bool" where
  "bounded_mode_broken p \<longleftrightarrow> ap_automation_mode p \<in> {BOUNDED_AUTONOMOUS_SIMULATION, BOUNDED_AUTO_PAPER_ALGO} \<and>
     (\<not> ap_simulated_execution_allowed p \<or> \<not> ap_auto_execution_allowed p \<or> \<not> ap_autonomous_learning_allowed p
      \<or> \<not> ap_bounded_self_improvement_allowed p \<or> \<not> ap_simulated_spot_allowed p
      \<or> \<not> ap_simulated_futures_allowed p \<or> ap_requires_manual_confirmation p)"

definition authority_profile_post_init :: "authority_profile \<Rightarrow> authority_profile result" where
  "authority_profile_post_init p =
     bindE (validate
       [(blank (ap_authority_profile_id p), ''execution authority profile identity is required''),
        (ap_execution_allowed p \<or> ap_live_execution_allowed p,
         ''execution authority profile cannot authorize live use''),
        (ap_promotion_status p \<noteq> ''RESEARCH_ONLY'', ''execution authority profile must remain research only''),
        (ap_live_eligibility_status p \<noteq> live_blocked, ''execution authority profile must remain live blocked'')] ())
     (\<lambda>_. bindE (unique_nonblank ''execution authority reason codes must be unique''
            ''execution authority reason codes cannot contain blanks'' (ap_reason_codes p))
     (\<lambda>_. validate
       [(ap_simulated_execution_allowed p \<and> \<not> ap_paper_execution_allowed p,
         ''simulated execution requires the paper execution compatibility flag''),
        (ap_auto_execution_allowed p \<and> \<not> ap_simulated_execution_allowed p,
         ''auto simulation requires simulated execution allowance''),
        (ap_bounded_self_improvement_allowed p \<and> \<not> ap_autonomous_learning_allowed p,
         ''bounded self-improvement requires autonomous learning allowance''),
        ((ap_simulated_spot_allowed p \<or> ap_simulated_futures_allowed p) \<and> \<not> ap_simulated_execution_allowed p,
         ''simulated market coverage requires simulated execution allowance''),
        (manual_mode_broken p,
         ''human-hand manual execution requires manual confirmation and no autonomous simulation''),
        (bounded_mode_broken p,
         ''bounded autonomous simulation requires governed simulated execution, learning, and self-improvement without manual confirmation'')]
       p))"

definition binance_market_manual_profile :: authority_profile where
  "binance_market_manual_profile =
     \<lparr>ap_authority_profile_id = ''BINANCE_MANUAL_ONLY_V1'', ap_execution_surface = BINANCE_MARKET,
      ap_automation_mode = HUMAN_HAND_MANUAL_ONLY, ap_simulated_execution_allowed = False,
      ap_paper_execution_allowed = True, ap_auto_execution_allowed = False,
      ap_autonomous_learning_allowed = False, ap_bounded_self_improvement_allowed = False,
      ap_simulated_spot_allowed = False, ap_simulated_futures_allowed = False,
      ap_requires_manual_confirmation = True,
      ap_reason_codes = [''BINANCE_MARKET'', ''HUMAN_HAND_MANUAL_ONLY'', ''AUTO_SIMULATION_DISABLED'', ''LIVE_ORDER_BLOCKED''],
      ap_execution_allowed = False, ap_live_execution_allowed = False, ap_promotion_status = ''RESEARCH_ONLY'',
      ap_live_eligibility_status = live_blocked\<rparr>"

definition virtual_market_auto_profile :: authority_profile where
  "virtual_market_auto_profile =
     \<lparr>ap_authority_profile_id = ''VIRTUAL_AUTONOMOUS_SIMULATION_V1'', ap_execution_surface = VIRTUAL_MARKET,
      ap_automation_mode = BOUNDED_AUTONOMOUS_SIMULATION, ap_simulated_execution_allowed = True,
      ap_paper_execution_allowed = True, ap_auto_execution_allowed = True,
      ap_autonomous_learning_allowed = True, ap_bounded_self_improvement_allowed = True,
      ap_simulated_spot_allowed = True, ap_simulated_futures_allowed = True,
      ap_requires_manual_confirmation = False,
      ap_reason_codes = [''VIRTUAL_MARKET'', ''BOUNDED_AUTONOMOUS_SIMULATION'', ''EXTERNAL_ORDER_BLOCKED'', ''LIVE_ORDER_BLOCKED''],
      ap_execution_allowed = False, ap_live_execution_allowed = False, ap_promotion_status = ''RESEARCH_ONLY'',
      ap_live_eligibility_status = live_blocked\<rparr>"

definition authority_profile_for_surface :: "execution_surface \<Rightarrow> authority_profile" where
  "authority_profile_for_surface s =
     (case s of BINANCE_MARKET \<Rightarrow> binance_market_manual_profile | VIRTUAL_MARKET \<Rightarrow> virtual_market_auto_profile)"

record execution_envelope =
  ee_authority_profile_id :: string
  ee_execution_surface :: execution_surface
  ee_automation_mode :: automation_mode
  ee_manual_confirmation_required :: bool
  ee_virtual_simulation_allowed :: bool
  ee_auto_simulation_allowed :: bool
  ee_paper_execution_allowed :: bool
  ee_external_order_allowed :: bool
  ee_live_order_allowed :: bool
  ee_bounded_simulation_only :: bool
  ee_reason_codes :: "string list"

definition execution_envelope_post_init :: "execution_envelope \<Rightarrow> execution_envelope result" where
  "execution_envelope_post_init e =
     bindE (validate [(blank (ee_authority_profile_id e), ''execution envelope identity is required'')] ()) (\<lambda>_.
     bindE (unique_nonblank ''execution envelope reason codes must be unique''
              ''execution envelope reason codes cannot contain blanks'' (ee_reason_codes e)) (\<lambda>_.
     validate
       [(ee_external_order_allowed e \<or> ee_live_order_allowed e,
         ''execution envelope cannot authorize external orders''),
        (ee_virtual_simulation_allowed e \<and> \<not> ee_paper_execution_allowed e,
         ''virtual execution envelope requires paper execution compatibility''),
        (ee_auto_simulation_allowed e \<and> \<not> ee_virtual_simulation_allowed e,
         ''auto simulation requires virtual simulation allowance''),
        (ee_bounded_simulation_only e \<noteq> (ee_execution_surface e = VIRTUAL_MARKET),
         ''bounded simulation flag must match the execution surface''),
        (ee_execution_surface e = BINANCE_MARKET \<and>
           (\<not> ee_manual_confirmation_required e \<or> ee_auto_simulation_allowed e),
         ''Binance execution envelope must remain manual and non-autonomous''),
        (ee_execution_surface e = VIRTUAL_MARKET \<and>
           (ee_manual_confirmation_required e \<or> \<not> ee_auto_simulation_allowed e),
         ''virtual execution envelope must remain autonomous and unconfirmed'')] e))"

definition execution_envelope_for_profile :: "authority_profile \<Rightarrow> execution_envelope result" where
  "execution_envelope_for_profile p = execution_envelope_post_init
     \<lparr>ee_authority_profile_id = ap_authority_profile_id p, ee_execution_surface = ap_execution_surface p,
      ee_automation_mode = ap_automation_mode p,
      ee_manual_confirmation_required = ap_requires_manual_confirmation p,
      ee_virtual_simulation_allowed = ap_simulated_execution_allowed p,
      ee_auto_simulation_allowed = ap_auto_execution_allowed p,
      ee_paper_execution_allowed = ap_paper_execution_allowed p,
      ee_external_order_allowed = ap_execution_allowed p, ee_live_order_allowed = ap_live_execution_allowed p,
      ee_bounded_simulation_only = (ap_execution_surface p = VIRTUAL_MARKET),
      ee_reason_codes = ap_reason_codes p\<rparr>"

definition execution_envelope_for_surface :: "execution_surface \<Rightarrow> execution_envelope result" where
  "execution_envelope_for_surface s = execution_envelope_for_profile (authority_profile_for_surface s)"

section \<open>Properties\<close>

lemma profile_ok_modes:
  assumes "authority_profile_post_init p = Inr p"
  shows "\<not> ap_execution_allowed p" "\<not> ap_live_execution_allowed p"
    "ap_automation_mode p = HUMAN_HAND_MANUAL_ONLY \<Longrightarrow>
       ap_requires_manual_confirmation p \<and> \<not> ap_auto_execution_allowed p \<and> \<not> ap_simulated_execution_allowed p"
    "ap_automation_mode p \<noteq> HUMAN_HAND_MANUAL_ONLY \<Longrightarrow>
       \<not> ap_requires_manual_confirmation p \<and> ap_auto_execution_allowed p \<and> ap_simulated_execution_allowed p"
  using assms
  by (cases "ap_automation_mode p";
      auto simp: authority_profile_post_init_def manual_mode_broken_def bounded_mode_broken_def)+

lemma profile_ok_rest:
  assumes "authority_profile_post_init p = Inr p"
  shows "\<not> blank (ap_authority_profile_id p)" "distinct (ap_reason_codes p)" "\<not> list_ex blank (ap_reason_codes p)"
    "ap_simulated_execution_allowed p \<Longrightarrow> ap_paper_execution_allowed p"
  using assms by (auto simp: authority_profile_post_init_def unique_nonblank_def)

text \<open>
  C23: only a human places orders on the real market. A valid profile yields an envelope exactly when
  its automation fits its surface (manual on the Binance market, bounded simulation on the virtual
  one); the envelope authorizes neither external nor live orders, and it demands manual confirmation
  and forbids automatic simulation exactly on the Binance market. Both surfaces have such a profile.
\<close>

theorem envelope_authority:
  assumes "authority_profile_post_init p = Inr p"
  shows "(case execution_envelope_for_profile p of
      Inl _ \<Rightarrow> (ap_execution_surface p = BINANCE_MARKET) \<noteq> (ap_automation_mode p = HUMAN_HAND_MANUAL_ONLY)
    | Inr e \<Rightarrow> (ap_execution_surface p = BINANCE_MARKET) = (ap_automation_mode p = HUMAN_HAND_MANUAL_ONLY) \<and>
        \<not> ee_external_order_allowed e \<and> \<not> ee_live_order_allowed e \<and>
        (ee_manual_confirmation_required e \<longleftrightarrow> ee_execution_surface e = BINANCE_MARKET) \<and>
        (ee_auto_simulation_allowed e \<longleftrightarrow> ee_execution_surface e = VIRTUAL_MARKET)) \<and>
    (\<forall>s. authority_profile_post_init (authority_profile_for_surface s) = Inr (authority_profile_for_surface s) \<and>
       (\<exists>e. execution_envelope_for_surface s = Inr e \<and> ee_execution_surface e = s))"
proof
  note m = profile_ok_modes [OF assms] and r = profile_ok_rest [OF assms]
  have un: "unique_nonblank u b (ap_reason_codes p) = Inr ()" for u b using r by (simp add: unique_nonblank_def)
  show "case execution_envelope_for_profile p of
      Inl _ \<Rightarrow> (ap_execution_surface p = BINANCE_MARKET) \<noteq> (ap_automation_mode p = HUMAN_HAND_MANUAL_ONLY)
    | Inr e \<Rightarrow> (ap_execution_surface p = BINANCE_MARKET) = (ap_automation_mode p = HUMAN_HAND_MANUAL_ONLY) \<and>
        \<not> ee_external_order_allowed e \<and> \<not> ee_live_order_allowed e \<and>
        (ee_manual_confirmation_required e \<longleftrightarrow> ee_execution_surface e = BINANCE_MARKET) \<and>
        (ee_auto_simulation_allowed e \<longleftrightarrow> ee_execution_surface e = VIRTUAL_MARKET)"
    using m(1,2) r(1,4) m(3,4) un
    by (cases "ap_execution_surface p"; cases "ap_automation_mode p = HUMAN_HAND_MANUAL_ONLY")
      (simp_all add: execution_envelope_for_profile_def execution_envelope_post_init_def validate.simps)
  have blanks: "\<not> blank ''BINANCE_MANUAL_ONLY_V1''" "\<not> blank ''VIRTUAL_AUTONOMOUS_SIMULATION_V1''" by code_simp+
  have codes: "\<not> list_ex blank [''BINANCE_MARKET'', ''HUMAN_HAND_MANUAL_ONLY'', ''AUTO_SIMULATION_DISABLED'', ''LIVE_ORDER_BLOCKED'']"
    "\<not> list_ex blank [''VIRTUAL_MARKET'', ''BOUNDED_AUTONOMOUS_SIMULATION'', ''EXTERNAL_ORDER_BLOCKED'', ''LIVE_ORDER_BLOCKED'']"
    by code_simp+
  show "\<forall>s. authority_profile_post_init (authority_profile_for_surface s) = Inr (authority_profile_for_surface s) \<and>
       (\<exists>e. execution_envelope_for_surface s = Inr e \<and> ee_execution_surface e = s)"
  proof
    fix s
    show "authority_profile_post_init (authority_profile_for_surface s) = Inr (authority_profile_for_surface s) \<and>
       (\<exists>e. execution_envelope_for_surface s = Inr e \<and> ee_execution_surface e = s)"
      using blanks codes
      by (cases s) (simp_all add: authority_profile_for_surface_def binance_market_manual_profile_def
          virtual_market_auto_profile_def authority_profile_post_init_def unique_nonblank_def manual_mode_broken_def
          bounded_mode_broken_def execution_envelope_for_surface_def execution_envelope_for_profile_def
          execution_envelope_post_init_def)
  qed
qed

theorem envelope_authority_witness:
  "\<exists>e. execution_envelope_for_profile binance_market_manual_profile = Inr e \<and> ee_manual_confirmation_required e \<and>
     \<not> ee_live_order_allowed e"
proof -
  have "authority_profile_post_init binance_market_manual_profile = Inr binance_market_manual_profile" by code_simp
  from envelope_authority [OF this] show ?thesis
    by (auto simp: binance_market_manual_profile_def execution_envelope_for_profile_def
        execution_envelope_post_init_def split: sum.splits)
qed

end
