(* ===== verification/Virtual_Eligibility.thy ===== *)
theory Virtual_Eligibility
  imports Execution_Authority
begin

text \<open>
  \<^verbatim>\<open>domain/blocker_reduction.py\<close> and \<^verbatim>\<open>application/virtual_runtime_eligibility.py\<close>: merging the blockers
  of the eight decision stages into one ordered list of root causes, and deciding whether a virtual
  simulation may proceed. Which codes the governed blocker registry knows is a parameter.
\<close>

section \<open>Reducing blockers\<close>

record stage_blockers =
  sb_analysis :: "string list"
  sb_candidate :: "string list"
  sb_risk :: "string list"
  sb_validation :: "string list"
  sb_dge :: "string list"
  sb_portfolio :: "string list"
  sb_feasibility :: "string list"
  sb_authority :: "string list"

definition stage_groups :: "stage_blockers \<Rightarrow> (string \<times> string list) list" where
  "stage_groups g =
     [(''analysis blockers'', sb_analysis g), (''candidate blockers'', sb_candidate g),
      (''risk blockers'', sb_risk g), (''validation blockers'', sb_validation g),
      (''dge blockers'', sb_dge g), (''portfolio blockers'', sb_portfolio g),
      (''feasibility blockers'', sb_feasibility g), (''authority blockers'', sb_authority g)]"

text \<open>\<^verbatim>\<open>_unique_sequence\<close>: the nested loops that append an item unless it is already there.\<close>

fun append_unseen :: "'a list \<Rightarrow> 'a list \<Rightarrow> 'a list" where
  "append_unseen ordered [] = ordered"
| "append_unseen ordered (x # xs) = append_unseen (if x \<in> set ordered then ordered else ordered @ [x]) xs"

definition unique_sequence :: "'a list list \<Rightarrow> 'a list" where
  "unique_sequence groups = foldl append_unseen [] groups"

record blocker_reduction =
  br_groups :: stage_blockers
  br_root_cause_codes :: "string list"
  br_known_blockers :: "string list"
  br_unknown_blockers :: "string list"
  br_blocker_count :: int

definition require_unique :: "string \<times> string list \<Rightarrow> unit result" where
  "require_unique g = unique_nonblank (fst g @ '' must be unique'') (fst g @ '' cannot contain blanks'') (snd g)"

definition blocker_reduction_post_init :: "blocker_reduction \<Rightarrow> blocker_reduction result" where
  "blocker_reduction_post_init r =
     bindE (mapE require_unique (stage_groups (br_groups r)
        @ [(''root cause codes'', br_root_cause_codes r), (''known blockers'', br_known_blockers r),
           (''unknown blockers'', br_unknown_blockers r)])) (\<lambda>_.
     validate
       [(br_root_cause_codes r \<noteq> unique_sequence (map snd (stage_groups (br_groups r))),
         ''virtual blocker reduction root cause codes must preserve stage order''),
        (br_blocker_count r \<noteq> int (length (br_root_cause_codes r)),
         ''virtual blocker reduction blocker count is inconsistent''),
        (set (br_known_blockers r) \<union> set (br_unknown_blockers r) \<noteq> set (br_root_cause_codes r),
         ''virtual blocker reduction classifications must cover every root cause'')] r)"

definition reduce_virtual_blockers :: "(string \<Rightarrow> bool) \<Rightarrow> stage_blockers \<Rightarrow> blocker_reduction result" where
  "reduce_virtual_blockers known g =
     (let codes = unique_sequence (map snd (stage_groups g));
          known_codes = filter known codes
      in blocker_reduction_post_init
           \<lparr>br_groups = g, br_root_cause_codes = codes, br_known_blockers = known_codes,
            br_unknown_blockers = filter (\<lambda>c. c \<notin> set known_codes) codes,
            br_blocker_count = int (length codes)\<rparr>)"

section \<open>Eligibility\<close>

datatype simulation_status = VE_ELIGIBLE | VE_BLOCKED

record virtual_eligibility =
  ve_status :: simulation_status
  ve_execution_surface :: execution_surface
  ve_requires_manual_confirmation :: bool
  ve_virtual_simulation_allowed :: bool
  ve_auto_simulation_allowed :: bool
  ve_binance_order_allowed :: bool
  ve_live_order_allowed :: bool
  ve_reason_codes :: "string list"
  ve_blockers :: "string list"
  ve_blocker_reduction :: "blocker_reduction option"
  ve_live_eligibility_status :: string

definition virtual_eligibility_post_init :: "virtual_eligibility \<Rightarrow> virtual_eligibility result" where
  "virtual_eligibility_post_init v =
     (let eligible = ve_status v = VE_ELIGIBLE in
     bindE (require_unique (''virtual simulation reason codes'', ve_reason_codes v)) (\<lambda>_.
     bindE (require_unique (''virtual simulation blockers'', ve_blockers v)) (\<lambda>_.
     validate
       [(ve_blockers v \<noteq> [] \<and> ve_blocker_reduction v = None,
         ''blocked virtual simulation requires root-cause reduction''),
        (ve_blockers v \<noteq> [] \<and> map_option br_root_cause_codes (ve_blocker_reduction v) \<noteq> Some (ve_blockers v),
         ''blocked virtual simulation root-cause reduction is inconsistent''),
        (ve_blockers v = [] \<and> ve_blocker_reduction v \<noteq> None,
         ''eligible virtual simulation cannot carry root-cause reduction''),
        (ve_live_eligibility_status v \<noteq> live_blocked,
         ''virtual simulation eligibility must remain live blocked''),
        (ve_binance_order_allowed v \<or> ve_live_order_allowed v,
         ''virtual simulation eligibility cannot authorize orders''),
        (eligible \<and> ve_execution_surface v \<noteq> VIRTUAL_MARKET,
         ''eligible virtual simulation must target VIRTUAL_MARKET''),
        (eligible \<and> (\<not> ve_virtual_simulation_allowed v \<or> \<not> ve_auto_simulation_allowed v),
         ''eligible virtual simulation requires autonomous simulation authority''),
        (eligible \<and> ve_requires_manual_confirmation v,
         ''eligible virtual simulation cannot require manual confirmation''),
        (eligible \<and> ve_blockers v \<noteq> [], ''eligible virtual simulation cannot contain blockers''),
        (\<not> eligible \<and> ve_blockers v = [], ''blocked virtual simulation requires blockers'')] v)))"

definition authority_stage :: "execution_surface \<Rightarrow> execution_envelope \<Rightarrow> string list" where
  "authority_stage surface env =
     flag_if (surface \<noteq> VIRTUAL_MARKET) ''EXECUTION_SURFACE_NOT_VIRTUAL_MARKET''
     @ flag_if (\<not> ee_virtual_simulation_allowed env) ''VIRTUAL_SIMULATION_NOT_ALLOWED''
     @ flag_if (\<not> ee_auto_simulation_allowed env) ''AUTO_SIMULATION_NOT_ALLOWED''
     @ flag_if (ee_external_order_allowed env) ''BINANCE_ORDER_AUTHORITY_LEAK''
     @ flag_if (ee_live_order_allowed env) ''LIVE_ORDER_AUTHORITY_LEAK''"

text \<open>
  \<open>g\<close> holds the caller's seven groups; its authority group is not an argument of the function and
  is replaced.
\<close>

definition evaluate_eligibility :: "(string \<Rightarrow> bool) \<Rightarrow> execution_surface \<Rightarrow> stage_blockers \<Rightarrow>
    virtual_eligibility result" where
  "evaluate_eligibility known surface g =
     bindE (execution_envelope_for_surface surface) (\<lambda>env.
     bindE (reduce_virtual_blockers known (g\<lparr>sb_authority := authority_stage surface env\<rparr>)) (\<lambda>r.
       let blockers = dict_fromkeys (br_root_cause_codes r);
           eligible = (blockers = [])
       in virtual_eligibility_post_init
            \<lparr>ve_status = (if eligible then VE_ELIGIBLE else VE_BLOCKED), ve_execution_surface = surface,
             ve_requires_manual_confirmation = ee_manual_confirmation_required env,
             ve_virtual_simulation_allowed = (ee_virtual_simulation_allowed env \<and> eligible),
             ve_auto_simulation_allowed = (ee_auto_simulation_allowed env \<and> eligible),
             ve_binance_order_allowed = False, ve_live_order_allowed = False,
             ve_reason_codes = (if eligible then ee_reason_codes env
                else dict_fromkeys (ee_reason_codes env @ blockers)),
             ve_blockers = blockers, ve_blocker_reduction = (if eligible then None else Some r),
             ve_live_eligibility_status = live_blocked\<rparr>))"

section \<open>The loops compute ordered de-duplication\<close>

lemma append_unseen_fromkeys: "append_unseen ordered xs = ordered @ fromkeys_acc ordered xs"
proof (induction ordered xs rule: append_unseen.induct)
  case (2 ordered x xs)
  have "fromkeys_acc (x # ordered) xs = fromkeys_acc (ordered @ [x]) xs"
    by (rule fromkeys_acc_cong) auto
  with 2 show ?case by auto
qed simp

lemma foldl_append_unseen:
  "foldl append_unseen ordered groups = ordered @ fromkeys_acc ordered (concat groups)"
proof (induction groups arbitrary: ordered)
  case (Cons g gs)
  have "fromkeys_acc (ordered @ fromkeys_acc ordered g) (concat gs) = fromkeys_acc (g @ ordered) (concat gs)"
    by (rule fromkeys_acc_cong) (auto simp: set_fromkeys_acc)
  with Cons show ?case by (simp add: append_unseen_fromkeys fromkeys_acc_append)
qed simp

lemma unique_sequence_eq: "unique_sequence groups = dict_fromkeys (concat groups)"
  by (simp add: unique_sequence_def dict_fromkeys_def foldl_append_unseen)

section \<open>Properties\<close>

definition clean :: "string list \<Rightarrow> bool" where
  "clean codes \<longleftrightarrow> distinct codes \<and> \<not> list_ex blank codes"

lemma require_unique_Inr [simp]: "require_unique g = Inr u \<longleftrightarrow> clean (snd g)"
  by (simp add: require_unique_def unique_nonblank_def clean_def)

lemma require_unique_clean: "clean (snd g) \<Longrightarrow> require_unique g = Inr ()"
  by simp

lemma mapE_unit: "(\<exists>us. mapE f xs = Inr us) \<longleftrightarrow> list_all (\<lambda>x. \<exists>u. f x = Inr u) xs"
  by (induction xs) auto

lemma clean_parts:
  "clean codes \<Longrightarrow> clean (filter P codes)" "list_all clean gs \<Longrightarrow> clean (dict_fromkeys (concat gs))"
  "clean (dict_fromkeys xs) \<longleftrightarrow> \<not> list_ex blank xs"
  by (auto simp: clean_def list_all_iff list_ex_iff)

text \<open>The reduction succeeds exactly on stages without repeated or blank codes, and keeps every code.\<close>

lemma blocker_reduction_ok:
  assumes "list_all clean (map snd (stage_groups (br_groups r)))"
    and codes: "br_root_cause_codes r = dict_fromkeys (concat (map snd (stage_groups (br_groups r))))"
    and "br_known_blockers r = filter P (br_root_cause_codes r)" "br_unknown_blockers r = filter Q (br_root_cause_codes r)"
    and "\<And>c. P c \<or> Q c" "br_blocker_count r = int (length (br_root_cause_codes r))"
  shows "blocker_reduction_post_init r = Inr r"
proof -
  have c: "clean (br_root_cause_codes r)" unfolding codes using assms(1) by (rule clean_parts)
  have "list_all (\<lambda>x. \<exists>u. require_unique x = Inr u) (stage_groups (br_groups r)
      @ [(''root cause codes'', br_root_cause_codes r), (''known blockers'', br_known_blockers r),
         (''unknown blockers'', br_unknown_blockers r)])"
    using assms(1,3,4) c clean_parts(1) [OF c] by (simp add: list_all_iff)
  then obtain us where "mapE require_unique (stage_groups (br_groups r)
      @ [(''root cause codes'', br_root_cause_codes r), (''known blockers'', br_known_blockers r),
         (''unknown blockers'', br_unknown_blockers r)]) = Inr us"
    unfolding mapE_unit [symmetric] by blast
  moreover have "set (br_known_blockers r) \<union> set (br_unknown_blockers r) = set (br_root_cause_codes r)"
    using assms(3-5) by auto
  ultimately show ?thesis
    unfolding blocker_reduction_post_init_def using codes assms(6) by (simp add: unique_sequence_eq)
qed

lemma reduce_clean:
  assumes "list_all clean (map snd (stage_groups g))"
  shows "\<exists>r. reduce_virtual_blockers known g = Inr r \<and>
    br_root_cause_codes r = dict_fromkeys (concat (map snd (stage_groups g)))"
  unfolding reduce_virtual_blockers_def Let_def unique_sequence_eq
  by (subst blocker_reduction_ok [where P = known and Q = "\<lambda>c. c \<notin> set (filter known
       (dict_fromkeys (concat (map snd (stage_groups g)))))"]) (use assms in auto)

lemma reduce_unclean:
  assumes "\<not> list_all clean (map snd (stage_groups g))"
  shows "reduce_virtual_blockers known g \<noteq> Inr r"
proof -
  from assms have "\<not> list_all (\<lambda>x. \<exists>u. require_unique x = Inr u) (stage_groups g @ xs)" for xs
    by (auto simp: list_all_iff)
  then have "mapE require_unique (stage_groups g @ xs) \<noteq> Inr us" for xs us
    unfolding mapE_unit [symmetric] by blast
  then show ?thesis by (simp add: reduce_virtual_blockers_def blocker_reduction_post_init_def Let_def)
qed

definition surface_blockers :: "execution_surface \<Rightarrow> string list" where
  "surface_blockers surface =
     (case surface of VIRTUAL_MARKET \<Rightarrow> []
      | BINANCE_MARKET \<Rightarrow> [''EXECUTION_SURFACE_NOT_VIRTUAL_MARKET'', ''VIRTUAL_SIMULATION_NOT_ALLOWED'',
          ''AUTO_SIMULATION_NOT_ALLOWED''])"

text \<open>What the governed envelope of each surface permits.\<close>

lemma surface_envelope:
  "\<exists>env. execution_envelope_for_surface surface = Inr env \<and> authority_stage surface env = surface_blockers surface \<and>
     clean (ee_reason_codes env) \<and> (ee_manual_confirmation_required env \<longleftrightarrow> surface = BINANCE_MARKET) \<and>
     (ee_virtual_simulation_allowed env \<longleftrightarrow> surface = VIRTUAL_MARKET) \<and>
     (ee_auto_simulation_allowed env \<longleftrightarrow> surface = VIRTUAL_MARKET) \<and>
     ee_paper_execution_allowed env"
proof -
  have "case execution_envelope_for_surface s of Inl _ \<Rightarrow> False
    | Inr env \<Rightarrow> authority_stage s env = surface_blockers s \<and>
     clean (ee_reason_codes env) \<and> (ee_manual_confirmation_required env \<longleftrightarrow> s = BINANCE_MARKET) \<and>
     (ee_virtual_simulation_allowed env \<longleftrightarrow> s = VIRTUAL_MARKET) \<and>
     (ee_auto_simulation_allowed env \<longleftrightarrow> s = VIRTUAL_MARKET) \<and>
     ee_paper_execution_allowed env" for s
    by (cases s) (simp_all only:, code_simp+)
  from this [of surface] show ?thesis by (auto split: sum.splits)
qed

definition caller_groups :: "stage_blockers \<Rightarrow> string list list" where
  "caller_groups g = [sb_analysis g, sb_candidate g, sb_risk g, sb_validation g, sb_dge g, sb_portfolio g,
     sb_feasibility g]"

lemma stage_groups_authority:
  "map snd (stage_groups (g\<lparr>sb_authority := a\<rparr>)) = caller_groups g @ [a]"
  by (simp add: stage_groups_def caller_groups_def)

lemma clean_surface_blockers: "clean (surface_blockers surface)"
  by (cases surface) (simp_all only:, code_simp+)

lemma eligibility_result:
  "case evaluate_eligibility known surface g of
     Inl _ \<Rightarrow> \<not> list_all clean (caller_groups g)
   | Inr v \<Rightarrow> list_all clean (caller_groups g) \<and>
       ve_blockers v = dict_fromkeys (concat (caller_groups g) @ surface_blockers surface) \<and>
       (ve_status v = VE_ELIGIBLE \<longleftrightarrow> surface = VIRTUAL_MARKET \<and> list_all (\<lambda>codes. codes = []) (caller_groups g)) \<and>
       (ve_virtual_simulation_allowed v \<longleftrightarrow> ve_status v = VE_ELIGIBLE) \<and>
       (ve_auto_simulation_allowed v \<longleftrightarrow> ve_status v = VE_ELIGIBLE) \<and>
       \<not> ve_binance_order_allowed v \<and> \<not> ve_live_order_allowed v"
proof -
  obtain env where env: "execution_envelope_for_surface surface = Inr env"
    "authority_stage surface env = surface_blockers surface" "clean (ee_reason_codes env)"
    "ee_manual_confirmation_required env \<longleftrightarrow> surface = BINANCE_MARKET"
    "ee_virtual_simulation_allowed env \<longleftrightarrow> surface = VIRTUAL_MARKET"
    "ee_auto_simulation_allowed env \<longleftrightarrow> surface = VIRTUAL_MARKET"
    using surface_envelope by blast
  let ?g = "g\<lparr>sb_authority := surface_blockers surface\<rparr>"
  have groups: "map snd (stage_groups ?g) = caller_groups g @ [surface_blockers surface]"
    by (rule stage_groups_authority)
  show ?thesis
  proof (cases "list_all clean (caller_groups g)")
    case True
    define codes where "codes = dict_fromkeys (concat (caller_groups g) @ surface_blockers surface)"
    have clean: "list_all clean (map snd (stage_groups ?g))"
      using True clean_surface_blockers unfolding groups by simp
    then obtain r where r: "reduce_virtual_blockers known ?g = Inr r" "br_root_cause_codes r = codes"
      using reduce_clean [of ?g known] unfolding groups codes_def by auto
    have cl: "clean codes" using clean_parts(2) [OF clean] unfolding groups codes_def by simp
    then have "clean (dict_fromkeys (ee_reason_codes env @ codes))" "dict_fromkeys codes = codes"
      using env(3) by (auto simp: clean_def list_ex_iff dict_fromkeys_distinct)
    moreover have "codes = [] \<longleftrightarrow> surface = VIRTUAL_MARKET \<and> list_all (\<lambda>c. c = []) (caller_groups g)"
      by (cases surface) (simp_all add: codes_def surface_blockers_def list_all_iff)
    ultimately show ?thesis unfolding codes_def [symmetric] using True env r cl
      by (cases "codes = []"; cases surface)
        (simp_all add: evaluate_eligibility_def virtual_eligibility_post_init_def Let_def validate.simps
          require_unique_clean)
  next
    case False
    then have "\<not> list_all clean (map snd (stage_groups ?g))" unfolding groups by simp
    then obtain e where "reduce_virtual_blockers known ?g = Inl e"
      using reduce_unclean [of ?g known] by (cases "reduce_virtual_blockers known ?g") auto
    then show ?thesis using False env(1,2) by (simp add: evaluate_eligibility_def)
  qed
qed

text \<open>
  A virtual simulation is eligible exactly when nothing blocks it. The evaluation raises only on
  a stage that repeats a code or has a blank one; otherwise it is ELIGIBLE exactly on the virtual
  market with every stage empty, its blockers are all the stages' codes in stage order without
  repetition, it grants simulation exactly when eligible, and it never grants an order.
\<close>

theorem eligibility_exact:
  "case evaluate_eligibility known surface g of
     Inl _ \<Rightarrow> \<not> list_all clean (caller_groups g)
   | Inr v \<Rightarrow> list_all clean (caller_groups g) \<and>
       ve_blockers v = dict_fromkeys (concat (caller_groups g) @ surface_blockers surface) \<and>
       (ve_status v = VE_ELIGIBLE \<longleftrightarrow> surface = VIRTUAL_MARKET \<and> list_all (\<lambda>codes. codes = []) (caller_groups g)) \<and>
       (ve_virtual_simulation_allowed v \<longleftrightarrow> ve_status v = VE_ELIGIBLE) \<and>
       (ve_auto_simulation_allowed v \<longleftrightarrow> ve_status v = VE_ELIGIBLE) \<and>
       \<not> ve_binance_order_allowed v \<and> \<not> ve_live_order_allowed v"
  by (rule eligibility_result)

end
