(* ===== verification/Paper_Trading.thy ===== *)
theory Paper_Trading
  imports Risk_Engine Virtual_Eligibility
begin

text \<open>
  Simulated trading: \<^verbatim>\<open>domain/research/trailing.py\<close>, \<^verbatim>\<open>domain/research/paper_models.py\<close>, the candles of
  \<^verbatim>\<open>domain/market_data.py\<close> and the broker of \<^verbatim>\<open>execution/paper.py\<close>, which turns a risk assessment into a
  filled or rejected paper order and finds the exit of a long position in a candle.
\<close>

section \<open>Candles\<close>

record candle =
  cd_timestamp :: datetime
  cd_open :: dec
  cd_high :: dec
  cd_low :: dec
  cd_close :: dec
  cd_volume :: dec

definition candle_post_init :: "candle \<Rightarrow> candle result" where
  "candle_post_init c = validate
     [(\<not> is_aware (cd_timestamp c), ''timestamp must be timezone-aware''),
      (list_ex (\<lambda>x. x < 0) [cd_open c, cd_high c, cd_low c, cd_close c, cd_volume c],
       ''OHLCV values cannot be negative''),
      (cd_low c > cd_high c, ''candle low cannot exceed high''),
      (cd_high c < max (cd_open c) (cd_close c) \<or> cd_low c > min (cd_open c) (cd_close c),
       ''invalid OHLC relationship'')] c"

section \<open>Trailing stop\<close>

record trailing_update =
  tu_previous_stop :: dec
  tu_new_stop :: dec
  tu_moved :: bool

definition update_long_trailing_stop :: "dec \<Rightarrow> dec \<Rightarrow> dec \<Rightarrow> dec \<Rightarrow> dec \<Rightarrow> trailing_update result" where
  "update_long_trailing_stop previous price atr multiplier tick =
     (if list_ex (\<lambda>x. x \<le> 0) [previous, price, atr, multiplier, tick]
      then Inl (ValueError ''trailing-stop inputs must be positive'')
      else if previous \<ge> price then Inl (ValueError ''previous_stop must remain below current_price'')
      else
        let candidate = d_sub price (d_mul multiplier atr);
            rounded = d_mul (d_trunc (d_quot candidate tick)) tick;
            new_stop = max previous rounded
        in Inr \<lparr>tu_previous_stop = previous, tu_new_stop = new_stop, tu_moved = (new_stop > previous)\<rparr>)"

section \<open>Orders and positions\<close>

datatype paper_order_status = PO_FILLED | PO_REJECTED

datatype exit_reason = STOP_LOSS_EXIT | TRAILING_STOP_EXIT | TAKE_PROFIT_EXIT

record paper_order =
  po_candidate_id :: string
  po_timestamp :: datetime
  po_symbol :: string
  po_action :: action
  po_status :: paper_order_status
  po_quantity :: dec
  po_requested_price :: dec
  po_fill_price :: dec
  po_fee_usdt :: dec
  po_blockers :: "string list"
  po_stop_loss :: "dec option"
  po_take_profit_levels :: "dec list"
  po_leverage :: "int option"
  po_planned_rr :: "dec option"
  po_net_pnl :: "dec option"
  po_decision_evidence :: decision_evidence
  po_parameter_methods :: trade_methods

definition paper_order_post_init :: "paper_order \<Rightarrow> paper_order result" where
  "paper_order_post_init p = validate
     [(\<not> is_aware (po_timestamp p), ''paper order timestamp must be timezone-aware''),
      (list_ex (\<lambda>x. x < 0) [po_quantity p, po_requested_price p, po_fill_price p, po_fee_usdt p],
       ''paper order numeric values cannot be negative''),
      (po_status p = PO_FILLED \<and> po_blockers p \<noteq> [], ''filled paper order cannot contain blockers'')] p"

record paper_position =
  pp_candidate_id :: string
  pp_symbol :: string
  pp_entry_price :: dec
  pp_quantity :: dec
  pp_stop_loss :: dec
  pp_trailing_stop :: dec
  pp_take_profit_levels :: "dec list"

definition paper_position_post_init :: "paper_position \<Rightarrow> paper_position result" where
  "paper_position_post_init p = validate
     [(list_ex (\<lambda>x. x \<le> 0) [pp_entry_price p, pp_quantity p, pp_stop_loss p, pp_trailing_stop p],
       ''paper position values must be positive''),
      (pp_stop_loss p \<ge> pp_entry_price p, ''long paper stop loss must remain below entry''),
      (pp_take_profit_levels p = [] \<or> list_ex (\<lambda>t. t \<le> pp_entry_price p) (pp_take_profit_levels p),
       ''long paper targets must remain above entry'')] p"

record paper_exit =
  px_candidate_id :: string
  px_reason :: exit_reason
  px_price :: dec

section \<open>The broker\<close>

record paper_broker =
  pb_fee_ratio :: dec
  pb_slippage_ratio :: dec
  pb_execution_surface :: execution_surface

definition paper_broker_post_init :: "paper_broker \<Rightarrow> paper_broker result" where
  "paper_broker_post_init b =
     bindE (validate
       [(\<not> (0 \<le> pb_fee_ratio b \<and> pb_fee_ratio b \<le> 1 / 100), ''fee_ratio must be between zero and 0.01''),
        (\<not> (0 \<le> pb_slippage_ratio b \<and> pb_slippage_ratio b \<le> 2 / 100),
         ''slippage_ratio must be between zero and 0.02'')] ()) (\<lambda>_.
     bindE (execution_envelope_for_surface (pb_execution_surface b)) (\<lambda>_. Inr b))"

definition eligibility_blockers :: "trade_candidate \<Rightarrow> virtual_eligibility option \<Rightarrow> string list" where
  "eligibility_blockers c elig =
     (case elig of
        None \<Rightarrow> flag_if (tc_promotion_status c \<noteq> VS_PAPER_APPROVED) ''SIMULATION_PROMOTION_REQUIRED''
      | Some v \<Rightarrow>
          (if ve_status v \<noteq> VE_ELIGIBLE then ve_blockers v else [])
          @ flag_if (ve_binance_order_allowed v) ''BINANCE_ORDER_AUTHORITY_LEAK''
          @ flag_if (ve_live_order_allowed v) ''LIVE_ORDER_AUTHORITY_LEAK''
          @ flag_if (\<not> ve_virtual_simulation_allowed v) ''VIRTUAL_SIMULATION_NOT_ALLOWED'')"

definition submit_blockers :: "execution_envelope \<Rightarrow> trade_candidate \<Rightarrow> risk_assessment \<Rightarrow> datetime \<Rightarrow>
    virtual_eligibility option \<Rightarrow> string list" where
  "submit_blockers env c a t elig =
     ra_blockers a
     @ flag_if (ra_candidate_id a \<noteq> tc_candidate_id c) ''RISK_ASSESSMENT_CANDIDATE_MISMATCH''
     @ flag_if (ra_scenario_id a \<noteq> tc_scenario_id c) ''RISK_ASSESSMENT_SCENARIO_MISMATCH''
     @ flag_if (tc_market_type c \<noteq> ''SPOT'') ''FUTURES_EXECUTION_MODEL_UNAVAILABLE''
     @ flag_if (instant t < instant (tc_timestamp c)) ''CANDIDATE_NOT_YET_AVAILABLE''
     @ flag_if (case tc_entry_expiry c of None \<Rightarrow> False | Some x \<Rightarrow> instant t \<ge> instant x) ''CANDIDATE_EXPIRED''
     @ flag_if (\<not> ra_approved a) ''RISK_NOT_APPROVED''
     @ flag_if (ra_quantity a \<le> 0 \<or> ra_size_usdt a \<le> 0) ''INVALID_PAPER_QUANTITY''
     @ flag_if (tc_status c \<noteq> CS_READY_FOR_RISK) ''CANDIDATE_NOT_READY''
     @ eligibility_blockers c elig
     @ flag_if (\<not> ee_paper_execution_allowed env) ''SIMULATED_EXECUTION_PROFILE_BLOCKED''
     @ flag_if (ee_manual_confirmation_required env) ''HUMAN_HAND_MANUAL_EXECUTION_REQUIRED''
     @ flag_if (\<not> ee_auto_simulation_allowed env) ''AUTO_SIMULATION_NOT_ALLOWED''"

definition submit_methods :: "trade_candidate \<Rightarrow> trade_methods" where
  "submit_methods c =
     \<lparr>tm_quantity = ''DETERMINISTIC_RISK_ASSESSMENT'',
      tm_leverage = (if tc_market_type c = ''SPOT'' then ''NOT_APPLICABLE_SPOT'' else ''NOT_MODELED_BY_PAPER_BROKER''),
      tm_stop_loss = ''CANDIDATE_STOP_LOSS'', tm_entry = ''CANDIDATE_ENTRY_MIDPOINT_PLUS_PAPER_SLIPPAGE'',
      tm_take_profit = ''CANDIDATE_TARGET_LEVELS'',
      tm_risk_reward = ''FIRST_TARGET_DISTANCE_DIVIDED_BY_ENTRY_STOP_DISTANCE'',
      tm_pnl = ''UNREALIZED_UNTIL_PAPER_POSITION_CLOSE''\<rparr>"

definition rejected_order :: "trade_candidate \<Rightarrow> risk_assessment \<Rightarrow> datetime \<Rightarrow> string list \<Rightarrow> paper_order" where
  "rejected_order c a t blockers =
     \<lparr>po_candidate_id = tc_candidate_id c, po_timestamp = t, po_symbol = tc_symbol c, po_action = tc_action c,
      po_status = PO_REJECTED, po_quantity = ra_quantity a, po_requested_price = entry_price c, po_fill_price = 0,
      po_fee_usdt = 0, po_blockers = blockers, po_stop_loss = Some (tc_stop_loss c),
      po_take_profit_levels = tc_take_profit_levels c, po_leverage = None,
      po_planned_rr = Some (tc_risk_reward c), po_net_pnl = None, po_decision_evidence = tc_decision_evidence c,
      po_parameter_methods = (submit_methods c)\<lparr>tm_entry := ''NOT_FILLED_CANDIDATE_ENTRY_REFERENCE'',
        tm_risk_reward := ''CANDIDATE_REPORTED_RR'', tm_pnl := ''NO_FILLED_POSITION''\<rparr>\<rparr>"

definition fill_price :: "paper_broker \<Rightarrow> trade_candidate \<Rightarrow> dec" where
  "fill_price b c = d_mul (entry_price c)
     (if tc_action c = BUY then d_add 1 (pb_slippage_ratio b) else d_sub 1 (pb_slippage_ratio b))"

definition filled_order :: "paper_broker \<Rightarrow> trade_candidate \<Rightarrow> risk_assessment \<Rightarrow> datetime \<Rightarrow> dec \<Rightarrow> paper_order" where
  "filled_order b c a t target =
     (let fill = fill_price b c;
          sign = (if tc_action c = BUY then 1 else -1);
          risk = d_mul sign (d_sub fill (tc_stop_loss c));
          reward = d_mul sign (d_sub target fill)
      in \<lparr>po_candidate_id = tc_candidate_id c, po_timestamp = t, po_symbol = tc_symbol c, po_action = tc_action c,
          po_status = PO_FILLED, po_quantity = ra_quantity a, po_requested_price = entry_price c,
          po_fill_price = fill, po_fee_usdt = d_mul (d_mul fill (ra_quantity a)) (pb_fee_ratio b),
          po_blockers = [], po_stop_loss = Some (tc_stop_loss c),
          po_take_profit_levels = tc_take_profit_levels c, po_leverage = None,
          po_planned_rr = (if risk > 0 then Some (d_quot reward risk) else None), po_net_pnl = None,
          po_decision_evidence = tc_decision_evidence c, po_parameter_methods = submit_methods c\<rparr>)"

definition paper_submit :: "paper_broker \<Rightarrow> trade_candidate \<Rightarrow> risk_assessment \<Rightarrow> datetime \<Rightarrow>
    virtual_eligibility option \<Rightarrow> paper_order result" where
  "paper_submit b c a t elig =
     bindE (execution_envelope_for_surface (pb_execution_surface b)) (\<lambda>env.
       if \<not> is_aware t then Inl (ValueError ''paper submission timestamp must be timezone-aware'')
       else
         let blockers = dict_fromkeys (submit_blockers env c a t elig)
         in if blockers \<noteq> [] then paper_order_post_init (rejected_order c a t blockers)
            else bindE (first_target c) (\<lambda>target. paper_order_post_init (filled_order b c a t target)))"

definition evaluate_long_exit :: "paper_position \<Rightarrow> candle \<Rightarrow> paper_exit option result" where
  "evaluate_long_exit p cd =
     (let effective_stop = max (pp_stop_loss p) (pp_trailing_stop p)
      in if cd_low cd \<le> effective_stop
         then Inr (Some \<lparr>px_candidate_id = pp_candidate_id p,
           px_reason = (if pp_trailing_stop p > pp_stop_loss p then TRAILING_STOP_EXIT else STOP_LOSS_EXIT),
           px_price = min (cd_open cd) effective_stop\<rparr>)
         else case pp_take_profit_levels p of
           [] \<Rightarrow> Inl IndexError
         | target # _ \<Rightarrow>
             Inr (if cd_high cd \<ge> target
                  then Some \<lparr>px_candidate_id = pp_candidate_id p, px_reason = TAKE_PROFIT_EXIT, px_price = target\<rparr>
                  else None))"

section \<open>Properties\<close>

lemma surface_permissions:
  obtains env where "execution_envelope_for_surface surface = Inr env" "ee_paper_execution_allowed env"
    "ee_manual_confirmation_required env \<longleftrightarrow> surface = BINANCE_MARKET"
    "ee_auto_simulation_allowed env \<longleftrightarrow> surface = VIRTUAL_MARKET"
  using surface_envelope [of surface] by blast

lemma eligibility_blockers_Nil:
  assumes "\<And>v. elig = Some v \<Longrightarrow> virtual_eligibility_post_init v = Inr v"
  shows "eligibility_blockers c elig = [] \<longleftrightarrow>
    (case elig of None \<Rightarrow> tc_promotion_status c = VS_PAPER_APPROVED | Some v \<Rightarrow> ve_status v = VE_ELIGIBLE)"
proof (cases elig)
  case (Some v)
  from assms [OF Some] have "\<not> ve_binance_order_allowed v" "\<not> ve_live_order_allowed v"
    "ve_status v = VE_ELIGIBLE \<Longrightarrow> ve_virtual_simulation_allowed v"
    "ve_status v \<noteq> VE_ELIGIBLE \<Longrightarrow> ve_blockers v \<noteq> []"
    by (auto simp: virtual_eligibility_post_init_def Let_def)
  with Some show ?thesis by (auto simp: eligibility_blockers_def)
qed (simp add: eligibility_blockers_def)

text \<open>The conditions under which the broker fills.\<close>

definition fillable :: "paper_broker \<Rightarrow> trade_candidate \<Rightarrow> risk_assessment \<Rightarrow> datetime \<Rightarrow>
    virtual_eligibility option \<Rightarrow> bool" where
  "fillable b c a t elig \<longleftrightarrow> pb_execution_surface b = VIRTUAL_MARKET \<and> ra_approved a \<and>
     ra_candidate_id a = tc_candidate_id c \<and> ra_scenario_id a = tc_scenario_id c \<and> tc_market_type c = ''SPOT'' \<and>
     instant (tc_timestamp c) \<le> instant t \<and> (case tc_entry_expiry c of None \<Rightarrow> True | Some x \<Rightarrow> instant t < instant x) \<and>
     0 < ra_quantity a \<and> 0 < ra_size_usdt a \<and> tc_status c = CS_READY_FOR_RISK \<and>
     (case elig of None \<Rightarrow> tc_promotion_status c = VS_PAPER_APPROVED | Some v \<Rightarrow> ve_status v = VE_ELIGIBLE)"

lemma submit_blockers_Nil:
  assumes "risk_assessment_post_init a = Inr a" "\<And>v. elig = Some v \<Longrightarrow> virtual_eligibility_post_init v = Inr v"
    and "ee_paper_execution_allowed env" "ee_manual_confirmation_required env \<longleftrightarrow> pb_execution_surface b = BINANCE_MARKET"
    "ee_auto_simulation_allowed env \<longleftrightarrow> pb_execution_surface b = VIRTUAL_MARKET"
  shows "submit_blockers env c a t elig = [] \<longleftrightarrow> fillable b c a t elig"
proof -
  have "ra_approved a \<Longrightarrow> ra_blockers a = []" using assms(1) by (auto simp: risk_assessment_post_init_def Let_def)
  then show ?thesis
    using assms(3-5) eligibility_blockers_Nil [OF assms(2), where c = c]
    by (cases "pb_execution_surface b")
      (auto simp: submit_blockers_def fillable_def not_le not_less split: option.splits)
qed

lemma slippage_factors:
  assumes "paper_broker_post_init b = Inr b"
  shows "1 \<le> d_add 1 (pb_slippage_ratio b)" "0 \<le> d_sub 1 (pb_slippage_ratio b)" "d_sub 1 (pb_slippage_ratio b) \<le> 1"
  using assms d_add_ge_self [of 1 "pb_slippage_ratio b"] d_sub_le_self [of 1 "pb_slippage_ratio b"]
  by (auto simp: paper_broker_post_init_def)

lemma fill_price_adverse:
  assumes "paper_broker_post_init b = Inr b" "candidate_ok c"
  shows "if tc_action c = BUY then entry_price c \<le> fill_price b c else fill_price b c \<le> entry_price c" "0 \<le> fill_price b c"
proof -
  note sf = slippage_factors [OF assms(1)]
  have pos: "0 < entry_price c" using assms(2) by (rule candidate_ok_entry_pos)
  have rep: "dround (entry_price c) = entry_price c" by (simp add: entry_price_def)
  have "entry_price c \<le> entry_price c * d_add 1 (pb_slippage_ratio b)"
    "entry_price c * d_sub 1 (pb_slippage_ratio b) \<le> entry_price c"
    using sf pos by (simp_all add: mult_le_cancel_left1 mult_le_cancel_left2)
  then show "if tc_action c = BUY then entry_price c \<le> fill_price b c else fill_price b c \<le> entry_price c"
    using ctx.rnd_ge_rep [OF rep] ctx.rnd_le_rep [OF rep] by (simp add: fill_price_def d_mul_def)
  show "0 \<le> fill_price b c" using sf pos unfolding fill_price_def by (intro d_mul_nonneg) simp_all
qed

text \<open>
  C27: the broker fills exactly the trades it may. On a constructed broker, candidate, assessment and
  eligibility and an aware time, submitting always returns an order; it is FILLED exactly when the
  broker simulates the virtual market and the approved assessment belongs to this ready, unexpired
  Spot candidate with a positive size and simulation clearance. A filled order has the assessed
  quantity at a price no better than requested and a non-negative fee; any other order is REJECTED
  with blockers and no fill.
\<close>

theorem paper_fill_iff:
  assumes "paper_broker_post_init b = Inr b" "candidate_ok c" "risk_assessment_post_init a = Inr a" "is_aware t"
    and "\<And>v. elig = Some v \<Longrightarrow> virtual_eligibility_post_init v = Inr v"
  shows "\<exists>p. paper_submit b c a t elig = Inr p \<and> po_candidate_id p = tc_candidate_id c \<and> po_quantity p = ra_quantity a \<and>
    (if fillable b c a t elig
     then po_status p = PO_FILLED \<and> po_blockers p = [] \<and> po_fill_price p = fill_price b c \<and>
       (if tc_action c = BUY then po_requested_price p \<le> po_fill_price p else po_fill_price p \<le> po_requested_price p) \<and>
       0 \<le> po_fee_usdt p
     else po_status p = PO_REJECTED \<and> po_blockers p \<noteq> [] \<and> po_fill_price p = 0)"
proof -
  obtain env where env: "execution_envelope_for_surface (pb_execution_surface b) = Inr env"
    "ee_paper_execution_allowed env" "ee_manual_confirmation_required env \<longleftrightarrow> pb_execution_surface b = BINANCE_MARKET"
    "ee_auto_simulation_allowed env \<longleftrightarrow> pb_execution_surface b = VIRTUAL_MARKET"
    by (rule surface_permissions)
  note none = submit_blockers_Nil [OF assms(3,5) env(2-4), where c = c and t = t]
  have q: "0 \<le> ra_quantity a" using assms(3) by (auto simp: risk_assessment_post_init_def Let_def)
  have e: "0 < entry_price c" using assms(2) by (rule candidate_ok_entry_pos)
  note fp = fill_price_adverse [OF assms(1,2)]
  obtain target rest where tp: "tc_take_profit_levels c = target # rest"
    using candidate_ok_checks(1) [OF assms(2)] by (cases "tc_take_profit_levels c") (auto simp: candidate_values_def)
  have fee: "0 \<le> pb_fee_ratio b" using assms(1) by (simp add: paper_broker_post_init_def)
  show ?thesis
  proof (cases "fillable b c a t elig")
    case True
    let ?o = "filled_order b c a t target"
    have nn: "0 \<le> po_fee_usdt ?o"
      using fp(2) q fee unfolding filled_order_def Let_def by (simp add: d_mul_nonneg)
    have "paper_order_post_init ?o = Inr ?o"
      using nn fp(2) q e assms(4) by (simp add: paper_order_post_init_def filled_order_def Let_def)
    then have "paper_submit b c a t elig = Inr ?o"
      using env(1) assms(4) none True tp by (simp add: paper_submit_def first_target_def)
    then show ?thesis using nn fp(1) True by (auto simp: filled_order_def Let_def)
  next
    case False
    let ?o = "rejected_order c a t (dict_fromkeys (submit_blockers env c a t elig))"
    have "paper_order_post_init ?o = Inr ?o"
      using q e assms(4) by (simp add: paper_order_post_init_def rejected_order_def)
    then have "paper_submit b c a t elig = Inr ?o"
      using env(1) assms(4) none False by (simp add: paper_submit_def)
    then show ?thesis using False none by (auto simp: rejected_order_def)
  qed
qed

definition example_broker :: paper_broker where
  "example_broker = \<lparr>pb_fee_ratio = 1 / 1000, pb_slippage_ratio = 5 / 10000, pb_execution_surface = VIRTUAL_MARKET\<rparr>"

definition paper_example_candidate :: trade_candidate where
  "paper_example_candidate = example_candidate\<lparr>tc_promotion_status := VS_PAPER_APPROVED\<rparr>"

definition paper_example_assessment :: risk_assessment where
  "paper_example_assessment = \<lparr>ra_candidate_id = ''c1'', ra_approved = True, ra_size_usdt = 50, ra_quantity = 1 / 2,
     ra_risk_amount_usdt = 5, ra_blockers = [], ra_scenario_id = None\<rparr>"

theorem paper_fill_iff_witness:
  "\<exists>p. paper_submit example_broker paper_example_candidate paper_example_assessment (Aware 6) None = Inr p \<and>
     po_status p = PO_FILLED \<and> po_fill_price p = 100.05"
proof -
  have "(paper_broker_post_init example_broker = Inr example_broker) \<and>
      (candidate_ok paper_example_candidate) \<and>
      (risk_assessment_post_init paper_example_assessment = Inr paper_example_assessment) \<and>
      (fillable example_broker paper_example_candidate paper_example_assessment (Aware 6) None) \<and>
      (fill_price example_broker paper_example_candidate = 100.05)"
    by code_simp
  with paper_fill_iff [of example_broker paper_example_candidate paper_example_assessment "Aware 6" None]
  show ?thesis by auto
qed

text \<open>
  A trailing stop only rises and stays below the price. For a power-of-ten tick and a 28-digit
  price, the new stop is at least the old one and at most the price; when it moved, it is the distance
  stop rounded down to the tick exactly as the exchange's price filter rounds.
\<close>

theorem trailing_stop_monotone:
  assumes "update_long_trailing_stop previous price atr multiplier (10 powi k) = Inr u" "dround price = price"
  shows "previous \<le> tu_new_stop u \<and> tu_new_stop u \<le> price \<and> (tu_moved u \<longleftrightarrow> previous < tu_new_stop u) \<and>
    (if tu_moved u then tu_new_stop u = round_down (d_sub price (d_mul multiplier atr)) (10 powi k)
     else tu_new_stop u = previous)"
proof -
  let ?c = "d_sub price (d_mul multiplier atr)"
  let ?r = "d_mul (d_trunc (d_quot ?c (10 powi k))) (10 powi k)"
  have pos: "0 < previous" "0 < atr" "0 < multiplier" "previous < price"
    and u: "u = \<lparr>tu_previous_stop = previous, tu_new_stop = max previous ?r, tu_moved = (max previous ?r > previous)\<rparr>"
    using assms(1) unfolding update_long_trailing_stop_def by (auto simp: Let_def split: if_splits)
  have "\<not> (10::rat) powi k \<le> 0" by (simp add: not_le)
  then have r: "?r = round_down ?c (10 powi k)" by (simp add: round_down_def)
  have c: "?c \<le> price"
    using assms(2) pos by (intro d_sub_le_self) (auto intro: less_imp_le)
  have "?r \<le> price"
  proof (cases "0 \<le> ?c")
    case True
    then have "round_down ?c (10 powi k) \<le> ?c" by (intro round_down_bracket) simp_all
    with c r show ?thesis by simp
  next
    case False
    then have "?c \<le> 0" by linarith
    then have "?c / 10 powi k \<le> 0" by (rule divide_nonpos_pos) simp
    then have "d_quot ?c (10 powi k) \<le> 0" unfolding d_quot_def by (rule ctx.rnd_nonpos)
    then have "d_trunc (d_quot ?c (10 powi k)) \<le> 0" by (auto simp: d_trunc_def)
    then have "?r \<le> 0" unfolding d_mul_def by (intro ctx.rnd_nonpos) (simp add: mult_nonpos_nonneg)
    with pos show ?thesis by simp
  qed
  with pos r u show ?thesis by auto
qed

theorem trailing_stop_monotone_witness:
  "\<exists>u. update_long_trailing_stop 95 110 3 1.5 (10 powi (- 2)) = Inr u \<and> tu_moved u \<and> 95 \<le> tu_new_stop u \<and>
     tu_new_stop u \<le> 110"
proof -
  have tick: "(10::rat) powi (- 2) = 1 / 100" by (simp add: power_int_minus)
  have "case update_long_trailing_stop 95 110 3 1.5 (1 / 100) of Inl _ \<Rightarrow> False | Inr u \<Rightarrow> tu_moved u" by code_simp
  then obtain u where u: "update_long_trailing_stop 95 110 3 1.5 (10 powi (- 2)) = Inr u" "tu_moved u"
    unfolding tick by (cases "update_long_trailing_stop 95 110 3 1.5 (1 / 100)") auto
  with trailing_stop_monotone [OF u(1)] show ?thesis by simp
qed

end
