(* ===== verification/Paper_Lifecycle.thy ===== *)
theory Paper_Lifecycle
  imports Paper_Trading
begin

text \<open>
  \<^verbatim>\<open>domain/research/paper_lifecycle.py\<close>: a simulated long position from its opening order to its closure,
  with staged profit targets, a trailing stop and a closure review. The loop over the targets is a
  recursion whose measure is the number of targets still ahead. \<^verbatim>\<open>consume_core_output\<close> only lets an
  installed observer watch the review; without one it applies its arguments, which is what the model does.
\<close>

section \<open>Plans, exits and reviews\<close>

datatype position_status = PS_OPEN | PS_PARTIALLY_CLOSED | PS_CLOSED

record staged_exit_plan =
  sp_targets :: "dec list"
  sp_quantity_ratios :: "dec list"

definition staged_exit_plan_post_init :: "staged_exit_plan \<Rightarrow> staged_exit_plan result" where
  "staged_exit_plan_post_init p = validate
     [(sp_targets p = [] \<or> length (sp_targets p) \<noteq> length (sp_quantity_ratios p),
       ''staged targets and ratios must be non-empty and aligned''),
      (list_ex (\<lambda>x. x \<le> 0) (sp_targets p @ sp_quantity_ratios p), ''staged exit values must be positive''),
      (sort (sp_targets p) \<noteq> sp_targets p \<or> \<not> distinct (sp_targets p),
       ''staged targets must be strictly ascending''),
      (d_sum (sp_quantity_ratios p) > 1, ''staged exit ratios cannot exceed one'')] p"

record lifecycle_exit =
  le_timestamp :: datetime
  le_reason :: exit_reason
  le_price :: dec
  le_quantity :: dec
  le_fee_usdt :: dec
  le_net_pnl_usdt :: dec

definition lifecycle_exit_post_init :: "lifecycle_exit \<Rightarrow> lifecycle_exit result" where
  "lifecycle_exit_post_init x = validate
     [(\<not> is_aware (le_timestamp x), ''lifecycle exit timestamp must be timezone-aware''),
      (list_ex (\<lambda>v. v < 0) [le_price x, le_quantity x, le_fee_usdt x], ''lifecycle exit values cannot be negative'')] x"

record closure_context =
  cc_ignored_signals :: int
  cc_htf_weakness :: bool
  cc_volatility_expansion :: bool
  cc_level_break :: bool

definition closure_context_post_init :: "closure_context \<Rightarrow> closure_context result" where
  "closure_context_post_init c = validate [(cc_ignored_signals c < 0, ''ignored signal count cannot be negative'')] c"

record closure_review =
  cr_exit_reason :: exit_reason
  cr_lifecycle_error :: "string option"
  cr_stop_quality :: string
  cr_trailing_quality :: string
  cr_ignored_signals :: int
  cr_htf_weakness :: bool
  cr_volatility_expansion :: bool
  cr_level_break :: bool
  cr_staged_exit_alternative :: string
  cr_lesson_candidate :: string

definition exit_reason_value :: "exit_reason \<Rightarrow> string" where
  "exit_reason_value r = (case r of STOP_LOSS_EXIT \<Rightarrow> ''STOP_LOSS_EXIT'' | TRAILING_STOP_EXIT \<Rightarrow> ''TRAILING_STOP_EXIT''
     | TAKE_PROFIT_EXIT \<Rightarrow> ''TAKE_PROFIT_EXIT'')"

text \<open>\<^verbatim>\<open>"STOP" in reason.value\<close> holds of the two stop exits.\<close>

definition closure_review_of :: "exit_reason \<Rightarrow> closure_context \<Rightarrow> bool \<Rightarrow> closure_review" where
  "closure_review_of reason cx staged_exit_used =
     (let trailing = (reason = TRAILING_STOP_EXIT)
      in \<lparr>cr_exit_reason = reason, cr_lifecycle_error = None,
          cr_stop_quality = (if reason = TAKE_PROFIT_EXIT then ''NOT_TRIGGERED'' else ''PROTECTIVE''),
          cr_trailing_quality = (if trailing then ''PROTECTIVE'' else ''NOT_TRIGGERED''),
          cr_ignored_signals = cc_ignored_signals cx, cr_htf_weakness = cc_htf_weakness cx,
          cr_volatility_expansion = cc_volatility_expansion cx, cr_level_break = cc_level_break cx,
          cr_staged_exit_alternative = (if staged_exit_used then ''USED'' else ''NOT_USED_REVIEW''),
          cr_lesson_candidate = (if trailing then ''REVIEW_PREMATURE_TRAILING'' else ''REVIEW_EXIT_CONTEXT'')\<rparr>)"

section \<open>Positions\<close>

record lifecycle_position =
  lp_position_id :: string
  lp_candidate_id :: string
  lp_symbol :: string
  lp_opened_at :: datetime
  lp_entry_price :: dec
  lp_entry_fee_usdt :: dec
  lp_initial_quantity :: dec
  lp_remaining_quantity :: dec
  lp_stop_loss :: dec
  lp_trailing_stop :: dec
  lp_atr :: dec
  lp_plan :: staged_exit_plan
  lp_status :: position_status
  lp_next_target_index :: nat
  lp_realized_pnl_usdt :: dec
  lp_exits :: "lifecycle_exit list"
  lp_closure_review :: "closure_review option"
  lp_leverage :: "int option"
  lp_planned_rr :: "dec option"
  lp_decision_evidence :: decision_evidence
  lp_parameter_methods :: trade_methods
  lp_closure_assessment :: "closure_assessment option"

definition position_checks :: "lifecycle_position \<Rightarrow> (bool \<times> string) list" where
  "position_checks p =
     [(blank (lp_position_id p) \<or> blank (lp_candidate_id p), ''position identity is required''),
      (blank (lp_symbol p), ''position symbol is required''),
      (\<not> is_aware (lp_opened_at p), ''position timestamp must be timezone-aware''),
      (lp_entry_fee_usdt p < 0 \<or> list_ex (\<lambda>x. x \<le> 0) [lp_entry_price p, lp_initial_quantity p, lp_stop_loss p,
         lp_trailing_stop p, lp_atr p], ''position values must be positive except zero fee''),
      (\<not> (0 \<le> lp_remaining_quantity p \<and> lp_remaining_quantity p \<le> lp_initial_quantity p),
       ''remaining quantity is invalid''),
      (lp_status p = PS_CLOSED \<and> lp_remaining_quantity p \<noteq> 0, ''closed position cannot retain quantity''),
      (lp_status p \<noteq> PS_CLOSED \<and> lp_remaining_quantity p = 0, ''active position must retain quantity'')]"

definition position_planned_rr :: "lifecycle_position \<Rightarrow> dec option result" where
  "position_planned_rr p =
     (case sp_targets (lp_plan p) of
        [] \<Rightarrow> Inl IndexError
      | target # _ \<Rightarrow>
          let risk = d_sub (lp_entry_price p) (lp_stop_loss p); reward = d_sub target (lp_entry_price p)
          in Inr (if risk > 0 then Some (d_quot reward risk) else None))"

text \<open>The two fields that are no constructor arguments are computed afresh by every construction.\<close>

definition position_post_init :: "lifecycle_position \<Rightarrow> lifecycle_position result" where
  "position_post_init p =
     bindE (validate (position_checks p) ()) (\<lambda>_.
     bindE (position_planned_rr p) (\<lambda>rr.
       Inr (p\<lparr>lp_leverage := None, lp_planned_rr := rr,
         lp_closure_assessment :=
           (if lp_status p = PS_CLOSED \<and> lp_exits p \<noteq> []
            then Some (closure_build (lp_decision_evidence p) (lp_opened_at p) (lp_entry_price p)
                   (exit_reason_value (le_reason (last (lp_exits p)))))
            else None)\<rparr>)))"

section \<open>The engine\<close>

record lifecycle_engine =
  ln_fee_ratio :: dec
  ln_slippage_ratio :: dec
  ln_trailing_multiplier :: dec
  ln_tick_size :: dec

definition lifecycle_engine_post_init :: "lifecycle_engine \<Rightarrow> lifecycle_engine result" where
  "lifecycle_engine_post_init e = validate
     [(\<not> (0 \<le> ln_fee_ratio e \<and> ln_fee_ratio e \<le> 1 / 100), ''fee_ratio must be between zero and 0.01''),
      (\<not> (0 \<le> ln_slippage_ratio e \<and> ln_slippage_ratio e \<le> 2 / 100), ''slippage_ratio must be between zero and 0.02''),
      (min (ln_trailing_multiplier e) (ln_tick_size e) \<le> 0, ''trailing multiplier and tick size must be positive'')] e"

definition open_methods :: "paper_order \<Rightarrow> dec \<Rightarrow> staged_exit_plan \<Rightarrow> trade_methods" where
  "open_methods order stop_loss plan = (po_parameter_methods order)
     \<lparr>tm_leverage := ''NOT_APPLICABLE_SPOT'',
      tm_stop_loss := (if Some stop_loss = po_stop_loss order then tm_stop_loss (po_parameter_methods order)
        else ''EXPLICIT_LIFECYCLE_STOP_ARGUMENT''),
      tm_take_profit := (if sp_targets plan = po_take_profit_levels order
        then tm_take_profit (po_parameter_methods order) else ''EXPLICIT_STAGED_EXIT_PLAN''),
      tm_risk_reward := ''FIRST_TARGET_DISTANCE_DIVIDED_BY_FILLED_ENTRY_STOP_DISTANCE'',
      tm_pnl := ''PAPER_EXIT_CASHFLOWS_MINUS_ENTRY_AND_EXIT_FEES''\<rparr>"

definition opened_position :: "paper_order \<Rightarrow> dec \<Rightarrow> dec \<Rightarrow> staged_exit_plan \<Rightarrow> lifecycle_position" where
  "opened_position order stop_loss atr plan =
     \<lparr>lp_position_id = ''paper:'' @ po_candidate_id order, lp_candidate_id = po_candidate_id order,
      lp_symbol = po_symbol order, lp_opened_at = po_timestamp order, lp_entry_price = po_fill_price order,
      lp_entry_fee_usdt = po_fee_usdt order, lp_initial_quantity = po_quantity order,
      lp_remaining_quantity = po_quantity order, lp_stop_loss = stop_loss, lp_trailing_stop = stop_loss, lp_atr = atr,
      lp_plan = plan, lp_status = PS_OPEN, lp_next_target_index = 0, lp_realized_pnl_usdt = 0, lp_exits = [],
      lp_closure_review = None, lp_leverage = None, lp_planned_rr = None,
      lp_decision_evidence = po_decision_evidence order, lp_parameter_methods = open_methods order stop_loss plan,
      lp_closure_assessment = None\<rparr>"

definition open_position :: "lifecycle_engine \<Rightarrow> paper_order \<Rightarrow> dec \<Rightarrow> dec \<Rightarrow> staged_exit_plan \<Rightarrow>
    lifecycle_position result" where
  "open_position e order stop_loss atr plan =
     bindE (validate
       [(po_status order \<noteq> PO_FILLED, ''only filled paper orders can open positions''),
        (po_action order \<noteq> BUY, ''paper lifecycle currently supports Spot BUY positions''),
        (stop_loss \<ge> po_fill_price order, ''long stop loss must remain below entry''),
        (list_ex (\<lambda>t. t \<le> po_fill_price order) (sp_targets plan), ''long staged targets must remain above entry'')] ())
       (\<lambda>_. bindE (trade_methods_post_init (open_methods order stop_loss plan)) (\<lambda>_.
         position_post_init (opened_position order stop_loss atr plan)))"

definition exited_position :: "lifecycle_position \<Rightarrow> lifecycle_exit \<Rightarrow> dec \<Rightarrow> nat \<Rightarrow> closure_context \<Rightarrow>
    lifecycle_position" where
  "exited_position p x remaining next_target_index cx =
     p\<lparr>lp_remaining_quantity := remaining,
       lp_status := (if remaining = 0 then PS_CLOSED else PS_PARTIALLY_CLOSED),
       lp_next_target_index := next_target_index,
       lp_realized_pnl_usdt := d_add (lp_realized_pnl_usdt p) (le_net_pnl_usdt x),
       lp_exits := lp_exits p @ [x],
       lp_closure_review :=
         (if remaining = 0 then Some (closure_review_of (le_reason x) cx
              (lp_exits p \<noteq> [] \<or> le_reason x = TAKE_PROFIT_EXIT)) else None)\<rparr>"

definition apply_exit :: "lifecycle_engine \<Rightarrow> lifecycle_position \<Rightarrow> datetime \<Rightarrow> exit_reason \<Rightarrow> dec \<Rightarrow> dec \<Rightarrow>
    closure_context \<Rightarrow> nat \<Rightarrow> lifecycle_position result" where
  "apply_exit e p t reason price quantity cx next_target_index =
     (let fee = d_mul (d_mul price quantity) (ln_fee_ratio e)
      in bindE (d_div (d_mul (lp_entry_fee_usdt p) quantity) (lp_initial_quantity p)) (\<lambda>allocated.
         let pnl = d_sub (d_sub (d_mul (d_sub price (lp_entry_price p)) quantity) fee) allocated
         in bindE (lifecycle_exit_post_init \<lparr>le_timestamp = t, le_reason = reason, le_price = price,
               le_quantity = quantity, le_fee_usdt = fee, le_net_pnl_usdt = pnl\<rparr>) (\<lambda>x.
              position_post_init (exited_position p x (d_sub (lp_remaining_quantity p) quantity) next_target_index cx))))"

definition close_remaining :: "lifecycle_engine \<Rightarrow> lifecycle_position \<Rightarrow> datetime \<Rightarrow> exit_reason \<Rightarrow> dec \<Rightarrow>
    closure_context \<Rightarrow> lifecycle_position result" where
  "close_remaining e p t reason price cx =
     apply_exit e p t reason price (lp_remaining_quantity p) cx (lp_next_target_index p)"

definition nthE :: "'a list \<Rightarrow> nat \<Rightarrow> 'a result" where
  "nthE xs i = (if i < length xs then Inr (xs ! i) else Inl IndexError)"

text \<open>One round of the target loop: the exit at the next target.\<close>

definition exit_at_target :: "lifecycle_engine \<Rightarrow> candle \<Rightarrow> closure_context \<Rightarrow> lifecycle_position \<Rightarrow>
    lifecycle_position result" where
  "exit_at_target e cd cx p =
     (let i = lp_next_target_index p
      in bindE (nthE (sp_targets (lp_plan p)) i) (\<lambda>target.
         bindE (nthE (sp_quantity_ratios (lp_plan p)) i) (\<lambda>ratio.
           apply_exit e p (cd_timestamp cd) TAKE_PROFIT_EXIT (d_mul target (d_sub 1 (ln_slippage_ratio e)))
             (min (d_mul (lp_initial_quantity p) ratio) (lp_remaining_quantity p)) cx (Suc i))))"

lemma position_post_init_checks:
  "position_post_init p = Inr p' \<Longrightarrow> list_all (\<lambda>c. \<not> fst c) (position_checks p)"
  by (auto simp: position_post_init_def)

text \<open>Construction changes none of the fields it is given.\<close>

lemma position_post_init_fields:
  assumes "position_post_init p = Inr p'"
  shows "lp_position_id p' = lp_position_id p" "lp_candidate_id p' = lp_candidate_id p" "lp_symbol p' = lp_symbol p"
    "lp_opened_at p' = lp_opened_at p" "lp_entry_price p' = lp_entry_price p"
    "lp_entry_fee_usdt p' = lp_entry_fee_usdt p" "lp_initial_quantity p' = lp_initial_quantity p"
    "lp_remaining_quantity p' = lp_remaining_quantity p" "lp_stop_loss p' = lp_stop_loss p"
    "lp_trailing_stop p' = lp_trailing_stop p" "lp_atr p' = lp_atr p" "lp_plan p' = lp_plan p"
    "lp_status p' = lp_status p" "lp_next_target_index p' = lp_next_target_index p"
    "lp_realized_pnl_usdt p' = lp_realized_pnl_usdt p" "lp_exits p' = lp_exits p"
    "lp_closure_review p' = lp_closure_review p"
  using assms by (auto simp: position_post_init_def)

lemma apply_exit_Inr:
  assumes "apply_exit e p t reason price quantity cx i = Inr p'"
  obtains x where "lifecycle_exit_post_init x = Inr x" "le_timestamp x = t" "le_reason x = reason" "le_price x = price"
    "le_quantity x = quantity"
    "position_post_init (exited_position p x (d_sub (lp_remaining_quantity p) quantity) i cx) = Inr p'"
proof -
  let ?fee = "d_mul (d_mul price quantity) (ln_fee_ratio e)"
  obtain allocated where a: "d_div (d_mul (lp_entry_fee_usdt p) quantity) (lp_initial_quantity p) = Inr allocated"
    using assms by (auto simp: apply_exit_def Let_def)
  let ?x = "\<lparr>le_timestamp = t, le_reason = reason, le_price = price, le_quantity = quantity, le_fee_usdt = ?fee,
     le_net_pnl_usdt = d_sub (d_sub (d_mul (d_sub price (lp_entry_price p)) quantity) ?fee) allocated\<rparr>"
  have "lifecycle_exit_post_init ?x = Inr ?x"
    "position_post_init (exited_position p ?x (d_sub (lp_remaining_quantity p) quantity) i cx) = Inr p'"
    using assms a by (auto simp: apply_exit_def Let_def lifecycle_exit_post_init_def)
  then show thesis by (intro that [of ?x]) simp_all
qed

lemma exit_at_target_Inr:
  assumes "exit_at_target e cd cx p = Inr p'"
  obtains x q where "lifecycle_exit_post_init x = Inr x" "le_reason x = TAKE_PROFIT_EXIT"
    "position_post_init (exited_position p x (d_sub (lp_remaining_quantity p) (min q (lp_remaining_quantity p)))
       (Suc (lp_next_target_index p)) cx) = Inr p'"
proof -
  obtain price q where "apply_exit e p (cd_timestamp cd) TAKE_PROFIT_EXIT price (min q (lp_remaining_quantity p)) cx
      (Suc (lp_next_target_index p)) = Inr p'"
    using assms by (auto simp: exit_at_target_def Let_def)
  from apply_exit_Inr [OF this] that show thesis by metis
qed

lemma exit_at_target_advances:
  assumes "exit_at_target e cd cx p = Inr p'"
  shows "lp_next_target_index p' = Suc (lp_next_target_index p)" "lp_plan p' = lp_plan p"
proof -
  obtain x r where "position_post_init (exited_position p x r (Suc (lp_next_target_index p)) cx) = Inr p'"
    by (rule exit_at_target_Inr [OF assms])
  then show "lp_next_target_index p' = Suc (lp_next_target_index p)" "lp_plan p' = lp_plan p"
    by (simp_all add: position_post_init_fields exited_position_def)
qed

function take_targets :: "lifecycle_engine \<Rightarrow> candle \<Rightarrow> closure_context \<Rightarrow> lifecycle_position \<Rightarrow>
    lifecycle_position result" where
  "take_targets e cd cx p =
     (let i = lp_next_target_index p; targets = sp_targets (lp_plan p)
      in if i < length targets \<and> targets ! i \<le> cd_high cd
         then case exit_at_target e cd cx p of
                Inl err \<Rightarrow> Inl err
              | Inr p' \<Rightarrow> if lp_status p' = PS_CLOSED then Inr p' else take_targets e cd cx p'
         else Inr p)"
  by pat_completeness auto

termination
  by (relation "measure (\<lambda>(e, cd, cx, p). length (sp_targets (lp_plan p)) - lp_next_target_index p)")
    (auto simp: exit_at_target_advances)

declare take_targets.simps [simp del]

definition trail_stop :: "lifecycle_engine \<Rightarrow> candle \<Rightarrow> lifecycle_position \<Rightarrow> lifecycle_position result" where
  "trail_stop e cd p =
     bindE (update_long_trailing_stop (lp_trailing_stop p) (cd_close cd) (lp_atr p) (ln_trailing_multiplier e)
              (ln_tick_size e)) (\<lambda>u. position_post_init (p\<lparr>lp_trailing_stop := tu_new_stop u\<rparr>))"

definition effective_stop :: "lifecycle_position \<Rightarrow> dec" where
  "effective_stop p = max (lp_stop_loss p) (lp_trailing_stop p)"

definition process_candle :: "lifecycle_engine \<Rightarrow> lifecycle_position \<Rightarrow> candle \<Rightarrow> closure_context \<Rightarrow>
    lifecycle_position result" where
  "process_candle e p cd cx =
     (if lp_status p = PS_CLOSED then Inl (ValueError ''closed paper position cannot process candles'')
      else if instant (cd_timestamp cd) < instant (lp_opened_at p)
      then Inl (ValueError ''paper candle cannot precede position open time'')
      else if cd_low cd \<le> effective_stop p
      then close_remaining e p (cd_timestamp cd)
             (if lp_trailing_stop p > lp_stop_loss p then TRAILING_STOP_EXIT else STOP_LOSS_EXIT)
             (d_mul (min (cd_open cd) (effective_stop p)) (d_sub 1 (ln_slippage_ratio e))) cx
      else bindE (take_targets e cd cx p) (\<lambda>u. if lp_status u = PS_CLOSED then Inr u else trail_stop e cd u))"

section \<open>The invariant\<close>

definition position_ok :: "lifecycle_position \<Rightarrow> bool" where
  "position_ok p \<longleftrightarrow> list_all (\<lambda>c. \<not> fst c) (position_checks p) \<and>
     staged_exit_plan_post_init (lp_plan p) = Inr (lp_plan p) \<and>
     dround (lp_remaining_quantity p) = lp_remaining_quantity p \<and> lp_stop_loss p \<le> lp_trailing_stop p \<and>
     lp_realized_pnl_usdt p = d_sum (map le_net_pnl_usdt (lp_exits p)) \<and>
     (lp_status p = PS_OPEN \<longleftrightarrow> lp_exits p = []) \<and> (lp_status p = PS_CLOSED \<longleftrightarrow> lp_closure_review p \<noteq> None) \<and>
     lp_next_target_index p = length (filter (\<lambda>x. le_reason x = TAKE_PROFIT_EXIT) (lp_exits p)) \<and>
     lp_next_target_index p \<le> length (sp_targets (lp_plan p)) \<and>
     (lp_status p \<noteq> PS_CLOSED \<longrightarrow> list_all (\<lambda>x. le_reason x = TAKE_PROFIT_EXIT) (lp_exits p))"

lemma position_post_init_total:
  assumes "list_all (\<lambda>c. \<not> fst c) (position_checks p)" "sp_targets (lp_plan p) \<noteq> []"
  obtains p' where "position_post_init p = Inr p'"
  using assms by (cases "sp_targets (lp_plan p)") (auto simp: position_post_init_def position_planned_rr_def Let_def)

lemma position_checks_cong:
  assumes "position_post_init p = Inr p'"
  shows "position_checks p' = position_checks p"
  by (simp add: position_checks_def position_post_init_fields [OF assms])

lemma position_ok_cong:
  assumes "position_post_init p = Inr p'"
  shows "position_ok p' \<longleftrightarrow> position_ok p"
  by (simp add: position_ok_def position_checks_cong [OF assms] position_post_init_fields [OF assms])

lemma plan_nonempty: "position_ok p \<Longrightarrow> sp_targets (lp_plan p) \<noteq> []"
  by (auto simp: position_ok_def staged_exit_plan_post_init_def)

lemma position_ok_values:
  assumes "position_ok p"
  shows "0 < lp_entry_price p" "0 < lp_initial_quantity p" "0 < lp_stop_loss p" "0 < lp_trailing_stop p" "0 < lp_atr p"
    "0 \<le> lp_entry_fee_usdt p" "0 \<le> lp_remaining_quantity p" "lp_remaining_quantity p \<le> lp_initial_quantity p"
    "lp_status p = PS_CLOSED \<longleftrightarrow> lp_remaining_quantity p = 0"
  using assms by (auto simp: position_ok_def position_checks_def)

text \<open>An exit of at most what remains keeps the invariant.\<close>

lemma exited_position_ok:
  assumes ok: "position_ok p" "lp_status p \<noteq> PS_CLOSED" and q: "0 \<le> q" "q \<le> lp_remaining_quantity p"
    and i: "if le_reason x = TAKE_PROFIT_EXIT
      then i = Suc (lp_next_target_index p) \<and> lp_next_target_index p < length (sp_targets (lp_plan p))
      else i = lp_next_target_index p \<and> q = lp_remaining_quantity p"
  shows "position_ok (exited_position p x (d_sub (lp_remaining_quantity p) q) i cx)"
proof -
  let ?r = "d_sub (lp_remaining_quantity p) q"
  have rep: "dround (lp_remaining_quantity p) = lp_remaining_quantity p" using ok(1) by (simp add: position_ok_def)
  have r: "0 \<le> ?r" "?r \<le> lp_remaining_quantity p" using q rep by (simp_all add: d_sub_le_self)
  have stop: "le_reason x \<noteq> TAKE_PROFIT_EXIT \<Longrightarrow> ?r = 0" using i by simp
  have sum: "d_sum (map le_net_pnl_usdt (lp_exits p) @ [v]) = d_add (d_sum (map le_net_pnl_usdt (lp_exits p))) v" for v
    by (simp add: d_sum_def)
  show ?thesis
    using ok r stop i position_ok_values [OF ok(1)]
    unfolding position_ok_def position_checks_def exited_position_def
    by (auto simp: sum split: if_splits)
qed

text \<open>What a candle may change: it only exits, and only raises the trailing stop.\<close>

definition position_extends :: "lifecycle_position \<Rightarrow> lifecycle_position \<Rightarrow> bool" where
  "position_extends p p' \<longleftrightarrow> lp_position_id p' = lp_position_id p \<and> lp_symbol p' = lp_symbol p \<and>
     lp_opened_at p' = lp_opened_at p \<and> lp_entry_price p' = lp_entry_price p \<and>
     lp_initial_quantity p' = lp_initial_quantity p \<and> lp_stop_loss p' = lp_stop_loss p \<and> lp_plan p' = lp_plan p \<and>
     lp_trailing_stop p \<le> lp_trailing_stop p' \<and> lp_remaining_quantity p' \<le> lp_remaining_quantity p \<and>
     (\<exists>xs. lp_exits p' = lp_exits p @ xs)"

lemma position_extends_refl [simp]: "position_extends p p"
  by (simp add: position_extends_def)

lemma position_extends_trans: "position_extends p q \<Longrightarrow> position_extends q r \<Longrightarrow> position_extends p r"
  by (fastforce simp: position_extends_def)

definition engine_ok :: "lifecycle_engine \<Rightarrow> bool" where
  "engine_ok e \<longleftrightarrow> lifecycle_engine_post_init e = Inr e"

lemma engine_ok_values:
  assumes "engine_ok e"
  shows "0 \<le> ln_fee_ratio e" "0 \<le> d_sub 1 (ln_slippage_ratio e)" "0 < ln_trailing_multiplier e" "0 < ln_tick_size e"
  using assms by (auto simp: engine_ok_def lifecycle_engine_post_init_def min_le_iff_disj)

lemma apply_exit_total:
  assumes ok: "position_ok p" "lp_status p \<noteq> PS_CLOSED" "engine_ok e" "is_aware t" "0 \<le> price"
    and q: "0 \<le> q" "q \<le> lp_remaining_quantity p"
    and i: "if reason = TAKE_PROFIT_EXIT
      then i = Suc (lp_next_target_index p) \<and> lp_next_target_index p < length (sp_targets (lp_plan p))
      else i = lp_next_target_index p \<and> q = lp_remaining_quantity p"
  obtains p' x where "apply_exit e p t reason price q cx i = Inr p'" "position_ok p'" "position_extends p p'"
    "lp_exits p' = lp_exits p @ [x]" "le_reason x = reason" "le_price x = price" "le_quantity x = q"
    "lp_trailing_stop p' = lp_trailing_stop p"
proof -
  let ?fee = "d_mul (d_mul price q) (ln_fee_ratio e)"
  let ?allocated = "d_quot (d_mul (lp_entry_fee_usdt p) q) (lp_initial_quantity p)"
  let ?x = "\<lparr>le_timestamp = t, le_reason = reason, le_price = price, le_quantity = q, le_fee_usdt = ?fee,
     le_net_pnl_usdt = d_sub (d_sub (d_mul (d_sub price (lp_entry_price p)) q) ?fee) ?allocated\<rparr>"
  let ?p = "exited_position p ?x (d_sub (lp_remaining_quantity p) q) i cx"
  have x: "lifecycle_exit_post_init ?x = Inr ?x"
    using ok(4,5) q(1) engine_ok_values(1) [OF ok(3)] by (simp add: lifecycle_exit_post_init_def d_mul_nonneg not_less)
  have pok: "position_ok ?p" using i by (intro exited_position_ok [OF ok(1,2) q]) simp
  have "list_all (\<lambda>c. \<not> fst c) (position_checks ?p)" using pok by (simp add: position_ok_def)
  then obtain p' where p': "position_post_init ?p = Inr p'"
    using plan_nonempty [OF pok] by (rule position_post_init_total)
  have "apply_exit e p t reason price q cx i = Inr p'"
    using x p' position_ok_values(2) [OF ok(1)] by (simp add: apply_exit_def Let_def d_div_def)
  moreover have "position_ok p'" using pok p' by (simp add: position_ok_cong)
  moreover have "d_sub (lp_remaining_quantity p) q \<le> lp_remaining_quantity p"
    using ok(1) q by (intro d_sub_le_self) (simp_all add: position_ok_def)
  then have "position_extends p p'"
    by (simp add: position_extends_def position_post_init_fields [OF p'] exited_position_def)
  moreover have "lp_exits p' = lp_exits p @ [?x]" "lp_trailing_stop p' = lp_trailing_stop p"
    by (simp_all add: position_post_init_fields [OF p'] exited_position_def)
  ultimately show thesis by (intro that [of p' ?x]) simp_all
qed

lemma exit_at_target_total:
  assumes ok: "position_ok p" "lp_status p \<noteq> PS_CLOSED" "engine_ok e" "candle_post_init cd = Inr cd"
    and i: "lp_next_target_index p < length (sp_targets (lp_plan p))"
  obtains p' where "exit_at_target e cd cx p = Inr p'" "position_ok p'" "position_extends p p'"
    "lp_trailing_stop p' = lp_trailing_stop p" "list_all (\<lambda>x. le_reason x = TAKE_PROFIT_EXIT) (lp_exits p')"
proof -
  let ?plan = "lp_plan p" and ?i = "lp_next_target_index p"
  have plan: "length (sp_targets ?plan) = length (sp_quantity_ratios ?plan)"
    "list_all (\<lambda>x. 0 < x) (sp_targets ?plan)" "list_all (\<lambda>x. 0 < x) (sp_quantity_ratios ?plan)"
    using ok(1) by (auto simp: position_ok_def staged_exit_plan_post_init_def list_all_iff list_ex_iff not_le)
  let ?target = "sp_targets ?plan ! ?i" and ?ratio = "sp_quantity_ratios ?plan ! ?i"
  have pos: "0 < ?target" "0 < ?ratio" using plan i by (auto simp: list_all_length)
  let ?q = "min (d_mul (lp_initial_quantity p) ?ratio) (lp_remaining_quantity p)"
  have "0 \<le> ?q" using pos position_ok_values [OF ok(1)] by (auto simp: d_mul_nonneg)
  moreover have "0 \<le> d_mul ?target (d_sub 1 (ln_slippage_ratio e))"
    using pos engine_ok_values(2) [OF ok(3)] by (intro d_mul_nonneg) simp_all
  moreover have "is_aware (cd_timestamp cd)" using ok(4) by (simp add: candle_post_init_def)
  ultimately obtain p' x where "apply_exit e p (cd_timestamp cd) TAKE_PROFIT_EXIT
      (d_mul ?target (d_sub 1 (ln_slippage_ratio e))) ?q cx (Suc ?i) = Inr p'" "position_ok p'" "position_extends p p'"
      "lp_trailing_stop p' = lp_trailing_stop p" "lp_exits p' = lp_exits p @ [x]" "le_reason x = TAKE_PROFIT_EXIT"
    using i by (elim apply_exit_total [OF ok(1-3), where q = ?q and reason = TAKE_PROFIT_EXIT and i = "Suc ?i"]) auto
  moreover have "list_all (\<lambda>x. le_reason x = TAKE_PROFIT_EXIT) (lp_exits p)"
    using ok(1,2) by (simp add: position_ok_def)
  ultimately show thesis using i plan(1) by (intro that [of p']) (simp_all add: exit_at_target_def nthE_def Let_def)
qed

lemma take_targets_total:
  assumes "position_ok p" "lp_status p \<noteq> PS_CLOSED" "engine_ok e" "candle_post_init cd = Inr cd"
  shows "\<exists>p'. take_targets e cd cx p = Inr p' \<and> position_ok p' \<and> position_extends p p' \<and>
    lp_trailing_stop p' = lp_trailing_stop p \<and> list_all (\<lambda>x. le_reason x = TAKE_PROFIT_EXIT) (lp_exits p')"
  using assms
proof (induction e cd cx p rule: take_targets.induct)
  case (1 e cd cx p)
  let ?i = "lp_next_target_index p" and ?targets = "sp_targets (lp_plan p)"
  show ?case
  proof (cases "?i < length ?targets \<and> ?targets ! ?i \<le> cd_high cd")
    case True
    then obtain p1 where p1: "exit_at_target e cd cx p = Inr p1" "position_ok p1" "position_extends p p1"
      "lp_trailing_stop p1 = lp_trailing_stop p" "list_all (\<lambda>x. le_reason x = TAKE_PROFIT_EXIT) (lp_exits p1)"
      using exit_at_target_total [OF 1(2-5)] by blast
    show ?thesis
    proof (cases "lp_status p1 = PS_CLOSED")
      case True
      with \<open>?i < length ?targets \<and> _\<close> p1 show ?thesis by (simp add: take_targets.simps [of e cd cx p])
    next
      case False
      obtain p2 where "take_targets e cd cx p1 = Inr p2" "position_ok p2" "position_extends p1 p2"
        "lp_trailing_stop p2 = lp_trailing_stop p1" "list_all (\<lambda>x. le_reason x = TAKE_PROFIT_EXIT) (lp_exits p2)"
        using 1(1) [OF refl refl True p1(1) False p1(2) False 1(4,5)] by blast
      with \<open>?i < length ?targets \<and> _\<close> p1 False show ?thesis
        by (auto simp: take_targets.simps [of e cd cx p] intro: position_extends_trans)
    qed
  next
    case False
    moreover have "list_all (\<lambda>x. le_reason x = TAKE_PROFIT_EXIT) (lp_exits p)"
      using 1(2,3) by (simp add: position_ok_def)
    ultimately show ?thesis using 1(2) by (auto simp: take_targets.simps [of e cd cx p])
  qed
qed

lemma trail_stop_total:
  assumes ok: "position_ok p" "lp_status p \<noteq> PS_CLOSED" "engine_ok e" "lp_trailing_stop p < cd_close cd"
  obtains p' where "trail_stop e cd p = Inr p'" "position_ok p'" "position_extends p p'" "lp_exits p' = lp_exits p"
    "lp_status p' = lp_status p"
proof -
  note v = position_ok_values [OF ok(1)] and ev = engine_ok_values [OF ok(3)]
  obtain u where u: "update_long_trailing_stop (lp_trailing_stop p) (cd_close cd) (lp_atr p) (ln_trailing_multiplier e)
      (ln_tick_size e) = Inr u" "lp_trailing_stop p \<le> tu_new_stop u"
    using v ev ok(4) by (auto simp: update_long_trailing_stop_def Let_def not_le)
  let ?p = "p\<lparr>lp_trailing_stop := tu_new_stop u\<rparr>"
  have "0 < tu_new_stop u" "lp_stop_loss p \<le> tu_new_stop u" using u(2) v(4) ok(1) by (auto simp: position_ok_def)
  then have pok: "position_ok ?p" using ok(1) by (auto simp: position_ok_def position_checks_def)
  have "list_all (\<lambda>c. \<not> fst c) (position_checks ?p)" using pok by (simp add: position_ok_def)
  then obtain p' where p': "position_post_init ?p = Inr p'"
    using plan_nonempty [OF pok] by (rule position_post_init_total)
  show thesis
  proof (rule that)
    show "trail_stop e cd p = Inr p'" using u(1) p' by (simp add: trail_stop_def)
    show "position_ok p'" using pok p' by (simp add: position_ok_cong)
    show "position_extends p p'" using u(2) by (simp add: position_extends_def position_post_init_fields [OF p'])
    show "lp_exits p' = lp_exits p" "lp_status p' = lp_status p" by (simp_all add: position_post_init_fields [OF p'])
  qed
qed

lemma candle_above:
  "candle_post_init cd = Inr cd \<Longrightarrow> cd_low cd \<le> cd_close cd" "candle_post_init cd = Inr cd \<Longrightarrow> 0 \<le> cd_open cd"
  by (auto simp: candle_post_init_def)

text \<open>A candle at or below the effective stop closes the position there.\<close>

lemma stop_candle_closes:
  assumes ok: "position_ok p" "lp_status p \<noteq> PS_CLOSED" "engine_ok e" "candle_post_init cd = Inr cd"
    and t: "instant (lp_opened_at p) \<le> instant (cd_timestamp cd)" and low: "cd_low cd \<le> effective_stop p"
  shows "\<exists>p' x. process_candle e p cd cx = Inr p' \<and> position_ok p' \<and> position_extends p p' \<and>
    lp_status p' = PS_CLOSED \<and> lp_exits p' = lp_exits p @ [x] \<and> le_quantity x = lp_remaining_quantity p \<and>
    le_price x = d_mul (min (cd_open cd) (effective_stop p)) (d_sub 1 (ln_slippage_ratio e)) \<and>
    le_reason x \<noteq> TAKE_PROFIT_EXIT"
proof -
  let ?reason = "if lp_trailing_stop p > lp_stop_loss p then TRAILING_STOP_EXIT else STOP_LOSS_EXIT"
  let ?price = "d_mul (min (cd_open cd) (effective_stop p)) (d_sub 1 (ln_slippage_ratio e))"
  have stop: "0 < effective_stop p" using position_ok_values [OF ok(1)] by (simp add: effective_stop_def less_max_iff_disj)
  have "0 \<le> ?price" using candle_above(2) [OF ok(4)] engine_ok_values(2) [OF ok(3)] stop
    by (intro d_mul_nonneg) simp_all
  moreover have "is_aware (cd_timestamp cd)" using ok(4) by (simp add: candle_post_init_def)
  ultimately obtain p' x where x: "apply_exit e p (cd_timestamp cd) ?reason ?price (lp_remaining_quantity p) cx
      (lp_next_target_index p) = Inr p'" "position_ok p'" "position_extends p p'" "lp_exits p' = lp_exits p @ [x]"
      "le_reason x = ?reason" "le_price x = ?price" "le_quantity x = lp_remaining_quantity p"
    using position_ok_values(7) [OF ok(1)]
    by (elim apply_exit_total [OF ok(1-3), where q = "lp_remaining_quantity p" and reason = ?reason
          and i = "lp_next_target_index p"]) (auto split: if_splits)
  have "lp_status p' = PS_CLOSED"
    using x(2,4,5) by (auto simp: position_ok_def split: if_splits)
  then show ?thesis using x ok(2) t low
    by (intro exI [of _ p'] exI [of _ x]) (auto simp: process_candle_def close_remaining_def split: if_splits)
qed

lemma process_candle_keeps:
  assumes "position_ok p" "lp_status p \<noteq> PS_CLOSED" "engine_ok e" "candle_post_init cd = Inr cd"
    and "instant (lp_opened_at p) \<le> instant (cd_timestamp cd)"
  shows "\<exists>p'. process_candle e p cd cx = Inr p' \<and> position_ok p' \<and> position_extends p p' \<and>
    (if cd_low cd \<le> effective_stop p
     then lp_status p' = PS_CLOSED \<and> (\<exists>x. lp_exits p' = lp_exits p @ [x] \<and> le_quantity x = lp_remaining_quantity p \<and>
       le_price x = d_mul (min (cd_open cd) (effective_stop p)) (d_sub 1 (ln_slippage_ratio e)))
     else list_all (\<lambda>x. le_reason x = TAKE_PROFIT_EXIT) (lp_exits p'))"
proof (cases "cd_low cd \<le> effective_stop p")
  case True
  with stop_candle_closes [OF assms] show ?thesis by fastforce
next
  case False
  obtain u where u: "take_targets e cd cx p = Inr u" "position_ok u" "position_extends p u"
    "lp_trailing_stop u = lp_trailing_stop p" "list_all (\<lambda>x. le_reason x = TAKE_PROFIT_EXIT) (lp_exits u)"
    using take_targets_total [OF assms(1-4)] by blast
  show ?thesis
  proof (cases "lp_status u = PS_CLOSED")
    case True
    with False u assms(2,5) show ?thesis by (auto simp: process_candle_def)
  next
    case active: False
    have "lp_trailing_stop u < cd_close cd"
      using False candle_above(1) [OF assms(4)] u(4) by (simp add: effective_stop_def not_le)
    then obtain p' where "trail_stop e cd u = Inr p'" "position_ok p'" "position_extends u p'" "lp_exits p' = lp_exits u"
      by (rule trail_stop_total [OF u(2) active assms(3)])
    with False active u assms(2,5) show ?thesis
      by (auto simp: process_candle_def intro: position_extends_trans)
  qed
qed

text \<open>
  C26: a position always survives its candle. On a well-formed active position, engine and candle not
  before the opening, processing the candle terminates and returns a well-formed position, through any
  number of targets; it keeps the identity, entry, size, stop loss and plan, never lowers the trailing
  stop, never adds quantity and only appends exits. A candle that reaches the effective stop closes the
  whole remainder there, at the stop or at a worse open, less slippage.
\<close>

theorem process_candle_total:
  assumes "position_ok p" "lp_status p \<noteq> PS_CLOSED" "engine_ok e" "candle_post_init cd = Inr cd"
    and "instant (lp_opened_at p) \<le> instant (cd_timestamp cd)"
  shows "\<exists>p'. process_candle e p cd cx = Inr p' \<and> position_ok p' \<and> position_extends p p' \<and>
    (if cd_low cd \<le> effective_stop p
     then lp_status p' = PS_CLOSED \<and> (\<exists>x. lp_exits p' = lp_exits p @ [x] \<and> le_quantity x = lp_remaining_quantity p \<and>
       le_price x = d_mul (min (cd_open cd) (effective_stop p)) (d_sub 1 (ln_slippage_ratio e)))
     else list_all (\<lambda>x. le_reason x = TAKE_PROFIT_EXIT) (lp_exits p'))"
  by (rule process_candle_keeps [OF assms])

definition example_plan :: staged_exit_plan where
  "example_plan = \<lparr>sp_targets = [110, 120], sp_quantity_ratios = [1 / 2, 1 / 4]\<rparr>"

definition example_engine :: lifecycle_engine where
  "example_engine = \<lparr>ln_fee_ratio = 1 / 1000, ln_slippage_ratio = 5 / 10000, ln_trailing_multiplier = 3 / 2,
     ln_tick_size = 1 / 100000000\<rparr>"

definition example_candle :: "int \<Rightarrow> dec \<Rightarrow> dec \<Rightarrow> candle" where
  "example_candle t low high = \<lparr>cd_timestamp = Aware t, cd_open = low, cd_high = high, cd_low = low, cd_close = high,
     cd_volume = 1\<rparr>"

definition calm :: closure_context where
  "calm = \<lparr>cc_ignored_signals = 0, cc_htf_weakness = False, cc_volatility_expansion = False, cc_level_break = False\<rparr>"

definition example_paper_order :: paper_order where
  "example_paper_order = \<lparr>po_candidate_id = ''c1'', po_timestamp = Aware 6, po_symbol = ''BTCUSDT'', po_action = BUY,
     po_status = PO_FILLED, po_quantity = 1 / 2, po_requested_price = 100, po_fill_price = 100.05, po_fee_usdt = 0.050025,
     po_blockers = [], po_stop_loss = Some 90, po_take_profit_levels = [110, 120], po_leverage = None,
     po_planned_rr = None, po_net_pnl = None, po_decision_evidence = no_evidence (\<lambda>_. ''digest''),
     po_parameter_methods = submit_methods example_candidate\<rparr>"

definition example_opened :: lifecycle_position where
  "example_opened = opened_position example_paper_order 90 4 example_plan"

text \<open>A position opened at 100.05 with its stop at 90, in a candle that opens at 88.\<close>

theorem process_candle_total_witness:
  "\<exists>p x. process_candle example_engine example_opened (example_candle 7 88 95) calm = Inr p \<and> position_ok p \<and>
     lp_status p = PS_CLOSED \<and> lp_exits p = [x] \<and> le_quantity x = 1 / 2 \<and> le_price x = 87.956"
proof -
  have "position_ok example_opened" by code_simp
  moreover have "lp_status example_opened \<noteq> PS_CLOSED" "lp_exits example_opened = []"
    "lp_remaining_quantity example_opened = 1 / 2" "lp_opened_at example_opened = Aware 6"
    "effective_stop example_opened = 90"
    by (simp_all add: example_opened_def opened_position_def example_paper_order_def effective_stop_def)
  moreover have "engine_ok example_engine" "candle_post_init (example_candle 7 88 95) = Inr (example_candle 7 88 95)"
    "d_mul 88 (d_sub 1 (ln_slippage_ratio example_engine)) = 87.956" by code_simp+
  moreover have "cd_timestamp (example_candle 7 88 95) = Aware 7" "cd_low (example_candle 7 88 95) = 88"
    "cd_open (example_candle 7 88 95) = 88" by (simp_all add: example_candle_def)
  ultimately show ?thesis
    using process_candle_total [of example_opened example_engine "example_candle 7 88 95" calm] by auto
qed

section \<open>The life of a position\<close>

inductive lifecycle_reaches :: "lifecycle_engine \<Rightarrow> paper_order \<Rightarrow> lifecycle_position \<Rightarrow> bool" for e order where
  opened: "staged_exit_plan_post_init plan = Inr plan \<Longrightarrow> open_position e order stop_loss atr plan = Inr p \<Longrightarrow>
    lifecycle_reaches e order p"
| candle: "lifecycle_reaches e order p \<Longrightarrow> candle_post_init cd = Inr cd \<Longrightarrow> process_candle e p cd cx = Inr p' \<Longrightarrow>
    lifecycle_reaches e order p'"

lemma process_candle_active:
  "process_candle e p cd cx = Inr p' \<Longrightarrow>
     lp_status p \<noteq> PS_CLOSED \<and> instant (lp_opened_at p) \<le> instant (cd_timestamp cd)"
  by (auto simp: process_candle_def split: if_splits)

lemma open_position_ok:
  assumes "open_position e order stop_loss atr plan = Inr p" "staged_exit_plan_post_init plan = Inr plan"
    and "dround (po_quantity order) = po_quantity order"
  shows "position_ok p" "lp_initial_quantity p = po_quantity order" "lp_entry_price p = po_fill_price order"
    "po_status order = PO_FILLED" "lp_stop_loss p < lp_entry_price p"
proof -
  have o1: "po_status order = PO_FILLED" "stop_loss < po_fill_price order"
    and p: "position_post_init (opened_position order stop_loss atr plan) = Inr p"
    using assms(1) by (auto simp: open_position_def)
  show "po_status order = PO_FILLED" by (rule o1)
  show "lp_initial_quantity p = po_quantity order" "lp_entry_price p = po_fill_price order"
    "lp_stop_loss p < lp_entry_price p"
    using o1(2) by (simp_all add: position_post_init_fields [OF p] opened_position_def)
  have "position_ok (opened_position order stop_loss atr plan)"
    using assms(2,3) position_post_init_checks [OF p] by (simp add: position_ok_def opened_position_def d_sum_def)
  then show "position_ok p" by (simp add: position_ok_cong [OF p])
qed

text \<open>
  C25: a paper position is consistent for life. Opened from an order with a valid plan and carried
  through any candles, it belongs to a filled order and keeps its quantity and price; its remainder stays
  within the initial quantity and is zero exactly when it is CLOSED, which is exactly when it has a
  closure review; the realised profit is the sum over its exits; the trailing stop is never below the
  initial stop; it used exactly as many targets as it has profit exits; and an active position was
  never stopped.
\<close>

theorem lifecycle_consistent:
  assumes "lifecycle_reaches e order p" "engine_ok e" "dround (po_quantity order) = po_quantity order"
  shows "position_ok p \<and> po_status order = PO_FILLED \<and> lp_initial_quantity p = po_quantity order \<and>
    lp_entry_price p = po_fill_price order \<and> lp_stop_loss p < lp_entry_price p \<and>
    0 \<le> lp_remaining_quantity p \<and> lp_remaining_quantity p \<le> po_quantity order \<and>
    (lp_status p = PS_CLOSED \<longleftrightarrow> lp_remaining_quantity p = 0) \<and>
    (lp_status p = PS_CLOSED \<longleftrightarrow> lp_closure_review p \<noteq> None) \<and>
    lp_realized_pnl_usdt p = d_sum (map le_net_pnl_usdt (lp_exits p)) \<and> lp_stop_loss p \<le> lp_trailing_stop p"
proof -
  have "position_ok p \<and> po_status order = PO_FILLED \<and> lp_initial_quantity p = po_quantity order \<and>
    lp_entry_price p = po_fill_price order \<and> lp_stop_loss p < lp_entry_price p"
    using assms(1)
  proof induction
    case (opened plan stop_loss atr p)
    from open_position_ok [OF opened(2,1) assms(3)] show ?case by blast
  next
    case (candle p cd cx p')
    have "lp_status p \<noteq> PS_CLOSED" "instant (lp_opened_at p) \<le> instant (cd_timestamp cd)"
      using process_candle_active [OF candle(3)] by blast+
    then have "position_ok p' \<and> position_extends p p'"
      using process_candle_keeps [OF _ _ assms(2) candle(2), of p cx] candle(3,4) by auto
    with candle(4) show ?case by (auto simp: position_extends_def)
  qed
  then have ok: "position_ok p" and rest: "po_status order = PO_FILLED" "lp_initial_quantity p = po_quantity order"
    "lp_entry_price p = po_fill_price order" "lp_stop_loss p < lp_entry_price p" by blast+
  have "lp_remaining_quantity p \<le> po_quantity order" using position_ok_values(8) [OF ok] unfolding rest(2) .
  moreover have "lp_status p = PS_CLOSED \<longleftrightarrow> lp_closure_review p \<noteq> None"
    "lp_realized_pnl_usdt p = d_sum (map le_net_pnl_usdt (lp_exits p))" "lp_stop_loss p \<le> lp_trailing_stop p"
    using ok unfolding position_ok_def by blast+
  ultimately show ?thesis using ok rest position_ok_values(7,9) [OF ok] by blast
qed

theorem lifecycle_consistent_witness:
  "\<exists>p. open_position example_engine example_paper_order 90 4 example_plan = Inr p \<and> 0 \<le> lp_remaining_quantity p \<and>
     lp_remaining_quantity p \<le> 1 / 2 \<and> lp_realized_pnl_usdt p = d_sum (map le_net_pnl_usdt (lp_exits p))"
proof -
  have m: "trade_methods_post_init (open_methods example_paper_order 90 example_plan) =
      Inr (open_methods example_paper_order 90 example_plan)" by code_simp
  have "position_ok example_opened" by code_simp
  then have "list_all (\<lambda>c. \<not> fst c) (position_checks example_opened)" "sp_targets (lp_plan example_opened) \<noteq> []"
    by (simp_all add: position_ok_def plan_nonempty)
  then obtain p where "position_post_init example_opened = Inr p" by (rule position_post_init_total)
  then have p: "open_position example_engine example_paper_order 90 4 example_plan = Inr p"
    using m unfolding open_position_def example_opened_def by (simp add: example_paper_order_def example_plan_def)
  have plan: "staged_exit_plan_post_init example_plan = Inr example_plan"
    and "engine_ok example_engine" "dround (po_quantity example_paper_order) = po_quantity example_paper_order"
    by code_simp+
  with lifecycle_consistent [OF lifecycle_reaches.opened [OF plan p]] p show ?thesis
    by (auto simp: example_paper_order_def)
qed

end
