(* ===== verification/Order_Recovery.thy ===== *)
theory Order_Recovery
  imports Order_State
begin

text \<open>
  \<^verbatim>\<open>portfolio/reconciliation.py\<close> and \<^verbatim>\<open>execution/recovery.py\<close>: comparing the open orders known locally with
  those the exchange reports, and rebuilding the paper orders from their journals after a restart. The
  indexes by client order id are association lists; \<^verbatim>\<open>sorted\<close> orders strings by code point.
\<close>

section \<open>Reconciliation\<close>

record open_order_view =
  ov_client_order_id :: string
  ov_symbol :: string
  ov_remaining_quantity :: dec

definition open_order_view_post_init :: "open_order_view \<Rightarrow> open_order_view result" where
  "open_order_view_post_init v = validate
     [(blank (ov_client_order_id v) \<or> blank (ov_symbol v), ''open-order identity is required''),
      (ov_remaining_quantity v \<le> 0, ''open-order remaining quantity must be positive'')] v"

record reconciliation_report =
  rp_local_count :: int
  rp_exchange_count :: int
  rp_missing_on_exchange :: "string list"
  rp_unknown_on_exchange :: "string list"
  rp_quantity_mismatches :: "string list"
  rp_blockers :: "string list"
  rp_execution_allowed :: bool

definition reconciliation_report_post_init :: "reconciliation_report \<Rightarrow> reconciliation_report result" where
  "reconciliation_report_post_init r = validate
     [(min (rp_local_count r) (rp_exchange_count r) < 0, ''reconciliation counts cannot be negative''),
      (rp_execution_allowed r, ''reconciliation cannot authorize execution'')] r"

definition index_orders :: "string \<Rightarrow> open_order_view list \<Rightarrow> (string \<times> open_order_view) list result" where
  "index_orders source orders =
     (let indexed = map (\<lambda>v. (ov_client_order_id v, v)) orders
      in if distinct (map fst indexed) then Inr indexed
         else Inl (ValueError (source @ '' open orders must have unique identities'')))"

definition views_differ :: "open_order_view \<Rightarrow> open_order_view \<Rightarrow> bool" where
  "views_differ v w \<longleftrightarrow> py_upper (ov_symbol v) \<noteq> py_upper (ov_symbol w)
     \<or> ov_remaining_quantity v \<noteq> ov_remaining_quantity w"

definition mismatched :: "(string \<times> open_order_view) list \<Rightarrow> (string \<times> open_order_view) \<Rightarrow> bool" where
  "mismatched exchange kv = (case map_of exchange (fst kv) of None \<Rightarrow> False | Some w \<Rightarrow> views_differ (snd kv) w)"

definition reconcile_open_orders :: "open_order_view list \<Rightarrow> open_order_view list \<Rightarrow> reconciliation_report result" where
  "reconcile_open_orders local_orders exchange_orders =
     bindE (index_orders ''local'' local_orders) (\<lambda>local.
     bindE (index_orders ''exchange'' exchange_orders) (\<lambda>exchange.
       let missing = sort (filter (\<lambda>k. k \<notin> set (map fst exchange)) (map fst local));
           unknown = sort (filter (\<lambda>k. k \<notin> set (map fst local)) (map fst exchange));
           mismatches = sort (map fst (filter (mismatched exchange) local))
       in reconciliation_report_post_init
            \<lparr>rp_local_count = int (length local), rp_exchange_count = int (length exchange),
             rp_missing_on_exchange = missing, rp_unknown_on_exchange = unknown,
             rp_quantity_mismatches = mismatches,
             rp_blockers = flag_if (missing \<noteq> []) ''LOCAL_ORDER_MISSING_ON_EXCHANGE''
               @ flag_if (unknown \<noteq> []) ''UNKNOWN_EXCHANGE_OPEN_ORDER''
               @ flag_if (mismatches \<noteq> []) ''OPEN_ORDER_STATE_MISMATCH'',
             rp_execution_allowed = False\<rparr>))"

section \<open>Recovery\<close>

definition open_statuses :: "order_status list" where
  "open_statuses = [OS_SUBMITTED, OS_ACCEPTED, OS_PARTIALLY_FILLED, OS_PENDING_CANCEL]"

record recovery_report =
  rr_orders :: "order_state list"
  rr_reconciliation :: "reconciliation_report option"
  rr_quarantined_order_ids :: "string list"
  rr_blockers :: "string list"
  rr_recovery_complete :: bool
  rr_execution_allowed :: bool

definition recovery_report_post_init :: "recovery_report \<Rightarrow> recovery_report result" where
  "recovery_report_post_init r = validate
     [(rr_recovery_complete r \<and> rr_blockers r \<noteq> [], ''complete paper recovery cannot contain blockers''),
      (rr_execution_allowed r, ''paper recovery cannot authorize execution'')] r"

text \<open>The local variables of the loop; the set of identities is that of the orders kept.\<close>

record recovery_acc =
  rv_orders :: "order_state list"
  rv_quarantined :: "string list"
  rv_blockers :: "string list"

definition recovery_caught :: "py_error \<Rightarrow> bool" where
  "recovery_caught e = (case e of ValueError _ \<Rightarrow> True | CorruptionError _ \<Rightarrow> True | _ \<Rightarrow> False)"

text \<open>One journal: \<open>None\<close> for an empty one.\<close>

definition recover_journal :: "(domain_event \<Rightarrow> int) \<Rightarrow> disk_journal \<Rightarrow> order_state option result" where
  "recover_journal enc_len j =
     bindE (fst (load_unlocked enc_len j)) (\<lambda>es.
       if es = [] then Inr None
       else if length (remdups (map aggregate_id es)) \<noteq> 1
       then Inl (ValueError ''paper order journal must contain one aggregate'')
       else bindE (replay_order es) (\<lambda>s. Inr (Some s)))"

definition recover_step :: "(domain_event \<Rightarrow> int) \<Rightarrow> recovery_acc \<Rightarrow> disk_journal \<Rightarrow> recovery_acc result" where
  "recover_step enc_len acc j =
     (case recover_journal enc_len j of
        Inl e \<Rightarrow> if recovery_caught e then Inr (acc\<lparr>rv_blockers := rv_blockers acc @ [''PAPER_ORDER_JOURNAL_INVALID'']\<rparr>)
                 else Inl e
      | Inr None \<Rightarrow> Inr (acc\<lparr>rv_blockers := rv_blockers acc @ [''PAPER_ORDER_JOURNAL_EMPTY'']\<rparr>)
      | Inr (Some s) \<Rightarrow>
          Inr (if os_order_id s \<in> set (map os_order_id (rv_orders acc))
               then acc\<lparr>rv_quarantined := rv_quarantined acc @ [os_order_id s],
                        rv_blockers := rv_blockers acc @ [''DUPLICATE_PAPER_ORDER_IDENTITY'']\<rparr>
               else acc\<lparr>rv_orders := rv_orders acc @ [s]\<rparr>))"

definition state_view :: "order_state \<Rightarrow> open_order_view" where
  "state_view s =
     \<lparr>ov_client_order_id = os_order_id s, ov_symbol = os_symbol s, ov_remaining_quantity = os_remaining_quantity s\<rparr>"

definition open_orders :: "order_state list \<Rightarrow> order_state list" where
  "open_orders orders = filter (\<lambda>s. os_status s \<in> set open_statuses) orders"

definition recover_paper_orders :: "(domain_event \<Rightarrow> int) \<Rightarrow> disk_journal list \<Rightarrow> open_order_view list option \<Rightarrow>
    recovery_report result" where
  "recover_paper_orders enc_len journals exchange_open_orders =
     bindE (foldE (recover_step enc_len) \<lparr>rv_orders = [], rv_quarantined = [], rv_blockers = []\<rparr> journals) (\<lambda>acc.
     bindE (mapE (\<lambda>s. open_order_view_post_init (state_view s)) (open_orders (rv_orders acc))) (\<lambda>local_open.
     bindE (case exchange_open_orders of
              None \<Rightarrow> Inr (None, flag_if (local_open \<noteq> []) ''EXCHANGE_OPEN_ORDER_SNAPSHOT_NOT_SUPPLIED'', [])
            | Some exchange \<Rightarrow> bindE (reconcile_open_orders local_open exchange) (\<lambda>r.
                Inr (Some r, rp_blockers r, rp_unknown_on_exchange r))) (\<lambda>(reconciliation, found, unknown).
       let blockers = dict_fromkeys (rv_blockers acc @ found)
       in recovery_report_post_init
            \<lparr>rr_orders = sort_key os_order_id (rv_orders acc), rr_reconciliation = reconciliation,
             rr_quarantined_order_ids = sort (remdups (rv_quarantined acc @ unknown)), rr_blockers = blockers,
             rr_recovery_complete = (blockers = []), rr_execution_allowed = False\<rparr>)))"

record pending_cancel_assessment =
  pc_timed_out :: bool
  pc_blockers :: "string list"

definition assess_pending_cancel :: "order_state \<Rightarrow> datetime \<Rightarrow> datetime \<Rightarrow> timedelta \<Rightarrow>
    pending_cancel_assessment result" where
  "assess_pending_cancel s requested_at observed_at timeout =
     bindE (validate
       [(\<not> is_aware requested_at \<or> \<not> is_aware observed_at, ''pending-cancel timestamps must be timezone-aware''),
        (timeout \<le> 0 \<or> instant observed_at < instant requested_at, ''pending-cancel timeout or chronology is invalid'')] ())
       (\<lambda>_. let timed_out = (os_status s = OS_PENDING_CANCEL \<and> instant observed_at - instant requested_at > timeout)
            in Inr \<lparr>pc_timed_out = timed_out, pc_blockers = flag_if timed_out ''PENDING_CANCEL_TIMEOUT''\<rparr>)"

section \<open>Properties\<close>

definition order_key :: "open_order_view \<Rightarrow> string \<times> string \<times> dec" where
  "order_key v = (ov_client_order_id v, py_upper (ov_symbol v), ov_remaining_quantity v)"

abbreviation view_ids :: "open_order_view list \<Rightarrow> string list" where
  "view_ids \<equiv> map ov_client_order_id"

lemma index_orders_Inr: "index_orders source vs = Inr kvs \<longleftrightarrow> distinct (view_ids vs) \<and> kvs = map (\<lambda>v. (ov_client_order_id v, v)) vs"
  by (auto simp: index_orders_def Let_def o_def)

lemma map_of_index: "distinct (view_ids vs) \<Longrightarrow>
    map_of (map (\<lambda>v. (ov_client_order_id v, v)) vs) k = Some w \<longleftrightarrow> w \<in> set vs \<and> ov_client_order_id w = k"
  by (auto simp: map_of_eq_Some_iff o_def)

lemma not_mismatched:
  assumes "distinct (view_ids ws)"
  shows "\<not> mismatched (map (\<lambda>v. (ov_client_order_id v, v)) ws) (ov_client_order_id v, v) \<longleftrightarrow>
    (\<forall>w \<in> set ws. ov_client_order_id w = ov_client_order_id v \<longrightarrow> order_key w = order_key v)"
proof (cases "map_of (map (\<lambda>v. (ov_client_order_id v, v)) ws) (ov_client_order_id v)")
  case None
  have "ov_client_order_id w \<noteq> ov_client_order_id v" if "w \<in> set ws" for w
    using None that map_of_index [OF assms, of "ov_client_order_id v" w] by auto
  with None show ?thesis by (simp add: mismatched_def)
next
  case (Some x)
  then have x: "x \<in> set ws" "ov_client_order_id x = ov_client_order_id v" by (simp_all add: map_of_index [OF assms])
  have "w = x" if "w \<in> set ws" "ov_client_order_id w = ov_client_order_id v" for w
    using Some that map_of_index [OF assms, of "ov_client_order_id v" w] by simp
  then have "(\<forall>w \<in> set ws. ov_client_order_id w = ov_client_order_id v \<longrightarrow> order_key w = order_key v) \<longleftrightarrow>
      order_key x = order_key v" using x by blast
  with Some x show ?thesis by (auto simp: mismatched_def views_differ_def order_key_def)
qed

lemma keys_subset:
  assumes "set (view_ids vs) \<subseteq> set (view_ids ws)"
    and "\<And>v w. v \<in> set vs \<Longrightarrow> w \<in> set ws \<Longrightarrow> ov_client_order_id w = ov_client_order_id v \<Longrightarrow> order_key w = order_key v"
  shows "set (map order_key vs) \<subseteq> set (map order_key ws)"
proof
  fix x assume "x \<in> set (map order_key vs)"
  then obtain v where v: "v \<in> set vs" "x = order_key v" by auto
  then have "ov_client_order_id v \<in> set (view_ids ws)" using assms(1) by auto
  then obtain w where w: "w \<in> set ws" "ov_client_order_id w = ov_client_order_id v" by auto
  have "order_key w = x" using assms(2) [OF v(1) w] v(2) by simp
  with w(1) show "x \<in> set (map order_key ws)" by (auto simp: image_iff)
qed

lemma keys_agree:
  assumes "distinct (view_ids ws)" "set (map order_key vs) \<subseteq> set (map order_key ws)" "v \<in> set vs" "w \<in> set ws"
    "ov_client_order_id w = ov_client_order_id v"
  shows "order_key w = order_key v"
proof -
  obtain w' where w': "w' \<in> set ws" "order_key w' = order_key v" using assms(2,3) by force
  then have "ov_client_order_id w' = ov_client_order_id w" using assms(5) by (simp add: order_key_def)
  with assms(1,4) w'(1) have "w' = w" by (auto simp: distinct_map inj_on_def)
  with w'(2) show ?thesis by simp
qed

lemma same_keys:
  assumes "distinct (view_ids vs)" "distinct (view_ids ws)"
  shows "set (map order_key vs) = set (map order_key ws) \<longleftrightarrow>
    set (view_ids vs) = set (view_ids ws) \<and>
    (\<forall>v \<in> set vs. \<forall>w \<in> set ws. ov_client_order_id w = ov_client_order_id v \<longrightarrow> order_key w = order_key v)"
    (is "?keys \<longleftrightarrow> ?ids \<and> ?agree")
proof
  assume eq: ?keys
  have ids: "set (view_ids us) = fst ` set (map order_key us)" for us by (force simp: order_key_def)
  have ?ids unfolding ids eq ..
  moreover have ?agree using keys_agree [OF assms(2) equalityD1 [OF eq]] by blast
  ultimately show "?ids \<and> ?agree" ..
next
  assume "?ids \<and> ?agree"
  then have ids: ?ids and agree: ?agree by blast+
  show ?keys
  proof
    show "set (map order_key vs) \<subseteq> set (map order_key ws)"
      using ids agree by (intro keys_subset) auto
    show "set (map order_key ws) \<subseteq> set (map order_key vs)"
      using ids agree by (intro keys_subset) auto
  qed
qed

lemma reconcile_Inr:
  assumes "distinct (view_ids vs)" "distinct (view_ids ws)"
  obtains r where "reconcile_open_orders vs ws = Inr r" "\<not> rp_execution_allowed r"
    "rp_blockers r = [] \<longleftrightarrow> set (map order_key vs) = set (map order_key ws)"
    "rp_unknown_on_exchange r = sort (filter (\<lambda>k. k \<notin> set (view_ids vs)) (view_ids ws))"
    "rp_missing_on_exchange r = sort (filter (\<lambda>k. k \<notin> set (view_ids ws)) (view_ids vs))"
proof -
  let ?i = "map (\<lambda>v. (ov_client_order_id v, v))"
  have i: "index_orders s vs = Inr (?i vs)" "index_orders s ws = Inr (?i ws)" for s
    using assms by (simp_all add: index_orders_Inr)
  have fst: "map fst (?i us) = view_ids us" for us by (simp add: o_def)
  have nil: "sort xs = [] \<longleftrightarrow> xs = []" for xs :: "string list" by (metis set_empty set_sort)
  have mm: "filter (mismatched (?i ws)) (?i vs) = [] \<longleftrightarrow>
      (\<forall>v \<in> set vs. \<forall>w \<in> set ws. ov_client_order_id w = ov_client_order_id v \<longrightarrow> order_key w = order_key v)"
    using not_mismatched [OF assms(2)] by (auto simp: filter_empty_conv)
  have sets: "filter (\<lambda>k. k \<notin> set (view_ids ws)) (view_ids vs) = [] \<and> filter (\<lambda>k. k \<notin> set (view_ids vs)) (view_ids ws) = []
      \<longleftrightarrow> set (view_ids vs) = set (view_ids ws)" by (auto simp: filter_empty_conv)
  let ?missing = "sort (filter (\<lambda>k. k \<notin> set (view_ids ws)) (view_ids vs))"
  let ?unknown = "sort (filter (\<lambda>k. k \<notin> set (view_ids vs)) (view_ids ws))"
  let ?mm = "sort (map fst (filter (mismatched (?i ws)) (?i vs)))"
  let ?r = "\<lparr>rp_local_count = int (length vs), rp_exchange_count = int (length ws), rp_missing_on_exchange = ?missing,
    rp_unknown_on_exchange = ?unknown, rp_quantity_mismatches = ?mm,
    rp_blockers = flag_if (?missing \<noteq> []) ''LOCAL_ORDER_MISSING_ON_EXCHANGE''
      @ flag_if (?unknown \<noteq> []) ''UNKNOWN_EXCHANGE_OPEN_ORDER'' @ flag_if (?mm \<noteq> []) ''OPEN_ORDER_STATE_MISMATCH'',
    rp_execution_allowed = False\<rparr>"
  show thesis
  proof (rule that [of ?r])
    show "reconcile_open_orders vs ws = Inr ?r"
      unfolding reconcile_open_orders_def i Let_def bindE_simps fst
      by (simp add: reconciliation_report_post_init_def)
    show "rp_blockers ?r = [] \<longleftrightarrow> set (map order_key vs) = set (map order_key ws)"
      unfolding same_keys [OF assms] mm [symmetric] sets [symmetric] by (simp add: nil)
  qed simp_all
qed

text \<open>
  Reconciliation is clear exactly when both sides hold the same orders. For open orders with
  distinct client order ids on each side it always returns a report without execution authority; the
  report has no blockers exactly when both sides have the same ids with the same symbol, up to case,
  and the same remaining quantity, and it lists precisely the orders only one side knows.
\<close>

theorem reconciliation_clear_iff:
  assumes "distinct (view_ids vs)" "distinct (view_ids ws)"
  shows "\<exists>r. reconcile_open_orders vs ws = Inr r \<and> \<not> rp_execution_allowed r \<and>
    (rp_blockers r = [] \<longleftrightarrow> set (map order_key vs) = set (map order_key ws)) \<and>
    set (rp_missing_on_exchange r) = set (view_ids vs) - set (view_ids ws) \<and>
    set (rp_unknown_on_exchange r) = set (view_ids ws) - set (view_ids vs)"
  by (rule reconcile_Inr [OF assms]) auto

definition example_view :: "string \<Rightarrow> string \<Rightarrow> dec \<Rightarrow> open_order_view" where
  "example_view i s q = \<lparr>ov_client_order_id = i, ov_symbol = s, ov_remaining_quantity = q\<rparr>"

theorem reconciliation_clear_iff_witness:
  "\<exists>r. reconcile_open_orders [example_view ''a'' ''BTC'' 1, example_view ''b'' ''ETH'' 2]
       [example_view ''b'' ''eth'' 2, example_view ''a'' ''BTC'' 1] = Inr r \<and> rp_blockers r = []"
proof -
  have "distinct (view_ids [example_view ''a'' ''BTC'' 1, example_view ''b'' ''ETH'' 2])"
    "distinct (view_ids [example_view ''b'' ''eth'' 2, example_view ''a'' ''BTC'' 1])"
    "set (map order_key [example_view ''a'' ''BTC'' 1, example_view ''b'' ''ETH'' 2]) =
     set (map order_key [example_view ''b'' ''eth'' 2, example_view ''a'' ''BTC'' 1])"
    by code_simp+
  with reconciliation_clear_iff show ?thesis by blast
qed

section \<open>Recovery is complete exactly on agreement\<close>

text \<open>A journal that yields a paper order.\<close>

definition recovers :: "(domain_event \<Rightarrow> int) \<Rightarrow> disk_journal \<Rightarrow> order_state \<Rightarrow> bool" where
  "recovers enc_len j s \<longleftrightarrow> (\<exists>es. fst (load_unlocked enc_len j) = Inr es \<and> replay_order es = Inr s)"

text \<open>The events of a file were constructed, hence have an aggregate id.\<close>

definition journal_decoded :: "disk_journal \<Rightarrow> bool" where
  "journal_decoded j \<longleftrightarrow> (case jr_file j of None \<Rightarrow> True
     | Some f \<Rightarrow> list_all (\<lambda>l. case l of Inl _ \<Rightarrow> True | Inr e \<Rightarrow> \<not> blank (aggregate_id e)) (jf_lines f))"

lemma mapE_decode_mem: "mapE (decode_line enc_len limit) ls = Inr es \<Longrightarrow> e \<in> set es \<Longrightarrow> Inr e \<in> set ls"
  by (induction ls arbitrary: es) (auto simp: decode_line_def split: sum.splits if_splits)

lemma check_chain_result:
  "check_chain cap es = Inr es' \<Longrightarrow> es' = es" "check_chain cap es = Inl e \<Longrightarrow> recovery_caught e"
  by (auto simp: check_chain_def recovery_caught_def split: sum.splits)

lemma load_events:
  assumes "fst (load_unlocked enc_len j) = Inr es" "journal_decoded j" "e \<in> set es"
  shows "\<not> blank (aggregate_id e)"
proof -
  obtain f where f: "jr_file j = Some f" using assms(1,3) by (cases "jr_file j") (auto simp: load_unlocked_def)
  with assms(1) have "mapE (decode_line enc_len (maximum_event_bytes j)) (jf_lines f) = Inr es"
    by (auto simp: load_unlocked_def check_chain_result split: if_splits sum.splits dest: check_chain_result(1))
  from mapE_decode_mem [OF this assms(3)] assms(2) f show ?thesis by (force simp: journal_decoded_def list_all_iff)
qed

lemma load_caught: "fst (load_unlocked enc_len j) = Inl e \<Longrightarrow> recovery_caught e"
proof -
  have "mapE (decode_line enc_len limit) ls = Inl e \<Longrightarrow> recovery_caught e" for limit ls
    by (induction ls) (auto simp: decode_line_def recovery_caught_def bindE_eq_Inl split: sum.splits if_splits)
  then show "fst (load_unlocked enc_len j) = Inl e \<Longrightarrow> recovery_caught e"
    by (auto simp: load_unlocked_def bindE_eq_Inl split: option.splits sum.splits if_splits
        intro: check_chain_result(2)) (simp add: recovery_caught_def)
qed

lemma recovery_caught_simps [simp]: "recovery_caught (ValueError m)" "recovery_caught (CorruptionError m)"
  by (simp_all add: recovery_caught_def)

lemma positive_decimal_caught: "positive_decimal v n = Inl e \<Longrightarrow> recovery_caught e"
  by (auto simp: positive_decimal_def recovery_caught_def split: option.splits pydec.splits if_splits)

lemma apply_order_caught: "apply_order st ev = Inl e \<Longrightarrow> recovery_caught e"
proof (cases st)
  case None
  assume *: "apply_order st ev = Inl e"
  show ?thesis
  proof (cases "positive_decimal (payload_get ev ''quantity'') ''quantity''")
    case (Inl err)
    with * None show ?thesis by (auto simp: apply_order_def os_submit_def intro: positive_decimal_caught split: if_splits)
  next
    case (Inr q)
    with * None show ?thesis
      by (cases "parse_action (payload_text ev ''action'')")
        (auto simp: apply_order_def os_submit_def Let_def split: if_splits)
  qed
next
  case (Some s)
  assume *: "apply_order st ev = Inl e"
  have fill: "os_apply_fill s ev = Inl e \<Longrightarrow> recovery_caught e"
    by (auto simp: os_apply_fill_def bindE_eq_Inl Let_def os_require_status_def intro: positive_decimal_caught
        split: if_splits)
  have status: "os_status_event s ev allowed target = Inl e \<Longrightarrow> recovery_caught e" for allowed target
    by (auto simp: os_status_event_def os_require_status_def bindE_eq_Inl)
  have ident: "os_validate_identity_and_sequence s ev = Inl e \<Longrightarrow> recovery_caught e"
    by (auto simp: os_validate_identity_and_sequence_def dest!: validate_Inl_ValueError)
  from * Some show ?thesis
    by (auto simp: apply_order_def bindE_eq_Inl intro: fill status ident split: if_splits)
qed

lemma replay_caught: "replay_order es = Inl e \<Longrightarrow> recovery_caught e"
proof -
  have "replay_from apply_order st es = Inl e \<Longrightarrow> recovery_caught e" for st
    by (induction es arbitrary: st) (auto simp: bindE_eq_Inl intro: apply_order_caught)
  then show "replay_order es = Inl e \<Longrightarrow> recovery_caught e"
    by (auto simp: replay_order_def replay_machine_def bindE_eq_Inl dest: replay_from_nonempty
        split: if_splits option.splits)
qed

lemma recover_journal_Some: "recover_journal enc_len j = Inr (Some s) \<longleftrightarrow> recovers enc_len j s"
proof
  assume "recovers enc_len j s"
  then obtain es where es: "fst (load_unlocked enc_len j) = Inr es" "replay_order es = Inr s"
    by (auto simp: recovers_def)
  have "list_all (\<lambda>e. aggregate_id e = os_order_id s) es" "es \<noteq> []"
    using es(2) paper_order.replay_trace(1) unfolding replay_order_def by (auto simp: replay_machine_Inr)
  then have "set (map aggregate_id es) = {os_order_id s}" by (cases es) (auto simp: list_all_iff)
  then have "length (remdups (map aggregate_id es)) = 1" by (simp add: length_remdups_card_conv)
  with es \<open>es \<noteq> []\<close> show "recover_journal enc_len j = Inr (Some s)" by (simp add: recover_journal_def)
qed (auto simp: recover_journal_def recovers_def split: if_splits)

lemma recover_journal_caught: "recover_journal enc_len j = Inl e \<Longrightarrow> recovery_caught e"
  by (auto simp: recover_journal_def bindE_eq_Inl intro: load_caught replay_caught split: if_splits)

lemma recovers_unique: "recovers enc_len j s \<Longrightarrow> recovers enc_len j s' \<Longrightarrow> s' = s"
  by (auto simp: recovers_def)

lemma recovers_ok:
  assumes "recovers enc_len j s" "journal_decoded j"
  shows "order_ok s" "\<not> blank (os_order_id s)"
proof -
  obtain es where es: "fst (load_unlocked enc_len j) = Inr es" "replay_order es = Inr s"
    using assms(1) by (auto simp: recovers_def)
  show "order_ok s" using es(2) paper_order.replay_inv unfolding replay_order_def by blast
  have "list_all (\<lambda>e. aggregate_id e = os_order_id s) es" "es \<noteq> []"
    using es(2) paper_order.replay_trace(1) unfolding replay_order_def by (auto simp: replay_machine_Inr)
  then obtain e where "e \<in> set es" "aggregate_id e = os_order_id s" by (cases es) (auto simp: list_all_iff)
  with load_events [OF es(1) assms(2)] show "\<not> blank (os_order_id s)" by metis
qed

text \<open>The loop ends without blockers exactly when every journal yields a new order.\<close>

definition acc_ok :: "recovery_acc \<Rightarrow> bool" where
  "acc_ok acc \<longleftrightarrow> distinct (map os_order_id (rv_orders acc)) \<and>
     list_all (\<lambda>s. order_ok s \<and> \<not> blank (os_order_id s)) (rv_orders acc)"

definition all_recover :: "(domain_event \<Rightarrow> int) \<Rightarrow> recovery_acc \<Rightarrow> disk_journal list \<Rightarrow> order_state list \<Rightarrow> bool" where
  "all_recover enc_len acc js ss \<longleftrightarrow> rv_blockers acc = [] \<and> list_all2 (recovers enc_len) js ss \<and>
     distinct (map os_order_id (rv_orders acc @ ss))"

lemma recover_step_total:
  assumes "acc_ok acc" "journal_decoded j"
  obtains acc' where "recover_step enc_len acc j = Inr acc'" "acc_ok acc'"
    "rv_blockers acc' = [] \<Longrightarrow> \<exists>s. recovers enc_len j s \<and> acc' = acc\<lparr>rv_orders := rv_orders acc @ [s]\<rparr> \<and>
       rv_blockers acc = [] \<and> os_order_id s \<notin> set (map os_order_id (rv_orders acc))"
    "\<And>s. recovers enc_len j s \<Longrightarrow> os_order_id s \<notin> set (map os_order_id (rv_orders acc)) \<Longrightarrow>
       acc' = acc\<lparr>rv_orders := rv_orders acc @ [s]\<rparr>"
proof (cases "recover_journal enc_len j")
  case (Inl e)
  then have "\<not> recovers enc_len j s" for s using recover_journal_Some [of enc_len j s] by simp
  with Inl recover_journal_caught [OF Inl] assms(1) show thesis
    by (intro that [of "acc\<lparr>rv_blockers := rv_blockers acc @ [''PAPER_ORDER_JOURNAL_INVALID'']\<rparr>"])
      (simp_all add: recover_step_def acc_ok_def)
next
  case (Inr r)
  show thesis
  proof (cases r)
    case None
    then have "\<not> recovers enc_len j s" for s using Inr recover_journal_Some [of enc_len j s] by simp
    with Inr None assms(1) show thesis
      by (intro that [of "acc\<lparr>rv_blockers := rv_blockers acc @ [''PAPER_ORDER_JOURNAL_EMPTY'']\<rparr>"])
        (simp_all add: recover_step_def acc_ok_def)
  next
    case (Some s)
    then have s: "recovers enc_len j s" using Inr recover_journal_Some by simp
    show thesis
    proof (cases "os_order_id s \<in> set (map os_order_id (rv_orders acc))")
      case True
      let ?acc = "acc\<lparr>rv_quarantined := rv_quarantined acc @ [os_order_id s],
              rv_blockers := rv_blockers acc @ [''DUPLICATE_PAPER_ORDER_IDENTITY'']\<rparr>"
      have "recover_step enc_len acc j = Inr ?acc" "acc_ok ?acc" "rv_blockers ?acc \<noteq> []"
        using True Inr Some assms(1) by (simp_all add: recover_step_def acc_ok_def)
      with True recovers_unique [OF s] show thesis by (intro that [of ?acc]) blast+
    next
      case False
      let ?acc = "acc\<lparr>rv_orders := rv_orders acc @ [s]\<rparr>"
      have "recover_step enc_len acc j = Inr ?acc" "acc_ok ?acc"
        using False Inr Some assms(1) recovers_ok [OF s assms(2)] by (auto simp: recover_step_def acc_ok_def)
      then show thesis
      proof (rule that)
        show "\<exists>s. recovers enc_len j s \<and> ?acc = acc\<lparr>rv_orders := rv_orders acc @ [s]\<rparr> \<and> rv_blockers acc = [] \<and>
            os_order_id s \<notin> set (map os_order_id (rv_orders acc))" if "rv_blockers ?acc = []"
          using that False s by (intro exI [of _ s]) simp
        show "?acc = acc\<lparr>rv_orders := rv_orders acc @ [s']\<rparr>" if "recovers enc_len j s'" for s'
          using recovers_unique [OF s that] by simp
      qed
    qed
  qed
qed

lemma recover_loop:
  assumes "acc_ok acc" "list_all journal_decoded js"
  shows "\<exists>acc'. foldE (recover_step enc_len) acc js = Inr acc' \<and> acc_ok acc' \<and>
    (rv_blockers acc' = [] \<longleftrightarrow> (\<exists>ss. all_recover enc_len acc js ss)) \<and>
    (\<forall>ss. all_recover enc_len acc js ss \<longrightarrow> rv_orders acc' = rv_orders acc @ ss)"
  using assms
proof (induction js arbitrary: acc)
  case Nil
  then show ?case by (auto simp: all_recover_def acc_ok_def)
next
  case (Cons j js)
  obtain acc1 where acc1: "recover_step enc_len acc j = Inr acc1" "acc_ok acc1"
    and clean: "rv_blockers acc1 = [] \<Longrightarrow> \<exists>s. recovers enc_len j s \<and> acc1 = acc\<lparr>rv_orders := rv_orders acc @ [s]\<rparr> \<and>
       rv_blockers acc = [] \<and> os_order_id s \<notin> set (map os_order_id (rv_orders acc))"
    and add: "\<And>s. recovers enc_len j s \<Longrightarrow> os_order_id s \<notin> set (map os_order_id (rv_orders acc)) \<Longrightarrow>
       acc1 = acc\<lparr>rv_orders := rv_orders acc @ [s]\<rparr>"
    using recover_step_total [OF Cons.prems(1), of j enc_len] Cons.prems(2) by auto
  obtain acc2 where acc2: "foldE (recover_step enc_len) acc1 js = Inr acc2" "acc_ok acc2"
    "rv_blockers acc2 = [] \<longleftrightarrow> (\<exists>ss. all_recover enc_len acc1 js ss)"
    "\<forall>ss. all_recover enc_len acc1 js ss \<longrightarrow> rv_orders acc2 = rv_orders acc1 @ ss"
    using Cons.IH [OF acc1(2)] Cons.prems(2) by auto
  have split: "all_recover enc_len acc (j # js) ss \<longleftrightarrow>
      (\<exists>s ss'. ss = s # ss' \<and> recovers enc_len j s \<and> os_order_id s \<notin> set (map os_order_id (rv_orders acc)) \<and>
        all_recover enc_len acc1 js ss')" for ss
  proof
    assume a: "all_recover enc_len acc (j # js) ss"
    then obtain s ss' where ss: "ss = s # ss'" "recovers enc_len j s"
      "os_order_id s \<notin> set (map os_order_id (rv_orders acc))"
      by (cases ss) (auto simp: all_recover_def)
    with a add [OF ss(2,3)] show "\<exists>s ss'. ss = s # ss' \<and> recovers enc_len j s \<and>
        os_order_id s \<notin> set (map os_order_id (rv_orders acc)) \<and> all_recover enc_len acc1 js ss'"
      by (auto simp: all_recover_def)
  next
    assume "\<exists>s ss'. ss = s # ss' \<and> recovers enc_len j s \<and>
        os_order_id s \<notin> set (map os_order_id (rv_orders acc)) \<and> all_recover enc_len acc1 js ss'"
    then obtain s ss' where ss: "ss = s # ss'" "recovers enc_len j s"
      "os_order_id s \<notin> set (map os_order_id (rv_orders acc))" "all_recover enc_len acc1 js ss'" by blast
    with add [OF ss(2,3)] show "all_recover enc_len acc (j # js) ss" by (auto simp: all_recover_def)
  qed
  have "rv_blockers acc2 = [] \<longleftrightarrow> (\<exists>ss. all_recover enc_len acc (j # js) ss)"
  proof
    assume "rv_blockers acc2 = []"
    then obtain ss where ss: "all_recover enc_len acc1 js ss" using acc2(3) by blast
    then have "rv_blockers acc1 = []" by (simp add: all_recover_def)
    with clean ss split show "\<exists>ss. all_recover enc_len acc (j # js) ss" by metis
  qed (use acc2(3) split in blast)
  moreover have "rv_orders acc2 = rv_orders acc @ ss" if "all_recover enc_len acc (j # js) ss" for ss
    using that acc2(4) add unfolding split by fastforce
  ultimately show ?case using acc1(1) acc2(1,2) by auto
qed

lemma open_views:
  assumes "list_all (\<lambda>s. order_ok s \<and> \<not> blank (os_order_id s)) orders"
  shows "mapE (\<lambda>s. open_order_view_post_init (state_view s)) (open_orders orders) = Inr (map state_view (open_orders orders))"
proof -
  have "open_order_view_post_init (state_view s) = Inr (state_view s)"
    if "order_ok s" "\<not> blank (os_order_id s)" "os_status s \<in> set open_statuses" for s
    using that by (auto simp: open_order_view_post_init_def state_view_def os_remaining_quantity_def order_ok_def
        open_statuses_def not_le)
  with assms show ?thesis by (induction orders) (auto simp: open_orders_def)
qed

text \<open>The recovered orders agree with what the exchange reports.\<close>

definition agrees :: "order_state list \<Rightarrow> open_order_view list option \<Rightarrow> bool" where
  "agrees ss exchange \<longleftrightarrow> (case exchange of None \<Rightarrow> open_orders ss = []
     | Some vs \<Rightarrow> set (map order_key (map state_view (open_orders ss))) = set (map order_key vs))"

lemma recovery_exact:
  assumes "list_all journal_decoded js" "case exchange of None \<Rightarrow> True | Some vs \<Rightarrow> distinct (view_ids vs)"
  shows "\<exists>r. recover_paper_orders enc_len js exchange = Inr r \<and> \<not> rr_execution_allowed r \<and>
    (rr_recovery_complete r \<longleftrightarrow> (\<exists>ss. list_all2 (recovers enc_len) js ss \<and> distinct (map os_order_id ss) \<and>
       agrees ss exchange)) \<and>
    (\<forall>ss. list_all2 (recovers enc_len) js ss \<and> distinct (map os_order_id ss) \<longrightarrow> rr_orders r = sort_key os_order_id ss)"
proof -
  let ?acc = "\<lparr>rv_orders = [], rv_quarantined = [], rv_blockers = []\<rparr>"
  have start: "acc_ok ?acc" by (simp add: acc_ok_def)
  obtain acc where acc: "foldE (recover_step enc_len) ?acc js = Inr acc" "acc_ok acc"
    and none: "rv_blockers acc = [] \<longleftrightarrow> (\<exists>ss. all_recover enc_len ?acc js ss)"
    and orders: "\<forall>ss. all_recover enc_len ?acc js ss \<longrightarrow> rv_orders acc = rv_orders ?acc @ ss"
    using recover_loop [OF start assms(1), of enc_len] by blast
  let ?open = "map state_view (open_orders (rv_orders acc))"
  have views: "mapE (\<lambda>s. open_order_view_post_init (state_view s)) (open_orders (rv_orders acc)) = Inr ?open"
    using acc(2) by (intro open_views) (simp add: acc_ok_def)
  have dist: "distinct (view_ids ?open)"
    using acc(2) by (simp add: acc_ok_def open_orders_def state_view_def o_def distinct_map_filter)
  obtain rec found unknown where found: "(case exchange of
        None \<Rightarrow> Inr (None, flag_if (?open \<noteq> []) ''EXCHANGE_OPEN_ORDER_SNAPSHOT_NOT_SUPPLIED'', [])
      | Some vs \<Rightarrow> bindE (reconcile_open_orders ?open vs) (\<lambda>r. Inr (Some r, rp_blockers r, rp_unknown_on_exchange r)))
      = Inr (rec, found, unknown)" "found = [] \<longleftrightarrow> agrees (rv_orders acc) exchange"
  proof (cases exchange)
    case None
    then show thesis by (intro that) (auto simp: agrees_def)
  next
    case (Some vs)
    then have "distinct (view_ids vs)" using assms(2) by simp
    then obtain r where "reconcile_open_orders ?open vs = Inr r"
      "rp_blockers r = [] \<longleftrightarrow> set (map order_key ?open) = set (map order_key vs)"
      by (rule reconcile_Inr [OF dist])
    with Some show thesis by (intro that [of "Some r" "rp_blockers r" "rp_unknown_on_exchange r"]) (simp_all add: agrees_def)
  qed
  let ?blockers = "dict_fromkeys (rv_blockers acc @ found)"
  let ?r = "\<lparr>rr_orders = sort_key os_order_id (rv_orders acc), rr_reconciliation = rec,
    rr_quarantined_order_ids = sort (remdups (rv_quarantined acc @ unknown)), rr_blockers = ?blockers,
    rr_recovery_complete = (?blockers = []), rr_execution_allowed = False\<rparr>"
  have run: "recover_paper_orders enc_len js exchange = Inr ?r"
    unfolding recover_paper_orders_def acc(1) bindE_simps views found(1) by (simp add: recovery_report_post_init_def)
  have ar: "all_recover enc_len ?acc js ss \<longleftrightarrow> list_all2 (recovers enc_len) js ss \<and> distinct (map os_order_id ss)" for ss
    by (simp add: all_recover_def)
  have same: "rv_orders acc = ss" if "list_all2 (recovers enc_len) js ss" "distinct (map os_order_id ss)" for ss
    using orders that by (simp add: ar)
  have "rr_recovery_complete ?r \<longleftrightarrow> rv_blockers acc = [] \<and> agrees (rv_orders acc) exchange"
    by (simp add: found(2))
  also have "\<dots> \<longleftrightarrow> (\<exists>ss. list_all2 (recovers enc_len) js ss \<and> distinct (map os_order_id ss)) \<and>
      agrees (rv_orders acc) exchange"
    unfolding none ar ..
  also have "\<dots> \<longleftrightarrow> (\<exists>ss. list_all2 (recovers enc_len) js ss \<and> distinct (map os_order_id ss) \<and> agrees ss exchange)"
    using same by metis
  finally have complete: "rr_recovery_complete ?r \<longleftrightarrow>
    (\<exists>ss. list_all2 (recovers enc_len) js ss \<and> distinct (map os_order_id ss) \<and> agrees ss exchange)" .
  have "\<forall>ss. list_all2 (recovers enc_len) js ss \<and> distinct (map os_order_id ss) \<longrightarrow>
      rr_orders ?r = sort_key os_order_id ss" unfolding recovery_report.simps using same by blast
  moreover have "\<not> rr_execution_allowed ?r" by simp
  ultimately show ?thesis using run complete by blast
qed

text \<open>
  C28: a restart is complete exactly when every journal tells one order and the exchange agrees. For
  journals of constructed events and an exchange snapshot with distinct ids, recovery always returns a
  report that grants no execution; it is complete exactly when every journal replays to a paper order,
  no two to the same, and the orders still open are precisely those the exchange reports, or there are
  none when no snapshot was supplied. A complete recovery returns just those orders.
\<close>

theorem recovery_complete_iff:
  assumes "list_all journal_decoded js" "case exchange of None \<Rightarrow> True | Some vs \<Rightarrow> distinct (view_ids vs)"
  shows "\<exists>r. recover_paper_orders enc_len js exchange = Inr r \<and> \<not> rr_execution_allowed r \<and>
    (rr_recovery_complete r \<longleftrightarrow> (\<exists>ss. list_all2 (recovers enc_len) js ss \<and> distinct (map os_order_id ss) \<and>
       agrees ss exchange)) \<and>
    (\<forall>ss. list_all2 (recovers enc_len) js ss \<and> distinct (map os_order_id ss) \<longrightarrow> rr_orders r = sort_key os_order_id ss)"
  using assms by (rule recovery_exact)

text \<open>One journal with a submitted order of quantity 2, still open on the exchange.\<close>

definition example_submission :: domain_event where
  "example_submission = \<lparr>event_id = ''e1'', aggregate_id = ''o1'', event_type = ''ORDER_SUBMITTED'', sequence = 1,
     occurred_at = Aware 1, payload = [(''action'', ''BUY''), (''quantity'', ''2''), (''symbol'', ''btc'')],
     previous_hash = ''GENESIS'', event_hash = ''h1''\<rparr>"

definition example_journal :: disk_journal where
  "example_journal = \<lparr>maximum_event_bytes = 512, maximum_journal_bytes = 4096,
     jr_file = Some \<lparr>jf_lines = [Inr example_submission], jf_size = 200, jf_signature = 0\<rparr>, jr_append_state = None\<rparr>"

theorem recovery_complete_iff_witness:
  "\<exists>r. recover_paper_orders (\<lambda>_. 200) [example_journal] (Some [example_view ''o1'' ''BTC'' 2]) = Inr r \<and>
     rr_recovery_complete r"
proof -
  have "case replay_order [example_submission] of Inl _ \<Rightarrow> False
    | Inr s \<Rightarrow> set (map order_key (map state_view (open_orders [s]))) = set (map order_key [example_view ''o1'' ''BTC'' 2])"
    by code_simp
  then obtain s where s: "replay_order [example_submission] = Inr s" "agrees [s] (Some [example_view ''o1'' ''BTC'' 2])"
    by (auto simp: agrees_def split: sum.splits)
  have "fst (load_unlocked (\<lambda>_. 200) example_journal) = Inr [example_submission]" by code_simp
  then have "recovers (\<lambda>_. 200) example_journal s" using s(1) by (simp add: recovers_def)
  then have "list_all2 (recovers (\<lambda>_. 200)) [example_journal] [s]" "distinct (map os_order_id [s])" by simp_all
  moreover have dec: "list_all journal_decoded [example_journal]"
    "case Some [example_view ''o1'' ''BTC'' 2] of None \<Rightarrow> True | Some vs \<Rightarrow> distinct (view_ids vs)" by code_simp+
  ultimately show ?thesis using recovery_complete_iff [OF dec, of "\<lambda>_. 200"] s(2) by blast
qed

end
