(* ===== verification/Order_Preview.thy ===== *)
theory Order_Preview
  imports Symbol_Filters Spot_Order
begin

text \<open>
  \<^verbatim>\<open>execution/order_preview.py\<close>: the preview of a Spot order, built from public market data and the
  symbol's filters before anything is approved. The public client is a record of its three reads. How
  the product of a truncated quotient and a step prints is the parameter \<open>shw\<close>: it depends on the
  exponents of both, which the value does not carry.
\<close>

record public_client =
  pc_exchange_info :: "string \<Rightarrow> (string \<Rightarrow> filter_values option) result"
  pc_ticker_price :: "string \<Rightarrow> dec result"
  pc_book_ticker :: "string \<Rightarrow> (dec \<times> dec) result"

record order_preview =
  pv_command :: spot_order_command
  pv_validation_price :: dec
  pv_latest_spot_price :: dec
  pv_bid :: dec
  pv_ask :: dec
  pv_spread_bps :: pydec
  pv_blockers :: "string list"
  pv_warnings :: "string list"
  pv_exchange_info_valid :: bool
  pv_price_filter_valid :: bool
  pv_lot_size_valid :: bool
  pv_notional_filter_valid :: bool
  pv_tick_size_valid :: bool
  pv_step_size_valid :: bool
  pv_latest_spot_price_confirmed :: bool
  pv_spread_acceptable :: bool
  pv_slippage_acceptable :: bool
  pv_execution_allowed :: bool
  pv_live_eligibility_status :: string

definition preview_status :: "order_preview \<Rightarrow> string" where
  "preview_status p = (if pv_blockers p = [] then ''READY'' else ''BLOCKED'')"

definition order_preview_post_init :: "order_preview \<Rightarrow> order_preview result" where
  "order_preview_post_init p = validate
     [(pv_execution_allowed p \<or> pv_live_eligibility_status p \<noteq> live_blocked,
       ''order preview cannot grant execution authority'')] p"

record preview_builder =
  pb_public_client :: public_client
  pb_spread_cap_bps :: dec

definition preview_builder_post_init :: "preview_builder \<Rightarrow> preview_builder result" where
  "preview_builder_post_init b = validate [(pb_spread_cap_bps b \<le> 0, ''spread cap must be positive'')] b"

text \<open>\<^verbatim>\<open>except ValueError, ExchangeError, RuntimeError\<close>; the exchange errors are runtime errors.\<close>

definition preview_error_caught :: "py_error \<Rightarrow> bool" where
  "preview_error_caught e = (case e of ValueError _ \<Rightarrow> True | RuntimeError _ \<Rightarrow> True | ExchangeHttpError _ \<Rightarrow> True
     | ExchangePayloadError _ \<Rightarrow> True | CorruptionError _ \<Rightarrow> True | _ \<Rightarrow> False)"

definition preview_evidence :: "preview_builder \<Rightarrow> string \<Rightarrow> (symbol_filters \<times> dec \<times> dec \<times> dec) result" where
  "preview_evidence b symbol =
     (case bindE (pc_exchange_info (pb_public_client b) symbol) (\<lambda>info. bindE (from_symbol_info info) (\<lambda>filters.
           bindE (pc_ticker_price (pb_public_client b) symbol) (\<lambda>latest.
           bindE (pc_book_ticker (pb_public_client b) symbol) (\<lambda>(bid, ask). Inr (filters, latest, bid, ask))))) of
        Inl e \<Rightarrow> Inl (if preview_error_caught e then ValueError ''public Spot preview evidence is unavailable'' else e)
      | Inr r \<Rightarrow> Inr r)"

definition spread_bps :: "dec \<Rightarrow> dec \<Rightarrow> dec \<Rightarrow> pydec" where
  "spread_bps latest bid ask =
     (if 0 < latest then Finite (d_mul (d_quot (d_sub ask bid) latest) 10000) else Infinite False)"

text \<open>\<^verbatim>\<open>spread_bps <= cap\<close>; \<open>Infinite False\<close> is positive infinity.\<close>

definition spread_within :: "pydec \<Rightarrow> dec \<Rightarrow> bool" where
  "spread_within s cap = (case s of Finite x \<Rightarrow> x \<le> cap | _ \<Rightarrow> False)"

definition rounded_shown :: "(shown_dec \<Rightarrow> dec \<Rightarrow> string) \<Rightarrow> shown_dec \<Rightarrow> dec \<Rightarrow> shown_dec" where
  "rounded_shown shw v step = (if step \<le> 0 then v else \<lparr>dv = round_down (dv v) step, dtext = shw v step\<rparr>)"

definition price_evidence_invalid :: "dec \<Rightarrow> dec \<Rightarrow> dec \<Rightarrow> bool" where
  "price_evidence_invalid latest bid ask \<longleftrightarrow> latest \<le> 0 \<or> bid \<le> 0 \<or> ask \<le> 0 \<or> ask < bid"

definition preview_build :: "(shown_dec \<Rightarrow> dec \<Rightarrow> string) \<Rightarrow> preview_builder \<Rightarrow> string \<Rightarrow> string \<Rightarrow> string \<Rightarrow> shown_dec \<Rightarrow>
    string \<Rightarrow> shown_dec option \<Rightarrow> string option \<Rightarrow> order_preview result" where
  "preview_build shw b symbol side order_type quantity client_order_id price time_in_force =
     (let normalized_type = py_upper (py_strip order_type) in
      bindE (preview_evidence b symbol) (\<lambda>(filters, latest, bid, ask).
        let spread = spread_bps latest bid ask;
            validation_price = (if normalized_type = ''MARKET'' then Some latest else map_option dv price)
        in case validation_price of
             None \<Rightarrow> Inl (ValueError ''LIMIT preview requires price'')
           | Some vp \<Rightarrow>
               let tick = pf_tick_size (sf_price filters); step = ls_step_size (sf_lot_size filters);
                   rounded_price = pf_round_down (sf_price filters) vp;
                   rounded_quantity = rounded_shown shw quantity step;
                   command_price = (if normalized_type = ''LIMIT'' then map_option (\<lambda>p. rounded_shown shw p tick) price else None)
               in bindE (spot_order_post_init
                    \<lparr>oc_symbol = symbol, oc_side = side, oc_order_type = normalized_type, oc_quantity = rounded_quantity,
                     oc_client_order_id = client_order_id, oc_price = command_price, oc_time_in_force = time_in_force\<rparr>) (\<lambda>command.
                  bindE (validate_order filters rounded_price (dv rounded_quantity)) (\<lambda>filter_blockers.
                  let invalid = price_evidence_invalid latest bid ask;
                      spread_ok = spread_within spread (pb_spread_cap_bps b);
                      blockers = flag_if invalid ''PUBLIC_PRICE_EVIDENCE_INVALID'' @ filter_blockers
                        @ flag_if (\<not> spread_ok) ''SPREAD_EXCEEDS_LIVE_CAP'';
                      valid = (filter_blockers = [] \<and> \<not> invalid)
                  in order_preview_post_init
                       \<lparr>pv_command = command, pv_validation_price = rounded_price, pv_latest_spot_price = latest,
                        pv_bid = bid, pv_ask = ask, pv_spread_bps = spread, pv_blockers = dict_fromkeys blockers,
                        pv_warnings = flag_if (rounded_price \<noteq> vp) ''PRICE_ROUNDED_DOWN_TO_TICK_SIZE''
                          @ flag_if (dv rounded_quantity \<noteq> dv quantity) ''QUANTITY_ROUNDED_DOWN_TO_STEP_SIZE'',
                        pv_exchange_info_valid = True, pv_price_filter_valid = valid, pv_lot_size_valid = valid,
                        pv_notional_filter_valid = valid, pv_tick_size_valid = valid, pv_step_size_valid = valid,
                        pv_latest_spot_price_confirmed = (0 < latest), pv_spread_acceptable = spread_ok,
                        pv_slippage_acceptable = spread_ok, pv_execution_allowed = False,
                        pv_live_eligibility_status = live_blocked\<rparr>))))"

section \<open>What a preview shows\<close>

lemma rounded_shown_value: "dv (rounded_shown shw v step) = round_down (dv v) step"
  by (simp add: rounded_shown_def round_down_def)

lemma preview_evidence_Inr:
  assumes "preview_evidence b symbol = Inr (filters, latest, bid, ask)"
  shows "\<exists>info. pc_exchange_info (pb_public_client b) symbol = Inr info \<and> from_symbol_info info = Inr filters"
    and "pc_ticker_price (pb_public_client b) symbol = Inr latest" "pc_book_ticker (pb_public_client b) symbol = Inr (bid, ask)"
  using assms by (auto simp: preview_evidence_def split: sum.splits)

lemma preview_build_Inr:
  assumes "preview_build shw b symbol side order_type quantity cid price tif = Inr p"
  obtains filters latest bid ask vp fb where
    "preview_evidence b symbol = Inr (filters, latest, bid, ask)"
    "(if py_upper (py_strip order_type) = ''MARKET'' then Some latest else map_option dv price) = Some vp"
    "command_ok (pv_command p)" "oc_order_type (pv_command p) = py_upper (py_strip order_type)"
    "dv (oc_quantity (pv_command p)) = round_down (dv quantity) (ls_step_size (sf_lot_size filters))"
    "pv_validation_price p = round_down vp (pf_tick_size (sf_price filters))"
    "oc_order_type (pv_command p) = ''LIMIT'' \<Longrightarrow> map_option dv (oc_price (pv_command p)) = Some (pv_validation_price p)"
    "validate_order filters (pv_validation_price p) (dv (oc_quantity (pv_command p))) = Inr fb"
    "pv_blockers p = dict_fromkeys (flag_if (price_evidence_invalid latest bid ask) ''PUBLIC_PRICE_EVIDENCE_INVALID'' @ fb
       @ flag_if (\<not> spread_within (spread_bps latest bid ask) (pb_spread_cap_bps b)) ''SPREAD_EXCEEDS_LIVE_CAP'')"
    "pv_price_filter_valid p = (fb = [] \<and> \<not> price_evidence_invalid latest bid ask)"
    "\<not> pv_execution_allowed p" "pv_live_eligibility_status p = live_blocked"
proof -
  obtain filters latest bid ask where ev: "preview_evidence b symbol = Inr (filters, latest, bid, ask)"
    using assms by (auto simp: preview_build_def Let_def)
  let ?type = "py_upper (py_strip order_type)"
  obtain vp where vp: "(if ?type = ''MARKET'' then Some latest else map_option dv price) = Some vp"
    using assms ev by (auto simp: preview_build_def Let_def split: option.splits)
  let ?c = "\<lparr>oc_symbol = symbol, oc_side = side, oc_order_type = ?type,
     oc_quantity = rounded_shown shw quantity (ls_step_size (sf_lot_size filters)), oc_client_order_id = cid,
     oc_price = (if ?type = ''LIMIT'' then map_option (\<lambda>p. rounded_shown shw p (pf_tick_size (sf_price filters))) price else None),
     oc_time_in_force = tif\<rparr>"
  obtain fb where c: "spot_order_post_init ?c = Inr (pv_command p)"
    and fb: "validate_order filters (pf_round_down (sf_price filters) vp) (dv (oc_quantity ?c)) = Inr fb"
    and p: "pv_validation_price p = pf_round_down (sf_price filters) vp"
      "pv_blockers p = dict_fromkeys (flag_if (price_evidence_invalid latest bid ask) ''PUBLIC_PRICE_EVIDENCE_INVALID'' @ fb
        @ flag_if (\<not> spread_within (spread_bps latest bid ask) (pb_spread_cap_bps b)) ''SPREAD_EXCEEDS_LIVE_CAP'')"
      "pv_price_filter_valid p = (fb = [] \<and> \<not> price_evidence_invalid latest bid ask)"
      "\<not> pv_execution_allowed p" "pv_live_eligibility_status p = live_blocked"
    using assms ev vp by (auto simp: preview_build_def order_preview_post_init_def Let_def)
  note facts = spot_order_post_init_Inr [OF c]
  have type: "oc_order_type (pv_command p) = ?type" using c by (auto simp: spot_order_post_init_def Let_def)
  have "oc_order_type (pv_command p) = ''LIMIT'' \<Longrightarrow> map_option dv (oc_price (pv_command p)) = Some (pv_validation_price p)"
    using vp p(1) facts(10) type by (auto simp: rounded_shown_value pf_round_down_def split: if_splits)
  then show ?thesis
    using that [OF ev vp spot_order_post_init_idem [OF c] type] facts(6) p fb
    by (simp add: rounded_shown_value pf_round_down_def)
qed

section \<open>Property\<close>


definition example_client :: public_client where
  "example_client = \<lparr>pc_exchange_info = (\<lambda>_. Inr example_filters), pc_ticker_price = (\<lambda>_. Inr 100),
     pc_book_ticker = (\<lambda>_. Inr (99.9, 100.1))\<rparr>"

abbreviation example_preview :: "order_preview result" where
  "example_preview \<equiv> preview_build (\<lambda>v _. dtext v) \<lparr>pb_public_client = example_client, pb_spread_cap_bps = 50\<rparr> ''btcusdt''
     ''BUY'' ''LIMIT'' \<lparr>dv = 0.5004, dtext = ''0.500''\<rparr> ''c1'' (Some \<lparr>dv = 100.004, dtext = ''100.00''\<rparr>) (Some ''GTC'')"


end
