(* ===== verification/Event_Delivery.thy ===== *)
theory Event_Delivery
  imports Domain_Events Text_Rules
begin

text \<open>
  \<^verbatim>\<open>events/delivery.py\<close> and the restart half of \<^verbatim>\<open>events/journal.py\<close>: journal checkpoints and recovery,
  the per-consumer checkpoint store, and the runtime that writes an event to the journal before it
  dispatches it to the bus and to the durable consumers.

  The store is its files, by path, and the calls it made to consumers so far, each with whether the
  consumer returned. What the code does not decide is the record \<open>world\<close>: how a consumer answers a call
  and whether the disk keeps a checkpoint (both may change from one attempt to the next, so both see the
  calls made so far), the clock, the digest behind a file name, the digest behind an idempotency key and
  the encoded size of a checkpoint. File locks only order the calls and are not modelled.
\<close>

section \<open>Journal checkpoints and recovery\<close>

record journal_checkpoint =
  jc_sequence :: int
  jc_event_hash :: string
  jc_created_at :: datetime

definition journal_checkpoint_post_init :: "journal_checkpoint \<Rightarrow> journal_checkpoint result" where
  "journal_checkpoint_post_init c = validate
     [(jc_sequence c < 1 \<or> length (jc_event_hash c) \<noteq> 64, ''checkpoint sequence and event hash are invalid''),
      (\<not> is_aware (jc_created_at c), ''checkpoint timestamp must be timezone-aware'')] c"

text \<open>A journal with its checkpoint file: absent, undecodable, or the fields it decodes to.\<close>

record kept_journal =
  kj_journal :: disk_journal
  kj_checkpoint :: "journal_checkpoint option option"

record journal_recovery =
  rc_events :: "domain_event list"
  rc_checkpoint :: "journal_checkpoint option"
  rc_replay_from :: int
  rc_execution_allowed :: bool

definition events_after_checkpoint :: "journal_recovery \<Rightarrow> domain_event list" where
  "events_after_checkpoint r = filter (\<lambda>e. sequence e \<ge> rc_replay_from r) (rc_events r)"

definition read_journal_checkpoint :: "kept_journal \<Rightarrow> journal_checkpoint option result" where
  "read_journal_checkpoint k =
     (case kj_checkpoint k of
        None \<Rightarrow> Inr None
      | Some None \<Rightarrow> Inl (CorruptionError ''checkpoint is invalid'')
      | Some (Some c) \<Rightarrow> (case journal_checkpoint_post_init c of
           Inl _ \<Rightarrow> Inl (CorruptionError ''checkpoint is invalid'')
         | Inr c' \<Rightarrow> Inr (Some c')))"

definition replay_cursor :: "domain_event list \<Rightarrow> journal_checkpoint option \<Rightarrow> int result" where
  "replay_cursor es checkpoint =
     (case checkpoint of
        None \<Rightarrow> Inr 1
      | Some c \<Rightarrow>
          if jc_sequence c > int (length es) then Inl (CorruptionError ''checkpoint sequence exceeds journal'')
          else if event_hash (es ! nat (jc_sequence c - 1)) \<noteq> jc_event_hash c
          then Inl (CorruptionError ''checkpoint hash does not match journal'')
          else Inr (jc_sequence c + 1))"

definition journal_recover :: "(domain_event \<Rightarrow> int) \<Rightarrow> kept_journal \<Rightarrow> journal_recovery result \<times> kept_journal" where
  "journal_recover enc_len k =
     (case load_unlocked enc_len (kj_journal k) of
        (Inl err, j) \<Rightarrow> (Inl err, k\<lparr>kj_journal := j\<rparr>)
      | (Inr es, j) \<Rightarrow>
          (bindE (read_journal_checkpoint k) (\<lambda>checkpoint. bindE (replay_cursor es checkpoint) (\<lambda>from.
             Inr \<lparr>rc_events = es, rc_checkpoint = checkpoint, rc_replay_from = from, rc_execution_allowed = False\<rparr>)),
           k\<lparr>kj_journal := j\<rparr>))"

text \<open>The rename that installs the file is atomic; a failure of the disk is not modelled here.\<close>

definition take_checkpoint :: "(domain_event \<Rightarrow> int) \<Rightarrow> kept_journal \<Rightarrow> datetime \<Rightarrow>
    journal_checkpoint result \<times> kept_journal" where
  "take_checkpoint enc_len k created_at =
     (case load_unlocked enc_len (kj_journal k) of
        (Inl err, j) \<Rightarrow> (Inl err, k\<lparr>kj_journal := j\<rparr>)
      | (Inr es, j) \<Rightarrow>
          (case last_event es of
             None \<Rightarrow> (Inl (ValueError ''cannot checkpoint an empty journal''), k\<lparr>kj_journal := j\<rparr>)
           | Some latest \<Rightarrow>
               (case journal_checkpoint_post_init \<lparr>jc_sequence = sequence latest,
                       jc_event_hash = event_hash latest, jc_created_at = created_at\<rparr> of
                  Inl err \<Rightarrow> (Inl err, k\<lparr>kj_journal := j\<rparr>)
                | Inr c \<Rightarrow> (Inr c, k\<lparr>kj_journal := j, kj_checkpoint := Some (Some c)\<rparr>))))"

definition append_next :: "(domain_event \<Rightarrow> int) \<Rightarrow> (disk_journal \<Rightarrow> domain_event \<Rightarrow> int) \<Rightarrow>
    (int \<Rightarrow> string \<Rightarrow> domain_event result) \<Rightarrow> disk_journal \<Rightarrow> domain_event result \<times> disk_journal" where
  "append_next enc_len touch event_factory j =
     (case append_state_for_current_file enc_len j of
        (Inl err, j') \<Rightarrow> (Inl err, j')
      | (Inr st, j') \<Rightarrow>
          (case event_factory (st_count st + 1) (expected_hash (st_latest st)) of
             Inl err \<Rightarrow> (Inl err, j')
           | Inr e \<Rightarrow> (case append_validated enc_len touch j' e st of
                 (Inl err, j'') \<Rightarrow> (Inl err, j'')
               | (Inr _, j'') \<Rightarrow> (Inr e, j''))))"

section \<open>Deliveries and consumer checkpoints\<close>

text \<open>\<^verbatim>\<open>[A-Za-z0-9][A-Za-z0-9_.:-]{0,127}\Z\<close>.\<close>

definition consumer_char :: "char \<Rightarrow> bool" where
  "consumer_char c \<longleftrightarrow> is_alnum_char c \<or> c \<in> set ''_.:-''"

definition valid_consumer_id :: "string \<Rightarrow> bool" where
  "valid_consumer_id s \<longleftrightarrow> (case s of [] \<Rightarrow> False
     | c # cs \<Rightarrow> is_alnum_char c \<and> list_all consumer_char cs \<and> length cs \<le> 127)"

definition validate_consumer_id :: "string \<Rightarrow> unit result" where
  "validate_consumer_id s = require (valid_consumer_id s) (ValueError ''durable consumer identity is invalid'')"

record delivery =
  dl_consumer_id :: string
  dl_event :: domain_event
  dl_idempotency_key :: string
  dl_execution_allowed :: bool
  dl_live_eligibility_status :: string

record consumer_checkpoint =
  ck_consumer_id :: string
  ck_sequence :: int
  ck_event_id :: string
  ck_event_hash :: string
  ck_updated_at :: datetime
  ck_schema_version :: string

datatype write_outcome = Stored | Not_stored | Stored_then_failed

type_synonym calls = "(delivery \<times> bool) list"

record world =
  wd_handle :: "calls \<Rightarrow> delivery \<Rightarrow> unit result"
  wd_disk :: "calls \<Rightarrow> write_outcome"
  wd_now :: "calls \<Rightarrow> int"
  wd_path :: "string \<Rightarrow> string"
  wd_key :: "string \<times> string \<times> string \<times> int \<Rightarrow> string"
  wd_len :: "consumer_checkpoint \<Rightarrow> int"

definition idempotency_key :: "world \<Rightarrow> string \<Rightarrow> domain_event \<Rightarrow> string result" where
  "idempotency_key w cid e =
     bindE (validate_consumer_id cid) (\<lambda>_. Inr (wd_key w (cid, event_hash e, event_id e, sequence e)))"

definition delivery_post_init :: "world \<Rightarrow> delivery \<Rightarrow> delivery result" where
  "delivery_post_init w d =
     bindE (validate_consumer_id (dl_consumer_id d)) (\<lambda>_.
     bindE (idempotency_key w (dl_consumer_id d) (dl_event d)) (\<lambda>expected. validate
       [(dl_idempotency_key d \<noteq> expected, ''durable delivery idempotency key is invalid''),
        (dl_execution_allowed d, ''durable delivery cannot grant execution authority''),
        (dl_live_eligibility_status d \<noteq> live_blocked, ''durable delivery cannot grant live eligibility'')] d))"

definition consumer_checkpoint_post_init :: "consumer_checkpoint \<Rightarrow> consumer_checkpoint result" where
  "consumer_checkpoint_post_init c =
     bindE (validate_consumer_id (ck_consumer_id c)) (\<lambda>_. validate
       [(ck_sequence c < 1, ''durable consumer checkpoint sequence is invalid''),
        (blank (ck_event_id c), ''durable consumer checkpoint event identity is invalid''),
        (\<not> hex_text 64 (ck_event_hash c), ''durable consumer checkpoint event hash is invalid''),
        (\<not> is_aware (ck_updated_at c), ''durable consumer checkpoint timestamp must be timezone-aware''),
        (ck_schema_version c \<noteq> ''1.0'', ''durable consumer checkpoint schema is unsupported'')] c)"

section \<open>The checkpoint store\<close>

text \<open>
  A checkpoint file is its size and the six fields it decodes to, if it does (a repeated key, a missing
  or extra key, a field of the wrong type and text that is no JSON do not).
\<close>

record checkpoint_file =
  cf_bytes :: int
  cf_fields :: "consumer_checkpoint option"

record checkpoint_store =
  cs_maximum_bytes :: int
  cs_files :: "string \<rightharpoonup> checkpoint_file"
  cs_calls :: calls

definition checkpoint_store_post_init :: "checkpoint_store \<Rightarrow> checkpoint_store result" where
  "checkpoint_store_post_init st = validate
     [(\<not> (256 \<le> cs_maximum_bytes st \<and> cs_maximum_bytes st \<le> 1048576), ''durable checkpoint size limit is invalid'')] st"

definition read_checkpoint :: "world \<Rightarrow> checkpoint_store \<Rightarrow> string \<Rightarrow> consumer_checkpoint option result" where
  "read_checkpoint w st cid =
     (case cs_files st (wd_path w cid) of
        None \<Rightarrow> Inr None
      | Some f \<Rightarrow>
          if cf_bytes f > cs_maximum_bytes st
          then Inl (CorruptionError ''durable consumer checkpoint exceeds byte capacity'')
          else (case cf_fields f of
             None \<Rightarrow> Inl (CorruptionError ''durable consumer checkpoint is invalid'')
           | Some c \<Rightarrow> (case consumer_checkpoint_post_init c of
                Inl _ \<Rightarrow> Inl (CorruptionError ''durable consumer checkpoint is invalid'')
              | Inr c' \<Rightarrow>
                  if ck_consumer_id c' \<noteq> cid
                  then Inl (CorruptionError ''durable consumer checkpoint identity does not match consumer'')
                  else Inr (Some c'))))"

definition store_file :: "world \<Rightarrow> checkpoint_store \<Rightarrow> string \<Rightarrow> consumer_checkpoint \<Rightarrow> checkpoint_store" where
  "store_file w st cid c =
     st\<lparr>cs_files := (cs_files st)(wd_path w cid \<mapsto> \<lparr>cf_bytes = wd_len w c, cf_fields = Some c\<rparr>)\<rparr>"

definition write_checkpoint :: "world \<Rightarrow> checkpoint_store \<Rightarrow> string \<Rightarrow> domain_event \<Rightarrow>
    consumer_checkpoint result \<times> checkpoint_store" where
  "write_checkpoint w st cid e =
     (case consumer_checkpoint_post_init \<lparr>ck_consumer_id = cid, ck_sequence = sequence e, ck_event_id = event_id e,
             ck_event_hash = event_hash e, ck_updated_at = Aware (wd_now w (cs_calls st)), ck_schema_version = ''1.0''\<rparr> of
        Inl err \<Rightarrow> (Inl err, st)
      | Inr c \<Rightarrow>
          if wd_len w c > cs_maximum_bytes st
          then (Inl (OverflowError ''durable consumer checkpoint exceeds byte capacity''), st)
          else (case wd_disk w (cs_calls st) of
             Stored \<Rightarrow> (Inr c, store_file w st cid c)
           | Not_stored \<Rightarrow> (Inl (OSError ''checkpoint write failed''), st)
           | Stored_then_failed \<Rightarrow> (Inl (OSError ''temporary file could not be removed''), store_file w st cid c)))"

definition the_delivery :: "world \<Rightarrow> string \<Rightarrow> domain_event \<Rightarrow> delivery result" where
  "the_delivery w cid e =
     bindE (idempotency_key w cid e) (\<lambda>key. delivery_post_init w
       \<lparr>dl_consumer_id = cid, dl_event = e, dl_idempotency_key = key, dl_execution_allowed = False,
        dl_live_eligibility_status = live_blocked\<rparr>)"

definition delivery_failed :: py_error where
  "delivery_failed = RuntimeError ''durable consumer delivery failed at sequence''"

definition deliver_event :: "world \<Rightarrow> checkpoint_store \<Rightarrow> string \<Rightarrow> domain_event \<Rightarrow>
    consumer_checkpoint result \<times> checkpoint_store" where
  "deliver_event w st cid e =
     (case the_delivery w cid e of
        Inl err \<Rightarrow> (Inl err, st)
      | Inr d \<Rightarrow>
          (case wd_handle w (cs_calls st) d of
             Inl _ \<Rightarrow> (Inl delivery_failed, st\<lparr>cs_calls := cs_calls st @ [(d, False)]\<rparr>)
           | Inr _ \<Rightarrow>
               (case write_checkpoint w (st\<lparr>cs_calls := cs_calls st @ [(d, True)]\<rparr>) cid e of
                  (Inl _, st') \<Rightarrow> (Inl delivery_failed, st')
                | (Inr c, st') \<Rightarrow> (Inr c, st'))))"

definition validated_event_snapshot :: "domain_event list \<Rightarrow> domain_event list result" where
  "validated_event_snapshot es =
     (if length es > 1000000 then Inl (RuntimeError ''durable delivery history exceeds capacity'')
      else case new_bus (max 1 (int (length es))) of
             Inl _ \<Rightarrow> Inl (RuntimeError ''durable delivery event history is invalid'')
           | Inr b \<Rightarrow> (case fst (replay_events silent b es) of
                Inl _ \<Rightarrow> Inl (RuntimeError ''durable delivery event history is invalid'')
              | Inr _ \<Rightarrow> Inr es))"

definition next_index :: "consumer_checkpoint option \<Rightarrow> string \<Rightarrow> domain_event list \<Rightarrow> nat result" where
  "next_index checkpoint cid es =
     (case checkpoint of
        None \<Rightarrow> Inr 0
      | Some c \<Rightarrow>
          if ck_consumer_id c \<noteq> cid
          then Inl (CorruptionError ''durable consumer checkpoint identity does not match consumer'')
          else if ck_sequence c > int (length es)
          then Inl (CorruptionError ''durable consumer checkpoint sequence exceeds journal'')
          else let matched = es ! nat (ck_sequence c - 1)
          in if sequence matched \<noteq> ck_sequence c
             then Inl (CorruptionError ''durable consumer checkpoint sequence does not match journal'')
             else if event_id matched \<noteq> ck_event_id c
             then Inl (CorruptionError ''durable consumer checkpoint event identity does not match journal'')
             else if event_hash matched \<noteq> ck_event_hash c
             then Inl (CorruptionError ''durable consumer checkpoint event hash does not match journal'')
             else Inr (nat (ck_sequence c)))"

fun deliver_from :: "world \<Rightarrow> string \<Rightarrow> checkpoint_store \<Rightarrow> consumer_checkpoint option \<Rightarrow> domain_event list \<Rightarrow>
    consumer_checkpoint option result \<times> checkpoint_store" where
  "deliver_from w cid st checkpoint [] = (Inr checkpoint, st)"
| "deliver_from w cid st checkpoint (e # es) =
     (case deliver_event w st cid e of
        (Inl err, st') \<Rightarrow> (Inl err, st')
      | (Inr c, st') \<Rightarrow> deliver_from w cid st' (Some c) es)"

definition deliver_pending :: "world \<Rightarrow> checkpoint_store \<Rightarrow> string \<Rightarrow> domain_event list \<Rightarrow>
    consumer_checkpoint option result \<times> checkpoint_store" where
  "deliver_pending w st cid events =
     (case bindE (validate_consumer_id cid) (\<lambda>_. bindE (validated_event_snapshot events) (\<lambda>es.
             bindE (read_checkpoint w st cid) (\<lambda>checkpoint. bindE (next_index checkpoint cid es) (\<lambda>n.
               Inr (checkpoint, drop n es))))) of
        Inl err \<Rightarrow> (Inl err, st)
      | Inr (checkpoint, pending) \<Rightarrow> deliver_from w cid st checkpoint pending)"

definition load_verified :: "world \<Rightarrow> checkpoint_store \<Rightarrow> string \<Rightarrow> domain_event list \<Rightarrow>
    consumer_checkpoint option result" where
  "load_verified w st cid events =
     bindE (validate_consumer_id cid) (\<lambda>_. bindE (validated_event_snapshot events) (\<lambda>es.
       bindE (read_checkpoint w st cid) (\<lambda>checkpoint. bindE (next_index checkpoint cid es) (\<lambda>_. Inr checkpoint))))"

definition matches_previous :: "consumer_checkpoint \<Rightarrow> domain_event \<Rightarrow> domain_event option \<Rightarrow> bool" where
  "matches_previous c e previous \<longleftrightarrow>
     (case previous of None \<Rightarrow> False | Some p \<Rightarrow>
        ck_sequence c = sequence e - 1 \<and> sequence p = ck_sequence c \<and> event_id p = ck_event_id c \<and>
        event_hash p = ck_event_hash c \<and> previous_hash e = event_hash p)"

text \<open>\<open>False\<close> asks the caller for a catch-up over the whole journal.\<close>

definition deliver_next :: "world \<Rightarrow> checkpoint_store \<Rightarrow> string \<Rightarrow> domain_event \<Rightarrow> domain_event option \<Rightarrow>
    bool result \<times> checkpoint_store" where
  "deliver_next w st cid e previous =
     (let go = (case deliver_event w st cid e of (Inl err, st') \<Rightarrow> (Inl err, st') | (Inr _, st') \<Rightarrow> (Inr True, st'))
      in case bindE (validate_consumer_id cid) (\<lambda>_. read_checkpoint w st cid) of
           Inl err \<Rightarrow> (Inl err, st)
         | Inr None \<Rightarrow> if sequence e \<noteq> 1 then (Inr False, st) else go
         | Inr (Some c) \<Rightarrow>
             if ck_sequence c = sequence e
             then if ck_event_id c \<noteq> event_id e \<or> ck_event_hash c \<noteq> event_hash e
                  then (Inl (CorruptionError ''durable consumer checkpoint does not match delivered event''), st)
                  else (Inr True, st)
             else if \<not> matches_previous c e previous then (Inr False, st)
             else go)"

section \<open>The journaled runtime\<close>

record runtime =
  rt_journal :: kept_journal
  rt_bus :: event_bus
  rt_store :: checkpoint_store
  rt_consumers :: "string list"
  rt_latest :: "domain_event option"

definition new_runtime :: "kept_journal \<Rightarrow> event_bus \<Rightarrow> checkpoint_store \<Rightarrow> runtime" where
  "new_runtime k b st = \<lparr>rt_journal = k, rt_bus = b, rt_store = st, rt_consumers = [], rt_latest = last_event (bus_events b)\<rparr>"

text \<open>The store of a journal is found again under the journal's own path, so a restart passes it on.\<close>

definition open_runtime :: "(domain_event \<Rightarrow> int) \<Rightarrow> int \<Rightarrow> kept_journal \<Rightarrow> checkpoint_store \<Rightarrow> runtime result" where
  "open_runtime enc_len cap k st =
     (case journal_recover enc_len k of
        (Inl err, _) \<Rightarrow> Inl err
      | (Inr recovery, k') \<Rightarrow> bindE (new_bus cap) (\<lambda>b.
           case replay_events silent b (rc_events recovery) of
             (Inl err, _) \<Rightarrow> Inl err
           | (Inr _, b') \<Rightarrow> Inr (new_runtime k' b' st)))"

definition subscribe_durable :: "(domain_event \<Rightarrow> int) \<Rightarrow> world \<Rightarrow> runtime \<Rightarrow> string \<Rightarrow> unit result \<times> runtime" where
  "subscribe_durable enc_len w rt cid =
     (if cid \<in> set (rt_consumers rt) then (Inl (ValueError ''durable event consumer is already registered''), rt)
      else case load_unlocked enc_len (kj_journal (rt_journal rt)) of
             (Inl err, j) \<Rightarrow> (Inl err, rt\<lparr>rt_journal := (rt_journal rt)\<lparr>kj_journal := j\<rparr>\<rparr>)
           | (Inr es, j) \<Rightarrow>
               (case deliver_pending w (rt_store rt) cid es of
                  (Inl err, st) \<Rightarrow> (Inl err, rt\<lparr>rt_journal := (rt_journal rt)\<lparr>kj_journal := j\<rparr>, rt_store := st\<rparr>)
                | (Inr _, st) \<Rightarrow>
                    (Inr (), rt\<lparr>rt_journal := (rt_journal rt)\<lparr>kj_journal := j\<rparr>, rt_store := st,
                                rt_consumers := rt_consumers rt @ [cid]\<rparr>)))"

text \<open>
  The local variables of the dispatch loop. Every error of the three calls it guards is one of
  \<^verbatim>\<open>OSError\<close>, \<^verbatim>\<open>RuntimeError\<close> and \<^verbatim>\<open>ValueError\<close>, which it collects (lemma \<open>dispatch_errors\<close>).
\<close>

record dispatch =
  dp_journal :: disk_journal
  dp_store :: checkpoint_store
  dp_history :: "domain_event list option"
  dp_failures :: "py_error list"

definition load_history :: "(domain_event \<Rightarrow> int) \<Rightarrow> dispatch \<Rightarrow> dispatch" where
  "load_history enc_len d =
     (case load_unlocked enc_len (dp_journal d) of
        (Inl err, j) \<Rightarrow> d\<lparr>dp_journal := j, dp_failures := dp_failures d @ [err]\<rparr>
      | (Inr es, j) \<Rightarrow> d\<lparr>dp_journal := j, dp_history := Some es\<rparr>)"

definition catch_up :: "world \<Rightarrow> string \<Rightarrow> dispatch \<Rightarrow> dispatch" where
  "catch_up w cid d =
     (case dp_history d of
        None \<Rightarrow> d
      | Some es \<Rightarrow>
          (case deliver_pending w (dp_store d) cid es of
             (Inl err, st) \<Rightarrow> d\<lparr>dp_store := st, dp_failures := dp_failures d @ [err]\<rparr>
           | (Inr _, st) \<Rightarrow> d\<lparr>dp_store := st\<rparr>))"

definition dispatch_one :: "(domain_event \<Rightarrow> int) \<Rightarrow> world \<Rightarrow> domain_event \<Rightarrow> domain_event option \<Rightarrow> bool \<Rightarrow> dispatch \<Rightarrow>
    string \<Rightarrow> dispatch" where
  "dispatch_one enc_len w e previous committed d cid =
     (if dp_history d = None \<and> committed
      then case deliver_next w (dp_store d) cid e previous of
             (Inl err, st) \<Rightarrow> d\<lparr>dp_store := st, dp_failures := dp_failures d @ [err]\<rparr>
           | (Inr True, st) \<Rightarrow> d\<lparr>dp_store := st\<rparr>
           | (Inr False, st) \<Rightarrow> catch_up w cid (load_history enc_len (d\<lparr>dp_store := st\<rparr>))
      else catch_up w cid d)"

text \<open>
  The failures of a publication: one is raised as it is, several as an \<^verbatim>\<open>ExceptionGroup\<close>; none means
  that the call returns. A refused append raises alone, before anything is dispatched.
\<close>

definition runtime_publish :: "(domain_event \<Rightarrow> int) \<Rightarrow> (disk_journal \<Rightarrow> domain_event \<Rightarrow> int) \<Rightarrow>
    (nat \<Rightarrow> domain_event \<Rightarrow> unit result) \<Rightarrow> world \<Rightarrow> runtime \<Rightarrow> domain_event \<Rightarrow> py_error list \<times> runtime" where
  "runtime_publish enc_len touch deliver w rt e =
     (case journal_append enc_len touch (kj_journal (rt_journal rt)) e of
        (Inl err, j) \<Rightarrow> ([err], rt\<lparr>rt_journal := (rt_journal rt)\<lparr>kj_journal := j\<rparr>\<rparr>)
      | (Inr _, j) \<Rightarrow>
          (let previous = rt_latest rt;
               (r, b) = publish deliver (rt_bus rt) e;
               committed = (case r of Inr _ \<Rightarrow> True | Inl _ \<Rightarrow> last_event (bus_events b) = Some e);
               d0 = \<lparr>dp_journal = j, dp_store = rt_store rt, dp_history = None,
                     dp_failures = (case r of Inr _ \<Rightarrow> [] | Inl err \<Rightarrow> [err])\<rparr>;
               d1 = (if rt_consumers rt \<noteq> [] \<and> \<not> committed then load_history enc_len d0 else d0);
               d2 = foldl (dispatch_one enc_len w e previous committed) d1 (sort (rt_consumers rt))
           in (dp_failures d2,
               rt\<lparr>rt_journal := (rt_journal rt)\<lparr>kj_journal := dp_journal d2\<rparr>, rt_bus := b, rt_store := dp_store d2,
                  rt_latest := (if committed then Some e else rt_latest rt)\<rparr>)))"

section \<open>Journals keep their chain\<close>

lemma journal_sound_summary:
  assumes "journal_sound enc_len j es"
  shows "journal_sound enc_len (j\<lparr>jr_append_state := Some (summary_of es sig)\<rparr>) es"
  using assms by (simp add: journal_sound_def summary_of_def split: option.splits)

lemma load_sound_obtains:
  assumes "journal_sound enc_len j es"
  obtains j' where "load_unlocked enc_len j = (Inr es, j')" "journal_sound enc_len j' es"
  using load_sound [OF assms] journal_sound_summary [OF assms] by blast

lemma append_state_keeps_sound:
  assumes "journal_sound enc_len j es" "append_state_for_current_file enc_len j = (r, j')"
  shows "journal_sound enc_len j' es"
  using assms load_sound [OF assms(1)] journal_sound_summary [OF assms(1)]
  by (auto simp: append_state_for_current_file_def summary_of_def split: if_splits)

lemma journal_append_refused_sound:
  assumes "journal_sound enc_len j es" "journal_append enc_len touch j e = (Inl err, j')"
  shows "journal_sound enc_len j' es"
proof -
  obtain st c where st: "append_state_for_current_file enc_len j = (Inr st, j\<lparr>jr_append_state := c\<rparr>)"
    by (rule append_state_sound [OF assms(1)])
  with assms(2) have "j' = j\<lparr>jr_append_state := c\<rparr>"
    by (auto simp: journal_append_def append_validated_def split: sum.splits if_splits)
  with append_state_keeps_sound [OF assms(1) st] show ?thesis by simp
qed

lemma journal_append_done_sound:
  assumes "journal_sound enc_len j es" "journal_append enc_len touch j e = (Inr u, j')"
  shows "journal_sound enc_len j' (es @ [e])"
  using journal_append_accepted(2) [OF assms(1), of touch e] assms(2) by simp

lemma journal_sound_chain: "journal_sound enc_len j es \<Longrightarrow> chain_ok es"
  by (simp add: journal_sound_def)

lemma journal_sound_length: "journal_sound enc_len j es \<Longrightarrow> length es \<le> 1000000"
  using journal_capacity_range(2) [of j] by (simp add: journal_sound_def)

lemma chain_nth_sequence: "chain_ok es \<Longrightarrow> i < length es \<Longrightarrow> sequence (es ! i) = int i + 1"
  by (simp add: chain_ok_def chain_link_def)

lemma chain_distinct: "chain_ok es \<Longrightarrow> distinct es"
  by (simp add: chain_ok_def distinct_map)

lemma chain_ok_appendD: "chain_ok (es @ fs) \<Longrightarrow> chain_ok es"
  by (induction fs rule: rev_induct) (auto simp: chain_ok_snoc simp flip: append_assoc)

lemma snapshot_validated:
  assumes "chain_ok es" "length es \<le> 1000000"
  shows "validated_event_snapshot es = Inr es"
proof -
  let ?cap = "max 1 (int (length es))"
  let ?b = "\<lparr>bus_capacity = ?cap, bus_events = [], bus_event_ids = [], bus_subscribers = []\<rparr>"
  have new: "new_bus ?cap = Inr ?b" using assms(2) by (simp add: new_bus_def)
  then have "bus_ok ?b" by (rule bus_ok_new)
  then obtain b' where "replay_events silent ?b es = (Inr (), b')"
    using replay_silent_succeeds [of ?b es] assms(1) by auto
  with new assms(2) show ?thesis by (simp add: validated_event_snapshot_def)
qed

section \<open>Progress of a consumer\<close>

text \<open>The events a consumer was called with, in call order, and how many its checkpoint covers.\<close>

definition received :: "checkpoint_store \<Rightarrow> string \<Rightarrow> domain_event list" where
  "received st cid = map (dl_event \<circ> fst) (filter (\<lambda>c. dl_consumer_id (fst c) = cid) (cs_calls st))"

definition handled :: "checkpoint_store \<Rightarrow> string \<Rightarrow> domain_event list" where
  "handled st cid = map (dl_event \<circ> fst) (filter (\<lambda>c. dl_consumer_id (fst c) = cid \<and> snd c) (cs_calls st))"

definition progress :: "world \<Rightarrow> checkpoint_store \<Rightarrow> string \<Rightarrow> nat" where
  "progress w st cid =
     (case read_checkpoint w st cid of Inr (Some c) \<Rightarrow> nat (ck_sequence c) | _ \<Rightarrow> 0)"

definition checkpoint_of :: "consumer_checkpoint \<Rightarrow> domain_event \<Rightarrow> bool" where
  "checkpoint_of c e \<longleftrightarrow> ck_sequence c = sequence e \<and> ck_event_id c = event_id e \<and> ck_event_hash c = event_hash e"

definition file_sound :: "world \<Rightarrow> checkpoint_store \<Rightarrow> domain_event list \<Rightarrow> string \<Rightarrow> checkpoint_file \<Rightarrow> bool" where
  "file_sound w st es p f \<longleftrightarrow> cf_bytes f \<le> cs_maximum_bytes st \<and>
     (\<exists>c. cf_fields f = Some c \<and> consumer_checkpoint_post_init c = Inr c \<and> wd_path w (ck_consumer_id c) = p \<and>
        ck_sequence c \<le> int (length es) \<and> checkpoint_of c (es ! nat (ck_sequence c - 1)))"

text \<open>
  In order and without a gap: leaving out repetitions, a consumer received a prefix of the journal that
  is at most one event ahead of its checkpoint, and it handled every event its checkpoint covers.
\<close>

definition in_order :: "world \<Rightarrow> checkpoint_store \<Rightarrow> domain_event list \<Rightarrow> string \<Rightarrow> bool" where
  "in_order w st es cid \<longleftrightarrow>
     (\<exists>m \<le> length es. dict_fromkeys (received st cid) = take m es \<and> progress w st cid \<le> m \<and> m \<le> Suc (progress w st cid)) \<and>
     set (take (progress w st cid) es) \<subseteq> set (handled st cid)"

definition store_sound :: "world \<Rightarrow> checkpoint_store \<Rightarrow> domain_event list \<Rightarrow> bool" where
  "store_sound w st es \<longleftrightarrow> (\<forall>p f. cs_files st p = Some f \<longrightarrow> file_sound w st es p f) \<and> (\<forall>cid. in_order w st es cid)"

text \<open>Event fields a checkpoint of the event needs; SHA-256 digests and constructed events have them.\<close>

definition storable :: "domain_event \<Rightarrow> bool" where
  "storable e \<longleftrightarrow> \<not> blank (event_id e) \<and> hex_text 64 (event_hash e)"

lemma dict_fromkeys_snoc:
  "dict_fromkeys (xs @ [x]) = (if x \<in> set xs then dict_fromkeys xs else dict_fromkeys xs @ [x])"
  by (simp add: dict_fromkeys_def fromkeys_acc_append)

lemma checkpoint_positive: "consumer_checkpoint_post_init c = Inr c \<Longrightarrow> 1 \<le> ck_sequence c"
  by (simp add: consumer_checkpoint_post_init_def)

lemma read_sound:
  assumes "store_sound w st es"
  shows "read_checkpoint w st cid =
    (case cs_files st (wd_path w cid) of None \<Rightarrow> Inr None | Some f \<Rightarrow>
       if ck_consumer_id (the (cf_fields f)) = cid then Inr (cf_fields f)
       else Inl (CorruptionError ''durable consumer checkpoint identity does not match consumer''))"
  using assms by (fastforce simp: read_checkpoint_def store_sound_def file_sound_def split: option.splits)

lemma read_Some_sound:
  assumes "store_sound w st es" "read_checkpoint w st cid = Inr (Some c)"
  obtains "ck_consumer_id c = cid" "1 \<le> ck_sequence c" "ck_sequence c \<le> int (length es)"
    "checkpoint_of c (es ! nat (ck_sequence c - 1))" "progress w st cid = nat (ck_sequence c)"
proof -
  from assms(2) obtain f where f: "cs_files st (wd_path w cid) = Some f" "cf_fields f = Some c" "ck_consumer_id c = cid"
    unfolding read_sound [OF assms(1)] by (auto split: option.splits if_splits)
  with assms(1) have "file_sound w st es (wd_path w cid) f" by (simp add: store_sound_def)
  with f have "consumer_checkpoint_post_init c = Inr c" "ck_sequence c \<le> int (length es)"
    "checkpoint_of c (es ! nat (ck_sequence c - 1))" by (auto simp: file_sound_def)
  with f(3) checkpoint_positive [of c] assms(2) that show ?thesis by (simp add: progress_def)
qed

lemma next_index_progress:
  assumes "store_sound w st es" "chain_ok es" "read_checkpoint w st cid = Inr checkpoint"
  shows "next_index checkpoint cid es = Inr (progress w st cid)" "progress w st cid \<le> length es"
proof -
  have "next_index checkpoint cid es = Inr (progress w st cid) \<and> progress w st cid \<le> length es"
  proof (cases checkpoint)
    case None
    with assms(3) show ?thesis by (simp add: next_index_def progress_def)
  next
    case (Some c)
    with assms(3) have "read_checkpoint w st cid = Inr (Some c)" by simp
    then show ?thesis
      by (rule read_Some_sound [OF assms(1)]) (auto simp: Some next_index_def checkpoint_of_def Let_def)
  qed
  then show "next_index checkpoint cid es = Inr (progress w st cid)" "progress w st cid \<le> length es" by auto
qed

section \<open>One delivery\<close>

lemma read_calls [simp]: "read_checkpoint w (st\<lparr>cs_calls := cs\<rparr>) cid = read_checkpoint w st cid"
  by (simp add: read_checkpoint_def cong: option.case_cong)

lemma progress_calls [simp]: "progress w (st\<lparr>cs_calls := cs\<rparr>) cid = progress w st cid"
  by (simp add: progress_def)

lemma file_sound_calls [simp]: "file_sound w (st\<lparr>cs_calls := cs\<rparr>) es p f = file_sound w st es p f"
  by (simp add: file_sound_def)

lemma received_call:
  "received (st\<lparr>cs_calls := cs_calls st @ [(d, b)]\<rparr>) cid =
     received st cid @ (if dl_consumer_id d = cid then [dl_event d] else [])"
  "handled (st\<lparr>cs_calls := cs_calls st @ [(d, b)]\<rparr>) cid =
     handled st cid @ (if dl_consumer_id d = cid \<and> b then [dl_event d] else [])"
  by (simp_all add: received_def handled_def)

lemma call_received:
  assumes "in_order w st es cid" "distinct es" "progress w st cid < length es"
    and "dl_consumer_id d = cid" "dl_event d = es ! progress w st cid"
  shows "dict_fromkeys (received (st\<lparr>cs_calls := cs_calls st @ [(d, b)]\<rparr>) cid) = take (Suc (progress w st cid)) es"
proof -
  let ?n = "progress w st cid"
  from assms(1) obtain m where m: "dict_fromkeys (received st cid) = take m es" "m = ?n \<or> m = Suc ?n"
    unfolding in_order_def by (metis le_Suc_eq le_antisym)
  then have mem: "es ! ?n \<in> set (received st cid) \<longleftrightarrow> es ! ?n \<in> set (take m es)"
    by (metis set_dict_fromkeys)
  have "es ! ?n \<notin> set (take ?n es)" using assms(2,3) by (metis distinct_take id_take_nth_drop not_distinct_conv_prefix take_Suc_conv_app_nth)
  moreover have "es ! ?n \<in> set (take (Suc ?n) es)" using assms(3) by (simp add: take_Suc_conv_app_nth)
  ultimately show ?thesis using m mem assms(3-5)
    by (auto simp: received_call dict_fromkeys_snoc take_Suc_conv_app_nth)
qed

lemma call_sound:
  assumes "store_sound w st es" "distinct es" "progress w st cid < length es"
    and "dl_consumer_id d = cid" "dl_event d = es ! progress w st cid"
  shows "store_sound w (st\<lparr>cs_calls := cs_calls st @ [(d, b)]\<rparr>) es"
proof -
  let ?st = "st\<lparr>cs_calls := cs_calls st @ [(d, b)]\<rparr>"
  have "in_order w ?st es c" for c
  proof (cases "c = cid")
    case True
    have "in_order w st es cid" using assms(1) by (simp add: store_sound_def)
    with call_received [OF this assms(2-5), of b] assms(3) True show ?thesis
      unfolding in_order_def by (auto simp: received_call intro!: exI [of _ "Suc (progress w st cid)"])
  next
    case False
    moreover have "in_order w st es c" using assms(1) by (simp add: store_sound_def)
    ultimately show ?thesis using assms(4) by (simp add: in_order_def received_call)
  qed
  with assms(1) show ?thesis by (simp add: store_sound_def)
qed

lemma progress_store:
  assumes "store_sound w st es" "read_checkpoint w st cid = Inr old"
    and "consumer_checkpoint_post_init c = Inr c" "ck_consumer_id c = cid" "wd_len w c \<le> cs_maximum_bytes st"
  shows "progress w (store_file w st cid c) x = (if x = cid then nat (ck_sequence c) else progress w st x)"
    and "read_checkpoint w (store_file w st cid c) cid = Inr (Some c)"
proof -
  show new: "read_checkpoint w (store_file w st cid c) cid = Inr (Some c)"
    using assms(3-5) by (simp add: read_checkpoint_def store_file_def)
  have "progress w (store_file w st cid c) x = progress w st x" if "x \<noteq> cid"
  proof (cases "wd_path w x = wd_path w cid")
    case True
    with that assms(3-5) have "progress w (store_file w st cid c) x = 0"
      by (simp add: progress_def read_checkpoint_def store_file_def)
    moreover have "progress w st x = 0"
      using assms(2) that True unfolding progress_def read_sound [OF assms(1)]
      by (auto split: option.splits if_splits)
    ultimately show ?thesis by simp
  next
    case False
    then have "read_checkpoint w (store_file w st cid c) x = read_checkpoint w st x"
      by (simp add: read_checkpoint_def store_file_def cong: option.case_cong)
    then show ?thesis by (simp add: progress_def)
  qed
  with new show "progress w (store_file w st cid c) x = (if x = cid then nat (ck_sequence c) else progress w st x)"
    by (simp add: progress_def)
qed

lemma store_file_sound:
  assumes sound: "store_sound w st es" and read: "read_checkpoint w st cid = Inr old"
    and c: "consumer_checkpoint_post_init c = Inr c" "ck_consumer_id c = cid" "wd_len w c \<le> cs_maximum_bytes st"
    and n: "progress w st cid = n" "n < length es" "ck_sequence c = int n + 1" "checkpoint_of c (es ! n)"
    and rec: "dict_fromkeys (received st cid) = take (Suc n) es" "es ! n \<in> set (handled st cid)"
  shows "store_sound w (store_file w st cid c) es"
proof -
  let ?st = "store_file w st cid c"
  note prog = progress_store(1) [OF sound read c]
  have same: "received ?st x = received st x" "handled ?st x = handled st x" for x
    by (simp_all add: received_def handled_def store_file_def)
  have "in_order w ?st es x" for x
  proof (cases "x = cid")
    case True
    have "set (take n es) \<subseteq> set (handled st cid)" using sound n(1) by (auto simp: store_sound_def in_order_def)
    with rec n True show ?thesis
      unfolding in_order_def same by (auto simp: prog take_Suc_conv_app_nth nat_add_distrib intro!: exI [of _ "Suc n"])
  next
    case False
    moreover have "in_order w st es x" using sound by (simp add: store_sound_def)
    ultimately show ?thesis unfolding in_order_def same by (simp add: prog)
  qed
  moreover have "file_sound w ?st es p f" if "cs_files ?st p = Some f" for p f
    using that sound c n by (auto simp: store_file_def store_sound_def file_sound_def split: if_splits)
  ultimately show ?thesis by (simp add: store_sound_def)
qed

lemma the_delivery_valid:
  assumes "valid_consumer_id cid"
  obtains d where "the_delivery w cid e = Inr d" "dl_consumer_id d = cid" "dl_event d = e"
  using assms by (simp add: the_delivery_def idempotency_key_def delivery_post_init_def validate_consumer_id_def)

lemma deliver_event_sound:
  assumes sound: "store_sound w st es" and chain: "chain_ok es" and valid: "valid_consumer_id cid"
    and read: "read_checkpoint w st cid = Inr old" and n: "progress w st cid < length es"
    and e: "e = es ! progress w st cid" "storable e" and go: "deliver_event w st cid e = (r, st')"
  shows "store_sound w st' es \<and> (\<forall>x. progress w st x \<le> progress w st' x) \<and>
    (\<forall>c. r = Inr c \<longrightarrow> progress w st' cid = Suc (progress w st cid) \<and> read_checkpoint w st' cid = Inr (Some c)) \<and>
    (\<forall>err. r = Inl err \<longrightarrow> err = delivery_failed)"
proof -
  let ?n = "progress w st cid"
  obtain d where d: "the_delivery w cid e = Inr d" "dl_consumer_id d = cid" "dl_event d = e"
    by (rule the_delivery_valid [OF valid])
  let ?s = "\<lambda>b. st\<lparr>cs_calls := cs_calls st @ [(d, b)]\<rparr>"
  have dist: "distinct es" using chain by (rule chain_distinct)
  have called: "store_sound w (?s b) es" for b
    using d e(1) by (intro call_sound [OF sound dist n]) simp_all
  have rec: "dict_fromkeys (received (?s b) cid) = take (Suc ?n) es" for b
    using d e(1) sound by (intro call_received [OF _ dist n]) (simp_all add: store_sound_def)
  show ?thesis
  proof (cases "wd_handle w (cs_calls st) d")
    case (Inl err)
    with go d called [of False] show ?thesis by (auto simp: deliver_event_def)
  next
    case (Inr u)
    let ?c = "\<lparr>ck_consumer_id = cid, ck_sequence = sequence e, ck_event_id = event_id e,
      ck_event_hash = event_hash e, ck_updated_at = Aware (wd_now w (cs_calls (?s True))), ck_schema_version = ''1.0''\<rparr>"
    have seq: "sequence e = int ?n + 1" using chain_nth_sequence [OF chain n] e(1) by simp
    have c: "consumer_checkpoint_post_init ?c = Inr ?c"
      using valid e(2) seq by (simp add: consumer_checkpoint_post_init_def validate_consumer_id_def storable_def)
    have handled: "es ! ?n \<in> set (handled (?s True) cid)" using d e(1) by (simp add: received_call)
    show ?thesis
    proof (cases "wd_len w ?c \<le> cs_maximum_bytes st")
      case False
      with go d Inr c called [of True] show ?thesis by (auto simp: deliver_event_def write_checkpoint_def)
    next
      case True
      let ?t = "store_file w (?s True) cid ?c"
      have stored: "store_sound w ?t es"
        using True seq e(1) rec [of True] handled
        by (intro store_file_sound [OF called _ c _ _ _ n]) (simp_all add: read checkpoint_of_def)
      have prog: "progress w ?t x = (if x = cid then Suc ?n else progress w st x)" "read_checkpoint w ?t cid = Inr (Some ?c)" for x
        using True progress_store [OF called [of True] _ c, of cid] seq
        by (simp_all add: read nat_add_distrib)
      have "(r, st') = (case wd_disk w (cs_calls (?s True)) of Stored \<Rightarrow> (Inr ?c, ?t)
          | Not_stored \<Rightarrow> (Inl delivery_failed, ?s True) | Stored_then_failed \<Rightarrow> (Inl delivery_failed, ?t))"
        using go d Inr c True by (simp add: deliver_event_def write_checkpoint_def split: write_outcome.splits)
      then show ?thesis using stored prog called [of True]
        by (auto split: write_outcome.splits)
    qed
  qed
qed

section \<open>Catching up and dispatching\<close>

lemma deliver_from_sound:
  assumes "store_sound w st es" "chain_ok es" "valid_consumer_id cid" "list_all storable es"
    and "read_checkpoint w st cid = Inr old" "pending = drop (progress w st cid) es"
    and "deliver_from w cid st old pending = (r, st')"
  shows "store_sound w st' es \<and> (\<forall>x. progress w st x \<le> progress w st' x) \<and>
    (\<forall>c. r = Inr c \<longrightarrow> progress w st' cid = length es) \<and> (\<forall>err. r = Inl err \<longrightarrow> err = delivery_failed)"
  using assms
proof (induction w cid st old pending rule: deliver_from.induct)
  case (1 w cid st old)
  moreover have "progress w st cid \<le> length es" by (rule next_index_progress(2) [OF 1(1,2,5)])
  ultimately show ?case by auto
next
  case (2 w cid st old e rest)
  let ?n = "progress w st cid"
  have n: "?n < length es" and e: "e = es ! ?n" and rest: "rest = drop (Suc ?n) es"
    using 2(7) by (metis drop_eq_Nil list.distinct(1) not_le, metis nth_via_drop, metis drop_Suc tl_drop list.sel(3))
  obtain r1 st1 where go: "deliver_event w st cid e = (r1, st1)" by fastforce
  have "storable e" using 2(5) n e by (simp add: list_all_length)
  note one = deliver_event_sound [OF 2(2,3,4,6) n e this go]
  show ?case
  proof (cases r1)
    case (Inl err)
    with one 2(8) go show ?thesis by auto
  next
    case (Inr c)
    with one have st1: "store_sound w st1 es" "progress w st1 cid = Suc ?n" "read_checkpoint w st1 cid = Inr (Some c)"
      and mono: "\<forall>x. progress w st x \<le> progress w st1 x" by auto
    have "deliver_from w cid st1 (Some c) rest = (r, st')" using 2(8) go Inr by simp
    with 2(1) [OF go [symmetric] Inr st1(1) 2(3,4,5) st1(3)] rest st1(2) mono show ?thesis
      by (metis order_trans)
  qed
qed

lemma deliver_pending_sound:
  assumes "store_sound w st es" "chain_ok es" "length es \<le> 1000000" "list_all storable es"
    and "deliver_pending w st cid es = (r, st')"
  shows "store_sound w st' es \<and> (\<forall>x. progress w st x \<le> progress w st' x) \<and>
    (\<forall>c. r = Inr c \<longrightarrow> progress w st' cid = length es)"
proof (cases "\<exists>old. valid_consumer_id cid \<and> read_checkpoint w st cid = Inr old")
  case True
  then obtain old where old: "valid_consumer_id cid" "read_checkpoint w st cid = Inr old" by blast
  with assms have "deliver_from w cid st old (drop (progress w st cid) es) = (r, st')"
    by (simp add: deliver_pending_def validate_consumer_id_def snapshot_validated next_index_progress(1))
  with deliver_from_sound [OF assms(1,2) old(1) assms(4) old(2) refl] show ?thesis by blast
next
  case False
  with assms have "st' = st" "\<nexists>c. r = Inr c"
    by (auto simp: deliver_pending_def validate_consumer_id_def snapshot_validated require_def bindE_def split: sum.splits)
  with assms(1) show ?thesis by auto
qed

lemma chain_last: "chain_ok es \<Longrightarrow> last_event es = Some e \<Longrightarrow> es \<noteq> [] \<and> e = es ! (length es - 1) \<and> sequence e = int (length es)"
  by (cases es rule: rev_cases) (auto simp: last_event_def chain_ok_snoc)

lemma deliver_next_sound:
  assumes "store_sound w st es" "chain_ok es" "list_all storable es" "last_event es = Some e"
    and "deliver_next w st cid e previous = (r, st')"
  shows "store_sound w st' es \<and> (\<forall>x. progress w st x \<le> progress w st' x) \<and>
    (r = Inr True \<longrightarrow> progress w st' cid = length es)"
proof -
  have e: "es \<noteq> []" "e = es ! (length es - 1)" "sequence e = int (length es)"
    using chain_last [OF assms(2,4)] by auto
  have step: "store_sound w st1 es \<and> (\<forall>x. progress w st x \<le> progress w st1 x) \<and>
      (\<forall>c. r1 = Inr c \<longrightarrow> progress w st1 cid = length es)"
    if "valid_consumer_id cid" "read_checkpoint w st cid = Inr old" "deliver_event w st cid e = (r1, st1)"
      "Suc (progress w st cid) = length es" for old r1 st1
  proof -
    have n: "progress w st cid < length es" and at: "e = es ! progress w st cid"
      using that(4) e(2) by (simp, metis diff_Suc_1)
    moreover have "storable e" using assms(3) n at by (simp add: list_all_length)
    ultimately show ?thesis using deliver_event_sound [OF assms(1,2) that(1,2) n at _ that(3)] that(4) by simp
  qed
  show ?thesis
  proof (cases "valid_consumer_id cid")
    case False
    with assms(1,5) show ?thesis by (auto simp: deliver_next_def validate_consumer_id_def Let_def)
  next
    case valid: True
    show ?thesis
    proof (cases "read_checkpoint w st cid")
      case (Inl err)
      with assms(1,5) valid show ?thesis by (auto simp: deliver_next_def validate_consumer_id_def Let_def)
    next
      case (Inr old)
      show ?thesis
      proof (cases old)
        case None
        with Inr have "progress w st cid = 0" by (simp add: progress_def)
        with step [OF valid Inr] assms(1,5) valid None Inr e(3) show ?thesis
          by (auto simp: deliver_next_def validate_consumer_id_def Let_def split: if_splits prod.splits sum.splits)
      next
        case (Some c)
        with Inr have read: "read_checkpoint w st cid = Inr (Some c)" by simp
        have pos: "1 \<le> ck_sequence c" and prog: "progress w st cid = nat (ck_sequence c)"
          by (rule read_Some_sound [OF assms(1) read], assumption)+
        have "Suc (progress w st cid) = length es" if "matches_previous c e previous"
          using that e(3) pos prog by (auto simp: matches_previous_def split: option.splits)
        with step [OF valid Inr] assms(1,5) valid read e(3) prog show ?thesis
          by (auto simp: deliver_next_def validate_consumer_id_def Let_def split: if_splits prod.splits sum.splits)
      qed
    qed
  qed
qed

definition dispatch_sound :: "(domain_event \<Rightarrow> int) \<Rightarrow> world \<Rightarrow> domain_event list \<Rightarrow> dispatch \<Rightarrow> bool" where
  "dispatch_sound enc_len w es d \<longleftrightarrow> journal_sound enc_len (dp_journal d) es \<and> store_sound w (dp_store d) es \<and>
     list_all storable es \<and> (dp_history d = None \<or> dp_history d = Some es)"

text \<open>What a dispatch step keeps: no progress is lost and no failure forgotten.\<close>

definition dispatch_extends :: "world \<Rightarrow> dispatch \<Rightarrow> dispatch \<Rightarrow> bool" where
  "dispatch_extends w d d' \<longleftrightarrow> (\<forall>x. progress w (dp_store d) x \<le> progress w (dp_store d') x) \<and>
     length (dp_failures d) \<le> length (dp_failures d') \<and> (dp_history d \<noteq> None \<longrightarrow> dp_history d' = dp_history d)"

lemma dispatch_extends_refl [simp]: "dispatch_extends w d d"
  by (simp add: dispatch_extends_def)

lemma dispatch_extends_trans: "dispatch_extends w d d' \<Longrightarrow> dispatch_extends w d' d'' \<Longrightarrow> dispatch_extends w d d''"
  unfolding dispatch_extends_def by (metis order_trans)

lemma load_history_sound:
  assumes "dispatch_sound enc_len w es d"
  shows "dispatch_sound enc_len w es (load_history enc_len d)" "dp_history (load_history enc_len d) = Some es"
    "dp_store (load_history enc_len d) = dp_store d" "dp_failures (load_history enc_len d) = dp_failures d"
    "dispatch_extends w d (load_history enc_len d)"
proof -
  obtain j where "load_unlocked enc_len (dp_journal d) = (Inr es, j)" "journal_sound enc_len j es"
    using assms load_sound_obtains unfolding dispatch_sound_def by blast
  with assms show "dispatch_sound enc_len w es (load_history enc_len d)" "dp_history (load_history enc_len d) = Some es"
    "dp_store (load_history enc_len d) = dp_store d" "dp_failures (load_history enc_len d) = dp_failures d"
    "dispatch_extends w d (load_history enc_len d)"
    by (auto simp: load_history_def dispatch_sound_def dispatch_extends_def)
qed

lemma catch_up_sound:
  assumes "dispatch_sound enc_len w es d" "dp_history d = Some es"
  shows "dispatch_sound enc_len w es (catch_up w cid d) \<and> dispatch_extends w d (catch_up w cid d) \<and>
    (dp_failures (catch_up w cid d) = [] \<longrightarrow> progress w (dp_store (catch_up w cid d)) cid = length es)"
proof -
  obtain r st where go: "deliver_pending w (dp_store d) cid es = (r, st)" by fastforce
  have "chain_ok es" "length es \<le> 1000000"
    using assms(1) journal_sound_chain journal_sound_length unfolding dispatch_sound_def by blast+
  with assms(1) go have "store_sound w st es \<and> (\<forall>x. progress w (dp_store d) x \<le> progress w st x) \<and>
      (\<forall>c. r = Inr c \<longrightarrow> progress w st cid = length es)"
    by (intro deliver_pending_sound) (simp_all add: dispatch_sound_def)
  with assms go show ?thesis
    by (cases r) (auto simp: catch_up_def dispatch_sound_def dispatch_extends_def)
qed

lemma dispatch_one_sound:
  assumes "dispatch_sound enc_len w es d" "last_event es = Some e" "committed \<or> dp_history d = Some es"
  shows "dispatch_sound enc_len w es (dispatch_one enc_len w e previous committed d cid) \<and>
    dispatch_extends w d (dispatch_one enc_len w e previous committed d cid) \<and>
    (dp_failures (dispatch_one enc_len w e previous committed d cid) = [] \<longrightarrow>
       progress w (dp_store (dispatch_one enc_len w e previous committed d cid)) cid = length es)"
proof (cases "dp_history d = None \<and> committed")
  case True
  obtain r st where go: "deliver_next w (dp_store d) cid e previous = (r, st)" by fastforce
  have "chain_ok es" using assms(1) journal_sound_chain unfolding dispatch_sound_def by blast
  with assms(1,2) go have sound: "store_sound w st es" "\<forall>x. progress w (dp_store d) x \<le> progress w st x"
    "r = Inr True \<longrightarrow> progress w st cid = length es"
    using deliver_next_sound [of w "dp_store d" es e cid previous r st] by (auto simp: dispatch_sound_def)
  let ?d = "d\<lparr>dp_store := st\<rparr>"
  have d: "dispatch_sound enc_len w es ?d" "dispatch_extends w d ?d"
    using assms(1) sound by (auto simp: dispatch_sound_def dispatch_extends_def)
  consider (err) err where "r = Inl err" | (yes) "r = Inr True" | (no) "r = Inr False" by (cases r) auto
  then show ?thesis
  proof cases
    case err
    with True go d show ?thesis by (auto simp: dispatch_one_def dispatch_sound_def dispatch_extends_def)
  next
    case yes
    with True go d sound show ?thesis by (auto simp: dispatch_one_def)
  next
    case no
    let ?l = "load_history enc_len ?d"
    from no True go have "dispatch_one enc_len w e previous committed d cid = catch_up w cid ?l"
      by (simp add: dispatch_one_def)
    with catch_up_sound [OF load_history_sound(1,2) [OF d(1)], of cid] load_history_sound(5) [OF d(1)] d(2)
    show ?thesis by (metis dispatch_extends_trans)
  qed
next
  case False
  with assms have "dp_history d = Some es" by (auto simp: dispatch_sound_def)
  moreover have "dispatch_one enc_len w e previous committed d cid = catch_up w cid d"
    by (simp only: dispatch_one_def False if_False)
  ultimately show ?thesis using catch_up_sound [OF assms(1)] by simp
qed

lemma dispatch_all_sound:
  assumes "dispatch_sound enc_len w es d" "last_event es = Some e" "committed \<or> dp_history d = Some es \<or> cids = []"
  shows "dispatch_sound enc_len w es (foldl (dispatch_one enc_len w e previous committed) d cids) \<and>
    dispatch_extends w d (foldl (dispatch_one enc_len w e previous committed) d cids) \<and>
    (dp_failures (foldl (dispatch_one enc_len w e previous committed) d cids) = [] \<longrightarrow>
       (\<forall>cid \<in> set cids. length es \<le> progress w (dp_store (foldl (dispatch_one enc_len w e previous committed) d cids)) cid))"
  using assms
proof (induction cids arbitrary: d)
  case (Cons cid cids)
  let ?d = "dispatch_one enc_len w e previous committed d cid"
  have here: "committed \<or> dp_history d = Some es" using Cons.prems(3) by auto
  note one = dispatch_one_sound [OF Cons.prems(1,2) here, of previous cid]
  then have "committed \<or> dp_history ?d = Some es \<or> cids = []" using here by (auto simp: dispatch_extends_def)
  note rest = Cons.IH [OF conjunct1 [OF one] Cons.prems(2) this]
  show ?case using one rest by (auto simp: dispatch_extends_def) (metis order_trans)+
qed simp

section \<open>The runtime\<close>

definition runtime_sound :: "(domain_event \<Rightarrow> int) \<Rightarrow> world \<Rightarrow> domain_event list \<Rightarrow> runtime \<Rightarrow> bool" where
  "runtime_sound enc_len w es rt \<longleftrightarrow> journal_sound enc_len (kj_journal (rt_journal rt)) es \<and>
     store_sound w (rt_store rt) es \<and> list_all storable es"

lemma store_sound_extend:
  assumes "store_sound w st es" shows "store_sound w st (es @ fs)"
proof -
  have "file_sound w st (es @ fs) p f" if "file_sound w st es p f" for p f
  proof -
    from that obtain c where c: "cf_bytes f \<le> cs_maximum_bytes st" "cf_fields f = Some c" "consumer_checkpoint_post_init c = Inr c"
      "wd_path w (ck_consumer_id c) = p" "ck_sequence c \<le> int (length es)" "checkpoint_of c (es ! nat (ck_sequence c - 1))"
      by (auto simp: file_sound_def)
    with checkpoint_positive [OF c(3)] have "nat (ck_sequence c - 1) < length es" by linarith
    with c show ?thesis by (simp add: file_sound_def nth_append)
  qed
  moreover have "in_order w st (es @ fs) cid" if "in_order w st es cid" for cid
  proof -
    from that obtain m where m: "m \<le> length es" "dict_fromkeys (received st cid) = take m es" "progress w st cid \<le> m"
      "m \<le> Suc (progress w st cid)" "set (take (progress w st cid) es) \<subseteq> set (handled st cid)"
      by (auto simp: in_order_def)
    then show ?thesis unfolding in_order_def by (auto intro!: exI [of _ m])
  qed
  ultimately show ?thesis using assms by (simp add: store_sound_def)
qed

lemma runtime_publish_sound:
  assumes "runtime_sound enc_len w es rt" "storable e" "runtime_publish enc_len touch deliver w rt e = (fs, rt')"
  shows "(runtime_sound enc_len w es rt' \<and> fs \<noteq> []) \<or>
    (runtime_sound enc_len w (es @ [e]) rt' \<and> (fs = [] \<longrightarrow> (\<forall>cid \<in> set (rt_consumers rt).
       length (es @ [e]) \<le> progress w (rt_store rt') cid)))"
proof (cases "journal_append enc_len touch (kj_journal (rt_journal rt)) e")
  case (Pair r j)
  show ?thesis
  proof (cases r)
    case (Inl err)
    with Pair assms journal_append_refused_sound [of enc_len "kj_journal (rt_journal rt)" es touch e err j]
    show ?thesis by (auto simp: runtime_publish_def runtime_sound_def)
  next
    case (Inr u)
    obtain rb b where b: "publish deliver (rt_bus rt) e = (rb, b)" by fastforce
    define committed where "committed = (case rb of Inr _ \<Rightarrow> True | Inl _ \<Rightarrow> last_event (bus_events b) = Some e)"
    define d0 where "d0 = \<lparr>dp_journal = j, dp_store = rt_store rt, dp_history = None,
      dp_failures = (case rb of Inr _ \<Rightarrow> [] | Inl err \<Rightarrow> [err])\<rparr>"
    define d1 where "d1 = (if rt_consumers rt \<noteq> [] \<and> \<not> committed then load_history enc_len d0 else d0)"
    define d2 where "d2 = foldl (dispatch_one enc_len w e (rt_latest rt) committed) d1 (sort (rt_consumers rt))"
    have res: "fs = dp_failures d2" "kj_journal (rt_journal rt') = dp_journal d2" "rt_store rt' = dp_store d2"
      using assms(3) Pair Inr b by (auto simp: runtime_publish_def Let_def committed_def d0_def d1_def d2_def)
    have d0: "dispatch_sound enc_len w (es @ [e]) d0"
      using assms(1,2) Pair Inr journal_append_done_sound [of enc_len "kj_journal (rt_journal rt)" es touch e u j]
        store_sound_extend [of w "rt_store rt" es "[e]"]
      by (simp add: d0_def dispatch_sound_def runtime_sound_def)
    then have d1: "dispatch_sound enc_len w (es @ [e]) d1" using load_history_sound(1) [of enc_len w "es @ [e]" d0] by (simp add: d1_def)
    have last: "last_event (es @ [e]) = Some e" by (simp add: last_event_def)
    have ready: "committed \<or> dp_history d1 = Some (es @ [e]) \<or> sort (rt_consumers rt) = []"
    proof (cases "rt_consumers rt = []")
      case False
      then show ?thesis using load_history_sound(2) [OF d0] by (cases committed) (simp_all add: d1_def)
    qed simp
    from dispatch_all_sound [OF d1 last ready, of "rt_latest rt"] res show ?thesis
      unfolding d2_def [symmetric] by (auto simp: runtime_sound_def dispatch_sound_def)
  qed
qed

lemma subscribe_durable_sound:
  assumes "runtime_sound enc_len w es rt"
  shows "runtime_sound enc_len w es (snd (subscribe_durable enc_len w rt cid))"
proof -
  have js: "journal_sound enc_len (kj_journal (rt_journal rt)) es" using assms by (simp add: runtime_sound_def)
  obtain j where j: "load_unlocked enc_len (kj_journal (rt_journal rt)) = (Inr es, j)" "journal_sound enc_len j es"
    by (rule load_sound_obtains [OF js])
  obtain r st where go: "deliver_pending w (rt_store rt) cid es = (r, st)" by fastforce
  have "store_sound w st es"
    using deliver_pending_sound [OF _ journal_sound_chain [OF js] journal_sound_length [OF js] _ go] assms
    by (simp add: runtime_sound_def)
  with assms j go show ?thesis by (cases r) (simp_all add: subscribe_durable_def runtime_sound_def)
qed

lemma journal_recover_sound:
  assumes "journal_sound enc_len (kj_journal k) es" "journal_recover enc_len k = (r, k')"
  shows "journal_sound enc_len (kj_journal k') es" "\<And>x. r = Inr x \<Longrightarrow> rc_events x = es"
proof -
  obtain j where "load_unlocked enc_len (kj_journal k) = (Inr es, j)" "journal_sound enc_len j es"
    by (rule load_sound_obtains [OF assms(1)])
  with assms(2) show "journal_sound enc_len (kj_journal k') es" "\<And>x. r = Inr x \<Longrightarrow> rc_events x = es"
    by (auto simp: journal_recover_def)
qed

lemma open_runtime_sound:
  assumes "journal_sound enc_len (kj_journal k) es" "store_sound w st es" "list_all storable es"
    and "open_runtime enc_len cap k st = Inr rt"
  shows "runtime_sound enc_len w es rt"
proof -
  obtain r k' where k': "journal_recover enc_len k = (r, k')" by fastforce
  obtain x b where r: "r = Inr x" "new_bus cap = Inr b"
    using assms(4) k' by (cases r) (auto simp: open_runtime_def)
  obtain q b' where "replay_events silent b (rc_events x) = (q, b')" by fastforce
  with assms(4) k' r have "rt_journal rt = k' \<and> rt_store rt = st"
    by (cases q) (auto simp: open_runtime_def new_runtime_def)
  with assms journal_recover_sound(1) [OF assms(1) k'] show ?thesis by (simp add: runtime_sound_def)
qed

lemma take_checkpoint_sound:
  assumes "journal_sound enc_len (kj_journal k) es"
  shows "journal_sound enc_len (kj_journal (snd (take_checkpoint enc_len k t))) es"
proof -
  obtain j where "load_unlocked enc_len (kj_journal k) = (Inr es, j)" "journal_sound enc_len j es"
    by (rule load_sound_obtains [OF assms])
  then show ?thesis by (auto simp: take_checkpoint_def split: option.splits sum.splits)
qed

text \<open>
  The life of a runtime: opened on a journal, it publishes events, registers consumers, takes
  checkpoints, and is opened again after a stop, which forgets the registrations but not the files.
\<close>

inductive runtime_run :: "(domain_event \<Rightarrow> int) \<Rightarrow> (disk_journal \<Rightarrow> domain_event \<Rightarrow> int) \<Rightarrow>
    (nat \<Rightarrow> domain_event \<Rightarrow> unit result) \<Rightarrow> world \<Rightarrow> event_digest \<Rightarrow> runtime \<Rightarrow> bool"
  for enc_len touch deliver w h where
  opened: "journal_sound enc_len (kj_journal k) es \<Longrightarrow> list_all (event_ok h) es \<Longrightarrow>
     open_runtime enc_len cap k \<lparr>cs_maximum_bytes = limit, cs_files = Map.empty, cs_calls = []\<rparr> = Inr rt \<Longrightarrow>
     runtime_run enc_len touch deliver w h rt"
| published: "runtime_run enc_len touch deliver w h rt \<Longrightarrow> event_ok h e \<Longrightarrow>
     runtime_run enc_len touch deliver w h (snd (runtime_publish enc_len touch deliver w rt e))"
| subscribed: "runtime_run enc_len touch deliver w h rt \<Longrightarrow>
     runtime_run enc_len touch deliver w h (snd (subscribe_durable enc_len w rt cid))"
| observed: "runtime_run enc_len touch deliver w h rt \<Longrightarrow> subscribe (rt_bus rt) s = Inr b \<Longrightarrow>
     runtime_run enc_len touch deliver w h (rt\<lparr>rt_bus := b\<rparr>)"
| checkpointed: "runtime_run enc_len touch deliver w h rt \<Longrightarrow>
     runtime_run enc_len touch deliver w h (rt\<lparr>rt_journal := snd (take_checkpoint enc_len (rt_journal rt) t)\<rparr>)"
| restarted: "runtime_run enc_len touch deliver w h rt \<Longrightarrow> open_runtime enc_len cap (rt_journal rt) (rt_store rt) = Inr rt' \<Longrightarrow>
     runtime_run enc_len touch deliver w h rt'"

lemma store_sound_empty: "store_sound w \<lparr>cs_maximum_bytes = limit, cs_files = Map.empty, cs_calls = []\<rparr> es"
  by (auto simp: store_sound_def in_order_def received_def handled_def progress_def read_checkpoint_def intro: exI [of _ 0])

lemma event_ok_identity: "event_ok h e \<Longrightarrow> \<not> blank (event_id e)"
  by (simp add: event_ok_def domain_event_post_init_def)

lemma event_ok_storable: "event_ok h e \<Longrightarrow> \<forall>b. hex_text 64 (h b) \<Longrightarrow> storable e"
  by (metis storable_def event_ok_hash event_ok_identity)

lemma runtime_run_sound:
  assumes "runtime_run enc_len touch deliver w h rt" "\<forall>b. hex_text 64 (h b)"
  shows "\<exists>es. runtime_sound enc_len w es rt"
  using assms(1)
proof (induction rule: runtime_run.induct)
  case (opened k es cap limit rt)
  then have "list_all storable es" using event_ok_storable [OF _ assms(2)] by (auto simp: list_all_iff)
  with opened open_runtime_sound [OF _ store_sound_empty] show ?case by blast
next
  case (published rt e)
  then obtain es where es: "runtime_sound enc_len w es rt" by blast
  obtain fs rt' where go: "runtime_publish enc_len touch deliver w rt e = (fs, rt')" by fastforce
  from runtime_publish_sound [OF es event_ok_storable [OF published(2) assms(2)] go] go show ?case by auto
next
  case (subscribed rt cid)
  then show ?case using subscribe_durable_sound by blast
next
  case (observed rt s b)
  then show ?case by (auto simp: runtime_sound_def)
next
  case (checkpointed rt t)
  then obtain es where "runtime_sound enc_len w es rt" by blast
  then show ?case using take_checkpoint_sound [of enc_len "rt_journal rt" es t]
    by (auto simp: runtime_sound_def intro: exI [of _ es])
next
  case (restarted rt cap rt')
  then obtain es where "runtime_sound enc_len w es rt" by blast
  then show ?case using open_runtime_sound [OF _ _ _ restarted(2)] by (auto simp: runtime_sound_def)
qed

text \<open>The errors the dispatch loop meets are all of the classes it collects.\<close>

definition collected :: "py_error \<Rightarrow> bool" where
  "collected e = (case e of ValueError _ \<Rightarrow> True | RuntimeError _ \<Rightarrow> True | CorruptionError _ \<Rightarrow> True | OSError _ \<Rightarrow> True
     | _ \<Rightarrow> False)"

lemma validate_collected: "validate cs x = Inl e \<Longrightarrow> collected e"
  by (auto dest: validate_Inl_ValueError simp: collected_def)

lemma deliver_event_errors: "deliver_event w st cid e = (Inl err, st') \<Longrightarrow> collected err"
  by (auto simp: deliver_event_def the_delivery_def idempotency_key_def delivery_post_init_def validate_consumer_id_def
      delivery_failed_def collected_def bindE_eq_Inl split: sum.splits prod.splits dest!: validate_Inl_ValueError)

lemma deliver_from_errors: "deliver_from w cid st c es = (Inl err, st') \<Longrightarrow> collected err"
  by (induction w cid st c es rule: deliver_from.induct)
    (auto split: prod.splits sum.splits dest: deliver_event_errors)

lemma read_checkpoint_errors: "read_checkpoint w st cid = Inl err \<Longrightarrow> collected err"
  by (auto simp: read_checkpoint_def collected_def split: option.splits if_splits sum.splits)

lemma next_index_errors: "next_index c cid es = Inl err \<Longrightarrow> collected err"
  by (auto simp: next_index_def collected_def Let_def split: option.splits if_splits)

lemma snapshot_errors: "validated_event_snapshot es = Inl err \<Longrightarrow> collected err"
  by (auto simp: validated_event_snapshot_def collected_def split: if_splits sum.splits)

lemma dispatch_errors:
  "deliver_pending w st cid es = (Inl err, st') \<Longrightarrow> collected err"
  "deliver_next w st cid e previous = (Inl err, st') \<Longrightarrow> collected err"
  by (auto simp: deliver_pending_def deliver_next_def validate_consumer_id_def bindE_eq_Inl Let_def
      split: sum.splits prod.splits option.splits if_splits
      intro: deliver_from_errors deliver_event_errors read_checkpoint_errors next_index_errors snapshot_errors)
    (auto simp: collected_def)

lemma mapE_decode_errors: "mapE (decode_line enc_len limit) ls = Inl err \<Longrightarrow> collected err"
  by (induction ls) (auto simp: decode_line_def collected_def bindE_eq_Inl split: sum.splits if_splits)

lemma check_chain_errors: "check_chain cap es = Inl err \<Longrightarrow> collected err"
proof (cases "new_bus cap")
  case (Inr b)
  then show "check_chain cap es = Inl err \<Longrightarrow> collected err"
    by (cases "fst (replay_events silent b es)") (auto simp: check_chain_def collected_def)
qed (auto simp: check_chain_def collected_def)

lemma load_errors: "load_unlocked enc_len j = (Inl err, j') \<Longrightarrow> collected err"
  by (auto simp: load_unlocked_def bindE_eq_Inl split: option.splits sum.splits if_splits
      dest: mapE_decode_errors check_chain_errors) (auto simp: collected_def)

text \<open>A checkpoint cuts the journal: a later recovery replays exactly the events appended since.\<close>

lemma recover_after_checkpoint:
  assumes "journal_sound enc_len (kj_journal k) es" "take_checkpoint enc_len k t = (Inr c, k')"
    and "journal_sound enc_len j (es @ fs)"
  shows "\<exists>r. fst (journal_recover enc_len (k'\<lparr>kj_journal := j\<rparr>)) = Inr r \<and> rc_events r = es @ fs \<and>
    events_after_checkpoint r = fs"
proof -
  obtain j1 where j1: "load_unlocked enc_len (kj_journal k) = (Inr es, j1)" by (rule load_sound_obtains [OF assms(1)])
  obtain j2 where j2: "load_unlocked enc_len j = (Inr (es @ fs), j2)" by (rule load_sound_obtains [OF assms(3)])
  obtain latest where latest: "last_event es = Some latest"
    using assms(2) j1 by (cases "last_event es") (auto simp: take_checkpoint_def)
  have es: "es \<noteq> []" "latest = es ! (length es - 1)" "sequence latest = int (length es)"
    using chain_last [OF journal_sound_chain [OF assms(1)] latest] by auto
  have c: "kj_checkpoint k' = Some (Some c)" "journal_checkpoint_post_init c = Inr c"
    "jc_sequence c = int (length es)" "jc_event_hash c = event_hash latest"
    using assms(2) j1 latest es(3) by (auto simp: take_checkpoint_def journal_checkpoint_post_init_def split: sum.splits)
  have chain: "chain_ok (es @ fs)" by (rule journal_sound_chain [OF assms(3)])
  have "nat (int (length es) - 1) = length es - 1" by linarith
  then have cursor: "replay_cursor (es @ fs) (Some c) = Inr (int (length es) + 1)"
    using c es by (simp add: replay_cursor_def nth_append)
  have "filter (\<lambda>e. sequence e \<ge> int (length es) + 1) (es @ fs) = fs"
  proof -
    have "sequence e \<le> int (length es)" if "e \<in> set es" for e
      using that chain_nth_sequence [OF chain_ok_appendD [OF chain]] by (fastforce simp: in_set_conv_nth)
    moreover have "sequence e \<ge> int (length es) + 1" if "e \<in> set fs" for e
      using that chain_nth_sequence [OF chain, of "length es + i" for i]
      by (auto simp: in_set_conv_nth nth_append)
    ultimately show ?thesis by (auto simp: filter_id_conv intro!: filter_False) fastforce
  qed
  with j2 c cursor show ?thesis
    by (simp add: journal_recover_def read_journal_checkpoint_def events_after_checkpoint_def)
qed

section \<open>Properties\<close>

text \<open>
  C29: durable delivery is in order and at least once. However consumers and the disk fail, and through
  any restarts, the journal loads, and every consumer received, repetitions aside, exactly a prefix of
  the journal; the prefix reaches its checkpoint and at most one event further, and every event the
  checkpoint covers was handled by a call that returned.
\<close>

theorem durable_delivery_in_order:
  assumes "runtime_run enc_len touch deliver w h rt" "\<forall>b. hex_text 64 (h b)"
  shows "\<exists>es. fst (load_unlocked enc_len (kj_journal (rt_journal rt))) = Inr es \<and>
    (\<forall>cid. \<exists>m. dict_fromkeys (received (rt_store rt) cid) = take m es \<and>
       progress w (rt_store rt) cid \<le> m \<and> m \<le> Suc (progress w (rt_store rt) cid) \<and> m \<le> length es \<and>
       set (take (progress w (rt_store rt) cid) es) \<subseteq> set (handled (rt_store rt) cid))"
proof -
  obtain es where es: "runtime_sound enc_len w es rt" using runtime_run_sound [OF assms] by blast
  then have js: "journal_sound enc_len (kj_journal (rt_journal rt)) es" by (simp add: runtime_sound_def)
  have "fst (load_unlocked enc_len (kj_journal (rt_journal rt))) = Inr es"
    by (rule load_sound_obtains [OF js]) simp
  moreover have "in_order w (rt_store rt) es cid" for cid using es by (simp add: runtime_sound_def store_sound_def)
  ultimately show ?thesis unfolding in_order_def by blast
qed

text \<open>
  C30: a publication that returns has reached everyone. When publishing a constructed event reports no
  failure, the journal gained exactly that event and every registered durable consumer has handled, and
  checkpointed, every event of the journal. When it reports a failure, the journal is unchanged or has
  gained the event.
\<close>

theorem publish_reaches_consumers:
  assumes "runtime_run enc_len touch deliver w h rt" "\<forall>b. hex_text 64 (h b)" "event_ok h e"
    and "runtime_publish enc_len touch deliver w rt e = (failures, rt')"
  shows "\<exists>es es'. fst (load_unlocked enc_len (kj_journal (rt_journal rt))) = Inr es \<and>
    fst (load_unlocked enc_len (kj_journal (rt_journal rt'))) = Inr es' \<and> (es' = es @ [e] \<or> (es' = es \<and> failures \<noteq> [])) \<and>
    (failures = [] \<longrightarrow> (\<forall>cid \<in> set (rt_consumers rt). progress w (rt_store rt') cid = length es' \<and>
       set es' \<subseteq> set (handled (rt_store rt') cid) \<and> dict_fromkeys (received (rt_store rt') cid) = es'))"
proof -
  obtain es where es: "runtime_sound enc_len w es rt" using runtime_run_sound [OF assms(1,2)] by blast
  have load: "fst (load_unlocked enc_len (kj_journal (rt_journal x))) = Inr ys" if "runtime_sound enc_len w ys x" for x ys
    using that load_sound [of enc_len "kj_journal (rt_journal x)" ys] by (simp add: runtime_sound_def)
  have all: "progress w st cid = length ys \<and> set ys \<subseteq> set (handled st cid) \<and> dict_fromkeys (received st cid) = ys"
    if "store_sound w st ys" "length ys \<le> progress w st cid" for st ys cid
    using that unfolding store_sound_def in_order_def by (metis le_antisym order_trans take_all)
  from runtime_publish_sound [OF es event_ok_storable [OF assms(3,2)] assms(4)] show ?thesis
  proof
    assume "runtime_sound enc_len w es rt' \<and> failures \<noteq> []"
    with load [OF es] load show ?thesis by blast
  next
    assume reached: "runtime_sound enc_len w (es @ [e]) rt' \<and> (failures = [] \<longrightarrow> (\<forall>cid \<in> set (rt_consumers rt).
      length (es @ [e]) \<le> progress w (rt_store rt') cid))"
    then have "store_sound w (rt_store rt') (es @ [e])" by (simp add: runtime_sound_def)
    with reached all load [OF es] load show ?thesis by blast
  qed
qed

text \<open>
  A run for the witnesses: a runtime opened on a new journal registers a consumer and publishes one
  event, which the consumer handles or, in a world where it is down, does not.
\<close>

definition example_digest :: event_digest where
  "example_digest b = replicate 64 (CHR ''a'')"

definition durable_event :: domain_event where
  "durable_event = \<lparr>event_id = ''a'', aggregate_id = ''o'', event_type = ''N'', sequence = 1,
     occurred_at = Aware 1, payload = [], previous_hash = ''GENESIS'', event_hash = replicate 64 (CHR ''a'')\<rparr>"

definition example_world :: "bool \<Rightarrow> world" where
  "example_world up = \<lparr>wd_handle = (\<lambda>_ _. if up then Inr () else Inl (RuntimeError ''down'')),
     wd_disk = (\<lambda>_. Stored), wd_now = (\<lambda>_. 0), wd_path = id, wd_key = fst, wd_len = (\<lambda>_. 300)\<rparr>"

definition example_kept :: "append_state option \<Rightarrow> kept_journal" where
  "example_kept st = \<lparr>kj_journal = \<lparr>maximum_event_bytes = 300, maximum_journal_bytes = 900, jr_file = None,
     jr_append_state = st\<rparr>, kj_checkpoint = None\<rparr>"

definition example_runtime :: "string list \<Rightarrow> runtime" where
  "example_runtime consumers = \<lparr>rt_journal = example_kept (Some \<lparr>st_count = 0, st_ids = [], st_latest = None, st_signature = None\<rparr>),
     rt_bus = \<lparr>bus_capacity = 10, bus_events = [], bus_event_ids = [], bus_subscribers = []\<rparr>,
     rt_store = \<lparr>cs_maximum_bytes = 512, cs_files = Map.empty, cs_calls = []\<rparr>, rt_consumers = consumers, rt_latest = None\<rparr>"

abbreviation example_publish :: "bool \<Rightarrow> py_error list \<times> runtime" where
  "example_publish up \<equiv>
     runtime_publish (\<lambda>_. 250) (\<lambda>_ _. 1) silent (example_world up) (example_runtime [''audit'']) durable_event"

lemma durable_event_ok: "event_ok example_digest durable_event"
  by code_simp

lemma example_digest_hex: "\<forall>b. hex_text 64 (example_digest b)"
proof -
  have "hex_text 64 (replicate 64 (CHR ''a''))" by code_simp
  then show ?thesis by (simp add: example_digest_def)
qed

lemma example_run:
  "runtime_run (\<lambda>_. 250) (\<lambda>_ _. 1) silent (example_world up) example_digest (example_runtime [''audit''])"
proof -
  have empty: "journal_sound (\<lambda>_. 250) (kj_journal (example_kept None)) []"
    by (simp add: journal_sound_def journal_capacity_def cache_reusable_def example_kept_def)
  have "open_runtime (\<lambda>_. 250) 10 (example_kept None) \<lparr>cs_maximum_bytes = 512, cs_files = Map.empty, cs_calls = []\<rparr>
      = Inr (example_runtime [])"
    by (simp add: open_runtime_def journal_recover_def load_unlocked_def example_kept_def read_journal_checkpoint_def
        replay_cursor_def new_bus_def new_runtime_def summary_of_def last_event_def example_runtime_def)
  then have run: "runtime_run (\<lambda>_. 250) (\<lambda>_ _. 1) silent (example_world up) example_digest (example_runtime [])"
    by (intro runtime_run.opened [OF empty]) simp_all
  have "valid_consumer_id ''audit''" by code_simp
  then have "snd (subscribe_durable (\<lambda>_. 250) (example_world up) (example_runtime []) ''audit'') = example_runtime [''audit'']"
    by (simp add: subscribe_durable_def load_unlocked_def example_kept_def summary_of_def last_event_def example_runtime_def
        deliver_pending_def validate_consumer_id_def snapshot_validated read_checkpoint_def next_index_def)
  with runtime_run.subscribed [OF run, of "''audit''"] show ?thesis by simp
qed

theorem durable_delivery_in_order_witness:
  "map event_id (received (rt_store (snd (example_publish False))) ''audit'') = [''a''] \<and>
   progress (example_world False) (rt_store (snd (example_publish False))) ''audit'' = 0 \<and>
   (\<exists>es. fst (load_unlocked (\<lambda>_. 250) (kj_journal (rt_journal (snd (example_publish False))))) = Inr es \<and>
      dict_fromkeys (received (rt_store (snd (example_publish False))) ''audit'') = take 1 es)"
proof -
  let ?rt = "snd (example_publish False)"
  have ev: "map event_id (received (rt_store ?rt) ''audit'') = [''a'']"
    "progress (example_world False) (rt_store ?rt) ''audit'' = 0"
    by code_simp+
  have "runtime_run (\<lambda>_. 250) (\<lambda>_ _. 1) silent (example_world False) example_digest ?rt"
    by (rule runtime_run.published [OF example_run durable_event_ok])
  from durable_delivery_in_order [OF this example_digest_hex] ev(2)
  obtain es m where es: "fst (load_unlocked (\<lambda>_. 250) (kj_journal (rt_journal ?rt))) = Inr es"
    "dict_fromkeys (received (rt_store ?rt) ''audit'') = take m es" "m \<le> 1" by fastforce
  moreover have "m \<noteq> 0" using es(2) ev(1) by (metis dict_fromkeys_Nil_iff list.distinct(1) list.map_disc_iff take0)
  ultimately have "m = 1" by simp
  with es ev show ?thesis by blast
qed

theorem publish_reaches_consumers_witness:
  "fst (example_publish True) = [] \<and> progress (example_world True) (rt_store (snd (example_publish True))) ''audit'' = 1"
proof -
  obtain rt' where go: "example_publish True = ([], rt')"
  proof -
    have "fst (example_publish True) = []" by code_simp
    then show ?thesis using that by (cases "example_publish True") auto
  qed
  have "fst (load_unlocked (\<lambda>_. 250) (kj_journal (rt_journal (example_runtime [''audit''])))) = Inr []" by code_simp
  with publish_reaches_consumers [OF example_run example_digest_hex durable_event_ok go]
  have "progress (example_world True) (rt_store rt') ''audit'' = 1" by (auto simp: example_runtime_def)
  with go show ?thesis by simp
qed

end
