(* ===== verification/Live_Adapter.thy ===== *)
theory Live_Adapter
  imports Live_Lifecycle Event_Delivery
begin

text \<open>
  \<^verbatim>\<open>execution/live_spot_adapter.py\<close>: the adapter that places an order through the gated executor and
  records what came of it in the life-cycle journal. Its state is the authorization ledger and the
  journal, if it has one; the times the caller leaves out are those of the clock.
\<close>

record order_placement =
  op_command_result :: live_command_result
  op_lifecycle_record :: "live_record option"

definition order_placement_post_init :: "order_placement \<Rightarrow> order_placement result" where
  "order_placement_post_init p = validate
     [(op_lifecycle_record p \<noteq> None \<and>
       lr_status (op_command_result p) \<notin> {LC_ATTEMPT_FAILED, LC_SUBMITTED, LC_UNVERIFIED_REVIEW_REQUIRED},
       ''unexpected lifecycle record for live order result'')] p"

definition adapter_record :: "preview_digest \<Rightarrow> event_digest \<Rightarrow> dec_printer \<Rightarrow> journal_ops \<Rightarrow> disk_journal \<Rightarrow>
    authorization option \<Rightarrow> live_command_result \<Rightarrow> datetime \<Rightarrow> live_record option result \<times> disk_journal" where
  "adapter_record h eh shw ops j auth r observed_at =
     (case auth of
        None \<Rightarrow> (Inl (RuntimeError ''journaled placement requires authorization''), j)
      | Some a \<Rightarrow> (case to_spot_order_command a of
           Inl e \<Rightarrow> (Inl e, j)
         | Inr c \<Rightarrow> append_place_result h eh shw ops j c r observed_at))"

definition adapter_place :: "preview_digest \<Rightarrow> envelope_digest \<Rightarrow> bundle_digest \<Rightarrow> event_digest \<Rightarrow> dec_printer \<Rightarrow> journal_ops \<Rightarrow>
    executor_env \<Rightarrow> ledger \<Rightarrow> disk_journal option \<Rightarrow> live_gate_input \<Rightarrow> authorization option \<Rightarrow> datetime \<Rightarrow> datetime \<Rightarrow>
    order_placement result \<times> ledger \<times> disk_journal option \<times> exchange_call list" where
  "adapter_place h d bd eh shw ops env l journal g auth attempted_at observed_at =
     (case spot_place h d bd env l g auth attempted_at of
        (Inl e, l', calls) \<Rightarrow> (Inl e, l', journal, calls)
      | (Inr r, l', calls) \<Rightarrow>
          (case journal of
             None \<Rightarrow> (order_placement_post_init \<lparr>op_command_result = r, op_lifecycle_record = None\<rparr>, l', None, calls)
           | Some j \<Rightarrow>
               if lr_status r = LC_BLOCKED
               then (order_placement_post_init \<lparr>op_command_result = r, op_lifecycle_record = None\<rparr>, l', Some j, calls)
               else (case adapter_record h eh shw ops j auth r observed_at of
                       (Inl e, j') \<Rightarrow> (Inl e, l', Some j', calls)
                     | (Inr record, j') \<Rightarrow>
                         (order_placement_post_init \<lparr>op_command_result = r, op_lifecycle_record = record\<rparr>,
                          l', Some j', calls))))"

definition adapter_cancel :: "executor_env \<Rightarrow> string \<Rightarrow> string \<Rightarrow> live_gate_input \<Rightarrow>
    live_command_result result \<times> exchange_call list" where
  "adapter_cancel env symbol client_order_id g = spot_cancel env symbol client_order_id g"

section \<open>Placing and recording\<close>

lemma exchange_attempt_status: "lr_status (fst (exchange_attempt h d env a c verify)) \<noteq> LC_BLOCKED"
  by (auto simp: exchange_attempt_def Let_def command_result_def split: sum.splits)

lemma after_claim_attempted:
  assumes "after_claim h d env source a c verify = (Inr r, calls)"
  shows "lr_status r = LC_BLOCKED \<longleftrightarrow> calls = []"
proof -
  have "snd (exchange_attempt h d env a c verify) \<noteq> []" using exchange_attempt_calls [of h d env a c verify] by auto
  with assms exchange_attempt_status [of h d env a c verify] show ?thesis
    by (auto simp: after_claim_def Let_def command_result_def split: sum.splits option.splits if_splits prod.splits)
qed

lemma claim_and_place_attempted:
  assumes "claim_and_place h d env l a c t = (Inr r, l', calls)"
  shows "lr_status r = LC_BLOCKED \<longleftrightarrow> calls = []"
proof (cases "\<exists>source verify cr m. ev_source env = Some source \<and> ev_verify_placed env = Some verify \<and> ev_has_ledger env \<and>
    ledger_claim d l (ev_ledger_fault env) a (oc_client_order_id c) t = (Inr cr, m)")
  case True
  then obtain source verify cr m where x: "ev_source env = Some source" "ev_verify_placed env = Some verify" "ev_has_ledger env"
    "ledger_claim d l (ev_ledger_fault env) a (oc_client_order_id c) t = (Inr cr, m)" by blast
  with assms have "after_claim h d env source a c verify = (Inr r, calls)"
    by (auto simp: claim_and_place_def split: prod.splits)
  then show ?thesis by (rule after_claim_attempted)
next
  case False
  with assms show ?thesis
    by (auto simp: claim_and_place_def command_result_def split: prod.splits option.splits if_splits sum.splits py_error.splits)
qed

text \<open>A placement that is not BLOCKED called the exchange, and one that is called nothing.\<close>

lemma spot_place_attempted:
  assumes "spot_place h d bd env l g auth t = (Inr r, l', calls)"
  shows "lr_status r = LC_BLOCKED \<longleftrightarrow> calls = []"
  using assms
proof (cases rule: spot_place_cases)
  case (claim a c g')
  from claim(5) show ?thesis by (rule claim_and_place_attempted)
next
  case quiet
  have "lr_status r = LC_BLOCKED"
  proof (rule ccontr)
    assume no: "lr_status r \<noteq> LC_BLOCKED"
    then obtain a c where "auth = Some a" "claim_and_place h d env l a c t = (Inr r, l', calls)"
      using assms by (auto simp: spot_place_def Let_def early_blocked_def split: sum.splits prod.splits if_splits option.splits)
    with claim_and_place_attempted no quiet show False by blast
  qed
  with quiet show ?thesis by simp
qed

lemma append_all_sound:
  assumes "journal_sound (fst ops) j es" "append_all ops j fs = (Inr u, j')"
  shows "journal_sound (fst ops) j' (es @ fs)"
  using assms
proof (induction ops j fs arbitrary: es rule: append_all.induct)
  case (2 ops j e fs)
  obtain r j1 where app: "journal_append (fst ops) (snd ops) j e = (r, j1)" by fastforce
  with 2(3) obtain v where r: "r = Inr v" "append_all ops j1 fs = (Inr u, j')" by (cases r) auto
  have "journal_sound (fst ops) j1 (es @ [e])" using journal_append_done_sound [OF 2(2)] app r by blast
  with 2(1) [OF app [symmetric] r(1)] r(2) show ?case by fastforce
qed simp

lemma append_place_recorded:
  assumes "journal_sound (fst ops) j es" "append_place_result h eh shw ops j c r t = (Inr (Some s), j')"
  shows "es = []" "\<exists>fs. fst (load_unlocked (fst ops) j') = Inr fs \<and> live_replay fs = Inr s"
proof -
  let ?j = "j\<lparr>jr_append_state := None\<rparr>"
  obtain fs where fs: "build_place_events h eh shw c r t = Inr fs" "append_all ops ?j fs = (Inr (), j')" "live_replay fs = Inr s"
    using assms(2) by (auto simp: append_place_result_def split: if_splits sum.splits prod.splits)
  have fresh: "journal_sound (fst ops) ?j es" using assms(1) by (rule journal_sound_fresh_cache)
  obtain e rest where e: "fs = e # rest" "sequence e = 1" by (rule build_place_first [OF fs(1)])
  show es: "es = []"
  proof (rule ccontr)
    assume "es \<noteq> []"
    with append_all_refused [OF fresh _ e(2), of rest] fs(2) e(1) show False by auto
  qed
  have "journal_sound (fst ops) j' fs" using append_all_sound [OF fresh fs(2)] es by simp
  with load_sound [OF this] fs(3) show "\<exists>fs. fst (load_unlocked (fst ops) j') = Inr fs \<and> live_replay fs = Inr s" by auto
qed

section \<open>Property\<close>

text \<open>
  C32: a placement the adapter reports is the placement a restart finds. On a journal that holds a chain,
  a placement that returns either was BLOCKED, called nothing and left the journal alone, or called the
  exchange on a journal that was empty and returns a life-cycle record: loading the journal afterwards
  gives events that replay to exactly that record.
\<close>

theorem adapter_placement_recorded:
  assumes "adapter_place h d bd eh shw ops env l (Some j) g auth t t' = (Inr p, l', journal', calls)"
    and "journal_sound (fst ops) j es"
  shows "if lr_status (op_command_result p) = LC_BLOCKED
    then calls = [] \<and> op_lifecycle_record p = None \<and> journal' = Some j
    else calls \<noteq> [] \<and> es = [] \<and> (\<exists>s j' fs. op_lifecycle_record p = Some s \<and> journal' = Some j' \<and>
      fst (load_unlocked (fst ops) j') = Inr fs \<and> live_replay fs = Inr s)"
proof -
  obtain r m cs where go: "spot_place h d bd env l g auth t = (r, m, cs)" by (metis prod.exhaust)
  with assms(1) obtain x where r: "r = Inr x" by (cases r) (auto simp: adapter_place_def)
  have att: "lr_status x = LC_BLOCKED \<longleftrightarrow> cs = []" using spot_place_attempted go r by blast
  show ?thesis
  proof (cases "lr_status x = LC_BLOCKED")
    case True
    with assms(1) go r att show ?thesis by (auto simp: adapter_place_def order_placement_post_init_def)
  next
    case False
    obtain q j' where rec: "adapter_record h eh shw ops j auth x t' = (q, j')" by fastforce
    with assms(1) go r False obtain y where y: "q = Inr y" "op_command_result p = x" "op_lifecycle_record p = y"
      "journal' = Some j'" "calls = cs"
      by (cases q) (auto simp: adapter_place_def order_placement_post_init_def)
    then obtain c where "append_place_result h eh shw ops j c x t' = (Inr y, j')"
      using rec by (auto simp: adapter_record_def split: option.splits sum.splits)
    moreover from this False obtain s where "y = Some s"
      by (auto simp: append_place_result_def split: sum.splits prod.splits)
    ultimately show ?thesis using append_place_recorded [OF assms(2)] y att False by auto
  qed
qed

definition live_journal :: disk_journal where
  "live_journal = \<lparr>maximum_event_bytes = 300, maximum_journal_bytes = 9000, jr_file = None, jr_append_state = None\<rparr>"

theorem adapter_placement_recorded_witness:
  "\<exists>p l' journal' calls s. adapter_place hash_a hash_a hash_a (\<lambda>_. ''e'') (\<lambda>_. ''1'') (\<lambda>_. 250, \<lambda>_ _. 1) example_env []
      (Some live_journal) example_gate (Some example_authorization) (Aware 20) (Aware 21) = (Inr p, l', journal', calls) \<and>
    calls \<noteq> [] \<and> op_lifecycle_record p = Some s"
proof -
  let ?x = "fst example_attempted" and ?ops = "(\<lambda>_. 250, \<lambda>_ _. 1) :: journal_ops"
  obtain row where place: "spot_place hash_a hash_a hash_a example_env [] example_gate (Some example_authorization) (Aware 20) =
      (Inr ?x, [row], snd example_attempted)" using example_place_result by blast
  have sub: "lr_status ?x = LC_SUBMITTED" by code_simp
  have "case fst (append_place_result hash_a (\<lambda>_. ''e'') (\<lambda>_. ''1'') ?ops live_journal example_command ?x (Aware 21)) of
      Inl _ \<Rightarrow> False | Inr _ \<Rightarrow> True" by code_simp
  then obtain y j' where app: "append_place_result hash_a (\<lambda>_. ''e'') (\<lambda>_. ''1'') ?ops live_journal example_command ?x (Aware 21) = (Inr y, j')"
    by (cases "append_place_result hash_a (\<lambda>_. ''e'') (\<lambda>_. ''1'') ?ops live_journal example_command ?x (Aware 21)") (auto split: sum.splits)
  then have rec: "adapter_record hash_a (\<lambda>_. ''e'') (\<lambda>_. ''1'') ?ops live_journal (Some example_authorization) ?x (Aware 21) = (Inr y, j')"
    by (simp add: adapter_record_def example_command_of)
  let ?p = "\<lparr>op_command_result = ?x, op_lifecycle_record = y\<rparr>"
  have go: "adapter_place hash_a hash_a hash_a (\<lambda>_. ''e'') (\<lambda>_. ''1'') ?ops example_env [] (Some live_journal) example_gate
      (Some example_authorization) (Aware 20) (Aware 21) = (Inr ?p, [row], Some j', snd example_attempted)"
    using place sub rec by (simp add: adapter_place_def order_placement_post_init_def)
  have "journal_sound (fst ?ops) live_journal []"
    by (simp add: journal_sound_def journal_capacity_def cache_reusable_def live_journal_def)
  from adapter_placement_recorded [OF go this] sub have "snd example_attempted \<noteq> [] \<and> (\<exists>s. op_lifecycle_record ?p = Some s)"
    by auto
  with go show ?thesis by blast
qed

end
