(* ===== verification/Futures_Leverage.thy ===== *)
theory Futures_Leverage
  imports Risk_Engine Portfolio_Risk
begin

text \<open>
  \<^verbatim>\<open>domain/research/virtual_runtime_risk.py\<close>: the maintenance brackets of an isolated futures position,
  its liquidation price, and the governor that picks the lowest feasible leverage. A leverage argument
  may be an integer, a Boolean (an \<^verbatim>\<open>int\<close> in Python, refused by the checks) or missing; decimals that are
  only checked for finiteness here may be infinite or not a number.
\<close>

section \<open>Arguments\<close>

datatype leverage = NoLeverage | LeverageFlag bool | Leverage int

definition valid_leverage :: "leverage \<Rightarrow> bool" where
  "valid_leverage l \<longleftrightarrow> (case l of Leverage n \<Rightarrow> 1 \<le> n | _ \<Rightarrow> False)"

definition leverage_number :: "leverage \<Rightarrow> int" where
  "leverage_number l = (case l of Leverage n \<Rightarrow> n | _ \<Rightarrow> 0)"

text \<open>\<^verbatim>\<open>True == 1\<close> and \<^verbatim>\<open>False == 0\<close> in Python.\<close>

fun leverage_equals :: "leverage \<Rightarrow> int option \<Rightarrow> bool" where
  "leverage_equals NoLeverage p \<longleftrightarrow> p = None"
| "leverage_equals (LeverageFlag b) p \<longleftrightarrow> p = Some (of_bool b)"
| "leverage_equals (Leverage n) p \<longleftrightarrow> p = Some n"

definition is_finite :: "pydec \<Rightarrow> bool" where
  "is_finite v \<longleftrightarrow> (case v of Finite _ \<Rightarrow> True | _ \<Rightarrow> False)"

text \<open>The number of a decimal already known to be finite.\<close>

definition number_of :: "pydec \<Rightarrow> dec" where
  "number_of v = (case v of Finite x \<Rightarrow> x | _ \<Rightarrow> 0)"

lemma finite_simps [simp]:
  "is_finite (Finite x)" "\<not> is_finite (Infinite s)" "\<not> is_finite NotANumber" "number_of (Finite x) = x"
  by (simp_all add: is_finite_def number_of_def)

lemma is_finite_conv: "is_finite v \<longleftrightarrow> v = Finite (number_of v)"
  by (cases v) simp_all

section \<open>Maintenance brackets\<close>

record bracket =
  fb_notional_floor :: dec
  fb_notional_cap :: dec
  fb_initial_leverage :: int
  fb_maintenance_ratio :: dec
  fb_cumulative_maintenance :: dec

definition bracket_post_init :: "pydec \<Rightarrow> pydec \<Rightarrow> leverage \<Rightarrow> pydec \<Rightarrow> pydec \<Rightarrow> bracket result" where
  "bracket_post_init floor_value cap_value initial_leverage maintenance_ratio cumulative_maintenance =
     (if \<not> list_all is_finite [floor_value, cap_value, maintenance_ratio, cumulative_maintenance]
      then Inl (ValueError ''Futures bracket values must be finite'')
      else
        let lo = number_of floor_value; hi = number_of cap_value;
            ratio = number_of maintenance_ratio; cum = number_of cumulative_maintenance
        in validate
             [(\<not> (0 \<le> lo \<and> lo < hi), ''Futures bracket range is invalid''),
              (\<not> (0 < ratio \<and> ratio < 1) \<or> cum < 0 \<or> cum > d_mul lo ratio, ''Futures bracket maintenance is invalid''),
              (\<not> valid_leverage initial_leverage, ''Futures bracket leverage is invalid'')]
             \<lparr>fb_notional_floor = lo, fb_notional_cap = hi,
              fb_initial_leverage = leverage_number initial_leverage,
              fb_maintenance_ratio = ratio, fb_cumulative_maintenance = cum\<rparr>)"

definition discontinuous :: "bracket \<Rightarrow> bracket \<Rightarrow> bool" where
  "discontinuous l r \<longleftrightarrow>
     fb_notional_cap l \<noteq> fb_notional_floor r
     \<or> fb_maintenance_ratio l > fb_maintenance_ratio r
     \<or> fb_initial_leverage l < fb_initial_leverage r
     \<or> fb_cumulative_maintenance r \<noteq>
         d_add (fb_cumulative_maintenance l)
           (d_mul (fb_notional_floor r) (d_sub (fb_maintenance_ratio r) (fb_maintenance_ratio l)))"

definition validate_futures_brackets :: "bracket list \<Rightarrow> unit result" where
  "validate_futures_brackets bs =
     validate
       [(bs = [] \<or> fb_notional_floor (hd bs) \<noteq> 0, ''Futures maintenance brackets must start at zero''),
        (list_ex (\<lambda>(l, r). discontinuous l r) (zip bs (tl bs)), ''Futures maintenance brackets are discontinuous'')] ()"

definition in_bracket :: "bracket \<Rightarrow> dec \<Rightarrow> bool" where
  "in_bracket b n \<longleftrightarrow> fb_notional_floor b \<le> n \<and> n < fb_notional_cap b"

section \<open>The liquidation price of an isolated position\<close>

definition side_sign :: "bool \<Rightarrow> dec" where
  "side_sign long = (if long then 1 else - 1)"

definition tier_price :: "bool \<Rightarrow> dec \<Rightarrow> dec \<Rightarrow> dec \<Rightarrow> bracket \<Rightarrow> dec result" where
  "tier_price long entry quantity wallet_margin t =
     d_div (d_sub (d_sub (d_mul (d_mul (side_sign long) entry) quantity) wallet_margin) (fb_cumulative_maintenance t))
       (d_mul quantity (d_sub (side_sign long) (fb_maintenance_ratio t)))"

fun liquidation_search :: "bool \<Rightarrow> dec \<Rightarrow> dec \<Rightarrow> dec \<Rightarrow> bracket list \<Rightarrow> dec result" where
  "liquidation_search long entry quantity wallet_margin [] =
     Inl (ValueError ''liquidation notional is outside verified maintenance brackets'')"
| "liquidation_search long entry quantity wallet_margin (t # ts) =
     bindE (tier_price long entry quantity wallet_margin t) (\<lambda>price.
       if long \<and> price \<le> 0 then Inr 0
       else if in_bracket t (d_mul price quantity) then Inr price
       else liquidation_search long entry quantity wallet_margin ts)"

definition isolated_liquidation_price :: "bool \<Rightarrow> pydec \<Rightarrow> pydec \<Rightarrow> pydec \<Rightarrow> bracket list \<Rightarrow> dec result" where
  "isolated_liquidation_price long entry quantity wallet_margin brackets =
     bindE (validate_futures_brackets brackets) (\<lambda>_.
       if \<not> list_all is_finite [entry, quantity, wallet_margin]
       then Inl (ValueError ''isolated liquidation inputs must be finite'')
       else if min (number_of entry) (number_of quantity) \<le> 0
       then Inl (ValueError ''isolated liquidation position is invalid'')
       else liquidation_search long (number_of entry) (number_of quantity) (number_of wallet_margin) brackets)"

section \<open>The governor\<close>

record governor =
  fg_maximum_margin_utilization_ratio :: dec
  fg_maximum_futures_leverage :: int

definition governor_checks :: "pydec \<Rightarrow> leverage \<Rightarrow> (bool \<times> string) list" where
  "governor_checks utilization maximum_leverage =
     [(\<not> is_finite utilization, ''virtual portfolio governor limits must be finite''),
      ((case maximum_leverage of Leverage _ \<Rightarrow> False | _ \<Rightarrow> True), ''virtual portfolio leverage limit must be an integer''),
      (\<not> (0 < number_of utilization \<and> number_of utilization \<le> 1),
       ''virtual portfolio margin utilization limit must stay within zero and one''),
      (\<not> valid_leverage maximum_leverage, ''virtual portfolio futures leverage limit must be positive'')]"

definition governor_post_init :: "pydec \<Rightarrow> leverage \<Rightarrow> governor result" where
  "governor_post_init utilization maximum_leverage =
     validate (governor_checks utilization maximum_leverage)
       \<lparr>fg_maximum_margin_utilization_ratio = number_of utilization,
        fg_maximum_futures_leverage = leverage_number maximum_leverage\<rparr>"

definition default_governor :: governor where
  "default_governor = \<lparr>fg_maximum_margin_utilization_ratio = 6 / 10, fg_maximum_futures_leverage = 5\<rparr>"

record portfolio_governor = governor +
  pg_exposure_policy :: portfolio_risk_policy
  pg_maximum_risk_per_trade_usdt :: dec
  pg_maximum_open_risk_usdt :: dec
  pg_maximum_drawdown_ratio :: dec
  pg_maximum_consecutive_losses :: int

definition portfolio_governor_post_init :: "pydec \<Rightarrow> leverage \<Rightarrow> portfolio_risk_policy \<Rightarrow> pydec \<Rightarrow> pydec \<Rightarrow> pydec \<Rightarrow> int \<Rightarrow>
    portfolio_governor result" where
  "portfolio_governor_post_init utilization maximum_leverage policy trade_risk open_risk drawdown losses =
     validate
       (governor_checks utilization maximum_leverage @
        [(\<not> list_all is_finite [trade_risk, open_risk, drawdown], ''virtual portfolio governor limits must be finite''),
         (min (number_of trade_risk) (number_of open_risk) \<le> 0, ''virtual portfolio governor limits must be positive''),
         (\<not> (0 < number_of drawdown \<and> number_of drawdown \<le> 1),
          ''virtual portfolio drawdown limit must stay within zero and one''),
         (losses < 0, ''virtual portfolio consecutive loss limit cannot be negative'')])
       \<lparr>fg_maximum_margin_utilization_ratio = number_of utilization,
        fg_maximum_futures_leverage = leverage_number maximum_leverage,
        pg_exposure_policy = policy, pg_maximum_risk_per_trade_usdt = number_of trade_risk,
        pg_maximum_open_risk_usdt = number_of open_risk, pg_maximum_drawdown_ratio = number_of drawdown,
        pg_maximum_consecutive_losses = losses\<rparr>"

definition default_portfolio_governor :: portfolio_governor where
  "default_portfolio_governor =
     \<lparr>fg_maximum_margin_utilization_ratio = 6 / 10, fg_maximum_futures_leverage = 5,
      pg_exposure_policy = \<lparr>pp_maximum_gross_usdt = 5000, pp_maximum_symbol_usdt = 2500,
        pp_maximum_correlation_group_usdt = 3000, pp_maximum_strategy_usdt = 2500\<rparr>,
      pg_maximum_risk_per_trade_usdt = 250, pg_maximum_open_risk_usdt = 500,
      pg_maximum_drawdown_ratio = 15 / 100, pg_maximum_consecutive_losses = 3\<rparr>"

section \<open>Suitability of a requested leverage\<close>

datatype leverage_state = LS_ELIGIBLE | LS_REDUCED | LS_BLOCKED

record leverage_assessment =
  la_state :: leverage_state
  la_requested_leverage :: leverage
  la_permitted_leverage :: leverage
  la_blockers :: "string list"
  la_execution_allowed :: bool

definition leverage_assessment_post_init :: "leverage_assessment \<Rightarrow> leverage_assessment result" where
  "leverage_assessment_post_init a =
     validate
       [(la_requested_leverage a \<noteq> NoLeverage \<and> \<not> valid_leverage (la_requested_leverage a),
         ''requested_leverage must be a positive integer''),
        (la_permitted_leverage a \<noteq> NoLeverage \<and> \<not> valid_leverage (la_permitted_leverage a),
         ''permitted_leverage must be a positive integer''),
        (la_state a = LS_BLOCKED \<and> la_blockers a = [], ''blocked leverage assessment requires blockers''),
        (la_state a \<noteq> LS_BLOCKED \<and> la_blockers a \<noteq> [], ''eligible leverage assessment cannot contain blockers''),
        (la_execution_allowed a, ''simulated leverage cannot authorize execution'')] a"

definition leverage_assessed :: "leverage_state \<Rightarrow> leverage \<Rightarrow> leverage \<Rightarrow> string list \<Rightarrow> leverage_assessment result" where
  "leverage_assessed state requested permitted blockers =
     leverage_assessment_post_init
       \<lparr>la_state = state, la_requested_leverage = requested, la_permitted_leverage = permitted,
        la_blockers = blockers, la_execution_allowed = False\<rparr>"

definition missing_or_not_positive :: "pydec option \<Rightarrow> bool" where
  "missing_or_not_positive v \<longleftrightarrow>
     (case v of None \<Rightarrow> True | Some x \<Rightarrow> \<not> is_finite x \<or> number_of x \<le> 0)"

definition utilization_blockers :: "'a governor_scheme \<Rightarrow> pydec option \<Rightarrow> string list" where
  "utilization_blockers g utilization =
     (case utilization of
        None \<Rightarrow> [''SIMULATED_MARGIN_UTILIZATION_INVALID'']
      | Some u \<Rightarrow>
          if \<not> is_finite u \<or> \<not> (0 \<le> number_of u \<and> number_of u \<le> 1) then [''SIMULATED_MARGIN_UTILIZATION_INVALID'']
          else flag_if (number_of u > fg_maximum_margin_utilization_ratio g) ''FUTURES_MARGIN_UTILIZATION_LIMIT_EXCEEDED'')"

definition simulated_blockers :: "'a governor_scheme \<Rightarrow> leverage \<Rightarrow> pydec option \<Rightarrow> pydec option \<Rightarrow> pydec option \<Rightarrow> bool \<Rightarrow>
    string list \<Rightarrow> string list" where
  "simulated_blockers g requested notional margin utilization oos upstream =
     upstream
     @ flag_if (\<not> valid_leverage requested) ''SIMULATED_LEVERAGE_REQUEST_INVALID''
     @ flag_if (missing_or_not_positive notional) ''SIMULATED_POSITION_NOTIONAL_INVALID''
     @ flag_if (missing_or_not_positive margin) ''SIMULATED_AVAILABLE_MARGIN_INVALID''
     @ utilization_blockers g utilization
     @ flag_if (\<not> oos) ''SIMULATED_LEVERAGE_OOS_APPROVAL_MISSING''"

text \<open>The smallest whole leverage at which the margin carries the notional, as the code computes it.\<close>

definition required_leverage :: "dec \<Rightarrow> dec \<Rightarrow> int" where
  "required_leverage notional margin = \<lceil>d_quot notional margin\<rceil>"

lemma required_leverage_code [code]:
  "required_leverage notional margin = - \<lfloor>- d_quot notional margin\<rfloor>"
  by (simp add: required_leverage_def ceiling_def)

definition given_number :: "pydec option \<Rightarrow> dec" where
  "given_number v = (case v of None \<Rightarrow> 0 | Some x \<Rightarrow> number_of x)"

definition assess_simulated_leverage :: "'a governor_scheme \<Rightarrow> leverage \<Rightarrow> pydec option \<Rightarrow> pydec option \<Rightarrow> pydec option \<Rightarrow> bool \<Rightarrow>
    string list \<Rightarrow> leverage_assessment result" where
  "assess_simulated_leverage g requested notional margin utilization oos upstream =
     (let blockers = simulated_blockers g requested notional margin utilization oos upstream
      in if blockers \<noteq> []
         then leverage_assessed LS_BLOCKED (if valid_leverage requested then requested else NoLeverage) NoLeverage
                (dict_fromkeys blockers)
         else
           let required = required_leverage (given_number notional) (given_number margin);
               asked = leverage_number requested;
               permitted = min asked (fg_maximum_futures_leverage g)
           in if required > fg_maximum_futures_leverage g
              then leverage_assessed LS_BLOCKED requested NoLeverage [''SIMULATED_LEVERAGE_FEASIBILITY_EXCEEDED'']
              else if permitted < required
              then leverage_assessed LS_BLOCKED requested NoLeverage [''SIMULATED_LEVERAGE_INSUFFICIENT_FOR_NOTIONAL'']
              else leverage_assessed (if asked > fg_maximum_futures_leverage g then LS_REDUCED else LS_ELIGIBLE)
                     requested (Leverage permitted) [])"

section \<open>Structural leverage\<close>

record structural_assessment =
  sa_permitted_leverage :: "int option"
  sa_initial_margin :: "dec option"
  sa_stressed_stop_mark :: "dec option"
  sa_margin_surplus :: "dec option"
  sa_blockers :: "string list"
  sa_execution_allowed :: bool

definition structural_assessment_post_init :: "structural_assessment \<Rightarrow> structural_assessment result" where
  "structural_assessment_post_init a =
     validate
       [(sa_execution_allowed a, ''structural leverage cannot authorize execution''),
        (sa_blockers a \<noteq> [] \<and> sa_permitted_leverage a \<noteq> None, ''blocked structural leverage cannot permit leverage'')] a"

definition structural_assessed :: "int option \<Rightarrow> dec option \<Rightarrow> dec option \<Rightarrow> dec option \<Rightarrow> string list \<Rightarrow>
    structural_assessment result" where
  "structural_assessed permitted margin stressed surplus blockers =
     structural_assessment_post_init
       \<lparr>sa_permitted_leverage = permitted, sa_initial_margin = margin, sa_stressed_stop_mark = stressed,
        sa_margin_surplus = surplus, sa_blockers = blockers, sa_execution_allowed = False\<rparr>"

text \<open>The nine decimals of the assessment, in the order of the tuple \<^verbatim>\<open>values\<close>.\<close>

record 'd structural_values =
  sv_entry :: 'd
  sv_stop :: 'd
  sv_quantity :: 'd
  sv_mark_price :: 'd
  sv_available_margin :: 'd
  sv_risk_budget :: 'd
  sv_round_trip_cost_ratio :: 'd
  sv_adverse_funding_ratio :: 'd
  sv_mark_stress_ratio :: 'd

definition structural_amounts :: "'d structural_values \<Rightarrow> 'd list" where
  "structural_amounts v = [sv_entry v, sv_stop v, sv_quantity v, sv_mark_price v, sv_available_margin v, sv_risk_budget v]"

definition structural_ratios :: "'d structural_values \<Rightarrow> 'd list" where
  "structural_ratios v = [sv_round_trip_cost_ratio v, sv_adverse_funding_ratio v, sv_mark_stress_ratio v]"

definition structural_numbers :: "pydec structural_values \<Rightarrow> dec structural_values" where
  "structural_numbers v =
     \<lparr>sv_entry = number_of (sv_entry v), sv_stop = number_of (sv_stop v), sv_quantity = number_of (sv_quantity v),
      sv_mark_price = number_of (sv_mark_price v), sv_available_margin = number_of (sv_available_margin v),
      sv_risk_budget = number_of (sv_risk_budget v), sv_round_trip_cost_ratio = number_of (sv_round_trip_cost_ratio v),
      sv_adverse_funding_ratio = number_of (sv_adverse_funding_ratio v),
      sv_mark_stress_ratio = number_of (sv_mark_stress_ratio v)\<rparr>"

definition structural_input_blockers :: "pydec structural_values \<Rightarrow> string list" where
  "structural_input_blockers v =
     (let n = structural_numbers v
      in if \<not> list_all is_finite (structural_amounts v @ structural_ratios v) then [''STRUCTURAL_LEVERAGE_NONFINITE_INPUT'']
         else flag_if
           (list_ex (\<lambda>x. x \<le> 0) (structural_amounts n) \<or> sv_entry n = sv_stop n
            \<or> list_ex (\<lambda>x. x < 0) (structural_ratios n) \<or> list_ex (\<lambda>x. x \<ge> 1) (structural_ratios n))
           ''STRUCTURAL_LEVERAGE_INVALID_INPUT'')"

fun stress_tiers :: "bracket list \<Rightarrow> dec list \<Rightarrow> dec \<Rightarrow> bracket list option" where
  "stress_tiers bs [] quantity = Some []"
| "stress_tiers bs (price # prices) quantity =
     (case find (\<lambda>b. in_bracket b (d_mul price quantity)) bs of
        None \<Rightarrow> None
      | Some t \<Rightarrow> map_option (\<lambda>ts. t # ts) (stress_tiers bs prices quantity))"

definition maintenance_margin :: "bracket \<Rightarrow> dec \<Rightarrow> dec \<Rightarrow> dec" where
  "maintenance_margin t stressed_stop quantity =
     max 0 (d_sub (d_mul (d_mul stressed_stop quantity) (fb_maintenance_ratio t)) (fb_cumulative_maintenance t))"

text \<open>From the choice of the tiers on; the last of them is that of the stressed stop.\<close>

definition feasible_leverage :: "'a governor_scheme \<Rightarrow> dec structural_values \<Rightarrow> dec \<Rightarrow> dec \<Rightarrow> bracket list \<Rightarrow>
    structural_assessment result" where
  "feasible_leverage g n stressed_stop loss tiers =
     (let notional = d_mul (sv_entry n) (sv_quantity n);
          maximum = foldl min (fg_maximum_futures_leverage g) (map fb_initial_leverage tiers);
          required = max 1 (required_leverage notional (sv_available_margin n))
      in if required > maximum
         then structural_assessed None None (Some stressed_stop) None [''SIMULATED_LEVERAGE_FEASIBILITY_EXCEEDED'']
         else
           let margin = d_quot notional (of_int required);
               maintenance = maintenance_margin (last tiers) stressed_stop (sv_quantity n);
               surplus = d_sub (d_sub margin loss) maintenance
           in if surplus \<le> 0
              then structural_assessed None None (Some stressed_stop) (Some surplus)
                     [''FUTURES_LIQUIDATION_BEFORE_STRESSED_STOP'']
              else structural_assessed (Some required) (Some margin) (Some stressed_stop) (Some surplus) [])"

definition structural_blockers :: "pydec structural_values \<Rightarrow> bracket list \<Rightarrow> bool \<Rightarrow> string list \<Rightarrow> string list" where
  "structural_blockers v ordered oos upstream =
     upstream @ structural_input_blockers v
     @ flag_if (\<not> oos) ''SIMULATED_LEVERAGE_OOS_APPROVAL_MISSING''
     @ flag_if (validate_futures_brackets ordered \<noteq> Inr ()) ''FUTURES_RISK_BRACKETS_UNAVAILABLE_OR_INCONSISTENT''"

definition assess_structural_leverage :: "'a governor_scheme \<Rightarrow> pydec structural_values \<Rightarrow> bracket list \<Rightarrow> bool \<Rightarrow>
    string list \<Rightarrow> structural_assessment result" where
  "assess_structural_leverage g v brackets oos upstream =
     (let ordered = sort_key fb_notional_floor brackets;
          blockers = structural_blockers v ordered oos upstream;
          n = structural_numbers v
      in if blockers \<noteq> [] then structural_assessed None None None None (dict_fromkeys blockers)
         else case structural_margin_loss_per_unit (sv_entry n) (sv_stop n) (sv_mark_price n)
                     (d_add (sv_round_trip_cost_ratio n) (sv_adverse_funding_ratio n)) (sv_mark_stress_ratio n) of
           (stressed_stop, loss_per_unit) \<Rightarrow>
             if stressed_stop \<le> 0 then structural_assessed None None None None [''FUTURES_STRESSED_STOP_INVALID'']
             else
               let loss = d_mul loss_per_unit (sv_quantity n)
               in if loss > sv_risk_budget n
                  then structural_assessed None None (Some stressed_stop) None [''FUTURES_STRESSED_RISK_BUDGET_EXCEEDED'']
                  else case stress_tiers ordered [sv_entry n, sv_mark_price n, stressed_stop] (sv_quantity n) of
                         None \<Rightarrow> structural_assessed None None (Some stressed_stop) None [''FUTURES_NOTIONAL_OUTSIDE_BRACKETS'']
                       | Some tiers \<Rightarrow> feasible_leverage g n stressed_stop loss tiers)"

section \<open>Snapshot-bound margin evidence\<close>

text \<open>An integer of the evidence: its \<^verbatim>\<open>str()\<close> is an optional sign and digits.\<close>

definition json_int :: "json option \<Rightarrow> int option" where
  "json_int v =
     (case v of
        Some (JNumber s) \<Rightarrow>
          (let ds = (case s of c # rest \<Rightarrow> if c = CHR ''-'' then rest else s | [] \<Rightarrow> [])
           in if ds \<noteq> [] \<and> list_all is_digit ds
              then Some (if ds = s then int_of_digits ds else - int_of_digits ds) else None)
      | _ \<Rightarrow> None)"

definition read_bracket :: "json \<Rightarrow> bracket option" where
  "read_bracket row =
     (case row of
        JObject entries \<Rightarrow>
          Option.bind (json_int (map_of entries ''initialLeverage'')) (\<lambda>leverage.
          Option.bind (json_decimal (map_of entries ''notionalFloor'')) (\<lambda>lo.
          Option.bind (json_decimal (map_of entries ''notionalCap'')) (\<lambda>hi.
          Option.bind (json_decimal (map_of entries ''maintMarginRatio'')) (\<lambda>ratio.
          Option.bind (json_decimal (map_of entries ''cum'')) (\<lambda>cum.
            case bracket_post_init lo hi (Leverage leverage) ratio cum of Inl _ \<Rightarrow> None | Inr b \<Rightarrow> Some b)))))
      | _ \<Rightarrow> None)"

definition read_margin_evidence :: "(string \<times> json) list \<Rightarrow> (bracket list \<times> pydec \<times> pydec) option" where
  "read_margin_evidence context =
     (case map_of context ''brackets'' of
        Some (JList rows) \<Rightarrow>
          if rows = [] \<or> length rows > 100 then None
          else Option.bind (those (map read_bracket rows)) (\<lambda>bs.
               Option.bind (json_decimal (map_of context ''adverse_funding_ratio'')) (\<lambda>funding.
               Option.bind (json_decimal (map_of context ''mark_stress_ratio'')) (\<lambda>stress. Some (bs, funding, stress))))
      | _ \<Rightarrow> None)"

definition structural_margin_blockers :: "'a governor_scheme \<Rightarrow> (string \<times> json) list option \<Rightarrow> leverage \<Rightarrow> string \<Rightarrow> string \<Rightarrow>
    pydec \<Rightarrow> pydec \<Rightarrow> pydec \<Rightarrow> pydec option \<Rightarrow> pydec option \<Rightarrow> pydec \<Rightarrow> pydec \<Rightarrow> string list result" where
  "structural_margin_blockers g context requested snapshot_id symbol entry stop quantity mark_price available_margin
       round_trip_cost_ratio risk_budget =
     (case (context, mark_price, available_margin) of
        (Some ctx, Some mark, Some margin) \<Rightarrow>
          if map_of ctx ''snapshot_id'' \<noteq> Some (JText snapshot_id) \<or> map_of ctx ''symbol'' \<noteq> Some (JText symbol)
             \<or> map_of ctx ''margin_mode'' \<noteq> Some (JText ''ISOLATED'')
          then Inr [''STRUCTURAL_MARGIN_IDENTITY_OR_MODE_INVALID'']
          else (case read_margin_evidence ctx of
                  None \<Rightarrow> Inr [''STRUCTURAL_MARGIN_EVIDENCE_INVALID'']
                | Some (brackets, funding, stress) \<Rightarrow>
                    bindE (assess_structural_leverage g
                      \<lparr>sv_entry = entry, sv_stop = stop, sv_quantity = quantity, sv_mark_price = mark,
                       sv_available_margin = margin, sv_risk_budget = risk_budget,
                       sv_round_trip_cost_ratio = round_trip_cost_ratio, sv_adverse_funding_ratio = funding,
                       sv_mark_stress_ratio = stress\<rparr>
                      brackets (map_of ctx ''strategy_oos_approved'' = Some (JBool True)) []) (\<lambda>a.
                    Inr (if sa_blockers a = [] \<and> \<not> leverage_equals requested (sa_permitted_leverage a)
                         then [''FUTURES_LEVERAGE_NOT_MINIMUM_FEASIBLE''] else sa_blockers a)))
      | _ \<Rightarrow> Inr [''STRUCTURAL_MARGIN_EVIDENCE_UNAVAILABLE''])"

definition margin_utilization_blockers :: "'a governor_scheme \<Rightarrow> string \<Rightarrow> pydec option \<Rightarrow> string list" where
  "margin_utilization_blockers g name utilization =
     (case utilization of
        None \<Rightarrow> [''FUTURES_'' @ name @ ''_MARGIN_UTILIZATION_UNAVAILABLE'']
      | Some u \<Rightarrow>
          if \<not> is_finite u \<or> number_of u < 0 then [''FUTURES_'' @ name @ ''_MARGIN_UTILIZATION_UNAVAILABLE'']
          else flag_if (number_of u > fg_maximum_margin_utilization_ratio g) ''FUTURES_MARGIN_UTILIZATION_LIMIT_EXCEEDED'')"

definition futures_entry_blockers :: "'a governor_scheme \<Rightarrow> leverage \<Rightarrow> pydec option \<Rightarrow> pydec option \<Rightarrow> string list" where
  "futures_entry_blockers g requested current projected =
     dict_fromkeys
       ((if \<not> valid_leverage requested then [''FUTURES_LEVERAGE_UNAVAILABLE'']
         else flag_if (leverage_number requested > fg_maximum_futures_leverage g) ''FUTURES_LEVERAGE_LIMIT_EXCEEDED'')
        @ margin_utilization_blockers g ''CURRENT'' current
        @ margin_utilization_blockers g ''PROJECTED'' projected)"


section \<open>Brackets partition the notionals\<close>

definition bracket_ok :: "bracket \<Rightarrow> bool" where
  "bracket_ok b \<longleftrightarrow>
     0 \<le> fb_notional_floor b \<and> fb_notional_floor b < fb_notional_cap b
     \<and> 0 < fb_maintenance_ratio b \<and> fb_maintenance_ratio b < 1
     \<and> 0 \<le> fb_cumulative_maintenance b
     \<and> fb_cumulative_maintenance b \<le> d_mul (fb_notional_floor b) (fb_maintenance_ratio b)
     \<and> 1 \<le> fb_initial_leverage b"

lemma bracket_post_init_ok: "bracket_post_init lo hi l ratio cum = Inr b \<Longrightarrow> bracket_ok b"
  by (auto simp: bracket_post_init_def bracket_ok_def valid_leverage_def leverage_number_def Let_def
      split: if_splits leverage.splits)

text \<open>Consecutive brackets, as the validation checks them.\<close>

definition contiguous_brackets :: "bracket list \<Rightarrow> bool" where
  "contiguous_brackets bs \<longleftrightarrow> (\<forall>i. Suc i < length bs \<longrightarrow> \<not> discontinuous (bs ! i) (bs ! Suc i))"

lemma zip_tl_ex: "list_ex (\<lambda>(l, r). P l r) (zip bs (tl bs)) \<longleftrightarrow> (\<exists>i. Suc i < length bs \<and> P (bs ! i) (bs ! Suc i))"
  by (cases bs) (force simp: list_ex_iff set_zip)+

lemma validate_brackets_Inr:
  "validate_futures_brackets bs = Inr () \<longleftrightarrow> bs \<noteq> [] \<and> fb_notional_floor (hd bs) = 0 \<and> contiguous_brackets bs"
  by (auto simp: validate_futures_brackets_def zip_tl_ex contiguous_brackets_def)

lemma contiguous_step:
  assumes "contiguous_brackets bs" "Suc i < length bs"
  shows "fb_notional_cap (bs ! i) = fb_notional_floor (bs ! Suc i)"
    "fb_maintenance_ratio (bs ! i) \<le> fb_maintenance_ratio (bs ! Suc i)"
  using assms by (force simp: contiguous_brackets_def discontinuous_def)+

lemma caps_below_floors:
  assumes "contiguous_brackets bs" "\<forall>b \<in> set bs. bracket_ok b" "i < j" "j < length bs"
  shows "fb_notional_cap (bs ! i) \<le> fb_notional_floor (bs ! j)"
  using assms(3,4)
proof (induction j)
  case (Suc j)
  have "fb_notional_floor (bs ! j) < fb_notional_cap (bs ! j)"
    using assms(2) Suc.prems by (simp add: bracket_ok_def)
  then show ?case
    using contiguous_step(1) [OF assms(1), of j] Suc by (cases "i = j") auto
qed simp

lemma bracket_unique:
  assumes "contiguous_brackets bs" "\<forall>b \<in> set bs. bracket_ok b"
    and "b \<in> set bs" "c \<in> set bs" "in_bracket b n" "in_bracket c n"
  shows "b = c"
proof -
  obtain i j where ij: "i < length bs" "b = bs ! i" "j < length bs" "c = bs ! j"
    using assms(3,4) by (auto simp: in_set_conv_nth)
  show ?thesis
    using caps_below_floors [OF assms(1,2), of i j] caps_below_floors [OF assms(1,2), of j i] ij assms(5,6)
    by (cases i j rule: linorder_cases) (auto simp: in_bracket_def)
qed

lemma stress_tiers_Some:
  "stress_tiers bs prices q = Some ts \<longleftrightarrow>
     list_all2 (\<lambda>p t. find (\<lambda>b. in_bracket b (d_mul p q)) bs = Some t) prices ts"
  by (induction bs prices q arbitrary: ts rule: stress_tiers.induct)
    (auto simp: list_all2_Cons1 split: option.splits)

lemma stress_tiers_None: "stress_tiers bs prices q = None \<longleftrightarrow> (\<exists>p \<in> set prices. \<forall>b \<in> set bs. \<not> in_bracket b (d_mul p q))"
  by (induction bs prices q rule: stress_tiers.induct) (auto simp: find_None_iff find_Some_iff split: option.splits)

section \<open>The lowest feasible leverage\<close>

definition stressed_stop_of :: "dec structural_values \<Rightarrow> dec" where
  "stressed_stop_of n = fst (structural_margin_loss_per_unit (sv_entry n) (sv_stop n) (sv_mark_price n)
     (d_add (sv_round_trip_cost_ratio n) (sv_adverse_funding_ratio n)) (sv_mark_stress_ratio n))"

definition stressed_loss_of :: "dec structural_values \<Rightarrow> dec" where
  "stressed_loss_of n = d_mul (snd (structural_margin_loss_per_unit (sv_entry n) (sv_stop n) (sv_mark_price n)
     (d_add (sv_round_trip_cost_ratio n) (sv_adverse_funding_ratio n)) (sv_mark_stress_ratio n))) (sv_quantity n)"

definition isolated_margin :: "dec structural_values \<Rightarrow> int \<Rightarrow> dec" where
  "isolated_margin n l = d_quot (d_mul (sv_entry n) (sv_quantity n)) (of_int l)"

text \<open>
  What a leverage has to satisfy: it carries the notional with the available margin, respects the
  governor and the tier of every price the position may be marked at, the stressed loss is within the
  budget, and the margin left at the stressed stop exceeds the maintenance requirement there.
\<close>

definition leverage_feasible :: "'a governor_scheme \<Rightarrow> dec structural_values \<Rightarrow> bracket list \<Rightarrow> int \<Rightarrow> bool" where
  "leverage_feasible g n bs l \<longleftrightarrow>
     1 \<le> l \<and> l \<le> fg_maximum_futures_leverage g
     \<and> d_quot (d_mul (sv_entry n) (sv_quantity n)) (sv_available_margin n) \<le> of_int l
     \<and> 0 < stressed_stop_of n \<and> stressed_loss_of n \<le> sv_risk_budget n
     \<and> (\<forall>p \<in> {sv_entry n, sv_mark_price n, stressed_stop_of n}.
          \<exists>b \<in> set bs. in_bracket b (d_mul p (sv_quantity n)) \<and> l \<le> fb_initial_leverage b)
     \<and> (\<exists>b \<in> set bs. in_bracket b (d_mul (stressed_stop_of n) (sv_quantity n)) \<and>
          maintenance_margin b (stressed_stop_of n) (sv_quantity n) < d_sub (isolated_margin n l) (stressed_loss_of n))"

lemma structural_assessed_Inr [simp]:
  "structural_assessed permitted margin stressed surplus blockers = Inr a \<longleftrightarrow>
     (blockers = [] \<or> permitted = None) \<and>
     a = \<lparr>sa_permitted_leverage = permitted, sa_initial_margin = margin, sa_stressed_stop_mark = stressed,
        sa_margin_surplus = surplus, sa_blockers = blockers, sa_execution_allowed = False\<rparr>"
  by (auto simp: structural_assessed_def structural_assessment_post_init_def)

lemma required_leverage_le: "required_leverage x y \<le> l \<longleftrightarrow> d_quot x y \<le> of_int l"
  by (simp add: required_leverage_def ceiling_le_iff)

lemma less_d_subD: "dround m = m \<Longrightarrow> m < d_sub x y \<Longrightarrow> m < x - y"
  unfolding d_sub_def using ctx.rnd_le_rep [of m "x - y"] by linarith

lemma maintenance_margin_rep: "dround (maintenance_margin t p q) = maintenance_margin t p q"
  by (simp add: maintenance_margin_def max_def)

lemma isolated_margin_mono:
  assumes "0 \<le> d_mul (sv_entry n) (sv_quantity n)" "1 \<le> l" "l \<le> k"
  shows "isolated_margin n k \<le> isolated_margin n l"
  unfolding isolated_margin_def d_quot_def
  by (rule dround_mono) (use assms in \<open>simp add: divide_left_mono\<close>)

text \<open>The least leverage that carries the notional is feasible when any leverage is.\<close>

lemma leverage_feasible_least:
  assumes "leverage_feasible g n bs l" "0 \<le> d_mul (sv_entry n) (sv_quantity n)"
    and "k = max 1 (required_leverage (d_mul (sv_entry n) (sv_quantity n)) (sv_available_margin n))"
  shows "k \<le> l" "leverage_feasible g n bs k"
proof -
  have l: "1 \<le> l" "required_leverage (d_mul (sv_entry n) (sv_quantity n)) (sv_available_margin n) \<le> l"
    using assms(1) by (simp_all add: leverage_feasible_def required_leverage_le)
  then show k: "k \<le> l" using assms(3) by simp
  have "d_sub (isolated_margin n l) (stressed_loss_of n) \<le> d_sub (isolated_margin n k) (stressed_loss_of n)"
    unfolding d_sub_def using isolated_margin_mono [OF assms(2), of k l] k assms(3) by (intro dround_mono) simp
  moreover have "d_quot (d_mul (sv_entry n) (sv_quantity n)) (sv_available_margin n) \<le> of_int k"
    using assms(3) by (simp flip: required_leverage_le)
  moreover have "1 \<le> k" using assms(3) by simp
  ultimately show "leverage_feasible g n bs k"
    using assms(1) k unfolding leverage_feasible_def by (meson order_trans order_less_le_trans)
qed

lemma feasible_leverage_result:
  assumes "k = max 1 (required_leverage (d_mul (sv_entry n) (sv_quantity n)) (sv_available_margin n))"
  shows "\<exists>a. feasible_leverage g n stressed loss tiers = Inr a \<and>
    (if k \<le> foldl min (fg_maximum_futures_leverage g) (map fb_initial_leverage tiers)
        \<and> maintenance_margin (last tiers) stressed (sv_quantity n) < d_sub (isolated_margin n k) loss
     then sa_permitted_leverage a = Some k \<and> sa_blockers a = [] \<and> sa_initial_margin a = Some (isolated_margin n k)
       \<and> sa_stressed_stop_mark a = Some stressed
     else sa_permitted_leverage a = None \<and> sa_blockers a \<noteq> [])"
proof -
  have le: "d_sub x y \<le> 0 \<longleftrightarrow> \<not> y < x" for x y by (simp only: not_less [symmetric] d_sub_pos_iff)
  show ?thesis
    unfolding feasible_leverage_def Let_def isolated_margin_def assms [symmetric] le
    by (simp add: not_le [symmetric] del: not_le)
qed


lemma foldl_min_ge: "(l::int) \<le> foldl min a xs \<longleftrightarrow> l \<le> a \<and> (\<forall>x \<in> set xs. l \<le> x)"
  by (induction xs arbitrary: a) auto

lemma structural_blockers_Nil:
  assumes "structural_blockers v bs oos upstream = []"
  shows "validate_futures_brackets bs = Inr ()"
    and "0 < sv_entry (structural_numbers v)" "0 < sv_quantity (structural_numbers v)"
    and "0 < sv_available_margin (structural_numbers v)"
  using assms
  by (auto simp: structural_blockers_def structural_input_blockers_def Let_def structural_amounts_def split: if_splits)

lemma contiguous_find:
  assumes "contiguous_brackets bs" "\<forall>b \<in> set bs. bracket_ok b"
  shows "find (\<lambda>b. in_bracket b n) bs = Some t \<longleftrightarrow> t \<in> set bs \<and> in_bracket t n"
proof
  assume "find (\<lambda>b. in_bracket b n) bs = Some t"
  then show "t \<in> set bs \<and> in_bracket t n" by (auto simp: find_Some_iff)
next
  assume t: "t \<in> set bs \<and> in_bracket t n"
  then obtain u where u: "find (\<lambda>b. in_bracket b n) bs = Some u"
    by (cases "find (\<lambda>b. in_bracket b n) bs") (auto simp: find_None_iff)
  then have "u \<in> set bs" "in_bracket u n" by (auto simp: find_Some_iff)
  then show "find (\<lambda>b. in_bracket b n) bs = Some t"
    using u t bracket_unique [OF assms] by metis
qed

lemma feasible_iff_tiers:
  assumes "contiguous_brackets bs" "\<forall>b \<in> set bs. bracket_ok b" "0 < stressed_stop_of n" "stressed_loss_of n \<le> sv_risk_budget n"
    and "stress_tiers bs [sv_entry n, sv_mark_price n, stressed_stop_of n] (sv_quantity n) = Some tiers"
    and "k = max 1 (required_leverage (d_mul (sv_entry n) (sv_quantity n)) (sv_available_margin n))"
  shows "leverage_feasible g n bs k \<longleftrightarrow>
    k \<le> foldl min (fg_maximum_futures_leverage g) (map fb_initial_leverage tiers)
    \<and> maintenance_margin (last tiers) (stressed_stop_of n) (sv_quantity n) < d_sub (isolated_margin n k) (stressed_loss_of n)"
proof -
  obtain t1 t2 t3 where ts: "tiers = [t1, t2, t3]"
    and t: "t1 \<in> set bs" "in_bracket t1 (d_mul (sv_entry n) (sv_quantity n))"
      "t2 \<in> set bs" "in_bracket t2 (d_mul (sv_mark_price n) (sv_quantity n))"
      "t3 \<in> set bs" "in_bracket t3 (d_mul (stressed_stop_of n) (sv_quantity n))"
    using assms(5)
    by (auto simp: stress_tiers_Some list_all2_Cons1 contiguous_find [OF assms(1,2)] simp del: stress_tiers.simps)
  have in_tier: "(\<exists>b \<in> set bs. in_bracket b m \<and> P b) \<longleftrightarrow> P u" if "u \<in> set bs" "in_bracket u m" for u m P
    using bracket_unique [OF assms(1,2)] that by blast
  have "d_quot (d_mul (sv_entry n) (sv_quantity n)) (sv_available_margin n) \<le> of_int k" "1 \<le> k"
    using assms(6) by (simp_all flip: required_leverage_le)
  then show ?thesis
    unfolding leverage_feasible_def
    using assms(3,4) by (auto simp: in_tier [OF t(1,2)] in_tier [OF t(3,4)] in_tier [OF t(5,6)] foldl_min_ge ts)
qed

lemma feasible_margin:
  assumes "leverage_feasible g n bs l"
  shows "\<exists>b \<in> set bs. in_bracket b (d_mul (stressed_stop_of n) (sv_quantity n)) \<and>
    stressed_loss_of n + maintenance_margin b (stressed_stop_of n) (sv_quantity n) < isolated_margin n l"
proof -
  from assms obtain b where "b \<in> set bs" "in_bracket b (d_mul (stressed_stop_of n) (sv_quantity n))"
    and "maintenance_margin b (stressed_stop_of n) (sv_quantity n) < d_sub (isolated_margin n l) (stressed_loss_of n)"
    by (auto simp: leverage_feasible_def)
  then show ?thesis using less_d_subD [OF maintenance_margin_rep] by fastforce
qed

lemma assess_structural_clear:
  assumes "structural_blockers v (sort_key fb_notional_floor bs) oos upstream = []"
  shows "assess_structural_leverage g v bs oos upstream =
    (let n = structural_numbers v; ordered = sort_key fb_notional_floor bs; stressed = stressed_stop_of n
     in if stressed \<le> 0 then structural_assessed None None None None [''FUTURES_STRESSED_STOP_INVALID'']
        else if stressed_loss_of n > sv_risk_budget n
        then structural_assessed None None (Some stressed) None [''FUTURES_STRESSED_RISK_BUDGET_EXCEEDED'']
        else case stress_tiers ordered [sv_entry n, sv_mark_price n, stressed] (sv_quantity n) of
               None \<Rightarrow> structural_assessed None None (Some stressed) None [''FUTURES_NOTIONAL_OUTSIDE_BRACKETS'']
             | Some tiers \<Rightarrow> feasible_leverage g n stressed (stressed_loss_of n) tiers)"
  unfolding assess_structural_leverage_def Let_def stressed_stop_of_def stressed_loss_of_def case_prod_beta assms
  by (simp del: stress_tiers.simps)

lemma assess_structural_result:
  assumes "\<forall>b \<in> set bs. bracket_ok b" "structural_blockers v (sort_key fb_notional_floor bs) oos upstream = []"
    and "n = structural_numbers v"
    and "k = max 1 (required_leverage (d_mul (sv_entry n) (sv_quantity n)) (sv_available_margin n))"
  shows "\<exists>a. assess_structural_leverage g v bs oos upstream = Inr a \<and>
    (if leverage_feasible g n bs k
     then sa_permitted_leverage a = Some k \<and> sa_blockers a = [] \<and> sa_initial_margin a = Some (isolated_margin n k)
       \<and> sa_stressed_stop_mark a = Some (stressed_stop_of n)
     else sa_permitted_leverage a = None \<and> sa_blockers a \<noteq> [])"
proof -
  define ordered where "ordered = sort_key fb_notional_floor bs"
  note clear = structural_blockers_Nil [OF assms(2), folded assms(3) ordered_def]
  note run = assess_structural_clear [OF assms(2), folded assms(3) ordered_def, of g]
  have sets: "set ordered = set bs" by (simp add: ordered_def)
  then have feas: "leverage_feasible g n ordered = leverage_feasible g n bs" by (simp add: leverage_feasible_def fun_eq_iff)
  have good: "contiguous_brackets ordered" "\<forall>b \<in> set ordered. bracket_ok b"
    using clear(1) assms(1) sets by (simp_all add: validate_brackets_Inr)
  show ?thesis
  proof (cases "stressed_stop_of n \<le> 0 \<or> stressed_loss_of n > sv_risk_budget n")
    case True
    then have "\<not> leverage_feasible g n bs k" by (auto simp: leverage_feasible_def)
    then show ?thesis using True by (auto simp: run Let_def)
  next
    case False
    show ?thesis
    proof (cases "stress_tiers ordered [sv_entry n, sv_mark_price n, stressed_stop_of n] (sv_quantity n)")
      case None
      then have "\<not> leverage_feasible g n bs k"
        using sets by (auto simp: stress_tiers_None leverage_feasible_def simp del: stress_tiers.simps)
      then show ?thesis using False None by (auto simp: run Let_def simp del: stress_tiers.simps)
    next
      case (Some tiers)
      have iff: "leverage_feasible g n bs k \<longleftrightarrow>
          k \<le> foldl min (fg_maximum_futures_leverage g) (map fb_initial_leverage tiers)
          \<and> maintenance_margin (last tiers) (stressed_stop_of n) (sv_quantity n) < d_sub (isolated_margin n k) (stressed_loss_of n)"
        using feasible_iff_tiers [OF good _ _ Some assms(4), of g] False feas by (simp add: not_le not_less)
      show ?thesis
        using feasible_leverage_result [OF assms(4), of g "stressed_stop_of n" "stressed_loss_of n" tiers] False Some
        unfolding iff [symmetric] run Let_def by (simp del: stress_tiers.simps)
    qed
  qed
qed

text \<open>
  C20: the governor picks the lowest feasible leverage. On constructed brackets and inputs without
  blockers the assessment returns, and it permits a leverage exactly when some leverage is feasible;
  the one it permits is the least, and the margin it stands for exceeds the stressed loss together with
  the maintenance margin of the tier at the stressed stop.
\<close>

theorem lowest_feasible_leverage:
  assumes "\<forall>b \<in> set bs. bracket_ok b" "structural_blockers v (sort_key fb_notional_floor bs) oos upstream = []"
  shows "\<exists>a. assess_structural_leverage g v bs oos upstream = Inr a \<and>
    (case sa_permitted_leverage a of
       None \<Rightarrow> sa_blockers a \<noteq> [] \<and> (\<forall>l. \<not> leverage_feasible g (structural_numbers v) bs l)
     | Some l \<Rightarrow> sa_blockers a = [] \<and> leverage_feasible g (structural_numbers v) bs l \<and>
         (\<forall>k. leverage_feasible g (structural_numbers v) bs k \<longrightarrow> l \<le> k) \<and>
         (\<exists>b \<in> set bs. in_bracket b (d_mul (stressed_stop_of (structural_numbers v)) (sv_quantity (structural_numbers v))) \<and>
            stressed_loss_of (structural_numbers v)
              + maintenance_margin b (stressed_stop_of (structural_numbers v)) (sv_quantity (structural_numbers v))
            < isolated_margin (structural_numbers v) l))"
proof -
  define n where "n = structural_numbers v"
  define k where "k = max 1 (required_leverage (d_mul (sv_entry n) (sv_quantity n)) (sv_available_margin n))"
  have pos: "0 \<le> d_mul (sv_entry n) (sv_quantity n)"
    using structural_blockers_Nil(2,3) [OF assms(2), folded n_def] by (intro d_mul_nonneg) simp_all
  obtain a where "assess_structural_leverage g v bs oos upstream = Inr a"
    and "if leverage_feasible g n bs k then sa_permitted_leverage a = Some k \<and> sa_blockers a = []
      else sa_permitted_leverage a = None \<and> sa_blockers a \<noteq> []"
    using assess_structural_result [OF assms n_def k_def, of g] by (auto split: if_splits)
  then show ?thesis
    using leverage_feasible_least [OF _ pos k_def, of g bs] feasible_margin [of g n bs k]
    unfolding n_def [symmetric] by (cases "leverage_feasible g n bs k") auto
qed

definition example_brackets :: "bracket list" where
  "example_brackets =
     [\<lparr>fb_notional_floor = 0, fb_notional_cap = 5000, fb_initial_leverage = 20,
       fb_maintenance_ratio = 3 / 128, fb_cumulative_maintenance = 0\<rparr>,
      \<lparr>fb_notional_floor = 5000, fb_notional_cap = 50000, fb_initial_leverage = 10,
       fb_maintenance_ratio = 1 / 5, fb_cumulative_maintenance = 14125 / 16\<rparr>]"

definition example_values :: "pydec structural_values" where
  "example_values =
     \<lparr>sv_entry = Finite 100, sv_stop = Finite 98, sv_quantity = Finite 40, sv_mark_price = Finite 100,
      sv_available_margin = Finite 2000, sv_risk_budget = Finite 200, sv_round_trip_cost_ratio = Finite (1 / 1000),
      sv_adverse_funding_ratio = Finite 0, sv_mark_stress_ratio = Finite (1 / 100)\<rparr>"

lemma example_numbers:
  "structural_numbers example_values =
     \<lparr>sv_entry = 100, sv_stop = 98, sv_quantity = 40, sv_mark_price = 100, sv_available_margin = 2000,
      sv_risk_budget = 200, sv_round_trip_cost_ratio = 1 / 1000, sv_adverse_funding_ratio = 0, sv_mark_stress_ratio = 1 / 100\<rparr>"
  by (simp add: structural_numbers_def example_values_def)

lemma example_brackets_ok: "\<forall>b \<in> set example_brackets. bracket_ok b"
  by code_simp

lemma example_clear: "structural_blockers example_values (sort_key fb_notional_floor example_brackets) True [] = []"
  by code_simp

lemma example_stress:
  "stressed_stop_of (structural_numbers example_values) = 97" "stressed_loss_of (structural_numbers example_values) = 124"
  by (simp_all add: stressed_stop_of_def stressed_loss_of_def example_numbers structural_margin_loss_per_unit_def) code_simp+

lemma example_tiers:
  "stress_tiers (sort_key fb_notional_floor example_brackets) [100, 100, 97] 40 =
     Some (replicate 3 (hd example_brackets))"
  by code_simp

lemma example_feasible:
  "feasible_leverage default_governor (structural_numbers example_values) 97 124 (replicate 3 (hd example_brackets)) =
     Inr \<lparr>sa_permitted_leverage = Some 2, sa_initial_margin = Some 2000, sa_stressed_stop_mark = Some 97,
        sa_margin_surplus = Some (28561 / 16), sa_blockers = [], sa_execution_allowed = False\<rparr>"
  by code_simp

lemma example_assessed:
  "assess_structural_leverage default_governor example_values example_brackets True [] =
     Inr \<lparr>sa_permitted_leverage = Some 2, sa_initial_margin = Some 2000, sa_stressed_stop_mark = Some 97,
        sa_margin_surplus = Some (28561 / 16), sa_blockers = [], sa_execution_allowed = False\<rparr>"
  unfolding assess_structural_clear [OF example_clear] Let_def example_stress
  by (simp add: example_tiers example_numbers example_feasible [unfolded example_numbers] del: stress_tiers.simps)

theorem lowest_feasible_leverage_witness:
  "leverage_feasible default_governor (structural_numbers example_values) example_brackets 2 \<and>
   \<not> leverage_feasible default_governor (structural_numbers example_values) example_brackets 1"
  using lowest_feasible_leverage [OF example_brackets_ok example_clear, of default_governor]
  by (force simp: example_assessed)

section \<open>The liquidation price is where equity meets maintenance\<close>

definition equity_at :: "bool \<Rightarrow> dec \<Rightarrow> dec \<Rightarrow> dec \<Rightarrow> dec \<Rightarrow> dec" where
  "equity_at long entry quantity wallet_margin x = wallet_margin + side_sign long * (x - entry) * quantity"

definition maintenance_at :: "bracket \<Rightarrow> dec \<Rightarrow> dec" where
  "maintenance_at t n = fb_maintenance_ratio t * n - fb_cumulative_maintenance t"

text \<open>
  The continuity of the tiers and the price of each tier need no more than 28 digits: no operation of
  the search rounds.
\<close>

definition exact_tiers :: "bracket list \<Rightarrow> bool" where
  "exact_tiers bs \<longleftrightarrow>
     (\<forall>i. Suc i < length bs \<longrightarrow>
        fb_cumulative_maintenance (bs ! Suc i) =
          fb_cumulative_maintenance (bs ! i)
          + fb_notional_floor (bs ! Suc i) * (fb_maintenance_ratio (bs ! Suc i) - fb_maintenance_ratio (bs ! i)))"

definition exact_price :: "bool \<Rightarrow> dec \<Rightarrow> dec \<Rightarrow> dec \<Rightarrow> bracket \<Rightarrow> dec" where
  "exact_price long entry quantity wallet_margin t =
     (side_sign long * entry * quantity - wallet_margin - fb_cumulative_maintenance t)
       / (quantity * (side_sign long - fb_maintenance_ratio t))"

definition exact_search :: "bool \<Rightarrow> dec \<Rightarrow> dec \<Rightarrow> dec \<Rightarrow> bracket list \<Rightarrow> bool" where
  "exact_search long entry quantity wallet_margin bs \<longleftrightarrow>
     (\<forall>t \<in> set bs. let p = exact_price long entry quantity wallet_margin t in
        tier_price long entry quantity wallet_margin t = Inr p \<and> d_mul p quantity = p * quantity)"

text \<open>The maintenance line of a later tier lies above an earlier one from its floor on, and below it before.\<close>

lemma maintenance_step:
  assumes "contiguous_brackets bs" "exact_tiers bs" "Suc i < length bs"
  shows "maintenance_at (bs ! Suc i) x - maintenance_at (bs ! i) x
    = (fb_maintenance_ratio (bs ! Suc i) - fb_maintenance_ratio (bs ! i)) * (x - fb_notional_floor (bs ! Suc i))"
  using assms(2,3) by (simp add: exact_tiers_def maintenance_at_def algebra_simps)

lemma maintenance_above:
  assumes "contiguous_brackets bs" "exact_tiers bs" "\<forall>b \<in> set bs. bracket_ok b" "i \<le> j" "j < length bs"
    and "fb_notional_floor (bs ! j) \<le> x"
  shows "maintenance_at (bs ! i) x \<le> maintenance_at (bs ! j) x"
  using assms(4-6)
proof (induction j)
  case (Suc j)
  show ?case
  proof (cases "i = Suc j")
    case False
    have "fb_notional_floor (bs ! j) < fb_notional_cap (bs ! j)" using assms(3) Suc.prems by (simp add: bracket_ok_def)
    then have "maintenance_at (bs ! i) x \<le> maintenance_at (bs ! j) x"
      using Suc False contiguous_step(1) [OF assms(1), of j] by simp
    moreover have "0 \<le> maintenance_at (bs ! Suc j) x - maintenance_at (bs ! j) x"
      using maintenance_step [OF assms(1,2), of j x] contiguous_step(2) [OF assms(1), of j] Suc.prems by simp
    ultimately show ?thesis by simp
  qed simp
qed simp

lemma maintenance_below:
  assumes "contiguous_brackets bs" "exact_tiers bs" "\<forall>b \<in> set bs. bracket_ok b" "i \<le> j" "j < length bs"
    and "x \<le> fb_notional_cap (bs ! i)"
  shows "maintenance_at (bs ! j) x \<le> maintenance_at (bs ! i) x"
  using assms(4,5)
proof (induction j)
  case (Suc j)
  show ?case
  proof (cases "i = Suc j")
    case False
    then have "x \<le> fb_notional_floor (bs ! Suc j)"
      using caps_below_floors [OF assms(1,3), of i "Suc j"] assms(6) Suc.prems by simp
    then have "maintenance_at (bs ! Suc j) x - maintenance_at (bs ! j) x \<le> 0"
      using maintenance_step [OF assms(1,2), of j x] contiguous_step(2) [OF assms(1), of j] Suc.prems
      by (simp add: mult_nonneg_nonpos)
    then show ?thesis using Suc False by simp
  qed simp
qed simp

text \<open>Over the whole scale maintenance rises with the notional, but slower than the notional itself.\<close>

lemma maintenance_slope:
  assumes "contiguous_brackets bs" "exact_tiers bs" "\<forall>b \<in> set bs. bracket_ok b"
    and "s \<in> set bs" "t \<in> set bs" "in_bracket s n" "in_bracket t m" "n < m"
  shows "maintenance_at s n \<le> maintenance_at t m" "maintenance_at t m - maintenance_at s n < m - n"
proof -
  obtain i j where ij: "i < length bs" "s = bs ! i" "j < length bs" "t = bs ! j"
    using assms(4,5) by (auto simp: in_set_conv_nth)
  have le: "i \<le> j"
    using caps_below_floors [OF assms(1,3), of j i] ij assms(6-8) by (force simp: in_bracket_def)
  have s: "0 < fb_maintenance_ratio s" and t: "fb_maintenance_ratio t < 1"
    using assms(3-5) by (simp_all add: bracket_ok_def)
  have "maintenance_at s m \<le> maintenance_at t m" "maintenance_at t n \<le> maintenance_at s n"
    using maintenance_above [OF assms(1-3) le, of m] maintenance_below [OF assms(1-3) le, of n] ij assms(6,7)
    by (simp_all add: in_bracket_def)
  moreover have "maintenance_at s m - maintenance_at s n = fb_maintenance_ratio s * (m - n)"
    "maintenance_at t m - maintenance_at t n = fb_maintenance_ratio t * (m - n)"
    by (simp_all add: maintenance_at_def algebra_simps)
  moreover have "0 < fb_maintenance_ratio s * (m - n)" "fb_maintenance_ratio t * (m - n) < m - n"
    using s t assms(8) by simp_all
  ultimately show "maintenance_at s n \<le> maintenance_at t m" "maintenance_at t m - maintenance_at s n < m - n"
    by linarith+
qed

text \<open>The surplus of equity over maintenance is strictly monotone in the price, in the direction of the position.\<close>

lemma surplus_monotone:
  assumes "contiguous_brackets bs" "exact_tiers bs" "\<forall>b \<in> set bs. bracket_ok b" "0 < q"
    and "s \<in> set bs" "t \<in> set bs" "in_bracket s (x * q)" "in_bracket t (y * q)" "x < y"
  shows "if long then equity_at long e q w x - maintenance_at s (x * q) < equity_at long e q w y - maintenance_at t (y * q)
    else equity_at long e q w y - maintenance_at t (y * q) < equity_at long e q w x - maintenance_at s (x * q)"
proof -
  have less: "x * q < y * q" using assms(4,9) by simp
  note slope = maintenance_slope [OF assms(1-3,5-8) less]
  have "equity_at long e q w y - equity_at long e q w x = side_sign long * (y * q - x * q)"
    by (simp add: equity_at_def algebra_simps)
  then show ?thesis using slope less by (auto simp: side_sign_def)
qed


lemma exact_price_line:
  assumes "bracket_ok t" "0 < q"
  shows "equity_at long e q w x - maintenance_at t (x * q)
    = q * (side_sign long - fb_maintenance_ratio t) * (x - exact_price long e q w t)"
proof -
  define k where "k = q * (side_sign long - fb_maintenance_ratio t)"
  have "k \<noteq> 0" using assms by (auto simp: bracket_ok_def side_sign_def k_def)
  then have "k * (x - exact_price long e q w t) =
      k * x - (side_sign long * e * q - w - fb_cumulative_maintenance t)"
    unfolding exact_price_def k_def [symmetric] by (simp add: right_diff_distrib [of k x])
  then show ?thesis
    by (simp add: k_def equity_at_def maintenance_at_def algebra_simps)
qed

lemma exact_price_long_le:
  assumes "bracket_ok t" "0 < q"
  shows "equity_at True e q w x \<le> maintenance_at t (x * q) \<longleftrightarrow> x \<le> exact_price True e q w t"
proof -
  define k where "k = q * (1 - fb_maintenance_ratio t)"
  have pos: "0 < k" using assms by (simp add: bracket_ok_def k_def)
  have "equity_at True e q w x \<le> maintenance_at t (x * q) \<longleftrightarrow> k * (x - exact_price True e q w t) \<le> 0"
    using exact_price_line [OF assms, of True e w x] by (simp only: side_sign_def if_True k_def) linarith
  then show ?thesis using pos by (simp add: mult_le_0_iff)
qed

text \<open>A long position whose price of one tier lies beyond the tier reaches the floor of the next one under water.\<close>

lemma next_floor_below:
  assumes "contiguous_brackets bs" "exact_tiers bs" "\<forall>b \<in> set bs. bracket_ok b" "0 < q" "Suc i < length bs"
    and "fb_notional_cap (bs ! i) \<le> exact_price True e q w (bs ! i) * q"
  shows "fb_notional_floor (bs ! Suc i) / q \<le> exact_price True e q w (bs ! Suc i)"
proof -
  let ?y = "fb_notional_floor (bs ! Suc i)"
  have ok: "bracket_ok (bs ! i)" "bracket_ok (bs ! Suc i)" using assms(3,5) by simp_all
  have "?y / q \<le> exact_price True e q w (bs ! i)"
    using assms(4,6) contiguous_step(1) [OF assms(1,5)] by (simp add: pos_divide_le_eq)
  then have "equity_at True e q w (?y / q) \<le> maintenance_at (bs ! i) ?y"
    using exact_price_long_le [OF ok(1) assms(4), of e w "?y / q"] assms(4) by simp
  also have "\<dots> = maintenance_at (bs ! Suc i) ?y"
    using maintenance_step [OF assms(1,2,5), of ?y] by simp
  finally show ?thesis
    using exact_price_long_le [OF ok(2) assms(4), of e w "?y / q"] assms(4) by simp
qed

lemma search_short:
  assumes "exact_search long e q w bs" "\<not> long" "liquidation_search long e q w bs = Inr p"
  shows "\<exists>t \<in> set bs. p = exact_price long e q w t \<and> in_bracket t (p * q)"
  using assms
  by (induction bs) (auto simp: exact_search_def Let_def split: if_splits)

lemma search_tail:
  assumes "contiguous_brackets bs" "exact_tiers bs" "\<forall>b \<in> set bs. bracket_ok b" "0 < q" "exact_search True e q w bs"
    and "0 < i" "i < length bs \<longrightarrow> fb_notional_floor (bs ! i) / q \<le> exact_price True e q w (bs ! i)"
    and "liquidation_search True e q w (drop i bs) = Inr p"
  shows "\<exists>t \<in> set bs. p = exact_price True e q w t \<and> in_bracket t (p * q)"
  using assms(6-8)
proof (induction "length bs - i" arbitrary: i)
  case (Suc k)
  define t where "t = bs ! i"
  have i: "i < length bs" "t \<in> set bs" "bracket_ok t" "Suc (i - 1) < length bs" "Suc (i - 1) = i"
    using Suc.hyps(2) assms(3) Suc.prems(1) by (auto simp: t_def)
  have price: "tier_price True e q w t = Inr (exact_price True e q w t)"
    "d_mul (exact_price True e q w t) q = exact_price True e q w t * q"
    using assms(5) i(2) by (auto simp: exact_search_def Let_def)
  have "0 < fb_notional_floor t"
    using contiguous_step(1) [OF assms(1) i(4)] bspec [OF assms(3), of "bs ! (i - 1)"] i
    by (auto simp: bracket_ok_def t_def)
  then have above: "fb_notional_floor t \<le> exact_price True e q w t * q" "0 < exact_price True e q w t"
    using Suc.prems(2) i(1) assms(4) by (auto simp: t_def [symmetric] pos_divide_le_eq intro: less_le_trans [of 0 "fb_notional_floor t / q"])
  have run: "liquidation_search True e q w (drop i bs) =
      (if in_bracket t (exact_price True e q w t * q) then Inr (exact_price True e q w t)
       else liquidation_search True e q w (drop (Suc i) bs))"
    using i(1) above(2) price by (simp add: Cons_nth_drop_Suc [symmetric] t_def)
  show ?case
  proof (cases "in_bracket t (exact_price True e q w t * q)")
    case True
    then show ?thesis using run Suc.prems(3) i(2) by auto
  next
    case False
    then have "fb_notional_cap t \<le> exact_price True e q w t * q" using above(1) by (simp add: in_bracket_def)
    then have "Suc i < length bs \<longrightarrow> fb_notional_floor (bs ! Suc i) / q \<le> exact_price True e q w (bs ! Suc i)"
      using next_floor_below [OF assms(1-4)] by (simp add: t_def)
    then show ?thesis using Suc.hyps(1) [of "Suc i"] Suc.hyps(2) run False Suc.prems(3) by simp
  qed
qed simp

lemma search_long:
  assumes "contiguous_brackets bs" "exact_tiers bs" "\<forall>b \<in> set bs. bracket_ok b" "0 < q" "exact_search True e q w bs"
    and "bs \<noteq> []" "fb_notional_floor (hd bs) = 0" "liquidation_search True e q w bs = Inr p"
  shows "(p = 0 \<and> exact_price True e q w (hd bs) \<le> 0) \<or>
    (\<exists>t \<in> set bs. p = exact_price True e q w t \<and> in_bracket t (p * q))"
proof -
  define t where "t = hd bs"
  have t: "bs = t # drop 1 bs" "t \<in> set bs" "bracket_ok t" using assms(3,6) by (cases bs; simp add: t_def)+
  have price: "tier_price True e q w t = Inr (exact_price True e q w t)"
    "d_mul (exact_price True e q w t) q = exact_price True e q w t * q"
    using assms(5) t(2) by (auto simp: exact_search_def Let_def)
  have run: "liquidation_search True e q w bs =
      (if exact_price True e q w t \<le> 0 then Inr 0
       else if in_bracket t (exact_price True e q w t * q) then Inr (exact_price True e q w t)
       else liquidation_search True e q w (drop 1 bs))"
    by (subst t(1)) (simp add: price)
  consider "exact_price True e q w t \<le> 0" | "0 < exact_price True e q w t" "in_bracket t (exact_price True e q w t * q)"
    | "0 < exact_price True e q w t" "fb_notional_cap t \<le> exact_price True e q w t * q"
    using assms(4,7) by (force simp: in_bracket_def t_def not_le)
  then show ?thesis
  proof cases
    case 3
    then have "Suc 0 < length bs \<longrightarrow> fb_notional_floor (bs ! Suc 0) / q \<le> exact_price True e q w (bs ! Suc 0)"
      using next_floor_below [OF assms(1-4), of 0 e w] assms(6) by (simp add: t_def hd_conv_nth)
    then show ?thesis
      using search_tail [OF assms(1-5), of 1 p] assms(8) run 3 by (auto simp: in_bracket_def)
  qed (use run assms(8) t(2) t_def in auto)
qed


lemma liquidation_sign:
  assumes "isolated_liquidation_price long (Finite e) (Finite q) (Finite w) bs = Inr p"
    and "\<forall>b \<in> set bs. bracket_ok b" "exact_tiers bs" "exact_search long e q w bs"
    and "t \<in> set bs" "in_bracket t (x * q)" "x \<noteq> p \<or> 0 < p"
  shows "sgn (equity_at long e q w x - maintenance_at t (x * q)) = side_sign long * sgn (x - p)"
proof -
  have valid: "bs \<noteq> []" "fb_notional_floor (hd bs) = 0" "contiguous_brackets bs" "0 < q"
    and search: "liquidation_search long e q w bs = Inr p"
    using assms(1) by (auto simp: isolated_liquidation_price_def bindE_eq_Inr validate_brackets_Inr split: if_splits)
  note mono = surplus_monotone [OF valid(3) assms(3,2) valid(4)]
  consider (root) u where "u \<in> set bs" "p = exact_price long e q w u" "in_bracket u (p * q)"
    | (zero) "long" "p = 0" "exact_price True e q w (hd bs) \<le> 0"
    using search_short [OF assms(4) _ search] search_long [OF valid(3) assms(3,2) valid(4), of e w p] assms(4) valid(1,2) search
    by (cases long) auto
  then show ?thesis
  proof cases
    case root
    then have "equity_at long e q w p - maintenance_at u (p * q) = 0"
      using exact_price_line [of u q long e w p] assms(2) valid(4) by simp
    then show ?thesis
      using mono [of u t p x long e w] mono [of t u x p long e w] root(1,3) assms(5,6)
        bracket_unique [OF valid(3) assms(2) root(1) assms(5), of "p * q"]
      by (cases x p rule: linorder_cases) (auto simp: side_sign_def sgn_if split: if_splits)
  next
    case zero
    have hd: "hd bs \<in> set bs" "bracket_ok (hd bs)" using valid(1) assms(2) by simp_all
    then have "in_bracket (hd bs) (0 * q)" using valid(2) by (simp add: in_bracket_def bracket_ok_def)
    moreover have "\<not> equity_at True e q w 0 < maintenance_at (hd bs) (0 * q)"
      using exact_price_long_le [OF hd(2) valid(4), of e w 0] exact_price_line [OF hd(2) valid(4), of True e w 0] zero(3)
      by (cases "exact_price True e q w (hd bs) = 0") auto
    moreover have "0 \<le> x * q" using assms(2,5,6) by (force simp: in_bracket_def bracket_ok_def)
    then have "0 < x" using assms(7) zero(2) valid(4) by (auto simp: zero_le_mult_iff)
    ultimately show ?thesis
      using mono [of "hd bs" t 0 x True e w] hd(1) assms(5,6) zero(1,2) by (simp add: side_sign_def)
  qed
qed



section \<open>The stressed stop comes before liquidation\<close>

text \<open>The stressed values of the assessment need no rounding either.\<close>

definition exact_stress :: "dec structural_values \<Rightarrow> bracket list \<Rightarrow> bool" where
  "exact_stress n bs \<longleftrightarrow>
     (let x = stressed_stop_of n; q = sv_quantity n
      in d_mul x q = x * q \<and> d_mul (d_abs (d_sub (sv_entry n) x)) q = \<bar>sv_entry n - x\<bar> * q \<and>
         (\<forall>t \<in> set bs. d_sub (d_mul (d_mul x q) (fb_maintenance_ratio t)) (fb_cumulative_maintenance t) = maintenance_at t (x * q)))"

lemma stressed_loss_covers:
  assumes "0 \<le> sv_entry n" "0 \<le> sv_quantity n" "0 \<le> sv_round_trip_cost_ratio n" "0 \<le> sv_adverse_funding_ratio n"
  shows "d_mul (d_abs (d_sub (sv_entry n) (stressed_stop_of n))) (sv_quantity n) \<le> stressed_loss_of n"
proof -
  have "0 \<le> d_mul (sv_entry n) (d_add (sv_round_trip_cost_ratio n) (sv_adverse_funding_ratio n))"
    using assms by (intro d_mul_nonneg d_add_nonneg)
  then have "d_abs (d_sub (sv_entry n) (stressed_stop_of n))
      \<le> snd (structural_margin_loss_per_unit (sv_entry n) (sv_stop n) (sv_mark_price n)
            (d_add (sv_round_trip_cost_ratio n) (sv_adverse_funding_ratio n)) (sv_mark_stress_ratio n))"
    by (simp add: structural_margin_loss_per_unit_def stressed_stop_of_def Let_def d_add_ge_self)
  then show ?thesis
    unfolding stressed_loss_of_def d_mul_def using assms(2) by (intro dround_mono mult_right_mono)
qed

lemma structural_ratios_nonneg:
  assumes "structural_blockers v bs oos upstream = []"
  shows "0 \<le> sv_round_trip_cost_ratio (structural_numbers v)" "0 \<le> sv_adverse_funding_ratio (structural_numbers v)"
  using assms
  by (auto simp: structural_blockers_def structural_input_blockers_def Let_def structural_ratios_def split: if_splits)


lemma example_liquidation:
  "isolated_liquidation_price True (Finite 100) (Finite 40) (Finite 2000) example_brackets = Inr (256 / 5)"
  by code_simp

lemma example_sorted: "sort_key fb_notional_floor example_brackets = example_brackets"
  by (simp add: example_brackets_def)

lemma example_exact_tiers: "exact_tiers example_brackets"
  by (simp add: exact_tiers_def example_brackets_def less_Suc_eq)

lemma example_exact_search: "exact_search True 100 40 2000 example_brackets"
  unfolding exact_search_def exact_price_def by code_simp

lemma example_exact_stress: "exact_stress (structural_numbers example_values) example_brackets"
  unfolding exact_stress_def example_stress maintenance_at_def by code_simp



end
