(* ===== verification/Virtual_Portfolio.thy ===== *)
theory Virtual_Portfolio
  imports Int_Text Trade_Attribution
begin

text \<open>
  \<^verbatim>\<open>domain/research/virtual_runtime_portfolio_state.py\<close>: the state of one virtual wallet, Spot or isolated
  futures, its validation, and its payload. Decimals of the state are finite: reading a payload refuses
  others. The printing \<^verbatim>\<open>str()\<close> of a decimal is the parameter \<open>shw\<close>.
\<close>

section \<open>State\<close>

datatype position_side = PS_LONG | PS_SHORT

definition side_value :: "position_side \<Rightarrow> string" where
  "side_value s = (case s of PS_LONG \<Rightarrow> ''LONG'' | PS_SHORT \<Rightarrow> ''SHORT'')"

record virtual_portfolio =
  vp_portfolio_id :: string
  vp_market :: string
  vp_cash_usdt :: dec
  vp_equity_usdt :: dec
  vp_initial_equity_usdt :: dec
  vp_inventory_quantity :: dec
  vp_inventory_cost_basis_usdt :: dec
  vp_realized_pnl_usdt :: dec
  vp_unrealized_pnl_usdt :: dec
  vp_fees_paid_usdt :: dec
  vp_slippage_cost_usdt :: dec
  vp_funding_cost_usdt :: dec
  vp_high_watermark_usdt :: "dec option"
  vp_max_drawdown_ratio :: dec
  vp_current_open_risk_usdt :: dec
  vp_consecutive_losses :: int
  vp_position_side :: "position_side option"
  vp_position_entry_price :: "dec option"
  vp_position_mark_price :: "dec option"
  vp_position_notional_usdt :: "dec option"
  vp_isolated_margin_usdt :: "dec option"
  vp_initial_margin_usdt :: "dec option"
  vp_maintenance_margin_usdt :: "dec option"
  vp_liquidation_price :: "dec option"
  vp_leverage :: "int option"
  vp_margin_utilization_ratio :: "dec option"
  vp_open_position_count :: int
  vp_max_concurrent_positions :: int

definition normal_market :: "string \<Rightarrow> string" where
  "normal_market m = py_upper (py_strip m)"

text \<open>The fields a Spot wallet may not carry, and those an open futures position needs.\<close>

definition no_futures_fields :: "virtual_portfolio \<Rightarrow> bool" where
  "no_futures_fields p \<longleftrightarrow>
     vp_position_side p = None \<and> vp_position_entry_price p = None \<and> vp_position_mark_price p = None
     \<and> vp_position_notional_usdt p = None \<and> vp_isolated_margin_usdt p = None \<and> vp_initial_margin_usdt p = None
     \<and> vp_maintenance_margin_usdt p = None \<and> vp_liquidation_price p = None \<and> vp_leverage p = None
     \<and> vp_margin_utilization_ratio p = None"

definition futures_scalars :: "virtual_portfolio \<Rightarrow> dec option list" where
  "futures_scalars p =
     [vp_position_entry_price p, vp_position_mark_price p, vp_position_notional_usdt p, vp_isolated_margin_usdt p,
      vp_initial_margin_usdt p, vp_maintenance_margin_usdt p, vp_liquidation_price p, vp_margin_utilization_ratio p]"

definition portfolio_balance_checks :: "virtual_portfolio \<Rightarrow> (bool \<times> string) list" where
  "portfolio_balance_checks p =
     [(blank (vp_portfolio_id p) \<or> blank (vp_market p), ''virtual portfolio identity is required''),
      (min (vp_initial_equity_usdt p) (vp_equity_usdt p) \<le> 0, ''virtual portfolio equity must be positive''),
      (list_ex (\<lambda>x. x < 0)
         [vp_cash_usdt p, vp_inventory_quantity p, vp_inventory_cost_basis_usdt p, vp_fees_paid_usdt p,
          vp_slippage_cost_usdt p, vp_current_open_risk_usdt p],
       ''virtual portfolio balances must be non-negative''),
      (\<not> (0 \<le> vp_max_drawdown_ratio p \<and> vp_max_drawdown_ratio p \<le> 1),
       ''virtual portfolio drawdown ratio must stay within zero and one''),
      (d_add (vp_unrealized_pnl_usdt p) (vp_cash_usdt p) < dround (- vp_equity_usdt p),
       ''virtual portfolio unrealized PnL is inconsistent''),
      (vp_open_position_count p < 0 \<or> vp_max_concurrent_positions p < 1, ''virtual portfolio capacity must be positive''),
      (vp_consecutive_losses p < 0, ''virtual portfolio consecutive loss count cannot be negative''),
      (normal_market (vp_market p) \<notin> {''SPOT'', ''USD_M_FUTURES''}, ''virtual portfolio market must be SPOT or USD_M_FUTURES'')]"

definition high_watermark :: "virtual_portfolio \<Rightarrow> dec" where
  "high_watermark p = (case vp_high_watermark_usdt p of None \<Rightarrow> vp_equity_usdt p | Some w \<Rightarrow> w)"

definition spot_checks :: "virtual_portfolio \<Rightarrow> (bool \<times> string) list" where
  "spot_checks p =
     [(vp_inventory_quantity p = 0 \<and> vp_inventory_cost_basis_usdt p \<noteq> 0,
       ''Spot virtual portfolio cannot keep cost basis without inventory''),
      (vp_cash_usdt p > d_add (d_add (high_watermark p) (vp_realized_pnl_usdt p)) (vp_initial_equity_usdt p),
       ''Spot virtual portfolio cash appears inconsistent with independent capital''),
      (\<not> no_futures_fields p, ''Spot virtual portfolio cannot contain Futures position fields'')]"

definition futures_checks :: "virtual_portfolio \<Rightarrow> (bool \<times> string) list" where
  "futures_checks p =
     (vp_inventory_quantity p \<noteq> 0 \<or> vp_inventory_cost_basis_usdt p \<noteq> 0,
      ''USD_M_FUTURES virtual portfolio cannot carry Spot inventory state'')
     # (if vp_open_position_count p > 0
        then [(vp_position_side p = None \<or> None \<in> set (futures_scalars p),
               ''USD_M_FUTURES open virtual position requires full margin evidence''),
              ((case vp_leverage p of None \<Rightarrow> True | Some l \<Rightarrow> l < 1),
               ''USD_M_FUTURES open virtual position requires positive leverage''),
              ((case vp_margin_utilization_ratio p of None \<Rightarrow> True | Some u \<Rightarrow> \<not> (0 \<le> u \<and> u \<le> 1)),
               ''USD_M_FUTURES margin utilization must stay within zero and one'')]
        else [(vp_position_side p \<noteq> None, ''USD_M_FUTURES flat virtual portfolio cannot keep directional position state'')])"

definition portfolio_checks :: "virtual_portfolio \<Rightarrow> (bool \<times> string) list" where
  "portfolio_checks p =
     portfolio_balance_checks p
     @ [(high_watermark p \<le> 0, ''virtual portfolio high watermark must be positive''),
        (high_watermark p < vp_equity_usdt p, ''virtual portfolio high watermark cannot trail equity'')]
     @ (if normal_market (vp_market p) = ''SPOT'' then spot_checks p else futures_checks p)"

definition portfolio_post_init :: "virtual_portfolio \<Rightarrow> virtual_portfolio result" where
  "portfolio_post_init p =
     validate (portfolio_checks p)
       (p\<lparr>vp_market := normal_market (vp_market p), vp_high_watermark_usdt := Some (high_watermark p)\<rparr>)"

section \<open>Payloads\<close>

definition optional_decimal_text :: "(dec \<Rightarrow> string) \<Rightarrow> dec option \<Rightarrow> json" where
  "optional_decimal_text shw v = (case v of None \<Rightarrow> JNull | Some x \<Rightarrow> JText (shw x))"

definition portfolio_payload :: "(dec \<Rightarrow> string) \<Rightarrow> virtual_portfolio \<Rightarrow> (string \<times> json) list" where
  "portfolio_payload shw p =
     [(''portfolio_id'', JText (vp_portfolio_id p)),
      (''market'', JText (vp_market p)),
      (''cash_usdt'', JText (shw (vp_cash_usdt p))),
      (''equity_usdt'', JText (shw (vp_equity_usdt p))),
      (''initial_equity_usdt'', JText (shw (vp_initial_equity_usdt p))),
      (''inventory_quantity'', JText (shw (vp_inventory_quantity p))),
      (''inventory_cost_basis_usdt'', JText (shw (vp_inventory_cost_basis_usdt p))),
      (''realized_pnl_usdt'', JText (shw (vp_realized_pnl_usdt p))),
      (''unrealized_pnl_usdt'', JText (shw (vp_unrealized_pnl_usdt p))),
      (''fees_paid_usdt'', JText (shw (vp_fees_paid_usdt p))),
      (''slippage_cost_usdt'', JText (shw (vp_slippage_cost_usdt p))),
      (''funding_cost_usdt'', JText (shw (vp_funding_cost_usdt p))),
      (''high_watermark_usdt'', optional_decimal_text shw (vp_high_watermark_usdt p)),
      (''max_drawdown_ratio'', JText (shw (vp_max_drawdown_ratio p))),
      (''current_open_risk_usdt'', JText (shw (vp_current_open_risk_usdt p))),
      (''consecutive_losses'', JNumber (int_text (vp_consecutive_losses p))),
      (''position_side'', (case vp_position_side p of None \<Rightarrow> JNull | Some s \<Rightarrow> JText (side_value s))),
      (''position_entry_price'', optional_decimal_text shw (vp_position_entry_price p)),
      (''position_mark_price'', optional_decimal_text shw (vp_position_mark_price p)),
      (''position_notional_usdt'', optional_decimal_text shw (vp_position_notional_usdt p)),
      (''isolated_margin_usdt'', optional_decimal_text shw (vp_isolated_margin_usdt p)),
      (''initial_margin_usdt'', optional_decimal_text shw (vp_initial_margin_usdt p)),
      (''maintenance_margin_usdt'', optional_decimal_text shw (vp_maintenance_margin_usdt p)),
      (''liquidation_price'', optional_decimal_text shw (vp_liquidation_price p)),
      (''leverage'', (case vp_leverage p of None \<Rightarrow> JNull | Some n \<Rightarrow> JNumber (int_text n))),
      (''margin_utilization_ratio'', optional_decimal_text shw (vp_margin_utilization_ratio p)),
      (''open_position_count'', JNumber (int_text (vp_open_position_count p))),
      (''max_concurrent_positions'', JNumber (int_text (vp_max_concurrent_positions p)))]"

text \<open>\<^verbatim>\<open>payload.get(key)\<close>: a missing key reads as \<^verbatim>\<open>None\<close>.\<close>

definition payload_value_of :: "(string \<times> json) list \<Rightarrow> string \<Rightarrow> json" where
  "payload_value_of payload key = (case map_of payload key of None \<Rightarrow> JNull | Some v \<Rightarrow> v)"

definition portfolio_error :: "string \<Rightarrow> string \<Rightarrow> py_error" where
  "portfolio_error label problem = ValueError (''virtual portfolio '' @ label @ '' must be '' @ problem)"

definition required_text_value :: "json \<Rightarrow> string \<Rightarrow> string result" where
  "required_text_value v label =
     (case v of
        JText s \<Rightarrow> if blank s then Inl (portfolio_error label ''non-empty text'') else Inr (py_strip s)
      | _ \<Rightarrow> Inl (portfolio_error label ''non-empty text''))"

definition required_text_of :: "(string \<times> json) list \<Rightarrow> string \<Rightarrow> string result" where
  "required_text_of payload key = required_text_value (payload_value_of payload key) key"

definition required_decimal :: "(string \<times> json) list \<Rightarrow> string \<Rightarrow> dec result" where
  "required_decimal payload key =
     (case json_decimal (Some (payload_value_of payload key)) of
        None \<Rightarrow> Inl (portfolio_error key ''decimal'')
      | Some (Finite x) \<Rightarrow> Inr x
      | Some _ \<Rightarrow> Inl (portfolio_error key ''finite''))"

definition optional_decimal :: "(string \<times> json) list \<Rightarrow> string \<Rightarrow> dec option result" where
  "optional_decimal payload key =
     (if payload_value_of payload key = JNull then Inr None
      else bindE (required_decimal payload key) (\<lambda>x. Inr (Some x)))"

text \<open>The text of a value whose \<^verbatim>\<open>str()\<close> can be that of an integer.\<close>

definition integer_text :: "json \<Rightarrow> string option" where
  "integer_text v = (case v of JNumber s \<Rightarrow> Some s | JText s \<Rightarrow> Some s | _ \<Rightarrow> None)"

definition required_integer_value :: "json \<Rightarrow> string \<Rightarrow> int result" where
  "required_integer_value v label =
     (case integer_text v of
        None \<Rightarrow> Inl (portfolio_error label ''integer'')
      | Some s \<Rightarrow>
          (case py_int s of
             None \<Rightarrow> Inl (portfolio_error label ''integer'')
           | Some n \<Rightarrow> if int_text n \<noteq> s then Inl (portfolio_error label ''canonical integer'') else Inr n))"

definition required_integer :: "(string \<times> json) list \<Rightarrow> string \<Rightarrow> int result" where
  "required_integer payload key = required_integer_value (payload_value_of payload key) key"

definition optional_integer :: "(string \<times> json) list \<Rightarrow> string \<Rightarrow> int option result" where
  "optional_integer payload key =
     (if payload_value_of payload key = JNull then Inr None
      else bindE (required_integer payload key) (\<lambda>n. Inr (Some n)))"

definition parse_side :: "string \<Rightarrow> position_side result" where
  "parse_side s =
     (if s = ''LONG'' then Inr PS_LONG else if s = ''SHORT'' then Inr PS_SHORT
      else Inl (ValueError ([CHR 0x27] @ s @ [CHR 0x27] @ '' is not a valid VirtualPositionSide'')))"

definition optional_side :: "(string \<times> json) list \<Rightarrow> string \<Rightarrow> position_side option result" where
  "optional_side payload key =
     (if payload_value_of payload key = JNull then Inr None
      else bindE (required_text_of payload key) (\<lambda>s. bindE (parse_side s) (\<lambda>side. Inr (Some side))))"

definition portfolio_from_payload :: "(string \<times> json) list \<Rightarrow> virtual_portfolio result" where
  "portfolio_from_payload payload =
     bindE (required_text_of payload ''portfolio_id'') (\<lambda>portfolio_id.
     bindE (required_text_of payload ''market'') (\<lambda>market.
     bindE (required_decimal payload ''cash_usdt'') (\<lambda>cash_usdt.
     bindE (required_decimal payload ''equity_usdt'') (\<lambda>equity_usdt.
     bindE (required_decimal payload ''initial_equity_usdt'') (\<lambda>initial_equity_usdt.
     bindE (required_decimal payload ''inventory_quantity'') (\<lambda>inventory_quantity.
     bindE (required_decimal payload ''inventory_cost_basis_usdt'') (\<lambda>inventory_cost_basis_usdt.
     bindE (required_decimal payload ''realized_pnl_usdt'') (\<lambda>realized_pnl_usdt.
     bindE (required_decimal payload ''unrealized_pnl_usdt'') (\<lambda>unrealized_pnl_usdt.
     bindE (required_decimal payload ''fees_paid_usdt'') (\<lambda>fees_paid_usdt.
     bindE (required_decimal payload ''slippage_cost_usdt'') (\<lambda>slippage_cost_usdt.
     bindE (required_decimal payload ''funding_cost_usdt'') (\<lambda>funding_cost_usdt.
     bindE (optional_decimal payload ''high_watermark_usdt'') (\<lambda>high_watermark_usdt.
     bindE (required_decimal payload ''max_drawdown_ratio'') (\<lambda>max_drawdown_ratio.
     bindE (required_decimal payload ''current_open_risk_usdt'') (\<lambda>current_open_risk_usdt.
     bindE (required_integer payload ''consecutive_losses'') (\<lambda>consecutive_losses.
     bindE (optional_side payload ''position_side'') (\<lambda>position_side.
     bindE (optional_decimal payload ''position_entry_price'') (\<lambda>position_entry_price.
     bindE (optional_decimal payload ''position_mark_price'') (\<lambda>position_mark_price.
     bindE (optional_decimal payload ''position_notional_usdt'') (\<lambda>position_notional_usdt.
     bindE (optional_decimal payload ''isolated_margin_usdt'') (\<lambda>isolated_margin_usdt.
     bindE (optional_decimal payload ''initial_margin_usdt'') (\<lambda>initial_margin_usdt.
     bindE (optional_decimal payload ''maintenance_margin_usdt'') (\<lambda>maintenance_margin_usdt.
     bindE (optional_decimal payload ''liquidation_price'') (\<lambda>liquidation_price.
     bindE (optional_integer payload ''leverage'') (\<lambda>leverage.
     bindE (optional_decimal payload ''margin_utilization_ratio'') (\<lambda>margin_utilization_ratio.
     bindE (required_integer payload ''open_position_count'') (\<lambda>open_position_count.
     bindE (required_integer payload ''max_concurrent_positions'') (\<lambda>max_concurrent_positions.
     portfolio_post_init
       \<lparr>vp_portfolio_id = portfolio_id,
        vp_market = market,
        vp_cash_usdt = cash_usdt,
        vp_equity_usdt = equity_usdt,
        vp_initial_equity_usdt = initial_equity_usdt,
        vp_inventory_quantity = inventory_quantity,
        vp_inventory_cost_basis_usdt = inventory_cost_basis_usdt,
        vp_realized_pnl_usdt = realized_pnl_usdt,
        vp_unrealized_pnl_usdt = unrealized_pnl_usdt,
        vp_fees_paid_usdt = fees_paid_usdt,
        vp_slippage_cost_usdt = slippage_cost_usdt,
        vp_funding_cost_usdt = funding_cost_usdt,
        vp_high_watermark_usdt = high_watermark_usdt,
        vp_max_drawdown_ratio = max_drawdown_ratio,
        vp_current_open_risk_usdt = current_open_risk_usdt,
        vp_consecutive_losses = consecutive_losses,
        vp_position_side = position_side,
        vp_position_entry_price = position_entry_price,
        vp_position_mark_price = position_mark_price,
        vp_position_notional_usdt = position_notional_usdt,
        vp_isolated_margin_usdt = isolated_margin_usdt,
        vp_initial_margin_usdt = initial_margin_usdt,
        vp_maintenance_margin_usdt = maintenance_margin_usdt,
        vp_liquidation_price = liquidation_price,
        vp_leverage = leverage,
        vp_margin_utilization_ratio = margin_utilization_ratio,
        vp_open_position_count = open_position_count,
        vp_max_concurrent_positions = max_concurrent_positions\<rparr>))))))))))))))))))))))))))))"

section \<open>Printing and reading back\<close>

definition portfolio_decimals :: "virtual_portfolio \<Rightarrow> dec list" where
  "portfolio_decimals p =
     [vp_cash_usdt p, vp_equity_usdt p, vp_initial_equity_usdt p, vp_inventory_quantity p,
      vp_inventory_cost_basis_usdt p, vp_realized_pnl_usdt p, vp_unrealized_pnl_usdt p,
      vp_fees_paid_usdt p, vp_slippage_cost_usdt p, vp_funding_cost_usdt p, vp_max_drawdown_ratio p,
      vp_current_open_risk_usdt p]
     @ map the (filter (\<lambda>v. v \<noteq> None)
         [vp_high_watermark_usdt p, vp_position_entry_price p, vp_position_mark_price p,
          vp_position_notional_usdt p, vp_isolated_margin_usdt p, vp_initial_margin_usdt p,
          vp_maintenance_margin_usdt p, vp_liquidation_price p, vp_margin_utilization_ratio p])"

lemma payload_value_of_simps:
  "payload_value_of ((k, v) # ps) k = v"
  "k \<noteq> l \<Longrightarrow> payload_value_of ((k, v) # ps) l = payload_value_of ps l"
  by (simp_all add: payload_value_of_def)

lemma read_values:
  "parse_decimal (shw x) = Some (Finite x) \<Longrightarrow> payload_value_of q k = JText (shw x) \<Longrightarrow> required_decimal q k = Inr x"
  "payload_value_of q k = JNumber (int_text n) \<Longrightarrow> required_integer q k = Inr n"
  "payload_value_of q k = JText s \<Longrightarrow> \<not> blank s \<Longrightarrow> py_strip s = s \<Longrightarrow> required_text_of q k = Inr s"
  by (simp_all add: required_decimal_def json_decimal_def required_integer_def required_integer_value_def integer_text_def
      py_int_text required_text_of_def required_text_value_def)

lemma read_optional:
  "(\<And>x. v = Some x \<Longrightarrow> parse_decimal (shw x) = Some (Finite x)) \<Longrightarrow>
     payload_value_of q k = optional_decimal_text shw v \<Longrightarrow> optional_decimal q k = Inr v"
  "payload_value_of q k = (case l of None \<Rightarrow> JNull | Some n \<Rightarrow> JNumber (int_text n)) \<Longrightarrow> optional_integer q k = Inr l"
  "payload_value_of q k = (case s of None \<Rightarrow> JNull | Some t \<Rightarrow> JText (side_value t)) \<Longrightarrow> optional_side q k = Inr s"
proof -
  show "optional_decimal q k = Inr v"
    if "\<And>x. v = Some x \<Longrightarrow> parse_decimal (shw x) = Some (Finite x)" "payload_value_of q k = optional_decimal_text shw v"
    using that by (cases v) (simp_all add: optional_decimal_def optional_decimal_text_def read_values(1))
  show "optional_integer q k = Inr l" if "payload_value_of q k = (case l of None \<Rightarrow> JNull | Some n \<Rightarrow> JNumber (int_text n))"
    using that by (cases l) (simp_all add: optional_integer_def read_values(2))
  have plain: "\<not> blank (side_value t)" "py_strip (side_value t) = side_value t" for t
    by (cases t; simp add: side_value_def blank_def py_strip_def py_space_def Let_def)+
  show "optional_side q k = Inr s" if "payload_value_of q k = (case s of None \<Rightarrow> JNull | Some t \<Rightarrow> JText (side_value t))"
  proof (cases s)
    case (Some t)
    then have "required_text_of q k = Inr (side_value t)" using that plain by (intro read_values(3)) simp_all
    then show ?thesis using Some that by (cases t) (simp_all add: optional_side_def parse_side_def side_value_def)
  qed (use that in \<open>simp add: optional_side_def\<close>)
qed

lemma portfolio_post_init_Inr:
  assumes "portfolio_post_init p = Inr p"
  shows "\<not> blank (vp_portfolio_id p)" "\<not> blank (vp_market p)" "py_strip (vp_market p) = vp_market p"
    "vp_high_watermark_usdt p \<noteq> None" "list_all (\<lambda>c. \<not> fst c) (portfolio_checks p)"
proof -
  have checks: "list_all (\<lambda>c. \<not> fst c) (portfolio_checks p)"
    and same: "p = p\<lparr>vp_market := normal_market (vp_market p), vp_high_watermark_usdt := Some (high_watermark p)\<rparr>"
    using assms by (simp_all add: portfolio_post_init_def)
  show "list_all (\<lambda>c. \<not> fst c) (portfolio_checks p)" by (rule checks)
  show "\<not> blank (vp_portfolio_id p)" "\<not> blank (vp_market p)"
    using checks by (simp_all add: portfolio_checks_def portfolio_balance_checks_def)
  have "vp_market p = py_upper (py_strip (vp_market p))" "vp_high_watermark_usdt p = Some (high_watermark p)"
    using arg_cong [OF same, of vp_market] arg_cong [OF same, of vp_high_watermark_usdt] by (simp_all add: normal_market_def)
  then show "py_strip (vp_market p) = vp_market p" "vp_high_watermark_usdt p \<noteq> None"
    by (metis py_strip_upper py_strip_idem, simp)
qed

lemma payload_lookup:
  shows
    "payload_value_of (portfolio_payload shw p) ''portfolio_id'' = JText (vp_portfolio_id p)"
    "payload_value_of (portfolio_payload shw p) ''market'' = JText (vp_market p)"
    "payload_value_of (portfolio_payload shw p) ''cash_usdt'' = JText (shw (vp_cash_usdt p))"
    "payload_value_of (portfolio_payload shw p) ''equity_usdt'' = JText (shw (vp_equity_usdt p))"
    "payload_value_of (portfolio_payload shw p) ''initial_equity_usdt'' = JText (shw (vp_initial_equity_usdt p))"
    "payload_value_of (portfolio_payload shw p) ''inventory_quantity'' = JText (shw (vp_inventory_quantity p))"
    "payload_value_of (portfolio_payload shw p) ''inventory_cost_basis_usdt'' = JText (shw (vp_inventory_cost_basis_usdt p))"
    "payload_value_of (portfolio_payload shw p) ''realized_pnl_usdt'' = JText (shw (vp_realized_pnl_usdt p))"
    "payload_value_of (portfolio_payload shw p) ''unrealized_pnl_usdt'' = JText (shw (vp_unrealized_pnl_usdt p))"
    "payload_value_of (portfolio_payload shw p) ''fees_paid_usdt'' = JText (shw (vp_fees_paid_usdt p))"
    "payload_value_of (portfolio_payload shw p) ''slippage_cost_usdt'' = JText (shw (vp_slippage_cost_usdt p))"
    "payload_value_of (portfolio_payload shw p) ''funding_cost_usdt'' = JText (shw (vp_funding_cost_usdt p))"
    "payload_value_of (portfolio_payload shw p) ''high_watermark_usdt'' = optional_decimal_text shw (vp_high_watermark_usdt p)"
    "payload_value_of (portfolio_payload shw p) ''max_drawdown_ratio'' = JText (shw (vp_max_drawdown_ratio p))"
    "payload_value_of (portfolio_payload shw p) ''current_open_risk_usdt'' = JText (shw (vp_current_open_risk_usdt p))"
    "payload_value_of (portfolio_payload shw p) ''consecutive_losses'' = JNumber (int_text (vp_consecutive_losses p))"
    "payload_value_of (portfolio_payload shw p) ''position_side'' = (case vp_position_side p of None \<Rightarrow> JNull | Some s \<Rightarrow> JText (side_value s))"
    "payload_value_of (portfolio_payload shw p) ''position_entry_price'' = optional_decimal_text shw (vp_position_entry_price p)"
    "payload_value_of (portfolio_payload shw p) ''position_mark_price'' = optional_decimal_text shw (vp_position_mark_price p)"
    "payload_value_of (portfolio_payload shw p) ''position_notional_usdt'' = optional_decimal_text shw (vp_position_notional_usdt p)"
    "payload_value_of (portfolio_payload shw p) ''isolated_margin_usdt'' = optional_decimal_text shw (vp_isolated_margin_usdt p)"
    "payload_value_of (portfolio_payload shw p) ''initial_margin_usdt'' = optional_decimal_text shw (vp_initial_margin_usdt p)"
    "payload_value_of (portfolio_payload shw p) ''maintenance_margin_usdt'' = optional_decimal_text shw (vp_maintenance_margin_usdt p)"
    "payload_value_of (portfolio_payload shw p) ''liquidation_price'' = optional_decimal_text shw (vp_liquidation_price p)"
    "payload_value_of (portfolio_payload shw p) ''leverage'' = (case vp_leverage p of None \<Rightarrow> JNull | Some n \<Rightarrow> JNumber (int_text n))"
    "payload_value_of (portfolio_payload shw p) ''margin_utilization_ratio'' = optional_decimal_text shw (vp_margin_utilization_ratio p)"
    "payload_value_of (portfolio_payload shw p) ''open_position_count'' = JNumber (int_text (vp_open_position_count p))"
    "payload_value_of (portfolio_payload shw p) ''max_concurrent_positions'' = JNumber (int_text (vp_max_concurrent_positions p))"
  by (simp_all add: portfolio_payload_def payload_value_of_simps)

text \<open>
  C34: a wallet survives its payload. Reading the payload of a validated state gives exactly that state,
  whatever the market and whether or not a position is open, provided that its identifier carries no
  surrounding whitespace and that each of its decimals prints to a text that reads back as itself.
\<close>

theorem portfolio_round_trip:
  assumes "portfolio_post_init p = Inr p" "py_strip (vp_portfolio_id p) = vp_portfolio_id p"
    and "\<forall>x \<in> set (portfolio_decimals p). parse_decimal (shw x) = Some (Finite x)"
  shows "portfolio_from_payload (portfolio_payload shw p) = Inr p"
proof -
  note plain = portfolio_post_init_Inr [OF assms(1)]
  have shown: "parse_decimal (shw x) = Some (Finite x)" if "x \<in> set (portfolio_decimals p)" for x
    using assms(3) that by blast
  note lookup = payload_lookup [of shw p]
  note texts = read_values(3) [OF lookup(1) plain(1) assms(2)] read_values(3) [OF lookup(2) plain(2,3)]
  note ints = read_values(2) [OF lookup(16)] read_values(2) [OF lookup(27)] read_values(2) [OF lookup(28)]
    read_optional(2) [OF lookup(25)] read_optional(3) [OF lookup(17)]
  have decs:
    "required_decimal (portfolio_payload shw p) ''cash_usdt'' = Inr (vp_cash_usdt p)"
    "required_decimal (portfolio_payload shw p) ''equity_usdt'' = Inr (vp_equity_usdt p)"
    "required_decimal (portfolio_payload shw p) ''initial_equity_usdt'' = Inr (vp_initial_equity_usdt p)"
    "required_decimal (portfolio_payload shw p) ''inventory_quantity'' = Inr (vp_inventory_quantity p)"
    "required_decimal (portfolio_payload shw p) ''inventory_cost_basis_usdt'' = Inr (vp_inventory_cost_basis_usdt p)"
    "required_decimal (portfolio_payload shw p) ''realized_pnl_usdt'' = Inr (vp_realized_pnl_usdt p)"
    "required_decimal (portfolio_payload shw p) ''unrealized_pnl_usdt'' = Inr (vp_unrealized_pnl_usdt p)"
    "required_decimal (portfolio_payload shw p) ''fees_paid_usdt'' = Inr (vp_fees_paid_usdt p)"
    "required_decimal (portfolio_payload shw p) ''slippage_cost_usdt'' = Inr (vp_slippage_cost_usdt p)"
    "required_decimal (portfolio_payload shw p) ''funding_cost_usdt'' = Inr (vp_funding_cost_usdt p)"
    "required_decimal (portfolio_payload shw p) ''max_drawdown_ratio'' = Inr (vp_max_drawdown_ratio p)"
    "required_decimal (portfolio_payload shw p) ''current_open_risk_usdt'' = Inr (vp_current_open_risk_usdt p)"
    by (rule read_values(1) [OF shown], simp add: portfolio_decimals_def, rule lookup)+
  have opts:
    "optional_decimal (portfolio_payload shw p) ''high_watermark_usdt'' = Inr (vp_high_watermark_usdt p)"
    "optional_decimal (portfolio_payload shw p) ''position_entry_price'' = Inr (vp_position_entry_price p)"
    "optional_decimal (portfolio_payload shw p) ''position_mark_price'' = Inr (vp_position_mark_price p)"
    "optional_decimal (portfolio_payload shw p) ''position_notional_usdt'' = Inr (vp_position_notional_usdt p)"
    "optional_decimal (portfolio_payload shw p) ''isolated_margin_usdt'' = Inr (vp_isolated_margin_usdt p)"
    "optional_decimal (portfolio_payload shw p) ''initial_margin_usdt'' = Inr (vp_initial_margin_usdt p)"
    "optional_decimal (portfolio_payload shw p) ''maintenance_margin_usdt'' = Inr (vp_maintenance_margin_usdt p)"
    "optional_decimal (portfolio_payload shw p) ''liquidation_price'' = Inr (vp_liquidation_price p)"
    "optional_decimal (portfolio_payload shw p) ''margin_utilization_ratio'' = Inr (vp_margin_utilization_ratio p)"
    by (rule read_optional(1) [OF shown], simp add: portfolio_decimals_def, rule lookup)+
  show ?thesis
    unfolding portfolio_from_payload_def texts ints decs opts bindE_simps using assms(1) by (cases p) simp
qed

definition example_wallet :: virtual_portfolio where
  "example_wallet =
     \<lparr>vp_portfolio_id = ''virtual-spot'', vp_market = ''SPOT'', vp_cash_usdt = 1000, vp_equity_usdt = 1000,
      vp_initial_equity_usdt = 1000, vp_inventory_quantity = 0, vp_inventory_cost_basis_usdt = 0,
      vp_realized_pnl_usdt = 0, vp_unrealized_pnl_usdt = 0, vp_fees_paid_usdt = 0,
      vp_slippage_cost_usdt = 0, vp_funding_cost_usdt = 0, vp_high_watermark_usdt = Some 1000,
      vp_max_drawdown_ratio = 0, vp_current_open_risk_usdt = 0, vp_consecutive_losses = 0,
      vp_position_side = None, vp_position_entry_price = None, vp_position_mark_price = None,
      vp_position_notional_usdt = None, vp_isolated_margin_usdt = None, vp_initial_margin_usdt = None,
      vp_maintenance_margin_usdt = None, vp_liquidation_price = None, vp_leverage = None,
      vp_margin_utilization_ratio = None, vp_open_position_count = 0, vp_max_concurrent_positions = 1\<rparr>"

definition example_shown :: "dec \<Rightarrow> string" where
  "example_shown x = (if x = 1000 then ''1000'' else ''0'')"

lemma example_wallet_ok: "portfolio_post_init example_wallet = Inr example_wallet"
  by code_simp

theorem portfolio_round_trip_witness:
  "portfolio_from_payload (portfolio_payload example_shown example_wallet) = Inr example_wallet"
proof (rule portfolio_round_trip [OF example_wallet_ok])
  show "py_strip (vp_portfolio_id example_wallet) = vp_portfolio_id example_wallet" by code_simp
  have "set (portfolio_decimals example_wallet) \<subseteq> {0, 1000}"
    by (simp add: portfolio_decimals_def example_wallet_def)
  moreover have "parse_decimal (example_shown 0) = Some (Finite 0)" "parse_decimal (example_shown 1000) = Some (Finite 1000)"
    by code_simp+
  ultimately show "\<forall>x \<in> set (portfolio_decimals example_wallet). parse_decimal (example_shown x) = Some (Finite x)"
    by blast
qed

end
