(* ===== verification/Virtual_Fill.thy ===== *)
theory Virtual_Fill
  imports Futures_Leverage Virtual_Portfolio Virtual_Eligibility
begin

text \<open>
  From a virtual request to its simulated fill: \<^verbatim>\<open>domain/research/liquidity.py\<close>, the request of
  \<^verbatim>\<open>domain/research/virtual_runtime_request.py\<close>, the trade intent of
  \<^verbatim>\<open>domain/research/virtual_runtime_trade_intent.py\<close>, and the fill preview of
  \<^verbatim>\<open>application/virtual_runtime_portfolio.py\<close>. The decimals of a request are finite: its first check refuses
  others, and a leverage that is not an integer. Tick and step size come with the exponent of their
  representation (-8 for \<^verbatim>\<open>0.00000001\<close>, -1 for \<^verbatim>\<open>0.5\<close>), because \<^verbatim>\<open>quantize\<close> reads nothing else.
\<close>

section \<open>Rounding to an exponent\<close>

definition d_round_up :: "dec \<Rightarrow> dec" where
  "d_round_up x = (if 0 \<le> x then of_int \<lceil>x\<rceil> else - of_int \<lceil>- x\<rceil>)"

lemma d_round_up_code [code]:
  "d_round_up x = (if 0 \<le> x then of_int (- \<lfloor>- x\<rfloor>) else - of_int (- \<lfloor>x\<rfloor>))"
  by (simp add: d_round_up_def ceiling_def)

text \<open>\<^verbatim>\<open>x.quantize(exp, rounding)\<close>: it signals when the coefficient of the result needs more than 28 digits.\<close>

definition d_quantize :: "(dec \<Rightarrow> dec) \<Rightarrow> dec \<Rightarrow> int \<Rightarrow> dec result" where
  "d_quantize rounding x e =
     (let c = rounding (x / 10 powi e)
      in if 10 ^ 28 \<le> \<bar>c\<bar> then Inl InvalidOperation else Inr (c * 10 powi e))"

record stepped =
  st_value :: dec
  st_exponent :: int

definition round_quantity :: "dec \<Rightarrow> stepped \<Rightarrow> dec result" where
  "round_quantity quantity step_size = d_quantize d_trunc quantity (st_exponent step_size)"

definition round_price :: "dec \<Rightarrow> stepped \<Rightarrow> action \<Rightarrow> dec result" where
  "round_price price tick_size act =
     d_quantize (if act = BUY then d_round_up else d_trunc) price (st_exponent tick_size)"

section \<open>Liquidity\<close>

record liquidity_config =
  lq_max_volume_participation :: dec
  lq_minimum_fill_ratio :: dec
  lq_impact_ratio :: dec
  lq_maximum_impact_ratio :: dec

definition default_liquidity :: liquidity_config where
  "default_liquidity = \<lparr>lq_max_volume_participation = 1 / 100, lq_minimum_fill_ratio = 1 / 4,
     lq_impact_ratio = 1 / 1000, lq_maximum_impact_ratio = 1 / 100\<rparr>"

definition liquidity_config_post_init :: "liquidity_config \<Rightarrow> liquidity_config result" where
  "liquidity_config_post_init c =
     validate
       [(list_ex (\<lambda>x. x < 0) [lq_max_volume_participation c, lq_minimum_fill_ratio c, lq_impact_ratio c,
           lq_maximum_impact_ratio c], ''liquidity stress ratios must be finite and non-negative''),
        (\<not> (0 < lq_max_volume_participation c \<and> lq_max_volume_participation c \<le> 1),
         ''maximum volume participation must be in (0, 1]''),
        (\<not> (0 < lq_minimum_fill_ratio c \<and> lq_minimum_fill_ratio c \<le> 1), ''minimum fill ratio must be in (0, 1]''),
        (lq_impact_ratio c > lq_maximum_impact_ratio c, ''base impact cannot exceed maximum impact'')] c"

record liquidity_fill =
  lf_requested_quantity :: dec
  lf_filled_quantity :: dec
  lf_remaining_quantity :: dec
  lf_fill_ratio :: dec
  lf_price_impact_ratio :: dec
  lf_blockers :: "string list"

definition assess_liquidity_fill :: "dec \<Rightarrow> dec \<Rightarrow> liquidity_config \<Rightarrow> liquidity_fill result" where
  "assess_liquidity_fill requested volume c =
     (if requested \<le> 0 then Inl (ValueError ''requested fill quantity must be finite and positive'')
      else if volume < 0 then Inl (ValueError ''candle volume must be finite and non-negative'')
      else
        let capacity = d_mul volume (lq_max_volume_participation c);
            filled = min requested capacity;
            ratio = d_quot filled requested;
            utilization = (if capacity > 0 then d_quot filled capacity else 0)
        in Inr \<lparr>lf_requested_quantity = requested, lf_filled_quantity = filled,
                lf_remaining_quantity = d_sub requested filled, lf_fill_ratio = ratio,
                lf_price_impact_ratio = min (lq_maximum_impact_ratio c) (d_mul (lq_impact_ratio c) utilization),
                lf_blockers = (if filled \<le> 0 then [''LIQUIDITY_FILL_UNAVAILABLE'']
                   else flag_if (ratio < lq_minimum_fill_ratio c) ''LIQUIDITY_PARTIAL_FILL_BELOW_MINIMUM'')\<rparr>)"

section \<open>Requests\<close>

record governance_result =
  vg_decision_id :: string
  vg_status :: string
  vg_blockers :: "string list"
  vg_simulation_allowed :: bool
  vg_execution_allowed :: bool
  vg_promotion_status :: string
  vg_live_eligibility_status :: string

definition governance_result_post_init :: "governance_result \<Rightarrow> governance_result result" where
  "governance_result_post_init r =
     validate
       [(blank (vg_decision_id r) \<or> blank (vg_status r), ''virtual governance result identity is required''),
        (list_ex blank (vg_blockers r), ''virtual governance result blockers cannot be blank''),
        (\<not> distinct (vg_blockers r), ''virtual governance result blockers must be unique''),
        (vg_simulation_allowed r \<and> vg_status r \<noteq> ''APPROVED_PAPER_ONLY'',
         ''virtual governance simulation requires approved paper-only status''),
        (vg_execution_allowed r \<or> vg_promotion_status r \<noteq> ''RESEARCH_ONLY''
           \<or> vg_live_eligibility_status r \<noteq> live_blocked,
         ''virtual governance result cannot authorize live execution'')] r"

record virtual_request =
  vr_snapshot_id :: string
  vr_decision_id :: string
  vr_candidate_id :: string
  vr_symbol :: string
  vr_market :: string
  vr_action :: action
  vr_quantity :: dec
  vr_entry_price :: dec
  vr_stop_loss :: dec
  vr_take_profit_levels :: "dec list"
  vr_portfolio :: virtual_portfolio
  vr_opportunity_id :: string
  vr_fee_ratio :: dec
  vr_slippage_ratio :: dec
  vr_half_spread_ratio :: dec
  vr_tick_size :: stepped
  vr_step_size :: stepped
  vr_minimum_notional :: dec
  vr_candle_volume :: "dec option"
  vr_liquidity_stress :: liquidity_config
  vr_strategy_id :: string
  vr_strategy_version :: string
  vr_strategy_config_version :: string
  vr_strategy_config_hash :: string
  vr_regime :: string
  vr_timeframe :: string
  vr_correlation_group :: string
  vr_current_exposures :: "position_exposure list"
  vr_portfolio_governor :: portfolio_governor
  vr_position_side :: "position_side option"
  vr_mark_price :: "dec option"
  vr_funding_rate :: "dec option"
  vr_funding_payment_due :: bool
  vr_leverage :: "int option"
  vr_isolated_margin_usdt :: "dec option"
  vr_maintenance_margin_ratio :: "dec option"
  vr_liquidation_fee_ratio :: dec
  vr_execution_surface :: execution_surface
  vr_analysis_blockers :: "string list"
  vr_candidate_blockers :: "string list"
  vr_risk_blockers :: "string list"
  vr_validation_blockers :: "string list"
  vr_dge_blockers :: "string list"
  vr_dge_decision :: string
  vr_dge_simulation_allowed :: bool
  vr_dge_evaluation :: "governance_result option"
  vr_risk_policy_version :: string
  vr_validation_version :: string
  vr_entry_reason :: "string list"
  vr_parameter_methods :: trade_methods
  vr_decision_evidence :: decision_evidence
  vr_require_structural_margin_proof :: bool
  vr_structural_margin_context :: "(string \<times> json) list option"
  vr_structural_risk_budget_usdt :: "dec option"
  vr_planned_rr :: "dec option"

definition request_identity :: "virtual_request \<Rightarrow> string list" where
  "request_identity r =
     [vr_snapshot_id r, vr_decision_id r, vr_candidate_id r, vr_symbol r, vr_market r, vr_strategy_id r,
      vr_strategy_version r, vr_strategy_config_version r, vr_strategy_config_hash r, vr_regime r, vr_timeframe r,
      vr_correlation_group r, vr_dge_decision r, vr_risk_policy_version r, vr_validation_version r, vr_opportunity_id r]"

definition unique_checks :: "string \<Rightarrow> string list \<Rightarrow> (bool \<times> string) list" where
  "unique_checks name values =
     [(list_ex blank values, name @ '' cannot contain blank values''), (\<not> distinct values, name @ '' must be unique'')]"

definition evaluation_mismatch :: "virtual_request \<Rightarrow> bool" where
  "evaluation_mismatch r \<longleftrightarrow>
     (case vr_dge_evaluation r of
        None \<Rightarrow> False
      | Some e \<Rightarrow> vg_decision_id e \<noteq> vr_decision_id r \<or> vg_status e \<noteq> vr_dge_decision r
          \<or> vg_simulation_allowed e \<noteq> vr_dge_simulation_allowed r \<or> vg_blockers e \<noteq> vr_dge_blockers r)"

definition ratio_outside :: "dec \<Rightarrow> dec \<Rightarrow> bool" where
  "ratio_outside x hi \<longleftrightarrow> \<not> (0 \<le> x \<and> x \<le> hi)"

definition given_and :: "(dec \<Rightarrow> bool) \<Rightarrow> dec option \<Rightarrow> bool" where
  "given_and bad v \<longleftrightarrow> (case v of None \<Rightarrow> False | Some x \<Rightarrow> bad x)"

definition request_checks :: "virtual_request \<Rightarrow> (bool \<times> string) list" where
  "request_checks r =
     (given_and (\<lambda>x. x < 0) (vr_structural_risk_budget_usdt r), ''structural risk budget must be finite and nonnegative'')
     # (list_ex blank (request_identity r), ''virtual runtime request identity is required'')
     # unique_checks ''virtual runtime request entry reason'' (vr_entry_reason r)
     @ unique_checks ''virtual runtime request DGE blockers'' (vr_dge_blockers r)
     @ [(evaluation_mismatch r, ''virtual runtime DGE evaluation does not match request''),
        (vr_quantity r \<le> 0 \<or> vr_entry_price r \<le> 0 \<or> vr_stop_loss r \<le> 0,
         ''virtual runtime request geometry must be positive''),
        (vr_take_profit_levels r = [], ''virtual runtime request requires take-profit evidence''),
        (ratio_outside (vr_fee_ratio r) (1 / 100), ''virtual runtime request fee ratio must stay between zero and 0.01''),
        (ratio_outside (vr_slippage_ratio r) (2 / 100),
         ''virtual runtime request slippage ratio must stay between zero and 0.02''),
        (ratio_outside (vr_half_spread_ratio r) (2 / 100),
         ''virtual runtime request half spread ratio must stay between zero and 0.02''),
        (st_value (vr_tick_size r) \<le> 0, ''virtual runtime request tick size must be positive''),
        (st_value (vr_step_size r) \<le> 0, ''virtual runtime request step size must be positive''),
        (vr_minimum_notional r \<le> 0, ''virtual runtime request minimum notional must be positive''),
        (given_and (\<lambda>x. x < 0) (vr_candle_volume r),
         ''virtual runtime request candle volume must be finite and non-negative''),
        (given_and (\<lambda>x. x \<le> 0) (vr_mark_price r), ''virtual runtime request mark price must be positive''),
        ((case vr_leverage r of None \<Rightarrow> False | Some l \<Rightarrow> l < 1), ''virtual runtime request leverage must be positive''),
        (given_and (\<lambda>x. x \<le> 0) (vr_isolated_margin_usdt r), ''virtual runtime request isolated margin must be positive''),
        (given_and (\<lambda>x. \<not> (0 < x \<and> x < 1)) (vr_maintenance_margin_ratio r),
         ''virtual runtime request maintenance margin ratio must stay within zero and one''),
        (ratio_outside (vr_liquidation_fee_ratio r) (2 / 100), ''virtual runtime request liquidation fee ratio is invalid''),
        (normal_market (vr_market r) \<notin> {''SPOT'', ''USD_M_FUTURES''},
         ''virtual runtime request market must be SPOT or USD_M_FUTURES''),
        (normal_market (vr_market r) \<noteq> vp_market (vr_portfolio r),
         ''virtual runtime request market must match portfolio market'')]"

definition planned_rr_of :: "virtual_request \<Rightarrow> dec option" where
  "planned_rr_of r =
     (let sign = (if vr_action r = BUY then 1 else - 1);
          risk = d_mul sign (d_sub (vr_entry_price r) (vr_stop_loss r));
          reward = (case vr_take_profit_levels r of [] \<Rightarrow> 0 | t # _ \<Rightarrow> d_mul sign (d_sub t (vr_entry_price r)))
      in if risk > 0 then Some (d_quot reward risk) else None)"

definition dge_approved :: "virtual_request \<Rightarrow> bool" where
  "dge_approved r \<longleftrightarrow> vr_execution_surface r = VIRTUAL_MARKET \<and> vr_dge_decision r = ''APPROVED_PAPER_ONLY''
     \<and> vr_dge_simulation_allowed r \<and> vr_dge_blockers r = []"

definition request_post_init :: "virtual_request \<Rightarrow> virtual_request result" where
  "request_post_init r0 =
     (let r = r0\<lparr>vr_planned_rr := planned_rr_of r0,
                 vr_opportunity_id := (if blank (vr_opportunity_id r0) then ''opportunity:'' @ vr_candidate_id r0
                                       else vr_opportunity_id r0)\<rparr>
      in validate (request_checks r)
           (r\<lparr>vr_market := normal_market (vr_market r),
              vr_dge_blockers := (if dge_approved r then vr_dge_blockers r
                 else dict_fromkeys (vr_dge_blockers r @ [''DGE_SIMULATION_NOT_APPROVED'']))\<rparr>))"

section \<open>Fill previews\<close>

record fill_preview =
  fp_requested_quantity :: dec
  fp_filled_quantity :: dec
  fp_remaining_quantity :: dec
  fp_fill_ratio :: dec
  fp_execution_price :: dec
  fp_gross_notional_usdt :: dec
  fp_fee_usdt :: dec
  fp_slippage_cost_usdt :: dec
  fp_price_impact_ratio :: dec
  fp_reason_codes :: "string list"
  fp_blockers :: "string list"

definition fill_preview_post_init :: "fill_preview \<Rightarrow> fill_preview result" where
  "fill_preview_post_init f =
     bindE (require_unique (''virtual fill preview reason codes'', fp_reason_codes f)) (\<lambda>_.
     bindE (require_unique (''virtual fill preview blockers'', fp_blockers f)) (\<lambda>_. Inr f))"

text \<open>The preview of a request that nothing fills.\<close>

definition unfilled_preview :: "virtual_request \<Rightarrow> dec \<Rightarrow> string list \<Rightarrow> string list \<Rightarrow> fill_preview result" where
  "unfilled_preview r impact reasons blockers =
     fill_preview_post_init
       \<lparr>fp_requested_quantity = vr_quantity r, fp_filled_quantity = 0, fp_remaining_quantity = vr_quantity r,
        fp_fill_ratio = 0, fp_execution_price = vr_entry_price r, fp_gross_notional_usdt = 0, fp_fee_usdt = 0,
        fp_slippage_cost_usdt = 0, fp_price_impact_ratio = impact, fp_reason_codes = dict_fromkeys reasons,
        fp_blockers = dict_fromkeys blockers\<rparr>"

text \<open>The quantity the candle's volume lets through, its impact, and the codes it adds.\<close>

definition liquid_fill :: "virtual_request \<Rightarrow> dec \<Rightarrow> (dec \<times> dec \<times> string list \<times> string list) result" where
  "liquid_fill r rounded =
     (case vr_candle_volume r of
        None \<Rightarrow> Inr (rounded, 0, [], [])
      | Some volume \<Rightarrow>
          bindE (assess_liquidity_fill rounded volume (vr_liquidity_stress r)) (\<lambda>lq.
          bindE (round_quantity (lf_filled_quantity lq) (vr_step_size r)) (\<lambda>filled.
            Inr (filled, lf_price_impact_ratio lq, lf_blockers lq,
                 flag_if (0 < filled \<and> filled < rounded \<and> lf_blockers lq = []) ''ENTRY_PARTIALLY_FILLED''))))"

definition adjusted_price :: "virtual_request \<Rightarrow> dec \<Rightarrow> dec" where
  "adjusted_price r impact =
     (let adjustment = d_add (d_add (vr_slippage_ratio r) (vr_half_spread_ratio r)) impact
      in d_mul (vr_entry_price r) (if vr_action r = BUY then d_add 1 adjustment else d_sub 1 adjustment))"

definition filled_preview :: "virtual_request \<Rightarrow> dec \<Rightarrow> dec \<Rightarrow> dec \<Rightarrow> string list \<Rightarrow> string list \<Rightarrow> fill_preview result" where
  "filled_preview r filled price impact blockers reasons =
     (let gross = d_mul price filled
      in fill_preview_post_init
           \<lparr>fp_requested_quantity = vr_quantity r, fp_filled_quantity = filled,
            fp_remaining_quantity = d_sub (vr_quantity r) filled, fp_fill_ratio = d_quot filled (vr_quantity r),
            fp_execution_price = price, fp_gross_notional_usdt = gross, fp_fee_usdt = d_mul gross (vr_fee_ratio r),
            fp_slippage_cost_usdt = d_mul (d_abs (d_sub price (vr_entry_price r))) filled,
            fp_price_impact_ratio = impact, fp_reason_codes = dict_fromkeys reasons,
            fp_blockers = dict_fromkeys
              (blockers @ flag_if (gross < vr_minimum_notional r) ''MIN_NOTIONAL_NOT_REACHED'')\<rparr>)"

definition build_fill_preview :: "virtual_request \<Rightarrow> fill_preview result" where
  "build_fill_preview r =
     bindE (round_quantity (vr_quantity r) (vr_step_size r)) (\<lambda>rounded.
       if rounded \<le> 0 then unfilled_preview r 0 [] [''STEP_SIZE_ROUNDED_TO_ZERO'']
       else bindE (liquid_fill r rounded) (\<lambda>(filled, impact, blockers, reasons).
         if filled \<le> 0 then unfilled_preview r impact reasons (blockers @ [''LIQUIDITY_FILL_UNAVAILABLE''])
         else bindE (round_price (adjusted_price r impact) (vr_tick_size r) (vr_action r)) (\<lambda>price.
           filled_preview r filled price impact blockers reasons)))"

section \<open>Trade intents\<close>

record trade_intent =
  ti_snapshot_id :: string
  ti_decision_id :: string
  ti_candidate_id :: string
  ti_symbol :: string
  ti_market :: string
  ti_action :: action
  ti_quantity :: dec
  ti_entry_price :: dec
  ti_stop_loss :: dec
  ti_take_profit_levels :: "dec list"
  ti_reason_codes :: "string list"
  ti_opportunity_id :: string
  ti_position_side :: "position_side option"
  ti_blockers :: "string list"

definition trade_intent_post_init :: "trade_intent \<Rightarrow> trade_intent result" where
  "trade_intent_post_init t =
     (if list_ex blank [ti_snapshot_id t, ti_decision_id t, ti_candidate_id t, ti_symbol t, ti_market t, ti_opportunity_id t]
      then Inl (ValueError ''virtual trade intent identity is required'')
      else
     bindE (require_unique (''virtual trade intent reason codes'', ti_reason_codes t)) (\<lambda>_.
     bindE (require_unique (''virtual trade intent blockers'', ti_blockers t)) (\<lambda>_.
     validate
       [(ti_action t \<notin> {BUY, SELL}, ''virtual trade intent action must be BUY or SELL''),
        (normal_market (ti_market t) \<notin> {''SPOT'', ''USD_M_FUTURES''},
         ''virtual trade intent market must be SPOT or USD_M_FUTURES''),
        (normal_market (ti_market t) = ''USD_M_FUTURES'' \<and> ti_position_side t = None,
         ''futures virtual trade intent requires explicit direction''),
        (ti_blockers t = [] \<and> (ti_quantity t \<le> 0 \<or> ti_entry_price t \<le> 0 \<or> ti_stop_loss t \<le> 0
           \<or> ti_take_profit_levels t = []), ''fillable virtual trade intent requires positive geometry'')]
       (t\<lparr>ti_market := normal_market (ti_market t)\<rparr>))))"

section \<open>Bounds of a fill\<close>

lemma ten_powi_pos: "0 < (10 :: rat) powi e"
  by (simp add: power_int_def)

lemma quantize_down:
  assumes "d_quantize d_trunc x e = Inr y" "0 \<le> x"
  shows "0 \<le> y" "y \<le> x" "x < y + 10 powi e" "\<exists>k :: int. y = of_int k * 10 powi e"
proof -
  have y: "y = of_int \<lfloor>x / 10 powi e\<rfloor> * 10 powi e"
    using assms ten_powi_pos [of e] by (auto simp: d_quantize_def d_trunc_def Let_def split: if_splits)
  have "0 \<le> x / 10 powi e" using assms(2) ten_powi_pos [of e] by simp
  then show "0 \<le> y" unfolding y using ten_powi_pos [of e] by simp
  have "of_int \<lfloor>x / 10 powi e\<rfloor> \<le> x / 10 powi e" "x / 10 powi e < of_int \<lfloor>x / 10 powi e\<rfloor> + 1" by linarith+
  then show "y \<le> x" "x < y + 10 powi e"
    unfolding y pos_le_divide_eq [OF ten_powi_pos] pos_divide_less_eq [OF ten_powi_pos] by (simp_all add: distrib_right)
  show "\<exists>k :: int. y = of_int k * 10 powi e" using y by blast
qed

lemma quantize_up:
  assumes "d_quantize d_round_up x e = Inr y" "0 \<le> x"
  shows "x \<le> y"
proof -
  have y: "y = of_int \<lceil>x / 10 powi e\<rceil> * 10 powi e"
    using assms ten_powi_pos [of e] by (auto simp: d_quantize_def d_round_up_def Let_def split: if_splits)
  have "x / 10 powi e \<le> of_int \<lceil>x / 10 powi e\<rceil>" by linarith
  then show ?thesis unfolding y pos_divide_le_eq [OF ten_powi_pos] .
qed

lemma fill_preview_post_init_Inr: "fill_preview_post_init f = Inr g \<Longrightarrow> g = f"
  by (auto simp: fill_preview_post_init_def bindE_eq_Inr)

lemma liquidity_fill_bounds:
  assumes "assess_liquidity_fill q v c = Inr l" "0 < lq_max_volume_participation c"
  shows "0 \<le> lf_filled_quantity l" "lf_filled_quantity l \<le> q" "lf_filled_quantity l \<le> d_mul v (lq_max_volume_participation c)"
  using assms by (auto simp: assess_liquidity_fill_def Let_def d_mul_nonneg split: if_splits)

lemma liquidity_impact_bounds:
  assumes "assess_liquidity_fill q v c = Inr l" "0 < lq_max_volume_participation c" "0 \<le> lq_impact_ratio c" "0 \<le> lq_maximum_impact_ratio c"
  shows "0 \<le> lf_price_impact_ratio l" "lf_price_impact_ratio l \<le> lq_maximum_impact_ratio c"
  using assms
  by (auto simp: assess_liquidity_fill_def Let_def split: if_splits intro!: d_mul_nonneg d_quot_nonneg)

lemma request_post_init_Inr:
  assumes "request_post_init r0 = Inr r"
  shows "0 < vr_quantity r" "0 < vr_entry_price r" "0 < vr_stop_loss r" "0 \<le> vr_slippage_ratio r" "0 \<le> vr_half_spread_ratio r"
    "0 \<le> vr_fee_ratio r" "vr_market r = vp_market (vr_portfolio r)" "vr_market r \<in> {''SPOT'', ''USD_M_FUTURES''}"
    "vr_dge_blockers r = [] \<Longrightarrow> dge_approved r"
  using assms
  by (auto simp: request_post_init_def Let_def request_checks_def unique_checks_def ratio_outside_def dge_approved_def
      normal_market_def split: if_splits)

lemma d_trunc_nonpos: "x \<le> 0 \<Longrightarrow> d_trunc x \<le> 0"
  by (auto simp: d_trunc_def)

lemma round_price_adverse:
  assumes "round_price x tick act = Inr y" "0 < e"
  shows "act = BUY \<Longrightarrow> e \<le> x \<Longrightarrow> e \<le> y" "act \<noteq> BUY \<Longrightarrow> x \<le> e \<Longrightarrow> y \<le> e"
proof -
  show "e \<le> y" if "act = BUY" "e \<le> x"
    using quantize_up [of x "st_exponent tick" y] assms that by (simp add: round_price_def)
  show "y \<le> e" if "act \<noteq> BUY" "x \<le> e"
  proof (cases "0 \<le> x")
    case True
    then show ?thesis using quantize_down(2) [of x "st_exponent tick" y] assms that by (simp add: round_price_def)
  next
    case False
    have "d_trunc (x / 10 powi st_exponent tick) \<le> 0"
      using False ten_powi_pos [of "st_exponent tick"] by (intro d_trunc_nonpos) (simp add: divide_nonpos_pos)
    then have "y \<le> 0"
      using assms(1) that ten_powi_pos [of "st_exponent tick"]
      by (auto simp: round_price_def d_quantize_def Let_def mult_nonpos_nonneg split: if_splits)
    then show ?thesis using assms(2) by simp
  qed
qed

lemma adjusted_price_adverse:
  assumes "request_post_init r0 = Inr r" "dround (vr_entry_price r) = vr_entry_price r" "0 \<le> impact"
  shows "vr_action r = BUY \<Longrightarrow> vr_entry_price r \<le> adjusted_price r impact"
    "vr_action r \<noteq> BUY \<Longrightarrow> adjusted_price r impact \<le> vr_entry_price r"
proof -
  note r = request_post_init_Inr [OF assms(1)]
  let ?a = "d_add (d_add (vr_slippage_ratio r) (vr_half_spread_ratio r)) impact"
  have a: "0 \<le> ?a" using r(4,5) assms(3) by (intro d_add_nonneg)
  have "1 \<le> d_add 1 ?a" "d_sub 1 ?a \<le> 1" using a by (simp_all add: d_add_ge_self d_sub_le_self)
  then have "vr_entry_price r \<le> vr_entry_price r * d_add 1 ?a" "vr_entry_price r * d_sub 1 ?a \<le> vr_entry_price r"
    using r(2) by (simp_all add: mult_left_le)
  then show "vr_action r = BUY \<Longrightarrow> vr_entry_price r \<le> adjusted_price r impact"
    "vr_action r \<noteq> BUY \<Longrightarrow> adjusted_price r impact \<le> vr_entry_price r"
    using ctx.rnd_ge_rep [OF assms(2)] ctx.rnd_le_rep [OF assms(2)]
    by (simp_all add: adjusted_price_def Let_def d_mul_def)
qed

definition liquidity_ok :: "liquidity_config \<Rightarrow> bool" where
  "liquidity_ok c \<longleftrightarrow> liquidity_config_post_init c = Inr c"

lemma liquid_fill_bounds:
  assumes "liquid_fill r q = Inr (filled, impact, blockers, reasons)" "liquidity_ok (vr_liquidity_stress r)"
    and "0 < q" "\<exists>k :: int. q = of_int k * 10 powi st_exponent (vr_step_size r)"
  shows "0 \<le> filled" "filled \<le> q" "\<exists>k :: int. filled = of_int k * 10 powi st_exponent (vr_step_size r)" "0 \<le> impact"
    "vr_candle_volume r = Some v \<Longrightarrow> filled \<le> d_mul v (lq_max_volume_participation (vr_liquidity_stress r))"
proof -
  have config: "0 < lq_max_volume_participation (vr_liquidity_stress r)" "0 \<le> lq_impact_ratio (vr_liquidity_stress r)"
    "0 \<le> lq_maximum_impact_ratio (vr_liquidity_stress r)"
    using assms(2) by (auto simp: liquidity_ok_def liquidity_config_post_init_def)
  have "0 \<le> filled \<and> filled \<le> q \<and> (\<exists>k :: int. filled = of_int k * 10 powi st_exponent (vr_step_size r)) \<and> 0 \<le> impact
    \<and> (\<forall>v. vr_candle_volume r = Some v \<longrightarrow> filled \<le> d_mul v (lq_max_volume_participation (vr_liquidity_stress r)))"
  proof (cases "vr_candle_volume r")
    case None
    then show ?thesis using assms by (simp add: liquid_fill_def)
  next
    case (Some w)
    then obtain lq where lq: "assess_liquidity_fill q w (vr_liquidity_stress r) = Inr lq"
      and filled: "round_quantity (lf_filled_quantity lq) (vr_step_size r) = Inr filled" and impact: "impact = lf_price_impact_ratio lq"
      using assms(1) by (auto simp: liquid_fill_def bindE_eq_Inr)
    note bounds = liquidity_fill_bounds [OF lq config(1)]
    note rounded = quantize_down [OF filled [unfolded round_quantity_def] bounds(1)]
    show ?thesis
      using bounds rounded liquidity_impact_bounds(1) [OF lq config] Some impact by auto
  qed
  then show "0 \<le> filled" "filled \<le> q" "\<exists>k :: int. filled = of_int k * 10 powi st_exponent (vr_step_size r)" "0 \<le> impact"
    "vr_candle_volume r = Some v \<Longrightarrow> filled \<le> d_mul v (lq_max_volume_participation (vr_liquidity_stress r))"
    by auto
qed

text \<open>
  The three ways a preview comes about: the requested quantity rounds to nothing, nothing of it is
  filled, or a positive quantity is filled at the adjusted price.
\<close>

lemma build_fill_preview_cases:
  assumes "build_fill_preview r = Inr f" "0 < vr_quantity r"
  obtains (none) "fp_filled_quantity f = 0" "fp_blockers f \<noteq> []" "fp_gross_notional_usdt f = 0"
  | (filled) q filled impact blockers reasons price where
      "round_quantity (vr_quantity r) (vr_step_size r) = Inr q" "0 < q" "liquid_fill r q = Inr (filled, impact, blockers, reasons)"
      "0 < filled" "round_price (adjusted_price r impact) (vr_tick_size r) (vr_action r) = Inr price"
      "fp_filled_quantity f = filled" "fp_execution_price f = price" "fp_gross_notional_usdt f = d_mul price filled"
      "fp_fee_usdt f = d_mul (d_mul price filled) (vr_fee_ratio r)"
      "fp_blockers f = dict_fromkeys (blockers @ flag_if (d_mul price filled < vr_minimum_notional r) ''MIN_NOTIONAL_NOT_REACHED'')"
proof -
  obtain q where q: "round_quantity (vr_quantity r) (vr_step_size r) = Inr q"
    using assms(1) by (auto simp: build_fill_preview_def bindE_eq_Inr)
  show thesis
  proof (cases "q \<le> 0")
    case True
    then show ?thesis
      using assms(1) q fill_preview_post_init_Inr [of _ f]
      by (intro none) (auto simp: build_fill_preview_def unfilled_preview_def dest!: fill_preview_post_init_Inr)
  next
    case False
    then obtain filled impact blockers reasons where liquid: "liquid_fill r q = Inr (filled, impact, blockers, reasons)"
      using assms(1) q by (auto simp: build_fill_preview_def bindE_eq_Inr)
    show ?thesis
    proof (cases "filled \<le> 0")
      case True
      then show ?thesis
        using assms(1) q liquid False
        by (intro none) (auto simp: build_fill_preview_def unfilled_preview_def dest!: fill_preview_post_init_Inr)
    next
      case pos: False
      then obtain price where "round_price (adjusted_price r impact) (vr_tick_size r) (vr_action r) = Inr price"
        and "filled_preview r filled price impact blockers reasons = Inr f"
        using assms(1) q liquid False by (auto simp: build_fill_preview_def bindE_eq_Inr)
      then show ?thesis
        using q liquid False pos by (intro filled) (auto simp: filled_preview_def Let_def dest!: fill_preview_post_init_Inr)
    qed
  qed
qed


text \<open>A step that is not a power of ten is not respected: only its exponent counts.\<close>

lemma step_size_not_respected:
  "round_quantity (13 / 10) \<lparr>st_value = 5 / 10, st_exponent = - 1\<rparr> = Inr (13 / 10)" "\<nexists>k :: int. (13 / 10 :: dec) = of_int k * (5 / 10)"
proof -
  show "round_quantity (13 / 10) \<lparr>st_value = 5 / 10, st_exponent = - 1\<rparr> = Inr (13 / 10)" by code_simp
  show "\<nexists>k :: int. (13 / 10 :: dec) = of_int k * (5 / 10)"
  proof
    assume "\<exists>k :: int. (13 / 10 :: dec) = of_int k * (5 / 10)"
    then obtain k :: int where "(13 / 10 :: dec) = of_int k * (5 / 10)" by blast
    then have "of_int (5 * k) = (of_int 13 :: dec)" by (simp add: field_simps)
    then have "5 * k = 13" by (simp only: of_int_eq_iff)
    then show False by presburger
  qed
qed

definition example_request :: virtual_request where
  "example_request =
     \<lparr>vr_snapshot_id = ''snap-1'', vr_decision_id = ''decision-1'', vr_candidate_id = ''candidate-1'',
      vr_symbol = ''BTCUSDT'', vr_market = ''SPOT'', vr_action = BUY, vr_quantity = 2, vr_entry_price = 100,
      vr_stop_loss = 95, vr_take_profit_levels = [110], vr_portfolio = example_wallet,
      vr_opportunity_id = ''opportunity-1'', vr_fee_ratio = 1 / 1000, vr_slippage_ratio = 1 / 1000,
      vr_half_spread_ratio = 0, vr_tick_size = \<lparr>st_value = 1 / 100, st_exponent = - 2\<rparr>,
      vr_step_size = \<lparr>st_value = 1 / 100, st_exponent = - 2\<rparr>, vr_minimum_notional = 5,
      vr_candle_volume = Some 1000, vr_liquidity_stress = default_liquidity, vr_strategy_id = ''trend'',
      vr_strategy_version = ''1'', vr_strategy_config_version = ''1'', vr_strategy_config_hash = ''default'',
      vr_regime = ''TREND'', vr_timeframe = ''1h'', vr_correlation_group = ''majors'',
      vr_current_exposures = [], vr_portfolio_governor = default_portfolio_governor, vr_position_side = None,
      vr_mark_price = None, vr_funding_rate = None, vr_funding_payment_due = True, vr_leverage = None,
      vr_isolated_margin_usdt = None, vr_maintenance_margin_ratio = None, vr_liquidation_fee_ratio = 5 / 1000,
      vr_execution_surface = VIRTUAL_MARKET, vr_analysis_blockers = [], vr_candidate_blockers = [],
      vr_risk_blockers = [], vr_validation_blockers = [], vr_dge_blockers = [],
      vr_dge_decision = ''APPROVED_PAPER_ONLY'', vr_dge_simulation_allowed = True, vr_dge_evaluation = None,
      vr_risk_policy_version = ''1'', vr_validation_version = ''1'',
      vr_entry_reason = [''VIRTUAL_MARKET_ENTRY''], vr_parameter_methods = default_methods,
      vr_decision_evidence = no_evidence (\<lambda>_. ''digest''), vr_require_structural_margin_proof = False,
      vr_structural_margin_context = None, vr_structural_risk_budget_usdt = None, vr_planned_rr = Some 2\<rparr>"

lemma request_post_init_fixed:
  assumes "planned_rr_of r = vr_planned_rr r" "\<not> blank (vr_opportunity_id r)" "list_all (\<lambda>c. \<not> fst c) (request_checks r)"
    and "normal_market (vr_market r) = vr_market r" "dge_approved r"
  shows "request_post_init r = Inr r"
  using assms by (simp add: request_post_init_def)

lemma example_request_ok: "request_post_init example_request = Inr example_request"
proof (rule request_post_init_fixed)
  show "planned_rr_of example_request = vr_planned_rr example_request" by code_simp
  show "\<not> blank (vr_opportunity_id example_request)" by code_simp
  show "list_all (\<lambda>c. \<not> fst c) (request_checks example_request)" by code_simp
  show "normal_market (vr_market example_request) = vr_market example_request" by code_simp
  show "dge_approved example_request" by code_simp
qed

lemma example_liquidity: "liquidity_ok (vr_liquidity_stress example_request)"
  by code_simp

abbreviation example_fill :: fill_preview where
  "example_fill \<equiv>
     \<lparr>fp_requested_quantity = 2, fp_filled_quantity = 2, fp_remaining_quantity = 0, fp_fill_ratio = 1,
      fp_execution_price = 2503 / 25, fp_gross_notional_usdt = 5006 / 25, fp_fee_usdt = 2503 / 12500,
      fp_slippage_cost_usdt = 6 / 25, fp_price_impact_ratio = 1 / 5000, fp_reason_codes = [], fp_blockers = []\<rparr>"

lemma example_rounding:
  "(round_quantity (vr_quantity example_request) (vr_step_size example_request) = Inr 2) \<and>
      (liquid_fill example_request 2 = Inr (2, 1 / 5000, [], [])) \<and>
      (round_price (adjusted_price example_request (1 / 5000)) (vr_tick_size example_request) BUY = Inr (2503 / 25))"
    by code_simp

lemma example_filled: "filled_preview example_request 2 (2503 / 25) (1 / 5000) [] [] = Inr example_fill"
  by code_simp

lemma example_fill_preview: "build_fill_preview example_request = Inr example_fill"
proof -
  have "vr_action example_request = BUY" by (simp add: example_request_def)
  then show ?thesis by (simp add: build_fill_preview_def example_rounding example_filled)
qed


end
