(* ===== verification/Halt_Review.thy ===== *)
theory Halt_Review
  imports Virtual_Fill
begin

text \<open>
  The review emitted when the loss-streak limit stops the virtual market:
  \<^verbatim>\<open>build_virtual_loss_streak_halt_review\<close> of \<^verbatim>\<open>application/virtual_runtime_evidence.py\<close>,
  \<^verbatim>\<open>VirtualLossStreakHaltReview\<close> of \<^verbatim>\<open>application/virtual_runtime_engine.py\<close>, and the metric and candidate records of
  \<^verbatim>\<open>domain/evidence/decision_telemetry.py\<close> it carries.
\<close>

section \<open>Telemetry records\<close>

datatype market_type = MT_SPOT | MT_FUTURES | MT_ENTERPRISE_SUMMARY

datatype evidence_quality = EQ_SUFFICIENT | EQ_PARTIAL | EQ_INSUFFICIENT

datatype telemetry_domain = TD_SYSTEM_HEALTH | TD_DATA_QUALITY | TD_LINEAGE_COMPLETENESS | TD_DECISION_EFFECTIVENESS
  | TD_BLOCKER_EFFECTIVENESS | TD_RISK_EFFECTIVENESS | TD_VALIDATION_EFFECTIVENESS | TD_DGE_EFFECTIVENESS
  | TD_EXECUTION_QUALITY | TD_TRADING_PERFORMANCE

definition text_check :: "string \<Rightarrow> string \<Rightarrow> bool \<times> string" where
  "text_check label value = (blank value, label @ '' is required'')"

definition listed_checks :: "string \<Rightarrow> string list \<Rightarrow> (bool \<times> string) list" where
  "listed_checks label values =
     [(values = [], label @ '' are required''), (list_ex blank values, label @ '' cannot contain blank values''),
      (\<not> distinct values, label @ '' must be unique'')]"

record metric_evidence =
  me_metric_id :: string
  me_domain :: telemetry_domain
  me_value :: dec
  me_unit :: string
  me_evidence_refs :: "string list"

definition metric_evidence_post_init :: "metric_evidence \<Rightarrow> metric_evidence result" where
  "metric_evidence_post_init m =
     validate ([text_check ''metric id'' (me_metric_id m), text_check ''metric unit'' (me_unit m)]
       @ listed_checks ''metric evidence refs'' (me_evidence_refs m)) m"

record improvement_candidate =
  ic_candidate_id :: string
  ic_originating_findings :: "string list"
  ic_affected_component :: string
  ic_affected_markets :: "market_type list"
  ic_affected_regimes :: "string list"
  ic_baseline_metrics :: "metric_evidence list"
  ic_observed_metrics :: "metric_evidence list"
  ic_sample_size :: int
  ic_evidence_quality :: evidence_quality
  ic_confidence :: dec
  ic_hypothesis :: string
  ic_proposed_experiment :: string
  ic_affected_rule :: "string option"
  ic_economic_delta_usdt :: "dec option"
  ic_risk_delta_usdt :: "dec option"
  ic_opportunity_cost_delta_usdt :: "dec option"
  ic_human_review_required :: bool
  ic_implementation_status :: string
  ic_execution_allowed :: bool
  ic_risk_change_allowed :: bool
  ic_promotion_status :: string
  ic_live_eligibility_status :: string

definition improvement_candidate_post_init :: "improvement_candidate \<Rightarrow> improvement_candidate result" where
  "improvement_candidate_post_init c =
     validate
       (text_check ''improvement candidate id'' (ic_candidate_id c)
        # listed_checks ''improvement candidate originating findings'' (ic_originating_findings c)
        @ [text_check ''improvement candidate component'' (ic_affected_component c),
           (ic_affected_markets c = [], ''improvement candidate requires affected markets''),
           (\<not> distinct (ic_affected_markets c), ''improvement candidate markets must be unique'')]
        @ listed_checks ''improvement candidate affected regimes'' (ic_affected_regimes c)
        @ [(ic_baseline_metrics c = [] \<or> ic_observed_metrics c = [], ''improvement candidate requires metric evidence''),
           (ic_sample_size c < 1, ''improvement candidate sample size must be positive''),
           (ic_confidence c < 0 \<or> ic_confidence c > 1, ''improvement candidate confidence must be between 0 and 1''),
           text_check ''improvement candidate hypothesis'' (ic_hypothesis c),
           text_check ''improvement candidate proposed experiment'' (ic_proposed_experiment c),
           ((case ic_affected_rule c of None \<Rightarrow> False | Some t \<Rightarrow> blank t), ''improvement candidate affected rule cannot be blank''),
           (\<not> ic_human_review_required c \<or> ic_implementation_status c \<noteq> ''NOT_AUTHORIZED'' \<or> ic_execution_allowed c
              \<or> ic_risk_change_allowed c \<or> ic_promotion_status c \<noteq> ''RESEARCH_ONLY''
              \<or> ic_live_eligibility_status c \<noteq> live_blocked, ''improvement candidates cannot authorize changes'')]) c"

section \<open>The review\<close>

datatype halt_status = HS_ACTIVE | HS_CLEARED

record halt_review =
  hr_review_id :: string
  hr_snapshot_id :: string
  hr_decision_id :: string
  hr_portfolio_id :: string
  hr_halt_scope :: string
  hr_status :: halt_status
  hr_trigger_blocker :: string
  hr_market :: string
  hr_symbol :: string
  hr_strategy_id :: string
  hr_strategy_version :: string
  hr_regime :: string
  hr_consecutive_losses :: int
  hr_maximum_consecutive_losses :: int
  hr_findings :: "string list"
  hr_root_cause_tags :: "string list"
  hr_root_cause_summary :: string
  hr_next_bounded_experiment :: string
  hr_reset_criteria :: "string list"
  hr_improvement_candidates :: "improvement_candidate list"
  hr_promotion_status :: string
  hr_live_eligibility_status :: string

abbreviation loss_streak_blocker :: string where
  "loss_streak_blocker \<equiv> ''VIRTUAL_LOSS_STREAK_LIMIT_EXCEEDED''"

definition halt_review_post_init :: "halt_review \<Rightarrow> halt_review result" where
  "halt_review_post_init h =
     (if list_ex blank [hr_review_id h, hr_snapshot_id h, hr_decision_id h, hr_portfolio_id h, hr_halt_scope h,
           hr_trigger_blocker h, hr_market h, hr_symbol h, hr_strategy_id h, hr_strategy_version h, hr_regime h]
      then Inl (ValueError ''virtual halt review identity is required'')
      else if normal_market (hr_market h) \<notin> {''SPOT'', ''USD_M_FUTURES''}
      then Inl (ValueError ''virtual halt review market must be SPOT or USD_M_FUTURES'')
      else
     bindE (require_unique (''virtual halt review findings'', hr_findings h)) (\<lambda>_.
     bindE (require_unique (''virtual halt review root cause tags'', hr_root_cause_tags h)) (\<lambda>_.
     bindE (require_unique (''virtual halt review reset criteria'', hr_reset_criteria h)) (\<lambda>_.
     validate
       [(blank (hr_root_cause_summary h), ''virtual halt review root cause summary is required''),
        (blank (hr_next_bounded_experiment h), ''virtual halt review next bounded experiment is required''),
        (hr_consecutive_losses h < 1, ''virtual halt review consecutive losses must be positive''),
        (hr_maximum_consecutive_losses h < 1, ''virtual halt review threshold must be positive''),
        (hr_status h = HS_ACTIVE \<and> (hr_consecutive_losses h < hr_maximum_consecutive_losses h
           \<or> hr_trigger_blocker h \<noteq> loss_streak_blocker), ''active virtual halt review must match a tripped loss streak''),
        (hr_promotion_status h \<noteq> ''RESEARCH_ONLY'' \<or> hr_live_eligibility_status h \<noteq> live_blocked,
         ''virtual halt review must remain research only and live blocked'')]
       (h\<lparr>hr_market := normal_market (hr_market h)\<rparr>)))))"

definition market_type_of :: "string \<Rightarrow> market_type result" where
  "market_type_of market =
     (if normal_market market = ''SPOT'' then Inr MT_SPOT
      else if normal_market market = ''USD_M_FUTURES'' then Inr MT_FUTURES
      else Inl (ValueError ''virtual market evidence supports only SPOT or USD_M_FUTURES''))"

definition halt_refs :: "virtual_request \<Rightarrow> string list" where
  "halt_refs r = [vr_snapshot_id r, vr_decision_id r, vp_portfolio_id (vr_portfolio r)]"

definition halt_metric :: "virtual_request \<Rightarrow> string \<Rightarrow> telemetry_domain \<Rightarrow> dec \<Rightarrow> string \<Rightarrow> metric_evidence result" where
  "halt_metric r metric domain value unit_name =
     metric_evidence_post_init
       \<lparr>me_metric_id = metric, me_domain = domain, me_value = value, me_unit = unit_name, me_evidence_refs = halt_refs r\<rparr>"

definition proposed_experiment :: string where
  "proposed_experiment =
     ''Freeze the halted scope, replay the last three losses with bounded ''
     @ ''virtual evidence, compare planned versus realized risk, and stage ''
     @ ''parameter or gating changes as research-only candidates.''"

definition halt_candidate :: "virtual_request \<Rightarrow> improvement_candidate result" where
  "halt_candidate r =
     (let threshold = pg_maximum_consecutive_losses (vr_portfolio_governor r);
          losses = vp_consecutive_losses (vr_portfolio r)
      in bindE (market_type_of (vr_market r)) (\<lambda>market.
         bindE (halt_metric r ''baseline.maximum_consecutive_losses'' TD_RISK_EFFECTIVENESS (of_int threshold) ''trades'') (\<lambda>baseline.
         bindE (halt_metric r ''observed.consecutive_losses'' TD_RISK_EFFECTIVENESS (of_int losses) ''trades'') (\<lambda>observed.
         bindE (halt_metric r ''observed.max_drawdown_ratio'' TD_TRADING_PERFORMANCE
                  (vp_max_drawdown_ratio (vr_portfolio r)) ''ratio'') (\<lambda>drawdown.
         improvement_candidate_post_init
           \<lparr>ic_candidate_id = ''improvement:loss-streak:'' @ py_lower (vr_strategy_id r) @ '':''
              @ py_lower (vr_strategy_version r) @ '':'' @ py_lower (vr_market r) @ '':'' @ py_lower (vr_regime r),
            ic_originating_findings = [''loss-streak-halt:'' @ vr_snapshot_id r, ''loss-streak-threshold:'' @ int_text threshold],
            ic_affected_component = ''VIRTUAL_MARKET_STRATEGY_RUNTIME'', ic_affected_markets = [market],
            ic_affected_regimes = [vr_regime r], ic_baseline_metrics = [baseline], ic_observed_metrics = [observed, drawdown],
            ic_sample_size = max losses 1, ic_evidence_quality = EQ_PARTIAL, ic_confidence = 6 / 10,
            ic_hypothesis = vr_strategy_id r @ '' in '' @ vr_regime r @ '' exceeded the governed ''
              @ ''loss-streak limit; entry gating, regime fit, or exit protection '' @ ''is likely under-calibrated.'',
            ic_proposed_experiment = proposed_experiment, ic_affected_rule = Some loss_streak_blocker,
            ic_economic_delta_usdt = None, ic_risk_delta_usdt = Some 0, ic_opportunity_cost_delta_usdt = None,
            ic_human_review_required = True, ic_implementation_status = ''NOT_AUTHORIZED'', ic_execution_allowed = False,
            ic_risk_change_allowed = False, ic_promotion_status = ''RESEARCH_ONLY'',
            ic_live_eligibility_status = live_blocked\<rparr>)))))"

definition build_halt_review :: "virtual_request \<Rightarrow> virtual_eligibility \<Rightarrow> halt_review option result" where
  "build_halt_review r v =
     (if loss_streak_blocker \<notin> set (ve_blockers v) then Inr None
      else
        let threshold = pg_maximum_consecutive_losses (vr_portfolio_governor r);
            losses = vp_consecutive_losses (vr_portfolio r)
        in bindE (halt_candidate r) (\<lambda>candidate.
           bindE (halt_review_post_init
             \<lparr>hr_review_id = ''virtual-loss-streak-halt:'' @ py_lower (vr_strategy_id r) @ '':'' @ py_lower (vr_market r)
                @ '':'' @ vr_snapshot_id r,
              hr_snapshot_id = vr_snapshot_id r, hr_decision_id = vr_decision_id r,
              hr_portfolio_id = vp_portfolio_id (vr_portfolio r),
              hr_halt_scope = vr_market r @ '':'' @ vr_strategy_id r @ '':'' @ vr_regime r,
              hr_status = HS_ACTIVE, hr_trigger_blocker = loss_streak_blocker, hr_market = vr_market r,
              hr_symbol = vr_symbol r, hr_strategy_id = vr_strategy_id r, hr_strategy_version = vr_strategy_version r,
              hr_regime = vr_regime r, hr_consecutive_losses = losses, hr_maximum_consecutive_losses = threshold,
              hr_findings =
                [''Observed `'' @ int_text losses @ ''` consecutive losses against the governed ''
                   @ ''limit `'' @ int_text threshold @ ''`.'',
                 ''The bounded autonomy scope is halted before a new simulated entry '' @ ''can be opened.'',
                 ''A research-only improvement candidate was staged for replay, tuning, '' @ ''and root-cause review.''],
              hr_root_cause_tags = [''ENTRY_GATING_REVIEW'', ''REGIME_FIT_REVIEW'', ''EXIT_PROTECTION_REVIEW''],
              hr_root_cause_summary = ''Loss streak suggests entry gating, regime fit, or exit protection ''
                @ ''is under-calibrated for the halted bounded scope.'',
              hr_next_bounded_experiment = ic_proposed_experiment candidate,
              hr_reset_criteria =
                [''Resume only when a later request supplies '' @ ''`portfolio.consecutive_losses < maximum_consecutive_losses`.'',
                 ''Keep the staged improvement candidate `RESEARCH_ONLY` and '' @ ''`LIVE_ORDER_BLOCKED`.'',
                 ''Re-evaluate DGE, risk, validation, and feasibility blockers on ''
                   @ ''the next bounded simulation request before allowing entry.''],
              hr_improvement_candidates = [candidate], hr_promotion_status = ''RESEARCH_ONLY'',
              hr_live_eligibility_status = live_blocked\<rparr>) (\<lambda>h. Inr (Some h))))"

end
