(* ===== verification/Virtual_Runtime.thy ===== *)
theory Virtual_Runtime
  imports Halt_Review
begin

text \<open>
  One decision of the virtual market, \<^verbatim>\<open>VirtualMarketRuntime.evaluate\<close> of
  \<^verbatim>\<open>application/virtual_runtime_engine.py\<close>: the portfolio blockers of
  \<^verbatim>\<open>application/virtual_runtime_portfolio.py\<close>, the limits of the governor, the wallet after a Spot or a
  futures fill, and the decision. Which blocker codes the registry knows is the parameter of the
  eligibility rule.
\<close>

section \<open>Portfolio blockers\<close>

definition geometry_invalid :: "virtual_request \<Rightarrow> fill_preview \<Rightarrow> position_side \<Rightarrow> string list" where
  "geometry_invalid r f side =
     (let price = fp_execution_price f in
      case side of
        PS_LONG \<Rightarrow> flag_if (vr_stop_loss r \<ge> price \<or> list_ex (\<lambda>t. t \<le> price) (vr_take_profit_levels r))
          ''FUTURES_LONG_GEOMETRY_INVALID''
      | PS_SHORT \<Rightarrow> flag_if (vr_stop_loss r \<le> price \<or> list_ex (\<lambda>t. t \<ge> price) (vr_take_profit_levels r))
          ''FUTURES_SHORT_GEOMETRY_INVALID'')"

definition futures_blockers :: "virtual_request \<Rightarrow> fill_preview \<Rightarrow> string list" where
  "futures_blockers r f =
     (case vr_position_side r of
        None \<Rightarrow> [''FUTURES_POSITION_SIDE_REQUIRED'']
      | Some side \<Rightarrow>
          (case (vr_mark_price r, vr_funding_rate r, vr_leverage r, vr_isolated_margin_usdt r, vr_maintenance_margin_ratio r) of
             (Some _, Some _, Some leverage, Some margin, Some ratio) \<Rightarrow>
               geometry_invalid r f side
               @ flag_if (margin < d_quot (fp_gross_notional_usdt f) (of_int leverage)) ''INSUFFICIENT_VIRTUAL_MARGIN''
               @ flag_if (margin \<le> d_mul (fp_gross_notional_usdt f) ratio) ''LIQUIDATION_BUFFER_INSUFFICIENT''
           | (mark, funding, leverage, margin, ratio) \<Rightarrow>
               flag_if (mark = None) ''FUTURES_MARK_PRICE_UNAVAILABLE''
               @ flag_if (funding = None) ''FUNDING_DATA_UNAVAILABLE''
               @ flag_if (leverage = None) ''FUTURES_LEVERAGE_UNAVAILABLE''
               @ flag_if (margin = None) ''FUTURES_ISOLATED_MARGIN_UNAVAILABLE''
               @ flag_if (ratio = None) ''FUTURES_MAINTENANCE_MARGIN_UNAVAILABLE''))"

definition capacity_exceeded :: "virtual_portfolio \<Rightarrow> bool" where
  "capacity_exceeded p \<longleftrightarrow> vp_open_position_count p \<ge> vp_max_concurrent_positions p"

definition portfolio_blockers :: "virtual_request \<Rightarrow> fill_preview \<Rightarrow> string list" where
  "portfolio_blockers r f =
     (let p = vr_portfolio r; spot = (vp_market p = ''SPOT'')
      in dict_fromkeys
        (flag_if (normal_market (vr_market r) \<noteq> vp_market p) ''PORTFOLIO_MARKET_MISMATCH''
         @ flag_if (capacity_exceeded p \<and> (vr_action r = BUY \<and> spot \<or> \<not> spot)) ''PORTFOLIO_CAPACITY_EXCEEDED''
         @ (if spot
            then flag_if (vr_action r = BUY \<and> vp_cash_usdt p < d_add (fp_gross_notional_usdt f) (fp_fee_usdt f))
                   ''INSUFFICIENT_VIRTUAL_CASH''
                 @ flag_if (vr_action r = SELL \<and> vp_inventory_quantity p < vr_quantity r) ''SPOT_INVENTORY_INSUFFICIENT''
            else if vp_market p = ''USD_M_FUTURES'' then futures_blockers r f
            else [])))"

section \<open>Limits of the governor\<close>

definition spot_sale :: "virtual_request \<Rightarrow> bool" where
  "spot_sale r \<longleftrightarrow> vp_market (vr_portfolio r) = ''SPOT'' \<and> vr_action r = SELL"

definition request_exposure :: "virtual_request \<Rightarrow> dec \<Rightarrow> position_exposure result" where
  "request_exposure r notional =
     position_exposure_post_init
       \<lparr>pe_symbol = vr_symbol r, pe_strategy_id = vr_strategy_id r, pe_correlation_group = vr_correlation_group r,
        pe_notional_usdt = notional\<rparr>"

text \<open>A Spot wallet values its inventory at its entry price, or at its average cost when it has none (or zero).\<close>

definition default_exposures :: "virtual_request \<Rightarrow> position_exposure list result" where
  "default_exposures r =
     (let p = vr_portfolio r
      in if vp_market p = ''SPOT'' \<and> vp_inventory_quantity p > 0
         then bindE (request_exposure r (d_mul (vp_inventory_quantity p)
                (case vp_position_entry_price p of
                   Some x \<Rightarrow> if x \<noteq> 0 then x else d_quot (vp_inventory_cost_basis_usdt p) (vp_inventory_quantity p)
                 | None \<Rightarrow> d_quot (vp_inventory_cost_basis_usdt p) (vp_inventory_quantity p)))) (\<lambda>e. Inr [e])
         else if vp_market p = ''USD_M_FUTURES'' \<and> vp_open_position_count p > 0
         then (case vp_position_notional_usdt p of
                 None \<Rightarrow> Inr []
               | Some n \<Rightarrow> bindE (request_exposure r n) (\<lambda>e. Inr [e]))
         else Inr [])"

definition proposed_risk :: "virtual_request \<Rightarrow> fill_preview \<Rightarrow> dec" where
  "proposed_risk r f =
     (let distance = d_sub (fp_execution_price f) (vr_stop_loss r)
      in d_mul (if vp_market (vr_portfolio r) = ''USD_M_FUTURES'' then d_abs distance else max distance 0)
           (fp_filled_quantity f))"

definition current_utilization :: "virtual_portfolio \<Rightarrow> dec option" where
  "current_utilization p =
     (if vp_margin_utilization_ratio p = None \<and> vp_open_position_count p = 0 \<and> vp_isolated_margin_usdt p \<in> {None, Some 0}
      then Some 0 else vp_margin_utilization_ratio p)"

definition projected_utilization :: "virtual_request \<Rightarrow> fill_preview \<Rightarrow> dec option" where
  "projected_utilization r f =
     (case (vr_isolated_margin_usdt r, vr_funding_rate r, vr_mark_price r) of
        (Some margin, Some funding, Some mark) \<Rightarrow>
          (let p = vr_portfolio r;
               funding_cost = (if vr_funding_payment_due r then d_mul (d_abs funding) (fp_gross_notional_usdt f) else 0);
               mark_loss = d_mul (max 0 (d_mul (d_sub (fp_execution_price f) mark)
                  (if vr_position_side r = Some PS_LONG then 1 else - 1))) (fp_filled_quantity f);
               equity = d_sub (d_sub (d_sub (vp_equity_usdt p) (fp_fee_usdt f)) funding_cost) mark_loss
           in if equity > 0
              then Some (d_quot (d_add (case vp_isolated_margin_usdt p of None \<Rightarrow> 0 | Some m \<Rightarrow> m) margin) equity)
              else None)
      | _ \<Rightarrow> None)"

definition requested_leverage :: "virtual_request \<Rightarrow> leverage" where
  "requested_leverage r = (case vr_leverage r of None \<Rightarrow> NoLeverage | Some l \<Rightarrow> Leverage l)"

definition round_trip_cost :: "virtual_request \<Rightarrow> dec" where
  "round_trip_cost r =
     d_add (d_mul 2 (d_add (d_add (vr_fee_ratio r) (vr_slippage_ratio r)) (vr_half_spread_ratio r))) (vr_liquidation_fee_ratio r)"

definition margin_proof_blockers :: "virtual_request \<Rightarrow> fill_preview \<Rightarrow> string list result" where
  "margin_proof_blockers r f =
     (if vr_require_structural_margin_proof r
      then structural_margin_blockers (vr_portfolio_governor r) (vr_structural_margin_context r) (requested_leverage r)
             (vr_snapshot_id r) (vr_symbol r) (Finite (fp_execution_price f)) (Finite (vr_stop_loss r))
             (Finite (fp_filled_quantity f)) (map_option Finite (vr_mark_price r)) (map_option Finite (vr_isolated_margin_usdt r))
             (Finite (round_trip_cost r))
             (Finite (min (case vr_structural_risk_budget_usdt r of None \<Rightarrow> 0 | Some b \<Rightarrow> b)
                (pg_maximum_risk_per_trade_usdt (vr_portfolio_governor r))))
      else Inr [])"

definition futures_margin_blockers :: "virtual_request \<Rightarrow> fill_preview \<Rightarrow> string list result" where
  "futures_margin_blockers r f =
     bindE (margin_proof_blockers r f) (\<lambda>proof_blockers.
       Inr (dict_fromkeys
         (futures_entry_blockers (vr_portfolio_governor r) (requested_leverage r)
            (map_option Finite (current_utilization (vr_portfolio r))) (map_option Finite (projected_utilization r f))
          @ proof_blockers)))"

definition exposure_blockers :: "virtual_request \<Rightarrow> fill_preview \<Rightarrow> string list result" where
  "exposure_blockers r f =
     (let policy = pg_exposure_policy (vr_portfolio_governor r) in
      bindE (if vr_current_exposures r \<noteq> [] then Inr (vr_current_exposures r) else default_exposures r) (\<lambda>current.
      bindE (assess_current_exposure current policy) (\<lambda>a.
        if spot_sale r then Inr (pa_blockers a)
        else bindE (request_exposure r (fp_gross_notional_usdt f)) (\<lambda>proposed.
             bindE (assess_proposed_exposure current proposed policy) (\<lambda>b. Inr (pa_blockers a @ pa_blockers b))))))"

definition governor_limits :: "virtual_request \<Rightarrow> fill_preview \<Rightarrow> string list" where
  "governor_limits r f =
     (let p = vr_portfolio r; g = vr_portfolio_governor r; risk = proposed_risk r f
      in flag_if (risk > pg_maximum_risk_per_trade_usdt g) ''VIRTUAL_RISK_PER_TRADE_LIMIT_EXCEEDED''
         @ flag_if (d_add (vp_current_open_risk_usdt p) risk > pg_maximum_open_risk_usdt g) ''VIRTUAL_OPEN_RISK_LIMIT_EXCEEDED''
         @ flag_if (vp_max_drawdown_ratio p > pg_maximum_drawdown_ratio g) ''VIRTUAL_DRAWDOWN_LIMIT_EXCEEDED''
         @ flag_if (vp_consecutive_losses p \<ge> pg_maximum_consecutive_losses g \<and> pg_maximum_consecutive_losses g > 0)
             ''VIRTUAL_LOSS_STREAK_LIMIT_EXCEEDED''
         @ flag_if (\<not> spot_sale r \<and> capacity_exceeded p) ''VIRTUAL_MAX_CONCURRENT_POSITIONS_EXCEEDED'')"

definition governor_blockers :: "virtual_request \<Rightarrow> fill_preview \<Rightarrow> string list result" where
  "governor_blockers r f =
     bindE (exposure_blockers r f) (\<lambda>exposure.
     bindE (if vp_market (vr_portfolio r) = ''USD_M_FUTURES'' then futures_margin_blockers r f else Inr []) (\<lambda>margin.
       Inr (dict_fromkeys (exposure @ governor_limits r f @ margin))))"

section \<open>The wallet after a fill\<close>

definition drawdown_of :: "dec \<Rightarrow> dec \<Rightarrow> dec" where
  "drawdown_of watermark equity = (if watermark > 0 then d_quot (d_sub watermark equity) watermark else 0)"

text \<open>\<^verbatim>\<open>portfolio.high_watermark_usdt or portfolio.equity_usdt\<close>: a zero watermark counts as missing.\<close>

definition known_watermark :: "virtual_portfolio \<Rightarrow> dec" where
  "known_watermark p = (case vp_high_watermark_usdt p of None \<Rightarrow> vp_equity_usdt p | Some w \<Rightarrow> if w = 0 then vp_equity_usdt p else w)"

text \<open>The fields of a wallet that a Spot fill moves.\<close>

record spot_balances =
  sp_cash :: dec
  sp_quantity :: dec
  sp_cost_basis :: dec
  sp_realized_delta :: dec
  sp_open_count :: int

definition spot_bought :: "virtual_portfolio \<Rightarrow> fill_preview \<Rightarrow> spot_balances" where
  "spot_bought p f =
     \<lparr>sp_cash = d_sub (vp_cash_usdt p) (d_add (fp_gross_notional_usdt f) (fp_fee_usdt f)),
      sp_quantity = d_add (vp_inventory_quantity p) (fp_filled_quantity f),
      sp_cost_basis = d_add (vp_inventory_cost_basis_usdt p) (fp_gross_notional_usdt f),
      sp_realized_delta = 0, sp_open_count = vp_open_position_count p + 1\<rparr>"

definition spot_sold :: "virtual_portfolio \<Rightarrow> fill_preview \<Rightarrow> spot_balances" where
  "spot_sold p f =
     (let average = (if vp_inventory_quantity p > 0 then d_quot (vp_inventory_cost_basis_usdt p) (vp_inventory_quantity p) else 0);
          released = d_mul average (fp_filled_quantity f);
          proceeds = d_sub (fp_gross_notional_usdt f) (fp_fee_usdt f);
          left = d_sub (vp_inventory_quantity p) (fp_filled_quantity f)
      in \<lparr>sp_cash = d_add (vp_cash_usdt p) proceeds, sp_quantity = left,
          sp_cost_basis = (if left = 0 then 0 else d_sub (vp_inventory_cost_basis_usdt p) released),
          sp_realized_delta = d_sub proceeds released,
          sp_open_count = (if left = 0 then max 0 (vp_open_position_count p - 1) else vp_open_position_count p)\<rparr>)"

definition spot_after_fill :: "virtual_request \<Rightarrow> fill_preview \<Rightarrow> virtual_portfolio result" where
  "spot_after_fill r f =
     (let p = vr_portfolio r;
          b = (if vr_action r = BUY then spot_bought p f else spot_sold p f);
          mark_value = d_mul (sp_quantity b) (fp_execution_price f);
          equity = d_add (sp_cash b) mark_value;
          watermark = max (known_watermark p) equity
      in portfolio_post_init
           (p\<lparr>vp_cash_usdt := sp_cash b, vp_equity_usdt := equity, vp_inventory_quantity := sp_quantity b,
              vp_inventory_cost_basis_usdt := sp_cost_basis b,
              vp_realized_pnl_usdt := d_add (vp_realized_pnl_usdt p) (sp_realized_delta b),
              vp_unrealized_pnl_usdt := d_sub mark_value (sp_cost_basis b),
              vp_fees_paid_usdt := d_add (vp_fees_paid_usdt p) (fp_fee_usdt f),
              vp_slippage_cost_usdt := d_add (vp_slippage_cost_usdt p) (fp_slippage_cost_usdt f),
              vp_high_watermark_usdt := Some watermark,
              vp_max_drawdown_ratio := max (vp_max_drawdown_ratio p) (drawdown_of watermark equity),
              vp_current_open_risk_usdt :=
                max (d_mul (fp_filled_quantity f) (max (d_sub (fp_execution_price f) (vr_stop_loss r)) 0)) 0,
              vp_open_position_count := sp_open_count b\<rparr>))"

text \<open>
  The futures wallet, with the fields of the request that \<open>futures_blockers\<close> has found present. A missing
  field would raise; the request reaches this point only without blockers.
\<close>

record futures_terms =
  ft_side :: position_side
  ft_mark_price :: dec
  ft_leverage :: int
  ft_isolated_margin :: dec
  ft_maintenance_ratio :: dec
  ft_funding_rate :: dec

definition futures_terms_of :: "virtual_request \<Rightarrow> futures_terms option" where
  "futures_terms_of r =
     (case (vr_position_side r, vr_mark_price r, vr_leverage r, vr_isolated_margin_usdt r, vr_maintenance_margin_ratio r,
            vr_funding_rate r) of
        (Some side, Some mark, Some leverage, Some margin, Some ratio, Some funding) \<Rightarrow>
          Some \<lparr>ft_side = side, ft_mark_price = mark, ft_leverage = leverage, ft_isolated_margin = margin,
            ft_maintenance_ratio = ratio, ft_funding_rate = funding\<rparr>
      | _ \<Rightarrow> None)"

definition funding_cost_of :: "virtual_request \<Rightarrow> futures_terms \<Rightarrow> dec \<Rightarrow> dec" where
  "funding_cost_of r t notional =
     (if \<not> vr_funding_payment_due r then 0
      else case ft_side t of
             PS_LONG \<Rightarrow> d_mul notional (ft_funding_rate t)
           | PS_SHORT \<Rightarrow> d_mul (dround (- notional)) (ft_funding_rate t))"

definition futures_filled :: "virtual_request \<Rightarrow> fill_preview \<Rightarrow> futures_terms \<Rightarrow> virtual_portfolio" where
  "futures_filled r f t =
     (let p = vr_portfolio r; price = fp_execution_price f; quantity = fp_filled_quantity f;
          notional = fp_gross_notional_usdt f; margin = ft_isolated_margin t;
          maintenance = d_mul notional (ft_maintenance_ratio t);
          buffer = d_quot (d_sub margin maintenance) quantity;
          unrealized = (case ft_side t of PS_LONG \<Rightarrow> d_mul (d_sub (ft_mark_price t) price) quantity
                                        | PS_SHORT \<Rightarrow> d_mul (d_sub price (ft_mark_price t)) quantity);
          liquidation = (case ft_side t of PS_LONG \<Rightarrow> d_sub price buffer | PS_SHORT \<Rightarrow> d_add price buffer);
          funding = funding_cost_of r t notional;
          cash = d_sub (d_sub (d_sub (vp_cash_usdt p) margin) (fp_fee_usdt f)) funding;
          equity = d_add (d_add cash margin) unrealized;
          watermark = max (known_watermark p) equity
      in p\<lparr>vp_cash_usdt := cash, vp_equity_usdt := equity,
           vp_realized_pnl_usdt := d_sub (vp_realized_pnl_usdt p) funding,
           vp_unrealized_pnl_usdt := unrealized,
           vp_fees_paid_usdt := d_add (vp_fees_paid_usdt p) (fp_fee_usdt f),
           vp_slippage_cost_usdt := d_add (vp_slippage_cost_usdt p) (fp_slippage_cost_usdt f),
           vp_funding_cost_usdt := d_add (vp_funding_cost_usdt p) funding,
           vp_high_watermark_usdt := Some watermark,
           vp_max_drawdown_ratio := max (vp_max_drawdown_ratio p) (drawdown_of watermark equity),
           vp_current_open_risk_usdt := d_mul (d_abs (d_sub price (vr_stop_loss r))) quantity,
           vp_position_side := Some (ft_side t), vp_position_entry_price := Some price,
           vp_position_mark_price := Some (ft_mark_price t), vp_position_notional_usdt := Some notional,
           vp_isolated_margin_usdt := Some margin,
           vp_initial_margin_usdt := Some (d_quot notional (of_int (ft_leverage t))),
           vp_maintenance_margin_usdt := Some maintenance, vp_liquidation_price := Some liquidation,
           vp_leverage := Some (ft_leverage t),
           vp_margin_utilization_ratio := Some (if equity > 0 then min 1 (d_quot margin equity) else 0),
           vp_open_position_count := 1\<rparr>)"

definition futures_after_fill :: "virtual_request \<Rightarrow> fill_preview \<Rightarrow> virtual_portfolio result" where
  "futures_after_fill r f =
     (case futures_terms_of r of
        None \<Rightarrow> Inl (TypeError ''unsupported operand'')
      | Some t \<Rightarrow> portfolio_post_init (futures_filled r f t))"

definition portfolio_after_fill :: "virtual_request \<Rightarrow> fill_preview \<Rightarrow> virtual_portfolio result" where
  "portfolio_after_fill r f =
     (if vp_market (vr_portfolio r) \<noteq> ''SPOT'' then futures_after_fill r f else spot_after_fill r f)"

section \<open>Decisions\<close>

datatype decision_status = RD_NO_ACTION | RD_ORDER_READY

record runtime_decision =
  rd_status :: decision_status
  rd_eligibility :: virtual_eligibility
  rd_trade_intent :: "trade_intent option"
  rd_portfolio_before :: virtual_portfolio
  rd_portfolio_after :: virtual_portfolio
  rd_audit_refs :: "string list"
  rd_halt_review :: "halt_review option"

definition runtime_decision_post_init :: "runtime_decision \<Rightarrow> runtime_decision result" where
  "runtime_decision_post_init d =
     bindE (require_unique (''virtual runtime audit refs'', rd_audit_refs d)) (\<lambda>_.
     validate
       [(rd_status d = RD_ORDER_READY \<and> rd_trade_intent d = None, ''ORDER_READY virtual runtime decision requires trade intent''),
        (rd_status d = RD_NO_ACTION \<and> rd_trade_intent d \<noteq> None, ''NO_ACTION virtual runtime decision cannot carry intent''),
        (rd_status d = RD_ORDER_READY \<and> rd_halt_review d \<noteq> None,
         ''ORDER_READY virtual runtime decision cannot carry a halt review''),
        (rd_halt_review d \<noteq> None \<and> (rd_status d \<noteq> RD_NO_ACTION
           \<or> loss_streak_blocker \<notin> set (ve_blockers (rd_eligibility d))),
         ''virtual runtime halt review requires a no-action loss-streak veto'')] d)"

definition stage_blockers_of :: "virtual_request \<Rightarrow> fill_preview \<Rightarrow> string list \<Rightarrow> stage_blockers" where
  "stage_blockers_of r f governor =
     \<lparr>sb_analysis = vr_analysis_blockers r, sb_candidate = vr_candidate_blockers r, sb_risk = vr_risk_blockers r,
      sb_validation = vr_validation_blockers r, sb_dge = vr_dge_blockers r,
      sb_portfolio = dict_fromkeys (portfolio_blockers r f @ governor), sb_feasibility = fp_blockers f, sb_authority = []\<rparr>"

definition intent_of :: "virtual_request \<Rightarrow> fill_preview \<Rightarrow> virtual_eligibility \<Rightarrow> trade_intent result" where
  "intent_of r f v =
     trade_intent_post_init
       \<lparr>ti_snapshot_id = vr_snapshot_id r, ti_decision_id = vr_decision_id r, ti_candidate_id = vr_candidate_id r,
        ti_symbol = vr_symbol r, ti_market = vr_market r, ti_action = vr_action r, ti_quantity = fp_filled_quantity f,
        ti_entry_price = fp_execution_price f, ti_stop_loss = vr_stop_loss r,
        ti_take_profit_levels = vr_take_profit_levels r,
        ti_reason_codes = dict_fromkeys (ve_reason_codes v @ fp_reason_codes f),
        ti_opportunity_id = vr_opportunity_id r, ti_position_side = vr_position_side r, ti_blockers = []\<rparr>"

definition runtime_evaluate :: "(string \<Rightarrow> bool) \<Rightarrow> virtual_request \<Rightarrow> runtime_decision result" where
  "runtime_evaluate known r =
     bindE (build_fill_preview r) (\<lambda>f.
     bindE (governor_blockers r f) (\<lambda>governor.
     bindE (evaluate_eligibility known (vr_execution_surface r) (stage_blockers_of r f governor)) (\<lambda>v.
       if ve_status v \<noteq> VE_ELIGIBLE
       then bindE (build_halt_review r v) (\<lambda>halt.
            runtime_decision_post_init
              \<lparr>rd_status = RD_NO_ACTION, rd_eligibility = v, rd_trade_intent = None, rd_portfolio_before = vr_portfolio r,
               rd_portfolio_after = vr_portfolio r, rd_audit_refs = halt_refs r, rd_halt_review = halt\<rparr>)
       else bindE (intent_of r f v) (\<lambda>intent.
            bindE (portfolio_after_fill r f) (\<lambda>p.
            runtime_decision_post_init
              \<lparr>rd_status = RD_ORDER_READY, rd_eligibility = v, rd_trade_intent = Some intent,
               rd_portfolio_before = vr_portfolio r, rd_portfolio_after = p, rd_audit_refs = halt_refs r,
               rd_halt_review = None\<rparr>)))))"

section \<open>What an admitted entry satisfies\<close>

lemma portfolio_post_init_valid:
  assumes "portfolio_post_init p = Inr q"
  shows "portfolio_post_init q = Inr q" "vp_high_watermark_usdt q = Some (high_watermark p)" "0 \<le> vp_cash_usdt q" "0 < vp_equity_usdt q"
    "q = p\<lparr>vp_market := normal_market (vp_market p), vp_high_watermark_usdt := Some (high_watermark p)\<rparr>"
proof -
  show q: "q = p\<lparr>vp_market := normal_market (vp_market p), vp_high_watermark_usdt := Some (high_watermark p)\<rparr>"
    using assms by (simp add: portfolio_post_init_def)
  have checks: "list_all (\<lambda>c. \<not> fst c) (portfolio_checks p)" using assms by (simp add: portfolio_post_init_def)
  have market: "normal_market (normal_market m) = normal_market m" "blank (normal_market m) = blank m" for m
    by (simp_all add: normal_market_def blank_upper_strip) (simp add: blank_def)
  have watermark: "high_watermark q = high_watermark p" by (simp add: q high_watermark_def)
  have "portfolio_checks q = portfolio_checks p"
    unfolding portfolio_checks_def portfolio_balance_checks_def spot_checks_def futures_checks_def watermark
    by (simp add: q market futures_scalars_def no_futures_fields_def)
  then show "portfolio_post_init q = Inr q"
    using checks watermark by (simp add: portfolio_post_init_def) (simp add: q market)
  show "vp_high_watermark_usdt q = Some (high_watermark p)" by (simp add: q)
  show "0 \<le> vp_cash_usdt q" "0 < vp_equity_usdt q"
    using checks by (auto simp: q portfolio_checks_def portfolio_balance_checks_def)
qed

lemma dict_fromkeys_append_Nil: "dict_fromkeys (xs @ ys) = [] \<longleftrightarrow> xs = [] \<and> ys = []"
  by simp

text \<open>Within the limits of the governor.\<close>

definition within_governor :: "virtual_request \<Rightarrow> fill_preview \<Rightarrow> bool" where
  "within_governor r f \<longleftrightarrow>
     (let p = vr_portfolio r; g = vr_portfolio_governor r
      in proposed_risk r f \<le> pg_maximum_risk_per_trade_usdt g
         \<and> d_add (vp_current_open_risk_usdt p) (proposed_risk r f) \<le> pg_maximum_open_risk_usdt g
         \<and> vp_max_drawdown_ratio p \<le> pg_maximum_drawdown_ratio g
         \<and> (0 < pg_maximum_consecutive_losses g \<longrightarrow> vp_consecutive_losses p < pg_maximum_consecutive_losses g)
         \<and> (spot_sale r \<or> vp_open_position_count p < vp_max_concurrent_positions p))"

text \<open>The exposures, the position added, respect every limit of the policy.\<close>

definition exposure_within :: "virtual_request \<Rightarrow> fill_preview \<Rightarrow> bool" where
  "exposure_within r f \<longleftrightarrow>
     (\<exists>current. (if vr_current_exposures r \<noteq> [] then Inr (vr_current_exposures r) else default_exposures r) = Inr current
        \<and> portfolio_within (pg_exposure_policy (vr_portfolio_governor r)) current
        \<and> (spot_sale r \<or> (\<exists>e a. request_exposure r (fp_gross_notional_usdt f) = Inr e
             \<and> assess_proposed_exposure current e (pg_exposure_policy (vr_portfolio_governor r)) = Inr a
             \<and> pa_approved_for_proposal a)))"

text \<open>A Spot entry is paid from cash, a Spot sale from the inventory.\<close>

definition spot_covered :: "virtual_request \<Rightarrow> fill_preview \<Rightarrow> bool" where
  "spot_covered r f \<longleftrightarrow>
     (vr_action r = BUY \<longrightarrow> d_add (fp_gross_notional_usdt f) (fp_fee_usdt f) \<le> vp_cash_usdt (vr_portfolio r))
     \<and> (vr_action r = SELL \<longrightarrow> vr_quantity r \<le> vp_inventory_quantity (vr_portfolio r))"

text \<open>
  A futures entry has its evidence, a stop and targets on the right sides, a margin that carries the
  notional and exceeds maintenance, a leverage and a margin utilisation within the governor's limits,
  and the structural margin proof where one is required.
\<close>

definition futures_covered :: "virtual_request \<Rightarrow> fill_preview \<Rightarrow> bool" where
  "futures_covered r f \<longleftrightarrow>
     (\<exists>t u. futures_terms_of r = Some t \<and> projected_utilization r f = Some u
        \<and> geometry_invalid r f (ft_side t) = []
        \<and> d_quot (fp_gross_notional_usdt f) (of_int (ft_leverage t)) \<le> ft_isolated_margin t
        \<and> d_mul (fp_gross_notional_usdt f) (ft_maintenance_ratio t) < ft_isolated_margin t
        \<and> 1 \<le> ft_leverage t \<and> ft_leverage t \<le> fg_maximum_futures_leverage (vr_portfolio_governor r)
        \<and> 0 \<le> u \<and> u \<le> fg_maximum_margin_utilization_ratio (vr_portfolio_governor r)
        \<and> margin_proof_blockers r f = Inr [])"

lemma governor_limits_Nil: "governor_limits r f = [] \<longleftrightarrow> within_governor r f"
  by (auto simp: governor_limits_def within_governor_def Let_def not_less not_le capacity_exceeded_def)

lemma assessment_blockers: "portfolio_assessment_of s g b = Inr a \<Longrightarrow> pa_blockers a = b \<and> (pa_approved_for_proposal a \<longleftrightarrow> b = [])"
  by (auto simp: portfolio_assessment_of_def portfolio_assessment_post_init_def)

lemma exposure_blockers_Nil:
  assumes "exposure_blockers r f = Inr []" shows "exposure_within r f"
proof -
  define policy where "policy = pg_exposure_policy (vr_portfolio_governor r)"
  obtain current a where current: "(if vr_current_exposures r \<noteq> [] then Inr (vr_current_exposures r) else default_exposures r) = Inr current"
    and a: "assess_current_exposure current policy = Inr a"
    and rest: "(if spot_sale r then Inr (pa_blockers a)
        else bindE (request_exposure r (fp_gross_notional_usdt f)) (\<lambda>proposed.
             bindE (assess_proposed_exposure current proposed policy) (\<lambda>b. Inr (pa_blockers a @ pa_blockers b)))) = Inr []"
    using assms by (auto simp: exposure_blockers_def Let_def bindE_eq_Inr policy_def [symmetric])
  have "pa_blockers a = []" using rest by (auto simp: bindE_eq_Inr split: if_splits)
  then have "portfolio_within policy current"
    using a assessment_blockers by (auto simp: portfolio_within_def assess_current_exposure_def)
  moreover have "spot_sale r \<or> (\<exists>e a. request_exposure r (fp_gross_notional_usdt f) = Inr e \<and>
      assess_proposed_exposure current e policy = Inr a \<and> pa_approved_for_proposal a)"
    using rest assessment_blockers by (fastforce simp: bindE_eq_Inr assess_proposed_exposure_def Let_def split: if_splits)
  ultimately show ?thesis using current unfolding exposure_within_def policy_def by blast
qed

lemma entry_blockers_Nil:
  "futures_entry_blockers g l current projected = [] \<Longrightarrow>
     (\<exists>n. l = Leverage n \<and> 1 \<le> n \<and> n \<le> fg_maximum_futures_leverage g)
     \<and> (\<exists>u. projected = Some (Finite u) \<and> 0 \<le> u \<and> u \<le> fg_maximum_margin_utilization_ratio g)"
  by (auto simp: futures_entry_blockers_def margin_utilization_blockers_def valid_leverage_def leverage_number_def is_finite_conv
      not_less split: leverage.splits option.splits if_splits)

lemma futures_covered_intro:
  assumes "futures_blockers r f = []" "futures_margin_blockers r f = Inr []"
  shows "futures_covered r f"
proof -
  obtain side mark funding leverage margin ratio where t: "vr_position_side r = Some side" "vr_mark_price r = Some mark"
      "vr_funding_rate r = Some funding" "vr_leverage r = Some leverage" "vr_isolated_margin_usdt r = Some margin"
      "vr_maintenance_margin_ratio r = Some ratio"
    using assms(1) by (auto simp: futures_blockers_def split: option.splits prod.splits)
  have "futures_entry_blockers (vr_portfolio_governor r) (requested_leverage r)
      (map_option Finite (current_utilization (vr_portfolio r))) (map_option Finite (projected_utilization r f)) = []"
    and proven: "margin_proof_blockers r f = Inr []"
    using assms(2) by (auto simp: futures_margin_blockers_def bindE_eq_Inr)
  from entry_blockers_Nil [OF this(1)] obtain u where
    "1 \<le> leverage" "leverage \<le> fg_maximum_futures_leverage (vr_portfolio_governor r)"
    "projected_utilization r f = Some u" "0 \<le> u" "u \<le> fg_maximum_margin_utilization_ratio (vr_portfolio_governor r)"
    by (auto simp: requested_leverage_def t)
  then show ?thesis
    using assms(1) proven t by (auto simp: futures_covered_def futures_terms_of_def futures_blockers_def not_less not_le)
qed


text \<open>Everything an ORDER_READY decision rests on.\<close>

definition entry_admitted :: "virtual_request \<Rightarrow> fill_preview \<Rightarrow> bool" where
  "entry_admitted r f \<longleftrightarrow>
     dge_approved r \<and> list_all (\<lambda>codes. codes = [])
       [vr_analysis_blockers r, vr_candidate_blockers r, vr_risk_blockers r, vr_validation_blockers r, fp_blockers f]
     \<and> 0 < fp_filled_quantity f \<and> vr_minimum_notional r \<le> fp_gross_notional_usdt f
     \<and> within_governor r f \<and> exposure_within r f
     \<and> (if vp_market (vr_portfolio r) = ''SPOT'' then spot_covered r f else futures_covered r f)"

lemma entry_admitted_intro:
  assumes "request_post_init r0 = Inr r" "build_fill_preview r = Inr f" "governor_blockers r f = Inr []"
    and "portfolio_blockers r f = []" "fp_blockers f = []" "vr_dge_blockers r = []"
    and "list_all (\<lambda>codes. codes = []) [vr_analysis_blockers r, vr_candidate_blockers r, vr_risk_blockers r, vr_validation_blockers r]"
  shows "entry_admitted r f"
proof -
  note r = request_post_init_Inr [OF assms(1)]
  obtain margin where exposure: "exposure_blockers r f = Inr []" and limits: "governor_limits r f = []" and margin: "margin = []"
    and run: "(if vp_market (vr_portfolio r) = ''USD_M_FUTURES'' then futures_margin_blockers r f else Inr []) = Inr margin"
    using assms(3) by (auto simp: governor_blockers_def bindE_eq_Inr)
  have fill: "0 < fp_filled_quantity f" "vr_minimum_notional r \<le> fp_gross_notional_usdt f"
    using assms(2) r(1) assms(5) by (cases rule: build_fill_preview_cases; simp add: not_less)+
  have "if vp_market (vr_portfolio r) = ''SPOT'' then spot_covered r f else futures_covered r f"
  proof (cases "vp_market (vr_portfolio r) = ''SPOT''")
    case True
    then show ?thesis using assms(4) by (auto simp: portfolio_blockers_def spot_covered_def Let_def not_less)
  next
    case False
    then have market: "vp_market (vr_portfolio r) = ''USD_M_FUTURES''" using r(7,8) by simp
    then show ?thesis
      using assms(4) run margin futures_covered_intro [of r f] by (simp add: portfolio_blockers_def Let_def)
  qed
  then show ?thesis
    using assms(5,7) r(9) [OF assms(6)] fill limits exposure_blockers_Nil [OF exposure]
    by (simp add: entry_admitted_def governor_limits_Nil)
qed

text \<open>Across an entry a wallet stays itself, and its watermark and its worst drawdown never fall.\<close>

definition wallet_extends :: "virtual_portfolio \<Rightarrow> virtual_portfolio \<Rightarrow> bool" where
  "wallet_extends p q \<longleftrightarrow>
     portfolio_post_init q = Inr q \<and> vp_portfolio_id q = vp_portfolio_id p \<and> vp_initial_equity_usdt q = vp_initial_equity_usdt p
     \<and> vp_max_concurrent_positions q = vp_max_concurrent_positions p
     \<and> known_watermark p \<le> high_watermark q \<and> vp_max_drawdown_ratio p \<le> vp_max_drawdown_ratio q
     \<and> vp_equity_usdt q \<le> high_watermark q"

lemma portfolio_after_fill_extends:
  assumes "portfolio_after_fill r f = Inr q"
  shows "wallet_extends (vr_portfolio r) q"
proof -
  have known: "high_watermark q = w" if "vp_high_watermark_usdt q = Some w" for w using that by (simp add: high_watermark_def)
  consider (spot) "spot_after_fill r f = Inr q" | (futures) t where "portfolio_post_init (futures_filled r f t) = Inr q"
    using assms by (auto simp: portfolio_after_fill_def futures_after_fill_def split: if_splits option.splits)
  then show ?thesis
  proof cases
    case spot
    note valid = portfolio_post_init_valid [OF spot [unfolded spot_after_fill_def Let_def]]
    show ?thesis
      unfolding wallet_extends_def using valid(1) known [OF valid(2)] by (simp add: valid(5) high_watermark_def)
  next
    case futures
    note valid = portfolio_post_init_valid [OF futures]
    show ?thesis
      unfolding wallet_extends_def using valid(1) known [OF valid(2)]
      by (simp add: valid(5) high_watermark_def futures_filled_def Let_def)
  qed
qed

lemma evaluate_decision:
  assumes "runtime_evaluate known r = Inr d"
  obtains (no_action) "rd_status d = RD_NO_ACTION" "rd_trade_intent d = None" "rd_portfolio_before d = vr_portfolio r"
      "rd_portfolio_after d = vr_portfolio r"
  | (ready) f g v intent where "build_fill_preview r = Inr f" "governor_blockers r f = Inr g"
      "evaluate_eligibility known (vr_execution_surface r) (stage_blockers_of r f g) = Inr v" "ve_status v = VE_ELIGIBLE"
      "intent_of r f v = Inr intent" "portfolio_after_fill r f = Inr (rd_portfolio_after d)"
      "rd_status d = RD_ORDER_READY" "rd_trade_intent d = Some intent" "rd_portfolio_before d = vr_portfolio r"
proof -
  have fixed: "runtime_decision_post_init x = Inr y \<Longrightarrow> y = x" for x y
    by (auto simp: runtime_decision_post_init_def bindE_eq_Inr)
  obtain f g v where run: "build_fill_preview r = Inr f" "governor_blockers r f = Inr g"
      "evaluate_eligibility known (vr_execution_surface r) (stage_blockers_of r f g) = Inr v"
    using assms by (auto simp: runtime_evaluate_def bindE_eq_Inr)
  show thesis
  proof (cases "ve_status v = VE_ELIGIBLE")
    case True
    then obtain intent p where "intent_of r f v = Inr intent" "portfolio_after_fill r f = Inr p"
      and "runtime_decision_post_init
              \<lparr>rd_status = RD_ORDER_READY, rd_eligibility = v, rd_trade_intent = Some intent,
               rd_portfolio_before = vr_portfolio r, rd_portfolio_after = p, rd_audit_refs = halt_refs r,
               rd_halt_review = None\<rparr> = Inr d"
      using assms run by (auto simp: runtime_evaluate_def bindE_eq_Inr)
    then show thesis using run True by (intro ready) (auto dest!: fixed)
  next
    case False
    then show thesis
      using assms run by (intro no_action) (auto simp: runtime_evaluate_def bindE_eq_Inr dest!: fixed)
  qed
qed

text \<open>
  C12: the virtual market trades only what every gate admits. For a valid request whose evaluation
  returns: NO_ACTION leaves the wallet as it is and carries no intent; ORDER_READY rests on an approved
  governance decision, empty blockers at every stage, a positive fill of at least the minimum notional,
  the governor's risk, drawdown, loss-streak and capacity limits, the exposure policy, and cash,
  inventory or margin that covers the fill; its intent is that fill, and the wallet after it is valid,
  keeps its identity, and lowers neither its watermark nor its worst drawdown.
\<close>

theorem virtual_entry_admitted:
  assumes "request_post_init r0 = Inr r" "runtime_evaluate known r = Inr d"
  shows "rd_portfolio_before d = vr_portfolio r \<and>
    (case rd_status d of
       RD_NO_ACTION \<Rightarrow> rd_trade_intent d = None \<and> rd_portfolio_after d = vr_portfolio r
     | RD_ORDER_READY \<Rightarrow> \<exists>f intent. build_fill_preview r = Inr f \<and> entry_admitted r f
         \<and> portfolio_after_fill r f = Inr (rd_portfolio_after d) \<and> wallet_extends (vr_portfolio r) (rd_portfolio_after d)
         \<and> rd_trade_intent d = Some intent \<and> ti_quantity intent = fp_filled_quantity f
         \<and> ti_entry_price intent = fp_execution_price f \<and> ti_action intent \<in> {BUY, SELL})"
  using assms(2)
proof (cases rule: evaluate_decision)
  case no_action
  then show ?thesis by simp
next
  case (ready f g v intent)
  have "list_all (\<lambda>codes. codes = []) (caller_groups (stage_blockers_of r f g))"
    using eligibility_result [where known = known and surface = "vr_execution_surface r" and g = "stage_blockers_of r f g"] ready(3,4) by simp
  then have clear: "list_all (\<lambda>codes. codes = []) [vr_analysis_blockers r, vr_candidate_blockers r, vr_risk_blockers r, vr_validation_blockers r]"
      "vr_dge_blockers r = []" "portfolio_blockers r f = []" "g = []" "fp_blockers f = []"
    by (auto simp: caller_groups_def stage_blockers_of_def)
  have "entry_admitted r f"
    using entry_admitted_intro [OF assms(1) ready(1)] ready(2) clear by simp
  moreover have "ti_quantity intent = fp_filled_quantity f" "ti_entry_price intent = fp_execution_price f" "ti_action intent \<in> {BUY, SELL}"
    using ready(5) by (auto simp: intent_of_def trade_intent_post_init_def bindE_eq_Inr split: if_splits)
  ultimately show ?thesis
    using ready portfolio_after_fill_extends [OF ready(6)] by auto
qed

lemma example_unblocked:
  "(governor_blockers example_request example_fill = Inr []) \<and>
      (portfolio_blockers example_request example_fill = [])"
    by code_simp

lemma example_eligible:
  "case evaluate_eligibility (\<lambda>_. True) VIRTUAL_MARKET (stage_blockers_of example_request example_fill []) of
     Inl _ \<Rightarrow> False
   | Inr v \<Rightarrow> ve_status v = VE_ELIGIBLE \<and>
       (case intent_of example_request example_fill v of Inl _ \<Rightarrow> False | Inr _ \<Rightarrow> True)"
  by code_simp

lemma example_bought:
  "spot_bought example_wallet example_fill =
     \<lparr>sp_cash = 9994497 / 12500, sp_quantity = 2, sp_cost_basis = 5006 / 25, sp_realized_delta = 0, sp_open_count = 1\<rparr>"
  by code_simp

lemma example_amounts:
  "(d_mul 2 (2503 / 25) = 5006 / 25) \<and>
      (d_add (9994497 / 12500) (5006 / 25) = 12497497 / 12500) \<and>
      (drawdown_of 1000 (12497497 / 12500) = 2503 / 12500000) \<and>
      (d_sub (2503 / 25) 95 = 128 / 25) \<and>
      (d_mul 2 (128 / 25) = 256 / 25) \<and>
      (d_sub (5006 / 25) (5006 / 25) = 0) \<and>
      (d_add 0 (2503 / 12500) = 2503 / 12500) \<and>
      (d_add 0 (6 / 25) = 6 / 25) \<and>
      (d_add 0 0 = 0)"
    by code_simp

definition example_wallet_after :: virtual_portfolio where
  "example_wallet_after = example_wallet
     \<lparr>vp_cash_usdt := 9994497 / 12500, vp_equity_usdt := 12497497 / 12500, vp_inventory_quantity := 2,
      vp_inventory_cost_basis_usdt := 5006 / 25, vp_fees_paid_usdt := 2503 / 12500, vp_slippage_cost_usdt := 6 / 25,
      vp_max_drawdown_ratio := 2503 / 12500000, vp_current_open_risk_usdt := 256 / 25, vp_open_position_count := 1\<rparr>"

lemma example_wallet_after_ok: "portfolio_post_init example_wallet_after = Inr example_wallet_after"
  by code_simp

lemma example_after_fill: "portfolio_after_fill example_request example_fill = Inr example_wallet_after"
proof -
  have r: "vr_portfolio example_request = example_wallet" "vr_action example_request = BUY" "vr_stop_loss example_request = 95"
    and w: "vp_market example_wallet = ''SPOT''" "known_watermark example_wallet = 1000"
    by (simp_all add: example_request_def example_wallet_def known_watermark_def)
  have "portfolio_after_fill example_request example_fill = portfolio_post_init example_wallet_after"
    unfolding portfolio_after_fill_def spot_after_fill_def Let_def r w
    by (simp add: example_bought example_amounts max_def)
      (simp add: example_wallet_after_def example_wallet_def example_amounts)
  then show ?thesis by (simp only: example_wallet_after_ok)
qed

lemma example_ready: "\<exists>d. runtime_evaluate (\<lambda>_. True) example_request = Inr d \<and> rd_status d = RD_ORDER_READY"
proof -
  obtain v intent where "evaluate_eligibility (\<lambda>_. True) VIRTUAL_MARKET (stage_blockers_of example_request example_fill []) = Inr v"
    and "ve_status v = VE_ELIGIBLE" "intent_of example_request example_fill v = Inr intent"
    using example_eligible by (auto split: sum.splits)
  moreover have "(clean (halt_refs example_request)) \<and>
      (vr_execution_surface example_request = VIRTUAL_MARKET)"
    by code_simp
  ultimately show ?thesis
    by (simp add: runtime_evaluate_def example_fill_preview example_unblocked example_after_fill runtime_decision_post_init_def require_unique_clean)
qed

theorem virtual_entry_admitted_witness: "entry_admitted example_request example_fill"
proof -
  obtain d where d: "runtime_evaluate (\<lambda>_. True) example_request = Inr d" "rd_status d = RD_ORDER_READY"
    using example_ready by blast
  show ?thesis
    using virtual_entry_admitted [OF example_request_ok d(1)] d(2) example_fill_preview by simp
qed

section \<open>A loss of more than half\<close>

text \<open>
  The wallet check compares the unrealised result and the cash with the negated equity. A fully invested
  Spot wallet that has lost more than half of its value therefore cannot be written down: selling a tenth
  of an inventory bought at 100 once the price is 40 raises instead of realising the loss.
\<close>

definition invested_wallet :: virtual_portfolio where
  "invested_wallet = example_wallet\<lparr>vp_cash_usdt := 0, vp_inventory_quantity := 10, vp_inventory_cost_basis_usdt := 1000,
     vp_open_position_count := 1\<rparr>"

definition crash_fill :: fill_preview where
  "crash_fill =
     \<lparr>fp_requested_quantity = 1, fp_filled_quantity = 1, fp_remaining_quantity = 0, fp_fill_ratio = 1,
      fp_execution_price = 40, fp_gross_notional_usdt = 40, fp_fee_usdt = 0, fp_slippage_cost_usdt = 0,
      fp_price_impact_ratio = 0, fp_reason_codes = [], fp_blockers = []\<rparr>"

lemma crash_sold:
  "spot_sold invested_wallet crash_fill =
     \<lparr>sp_cash = 40, sp_quantity = 9, sp_cost_basis = 900, sp_realized_delta = - 60, sp_open_count = 1\<rparr>"
  by code_simp

lemma crash_amounts:
  "(d_mul 9 40 = 360) \<and>
      (d_add 40 360 = 400) \<and>
      (drawdown_of 1000 400 = 6 / 10) \<and>
      (d_sub 360 900 = - 540) \<and>
      (d_add (- 540) 40 = - 500) \<and>
      (d_sub 40 95 = - 55) \<and>
      (d_mul 1 0 = 0) \<and>
      (d_add 0 0 = 0) \<and>
      (d_add 0 (- 60) = - 60) \<and>
      (dround (- 400) = - 400)"
    by code_simp

lemma deep_loss_unrepresentable:
  assumes "vr_portfolio r = invested_wallet" "vr_action r = SELL" "vr_stop_loss r = 95"
  shows "portfolio_post_init invested_wallet = Inr invested_wallet"
    "spot_after_fill r crash_fill = Inl (ValueError ''virtual portfolio unrealized PnL is inconsistent'')"
proof -
  show "portfolio_post_init invested_wallet = Inr invested_wallet" by code_simp
  have w: "known_watermark invested_wallet = 1000" by (simp add: known_watermark_def invested_wallet_def example_wallet_def)
  have plain: "(\<not> blank ''virtual-spot'') \<and>
      (\<not> blank ''SPOT'')"
    by code_simp
  show "spot_after_fill r crash_fill = Inl (ValueError ''virtual portfolio unrealized PnL is inconsistent'')"
    unfolding spot_after_fill_def Let_def assms w
    by (simp add: crash_sold)
      (simp add: crash_fill_def crash_amounts portfolio_post_init_def portfolio_checks_def portfolio_balance_checks_def
        invested_wallet_def example_wallet_def validate.simps plain max_def)
qed

end
