(* ===== verification/Virtual_Position.thy ===== *)
theory Virtual_Position
  imports Virtual_Runtime Paper_Lifecycle
begin

text \<open>
  The position side of \<^verbatim>\<open>VirtualMarketRuntime\<close> in \<^verbatim>\<open>application/virtual_runtime_engine.py\<close>: a managed virtual
  position, the candle that moves it, the wallet after it and the record of the closed trade. Spot
  positions run through the paper lifecycle, futures positions through their own exits. The decimals of a
  position and of a futures context are finite. \<open>edig\<close> is the digest of decision evidence and \<open>stamp\<close> prints a
  timestamp (\<^verbatim>\<open>isoformat\<close>). \<^verbatim>\<open>consume_core_output\<close> applies its arguments, as in \<open>Paper_Lifecycle\<close>.
\<close>

section \<open>Exits and reviews\<close>

datatype backtest_reason =
  LIQUIDATION | HARD_STOP | TARGET | TRAILING_STOP | STRUCTURE_INVALIDATION | TIME_EXIT | REGIME_EXIT | MOMENTUM_FAILURE
  | END_OF_DATA

definition backtest_reason_value :: "backtest_reason \<Rightarrow> string" where
  "backtest_reason_value r =
     (case r of LIQUIDATION \<Rightarrow> ''LIQUIDATION'' | HARD_STOP \<Rightarrow> ''HARD_STOP'' | TARGET \<Rightarrow> ''TARGET''
      | TRAILING_STOP \<Rightarrow> ''TRAILING_STOP'' | STRUCTURE_INVALIDATION \<Rightarrow> ''STRUCTURE_INVALIDATION''
      | TIME_EXIT \<Rightarrow> ''TIME_EXIT'' | REGIME_EXIT \<Rightarrow> ''REGIME_EXIT'' | MOMENTUM_FAILURE \<Rightarrow> ''MOMENTUM_FAILURE''
      | END_OF_DATA \<Rightarrow> ''END_OF_DATA'')"

definition position_status_value :: "position_status \<Rightarrow> string" where
  "position_status_value s =
     (case s of PS_OPEN \<Rightarrow> ''OPEN'' | PS_PARTIALLY_CLOSED \<Rightarrow> ''PARTIALLY_CLOSED'' | PS_CLOSED \<Rightarrow> ''CLOSED'')"

record position_exit =
  vx_timestamp :: datetime
  vx_reason :: backtest_reason
  vx_price :: dec
  vx_quantity :: dec
  vx_fee_usdt :: dec
  vx_net_pnl_usdt :: dec
  vx_slippage_cost_usdt :: dec

definition position_exit_post_init :: "position_exit \<Rightarrow> position_exit result" where
  "position_exit_post_init x = validate
     [(\<not> is_aware (vx_timestamp x), ''virtual position exit timestamp must be timezone-aware''),
      (list_ex (\<lambda>v. v < 0) [vx_price x, vx_quantity x, vx_fee_usdt x, vx_slippage_cost_usdt x],
       ''virtual position exit values cannot be negative'')] x"

record virtual_review =
  rv_exit_reason :: backtest_reason
  rv_lifecycle_error :: "string option"
  rv_stop_quality :: string
  rv_trailing_quality :: string
  rv_ignored_signals :: int
  rv_htf_weakness :: bool
  rv_volatility_expansion :: bool
  rv_level_break :: bool
  rv_staged_exit_alternative :: string
  rv_lesson_candidate :: string

record exit_context =
  xc_ignored_signals :: int
  xc_htf_weakness :: bool
  xc_volatility_expansion :: bool
  xc_level_break :: bool
  xc_structure_invalidation :: bool
  xc_regime_failure :: bool
  xc_momentum_failure :: bool

definition exit_context_post_init :: "exit_context \<Rightarrow> exit_context result" where
  "exit_context_post_init c = validate [(xc_ignored_signals c < 0, ''ignored signal count cannot be negative'')] c"

definition no_exit_context :: exit_context where
  "no_exit_context = \<lparr>xc_ignored_signals = 0, xc_htf_weakness = False, xc_volatility_expansion = False,
     xc_level_break = False, xc_structure_invalidation = False, xc_regime_failure = False, xc_momentum_failure = False\<rparr>"

definition paper_exit_reason :: "backtest_reason \<Rightarrow> exit_reason" where
  "paper_exit_reason r =
     (if r = HARD_STOP then STOP_LOSS_EXIT else if r = TRAILING_STOP then TRAILING_STOP_EXIT else TAKE_PROFIT_EXIT)"

definition canonical_backtest_reason :: "exit_reason \<Rightarrow> backtest_reason" where
  "canonical_backtest_reason r =
     (if r = STOP_LOSS_EXIT then HARD_STOP else if r = TRAILING_STOP_EXIT then TRAILING_STOP else TARGET)"

definition virtual_exit :: "lifecycle_exit \<Rightarrow> position_exit result" where
  "virtual_exit x = position_exit_post_init
     \<lparr>vx_timestamp = le_timestamp x, vx_reason = canonical_backtest_reason (le_reason x), vx_price = le_price x,
      vx_quantity = le_quantity x, vx_fee_usdt = le_fee_usdt x, vx_net_pnl_usdt = le_net_pnl_usdt x,
      vx_slippage_cost_usdt = 0\<rparr>"

definition virtual_closure_review :: "closure_review \<Rightarrow> virtual_review" where
  "virtual_closure_review r =
     \<lparr>rv_exit_reason = canonical_backtest_reason (cr_exit_reason r), rv_lifecycle_error = cr_lifecycle_error r,
      rv_stop_quality = cr_stop_quality r, rv_trailing_quality = cr_trailing_quality r,
      rv_ignored_signals = cr_ignored_signals r, rv_htf_weakness = cr_htf_weakness r,
      rv_volatility_expansion = cr_volatility_expansion r, rv_level_break = cr_level_break r,
      rv_staged_exit_alternative = cr_staged_exit_alternative r, rv_lesson_candidate = cr_lesson_candidate r\<rparr>"

definition paper_closure_review :: "virtual_review \<Rightarrow> closure_review" where
  "paper_closure_review r =
     \<lparr>cr_exit_reason = paper_exit_reason (rv_exit_reason r), cr_lifecycle_error = rv_lifecycle_error r,
      cr_stop_quality = rv_stop_quality r, cr_trailing_quality = rv_trailing_quality r,
      cr_ignored_signals = rv_ignored_signals r, cr_htf_weakness = rv_htf_weakness r,
      cr_volatility_expansion = rv_volatility_expansion r, cr_level_break = rv_level_break r,
      cr_staged_exit_alternative = rv_staged_exit_alternative r, cr_lesson_candidate = rv_lesson_candidate r\<rparr>"

text \<open>\<^verbatim>\<open>"STOP" in reason.value\<close> holds of the hard and the trailing stop.\<close>

definition virtual_review_of :: "backtest_reason \<Rightarrow> exit_context \<Rightarrow> bool \<Rightarrow> virtual_review" where
  "virtual_review_of reason cx staged_exit_used =
     (let trailing = (reason = TRAILING_STOP); liquidated = (reason = LIQUIDATION)
      in \<lparr>rv_exit_reason = reason, rv_lifecycle_error = None,
          rv_stop_quality = (if liquidated then ''LIQUIDATED'' else if reason \<in> {HARD_STOP, TRAILING_STOP}
            then ''PROTECTIVE'' else ''NOT_TRIGGERED''),
          rv_trailing_quality = (if trailing then ''PROTECTIVE'' else ''NOT_TRIGGERED''),
          rv_ignored_signals = xc_ignored_signals cx, rv_htf_weakness = xc_htf_weakness cx,
          rv_volatility_expansion = xc_volatility_expansion cx, rv_level_break = xc_level_break cx,
          rv_staged_exit_alternative = (if staged_exit_used then ''USED'' else ''NOT_USED_REVIEW''),
          rv_lesson_candidate = (if liquidated then ''REVIEW_LIQUIDATION_BUFFER''
            else if trailing then ''REVIEW_PREMATURE_TRAILING'' else ''REVIEW_EXIT_CONTEXT'')\<rparr>)"

section \<open>Managed positions\<close>

record managed_position =
  mg_position_id :: string
  mg_candidate_id :: string
  mg_symbol :: string
  mg_market :: string
  mg_opened_at :: datetime
  mg_entry_price :: dec
  mg_entry_fee_usdt :: dec
  mg_initial_quantity :: dec
  mg_remaining_quantity :: dec
  mg_stop_loss :: dec
  mg_trailing_stop :: dec
  mg_atr :: dec
  mg_take_profit_levels :: "dec list"
  mg_opportunity_id :: string
  mg_take_profit_quantity_ratios :: "dec list"
  mg_status :: position_status
  mg_next_target_index :: nat
  mg_realized_pnl_usdt :: dec
  mg_exits :: "position_exit list"
  mg_closure_review :: "virtual_review option"
  mg_position_side :: position_side
  mg_maximum_holding_bars :: "int option"
  mg_breakeven_trigger_r :: "dec option"
  mg_trailing_atr_multiple :: "dec option"
  mg_bars_held :: int
  mg_maximum_favorable_excursion :: dec
  mg_maximum_adverse_excursion :: dec
  mg_fee_ratio :: dec
  mg_slippage_ratio :: dec
  mg_tick_size :: stepped
  mg_strategy_id :: string
  mg_strategy_version :: string
  mg_strategy_config_version :: string
  mg_strategy_config_hash :: string
  mg_regime :: string
  mg_timeframe :: string
  mg_snapshot_id :: string
  mg_decision_id :: string
  mg_dge_decision :: string
  mg_risk_policy_version :: string
  mg_validation_version :: string
  mg_entry_reason :: "string list"
  mg_parameter_methods :: trade_methods
  mg_decision_evidence :: decision_evidence
  mg_entry_slippage_cost_usdt :: dec
  mg_funding_cost_usdt :: dec
  mg_isolated_margin_usdt :: "dec option"
  mg_initial_margin_usdt :: "dec option"
  mg_maintenance_margin_ratio :: "dec option"
  mg_liquidation_price :: "dec option"
  mg_leverage :: "int option"
  mg_liquidation_fee_ratio :: dec
  mg_planned_rr :: "dec option"

definition managed_value_checks :: "managed_position \<Rightarrow> (bool \<times> string) list" where
  "managed_value_checks p =
     [(list_ex blank [mg_position_id p, mg_candidate_id p, mg_opportunity_id p, mg_symbol p, mg_market p],
       ''virtual managed position identity is required''),
      (\<not> is_aware (mg_opened_at p), ''virtual managed position timestamp must be timezone-aware''),
      (list_ex (\<lambda>x. x \<le> 0) [mg_entry_price p, mg_initial_quantity p, mg_stop_loss p, mg_trailing_stop p, mg_atr p,
         st_value (mg_tick_size p)], ''virtual managed position values must be positive''),
      (mg_entry_fee_usdt p < 0
         \<or> mg_realized_pnl_usdt p < d_mul (dround (- mg_entry_price p)) (mg_initial_quantity p),
       ''virtual managed position accounting is invalid''),
      (\<not> (0 \<le> mg_remaining_quantity p \<and> mg_remaining_quantity p \<le> mg_initial_quantity p),
       ''virtual managed position remaining quantity is invalid''),
      (mg_status p = PS_CLOSED \<and> mg_remaining_quantity p \<noteq> 0,
       ''closed virtual managed position cannot retain quantity''),
      (mg_status p \<noteq> PS_CLOSED \<and> mg_remaining_quantity p = 0,
       ''active virtual managed position must retain quantity''),
      (mg_bars_held p < 0 \<or> mg_maximum_favorable_excursion p < 0 \<or> mg_maximum_adverse_excursion p < 0,
       ''virtual managed position lifecycle counters must be non-negative''),
      (mg_entry_slippage_cost_usdt p < 0, ''entry slippage cost cannot be negative''),
      (\<not> (0 \<le> mg_liquidation_fee_ratio p \<and> mg_liquidation_fee_ratio p \<le> 2 / 100),
       ''liquidation fee ratio is invalid'')]"

definition managed_plan_checks :: "managed_position \<Rightarrow> (bool \<times> string) list" where
  "managed_plan_checks p =
     [((case mg_maximum_holding_bars p of None \<Rightarrow> False | Some n \<Rightarrow> n < 1),
       ''maximum_holding_bars must be positive when configured''),
      (given_and (\<lambda>x. x \<le> 0) (mg_breakeven_trigger_r p), ''breakeven_trigger_r must be positive when configured''),
      (given_and (\<lambda>x. x \<le> 0) (mg_trailing_atr_multiple p), ''trailing_atr_multiple must be positive when configured''),
      (mg_take_profit_levels p = [], ''virtual managed position requires take-profit levels''),
      (normal_market (mg_market p) \<notin> {''SPOT'', ''USD_M_FUTURES''},
       ''virtual managed position market must be SPOT or USD_M_FUTURES''),
      (mg_position_side p = PS_LONG \<and> sort (mg_take_profit_levels p) \<noteq> mg_take_profit_levels p,
       ''long virtual managed position targets must be ascending''),
      (mg_position_side p = PS_LONG \<and> mg_stop_loss p \<ge> mg_entry_price p, ''long stop loss must remain below entry''),
      (mg_position_side p = PS_SHORT \<and> mg_stop_loss p \<le> mg_entry_price p, ''short stop loss must remain above entry'')]"

text \<open>The five fields of the margin evidence: all of them on a futures position, none on a Spot one.\<close>

record margin_evidence =
  mv_isolated_margin :: dec
  mv_initial_margin :: dec
  mv_maintenance_ratio :: dec
  mv_liquidation_price :: dec
  mv_leverage :: int

definition margin_evidence_of :: "managed_position \<Rightarrow> margin_evidence option" where
  "margin_evidence_of p =
     (case (mg_isolated_margin_usdt p, mg_initial_margin_usdt p, mg_maintenance_margin_ratio p, mg_liquidation_price p,
            mg_leverage p) of
        (Some m, Some i, Some r, Some l, Some k) \<Rightarrow>
          Some \<lparr>mv_isolated_margin = m, mv_initial_margin = i, mv_maintenance_ratio = r, mv_liquidation_price = l,
            mv_leverage = k\<rparr>
      | _ \<Rightarrow> None)"

definition no_margin_evidence :: "managed_position \<Rightarrow> bool" where
  "no_margin_evidence p \<longleftrightarrow> mg_isolated_margin_usdt p = None \<and> mg_initial_margin_usdt p = None
     \<and> mg_maintenance_margin_ratio p = None \<and> mg_liquidation_price p = None \<and> mg_leverage p = None"

definition margin_evidence_checks :: "managed_position \<Rightarrow> margin_evidence \<Rightarrow> (bool \<times> string) list" where
  "margin_evidence_checks p m =
     [(list_ex (\<lambda>x. x \<le> 0) [mv_isolated_margin m, mv_initial_margin m, mv_liquidation_price m]
         \<or> \<not> (0 < mv_maintenance_ratio m \<and> mv_maintenance_ratio m < 1)
         \<or> \<not> (1 \<le> mv_leverage m \<and> mv_leverage m \<le> 125) \<or> mv_isolated_margin m < mv_initial_margin m,
       ''Futures virtual managed position margin evidence is invalid''),
      (mg_position_side p = PS_LONG \<and> mv_liquidation_price m \<ge> mg_entry_price p,
       ''long Futures liquidation price must remain below entry''),
      (mg_position_side p = PS_SHORT \<and> mv_liquidation_price m \<le> mg_entry_price p,
       ''short Futures liquidation price must remain above entry'')]"

definition managed_market_checks :: "managed_position \<Rightarrow> (bool \<times> string) list" where
  "managed_market_checks p =
     (if normal_market (mg_market p) = ''SPOT''
      then [(mg_position_side p \<noteq> PS_LONG, ''Spot virtual managed position must be long''),
            (\<not> no_margin_evidence p, ''Spot virtual managed position cannot contain Futures margin'')]
      else case margin_evidence_of p of
             None \<Rightarrow> [(True, ''Futures virtual managed position requires complete margin evidence'')]
           | Some m \<Rightarrow> margin_evidence_checks p m)"

definition managed_lineage_checks :: "managed_position \<Rightarrow> (bool \<times> string) list" where
  "managed_lineage_checks p =
     [(list_ex blank [mg_strategy_id p, mg_strategy_version p, mg_strategy_config_version p, mg_strategy_config_hash p,
         mg_regime p, mg_timeframe p, mg_snapshot_id p, mg_decision_id p, mg_dge_decision p, mg_risk_policy_version p,
         mg_validation_version p], ''virtual managed position attribution fields are required''),
      (mg_take_profit_quantity_ratios p = [] \<and> length (mg_take_profit_levels p) \<noteq> 1,
       ''staged virtual managed position requires quantity ratios for multiple targets'')]"

definition normalized_targets :: "managed_position \<Rightarrow> dec list result" where
  "normalized_targets p =
     (if mg_position_side p = PS_LONG then Inr (mg_take_profit_levels p)
      else validate
        [(rev (sort (mg_take_profit_levels p)) \<noteq> mg_take_profit_levels p,
          ''short virtual managed position targets must be descending'')] (sort (mg_take_profit_levels p)))"

definition managed_ratios :: "managed_position \<Rightarrow> dec list" where
  "managed_ratios p = (if mg_take_profit_quantity_ratios p = [] then [1] else mg_take_profit_quantity_ratios p)"

definition managed_planned_rr :: "managed_position \<Rightarrow> dec option" where
  "managed_planned_rr p =
     (let sign = (if mg_position_side p = PS_LONG then 1 else - 1);
          risk = d_mul sign (d_sub (mg_entry_price p) (mg_stop_loss p));
          reward = d_mul sign (d_sub (hd (mg_take_profit_levels p)) (mg_entry_price p))
      in if risk > 0 then Some (d_quot reward risk) else None)"

definition managed_post_init :: "managed_position \<Rightarrow> managed_position result" where
  "managed_post_init p =
     bindE (validate (managed_value_checks p) ()) (\<lambda>_.
     bindE (require_unique (''virtual managed position entry reason'', mg_entry_reason p)) (\<lambda>_.
     bindE (validate (managed_plan_checks p @ managed_market_checks p @ managed_lineage_checks p) ()) (\<lambda>_.
     bindE (normalized_targets p) (\<lambda>targets.
     bindE (staged_exit_plan_post_init \<lparr>sp_targets = targets, sp_quantity_ratios = managed_ratios p\<rparr>) (\<lambda>plan.
       if mg_next_target_index p > length (sp_targets plan)
       then Inl (ValueError ''virtual managed position target index is invalid'')
       else Inr (p\<lparr>mg_market := normal_market (mg_market p), mg_take_profit_quantity_ratios := managed_ratios p,
                   mg_planned_rr := managed_planned_rr p\<rparr>))))))"

text \<open>An order-ready decision opens a position; the margin evidence is that of the wallet after the fill.\<close>

definition opened_managed :: "virtual_request \<Rightarrow> runtime_decision \<Rightarrow> trade_intent \<Rightarrow> datetime \<Rightarrow> string option \<Rightarrow>
    managed_position" where
  "opened_managed r d intent opened_at position_id =
     (let after = rd_portfolio_after d;
          funding = d_sub (vp_funding_cost_usdt after) (vp_funding_cost_usdt (vr_portfolio r))
      in \<lparr>mg_position_id = (case position_id of Some i \<Rightarrow> if i = [] then ''virtual-position:'' @ vr_candidate_id r else i
            | None \<Rightarrow> ''virtual-position:'' @ vr_candidate_id r),
          mg_candidate_id = vr_candidate_id r, mg_symbol = vr_symbol r, mg_market = vr_market r,
          mg_opened_at = opened_at, mg_entry_price = ti_entry_price intent,
          mg_entry_fee_usdt = d_sub (vp_fees_paid_usdt after) (vp_fees_paid_usdt (vr_portfolio r)),
          mg_initial_quantity = ti_quantity intent, mg_remaining_quantity = ti_quantity intent,
          mg_stop_loss = vr_stop_loss r, mg_trailing_stop = vr_stop_loss r,
          mg_atr = d_abs (d_sub (ti_entry_price intent) (vr_stop_loss r)),
          mg_take_profit_levels = vr_take_profit_levels r, mg_opportunity_id = vr_opportunity_id r,
          mg_take_profit_quantity_ratios = [], mg_status = PS_OPEN, mg_next_target_index = 0,
          mg_realized_pnl_usdt = dround (- funding), mg_exits = [], mg_closure_review = None,
          mg_position_side = (case vr_position_side r of None \<Rightarrow> PS_LONG | Some side \<Rightarrow> side),
          mg_maximum_holding_bars = None, mg_breakeven_trigger_r = None, mg_trailing_atr_multiple = None,
          mg_bars_held = 0, mg_maximum_favorable_excursion = 0, mg_maximum_adverse_excursion = 0,
          mg_fee_ratio = vr_fee_ratio r, mg_slippage_ratio = vr_slippage_ratio r, mg_tick_size = vr_tick_size r,
          mg_strategy_id = vr_strategy_id r, mg_strategy_version = vr_strategy_version r,
          mg_strategy_config_version = vr_strategy_config_version r,
          mg_strategy_config_hash = vr_strategy_config_hash r, mg_regime = vr_regime r,
          mg_timeframe = vr_timeframe r, mg_snapshot_id = vr_snapshot_id r, mg_decision_id = vr_decision_id r,
          mg_dge_decision = vr_dge_decision r, mg_risk_policy_version = vr_risk_policy_version r,
          mg_validation_version = vr_validation_version r, mg_entry_reason = vr_entry_reason r,
          mg_parameter_methods = vr_parameter_methods r, mg_decision_evidence = vr_decision_evidence r,
          mg_entry_slippage_cost_usdt =
            d_mul (d_abs (d_sub (ti_entry_price intent) (vr_entry_price r))) (ti_quantity intent),
          mg_funding_cost_usdt = funding, mg_isolated_margin_usdt = vp_isolated_margin_usdt after,
          mg_initial_margin_usdt = vp_initial_margin_usdt after,
          mg_maintenance_margin_ratio = vr_maintenance_margin_ratio r,
          mg_liquidation_price = vp_liquidation_price after, mg_leverage = vp_leverage after,
          mg_liquidation_fee_ratio = vr_liquidation_fee_ratio r, mg_planned_rr = None\<rparr>)"

definition materialize_managed_position :: "virtual_request \<Rightarrow> runtime_decision \<Rightarrow> datetime \<Rightarrow> string option \<Rightarrow>
    managed_position result" where
  "materialize_managed_position r d opened_at position_id =
     (if rd_status d \<noteq> RD_ORDER_READY
      then Inl (ValueError ''managed position requires an ORDER_READY virtual runtime decision'')
      else case rd_trade_intent d of
             None \<Rightarrow> Inl (ValueError ''ORDER_READY virtual runtime decision requires trade intent'')
           | Some intent \<Rightarrow>
               if \<not> is_aware opened_at then Inl (ValueError ''managed position timestamp must be timezone-aware'')
               else managed_post_init (opened_managed r d intent opened_at position_id))"

section \<open>Exit triggers\<close>

definition breakeven_reached :: "managed_position \<Rightarrow> dec \<Rightarrow> bool" where
  "breakeven_reached p mfe =
     (case mg_breakeven_trigger_r p of
        None \<Rightarrow> False
      | Some trigger \<Rightarrow>
          let risk = d_mul (d_abs (d_sub (mg_entry_price p) (mg_stop_loss p))) (mg_initial_quantity p)
          in 0 < risk \<and> d_mul risk trigger \<le> mfe)"

definition forced_exit_reason :: "exit_context \<Rightarrow> backtest_reason option" where
  "forced_exit_reason cx =
     (if xc_structure_invalidation cx then Some STRUCTURE_INVALIDATION
      else if xc_regime_failure cx then Some REGIME_EXIT
      else if xc_momentum_failure cx then Some MOMENTUM_FAILURE else None)"

definition holding_expired :: "managed_position \<Rightarrow> bool" where
  "holding_expired p =
     (case mg_maximum_holding_bars p of None \<Rightarrow> False | Some n \<Rightarrow> n < mg_bars_held p + 1)"

section \<open>Spot positions through the paper lifecycle\<close>

definition lifecycle_exit_of :: "position_exit \<Rightarrow> lifecycle_exit result" where
  "lifecycle_exit_of x = lifecycle_exit_post_init
     \<lparr>le_timestamp = vx_timestamp x, le_reason = paper_exit_reason (vx_reason x), le_price = vx_price x,
      le_quantity = vx_quantity x, le_fee_usdt = vx_fee_usdt x, le_net_pnl_usdt = vx_net_pnl_usdt x\<rparr>"

definition lifecycle_of :: "(evidence_body \<Rightarrow> string) \<Rightarrow> managed_position \<Rightarrow> lifecycle_position result" where
  "lifecycle_of edig p =
     bindE (staged_exit_plan_post_init
       \<lparr>sp_targets = sort (mg_take_profit_levels p), sp_quantity_ratios = mg_take_profit_quantity_ratios p\<rparr>) (\<lambda>plan.
     bindE (mapE lifecycle_exit_of (mg_exits p)) (\<lambda>exits.
       position_post_init
         \<lparr>lp_position_id = mg_position_id p, lp_candidate_id = mg_candidate_id p, lp_symbol = mg_symbol p,
          lp_opened_at = mg_opened_at p, lp_entry_price = mg_entry_price p, lp_entry_fee_usdt = mg_entry_fee_usdt p,
          lp_initial_quantity = mg_initial_quantity p, lp_remaining_quantity = mg_remaining_quantity p,
          lp_stop_loss = mg_stop_loss p, lp_trailing_stop = mg_trailing_stop p, lp_atr = mg_atr p, lp_plan = plan,
          lp_status = mg_status p, lp_next_target_index = mg_next_target_index p,
          lp_realized_pnl_usdt = mg_realized_pnl_usdt p, lp_exits = exits,
          lp_closure_review = map_option paper_closure_review (mg_closure_review p), lp_leverage = None,
          lp_planned_rr = None, lp_decision_evidence = no_evidence edig, lp_parameter_methods = default_methods,
          lp_closure_assessment = None\<rparr>))"

definition close_lifecycle_remaining :: "lifecycle_position \<Rightarrow> datetime \<Rightarrow> backtest_reason \<Rightarrow> dec \<Rightarrow> exit_context \<Rightarrow> dec \<Rightarrow>
    dec \<Rightarrow> lifecycle_position result" where
  "close_lifecycle_remaining l t reason reference cx fee_ratio slippage_ratio =
     (let quantity = lp_remaining_quantity l;
          price = d_mul reference (d_sub 1 slippage_ratio);
          fee = d_mul (d_mul price quantity) fee_ratio
      in bindE (d_div (d_mul (lp_entry_fee_usdt l) quantity) (lp_initial_quantity l)) (\<lambda>allocated.
         let pnl = d_sub (d_sub (d_mul (d_sub price (lp_entry_price l)) quantity) fee) allocated
         in bindE (lifecycle_exit_post_init \<lparr>le_timestamp = t, le_reason = TAKE_PROFIT_EXIT, le_price = price,
               le_quantity = quantity, le_fee_usdt = fee, le_net_pnl_usdt = pnl\<rparr>) (\<lambda>x.
              position_post_init
                (l\<lparr>lp_remaining_quantity := 0, lp_status := PS_CLOSED,
                   lp_realized_pnl_usdt := d_add (lp_realized_pnl_usdt l) pnl, lp_exits := lp_exits l @ [x],
                   lp_closure_review :=
                     Some (paper_closure_review (virtual_review_of reason cx (lp_exits l \<noteq> [])))\<rparr>))))"

definition spot_engine :: "managed_position \<Rightarrow> lifecycle_engine" where
  "spot_engine p =
     \<lparr>ln_fee_ratio = mg_fee_ratio p, ln_slippage_ratio = mg_slippage_ratio p,
      ln_trailing_multiplier =
        (case mg_trailing_atr_multiple p of None \<Rightarrow> 3 / 2 | Some m \<Rightarrow> if m = 0 then 3 / 2 else m),
      ln_tick_size = st_value (mg_tick_size p)\<rparr>"

definition paper_context :: "exit_context \<Rightarrow> closure_context result" where
  "paper_context cx = closure_context_post_init
     \<lparr>cc_ignored_signals = xc_ignored_signals cx, cc_htf_weakness = xc_htf_weakness cx,
      cc_volatility_expansion = xc_volatility_expansion cx, cc_level_break = xc_level_break cx\<rparr>"

definition spot_excursion :: "managed_position \<Rightarrow> candle \<Rightarrow> dec" where
  "spot_excursion p cd =
     max (mg_maximum_favorable_excursion p)
       (d_mul (max (d_sub (cd_high cd) (mg_entry_price p)) 0) (mg_initial_quantity p))"

definition to_breakeven :: "managed_position \<Rightarrow> dec \<Rightarrow> lifecycle_position \<Rightarrow> lifecycle_position result" where
  "to_breakeven p mfe l =
     (if lp_status l \<noteq> PS_CLOSED \<and> breakeven_reached p mfe
      then position_post_init (l\<lparr>lp_trailing_stop := max (lp_trailing_stop l) (lp_entry_price l)\<rparr>)
      else Inr l)"

text \<open>The exit that no price triggers: a forced one first, else the expired holding time.\<close>

definition override_reason :: "managed_position \<Rightarrow> exit_context \<Rightarrow> lifecycle_position \<Rightarrow> backtest_reason option" where
  "override_reason p cx l =
     (if lp_status l = PS_CLOSED then None
      else case forced_exit_reason cx of
             Some r \<Rightarrow> Some r
           | None \<Rightarrow> if holding_expired p then Some TIME_EXIT else None)"

definition spot_lifecycle_after :: "(evidence_body \<Rightarrow> string) \<Rightarrow> managed_position \<Rightarrow> candle \<Rightarrow> exit_context \<Rightarrow>
    (lifecycle_position \<times> backtest_reason option) result" where
  "spot_lifecycle_after edig p cd cx =
     bindE (lifecycle_engine_post_init (spot_engine p)) (\<lambda>e.
     bindE (lifecycle_of edig p) (\<lambda>l.
     bindE (paper_context cx) (\<lambda>c.
     bindE (process_candle e l cd c) (\<lambda>l1.
     bindE (to_breakeven p (spot_excursion p cd) l1) (\<lambda>l2.
       case override_reason p cx l2 of
         None \<Rightarrow> Inr (l2, None)
       | Some r \<Rightarrow>
           bindE (close_lifecycle_remaining l2 (cd_timestamp cd) r (cd_close cd) cx (mg_fee_ratio p) (mg_slippage_ratio p))
             (\<lambda>l3. Inr (l3, Some r)))))))"

definition relabel_last :: "backtest_reason \<Rightarrow> position_exit list \<Rightarrow> position_exit list" where
  "relabel_last r xs = butlast xs @ [(last xs)\<lparr>vx_reason := r\<rparr>]"

definition relabelled :: "backtest_reason option \<Rightarrow> position_status \<Rightarrow> position_exit list \<Rightarrow> virtual_review option \<Rightarrow>
    position_exit list \<times> virtual_review option" where
  "relabelled override status xs review =
     (case review of
        None \<Rightarrow> (xs, None)
      | Some v \<Rightarrow>
          if xs = [] then (xs, review)
          else case override of
                 Some r \<Rightarrow> (relabel_last r xs, Some (v\<lparr>rv_exit_reason := r\<rparr>))
               | None \<Rightarrow>
                   if status = PS_CLOSED \<and> vx_reason (last xs) \<noteq> rv_exit_reason v
                   then (relabel_last (rv_exit_reason v) xs, review) else (xs, review))"

definition managed_from_lifecycle :: "managed_position \<Rightarrow> lifecycle_position \<Rightarrow> int \<Rightarrow> dec \<Rightarrow> backtest_reason option \<Rightarrow>
    managed_position result" where
  "managed_from_lifecycle p l bars_held mfe override =
     bindE (mapE virtual_exit (lp_exits l)) (\<lambda>xs.
       let (exits, review) = relabelled override (lp_status l) xs (map_option virtual_closure_review (lp_closure_review l))
       in managed_post_init
            (p\<lparr>mg_remaining_quantity := lp_remaining_quantity l, mg_trailing_stop := lp_trailing_stop l,
               mg_status := lp_status l, mg_next_target_index := lp_next_target_index l,
               mg_realized_pnl_usdt := lp_realized_pnl_usdt l, mg_exits := exits, mg_closure_review := review,
               mg_bars_held := bars_held, mg_maximum_favorable_excursion := mfe\<rparr>))"

text \<open>The wallet: each new exit moves cash and inventory; losses in a row count at the closure.\<close>

definition spot_exit_balances :: "managed_position \<Rightarrow> virtual_portfolio \<Rightarrow> position_exit list \<Rightarrow> spot_balances" where
  "spot_exit_balances p w xs =
     foldl (\<lambda>b x. b\<lparr>sp_cash := d_add (sp_cash b) (d_sub (d_mul (vx_price x) (vx_quantity x)) (vx_fee_usdt x)),
                    sp_quantity := d_sub (sp_quantity b) (vx_quantity x),
                    sp_cost_basis := d_sub (sp_cost_basis b) (d_mul (mg_entry_price p) (vx_quantity x)),
                    sp_realized_delta := d_add (sp_realized_delta b) (vx_net_pnl_usdt x)\<rparr>)
       \<lparr>sp_cash = vp_cash_usdt w, sp_quantity = vp_inventory_quantity w, sp_cost_basis = vp_inventory_cost_basis_usdt w,
        sp_realized_delta = 0, sp_open_count = vp_open_position_count w\<rparr> xs"

definition losses_after :: "virtual_portfolio \<Rightarrow> managed_position \<Rightarrow> int" where
  "losses_after w p =
     (if mg_status p = PS_CLOSED then if mg_realized_pnl_usdt p < 0 then vp_consecutive_losses w + 1 else 0
      else vp_consecutive_losses w)"

definition new_exits :: "managed_position \<Rightarrow> managed_position \<Rightarrow> position_exit list" where
  "new_exits p q = drop (length (mg_exits p)) (mg_exits q)"

definition spot_wallet_after :: "virtual_portfolio \<Rightarrow> managed_position \<Rightarrow> managed_position \<Rightarrow> dec \<Rightarrow>
    virtual_portfolio result" where
  "spot_wallet_after w p q mark_price =
     (let xs = new_exits p q;
          b = spot_exit_balances p w xs;
          cost_basis = (if sp_quantity b = 0 then 0 else sp_cost_basis b);
          mark_value = d_mul (sp_quantity b) mark_price;
          equity = d_add (sp_cash b) mark_value;
          watermark = max (known_watermark w) equity
      in portfolio_post_init
           (w\<lparr>vp_cash_usdt := sp_cash b, vp_equity_usdt := equity, vp_inventory_quantity := sp_quantity b,
              vp_inventory_cost_basis_usdt := max cost_basis 0,
              vp_realized_pnl_usdt := d_add (vp_realized_pnl_usdt w) (sp_realized_delta b),
              vp_unrealized_pnl_usdt := d_sub mark_value cost_basis,
              vp_fees_paid_usdt := d_add (vp_fees_paid_usdt w) (d_sum (map vx_fee_usdt xs)),
              vp_high_watermark_usdt := Some watermark,
              vp_max_drawdown_ratio := max (vp_max_drawdown_ratio w) (drawdown_of watermark equity),
              vp_current_open_risk_usdt :=
                max (d_mul (mg_remaining_quantity q) (max (d_sub (mg_entry_price q) (mg_stop_loss q)) 0)) 0,
              vp_consecutive_losses := losses_after w q,
              vp_open_position_count := (if mg_status q = PS_CLOSED then 0 else vp_open_position_count w)\<rparr>))"

section \<open>Futures positions\<close>

record futures_context =
  fc_observed_at :: datetime
  fc_mark_price :: dec
  fc_funding_rate :: dec
  fc_funding_payment_due :: bool
  fc_mark_candle :: "candle option"
  fc_maintenance_brackets :: "bracket list"
  fc_isolated_wallet_margin :: "dec option"

definition futures_context_post_init :: "futures_context \<Rightarrow> futures_context result" where
  "futures_context_post_init c =
     bindE (validate
       [(\<not> is_aware (fc_observed_at c), ''Futures position context timestamp must be timezone-aware''),
        (fc_mark_price c \<le> 0, ''Futures position context mark price must be positive'')] ()) (\<lambda>_.
     case fc_mark_candle c of
       Some cd \<Rightarrow>
         bindE (validate_futures_brackets (fc_maintenance_brackets c)) (\<lambda>_.
         validate [(cd_timestamp cd \<noteq> fc_observed_at c \<or> cd_close cd \<noteq> fc_mark_price c \<or> cd_low cd \<le> 0
             \<or> fc_isolated_wallet_margin c = None, ''native mark path requires aligned isolated margin evidence'')] c)
     | None \<Rightarrow>
         validate [(fc_maintenance_brackets c \<noteq> [] \<or> fc_isolated_wallet_margin c \<noteq> None,
           ''isolated path context requires native mark OHLC'')] c)"

text \<open>The funding due on the remaining quantity: a long pays a positive rate, a short receives it.\<close>

definition funding_delta :: "managed_position \<Rightarrow> futures_context \<Rightarrow> dec" where
  "funding_delta p c =
     (if fc_funding_payment_due c
      then d_mul (d_mul (d_mul (case fc_mark_candle c of Some cd \<Rightarrow> cd_open cd | None \<Rightarrow> mg_entry_price p)
             (mg_remaining_quantity p)) (fc_funding_rate c)) (side_sign (mg_position_side p = PS_LONG))
      else 0)"

definition solved_liquidation_price :: "managed_position \<Rightarrow> futures_context \<Rightarrow> dec option result" where
  "solved_liquidation_price p c =
     (case fc_mark_candle c of
        None \<Rightarrow> Inr None
      | Some _ \<Rightarrow>
          (case fc_isolated_wallet_margin c of
             None \<Rightarrow> Inl (TypeError ''unsupported operand'')
           | Some margin \<Rightarrow>
               bindE (isolated_liquidation_price (mg_position_side p = PS_LONG) (Finite (mg_entry_price p))
                 (Finite (mg_remaining_quantity p)) (Finite (d_sub margin (funding_delta p c)))
                 (fc_maintenance_brackets c)) (\<lambda>x. Inr (Some x))))"

definition protective_stop :: "managed_position \<Rightarrow> dec" where
  "protective_stop p =
     (if mg_position_side p = PS_LONG then max (mg_stop_loss p) (mg_trailing_stop p)
      else min (mg_stop_loss p) (mg_trailing_stop p))"

definition stop_reason :: "managed_position \<Rightarrow> backtest_reason" where
  "stop_reason p = (if protective_stop p = mg_stop_loss p then HARD_STOP else TRAILING_STOP)"

definition liquidation_hit :: "managed_position \<Rightarrow> candle \<Rightarrow> dec \<Rightarrow> bool" where
  "liquidation_hit p cd price \<longleftrightarrow> (if mg_position_side p = PS_LONG then cd_low cd \<le> price else price \<le> cd_high cd)"

definition stop_hit :: "managed_position \<Rightarrow> candle \<Rightarrow> bool" where
  "stop_hit p cd \<longleftrightarrow>
     (if mg_position_side p = PS_LONG then cd_low cd \<le> protective_stop p else protective_stop p \<le> cd_high cd)"

definition futures_protective_exit :: "managed_position \<Rightarrow> candle \<Rightarrow> candle option \<Rightarrow> dec \<Rightarrow> (backtest_reason \<times> dec) option" where
  "futures_protective_exit p cd mark liquidation =
     (let mc = (case mark of Some m \<Rightarrow> m | None \<Rightarrow> cd)
      in if liquidation_hit p mc liquidation
         then Some (LIQUIDATION, if mg_position_side p = PS_LONG then min (cd_open mc) liquidation
                                 else max (cd_open mc) liquidation)
         else if stop_hit p cd then Some (stop_reason p, protective_stop p)
         else None)"

definition futures_exit :: "managed_position \<Rightarrow> datetime \<Rightarrow> backtest_reason \<Rightarrow> dec \<Rightarrow> dec \<Rightarrow> position_exit result" where
  "futures_exit p t reason reference quantity =
     (let long = (mg_position_side p = PS_LONG);
          raw = d_mul reference (if long then d_sub 1 (mg_slippage_ratio p) else d_add 1 (mg_slippage_ratio p))
      in bindE (d_quantize (if long then d_trunc else d_round_up) raw (st_exponent (mg_tick_size p))) (\<lambda>price.
         let gross = d_mul (if long then d_sub price (mg_entry_price p) else d_sub (mg_entry_price p) price) quantity;
             exit_fee = d_mul (d_mul price quantity) (mg_fee_ratio p);
             liquidation_fee =
               (if reason = LIQUIDATION then d_mul (d_mul price quantity) (mg_liquidation_fee_ratio p) else 0)
         in bindE (d_div (d_mul (mg_entry_fee_usdt p) quantity) (mg_initial_quantity p)) (\<lambda>allocated.
            position_exit_post_init
              \<lparr>vx_timestamp = t, vx_reason = reason, vx_price = price, vx_quantity = quantity,
               vx_fee_usdt = d_add exit_fee liquidation_fee,
               vx_net_pnl_usdt = d_sub (d_sub (d_sub gross exit_fee) liquidation_fee) allocated,
               vx_slippage_cost_usdt = d_mul (d_abs (d_sub price reference)) quantity\<rparr>)))"

definition futures_trailing_stop :: "managed_position \<Rightarrow> candle \<Rightarrow> dec \<Rightarrow> dec" where
  "futures_trailing_stop p cd mfe =
     (let long = (mg_position_side p = PS_LONG);
          trailing = (if breakeven_reached p mfe
             then if long then max (mg_trailing_stop p) (mg_entry_price p)
                  else min (mg_trailing_stop p) (mg_entry_price p)
             else mg_trailing_stop p)
      in case mg_trailing_atr_multiple p of
           None \<Rightarrow> trailing
         | Some m \<Rightarrow>
             let distance = d_mul (mg_atr p) m
             in if long then max trailing (d_sub (cd_close cd) distance) else min trailing (d_add (cd_close cd) distance))"

text \<open>What the exits of one candle have done so far.\<close>

record exit_progress =
  fg_exits :: "position_exit list"
  fg_remaining :: dec
  fg_realized :: dec
  fg_index :: nat
  fg_reason :: "backtest_reason option"

definition exit_taken :: "position_exit \<Rightarrow> dec \<Rightarrow> nat \<Rightarrow> exit_progress \<Rightarrow> exit_progress" where
  "exit_taken x remaining index s =
     \<lparr>fg_exits = fg_exits s @ [x], fg_remaining = remaining, fg_realized = d_add (fg_realized s) (vx_net_pnl_usdt x),
      fg_index = index, fg_reason = Some (vx_reason x)\<rparr>"

definition exit_all :: "managed_position \<Rightarrow> datetime \<Rightarrow> backtest_reason \<Rightarrow> dec \<Rightarrow> exit_progress \<Rightarrow> exit_progress result" where
  "exit_all p t reason reference s =
     bindE (futures_exit p t reason reference (fg_remaining s)) (\<lambda>x. Inr (exit_taken x 0 (fg_index s) s))"

definition target_reached :: "managed_position \<Rightarrow> candle \<Rightarrow> nat \<Rightarrow> bool" where
  "target_reached p cd i \<longleftrightarrow> i < length (mg_take_profit_levels p) \<and>
     (if mg_position_side p = PS_LONG then mg_take_profit_levels p ! i \<le> cd_high cd
      else cd_low cd \<le> mg_take_profit_levels p ! i)"

definition futures_target_exit :: "managed_position \<Rightarrow> candle \<Rightarrow> exit_progress \<Rightarrow> exit_progress result" where
  "futures_target_exit p cd s =
     (let i = fg_index s
      in bindE (nthE (mg_take_profit_quantity_ratios p) i) (\<lambda>ratio.
         let quantity = (if Suc i = length (mg_take_profit_levels p) then fg_remaining s
                         else min (fg_remaining s) (d_mul (mg_initial_quantity p) ratio))
         in bindE (futures_exit p (cd_timestamp cd) TARGET (mg_take_profit_levels p ! i) quantity) (\<lambda>x.
            Inr (exit_taken x (d_sub (fg_remaining s) quantity) (Suc i) s))))"

lemma futures_target_exit_advances: "futures_target_exit p cd s = Inr s' \<Longrightarrow> fg_index s' = Suc (fg_index s)"
  by (auto simp: futures_target_exit_def exit_taken_def Let_def)

function futures_targets :: "managed_position \<Rightarrow> candle \<Rightarrow> exit_progress \<Rightarrow> exit_progress result" where
  "futures_targets p cd s =
     (if target_reached p cd (fg_index s)
      then case futures_target_exit p cd s of
             Inl err \<Rightarrow> Inl err
           | Inr s' \<Rightarrow> if fg_remaining s' = 0 then Inr s' else futures_targets p cd s'
      else Inr s)"
  by pat_completeness auto

termination
  by (relation "measure (\<lambda>(p, cd, s). length (mg_take_profit_levels p) - fg_index s)")
    (auto simp: futures_target_exit_advances target_reached_def)

declare futures_targets.simps [simp del]

definition futures_exits :: "managed_position \<Rightarrow> candle \<Rightarrow> exit_context \<Rightarrow> futures_context \<Rightarrow> exit_progress result" where
  "futures_exits p cd cx c =
     (let start = \<lparr>fg_exits = [], fg_remaining = mg_remaining_quantity p,
            fg_realized = d_sub (mg_realized_pnl_usdt p) (funding_delta p c), fg_index = mg_next_target_index p,
            fg_reason = None\<rparr>
      in bindE (solved_liquidation_price p c) (\<lambda>solved.
         case (case solved of Some x \<Rightarrow> Some x | None \<Rightarrow> mg_liquidation_price p) of
           None \<Rightarrow> Inl (TypeError ''unsupported operand'')
         | Some liquidation \<Rightarrow>
             (case futures_protective_exit p cd (fc_mark_candle c) liquidation of
                Some (reason, price) \<Rightarrow> exit_all p (cd_timestamp cd) reason price start
              | None \<Rightarrow>
                  (case forced_exit_reason cx of
                     Some reason \<Rightarrow> exit_all p (cd_timestamp cd) reason (cd_close cd) start
                   | None \<Rightarrow>
                       bindE (futures_targets p cd start) (\<lambda>s.
                         if 0 < fg_remaining s \<and> holding_expired p
                         then exit_all p (cd_timestamp cd) TIME_EXIT (cd_close cd) s else Inr s)))))"

definition futures_excursions :: "managed_position \<Rightarrow> candle \<Rightarrow> dec \<times> dec" where
  "futures_excursions p cd =
     (let up = max (d_sub (cd_high cd) (mg_entry_price p)) 0; down = max (d_sub (mg_entry_price p) (cd_low cd)) 0;
          long = (mg_position_side p = PS_LONG)
      in (max (mg_maximum_favorable_excursion p) (d_mul (if long then up else down) (mg_initial_quantity p)),
          max (mg_maximum_adverse_excursion p) (d_mul (if long then down else up) (mg_initial_quantity p))))"

definition futures_status :: "managed_position \<Rightarrow> exit_progress \<Rightarrow> position_status" where
  "futures_status p s =
     (if fg_remaining s = 0 then PS_CLOSED
      else if fg_exits s \<noteq> [] \<or> mg_status p = PS_PARTIALLY_CLOSED then PS_PARTIALLY_CLOSED else PS_OPEN)"

text \<open>A closure without an exit, possible only on a position that was closed before, has no reason to review.\<close>

definition futures_review :: "managed_position \<Rightarrow> exit_context \<Rightarrow> exit_progress \<Rightarrow> virtual_review option result" where
  "futures_review p cx s =
     (if fg_remaining s \<noteq> 0 then Inr None
      else case fg_reason s of
             None \<Rightarrow> Inl (TypeError ''exit reason has no value'')
           | Some r \<Rightarrow> Inr (Some (virtual_review_of r cx (1 < length (mg_exits p) + length (fg_exits s)))))"

definition futures_position_after :: "managed_position \<Rightarrow> candle \<Rightarrow> exit_context \<Rightarrow> futures_context \<Rightarrow> exit_progress \<Rightarrow>
    managed_position result" where
  "futures_position_after p cd cx c s =
     (let (mfe, mae) = futures_excursions p cd
      in bindE (futures_review p cx s) (\<lambda>review.
         managed_post_init
           (p\<lparr>mg_remaining_quantity := fg_remaining s,
              mg_trailing_stop := (if 0 < fg_remaining s then futures_trailing_stop p cd mfe else mg_trailing_stop p),
              mg_status := futures_status p s, mg_next_target_index := fg_index s, mg_realized_pnl_usdt := fg_realized s,
              mg_exits := mg_exits p @ fg_exits s, mg_closure_review := review, mg_bars_held := mg_bars_held p + 1,
              mg_maximum_favorable_excursion := mfe, mg_maximum_adverse_excursion := mae,
              mg_funding_cost_usdt := d_add (mg_funding_cost_usdt p) (funding_delta p c)\<rparr>)))"

text \<open>The wallet gets the margin share of each exit back, with its profit and less its fee.\<close>

definition futures_exit_cash :: "managed_position \<Rightarrow> margin_evidence \<Rightarrow> dec \<Rightarrow> position_exit \<Rightarrow> dec" where
  "futures_exit_cash p m cash x =
     (let gross = d_mul (d_mul (d_sub (vx_price x) (mg_entry_price p)) (vx_quantity x))
                    (side_sign (mg_position_side p = PS_LONG));
          release = d_quot (d_mul (mv_isolated_margin m) (vx_quantity x)) (mg_initial_quantity p)
      in d_add cash (d_sub (d_add release gross) (vx_fee_usdt x)))"

definition unrealized_at :: "managed_position \<Rightarrow> dec \<Rightarrow> dec \<Rightarrow> dec" where
  "unrealized_at p mark_price quantity =
     d_mul (if mg_position_side p = PS_LONG then d_sub mark_price (mg_entry_price p)
            else d_sub (mg_entry_price p) mark_price) quantity"

definition futures_wallet :: "virtual_portfolio \<Rightarrow> managed_position \<Rightarrow> margin_evidence \<Rightarrow> managed_position \<Rightarrow> dec \<Rightarrow> dec \<Rightarrow>
    virtual_portfolio" where
  "futures_wallet w p m q mark_price funding =
     (let xs = new_exits p q;
          left = mg_remaining_quantity q;
          cash = foldl (futures_exit_cash p m) (d_sub (vp_cash_usdt w) funding) xs;
          share = (if left = 0 then 0 else d_quot left (mg_initial_quantity p));
          margin = d_mul (mv_isolated_margin m) share;
          notional = d_mul mark_price left;
          unrealized = unrealized_at p mark_price left;
          equity = d_add (d_add cash margin) unrealized;
          watermark = max (known_watermark w) equity;
          closed = (mg_status q = PS_CLOSED)
      in w\<lparr>vp_cash_usdt := cash, vp_equity_usdt := equity,
           vp_realized_pnl_usdt := d_add (vp_realized_pnl_usdt w)
             (foldl d_add (dround (- funding)) (map vx_net_pnl_usdt xs)),
           vp_unrealized_pnl_usdt := unrealized,
           vp_fees_paid_usdt := d_add (vp_fees_paid_usdt w) (d_sum (map vx_fee_usdt xs)),
           vp_slippage_cost_usdt := d_add (vp_slippage_cost_usdt w) (d_sum (map vx_slippage_cost_usdt xs)),
           vp_funding_cost_usdt := d_add (vp_funding_cost_usdt w) funding,
           vp_high_watermark_usdt := Some watermark,
           vp_max_drawdown_ratio := max (vp_max_drawdown_ratio w) (drawdown_of watermark equity),
           vp_current_open_risk_usdt :=
             (if closed then 0 else d_mul (d_abs (d_sub (mg_entry_price p) (mg_stop_loss p))) left),
           vp_position_side := (if closed then None else Some (mg_position_side p)),
           vp_position_entry_price := (if closed then None else Some (mg_entry_price p)),
           vp_position_mark_price := (if closed then None else Some mark_price),
           vp_position_notional_usdt := (if closed then None else Some notional),
           vp_isolated_margin_usdt := (if closed then None else Some margin),
           vp_initial_margin_usdt := (if closed then None else Some (d_mul (mv_initial_margin m) share)),
           vp_maintenance_margin_usdt := (if closed then None else Some (d_mul notional (mv_maintenance_ratio m))),
           vp_liquidation_price := (if closed then None else mg_liquidation_price p),
           vp_leverage := (if closed then None else mg_leverage p),
           vp_margin_utilization_ratio :=
             (if \<not> closed \<and> 0 < equity then Some (min 1 (d_quot margin equity)) else None),
           vp_open_position_count := (if closed then 0 else vp_open_position_count w),
           vp_consecutive_losses := losses_after w q\<rparr>)"

definition futures_wallet_after :: "virtual_portfolio \<Rightarrow> managed_position \<Rightarrow> managed_position \<Rightarrow> dec \<Rightarrow> dec \<Rightarrow>
    virtual_portfolio result" where
  "futures_wallet_after w p q mark_price funding =
     (case margin_evidence_of p of
        None \<Rightarrow> Inl (TypeError ''unsupported operand'')
      | Some m \<Rightarrow> portfolio_post_init (futures_wallet w p m q mark_price funding))"

section \<open>The record of a closed trade\<close>

record trade_attribution =
  ta_strategy_id :: string
  ta_strategy_version :: string
  ta_strategy_config_version :: string
  ta_strategy_config_hash :: string
  ta_market :: string
  ta_symbol :: string
  ta_regime :: string
  ta_timeframe :: string
  ta_snapshot_id :: string
  ta_decision_id :: string
  ta_opportunity_id :: string
  ta_decision_evidence :: decision_evidence

definition trade_attribution_post_init :: "trade_attribution \<Rightarrow> trade_attribution result" where
  "trade_attribution_post_init a = validate
     (map (\<lambda>(name, v). (blank v, ''closed trade attribution '' @ name @ '' is required''))
       [(''strategy_id'', ta_strategy_id a), (''strategy_version'', ta_strategy_version a),
        (''strategy_config_version'', ta_strategy_config_version a), (''strategy_config_hash'', ta_strategy_config_hash a),
        (''market'', ta_market a), (''symbol'', ta_symbol a), (''regime'', ta_regime a), (''timeframe'', ta_timeframe a),
        (''snapshot_id'', ta_snapshot_id a), (''decision_id'', ta_decision_id a),
        (''opportunity_id'', ta_opportunity_id a)]) a"

record closed_trade =
  tr_trade_id :: string
  tr_attribution :: trade_attribution
  tr_direction :: position_side
  tr_entry_time :: datetime
  tr_exit_time :: datetime
  tr_entry_price :: dec
  tr_exit_price :: dec
  tr_quantity :: dec
  tr_risk_at_entry :: dec
  tr_entry_reason :: "string list"
  tr_exit_reason :: backtest_reason
  tr_dge_decision :: string
  tr_risk_policy_version :: string
  tr_validation_version :: string
  tr_gross_pnl_usdt :: dec
  tr_fee_cost_usdt :: dec
  tr_slippage_cost_usdt :: dec
  tr_funding_cost_usdt :: dec
  tr_net_pnl_usdt :: dec
  tr_realized_r_multiple :: dec
  tr_maximum_favorable_excursion :: dec
  tr_maximum_adverse_excursion :: dec
  tr_false_breakout :: bool
  tr_leverage :: "int option"
  tr_initial_stop_loss :: "dec option"
  tr_initial_take_profit_levels :: "dec list"
  tr_planned_rr :: "dec option"
  tr_parameter_methods :: trade_methods
  tr_closure_assessment :: "closure_assessment option"

text \<open>The assessment is no constructor argument: every construction builds it.\<close>

definition closed_trade_post_init :: "closed_trade \<Rightarrow> closed_trade result" where
  "closed_trade_post_init t = validate
     [(blank (tr_trade_id t), ''virtual closed trade identity is required''),
      (list_ex blank (tr_entry_reason t), ''virtual closed trade entry reason cannot contain blanks''),
      (list_ex blank [tr_dge_decision t, tr_risk_policy_version t, tr_validation_version t],
       ''virtual closed trade governance lineage is required'')]
     (t\<lparr>tr_closure_assessment := Some (closure_build (ta_decision_evidence (tr_attribution t)) (tr_entry_time t)
          (tr_entry_price t) (backtest_reason_value (tr_exit_reason t)))\<rparr>)"

definition attribution_of :: "managed_position \<Rightarrow> trade_attribution" where
  "attribution_of p =
     \<lparr>ta_strategy_id = mg_strategy_id p, ta_strategy_version = mg_strategy_version p,
      ta_strategy_config_version = mg_strategy_config_version p, ta_strategy_config_hash = mg_strategy_config_hash p,
      ta_market = mg_market p, ta_symbol = mg_symbol p, ta_regime = mg_regime p, ta_timeframe = mg_timeframe p,
      ta_snapshot_id = mg_snapshot_id p, ta_decision_id = mg_decision_id p, ta_opportunity_id = mg_opportunity_id p,
      ta_decision_evidence = mg_decision_evidence p\<rparr>"

text \<open>\<^verbatim>\<open>sub in s\<close> on strings.\<close>

definition py_contains :: "string \<Rightarrow> string \<Rightarrow> bool" where
  "py_contains sub s \<longleftrightarrow> list_ex (\<lambda>i. take (length sub) (drop i s) = sub) [0..<Suc (length s)]"

definition closed_trade_of :: "managed_position \<Rightarrow> managed_position \<Rightarrow> trade_attribution \<Rightarrow> position_exit \<Rightarrow> dec \<Rightarrow>
    dec option \<Rightarrow> closed_trade" where
  "closed_trade_of p q a lx realized_r planned =
     (let xs = mg_exits q;
          quantity = mg_initial_quantity p;
          sign = side_sign (mg_position_side p = PS_LONG);
          execution = d_sum (map (\<lambda>x. d_mul (d_mul (d_sub (vx_price x) (mg_entry_price p)) (vx_quantity x)) sign) xs);
          slippage = d_add (mg_entry_slippage_cost_usdt p) (d_sum (map vx_slippage_cost_usdt xs));
          distance = d_abs (d_sub (mg_entry_price p) (mg_stop_loss p))
      in \<lparr>tr_trade_id = mg_position_id p, tr_attribution = a, tr_direction = mg_position_side p,
          tr_entry_time = mg_opened_at p, tr_exit_time = vx_timestamp lx, tr_entry_price = mg_entry_price p,
          tr_exit_price = vx_price lx, tr_quantity = quantity, tr_risk_at_entry = d_mul quantity distance,
          tr_entry_reason = mg_entry_reason p, tr_exit_reason = vx_reason lx,
          tr_dge_decision = mg_dge_decision p, tr_risk_policy_version = mg_risk_policy_version p,
          tr_validation_version = mg_validation_version p, tr_gross_pnl_usdt = d_add execution slippage,
          tr_fee_cost_usdt = d_add (mg_entry_fee_usdt p) (d_sum (map vx_fee_usdt xs)),
          tr_slippage_cost_usdt = slippage, tr_funding_cost_usdt = mg_funding_cost_usdt q,
          tr_net_pnl_usdt = mg_realized_pnl_usdt q, tr_realized_r_multiple = realized_r,
          tr_maximum_favorable_excursion = mg_maximum_favorable_excursion q,
          tr_maximum_adverse_excursion =
            (if mg_maximum_adverse_excursion q = 0 then d_mul distance quantity
             else mg_maximum_adverse_excursion q),
          tr_false_breakout = (vx_reason lx \<in> {HARD_STOP, TRAILING_STOP}
            \<and> list_ex (py_contains ''BREAKOUT'') (mg_entry_reason p)),
          tr_leverage = mg_leverage p, tr_initial_stop_loss = Some (mg_stop_loss p),
          tr_initial_take_profit_levels = mg_take_profit_levels p, tr_planned_rr = planned,
          tr_parameter_methods = mg_parameter_methods p, tr_closure_assessment = None\<rparr>)"

definition closed_trade_record :: "managed_position \<Rightarrow> managed_position \<Rightarrow> closed_trade result" where
  "closed_trade_record p q =
     (if mg_exits q = [] then Inl IndexError
      else
        let distance = d_abs (d_sub (mg_entry_price p) (mg_stop_loss p));
            risk = d_mul (mg_initial_quantity p) distance
        in bindE (if risk \<le> 0 then Inr 0 else d_div (mg_realized_pnl_usdt q) risk) (\<lambda>realized_r.
           bindE (trade_attribution_post_init (attribution_of p)) (\<lambda>a.
           bindE (nthE (mg_take_profit_levels p) 0) (\<lambda>target.
           bindE (if mg_entry_price p = mg_stop_loss p then Inr None
                  else bindE (d_div (d_abs (d_sub target (mg_entry_price p))) distance) (\<lambda>x. Inr (Some x)))
             (\<lambda>planned. closed_trade_post_init (closed_trade_of p q a (last (mg_exits q)) realized_r planned))))))"

section \<open>One candle\<close>

record update_decision =
  ud_position_before :: managed_position
  ud_position_after :: managed_position
  ud_portfolio_after :: virtual_portfolio
  ud_exit_reason :: "backtest_reason option"
  ud_closed_trade :: "closed_trade option"
  ud_reason_codes :: "string list"
  ud_audit_refs :: "string list"

definition update_decision_post_init :: "update_decision \<Rightarrow> update_decision result" where
  "update_decision_post_init d =
     bindE (require_unique (''virtual position update reason codes'', ud_reason_codes d)) (\<lambda>_.
     bindE (require_unique (''virtual position update audit refs'', ud_audit_refs d)) (\<lambda>_. Inr d))"

definition trade_if_closed :: "managed_position \<Rightarrow> managed_position \<Rightarrow> closed_trade option result" where
  "trade_if_closed p q =
     (if mg_status q = PS_CLOSED then bindE (closed_trade_record p q) (\<lambda>t. Inr (Some t)) else Inr None)"

definition decided :: "(datetime \<Rightarrow> string) \<Rightarrow> managed_position \<Rightarrow> managed_position \<Rightarrow> virtual_portfolio \<Rightarrow> candle \<Rightarrow>
    backtest_reason option \<Rightarrow> string list \<Rightarrow> update_decision result" where
  "decided stamp p q w cd reason extra =
     bindE (trade_if_closed p q) (\<lambda>trade.
       update_decision_post_init
         \<lparr>ud_position_before = p, ud_position_after = q, ud_portfolio_after = w, ud_exit_reason = reason,
          ud_closed_trade = trade,
          ud_reason_codes = dict_fromkeys (map (backtest_reason_value \<circ> vx_reason) (new_exits p q) @ extra
             @ [position_status_value (mg_status q)]),
          ud_audit_refs = [mg_position_id p, mg_candidate_id p, mg_symbol p, stamp (cd_timestamp cd)]\<rparr>)"

definition process_spot_position :: "(evidence_body \<Rightarrow> string) \<Rightarrow> (datetime \<Rightarrow> string) \<Rightarrow> managed_position \<Rightarrow> virtual_portfolio \<Rightarrow>
    candle \<Rightarrow> exit_context \<Rightarrow> update_decision result" where
  "process_spot_position edig stamp p w cd cx =
     bindE (spot_lifecycle_after edig p cd cx) (\<lambda>(l, override).
     bindE (managed_from_lifecycle p l (mg_bars_held p + 1) (spot_excursion p cd) override) (\<lambda>p'.
     bindE (spot_wallet_after w p p' (cd_close cd)) (\<lambda>w'.
       decided stamp p p' w' cd
         (if new_exits p p' = [] then None else Some (vx_reason (last (new_exits p p')))) [])))"

definition process_futures_position :: "(datetime \<Rightarrow> string) \<Rightarrow> managed_position \<Rightarrow> virtual_portfolio \<Rightarrow> candle \<Rightarrow> exit_context \<Rightarrow>
    futures_context \<Rightarrow> update_decision result" where
  "process_futures_position stamp p w cd cx c =
     bindE (futures_exits p cd cx c) (\<lambda>s.
     bindE (futures_position_after p cd cx c s) (\<lambda>p'.
     bindE (futures_wallet_after w p p' (fc_mark_price c) (funding_delta p c)) (\<lambda>w'.
       decided stamp p p' w' cd (fg_reason s) (if funding_delta p c = 0 then [] else [''FUTURES_FUNDING_APPLIED'']))))"

definition process_position :: "(evidence_body \<Rightarrow> string) \<Rightarrow> (datetime \<Rightarrow> string) \<Rightarrow> managed_position \<Rightarrow> virtual_portfolio \<Rightarrow>
    candle \<Rightarrow> exit_context option \<Rightarrow> futures_context option \<Rightarrow> datetime option \<Rightarrow> update_decision result" where
  "process_position edig stamp p w cd context fctx available_at =
     (let cx = (case context of None \<Rightarrow> no_exit_context | Some c \<Rightarrow> c)
      in if mg_market p \<noteq> vp_market w
         then Inl (ValueError ''virtual managed position market must match portfolio market'')
         else if mg_market p = ''USD_M_FUTURES''
         then (case fctx of
                 None \<Rightarrow> Inl (ValueError ''Futures virtual position lifecycle requires mark and funding context'')
               | Some c \<Rightarrow>
                   if fc_observed_at c \<noteq> (case available_at of None \<Rightarrow> cd_timestamp cd | Some t \<Rightarrow> t)
                   then Inl (ValueError ''Futures position context must match the candle availability time'')
                   else process_futures_position stamp p w cd cx c)
         else if fctx \<noteq> None then Inl (ValueError ''Spot position lifecycle cannot use Futures context'')
         else if mg_position_side p \<noteq> PS_LONG
         then Inl (ValueError ''Spot virtual position lifecycle requires a long position'')
         else process_spot_position edig stamp p w cd cx)"

end
