(* ===== verification/Virtual_History.thy ===== *)
theory Virtual_History
  imports Virtual_Position
begin

text \<open>
  Managed virtual positions over time. The lemmas follow the exits of a candle through the paper lifecycle
  (\<open>lifecycle_ledger\<close>) and through the futures exits (\<open>progress_ledger\<close>), state what a candle may change of a
  position (\<open>managed_moves\<close>) and that the wallet shows the position it holds (\<open>wallet_shows\<close>); the theorems
  speak of every position and wallet that an entry and any candles lead to (\<open>virtual_history\<close>).
\<close>

section \<open>The ledger of a paper lifecycle\<close>

definition lifecycle_ledger :: "lifecycle_position \<Rightarrow> lifecycle_position \<Rightarrow> bool" where
  "lifecycle_ledger l l' \<longleftrightarrow>
     lp_entry_price l' = lp_entry_price l \<and> lp_initial_quantity l' = lp_initial_quantity l \<and>
     lp_entry_fee_usdt l' = lp_entry_fee_usdt l \<and> lp_trailing_stop l \<le> lp_trailing_stop l' \<and>
     (\<exists>xs. lp_exits l' = lp_exits l @ xs \<and>
        lp_remaining_quantity l' = foldl d_sub (lp_remaining_quantity l) (map le_quantity xs) \<and>
        lp_realized_pnl_usdt l' = foldl d_add (lp_realized_pnl_usdt l) (map le_net_pnl_usdt xs) \<and>
        (if xs = [] then lp_status l' = lp_status l \<and> lp_closure_review l' = lp_closure_review l
         else lp_status l' = PS_CLOSED \<longleftrightarrow> lp_closure_review l' \<noteq> None) \<and>
        (lp_status l' \<noteq> PS_CLOSED \<longrightarrow> list_all (\<lambda>x. le_reason x = TAKE_PROFIT_EXIT) xs))"

lemma lifecycle_ledger_refl [simp]: "lifecycle_ledger l l"
  by (auto simp: lifecycle_ledger_def)

lemma lifecycle_ledger_trans:
  assumes "lifecycle_ledger l m" "lifecycle_ledger m n" "lp_status m \<noteq> PS_CLOSED"
  shows "lifecycle_ledger l n"
proof -
  obtain xs ys where xs: "lp_exits m = lp_exits l @ xs"
      "lp_remaining_quantity m = foldl d_sub (lp_remaining_quantity l) (map le_quantity xs)"
      "lp_realized_pnl_usdt m = foldl d_add (lp_realized_pnl_usdt l) (map le_net_pnl_usdt xs)"
      "if xs = [] then lp_status m = lp_status l \<and> lp_closure_review m = lp_closure_review l else lp_status m = PS_CLOSED \<longleftrightarrow> lp_closure_review m \<noteq> None" "list_all (\<lambda>x. le_reason x = TAKE_PROFIT_EXIT) xs"
    and ys: "lp_exits n = lp_exits m @ ys"
      "lp_remaining_quantity n = foldl d_sub (lp_remaining_quantity m) (map le_quantity ys)"
      "lp_realized_pnl_usdt n = foldl d_add (lp_realized_pnl_usdt m) (map le_net_pnl_usdt ys)"
      "if ys = [] then lp_status n = lp_status m \<and> lp_closure_review n = lp_closure_review m else lp_status n = PS_CLOSED \<longleftrightarrow> lp_closure_review n \<noteq> None" "lp_status n \<noteq> PS_CLOSED \<longrightarrow> list_all (\<lambda>x. le_reason x = TAKE_PROFIT_EXIT) ys"
    using assms unfolding lifecycle_ledger_def by blast
  then have "\<exists>zs. lp_exits n = lp_exits l @ zs \<and>
      lp_remaining_quantity n = foldl d_sub (lp_remaining_quantity l) (map le_quantity zs) \<and>
      lp_realized_pnl_usdt n = foldl d_add (lp_realized_pnl_usdt l) (map le_net_pnl_usdt zs) \<and>
      (if zs = [] then lp_status n = lp_status l \<and> lp_closure_review n = lp_closure_review l else lp_status n = PS_CLOSED \<longleftrightarrow> lp_closure_review n \<noteq> None) \<and>
      (lp_status n \<noteq> PS_CLOSED \<longrightarrow> list_all (\<lambda>x. le_reason x = TAKE_PROFIT_EXIT) zs)"
    by (intro exI [of _ "xs @ ys"]) (auto split: if_splits)
  with assms show ?thesis by (auto simp: lifecycle_ledger_def)
qed

lemma apply_exit_ledger:
  assumes "apply_exit e l t reason price q cx i = Inr l'"
    and "reason = TAKE_PROFIT_EXIT \<or> q = lp_remaining_quantity l"
  shows "lifecycle_ledger l l'" "lp_status l' = PS_CLOSED \<longleftrightarrow> lp_remaining_quantity l' = 0"
proof -
  obtain x where x: "le_reason x = reason" "le_quantity x = q"
    "position_post_init (exited_position l x (d_sub (lp_remaining_quantity l) q) i cx) = Inr l'"
    by (rule apply_exit_Inr [OF assms(1)]) blast
  show "lifecycle_ledger l l'" "lp_status l' = PS_CLOSED \<longleftrightarrow> lp_remaining_quantity l' = 0"
    using x(1,2) assms(2) unfolding lifecycle_ledger_def
    by (auto simp: position_post_init_fields [OF x(3)] exited_position_def)
qed

lemma take_targets_ledger:
  "take_targets e cd cx l = Inr l' \<Longrightarrow> lp_status l \<noteq> PS_CLOSED \<Longrightarrow> lifecycle_ledger l l'"
proof (induction e cd cx l rule: take_targets.induct)
  case (1 e cd cx l)
  let ?i = "lp_next_target_index l" and ?targets = "sp_targets (lp_plan l)"
  show ?case
  proof (cases "?i < length ?targets \<and> ?targets ! ?i \<le> cd_high cd")
    case True
    then obtain m where m: "exit_at_target e cd cx l = Inr m"
      "if lp_status m = PS_CLOSED then l' = m else take_targets e cd cx m = Inr l'"
      using 1(2) by (auto simp: take_targets.simps [of e cd cx l] Let_def split: sum.splits if_splits)
    have lm: "lifecycle_ledger l m"
      using m(1) by (auto simp: exit_at_target_def Let_def intro: apply_exit_ledger(1))
    show ?thesis
    proof (cases "lp_status m = PS_CLOSED")
      case False
      then have "lifecycle_ledger m l'"
        using m by (intro 1(1) [OF refl refl True m(1)]) simp_all
      then show ?thesis using lm False by (blast intro: lifecycle_ledger_trans)
    qed (use m lm in simp)
  next
    case False
    then show ?thesis using 1(2) by (auto simp: take_targets.simps [of e cd cx l] Let_def)
  qed
qed

lemma trail_stop_ledger:
  assumes "trail_stop e cd l = Inr l'"
  shows "lifecycle_ledger l l'" "lp_exits l' = lp_exits l" "lp_status l' = lp_status l"
proof -
  obtain u where u: "update_long_trailing_stop (lp_trailing_stop l) (cd_close cd) (lp_atr l) (ln_trailing_multiplier e)
      (ln_tick_size e) = Inr u" "position_post_init (l\<lparr>lp_trailing_stop := tu_new_stop u\<rparr>) = Inr l'"
    using assms by (auto simp: trail_stop_def)
  have "lp_trailing_stop l \<le> tu_new_stop u"
    using u(1) by (auto simp: update_long_trailing_stop_def Let_def split: if_splits)
  then show "lifecycle_ledger l l'" "lp_exits l' = lp_exits l" "lp_status l' = lp_status l"
    by (auto simp: lifecycle_ledger_def position_post_init_fields [OF u(2)])
qed

lemma process_candle_ledger:
  assumes "process_candle e l cd cx = Inr l'"
  shows "lifecycle_ledger l l'" "lp_status l \<noteq> PS_CLOSED"
proof -
  show active: "lp_status l \<noteq> PS_CLOSED" using assms by (auto simp: process_candle_def)
  show "lifecycle_ledger l l'"
  proof (cases "cd_low cd \<le> effective_stop l")
    case True
    then show ?thesis
      using assms active by (auto simp: process_candle_def close_remaining_def intro: apply_exit_ledger(1) split: if_splits)
  next
    case False
    then obtain m where m: "take_targets e cd cx l = Inr m"
      "if lp_status m = PS_CLOSED then l' = m else trail_stop e cd m = Inr l'"
      using assms active by (auto simp: process_candle_def split: if_splits)
    have "lifecycle_ledger l m" using m(1) active by (rule take_targets_ledger)
    then show ?thesis
      using m(2) trail_stop_ledger(1) by (auto intro: lifecycle_ledger_trans split: if_splits)
  qed
qed

lemma to_breakeven_ledger:
  assumes "to_breakeven p mfe l = Inr l'"
  shows "lifecycle_ledger l l'" "lp_status l' = lp_status l"
proof -
  show "lifecycle_ledger l l'" "lp_status l' = lp_status l"
    using assms unfolding to_breakeven_def
    by (auto simp: lifecycle_ledger_def position_post_init_fields split: if_splits)
qed

lemma close_lifecycle_Inr:
  assumes "close_lifecycle_remaining l t r reference cx fee slip = Inr l'"
  obtains x v where "le_quantity x = lp_remaining_quantity l" "lifecycle_exit_post_init x = Inr x"
    "position_post_init (l\<lparr>lp_remaining_quantity := 0, lp_status := PS_CLOSED,
       lp_realized_pnl_usdt := d_add (lp_realized_pnl_usdt l) (le_net_pnl_usdt x), lp_exits := lp_exits l @ [x],
       lp_closure_review := Some v\<rparr>) = Inr l'"
proof -
  let ?q = "lp_remaining_quantity l" and ?price = "d_mul reference (d_sub 1 slip)"
  let ?fee = "d_mul (d_mul ?price ?q) fee"
  obtain allocated where a: "d_div (d_mul (lp_entry_fee_usdt l) ?q) (lp_initial_quantity l) = Inr allocated"
    using assms by (auto simp: close_lifecycle_remaining_def Let_def)
  let ?x = "\<lparr>le_timestamp = t, le_reason = TAKE_PROFIT_EXIT, le_price = ?price, le_quantity = ?q, le_fee_usdt = ?fee,
     le_net_pnl_usdt = d_sub (d_sub (d_mul (d_sub ?price (lp_entry_price l)) ?q) ?fee) allocated\<rparr>"
  show thesis
    using assms a
    by (intro that [of ?x "paper_closure_review (virtual_review_of r cx (lp_exits l \<noteq> []))"])
      (auto simp: close_lifecycle_remaining_def Let_def lifecycle_exit_post_init_def)
qed

lemma close_lifecycle_ledger:
  assumes "close_lifecycle_remaining l t r reference cx fee slip = Inr l'"
  shows "lifecycle_ledger l l'" "lp_status l' = PS_CLOSED" "lp_exits l' \<noteq> lp_exits l" "lp_closure_review l' \<noteq> None"
proof -
  obtain x v where x: "le_quantity x = lp_remaining_quantity l"
    "position_post_init (l\<lparr>lp_remaining_quantity := 0, lp_status := PS_CLOSED,
       lp_realized_pnl_usdt := d_add (lp_realized_pnl_usdt l) (le_net_pnl_usdt x), lp_exits := lp_exits l @ [x],
       lp_closure_review := Some v\<rparr>) = Inr l'"
    by (rule close_lifecycle_Inr [OF assms])
  show "lifecycle_ledger l l'" "lp_status l' = PS_CLOSED" "lp_exits l' \<noteq> lp_exits l" "lp_closure_review l' \<noteq> None"
    using x(1) by (auto simp: lifecycle_ledger_def position_post_init_fields [OF x(2)])
qed

section \<open>Constructed positions\<close>

lemma normal_market_idem [simp]: "normal_market (normal_market m) = normal_market m" "blank (normal_market m) = blank m"
  by (simp_all add: normal_market_def blank_upper_strip) (simp add: blank_def)

lemma managed_post_init_Inr:
  assumes "managed_post_init p = Inr q"
  shows "q = p\<lparr>mg_market := normal_market (mg_market p), mg_take_profit_quantity_ratios := managed_ratios p,
      mg_planned_rr := managed_planned_rr p\<rparr>"
    "list_all (\<lambda>c. \<not> fst c) (managed_value_checks p)" "list_all (\<lambda>c. \<not> fst c) (managed_plan_checks p)"
    "list_all (\<lambda>c. \<not> fst c) (managed_market_checks p)"
    "\<exists>targets. normalized_targets p = Inr targets \<and>
       staged_exit_plan_post_init \<lparr>sp_targets = targets, sp_quantity_ratios = managed_ratios p\<rparr> =
         Inr \<lparr>sp_targets = targets, sp_quantity_ratios = managed_ratios p\<rparr> \<and> mg_next_target_index p \<le> length targets"
  using assms by (auto simp: managed_post_init_def staged_exit_plan_post_init_def split: if_splits)

lemma managed_post_init_idem:
  assumes "managed_post_init p = Inr q"
  shows "managed_post_init q = Inr q"
proof -
  note q = managed_post_init_Inr(1) [OF assms]
  have ratios: "managed_ratios q = managed_ratios p" by (simp add: q managed_ratios_def)
  have margin: "margin_evidence_of q = margin_evidence_of p" "margin_evidence_checks q = margin_evidence_checks p"
    "no_margin_evidence q = no_margin_evidence p"
    by (simp_all add: q margin_evidence_of_def margin_evidence_checks_def no_margin_evidence_def fun_eq_iff)
  have checks: "managed_value_checks q = managed_value_checks p" "managed_plan_checks q = managed_plan_checks p"
    "normalized_targets q = normalized_targets p" "managed_planned_rr q = managed_planned_rr p"
    by (simp_all add: q managed_value_checks_def managed_plan_checks_def normalized_targets_def managed_planned_rr_def)
  have market: "managed_market_checks q = managed_market_checks p"
    unfolding managed_market_checks_def margin by (simp add: q)
  have example_lineage: "list_all (\<lambda>c. \<not> fst c) (managed_lineage_checks p) \<Longrightarrow> list_all (\<lambda>c. \<not> fst c) (managed_lineage_checks q)"
    by (simp add: q managed_lineage_checks_def managed_ratios_def)
  show ?thesis
    using assms example_lineage unfolding managed_post_init_def checks market ratios
    by (auto simp: q split: if_splits)
qed

lemma managed_post_init_values:
  assumes "managed_post_init p = Inr q"
  shows "0 < mg_entry_price p" "0 < mg_initial_quantity p" "0 < mg_stop_loss p" "0 < mg_trailing_stop p"
    "0 \<le> mg_remaining_quantity p" "mg_remaining_quantity p \<le> mg_initial_quantity p"
    "mg_status p = PS_CLOSED \<longleftrightarrow> mg_remaining_quantity p = 0" "normal_market (mg_market p) \<in> {''SPOT'', ''USD_M_FUTURES''}"
  using managed_post_init_Inr(2,3) [OF assms] by (auto simp: managed_value_checks_def managed_plan_checks_def)

section \<open>What a candle may change\<close>

definition tighter_stop :: "managed_position \<Rightarrow> dec \<Rightarrow> dec \<Rightarrow> bool" where
  "tighter_stop p old new \<longleftrightarrow> (if mg_position_side p = PS_LONG then old \<le> new else new \<le> old)"

text \<open>
  Identity, entry, plan, costs and margin evidence stay; exits are only appended, and the remaining
  quantity and the realized result are exactly what those exits take from and add to the stop_amounts before
  (\<open>start\<close> is the realized result after funding).
\<close>

definition managed_moves :: "managed_position \<Rightarrow> dec \<Rightarrow> managed_position \<Rightarrow> bool" where
  "managed_moves p start q \<longleftrightarrow>
     q = p\<lparr>mg_remaining_quantity := mg_remaining_quantity q, mg_trailing_stop := mg_trailing_stop q, mg_status := mg_status q,
       mg_next_target_index := mg_next_target_index q, mg_realized_pnl_usdt := mg_realized_pnl_usdt q, mg_exits := mg_exits q,
       mg_closure_review := mg_closure_review q, mg_bars_held := mg_bars_held p + 1,
       mg_maximum_favorable_excursion := mg_maximum_favorable_excursion q,
       mg_maximum_adverse_excursion := mg_maximum_adverse_excursion q, mg_funding_cost_usdt := mg_funding_cost_usdt q\<rparr> \<and>
     tighter_stop p (mg_trailing_stop p) (mg_trailing_stop q) \<and>
     mg_maximum_favorable_excursion p \<le> mg_maximum_favorable_excursion q \<and>
     mg_maximum_adverse_excursion p \<le> mg_maximum_adverse_excursion q \<and>
     (\<exists>xs. mg_exits q = mg_exits p @ xs \<and>
        mg_remaining_quantity q = foldl d_sub (mg_remaining_quantity p) (map vx_quantity xs) \<and>
        mg_realized_pnl_usdt q = foldl d_add start (map vx_net_pnl_usdt xs))"

definition managed_ok :: "managed_position \<Rightarrow> bool" where
  "managed_ok p \<longleftrightarrow> managed_post_init p = Inr p \<and> dround (mg_remaining_quantity p) = mg_remaining_quantity p \<and>
     tighter_stop p (mg_stop_loss p) (mg_trailing_stop p) \<and> (mg_status p = PS_CLOSED \<longleftrightarrow> mg_closure_review p \<noteq> None) \<and>
     (mg_market p = ''SPOT'' \<and> mg_status p \<noteq> PS_CLOSED \<longrightarrow>
        list_all (\<lambda>x. vx_reason x = TARGET \<and> vx_slippage_cost_usdt x = 0) (mg_exits p))"

lemma d_sub_self: "d_sub x x = 0"
  by simp

lemma foldl_d_sub_rep: "dround r = r \<Longrightarrow> dround (foldl d_sub r qs) = foldl d_sub r qs"
  by (induction qs arbitrary: r) simp_all

section \<open>Spot candles\<close>

lemma exit_round_trip:
  assumes "lifecycle_exit_of x = Inr l" "vx_reason x = TARGET" "vx_slippage_cost_usdt x = 0"
  shows "virtual_exit l = Inr x"
  using assms
  by (auto simp: lifecycle_exit_of_def virtual_exit_def lifecycle_exit_post_init_def position_exit_post_init_def
      paper_exit_reason_def canonical_backtest_reason_def)

lemma exits_round_trip:
  "mapE lifecycle_exit_of xs = Inr ls \<Longrightarrow> list_all (\<lambda>x. vx_reason x = TARGET \<and> vx_slippage_cost_usdt x = 0) xs \<Longrightarrow>
    mapE virtual_exit ls = Inr xs"
  by (induction xs arbitrary: ls) (auto dest: exit_round_trip)

lemma mapE_append: "mapE f (xs @ ys) = bindE (mapE f xs) (\<lambda>us. bindE (mapE f ys) (\<lambda>vs. Inr (us @ vs)))"
  by (induction xs) (auto simp: bindE_def split: sum.splits)

lemma virtual_exit_fields:
  "virtual_exit l = Inr x \<Longrightarrow> vx_quantity x = le_quantity l \<and> vx_net_pnl_usdt x = le_net_pnl_usdt l
     \<and> vx_slippage_cost_usdt x = 0 \<and> vx_reason x = canonical_backtest_reason (le_reason l)"
  by (auto simp: virtual_exit_def position_exit_post_init_def)

lemma virtual_exits_fields:
  "mapE virtual_exit ls = Inr xs \<Longrightarrow> map vx_quantity xs = map le_quantity ls \<and>
     map vx_net_pnl_usdt xs = map le_net_pnl_usdt ls \<and> map vx_slippage_cost_usdt xs = map (\<lambda>_. 0) ls \<and>
     map vx_reason xs = map (canonical_backtest_reason \<circ> le_reason) ls"
  by (induction ls arbitrary: xs) (auto dest!: virtual_exit_fields)

lemma virtual_target_exits:
  "mapE virtual_exit ls = Inr xs \<Longrightarrow> list_all (\<lambda>x. le_reason x = TAKE_PROFIT_EXIT) ls \<Longrightarrow>
     list_all (\<lambda>x. vx_reason x = TARGET \<and> vx_slippage_cost_usdt x = 0) xs"
  by (induction ls arbitrary: xs) (auto dest!: virtual_exit_fields simp: canonical_backtest_reason_def)

lemma relabel_last_append: "ys \<noteq> [] \<Longrightarrow> relabel_last r (xs @ ys) = xs @ relabel_last r ys"
  by (simp add: relabel_last_def butlast_append)

lemma relabel_last_fields:
  "xs \<noteq> [] \<Longrightarrow> map vx_quantity (relabel_last r xs) = map vx_quantity xs \<and>
     map vx_net_pnl_usdt (relabel_last r xs) = map vx_net_pnl_usdt xs"
  by (induction xs rule: rev_induct) (auto simp: relabel_last_def)

lemma lifecycle_of_Inr:
  assumes "lifecycle_of edig p = Inr l"
  shows "mapE lifecycle_exit_of (mg_exits p) = Inr (lp_exits l)" "lp_remaining_quantity l = mg_remaining_quantity p"
    "lp_realized_pnl_usdt l = mg_realized_pnl_usdt p" "lp_status l = mg_status p" "lp_trailing_stop l = mg_trailing_stop p"
    "lp_closure_review l = map_option paper_closure_review (mg_closure_review p)"
  using assms by (auto simp: lifecycle_of_def position_post_init_fields)

lemma spot_lifecycle_ledger:
  assumes "spot_lifecycle_after edig p cd cx = Inr (l', override)"
  obtains l where "lifecycle_of edig p = Inr l" "lifecycle_ledger l l'" "mg_status p \<noteq> PS_CLOSED"
    "override \<noteq> None \<longrightarrow> lp_status l' = PS_CLOSED"
proof -
  obtain e l c l1 l2 where run: "lifecycle_of edig p = Inr l" "process_candle e l cd c = Inr l1"
    "to_breakeven p (spot_excursion p cd) l1 = Inr l2"
    and last: "(case override_reason p cx l2 of None \<Rightarrow> Inr (l2, None) | Some r \<Rightarrow>
       bindE (close_lifecycle_remaining l2 (cd_timestamp cd) r (cd_close cd) cx (mg_fee_ratio p) (mg_slippage_ratio p))
         (\<lambda>l3. Inr (l3, Some r))) = Inr (l', override)"
    using assms by (auto simp: spot_lifecycle_after_def)
  have active: "lp_status l \<noteq> PS_CLOSED" and l1: "lifecycle_ledger l l1" using process_candle_ledger [OF run(2)] by simp_all
  have l2: "lifecycle_ledger l l2"
  proof (cases "lp_status l1 = PS_CLOSED")
    case True
    then show ?thesis using l1 run(3) by (simp add: to_breakeven_def)
  next
    case False
    then show ?thesis using l1 to_breakeven_ledger [OF run(3)] by (blast intro: lifecycle_ledger_trans)
  qed
  show thesis
  proof (cases "override_reason p cx l2")
    case None
    then show thesis using last l2 active by (intro that [OF run(1)]) (simp_all add: lifecycle_of_Inr [OF run(1)])
  next
    case (Some r)
    then have l3: "close_lifecycle_remaining l2 (cd_timestamp cd) r (cd_close cd) cx (mg_fee_ratio p) (mg_slippage_ratio p) = Inr l'"
      and "lp_status l2 \<noteq> PS_CLOSED"
      using last by (auto simp: override_reason_def split: if_splits)
    then have "lifecycle_ledger l l'" using l2 close_lifecycle_ledger(1) lifecycle_ledger_trans by blast
    then show thesis
      using active close_lifecycle_ledger(2) [OF l3] by (intro that [OF run(1)]) (simp_all add: lifecycle_of_Inr [OF run(1)])
  qed
qed

text \<open>Relabelling touches only an exit of this candle, and neither its quantity nor its result.\<close>

lemma relabelled_new:
  assumes "relabelled override status (xs @ ys) review = (exits, review')" "ys \<noteq> [] \<or> review = None"
  obtains zs where "exits = xs @ zs" "map vx_quantity zs = map vx_quantity ys" "map vx_net_pnl_usdt zs = map vx_net_pnl_usdt ys"
    "review' = None \<longleftrightarrow> review = None" "review = None \<Longrightarrow> zs = ys"
proof (cases review)
  case None
  then show thesis using assms by (intro that [of ys]) (simp_all add: relabelled_def)
next
  case (Some v)
  then have "ys \<noteq> []" using assms by simp
  then obtain r where "exits = xs @ ys \<or> exits = xs @ relabel_last r ys" "review' \<noteq> None"
    using assms(1) Some by (auto simp: relabelled_def relabel_last_append split: option.splits if_splits)
  then show thesis using Some \<open>ys \<noteq> []\<close> relabel_last_fields [OF \<open>ys \<noteq> []\<close>, of r] that by auto
qed

lemma managed_update:
  assumes "managed_post_init p = Inr p"
    and "managed_post_init (p\<lparr>mg_remaining_quantity := a, mg_trailing_stop := b, mg_status := c, mg_next_target_index := d,
       mg_realized_pnl_usdt := e, mg_exits := f, mg_closure_review := g, mg_bars_held := h,
       mg_maximum_favorable_excursion := i, mg_maximum_adverse_excursion := j, mg_funding_cost_usdt := k\<rparr>) = Inr q"
  shows "q = p\<lparr>mg_remaining_quantity := a, mg_trailing_stop := b, mg_status := c, mg_next_target_index := d,
       mg_realized_pnl_usdt := e, mg_exits := f, mg_closure_review := g, mg_bars_held := h,
       mg_maximum_favorable_excursion := i, mg_maximum_adverse_excursion := j, mg_funding_cost_usdt := k\<rparr>"
proof -
  have p: "normal_market (mg_market p) = mg_market p" "managed_ratios p = mg_take_profit_quantity_ratios p"
    "managed_planned_rr p = mg_planned_rr p"
    using arg_cong [OF managed_post_init_Inr(1) [OF assms(1)], of mg_market]
      arg_cong [OF managed_post_init_Inr(1) [OF assms(1)], of mg_take_profit_quantity_ratios]
      arg_cong [OF managed_post_init_Inr(1) [OF assms(1)], of mg_planned_rr] by simp_all
  moreover have "managed_ratios p \<noteq> []" by (simp add: managed_ratios_def)
  ultimately have "mg_take_profit_quantity_ratios p \<noteq> []" by simp
  then show ?thesis
    using managed_post_init_Inr(1) [OF assms(2)] p by (simp add: managed_ratios_def managed_planned_rr_def)
qed

lemma managed_from_lifecycle_moves:
  assumes ok: "managed_ok p" "mg_market p = ''SPOT''" "mg_position_side p = PS_LONG"
    and l: "lifecycle_of edig p = Inr l" "lifecycle_ledger l l'" "mg_status p \<noteq> PS_CLOSED"
    and q: "managed_from_lifecycle p l' (mg_bars_held p + 1) mfe override = Inr q" "mg_maximum_favorable_excursion p \<le> mfe"
  shows "managed_moves p (mg_realized_pnl_usdt p) q" "managed_ok q"
proof -
  note of_l = lifecycle_of_Inr [OF l(1)]
  have post: "managed_post_init p = Inr p" and none: "mg_closure_review p = None"
    and targets: "list_all (\<lambda>x. vx_reason x = TARGET \<and> vx_slippage_cost_usdt x = 0) (mg_exits p)"
    using ok l(3) by (auto simp: managed_ok_def)
  obtain new where new: "lp_exits l' = lp_exits l @ new"
      "lp_remaining_quantity l' = foldl d_sub (lp_remaining_quantity l) (map le_quantity new)"
      "lp_realized_pnl_usdt l' = foldl d_add (lp_realized_pnl_usdt l) (map le_net_pnl_usdt new)"
      "if new = [] then lp_status l' = lp_status l \<and> lp_closure_review l' = lp_closure_review l
       else lp_status l' = PS_CLOSED \<longleftrightarrow> lp_closure_review l' \<noteq> None"
      "lp_status l' \<noteq> PS_CLOSED \<longrightarrow> list_all (\<lambda>x. le_reason x = TAKE_PROFIT_EXIT) new"
    and stop: "lp_trailing_stop l \<le> lp_trailing_stop l'"
    using l(2) unfolding lifecycle_ledger_def by blast
  have review: "lp_status l' = PS_CLOSED \<longleftrightarrow> lp_closure_review l' \<noteq> None" "new = [] \<Longrightarrow> lp_closure_review l' = None"
    using new(4) l(3) none of_l by (auto split: if_splits)
  obtain ys where ys: "mapE virtual_exit new = Inr ys" "mapE virtual_exit (lp_exits l') = Inr (mg_exits p @ ys)"
    using q(1) exits_round_trip [OF of_l(1) targets] by (auto simp: managed_from_lifecycle_def new(1) mapE_append)
  obtain exits review' where rel: "relabelled override (lp_status l') (mg_exits p @ ys)
      (map_option virtual_closure_review (lp_closure_review l')) = (exits, review')" by fastforce
  have "ys \<noteq> [] \<or> map_option virtual_closure_review (lp_closure_review l') = None"
    using review(2) ys(1) by (cases new) auto
  from relabelled_new [OF rel this] obtain zs where zs: "exits = mg_exits p @ zs" "map vx_quantity zs = map vx_quantity ys"
      "map vx_net_pnl_usdt zs = map vx_net_pnl_usdt ys" "review' = None \<longleftrightarrow> lp_closure_review l' = None"
      "lp_closure_review l' = None \<Longrightarrow> zs = ys"
    by (metis option.map_disc_iff)
  have post_q: "managed_post_init (p\<lparr>mg_remaining_quantity := lp_remaining_quantity l', mg_trailing_stop := lp_trailing_stop l',
      mg_status := lp_status l', mg_next_target_index := lp_next_target_index l',
      mg_realized_pnl_usdt := lp_realized_pnl_usdt l', mg_exits := exits, mg_closure_review := review',
      mg_bars_held := mg_bars_held p + 1, mg_maximum_favorable_excursion := mfe,
      mg_maximum_adverse_excursion := mg_maximum_adverse_excursion p, mg_funding_cost_usdt := mg_funding_cost_usdt p\<rparr>) = Inr q"
    using q(1) ys(2) rel by (simp add: managed_from_lifecycle_def)
  note q_eq = managed_update [OF post post_q]
  note fields = virtual_exits_fields [OF ys(1)]
  show "managed_moves p (mg_realized_pnl_usdt p) q"
    using zs(1-3) fields new(2,3) stop q(2) of_l ok(3)
    by (auto simp: managed_moves_def q_eq tighter_stop_def)
  have "lp_status l' \<noteq> PS_CLOSED \<Longrightarrow> list_all (\<lambda>x. vx_reason x = TARGET \<and> vx_slippage_cost_usdt x = 0) ys"
    using virtual_target_exits [OF ys(1)] new(5) by simp
  moreover have "dround (lp_remaining_quantity l') = lp_remaining_quantity l'"
    using ok(1) of_l(2) by (simp add: new(2) foldl_d_sub_rep managed_ok_def)
  ultimately show "managed_ok q"
    using ok zs review stop of_l targets managed_post_init_idem [OF post_q]
    by (auto simp: managed_ok_def q_eq tighter_stop_def)
qed

lemma spot_exit_balances_quantity:
  "sp_quantity (spot_exit_balances p w xs) = foldl d_sub (vp_inventory_quantity w) (map vx_quantity xs)"
proof -
  have "sp_quantity (foldl (\<lambda>b x. b\<lparr>sp_cash := f b x, sp_quantity := d_sub (sp_quantity b) (vx_quantity x),
      sp_cost_basis := g b x, sp_realized_delta := h b x\<rparr>) b xs) = foldl d_sub (sp_quantity b) (map vx_quantity xs)"
    for b :: spot_balances and f g h
    by (induction xs arbitrary: b) simp_all
  then show ?thesis by (simp add: spot_exit_balances_def)
qed

lemma new_exits_moves: "managed_moves p start q \<Longrightarrow> mg_exits q = mg_exits p @ new_exits p q \<and>
    mg_remaining_quantity q = foldl d_sub (mg_remaining_quantity p) (map vx_quantity (new_exits p q)) \<and>
    mg_realized_pnl_usdt q = foldl d_add start (map vx_net_pnl_usdt (new_exits p q))"
  by (auto simp: managed_moves_def new_exits_def)

lemma spot_wallet_fields:
  assumes "spot_wallet_after w p q mark = Inr w'"
  shows "vp_inventory_quantity w' = foldl d_sub (vp_inventory_quantity w) (map vx_quantity (new_exits p q))"
    "vp_market w' = normal_market (vp_market w)" "portfolio_post_init w' = Inr w'"
    "mg_status q = PS_CLOSED \<Longrightarrow> vp_open_position_count w' = 0"
    "vp_inventory_quantity w' = 0 \<Longrightarrow> vp_inventory_cost_basis_usdt w' = 0"
proof -
  note valid = portfolio_post_init_valid [OF assms [unfolded spot_wallet_after_def Let_def]]
  show "portfolio_post_init w' = Inr w'" by (rule valid(1))
  show "vp_inventory_quantity w' = foldl d_sub (vp_inventory_quantity w) (map vx_quantity (new_exits p q))"
    "vp_market w' = normal_market (vp_market w)" "mg_status q = PS_CLOSED \<Longrightarrow> vp_open_position_count w' = 0"
    "vp_inventory_quantity w' = 0 \<Longrightarrow> vp_inventory_cost_basis_usdt w' = 0"
    by (simp_all add: valid(5) spot_exit_balances_quantity)
qed

lemma decided_Inr:
  assumes "decided stamp p q w cd reason extra = Inr d"
  shows "ud_position_before d = p" "ud_position_after d = q" "ud_portfolio_after d = w" "ud_exit_reason d = reason"
    "trade_if_closed p q = Inr (ud_closed_trade d)"
  using assms by (auto simp: decided_def update_decision_post_init_def)

lemma process_spot_Inr:
  assumes "process_spot_position edig stamp p w cd cx = Inr d"
  obtains l' override where "spot_lifecycle_after edig p cd cx = Inr (l', override)"
    "managed_from_lifecycle p l' (mg_bars_held p + 1) (spot_excursion p cd) override = Inr (ud_position_after d)"
    "spot_wallet_after w p (ud_position_after d) (cd_close cd) = Inr (ud_portfolio_after d)"
    "trade_if_closed p (ud_position_after d) = Inr (ud_closed_trade d)"
proof -
  obtain l' override q w' reason where "spot_lifecycle_after edig p cd cx = Inr (l', override)"
    "managed_from_lifecycle p l' (mg_bars_held p + 1) (spot_excursion p cd) override = Inr q"
    "spot_wallet_after w p q (cd_close cd) = Inr w'" "decided stamp p q w' cd reason [] = Inr d"
    using assms by (auto simp: process_spot_position_def)
  then show thesis using decided_Inr [of stamp p q w' cd reason "[]" d] by (intro that) simp_all
qed

section \<open>Futures candles\<close>

definition progress_ledger :: "exit_progress \<Rightarrow> exit_progress \<Rightarrow> bool" where
  "progress_ledger s s' \<longleftrightarrow>
     (\<exists>xs. fg_exits s' = fg_exits s @ xs \<and> fg_remaining s' = foldl d_sub (fg_remaining s) (map vx_quantity xs) \<and>
        fg_realized s' = foldl d_add (fg_realized s) (map vx_net_pnl_usdt xs) \<and>
        (if xs = [] then fg_reason s' = fg_reason s else fg_reason s' = Some (vx_reason (last xs))))"

lemma progress_ledger_refl [simp]: "progress_ledger s s"
  by (auto simp: progress_ledger_def)

lemma progress_ledger_trans: "progress_ledger s t \<Longrightarrow> progress_ledger t u \<Longrightarrow> progress_ledger s u"
proof -
  assume "progress_ledger s t" "progress_ledger t u"
  then obtain xs ys where xs: "fg_exits t = fg_exits s @ xs" "fg_remaining t = foldl d_sub (fg_remaining s) (map vx_quantity xs)"
      "fg_realized t = foldl d_add (fg_realized s) (map vx_net_pnl_usdt xs)"
      "if xs = [] then fg_reason t = fg_reason s else fg_reason t = Some (vx_reason (last xs))"
    and ys: "fg_exits u = fg_exits t @ ys" "fg_remaining u = foldl d_sub (fg_remaining t) (map vx_quantity ys)"
      "fg_realized u = foldl d_add (fg_realized t) (map vx_net_pnl_usdt ys)"
      "if ys = [] then fg_reason u = fg_reason t else fg_reason u = Some (vx_reason (last ys))"
    unfolding progress_ledger_def by blast
  then show ?thesis unfolding progress_ledger_def by (intro exI [of _ "xs @ ys"]) (auto split: if_splits)
qed

lemma futures_exit_fields:
  "futures_exit p t reason reference q = Inr x \<Longrightarrow>
     vx_quantity x = q \<and> vx_reason x = reason \<and> position_exit_post_init x = Inr x"
  by (auto simp: futures_exit_def Let_def position_exit_post_init_def)

lemma exit_taken_ledger: "vx_quantity x = q \<Longrightarrow> progress_ledger s (exit_taken x (d_sub (fg_remaining s) q) i s)"
  unfolding progress_ledger_def by (intro exI [of _ "[x]"]) (simp add: exit_taken_def)

lemma exit_all_ledger:
  assumes "exit_all p t reason reference s = Inr s'"
  shows "progress_ledger s s'" "fg_remaining s' = 0" "fg_reason s' = Some reason"
    "\<exists>x. fg_exits s' = fg_exits s @ [x] \<and> vx_reason x = reason \<and> vx_quantity x = fg_remaining s"
proof -
  obtain x where x: "futures_exit p t reason reference (fg_remaining s) = Inr x" "s' = exit_taken x 0 (fg_index s) s"
    using assms by (auto simp: exit_all_def)
  show "progress_ledger s s'" "fg_remaining s' = 0" "fg_reason s' = Some reason"
    "\<exists>x. fg_exits s' = fg_exits s @ [x] \<and> vx_reason x = reason \<and> vx_quantity x = fg_remaining s"
    using futures_exit_fields [OF x(1)] exit_taken_ledger [of x "fg_remaining s" s "fg_index s"]
    by (simp_all add: x(2) d_sub_self) (simp_all add: exit_taken_def)
qed

lemma futures_target_exit_ledger:
  assumes "futures_target_exit p cd s = Inr s'"
  shows "progress_ledger s s'"
proof -
  obtain target q x where "futures_exit p (cd_timestamp cd) TARGET target q = Inr x"
    "s' = exit_taken x (d_sub (fg_remaining s) q) (Suc (fg_index s)) s"
    using assms unfolding futures_target_exit_def Let_def by (elim bindE_eq_Inr [THEN iffD1, elim_format] exE conjE) simp
  then show ?thesis using futures_exit_fields exit_taken_ledger by blast
qed

lemma futures_targets_ledger: "futures_targets p cd s = Inr s' \<Longrightarrow> progress_ledger s s'"
proof (induction p cd s rule: futures_targets.induct)
  case (1 p cd s)
  show ?case
  proof (cases "target_reached p cd (fg_index s)")
    case True
    then obtain t where t: "futures_target_exit p cd s = Inr t"
      "if fg_remaining t = 0 then s' = t else futures_targets p cd t = Inr s'"
      using 1(2) by (auto simp: futures_targets.simps [of p cd s] split: sum.splits if_splits)
    then show ?thesis
      using 1(1) [OF True t(1)] futures_target_exit_ledger [OF t(1)] by (auto intro: progress_ledger_trans split: if_splits)
  next
    case False
    then show ?thesis using 1(2) by (simp add: futures_targets.simps [of p cd s])
  qed
qed

definition exits_start :: "managed_position \<Rightarrow> futures_context \<Rightarrow> exit_progress" where
  "exits_start p c = \<lparr>fg_exits = [], fg_remaining = mg_remaining_quantity p,
     fg_realized = d_sub (mg_realized_pnl_usdt p) (funding_delta p c), fg_index = mg_next_target_index p, fg_reason = None\<rparr>"

definition liquidation_of :: "managed_position \<Rightarrow> futures_context \<Rightarrow> dec option result" where
  "liquidation_of p c = bindE (solved_liquidation_price p c) (\<lambda>solved.
     Inr (case solved of Some x \<Rightarrow> Some x | None \<Rightarrow> mg_liquidation_price p))"

lemma futures_exits_cases:
  assumes "futures_exits p cd cx c = Inr s"
  obtains (protective) x reason price where "liquidation_of p c = Inr (Some x)"
      "futures_protective_exit p cd (fc_mark_candle c) x = Some (reason, price)"
      "exit_all p (cd_timestamp cd) reason price (exits_start p c) = Inr s"
  | (forced) x reason where "liquidation_of p c = Inr (Some x)" "futures_protective_exit p cd (fc_mark_candle c) x = None"
      "forced_exit_reason cx = Some reason" "exit_all p (cd_timestamp cd) reason (cd_close cd) (exits_start p c) = Inr s"
  | (targets) x t where "liquidation_of p c = Inr (Some x)" "futures_protective_exit p cd (fc_mark_candle c) x = None"
      "forced_exit_reason cx = None" "futures_targets p cd (exits_start p c) = Inr t"
      "if 0 < fg_remaining t \<and> holding_expired p then exit_all p (cd_timestamp cd) TIME_EXIT (cd_close cd) t = Inr s else s = t"
proof -
  obtain x where x: "liquidation_of p c = Inr (Some x)"
    and run: "(case futures_protective_exit p cd (fc_mark_candle c) x of
        Some (reason, price) \<Rightarrow> exit_all p (cd_timestamp cd) reason price (exits_start p c)
      | None \<Rightarrow>
          (case forced_exit_reason cx of
             Some reason \<Rightarrow> exit_all p (cd_timestamp cd) reason (cd_close cd) (exits_start p c)
           | None \<Rightarrow>
               bindE (futures_targets p cd (exits_start p c)) (\<lambda>s.
                 if 0 < fg_remaining s \<and> holding_expired p
                 then exit_all p (cd_timestamp cd) TIME_EXIT (cd_close cd) s else Inr s))) = Inr s"
    using assms by (auto simp: futures_exits_def liquidation_of_def exits_start_def Let_def split: option.splits)
  show thesis
  proof (cases "futures_protective_exit p cd (fc_mark_candle c) x")
    case None
    show thesis
    proof (cases "forced_exit_reason cx")
      case None
      then obtain t where "futures_targets p cd (exits_start p c) = Inr t"
        "(if 0 < fg_remaining t \<and> holding_expired p then exit_all p (cd_timestamp cd) TIME_EXIT (cd_close cd) t else Inr t) = Inr s"
        using run \<open>futures_protective_exit _ _ _ _ = None\<close> by auto
      then show thesis using x \<open>futures_protective_exit _ _ _ _ = None\<close> None by (intro targets) (auto split: if_splits)
    next
      case (Some reason)
      then show thesis using x run None by (intro forced) auto
    qed
  next
    case (Some a)
    then show thesis using x run by (cases a) (intro protective, auto)
  qed
qed

lemma futures_exits_ledger: "futures_exits p cd cx c = Inr s \<Longrightarrow> progress_ledger (exits_start p c) s"
  by (erule futures_exits_cases)
    (auto intro: exit_all_ledger(1) progress_ledger_trans futures_targets_ledger split: if_splits)

lemma futures_trailing_tighter: "tighter_stop p (mg_trailing_stop p) (futures_trailing_stop p cd mfe)"
  by (auto simp: futures_trailing_stop_def tighter_stop_def Let_def split: option.splits)

lemma futures_position_moves:
  assumes ok: "managed_ok p" "mg_market p = ''USD_M_FUTURES''"
    and run: "futures_exits p cd cx c = Inr s" "futures_position_after p cd cx c s = Inr q"
  shows "managed_moves p (d_sub (mg_realized_pnl_usdt p) (funding_delta p c)) q" "managed_ok q"
    "new_exits p q = fg_exits s" "mg_status q = futures_status p s"
proof -
  obtain mfe mae where ex: "futures_excursions p cd = (mfe, mae)" by fastforce
  obtain review where review: "futures_review p cx s = Inr review"
    and post: "managed_post_init (p\<lparr>mg_remaining_quantity := fg_remaining s,
              mg_trailing_stop := (if 0 < fg_remaining s then futures_trailing_stop p cd mfe else mg_trailing_stop p),
              mg_status := futures_status p s, mg_next_target_index := fg_index s, mg_realized_pnl_usdt := fg_realized s,
              mg_exits := mg_exits p @ fg_exits s, mg_closure_review := review, mg_bars_held := mg_bars_held p + 1,
              mg_maximum_favorable_excursion := mfe, mg_maximum_adverse_excursion := mae,
              mg_funding_cost_usdt := d_add (mg_funding_cost_usdt p) (funding_delta p c)\<rparr>) = Inr q"
    using run(2) ex by (auto simp: futures_position_after_def)
  have ok_p: "managed_post_init p = Inr p" "tighter_stop p (mg_stop_loss p) (mg_trailing_stop p)"
    "dround (mg_remaining_quantity p) = mg_remaining_quantity p" using ok(1) by (simp_all add: managed_ok_def)
  note q_eq = managed_update [OF ok_p(1) post]
  have ledger: "fg_remaining s = foldl d_sub (mg_remaining_quantity p) (map vx_quantity (fg_exits s))"
    "fg_realized s = foldl d_add (d_sub (mg_realized_pnl_usdt p) (funding_delta p c)) (map vx_net_pnl_usdt (fg_exits s))"
    using futures_exits_ledger [OF run(1)] by (auto simp: progress_ledger_def exits_start_def)
  have excursions: "mg_maximum_favorable_excursion p \<le> mfe" "mg_maximum_adverse_excursion p \<le> mae"
    using ex by (auto simp: futures_excursions_def Let_def)
  show "managed_moves p (d_sub (mg_realized_pnl_usdt p) (funding_delta p c)) q"
    using ledger excursions futures_trailing_tighter [of p cd mfe]
    by (auto simp: managed_moves_def q_eq tighter_stop_def)
  show "new_exits p q = fg_exits s" "mg_status q = futures_status p s" by (simp_all add: q_eq new_exits_def)
  have "futures_status p s = PS_CLOSED \<longleftrightarrow> review \<noteq> None"
    using review by (auto simp: futures_status_def futures_review_def split: option.splits if_splits)
  then show "managed_ok q"
    using ok_p ok(2) futures_trailing_tighter [of p cd mfe] managed_post_init_idem [OF post] foldl_d_sub_rep [OF ok_p(3)]
    by (auto simp: managed_ok_def q_eq tighter_stop_def ledger(1))
qed

section \<open>The wallet shows the position\<close>

definition wallet_shows :: "managed_position \<Rightarrow> virtual_portfolio \<Rightarrow> bool" where
  "wallet_shows p w \<longleftrightarrow> vp_market w = mg_market p \<and> portfolio_post_init w = Inr w \<and>
     (if mg_market p = ''SPOT''
      then vp_inventory_quantity w = mg_remaining_quantity p \<and>
        (mg_status p = PS_CLOSED \<longrightarrow> vp_inventory_cost_basis_usdt w = 0 \<and> vp_open_position_count w = 0)
      else if mg_status p = PS_CLOSED then no_futures_fields w \<and> vp_open_position_count w = 0
      else vp_position_side w = Some (mg_position_side p) \<and> vp_position_entry_price w = Some (mg_entry_price p) \<and>
        vp_liquidation_price w = mg_liquidation_price p \<and> vp_leverage w = mg_leverage p)"

lemma futures_wallet_fields:
  assumes "futures_wallet_after w p q mark funding = Inr w'"
  shows "vp_market w' = normal_market (vp_market w)" "portfolio_post_init w' = Inr w'"
    "mg_status q = PS_CLOSED \<Longrightarrow> no_futures_fields w' \<and> vp_open_position_count w' = 0"
    "mg_status q \<noteq> PS_CLOSED \<Longrightarrow> vp_position_side w' = Some (mg_position_side p) \<and>
       vp_position_entry_price w' = Some (mg_entry_price p) \<and> vp_liquidation_price w' = mg_liquidation_price p \<and>
       vp_leverage w' = mg_leverage p"
proof -
  obtain m where "portfolio_post_init (futures_wallet w p m q mark funding) = Inr w'"
    using assms by (auto simp: futures_wallet_after_def split: option.splits)
  note valid = portfolio_post_init_valid [OF this]
  show "portfolio_post_init w' = Inr w'" by (rule valid(1))
  show "vp_market w' = normal_market (vp_market w)"
    "mg_status q = PS_CLOSED \<Longrightarrow> no_futures_fields w' \<and> vp_open_position_count w' = 0"
    "mg_status q \<noteq> PS_CLOSED \<Longrightarrow> vp_position_side w' = Some (mg_position_side p) \<and>
       vp_position_entry_price w' = Some (mg_entry_price p) \<and> vp_liquidation_price w' = mg_liquidation_price p \<and>
       vp_leverage w' = mg_leverage p"
    unfolding valid(5) futures_wallet_def by (simp_all add: Let_def no_futures_fields_def)
qed

lemma process_futures_Inr:
  assumes "process_futures_position stamp p w cd cx c = Inr d"
  obtains s where "futures_exits p cd cx c = Inr s" "futures_position_after p cd cx c s = Inr (ud_position_after d)"
    "futures_wallet_after w p (ud_position_after d) (fc_mark_price c) (funding_delta p c) = Inr (ud_portfolio_after d)"
    "trade_if_closed p (ud_position_after d) = Inr (ud_closed_trade d)" "ud_exit_reason d = fg_reason s"
proof -
  obtain s q w' extra where "futures_exits p cd cx c = Inr s" "futures_position_after p cd cx c s = Inr q"
    "futures_wallet_after w p q (fc_mark_price c) (funding_delta p c) = Inr w'"
    "decided stamp p q w' cd (fg_reason s) extra = Inr d"
    using assms by (auto simp: process_futures_position_def)
  then show thesis using decided_Inr [of stamp p q w' cd "fg_reason s" extra d] by (intro that) simp_all
qed

definition settled_result :: "managed_position \<Rightarrow> futures_context option \<Rightarrow> dec" where
  "settled_result p fc = (case fc of None \<Rightarrow> mg_realized_pnl_usdt p
     | Some c \<Rightarrow> d_sub (mg_realized_pnl_usdt p) (funding_delta p c))"

lemma managed_moves_frame:
  assumes "managed_moves p start q"
  shows "mg_market q = mg_market p" "mg_position_side q = mg_position_side p" "mg_entry_price q = mg_entry_price p"
    "mg_liquidation_price q = mg_liquidation_price p" "mg_leverage q = mg_leverage p"
proof -
  note q = managed_moves_def [THEN iffD1, OF assms, THEN conjunct1]
  show "mg_market q = mg_market p" "mg_position_side q = mg_position_side p" "mg_entry_price q = mg_entry_price p"
    "mg_liquidation_price q = mg_liquidation_price p" "mg_leverage q = mg_leverage p"
    by (subst q, simp)+
qed

lemma process_position_keeps:
  assumes ok: "managed_ok p" "wallet_shows p w"
    and run: "process_position edig stamp p w cd cx fc available_at = Inr d"
  shows "managed_ok (ud_position_after d)" "wallet_shows (ud_position_after d) (ud_portfolio_after d)"
    "managed_moves p (settled_result p fc) (ud_position_after d)"
    "trade_if_closed p (ud_position_after d) = Inr (ud_closed_trade d)"
proof -
  let ?q = "ud_position_after d" and ?w = "ud_portfolio_after d"
  have market: "vp_market w = mg_market p" "mg_market p \<in> {''SPOT'', ''USD_M_FUTURES''}" "normal_market (mg_market p) = mg_market p"
    using ok arg_cong [OF managed_post_init_Inr(1) [of p p], of mg_market] managed_post_init_values(8) [of p p]
    by (auto simp: wallet_shows_def managed_ok_def)
  have "managed_ok ?q \<and> wallet_shows ?q ?w \<and> managed_moves p (settled_result p fc) ?q \<and>
    trade_if_closed p ?q = Inr (ud_closed_trade d)"
  proof (cases "mg_market p = ''SPOT''")
    case True
    then have spot: "fc = None" "mg_position_side p = PS_LONG"
      "process_spot_position edig stamp p w cd (case cx of None \<Rightarrow> no_exit_context | Some c \<Rightarrow> c) = Inr d"
      using run market by (auto simp: process_position_def Let_def split: if_splits)
    obtain l' override where l': "spot_lifecycle_after edig p cd (case cx of None \<Rightarrow> no_exit_context | Some c \<Rightarrow> c) = Inr (l', override)"
        "managed_from_lifecycle p l' (mg_bars_held p + 1) (spot_excursion p cd) override = Inr ?q"
        "spot_wallet_after w p ?q (cd_close cd) = Inr ?w" "trade_if_closed p ?q = Inr (ud_closed_trade d)"
      using spot(3) by (rule process_spot_Inr)
    obtain l where l: "lifecycle_of edig p = Inr l" "lifecycle_ledger l l'" "mg_status p \<noteq> PS_CLOSED"
      using l'(1) by (rule spot_lifecycle_ledger)
    have moves: "managed_moves p (mg_realized_pnl_usdt p) ?q" "managed_ok ?q"
      using managed_from_lifecycle_moves [OF ok(1) True spot(2) l l'(2)] by (simp_all add: spot_excursion_def)
    have closed: "mg_status ?q = PS_CLOSED \<Longrightarrow> mg_remaining_quantity ?q = 0"
      using moves(2) managed_post_init_values(7) [of ?q ?q] by (simp add: managed_ok_def)
    have "wallet_shows ?q ?w"
      using spot_wallet_fields [OF l'(3)] new_exits_moves [OF moves(1)] ok(2) True market closed managed_moves_frame(1) [OF moves(1)]
      by (simp add: wallet_shows_def)
    then show ?thesis using moves l'(4) spot(1) by (simp add: settled_result_def)
  next
    case False
    then obtain c where c: "fc = Some c"
      "process_futures_position stamp p w cd (case cx of None \<Rightarrow> no_exit_context | Some c \<Rightarrow> c) c = Inr d"
      using run market by (auto simp: process_position_def Let_def split: if_splits option.splits)
    obtain s where s: "futures_exits p cd (case cx of None \<Rightarrow> no_exit_context | Some c \<Rightarrow> c) c = Inr s"
        "futures_position_after p cd (case cx of None \<Rightarrow> no_exit_context | Some c \<Rightarrow> c) c s = Inr ?q"
        "futures_wallet_after w p ?q (fc_mark_price c) (funding_delta p c) = Inr ?w" "trade_if_closed p ?q = Inr (ud_closed_trade d)"
      using c(2) by (rule process_futures_Inr)
    have moves: "managed_moves p (d_sub (mg_realized_pnl_usdt p) (funding_delta p c)) ?q" "managed_ok ?q"
      using futures_position_moves [OF ok(1) _ s(1,2)] market(2) False by simp_all
    have "wallet_shows ?q ?w"
      using futures_wallet_fields [OF s(3)] market False managed_moves_frame [OF moves(1)] by (simp add: wallet_shows_def)
    then show ?thesis using moves s(4) c(1) by (simp add: settled_result_def)
  qed
  then show "managed_ok (ud_position_after d)" "wallet_shows (ud_position_after d) (ud_portfolio_after d)"
    "managed_moves p (settled_result p fc) (ud_position_after d)"
    "trade_if_closed p (ud_position_after d) = Inr (ud_closed_trade d)" by simp_all
qed

section \<open>Histories\<close>

lemma round_quantity_rep:
  assumes "round_quantity x step = Inr y"
  shows "dround y = y"
proof -
  obtain c :: int where c: "d_trunc (x / 10 powi st_exponent step) = of_int c"
    unfolding d_trunc_def by (metis of_int_minus)
  then have y: "y = of_int c * 10 powi st_exponent step" and "\<bar>of_int c :: dec\<bar> < of_int (10 ^ 28)"
    using assms by (auto simp: round_quantity_def d_quantize_def Let_def split: if_splits)
  then have "\<bar>c\<bar> < 10 ^ 28" by (simp only: of_int_abs [symmetric] of_int_less_iff)
  then show ?thesis by (simp only: y dround_coefficient)
qed

lemma fill_rep:
  assumes "build_fill_preview r = Inr f" "0 < vr_quantity r"
  shows "dround (fp_filled_quantity f) = fp_filled_quantity f"
  using assms
proof (cases rule: build_fill_preview_cases)
  case none
  then show ?thesis by simp
next
  case (filled q filled impact blockers reasons price)
  then show ?thesis
    using round_quantity_rep by (auto simp: liquid_fill_def split: option.splits)
qed

text \<open>A Spot purchase by a wallet without inventory, or a futures entry.\<close>

definition fresh_entry :: "virtual_request \<Rightarrow> bool" where
  "fresh_entry r \<longleftrightarrow> vr_market r = ''SPOT'' \<longrightarrow> vr_action r = BUY \<and> vp_inventory_quantity (vr_portfolio r) = 0"

lemma normal_market_futures: "normal_market ''USD_M_FUTURES'' = ''USD_M_FUTURES''"
  by code_simp

lemma opened_position_shown:
  assumes r: "request_post_init r0 = Inr r" "fresh_entry r" and d: "runtime_evaluate known r = Inr d"
    and p: "materialize_managed_position r d t i = Inr p"
  shows "managed_ok p" "wallet_shows p (rd_portfolio_after d)"
proof -
  have ready: "rd_status d = RD_ORDER_READY" using p by (auto simp: materialize_managed_position_def split: if_splits)
  with d obtain f g v intent where run: "build_fill_preview r = Inr f" "governor_blockers r f = Inr g"
      "intent_of r f v = Inr intent" "portfolio_after_fill r f = Inr (rd_portfolio_after d)" "rd_trade_intent d = Some intent"
    by (cases rule: evaluate_decision) auto
  have post: "managed_post_init (opened_managed r d intent t i) = Inr p"
    using p run(5) by (auto simp: materialize_managed_position_def split: if_splits)
  note p_eq = managed_post_init_Inr(1) [OF post]
  have intent: "ti_quantity intent = fp_filled_quantity f" "ti_entry_price intent = fp_execution_price f"
    using run(3) by (auto simp: intent_of_def trade_intent_post_init_def bindE_eq_Inr split: if_splits)
  have quantity: "0 < vr_quantity r" and vm: "vr_market r = normal_market (vr_market r0)"
      "vr_market r = vp_market (vr_portfolio r)" "vr_market r \<in> {''SPOT'', ''USD_M_FUTURES''}"
    using r(1) by (auto simp: request_post_init_def Let_def request_checks_def)
  then have market: "normal_market (vp_market (vr_portfolio r)) = vr_market r" by (metis normal_market_idem(1))
  have rep: "dround (fp_filled_quantity f) = fp_filled_quantity f" by (rule fill_rep [OF run(1) quantity])
  show "managed_ok p"
    using managed_post_init_idem [OF post] rep
    by (auto simp: managed_ok_def p_eq opened_managed_def Let_def intent tighter_stop_def)
  show "wallet_shows p (rd_portfolio_after d)"
  proof (cases "vp_market (vr_portfolio r) = ''SPOT''")
    case True
    then have buy: "vr_action r = BUY" "vp_inventory_quantity (vr_portfolio r) = 0" using r(2) vm(2) by (auto simp: fresh_entry_def)
    have "spot_after_fill r f = Inr (rd_portfolio_after d)" using run(4) True by (simp add: portfolio_after_fill_def)
    note valid = portfolio_post_init_valid [OF this [unfolded spot_after_fill_def Let_def]]
    have "vp_market (rd_portfolio_after d) = vr_market r" "vp_inventory_quantity (rd_portfolio_after d) = fp_filled_quantity f"
      unfolding valid(5) using buy rep market by (simp_all add: spot_bought_def d_add_def)
    then show ?thesis using valid(1) True vm market
      by (simp add: wallet_shows_def p_eq opened_managed_def Let_def intent)
  next
    case False
    then obtain tms where tms: "futures_terms_of r = Some tms" "portfolio_post_init (futures_filled r f tms) = Inr (rd_portfolio_after d)"
      using run(4) by (auto simp: portfolio_after_fill_def futures_after_fill_def split: option.splits)
    note valid = portfolio_post_init_valid [OF tms(2)]
    have "vr_position_side r = Some (ft_side tms)" using tms(1) by (auto simp: futures_terms_of_def split: option.splits)
    moreover have "vp_market (rd_portfolio_after d) = vr_market r" "vp_position_side (rd_portfolio_after d) = Some (ft_side tms)"
      "vp_position_entry_price (rd_portfolio_after d) = Some (fp_execution_price f)"
      unfolding valid(5) futures_filled_def using market by (simp_all add: Let_def)
    ultimately show ?thesis using valid(1) False vm market
      by (simp add: wallet_shows_def p_eq opened_managed_def Let_def intent normal_market_futures)
  qed
qed

inductive virtual_history :: "(evidence_body \<Rightarrow> string) \<Rightarrow> (datetime \<Rightarrow> string) \<Rightarrow> managed_position \<Rightarrow> virtual_portfolio \<Rightarrow> bool"
  for edig :: "evidence_body \<Rightarrow> string" and stamp :: "datetime \<Rightarrow> string" where
  opened: "request_post_init r0 = Inr r \<Longrightarrow> fresh_entry r \<Longrightarrow> runtime_evaluate known r = Inr d \<Longrightarrow>
    materialize_managed_position r d t i = Inr p \<Longrightarrow> virtual_history edig stamp p (rd_portfolio_after d)"
| candle: "virtual_history edig stamp p w \<Longrightarrow> process_position edig stamp p w cd cx fc available_at = Inr u \<Longrightarrow>
    virtual_history edig stamp (ud_position_after u) (ud_portfolio_after u)"

lemma history_tracked:
  assumes "virtual_history edig stamp p w"
  shows "managed_ok p \<and> wallet_shows p w"
  using assms
proof (induction rule: virtual_history.induct)
  case (opened r0 r known d t i p)
  then show ?case using opened_position_shown by blast
next
  case (candle p w cd cx fc available_at u)
  then show ?case using process_position_keeps(1,2) by blast
qed


section \<open>What one candle records\<close>

lemma trade_if_closed_Inr:
  assumes "trade_if_closed p q = Inr trade"
  shows "case trade of None \<Rightarrow> mg_status q \<noteq> PS_CLOSED
    | Some t \<Rightarrow> mg_status q = PS_CLOSED \<and> mg_exits q \<noteq> [] \<and> tr_trade_id t = mg_position_id p \<and>
        tr_net_pnl_usdt t = mg_realized_pnl_usdt q \<and> tr_quantity t = mg_initial_quantity p \<and>
        tr_exit_reason t = vx_reason (last (mg_exits q)) \<and> tr_exit_time t = vx_timestamp (last (mg_exits q)) \<and>
        tr_funding_cost_usdt t = mg_funding_cost_usdt q"
  using assms
  by (auto simp: trade_if_closed_def closed_trade_record_def closed_trade_post_init_def closed_trade_of_def Let_def
      split: if_splits)

section \<open>A Spot position stopped out\<close>

definition example_managed :: managed_position where
  "example_managed =
     \<lparr>mg_position_id = ''position-1'', mg_candidate_id = ''candidate-1'', mg_symbol = ''BTCUSDT'', mg_market = ''SPOT'',
      mg_opened_at = Aware 0, mg_entry_price = 2503 / 25, mg_entry_fee_usdt = 2503 / 12500, mg_initial_quantity = 2,
      mg_remaining_quantity = 2, mg_stop_loss = 95, mg_trailing_stop = 95, mg_atr = 128 / 25,
      mg_take_profit_levels = [110], mg_opportunity_id = ''opportunity-1'', mg_take_profit_quantity_ratios = [1],
      mg_status = PS_OPEN, mg_next_target_index = 0, mg_realized_pnl_usdt = 0, mg_exits = [], mg_closure_review = None,
      mg_position_side = PS_LONG, mg_maximum_holding_bars = None, mg_breakeven_trigger_r = None,
      mg_trailing_atr_multiple = None, mg_bars_held = 0, mg_maximum_favorable_excursion = 0,
      mg_maximum_adverse_excursion = 0, mg_fee_ratio = 1 / 1000, mg_slippage_ratio = 1 / 1000,
      mg_tick_size = \<lparr>st_value = 1 / 100, st_exponent = - 2\<rparr>, mg_strategy_id = ''trend'', mg_strategy_version = ''1'',
      mg_strategy_config_version = ''1'', mg_strategy_config_hash = ''default'', mg_regime = ''TREND'',
      mg_timeframe = ''1h'', mg_snapshot_id = ''snap-1'', mg_decision_id = ''decision-1'',
      mg_dge_decision = ''APPROVED_PAPER_ONLY'', mg_risk_policy_version = ''1'', mg_validation_version = ''1'',
      mg_entry_reason = [''VIRTUAL_MARKET_ENTRY''], mg_parameter_methods = default_methods,
      mg_decision_evidence = no_evidence (\<lambda>_. ''digest''), mg_entry_slippage_cost_usdt = 6 / 25, mg_funding_cost_usdt = 0,
      mg_isolated_margin_usdt = None, mg_initial_margin_usdt = None, mg_maintenance_margin_ratio = None,
      mg_liquidation_price = None, mg_leverage = None, mg_liquidation_fee_ratio = 5 / 1000, mg_planned_rr = Some (247 / 128)\<rparr>"


definition stop_candle :: candle where
  "stop_candle = \<lparr>cd_timestamp = Aware 60, cd_open = 100, cd_high = 101, cd_low = 94, cd_close = 96, cd_volume = 10\<rparr>"


abbreviation example_lifecycle :: lifecycle_position where
  "example_lifecycle \<equiv> \<lparr>lp_position_id = ''position-1'', lp_candidate_id = ''candidate-1'', lp_symbol = ''BTCUSDT'', lp_opened_at = Aware 0,
     lp_entry_price = 2503 / 25, lp_entry_fee_usdt = 2503 / 12500, lp_initial_quantity = 2, lp_remaining_quantity = 2,
     lp_stop_loss = 95, lp_trailing_stop = 95, lp_atr = 128 / 25, lp_plan = \<lparr>sp_targets = [110], sp_quantity_ratios = [1]\<rparr>,
     lp_status = PS_OPEN, lp_next_target_index = 0, lp_realized_pnl_usdt = 0, lp_exits = [], lp_closure_review = None,
     lp_leverage = None, lp_planned_rr = Some (247 / 128), lp_decision_evidence = no_evidence (\<lambda>_. ''digest''),
     lp_parameter_methods = default_methods, lp_closure_assessment = None\<rparr>"

definition calm_context :: closure_context where
  "calm_context = \<lparr>cc_ignored_signals = 0, cc_htf_weakness = False, cc_volatility_expansion = False, cc_level_break = False\<rparr>"

abbreviation stop_exit :: lifecycle_exit where
  "stop_exit \<equiv> \<lparr>le_timestamp = Aware 60, le_reason = STOP_LOSS_EXIT, le_price = 18981 / 200, le_quantity = 2, le_fee_usdt = 18981 / 100000, le_net_pnl_usdt = - (216401 / 20000)\<rparr>"

lemma example_lifecycle_of: "lifecycle_of (\<lambda>_. ''digest'') example_managed = Inr example_lifecycle" by code_simp

lemma stop_amounts:
  "(d_sub 1 (1 / 1000) = 999 / 1000) \<and>
      (d_mul 95 (999 / 1000) = 18981 / 200) \<and>
      (d_mul (18981 / 200) 2 = 18981 / 100) \<and>
      (d_mul (18981 / 100) (1 / 1000) = 18981 / 100000) \<and>
      (d_mul (2503 / 12500) 2 = 2503 / 6250) \<and>
      (d_div (2503 / 6250) 2 = Inr (2503 / 12500)) \<and>
      (d_sub (18981 / 200) (2503 / 25) = - (1043 / 200)) \<and>
      (d_mul (- (1043 / 200)) 2 = - (1043 / 100)) \<and>
      (d_sub (- (1043 / 100)) (18981 / 100000) = - (1061981 / 100000)) \<and>
      (d_sub (- (1061981 / 100000)) (2503 / 12500) = - (216401 / 20000))"
    by code_simp

lemma net_result: "d_add 0 (- (216401 / 20000)) = - (216401 / 20000)"
proof -
  have "dround (216401 / 20000) = 216401 / 20000" by code_simp
  then show ?thesis by (simp add: d_add_def dround_minus del: minus_divide_left)
qed


lemma example_stopped: "process_candle (spot_engine example_managed) example_lifecycle stop_candle calm_context = position_post_init (exited_position example_lifecycle stop_exit 0 0 calm_context)"
  by (simp add: process_candle_def close_remaining_def apply_exit_def Let_def effective_stop_def stop_candle_def spot_engine_def
      example_managed_def stop_amounts lifecycle_exit_post_init_def validate.simps d_sub_self)

abbreviation example_closed :: managed_position where
  "example_closed \<equiv> example_managed\<lparr>mg_remaining_quantity := 0, mg_trailing_stop := 95, mg_status := PS_CLOSED,
     mg_next_target_index := 0, mg_realized_pnl_usdt := - (216401 / 20000),
     mg_exits := [\<lparr>vx_timestamp = Aware 60, vx_reason = HARD_STOP, vx_price = 18981 / 200, vx_quantity = 2,
       vx_fee_usdt = 18981 / 100000, vx_net_pnl_usdt = - (216401 / 20000), vx_slippage_cost_usdt = 0\<rparr>],
     mg_closure_review := Some \<lparr>rv_exit_reason = HARD_STOP, rv_lifecycle_error = None, rv_stop_quality = ''PROTECTIVE'',
       rv_trailing_quality = ''NOT_TRIGGERED'', rv_ignored_signals = 0, rv_htf_weakness = False,
       rv_volatility_expansion = False, rv_level_break = False, rv_staged_exit_alternative = ''NOT_USED_REVIEW'',
       rv_lesson_candidate = ''REVIEW_EXIT_CONTEXT''\<rparr>,
     mg_bars_held := 1, mg_maximum_favorable_excursion := 44 / 25\<rparr>"

lemma example_closed_ok: "managed_post_init example_closed = Inr example_closed"
  by code_simp

lemma example_excursion: "spot_excursion example_managed stop_candle = 44 / 25" by code_simp

lemma example_spot_lifecycle: "\<exists>l. spot_lifecycle_after (\<lambda>_. ''digest'') example_managed stop_candle no_exit_context = Inr (l, None) \<and>
   managed_from_lifecycle example_managed l 1 (44 / 25) None = Inr example_closed"
proof -
  let ?l = "exited_position example_lifecycle stop_exit 0 0 calm_context"
  have "list_all (\<lambda>c. \<not> fst c) (position_checks ?l)" by code_simp
  moreover have "sp_targets (lp_plan ?l) \<noteq> []" by (simp add: exited_position_def)
  ultimately obtain l where l: "position_post_init ?l = Inr l" by (rule position_post_init_total)
  have engine: "lifecycle_engine_post_init (spot_engine example_managed) = Inr (spot_engine example_managed)" by code_simp
  have ctx: "paper_context no_exit_context = Inr calm_context"
    by (simp add: paper_context_def no_exit_context_def calm_context_def closure_context_post_init_def validate.simps)
  have "to_breakeven example_managed mfe l = Inr l" "override_reason example_managed no_exit_context l = None" for mfe
    by (simp_all add: to_breakeven_def override_reason_def breakeven_reached_def position_post_init_fields [OF l] exited_position_def)
  then have "spot_lifecycle_after (\<lambda>_. ''digest'') example_managed stop_candle no_exit_context = Inr (l, None)"
    by (simp add: spot_lifecycle_after_def engine example_lifecycle_of ctx example_stopped l)
  moreover have "managed_from_lifecycle example_managed l 1 (44 / 25) None = managed_post_init example_closed"
    by (simp add: managed_from_lifecycle_def position_post_init_fields [OF l] exited_position_def virtual_exit_def
        position_exit_post_init_def validate.simps relabelled_def closure_review_of_def virtual_closure_review_def
        canonical_backtest_reason_def calm_context_def net_result)
  ultimately show ?thesis using example_closed_ok by auto
qed

abbreviation wallet_closed :: virtual_portfolio where
  "wallet_closed \<equiv> example_wallet_after
     \<lparr>vp_cash_usdt := 19783599 / 20000, vp_equity_usdt := 19783599 / 20000, vp_inventory_quantity := 0,
      vp_inventory_cost_basis_usdt := 0, vp_realized_pnl_usdt := - (216401 / 20000), vp_unrealized_pnl_usdt := 0,
      vp_fees_paid_usdt := 7801 / 20000, vp_max_drawdown_ratio := 216401 / 20000000, vp_current_open_risk_usdt := 0,
      vp_consecutive_losses := 1, vp_open_position_count := 0\<rparr>"

lemma wallet_amounts:
  "(d_sub (18981 / 100) (18981 / 100000) = 18962019 / 100000) \<and>
      (d_add (9994497 / 12500) (18962019 / 100000) = 19783599 / 20000) \<and>
      (d_mul (2503 / 25) 2 = 5006 / 25) \<and>
      (d_mul 0 96 = 0) \<and>
      (d_add (19783599 / 20000) 0 = 19783599 / 20000) \<and>
      (d_add 0 (18981 / 100000) = 18981 / 100000) \<and>
      (d_add (2503 / 12500) (18981 / 100000) = 7801 / 20000) \<and>
      (drawdown_of 1000 (19783599 / 20000) = 216401 / 20000000)"
    by code_simp

lemma wallet_closed_ok: "portfolio_post_init wallet_closed = Inr wallet_closed"
  by code_simp

lemma example_settled: "spot_wallet_after example_wallet_after example_managed example_closed 96 = Inr wallet_closed"
proof -
  have "known_watermark example_wallet_after = 1000"
    by (simp add: known_watermark_def example_wallet_after_def example_wallet_def)
  then have "spot_wallet_after example_wallet_after example_managed example_closed 96 = portfolio_post_init wallet_closed"
    unfolding spot_wallet_after_def spot_exit_balances_def new_exits_def losses_after_def Let_def
    by (simp add: stop_amounts net_result wallet_amounts d_sum_def d_sub_self d_mul_def [of 0] example_wallet_after_def example_wallet_def example_managed_def max_def)
  then show ?thesis by (simp only: wallet_closed_ok)
qed

lemma example_lineage: "(trade_attribution_post_init (attribution_of example_managed) = Inr (attribution_of example_managed)) \<and>
      (\<not> blank (mg_position_id example_managed)) \<and>
      (\<not> list_ex blank (mg_entry_reason example_managed)) \<and>
      (\<not> list_ex blank [mg_dge_decision example_managed, mg_risk_policy_version example_managed, mg_validation_version example_managed])"
    by code_simp

lemma example_trade: "\<exists>t. trade_if_closed example_managed example_closed = Inr (Some t)"
proof -
  have "\<exists>t. closed_trade_post_init (closed_trade_of example_managed example_closed (attribution_of example_managed) x r y) = Inr t" for x r y
    using example_lineage by (simp add: closed_trade_post_init_def closed_trade_of_def Let_def)
  then have "\<exists>t. bindE (closed_trade_post_init (closed_trade_of example_managed example_closed (attribution_of example_managed) x r y)) (\<lambda>t. Inr (Some t)) = Inr (Some t)"
    for x r y by auto
  moreover have fields: "mg_entry_price example_managed = 2503 / 25" "mg_stop_loss example_managed = 95"
      "mg_take_profit_levels example_managed = [110]"
    by (simp_all add: example_managed_def)
  moreover have distance: "d_abs (128 / 25) = 128 / 25" by code_simp
  ultimately show ?thesis
    by (simp add: trade_if_closed_def closed_trade_record_def Let_def nthE_def d_div_def example_amounts fields distance example_lineage)
qed

abbreviation example_entry :: managed_position where
  "example_entry \<equiv> example_managed\<lparr>mg_take_profit_quantity_ratios := [], mg_planned_rr := None\<rparr>"

lemma example_entry_ok: "managed_post_init example_entry = Inr example_managed"
  by code_simp

lemma entry_amounts: "(d_sub (2503 / 12500) 0 = 2503 / 12500) \<and>
      (d_abs (128 / 25) = 128 / 25) \<and>
      (d_sub (2503 / 25) 100 = 3 / 25) \<and>
      (d_abs (3 / 25) = 3 / 25) \<and>
      (d_mul (3 / 25) 2 = 6 / 25)"
    by code_simp

lemma example_opening:
  "\<exists>d. runtime_evaluate (\<lambda>_. True) example_request = Inr d \<and> rd_portfolio_after d = example_wallet_after \<and>
     materialize_managed_position example_request d (Aware 0) (Some ''position-1'') = Inr example_managed"
proof -
  obtain d where d: "runtime_evaluate (\<lambda>_. True) example_request = Inr d" "rd_status d = RD_ORDER_READY"
    using example_ready by blast
  from d(1) obtain v intent where i: "intent_of example_request example_fill v = Inr intent" "rd_trade_intent d = Some intent"
    and after: "rd_portfolio_after d = example_wallet_after"
  proof (cases rule: evaluate_decision)
    case no_action
    then show thesis using d(2) by simp
  next
    case (ready f g v intent)
    then show thesis using example_fill_preview example_after_fill by (intro that [of v intent]) simp_all
  qed
  have intent: "ti_quantity intent = 2" "ti_entry_price intent = 2503 / 25"
    using i(1) by (auto simp: intent_of_def trade_intent_post_init_def bindE_eq_Inr split: if_splits)
  have "opened_managed example_request d intent (Aware 0) (Some ''position-1'') = example_entry"
    unfolding opened_managed_def Let_def after intent
    by (simp add: example_wallet_after_def example_wallet_def example_request_def example_managed_def
        d_sub_self example_amounts entry_amounts)
  then have "materialize_managed_position example_request d (Aware 0) (Some ''position-1'') = Inr example_managed"
    using d(2) i(2) example_entry_ok by (simp add: materialize_managed_position_def)
  then show ?thesis using d(1) after by blast
qed

lemma example_candle_step:
  "\<exists>u. process_position (\<lambda>_. ''digest'') (\<lambda>_. ''1970-01-01'') example_managed example_wallet_after stop_candle None None None = Inr u \<and>
     ud_position_after u = example_closed \<and> ud_portfolio_after u = wallet_closed"
proof -
  obtain l where l: "spot_lifecycle_after (\<lambda>_. ''digest'') example_managed stop_candle no_exit_context = Inr (l, None)"
    "managed_from_lifecycle example_managed l 1 (44 / 25) None = Inr example_closed" using example_spot_lifecycle by blast
  obtain t where t: "trade_if_closed example_managed example_closed = Inr (Some t)" using example_trade by blast
  have m: "mg_market example_managed = ''SPOT''" "vp_market example_wallet_after = ''SPOT''" "mg_position_side example_managed = PS_LONG"
      "mg_bars_held example_managed = 0" "cd_close stop_candle = 96"
    by (simp_all add: example_managed_def example_wallet_after_def example_wallet_def stop_candle_def)
  have refs: "(clean [''HARD_STOP'', ''CLOSED'']) \<and>
      (clean [mg_position_id example_managed, mg_candidate_id example_managed, mg_symbol example_managed, ''1970-01-01''])"
    by code_simp
  have new: "new_exits example_managed example_closed = mg_exits example_closed" by (simp add: new_exits_def example_managed_def)
  show ?thesis
    by (simp add: process_position_def m process_spot_position_def l example_excursion example_settled decided_def t update_decision_post_init_def new
        backtest_reason_value_def position_status_value_def require_unique_clean refs dict_fromkeys_def)
qed

lemma example_history:
  "virtual_history (\<lambda>_. ''digest'') (\<lambda>_. ''1970-01-01'') example_managed example_wallet_after"
proof -
  obtain d where d: "runtime_evaluate (\<lambda>_. True) example_request = Inr d" "rd_portfolio_after d = example_wallet_after"
    "materialize_managed_position example_request d (Aware 0) (Some ''position-1'') = Inr example_managed"
    using example_opening by blast
  have "fresh_entry example_request" by (simp add: fresh_entry_def example_request_def example_wallet_def)
  then show ?thesis using virtual_history.opened [OF example_request_ok _ d(1,3)] d(2) by simp
qed


text \<open>
  C14: one candle changes only what its exits explain. Identity, entry, plan, costs and margin evidence
  stay, the trailing stop only tightens, the excursions only grow, the exits are appended; the remaining
  quantity is the one before less each exit, the realized result the one before (after funding) plus the
  result of each exit. A closed trade is recorded exactly when the position closes, with its result,
  quantity, and the reason and time of the last exit.
\<close>

theorem candle_ledger:
  assumes "virtual_history edig stamp p w" "process_position edig stamp p w cd cx fc available_at = Inr u"
  shows "managed_moves p (settled_result p fc) (ud_position_after u) \<and>
    (case ud_closed_trade u of None \<Rightarrow> mg_status (ud_position_after u) \<noteq> PS_CLOSED
     | Some t \<Rightarrow> mg_status (ud_position_after u) = PS_CLOSED \<and> mg_exits (ud_position_after u) \<noteq> [] \<and>
        tr_trade_id t = mg_position_id p \<and>
        tr_net_pnl_usdt t = mg_realized_pnl_usdt (ud_position_after u) \<and> tr_quantity t = mg_initial_quantity p \<and>
        tr_exit_reason t = vx_reason (last (mg_exits (ud_position_after u))) \<and>
        tr_exit_time t = vx_timestamp (last (mg_exits (ud_position_after u))) \<and>
        tr_funding_cost_usdt t = mg_funding_cost_usdt (ud_position_after u))"
proof -
  have "managed_ok p" "wallet_shows p w" using history_tracked [OF assms(1)] by simp_all
  note keeps = process_position_keeps [OF this assms(2)]
  show ?thesis using keeps(3) trade_if_closed_Inr [OF keeps(4)] by simp
qed

theorem candle_ledger_witness:
  "\<exists>u :: update_decision. managed_moves example_managed 0 (ud_position_after u) \<and> mg_status (ud_position_after u) = PS_CLOSED \<and>
     ud_closed_trade u \<noteq> None"
proof -
  obtain u where u: "process_position (\<lambda>_. ''digest'') (\<lambda>_. ''1970-01-01'') example_managed example_wallet_after stop_candle None None None = Inr u"
    "ud_position_after u = example_closed" using example_candle_step by blast
  have "mg_realized_pnl_usdt example_managed = 0" by (simp add: example_managed_def)
  then show ?thesis
    using candle_ledger [OF example_history u(1)] u(2)
    by (intro exI [of _ u]) (auto simp: settled_result_def split: option.splits)
qed

section \<open>The order of futures exits\<close>

lemma futures_targets_only:
  "futures_targets p cd s = Inr s' \<Longrightarrow> \<exists>xs. fg_exits s' = fg_exits s @ xs \<and> list_all (\<lambda>x. vx_reason x = TARGET) xs"
proof (induction p cd s rule: futures_targets.induct)
  case (1 p cd s)
  show ?case
  proof (cases "target_reached p cd (fg_index s)")
    case True
    then obtain t where t: "futures_target_exit p cd s = Inr t"
      "if fg_remaining t = 0 then s' = t else futures_targets p cd t = Inr s'"
      using 1(2) by (auto simp: futures_targets.simps [of p cd s] split: sum.splits if_splits)
    obtain x where x: "fg_exits t = fg_exits s @ [x]" "vx_reason x = TARGET"
      using t(1) unfolding futures_target_exit_def Let_def
      by (elim bindE_eq_Inr [THEN iffD1, elim_format] exE conjE) (auto dest!: futures_exit_fields simp: exit_taken_def)
    show ?thesis
    proof (cases "fg_remaining t = 0")
      case True
      with t x show ?thesis by (intro exI [of _ "[x]"]) simp
    next
      case False
      then obtain xs where "fg_exits s' = fg_exits t @ xs" "list_all (\<lambda>x. vx_reason x = TARGET) xs"
        using 1(1) [OF \<open>target_reached p cd (fg_index s)\<close> t(1)] t(2) by auto
      with x show ?thesis by (intro exI [of _ "x # xs"]) simp
    qed
  next
    case False
    then show ?thesis using 1(2) by (simp add: futures_targets.simps [of p cd s])
  qed
qed

definition whole_exit :: "managed_position \<Rightarrow> managed_position \<Rightarrow> backtest_reason \<Rightarrow> bool" where
  "whole_exit p q r \<longleftrightarrow> mg_status q = PS_CLOSED \<and> mg_remaining_quantity q = 0 \<and>
     (\<exists>x. new_exits p q = [x] \<and> vx_reason x = r \<and> vx_quantity x = mg_remaining_quantity p)"

lemma futures_after_fields:
  assumes "futures_position_after p cd cx c s = Inr q"
  shows "new_exits p q = fg_exits s" "mg_status q = futures_status p s" "mg_remaining_quantity q = fg_remaining s"
proof -
  obtain mfe mae where "futures_excursions p cd = (mfe, mae)" by fastforce
  then show "new_exits p q = fg_exits s" "mg_status q = futures_status p s" "mg_remaining_quantity q = fg_remaining s"
    using assms by (auto simp: futures_position_after_def new_exits_def dest!: managed_post_init_Inr(1))
qed

lemma whole_exit_of_all:
  assumes "exit_all p t r reference (exits_start p c) = Inr s" "futures_position_after p cd cx c s = Inr q"
  shows "whole_exit p q r"
  using exit_all_ledger(2,4) [OF assms(1)] futures_after_fields [OF assms(2)]
  by (auto simp: whole_exit_def futures_status_def exits_start_def)

text \<open>
  C15: the exits of a futures candle have a fixed order. A candle that reaches the liquidation price closes
  the whole remainder as a liquidation, whatever else it reaches; otherwise the protective stop closes it,
  as a hard or a trailing stop; otherwise a forced reason; otherwise only profit targets are taken,
  followed at most by one exit for the expired holding time, which closes the position.
\<close>

theorem futures_exit_priority:
  assumes "mg_market p = ''USD_M_FUTURES''" "process_position edig stamp p w cd (Some cx) (Some c) available_at = Inr u"
  shows "\<exists>x. liquidation_of p c = Inr (Some x) \<and>
    (if liquidation_hit p (case fc_mark_candle c of None \<Rightarrow> cd | Some m \<Rightarrow> m) x
     then whole_exit p (ud_position_after u) LIQUIDATION
     else if stop_hit p cd then whole_exit p (ud_position_after u) (stop_reason p)
     else case forced_exit_reason cx of
            Some r \<Rightarrow> whole_exit p (ud_position_after u) r
          | None \<Rightarrow> \<exists>xs ys. new_exits p (ud_position_after u) = xs @ ys \<and> list_all (\<lambda>e. vx_reason e = TARGET) xs \<and>
              (ys = [] \<or> (\<exists>y. ys = [y] \<and> vx_reason y = TIME_EXIT \<and> holding_expired p \<and> mg_status (ud_position_after u) = PS_CLOSED)))"
proof -
  let ?q = "ud_position_after u"
  have "process_futures_position stamp p w cd cx c = Inr u"
    using assms by (auto simp: process_position_def Let_def split: if_splits)
  then obtain s where s: "futures_exits p cd cx c = Inr s" "futures_position_after p cd cx c s = Inr ?q"
    by (rule process_futures_Inr)
  note q = futures_after_fields [OF s(2)]
  from s(1) show ?thesis
  proof (cases rule: futures_exits_cases)
    case (protective x reason price)
    then show ?thesis
      using whole_exit_of_all [OF protective(3) s(2)]
      by (intro exI [of _ x]) (auto simp: futures_protective_exit_def Let_def split: if_splits option.splits)
  next
    case (forced x reason)
    then show ?thesis
      using whole_exit_of_all [OF forced(4) s(2)]
      by (intro exI [of _ x]) (auto simp: futures_protective_exit_def Let_def split: if_splits option.splits)
  next
    case (targets x t)
    obtain xs where xs: "fg_exits t = xs" "list_all (\<lambda>x. vx_reason x = TARGET) xs"
      using futures_targets_only [OF targets(4)] by (auto simp: exits_start_def)
    have "\<exists>ys. new_exits p ?q = xs @ ys \<and> (ys = [] \<or> (\<exists>y. ys = [y] \<and> vx_reason y = TIME_EXIT \<and> holding_expired p \<and> mg_status ?q = PS_CLOSED))"
    proof (cases "0 < fg_remaining t \<and> holding_expired p")
      case True
      then have "exit_all p (cd_timestamp cd) TIME_EXIT (cd_close cd) t = Inr s" using targets(5) by simp
      from exit_all_ledger(2,4) [OF this] show ?thesis using q xs True by (auto simp: futures_status_def)
    next
      case False
      then have "s = t" using targets(5) by (simp split: if_splits)
      then show ?thesis using q xs by simp
    qed
    then show ?thesis
      using targets xs(2) by (intro exI [of _ x]) (auto simp: futures_protective_exit_def Let_def split: if_splits option.splits)
  qed
qed

text \<open>A futures position liquidated in one candle.\<close>

definition example_future :: managed_position where
  "example_future = example_managed
     \<lparr>mg_market := ''USD_M_FUTURES'', mg_entry_price := 100, mg_entry_fee_usdt := 0, mg_stop_loss := 90, mg_trailing_stop := 90,
      mg_atr := 10, mg_fee_ratio := 0, mg_slippage_ratio := 0, mg_entry_slippage_cost_usdt := 0,
      mg_isolated_margin_usdt := Some 40, mg_initial_margin_usdt := Some 40, mg_maintenance_margin_ratio := Some (1 / 100),
      mg_liquidation_price := Some 81, mg_leverage := Some 5, mg_liquidation_fee_ratio := 0, mg_planned_rr := Some 1\<rparr>"

definition future_wallet :: virtual_portfolio where
  "future_wallet = example_wallet
     \<lparr>vp_market := ''USD_M_FUTURES'', vp_cash_usdt := 60, vp_equity_usdt := 100, vp_initial_equity_usdt := 100,
      vp_high_watermark_usdt := Some 100, vp_position_side := Some PS_LONG, vp_position_entry_price := Some 100,
      vp_position_mark_price := Some 100, vp_position_notional_usdt := Some 200, vp_isolated_margin_usdt := Some 40,
      vp_initial_margin_usdt := Some 40, vp_maintenance_margin_usdt := Some 2, vp_liquidation_price := Some 81,
      vp_leverage := Some 5, vp_margin_utilization_ratio := Some (2 / 5), vp_open_position_count := 1\<rparr>"

definition crash :: candle where
  "crash = \<lparr>cd_timestamp = Aware 60, cd_open = 100, cd_high = 101, cd_low = 80, cd_close = 82, cd_volume = 10\<rparr>"

definition crash_context :: futures_context where
  "crash_context = \<lparr>fc_observed_at = Aware 60, fc_mark_price = 82, fc_funding_rate = 0, fc_funding_payment_due = False,
     fc_mark_candle = None, fc_maintenance_brackets = [], fc_isolated_wallet_margin = None\<rparr>"

abbreviation crash_exit :: position_exit where
  "crash_exit \<equiv> \<lparr>vx_timestamp = Aware 60, vx_reason = LIQUIDATION, vx_price = 81, vx_quantity = 2, vx_fee_usdt = 0,
     vx_net_pnl_usdt = - 38, vx_slippage_cost_usdt = 0\<rparr>"

lemma crash_exit: "futures_exit example_future (Aware 60) LIQUIDATION 81 2 = Inr crash_exit"
  by code_simp

abbreviation crash_progress :: exit_progress where
  "crash_progress \<equiv> \<lparr>fg_exits = [crash_exit], fg_remaining = 0, fg_realized = - 38, fg_index = 0, fg_reason = Some LIQUIDATION\<rparr>"

lemma crash_exits: "futures_exits example_future crash no_exit_context crash_context = Inr crash_progress"
proof -
  have f: "mg_remaining_quantity example_future = 2" "mg_realized_pnl_usdt example_future = 0" "mg_next_target_index example_future = 0"
    "mg_liquidation_price example_future = Some 81" "mg_position_side example_future = PS_LONG"
    by (simp_all add: example_future_def example_managed_def)
  have "d_sub 0 0 = 0" "d_add 0 (- 38) = - 38" by (simp_all add: d_sub_self d_add_def dround_minus [of 38])
  then show ?thesis
    by (simp add: d_sub_self futures_exits_def Let_def solved_liquidation_price_def futures_protective_exit_def liquidation_hit_def
       crash_context_def crash_def f exit_all_def crash_exit exit_taken_def funding_delta_def)
qed

abbreviation crash_position :: managed_position where
  "crash_position \<equiv> example_future\<lparr>mg_remaining_quantity := 0, mg_trailing_stop := 90, mg_status := PS_CLOSED,
     mg_next_target_index := 0, mg_realized_pnl_usdt := - 38, mg_exits := [crash_exit],
     mg_closure_review := Some (virtual_review_of LIQUIDATION no_exit_context False), mg_bars_held := 1,
     mg_maximum_favorable_excursion := 2, mg_maximum_adverse_excursion := 40, mg_funding_cost_usdt := 0\<rparr>"

lemma crash_position_ok: "managed_post_init crash_position = Inr crash_position"
  by code_simp

lemma crash_after: "futures_position_after example_future crash no_exit_context crash_context crash_progress = Inr crash_position"
proof -
  have "futures_excursions example_future crash = (2, 40)" by code_simp
  then have "futures_position_after example_future crash no_exit_context crash_context crash_progress = managed_post_init crash_position"
    by (simp add: futures_position_after_def futures_review_def futures_status_def funding_delta_def crash_context_def
        example_future_def example_managed_def d_add_def)
  then show ?thesis by (simp only: crash_position_ok)
qed

abbreviation crash_wallet :: virtual_portfolio where
  "crash_wallet \<equiv> example_wallet
     \<lparr>vp_market := ''USD_M_FUTURES'', vp_cash_usdt := 62, vp_equity_usdt := 62, vp_initial_equity_usdt := 100,
      vp_realized_pnl_usdt := - 38, vp_high_watermark_usdt := Some 100, vp_max_drawdown_ratio := 19 / 50,
      vp_consecutive_losses := 1\<rparr>"

lemma crash_wallet_ok: "portfolio_post_init crash_wallet = Inr crash_wallet"
  by code_simp

lemma crash_cash:
  "(futures_exit_cash example_future \<lparr>mv_isolated_margin = 40, mv_initial_margin = 40, mv_maintenance_ratio = 1 / 100,
     mv_liquidation_price = 81, mv_leverage = 5\<rparr> 60 crash_exit = 62) \<and>
      (drawdown_of 100 62 = 19 / 50)"
    by code_simp

lemma crash_settled: "futures_wallet_after future_wallet example_future crash_position 82 0 = Inr crash_wallet"
proof -
  have m: "margin_evidence_of example_future = Some \<lparr>mv_isolated_margin = 40, mv_initial_margin = 40,
      mv_maintenance_ratio = 1 / 100, mv_liquidation_price = 81, mv_leverage = 5\<rparr>"
    by (simp add: margin_evidence_of_def example_future_def)
  have new: "new_exits example_future crash_position = [crash_exit]"
    by (simp add: new_exits_def example_future_def example_managed_def)
  have w: "vp_cash_usdt future_wallet = 60" "known_watermark future_wallet = 100"
    by (simp_all add: future_wallet_def known_watermark_def)
  have zero: "d_mul x 0 = 0" "d_sub 60 0 = 60" "d_add 62 0 = 62" "d_add 0 0 = 0" "d_add (- 38) 0 = - 38" "d_add 0 (- 38) = - 38" for x
    by (simp_all add: d_mul_def d_sub_def d_add_def dround_minus [of 38])
  have "futures_wallet_after future_wallet example_future crash_position 82 0 = portfolio_post_init crash_wallet"
    unfolding futures_wallet_after_def futures_wallet_def m new Let_def
    by (simp add: w zero crash_cash unrealized_at_def losses_after_def d_sum_def max_def)
      (simp add: future_wallet_def example_wallet_def zero)
  then show ?thesis by (simp only: crash_wallet_ok)
qed

lemma crash_trade: "\<exists>t. trade_if_closed example_future crash_position = Inr (Some t)"
proof -
  have fields: "mg_entry_price example_future = 100" "mg_stop_loss example_future = 90" "mg_take_profit_levels example_future = [110]"
    and l: "attribution_of example_future = (attribution_of example_managed)\<lparr>ta_market := ''USD_M_FUTURES''\<rparr>"
      "mg_position_id example_future = mg_position_id example_managed" "mg_entry_reason example_future = mg_entry_reason example_managed"
      "mg_dge_decision example_future = mg_dge_decision example_managed"
      "mg_risk_policy_version example_future = mg_risk_policy_version example_managed"
      "mg_validation_version example_future = mg_validation_version example_managed"
    by (simp_all add: example_future_def example_managed_def attribution_of_def)
  have a: "trade_attribution_post_init (attribution_of example_future) = Inr (attribution_of example_future)" by code_simp
  have "\<exists>t. bindE (closed_trade_post_init (closed_trade_of example_future crash_position b x r y)) (\<lambda>t. Inr (Some t)) = Inr (Some t)"
    for b x r y using example_lineage by (auto simp: closed_trade_post_init_def closed_trade_of_def Let_def l)
  moreover have distance: "(d_sub 100 90 = 10) \<and>
      (d_abs 10 = 10)"
    by code_simp
  ultimately show ?thesis
    by (simp add: trade_if_closed_def closed_trade_record_def Let_def nthE_def d_div_def fields distance a)
qed

lemma crash_step:
  "\<exists>u. process_position (\<lambda>_. ''digest'') (\<lambda>_. ''1970-01-01'') example_future future_wallet crash (Some no_exit_context)
     (Some crash_context) None = Inr u \<and> ud_position_after u = crash_position"
proof -
  obtain t where t: "trade_if_closed example_future crash_position = Inr (Some t)" using crash_trade by blast
  have m: "mg_market example_future = ''USD_M_FUTURES''" "vp_market future_wallet = ''USD_M_FUTURES''"
      "fc_observed_at crash_context = cd_timestamp crash" "fc_mark_price crash_context = 82" "funding_delta example_future crash_context = 0"
    by (simp_all add: example_future_def future_wallet_def crash_context_def crash_def funding_delta_def)
  have refs: "(clean [''LIQUIDATION'', ''CLOSED'']) \<and>
      (clean [mg_position_id example_future, mg_candidate_id example_future, mg_symbol example_future, ''1970-01-01''])"
    by code_simp
  have new: "new_exits example_future crash_position = [crash_exit]"
    by (simp add: new_exits_def example_future_def example_managed_def)
  show ?thesis
    by (simp add: process_position_def m process_futures_position_def crash_exits crash_after crash_settled decided_def t
        update_decision_post_init_def new backtest_reason_value_def position_status_value_def require_unique_clean refs
        dict_fromkeys_def)
qed

theorem futures_exit_priority_witness:
  "\<exists>q. whole_exit example_future q LIQUIDATION \<and> mg_status q = PS_CLOSED"
proof -
  obtain u where u: "process_position (\<lambda>_. ''digest'') (\<lambda>_. ''1970-01-01'') example_future future_wallet crash
     (Some no_exit_context) (Some crash_context) None = Inr u" using crash_step by blast
  have f: "mg_market example_future = ''USD_M_FUTURES''" "liquidation_of example_future crash_context = Inr (Some 81)"
    "liquidation_hit example_future crash 81" "fc_mark_candle crash_context = None"
    by (simp_all add: example_future_def example_managed_def liquidation_of_def solved_liquidation_price_def crash_context_def
        crash_def liquidation_hit_def)
  have "whole_exit example_future (ud_position_after u) LIQUIDATION"
    using futures_exit_priority [OF f(1) u] f by auto
  then show ?thesis by (auto simp: whole_exit_def)
qed

section \<open>Findings\<close>

text \<open>No request with two or more take-profit levels becomes a position: no quantity ratios are passed on.\<close>

lemma multiple_targets_unopened:
  "length (vr_take_profit_levels r) \<noteq> 1 \<Longrightarrow> materialize_managed_position r d t i \<noteq> Inr p"
  by (auto simp: materialize_managed_position_def managed_post_init_def managed_lineage_checks_def opened_managed_def Let_def
      split: if_splits option.splits)

text \<open>
  A Spot exit pays slippage in its price but records none: every exit of a Spot position carries the
  default, so the slippage of its closed trade is that of the entry alone.
\<close>

lemma spot_slippage_unrecorded:
  assumes "process_position edig stamp p w cd cx fc available_at = Inr u" "mg_market p \<noteq> ''USD_M_FUTURES''"
    and "x \<in> set (mg_exits (ud_position_after u))"
  shows "vx_slippage_cost_usdt x = 0"
proof -
  obtain c where "process_spot_position edig stamp p w cd c = Inr u"
    using assms(1,2) by (auto simp: process_position_def Let_def split: if_splits)
  then obtain l override where "managed_from_lifecycle p l (mg_bars_held p + 1) (spot_excursion p cd) override = Inr (ud_position_after u)"
    by (rule process_spot_Inr)
  then obtain xs where xs: "mapE virtual_exit (lp_exits l) = Inr xs"
      and post: "(case relabelled override (lp_status l) xs (map_option virtual_closure_review (lp_closure_review l)) of (exits, review) \<Rightarrow>
        managed_post_init (p\<lparr>mg_remaining_quantity := lp_remaining_quantity l, mg_trailing_stop := lp_trailing_stop l,
          mg_status := lp_status l, mg_next_target_index := lp_next_target_index l,
          mg_realized_pnl_usdt := lp_realized_pnl_usdt l, mg_exits := exits, mg_closure_review := review,
          mg_bars_held := mg_bars_held p + 1, mg_maximum_favorable_excursion := spot_excursion p cd\<rparr>)) = Inr (ud_position_after u)"
    unfolding managed_from_lifecycle_def Let_def by auto
  obtain exits review where rel: "relabelled override (lp_status l) xs (map_option virtual_closure_review (lp_closure_review l)) = (exits, review)"
    by fastforce
  have final: "mg_exits (ud_position_after u) = exits" using post rel by (auto dest!: managed_post_init_Inr(1))
  from rel have "exits = xs \<or> xs \<noteq> [] \<and> (\<exists>r. exits = relabel_last r xs)"
    by (auto simp: relabelled_def split: option.splits if_splits)
  moreover have "y \<in> set xs \<Longrightarrow> vx_slippage_cost_usdt y = 0" for y
    using virtual_exits_fields [OF xs] by (auto simp: map_eq_conv dest!: arg_cong [where f = set])
  ultimately show ?thesis
    using assms(3) final by (auto simp: relabel_last_def dest!: in_set_butlastD)
qed

end
