(* ===== verification/Kline_Stream.thy ===== *)
theory Kline_Stream
  imports Stream_Recovery Paper_Trading Int_Text
begin

text \<open>
  \<^verbatim>\<open>exchange/public_stream.py\<close> with the durations of \<^verbatim>\<open>data/timeframes.py\<close>: parsing the messages of the
  public kline stream and feeding them into the recovery machine of \<^verbatim>\<open>exchange/stream_state.py\<close>. A raw message
  is its length in bytes and what \<^verbatim>\<open>json.loads\<close> decodes it to, if anything. Millisecond times before the
  year 2242, where \<^verbatim>\<open>milliseconds / 1000\<close> keeps microseconds, become instants exactly.
\<close>

section \<open>Updates\<close>

definition timeframe_seconds :: "(string \<times> int) list" where
  "timeframe_seconds = [(''1s'', 1), (''1m'', 60), (''3m'', 180), (''5m'', 300), (''15m'', 900), (''30m'', 1800), (''1h'', 3600),
     (''2h'', 7200), (''4h'', 14400), (''6h'', 21600), (''8h'', 28800), (''12h'', 43200), (''1d'', 86400), (''3d'', 259200),
     (''1w'', 604800), (''1M'', 2592000)]"

definition timeframe_duration :: "string \<Rightarrow> timedelta result" where
  "timeframe_duration tf =
     (case map_of timeframe_seconds tf of
        None \<Rightarrow> Inl (ValueError (''unsupported timeframe: '' @ tf))
      | Some n \<Rightarrow> Inr (seconds n))"

definition supported_intervals :: "string list" where
  "supported_intervals = [''1m'', ''5m'', ''15m'', ''1h'', ''4h'', ''1d'']"

record kline_policy =
  kp_maximum_message_bytes :: int
  kp_maximum_streams_per_connection :: int
  kp_maximum_control_messages_per_second :: int
  kp_pong_deadline :: timedelta

definition kline_policy_post_init :: "kline_policy \<Rightarrow> kline_policy result" where
  "kline_policy_post_init p = validate
     [(list_ex (\<lambda>n. n < 1) [kp_maximum_message_bytes p, kp_maximum_streams_per_connection p,
         kp_maximum_control_messages_per_second p] \<or> kp_pong_deadline p \<le> 0, ''Binance Spot stream policy is invalid'')] p"

definition default_kline_policy :: kline_policy where
  "default_kline_policy = \<lparr>kp_maximum_message_bytes = 65536, kp_maximum_streams_per_connection = 1024,
     kp_maximum_control_messages_per_second = 5, kp_pong_deadline = seconds 60\<rparr>"

definition validate_subscriptions :: "kline_policy \<Rightarrow> string list \<Rightarrow> unit result" where
  "validate_subscriptions p subs = validate
     [(subs = [] \<or> kp_maximum_streams_per_connection p < int (length subs) \<or> \<not> distinct subs
        \<or> list_ex (\<lambda>s. s = [] \<or> s \<noteq> py_lower s) subs, ''stream subscriptions must be unique bounded lowercase text'')] ()"

record kline_update =
  ku_event_time :: datetime
  ku_symbol :: string
  ku_interval :: string
  ku_open_time :: datetime
  ku_close_time :: datetime
  ku_first_trade_id :: int
  ku_last_trade_id :: int
  ku_open :: dec
  ku_high :: dec
  ku_low :: dec
  ku_close :: dec
  ku_volume :: dec
  ku_trade_count :: int
  ku_is_closed :: bool

definition kline_times_invalid :: "kline_update \<Rightarrow> timedelta \<Rightarrow> bool" where
  "kline_times_invalid u duration \<longleftrightarrow>
     instant (ku_close_time u) \<noteq> instant (ku_open_time u) + duration - 1000
     \<or> instant (ku_event_time u) < instant (ku_open_time u)
     \<or> ku_is_closed u \<and> instant (ku_event_time u) < instant (ku_close_time u)"

definition kline_post_init :: "kline_update \<Rightarrow> kline_update result" where
  "kline_post_init u =
     bindE (validate
       [(\<not> list_all is_aware [ku_event_time u, ku_open_time u, ku_close_time u], ''kline timestamps must be timezone-aware''),
        (ku_symbol u = [] \<or> ku_symbol u \<noteq> py_upper (ku_symbol u) \<or> \<not> py_isascii (ku_symbol u) \<or> \<not> py_isalnum (ku_symbol u),
         ''kline symbol must be normalized ASCII text''),
        (ku_interval u \<notin> set supported_intervals, ''kline interval is unsupported'')] ()) (\<lambda>_.
     bindE (timeframe_duration (ku_interval u)) (\<lambda>duration.
       validate
         [(kline_times_invalid u duration, ''kline time bounds are invalid''),
          (list_ex (\<lambda>x. x < 0) [ku_open u, ku_high u, ku_low u, ku_close u, ku_volume u], ''kline values must be finite and non-negative''),
          (min (ku_open u) (ku_close u) < ku_low u \<or> ku_high u < max (ku_open u) (ku_close u), ''kline OHLC relationship is invalid''),
          (ku_trade_count u < 0 \<or> ku_trade_count u = 0 \<and> (ku_first_trade_id u \<noteq> - 1 \<or> ku_last_trade_id u \<noteq> - 1),
           ''empty kline trade lineage is invalid''),
          (ku_trade_count u \<noteq> 0 \<and> (ku_first_trade_id u < 0 \<or> ku_last_trade_id u < ku_first_trade_id u),
           ''kline trade lineage is invalid'')] u))"

definition sequence_bounds :: "kline_update \<Rightarrow> (int \<times> int) option" where
  "sequence_bounds u = (if ku_trade_count u = 0 then None else Some (ku_first_trade_id u, ku_last_trade_id u))"

definition as_candle :: "kline_update \<Rightarrow> candle result" where
  "as_candle u =
     (if \<not> ku_is_closed u then Inl (ValueError ''open kline cannot become a decision candle'')
      else candle_post_init \<lparr>cd_timestamp = ku_open_time u, cd_open = ku_open u, cd_high = ku_high u, cd_low = ku_low u,
        cd_close = ku_close u, cd_volume = ku_volume u\<rparr>)"

section \<open>Parsing\<close>

datatype stream_message = Kline kline_update | ServerShutdown datetime

record raw_message =
  rw_bytes :: int
  rw_decoded :: "json option"

abbreviation payload_error :: "string \<Rightarrow> string \<Rightarrow> 'a result" where
  "payload_error name problem \<equiv> Inl (ExchangePayloadError (name @ problem))"

definition message_mapping :: "json option \<Rightarrow> string \<Rightarrow> (string \<times> json) list result" where
  "message_mapping v name = (case v of Some (JObject ps) \<Rightarrow> Inr ps | _ \<Rightarrow> payload_error name '' must be an object'')"

definition message_text :: "json option \<Rightarrow> string \<Rightarrow> string result" where
  "message_text v name =
     (case v of Some (JText s) \<Rightarrow> if s = [] then payload_error name '' must be non-empty text'' else Inr s
      | _ \<Rightarrow> payload_error name '' must be non-empty text'')"

definition message_integer :: "json option \<Rightarrow> string \<Rightarrow> int result" where
  "message_integer v name =
     (case (case v of Some (JNumber s) \<Rightarrow> py_int s | _ \<Rightarrow> None) of
        None \<Rightarrow> payload_error name '' must be an integer''
      | Some n \<Rightarrow> Inr n)"

definition message_milliseconds :: "json option \<Rightarrow> string \<Rightarrow> datetime result" where
  "message_milliseconds v name =
     bindE (message_integer v name) (\<lambda>ms.
       if ms < 0 then payload_error name '' must be non-negative'' else Inr (Aware (ms * 1000)))"

definition message_decimal :: "json option \<Rightarrow> string \<Rightarrow> dec result" where
  "message_decimal v name =
     (case v of
        Some (JNumber _) \<Rightarrow>
          (case json_decimal v of None \<Rightarrow> payload_error name '' must be decimal-compatible''
           | Some (Finite x) \<Rightarrow> Inr x | Some _ \<Rightarrow> payload_error name '' must be finite'')
      | Some (JText _) \<Rightarrow>
          (case json_decimal v of None \<Rightarrow> payload_error name '' must be decimal-compatible''
           | Some (Finite x) \<Rightarrow> Inr x | Some _ \<Rightarrow> payload_error name '' must be finite'')
      | _ \<Rightarrow> payload_error name '' must be numeric text'')"

definition message_boolean :: "json option \<Rightarrow> string \<Rightarrow> bool result" where
  "message_boolean v name = (case v of Some (JBool b) \<Rightarrow> Inr b | _ \<Rightarrow> payload_error name '' must be boolean'')"

text \<open>\<^verbatim>\<open>except ValueError: raise ExchangePayloadError\<close> around the construction of the update.\<close>

definition payload_contract :: "'a result \<Rightarrow> 'a result" where
  "payload_contract m =
     (case m of Inl (ValueError _) \<Rightarrow> Inl (ExchangePayloadError ''kline payload contract is invalid'') | _ \<Rightarrow> m)"

definition kline_of :: "datetime \<Rightarrow> string \<Rightarrow> (string \<times> json) list \<Rightarrow> kline_update result" where
  "kline_of event_time symbol k = payload_contract (
     bindE (message_text (map_of k ''i'') ''interval'') (\<lambda>interval.
     bindE (message_milliseconds (map_of k ''t'') ''open time'') (\<lambda>open_time.
     bindE (message_milliseconds (map_of k ''T'') ''close time'') (\<lambda>close_time.
     bindE (message_integer (map_of k ''f'') ''first trade ID'') (\<lambda>first_id.
     bindE (message_integer (map_of k ''L'') ''last trade ID'') (\<lambda>last_id.
     bindE (message_decimal (map_of k ''o'') ''open'') (\<lambda>opening.
     bindE (message_decimal (map_of k ''h'') ''high'') (\<lambda>high.
     bindE (message_decimal (map_of k ''l'') ''low'') (\<lambda>low.
     bindE (message_decimal (map_of k ''c'') ''close'') (\<lambda>closing.
     bindE (message_decimal (map_of k ''v'') ''volume'') (\<lambda>volume.
     bindE (message_integer (map_of k ''n'') ''trade count'') (\<lambda>count.
     bindE (message_boolean (map_of k ''x'') ''closed'') (\<lambda>closed.
       kline_post_init
         \<lparr>ku_event_time = event_time, ku_symbol = symbol, ku_interval = interval, ku_open_time = open_time,
          ku_close_time = close_time, ku_first_trade_id = first_id, ku_last_trade_id = last_id, ku_open = opening,
          ku_high = high, ku_low = low, ku_close = closing, ku_volume = volume, ku_trade_count = count,
          ku_is_closed = closed\<rparr>)))))))))))))"

definition message_envelope :: "(string \<times> json) list \<Rightarrow> (string option \<times> (string \<times> json) list) result" where
  "message_envelope e =
     (if map_of e ''stream'' \<noteq> None \<or> map_of e ''data'' \<noteq> None
      then bindE (message_text (map_of e ''stream'') ''stream'') (\<lambda>name.
           bindE (message_mapping (map_of e ''data'') ''data'') (\<lambda>payload. Inr (Some name, payload)))
      else Inr (None, e))"

definition parse_kline :: "datetime \<Rightarrow> string option \<Rightarrow> (string \<times> json) list \<Rightarrow> stream_message result" where
  "parse_kline event_time stream_name payload =
     bindE (message_mapping (map_of payload ''k'') ''kline'') (\<lambda>k.
     bindE (message_text (map_of payload ''s'') ''symbol'') (\<lambda>symbol.
     bindE (message_text (map_of k ''s'') ''kline symbol'') (\<lambda>inner.
       if inner \<noteq> symbol then Inl (ExchangePayloadError ''kline symbol identity mismatch'')
       else bindE (kline_of event_time symbol k) (\<lambda>u.
         if stream_name \<noteq> None \<and> stream_name \<noteq> Some (py_lower (ku_symbol u) @ ''@kline_'' @ ku_interval u)
         then Inl (ExchangePayloadError ''combined stream identity mismatch'') else Inr (Kline u)))))"

definition parse_message :: "kline_policy \<Rightarrow> raw_message \<Rightarrow> stream_message result" where
  "parse_message p raw =
     (if rw_bytes raw = 0 \<or> kp_maximum_message_bytes p < rw_bytes raw
      then Inl (ExchangePayloadError ''stream message size is invalid'')
      else case rw_decoded raw of
             None \<Rightarrow> Inl (ExchangePayloadError ''stream message is invalid JSON'')
           | Some v \<Rightarrow>
               bindE (message_mapping (Some v) ''stream message'') (\<lambda>e.
               bindE (message_envelope e) (\<lambda>(stream_name, payload).
               bindE (message_text (map_of payload ''e'') ''event type'') (\<lambda>event_type.
               bindE (message_milliseconds (map_of payload ''E'') ''event time'') (\<lambda>event_time.
                 if event_type = ''serverShutdown'' then Inr (ServerShutdown event_time)
                 else if event_type \<noteq> ''kline'' then Inl (ExchangePayloadError ''unsupported public stream event'')
                 else parse_kline event_time stream_name payload)))))"

section \<open>Ingestion\<close>

record ingest_result =
  ir_transition :: stream_transition
  ir_update :: "kline_update option"
  ir_candle :: "candle option"
  ir_blockers :: "string list"
  ir_decision_eligible :: bool
  ir_execution_allowed :: bool
  ir_live_eligibility_status :: string

definition ingest_result_post_init :: "ingest_result \<Rightarrow> ingest_result result" where
  "ingest_result_post_init r = validate
     [(ir_decision_eligible r \<noteq> (ir_candle r \<noteq> None \<and> ir_blockers r = []), ''kline decision eligibility must fail closed''),
      (ir_execution_allowed r, ''public stream evidence cannot authorize execution'')] r"

definition ingested :: "stream_transition \<Rightarrow> kline_update option \<Rightarrow> candle option \<Rightarrow> string list \<Rightarrow> bool \<Rightarrow> ingest_result result" where
  "ingested tr u cd blockers eligible = ingest_result_post_init
     \<lparr>ir_transition = tr, ir_update = u, ir_candle = cd, ir_blockers = blockers, ir_decision_eligible = eligible,
      ir_execution_allowed = False, ir_live_eligibility_status = live_blocked\<rparr>"

record kline_ingestor =
  ki_symbol :: string
  ki_interval :: string
  ki_recovery :: stream
  ki_policy :: kline_policy
  ki_latest_closed_at :: "datetime option"

definition ingestor_post_init :: "kline_ingestor \<Rightarrow> kline_ingestor result" where
  "ingestor_post_init i =
     (let n = py_upper (py_strip (ki_symbol i))
      in validate [(n = [] \<or> \<not> py_isascii n \<or> \<not> py_isalnum n \<or> ki_interval i \<notin> set supported_intervals,
           ''public kline ingestor identity is invalid'')] (i\<lparr>ki_symbol := n\<rparr>))"

definition bootstrap :: "kline_ingestor \<Rightarrow> int \<Rightarrow> datetime \<Rightarrow> stream_transition result \<times> kline_ingestor" where
  "bootstrap i snapshot_sequence connected_at =
     (case stream_start (ki_recovery i) of
        (Inl e, r) \<Rightarrow> (Inl e, i\<lparr>ki_recovery := r\<rparr>)
      | (Inr _, r) \<Rightarrow>
          (case stream_connected r (Some connected_at) of
             (Inl e, r) \<Rightarrow> (Inl e, i\<lparr>ki_recovery := r\<rparr>)
           | (Inr _, r) \<Rightarrow>
               (case stream_apply_snapshot r snapshot_sequence connected_at of
                  (t, r) \<Rightarrow> (t, i\<lparr>ki_recovery := r\<rparr>))))"

definition old_kline :: "kline_ingestor \<Rightarrow> kline_update \<Rightarrow> bool" where
  "old_kline i u \<longleftrightarrow> (case ki_latest_closed_at i of None \<Rightarrow> False | Some t \<Rightarrow> instant (ku_close_time u) \<le> instant t)"

definition ingest_update :: "kline_ingestor \<Rightarrow> kline_update \<Rightarrow> stream_transition \<Rightarrow> ingest_result result \<times> kline_ingestor" where
  "ingest_update i u tr =
     (if tr_blockers tr \<noteq> [] then (ingested tr (Some u) None (tr_blockers tr) False, i)
      else if \<not> ku_is_closed u then (ingested tr (Some u) None [''OPEN_KLINE_NOT_DECISION_ELIGIBLE''] False, i)
      else if old_kline i u then (ingested tr (Some u) None [''DUPLICATE_OR_OLD_CLOSED_KLINE''] False, i)
      else (bindE (as_candle u) (\<lambda>cd. ingested tr (Some u) (Some cd) [] True), i\<lparr>ki_latest_closed_at := Some (ku_close_time u)\<rparr>))"

definition ingest_kline :: "kline_ingestor \<Rightarrow> kline_update \<Rightarrow> int \<Rightarrow> ingest_result result \<times> kline_ingestor" where
  "ingest_kline i u queue_depth =
     (case sequence_bounds u of
        None \<Rightarrow>
          (case reject_unsequenced_update (ki_recovery i) of
             (Inl e, r) \<Rightarrow> (Inl e, i\<lparr>ki_recovery := r\<rparr>)
           | (Inr tr, r) \<Rightarrow> (ingested tr (Some u) None [''KLINE_TRADE_SEQUENCE_UNAVAILABLE''] False, i\<lparr>ki_recovery := r\<rparr>))
      | Some (f, l) \<Rightarrow>
          (case stream_apply_update (ki_recovery i) f l (ku_event_time u) queue_depth of
             (Inl e, r) \<Rightarrow> (Inl e, i\<lparr>ki_recovery := r\<rparr>)
           | (Inr tr, r) \<Rightarrow> ingest_update (i\<lparr>ki_recovery := r\<rparr>) u tr))"

definition ingest :: "kline_ingestor \<Rightarrow> raw_message \<Rightarrow> int \<Rightarrow> ingest_result result \<times> kline_ingestor" where
  "ingest i raw queue_depth =
     (case parse_message (ki_policy i) raw of
        Inl e \<Rightarrow> (Inl e, i)
      | Inr (ServerShutdown _) \<Rightarrow>
          (case server_shutdown (ki_recovery i) of
             (Inl e, r) \<Rightarrow> (Inl e, i\<lparr>ki_recovery := r\<rparr>)
           | (Inr tr, r) \<Rightarrow> (ingested tr None None (tr_blockers tr) False, i\<lparr>ki_recovery := r\<rparr>))
      | Inr (Kline u) \<Rightarrow>
          if ku_symbol u \<noteq> ki_symbol i \<or> ku_interval u \<noteq> ki_interval i
          then (Inl (ExchangePayloadError ''kline stream does not match ingestor identity''), i)
          else ingest_kline i u queue_depth)"

section \<open>Candles that reach a decision\<close>

text \<open>
  An ingestor is bootstrapped and fed messages while its recovery machine is driven from outside. The run
  keeps the calls the machine saw and, for each decision-eligible result, the update with the calls before it
  and including its own.
\<close>

datatype ingest_call = Bootstrap int datetime | Message raw_message int | Recovery stream_call

record ingest_run =
  ig_ingestor :: kline_ingestor
  ig_calls :: "stream_call list"
  ig_eligible :: "(kline_update \<times> candle \<times> stream_call list) list"

definition message_calls :: "kline_ingestor \<Rightarrow> raw_message \<Rightarrow> int \<Rightarrow> stream_call list" where
  "message_calls i raw queue_depth =
     (case parse_message (ki_policy i) raw of
        Inr (ServerShutdown _) \<Rightarrow> [Call_server_shutdown]
      | Inr (Kline u) \<Rightarrow>
          if ku_symbol u \<noteq> ki_symbol i \<or> ku_interval u \<noteq> ki_interval i then []
          else (case sequence_bounds u of None \<Rightarrow> [Call_reject_unsequenced]
                | Some (f, l) \<Rightarrow> [Call_apply_update f l (ku_event_time u) queue_depth])
      | Inl _ \<Rightarrow> [])"

definition bootstrap_calls :: "kline_ingestor \<Rightarrow> int \<Rightarrow> datetime \<Rightarrow> stream_call list" where
  "bootstrap_calls i n t =
     (case stream_start (ki_recovery i) of
        (Inl _, _) \<Rightarrow> [Call_start]
      | (Inr _, r) \<Rightarrow>
          (case stream_connected r (Some t) of
             (Inl _, _) \<Rightarrow> [Call_start, Call_connected (Some t)]
           | _ \<Rightarrow> [Call_start, Call_connected (Some t), Call_apply_snapshot n t]))"

definition eligible_of :: "ingest_result result \<Rightarrow> stream_call list \<Rightarrow> (kline_update \<times> candle \<times> stream_call list) list" where
  "eligible_of r calls =
     (case r of
        Inr x \<Rightarrow> (case (ir_decision_eligible x, ir_update x, ir_candle x) of
                    (True, Some u, Some cd) \<Rightarrow> [(u, cd, calls)] | _ \<Rightarrow> [])
      | Inl _ \<Rightarrow> [])"

fun ingest_step :: "ingest_run \<Rightarrow> ingest_call \<Rightarrow> ingest_run" where
  "ingest_step g (Bootstrap n t) =
     g\<lparr>ig_ingestor := snd (bootstrap (ig_ingestor g) n t), ig_calls := ig_calls g @ bootstrap_calls (ig_ingestor g) n t\<rparr>"
| "ingest_step g (Message raw q) =
     (let calls = ig_calls g @ message_calls (ig_ingestor g) raw q; (r, i) = ingest (ig_ingestor g) raw q
      in g\<lparr>ig_ingestor := i, ig_calls := calls, ig_eligible := ig_eligible g @ eligible_of r calls\<rparr>)"
| "ingest_step g (Recovery c) =
     g\<lparr>ig_ingestor := (ig_ingestor g)\<lparr>ki_recovery := snd (perform (ki_recovery (ig_ingestor g)) c)\<rparr>, ig_calls := ig_calls g @ [c]\<rparr>"

definition new_ingestor :: "string \<Rightarrow> string \<Rightarrow> kline_policy \<Rightarrow> stream_policy \<Rightarrow> kline_ingestor" where
  "new_ingestor symbol interval kp sp = \<lparr>ki_symbol = symbol, ki_interval = interval, ki_recovery = new_stream sp,
     ki_policy = kp, ki_latest_closed_at = None\<rparr>"

definition ingest_all :: "kline_ingestor \<Rightarrow> ingest_call list \<Rightarrow> ingest_run" where
  "ingest_all i cs = foldl ingest_step \<lparr>ig_ingestor = i, ig_calls = [], ig_eligible = []\<rparr> cs"

lemma stream_run_append: "stream_run s (cs @ ds) = stream_run (stream_run s cs) ds"
  by (induction cs arbitrary: s) simp_all

lemma unblocked_update:
  assumes "stream_apply_update s f l t q = (Inr tr, s')" "tr_blockers tr = []"
  obtains n where "sr_last_sequence s' = Some n" "l \<le> n"
proof (cases "sr_last_sequence s")
  case None
  then show thesis using assms
    by (auto simp: stream_apply_update_def settle_def stream_result_def split: if_splits elim!: guarded_cases)
next
  case (Some n)
  consider "q > sp_maximum_queue_depth (sr_policy s)" | "\<not> q > sp_maximum_queue_depth (sr_policy s)" "l < n + 1"
    | "\<not> q > sp_maximum_queue_depth (sr_policy s)" "\<not> l < n + 1" "f > n + 1"
    | "\<not> q > sp_maximum_queue_depth (sr_policy s)" "\<not> l < n + 1" "\<not> f > n + 1" by blast
  then show thesis
  proof cases
    case 1
    then show ?thesis using assms by (auto simp: stream_apply_update_def settle_def stream_result_def elim!: guarded_cases)
  next
    case 2
    then have "s' = s" using assms Some
      by (auto simp: stream_apply_update_def Let_def settle_def stream_result_def elim!: guarded_cases)
    then show ?thesis using that [of n] Some 2 by simp
  next
    case 3
    then show ?thesis using assms Some
      by (auto simp: stream_apply_update_def Let_def settle_def stream_result_def split: if_splits elim!: guarded_cases)
  next
    case 4
    then have "sr_last_sequence s' = Some l" using assms Some
      by (auto simp: stream_apply_update_def Let_def settle_def stream_result_def elim!: guarded_cases)
    then show ?thesis by (rule that) simp
  qed
qed

lemma payload_contract_Inr [simp]: "payload_contract m = Inr x \<longleftrightarrow> m = Inr x"
  by (cases m) (auto simp: payload_contract_def split: py_error.splits)

lemma kline_post_init_id: "kline_post_init u = Inr v \<Longrightarrow> v = u"
  by (auto simp: kline_post_init_def)

lemma parsed_kline:
  assumes "parse_message p raw = Inr (Kline u)" shows "kline_post_init u = Inr u"
proof -
  obtain t n payload where "parse_kline t n payload = Inr (Kline u)"
    using assms by (auto simp: parse_message_def split: if_splits option.splits)
  then obtain k symbol where "kline_of t symbol k = Inr u"
    by (auto simp: parse_kline_def split: if_splits)
  then obtain v where "kline_post_init v = Inr u" unfolding kline_of_def payload_contract_Inr by auto
  then show ?thesis using kline_post_init_id by metis
qed

lemma closed_kline_candle:
  assumes "kline_post_init u = Inr u" "ku_is_closed u"
  obtains cd where "as_candle u = Inr cd" "candle_post_init cd = Inr cd" "cd_timestamp cd = ku_open_time u"
    "instant (ku_close_time u) \<le> instant (ku_event_time u)"
proof -
  have "is_aware (ku_open_time u)" "\<not> list_ex (\<lambda>x. x < 0) [ku_open u, ku_high u, ku_low u, ku_close u, ku_volume u]"
    "ku_low u \<le> min (ku_open u) (ku_close u)" "max (ku_open u) (ku_close u) \<le> ku_high u"
    "instant (ku_close_time u) \<le> instant (ku_event_time u)"
    using assms by (auto simp: kline_post_init_def kline_times_invalid_def)
  moreover from this have "ku_low u \<le> ku_high u" by linarith
  ultimately show thesis using assms(2) by (intro that) (auto simp: as_candle_def candle_post_init_def)
qed

lemma ingest_kline_recovery:
  assumes "ingest_kline i u q = (r, j)"
  shows "ki_recovery j = (case sequence_bounds u of None \<Rightarrow> snd (reject_unsequenced_update (ki_recovery i))
      | Some (f, l) \<Rightarrow> snd (stream_apply_update (ki_recovery i) f l (ku_event_time u) q))"
    "ki_symbol j = ki_symbol i" "ki_interval j = ki_interval i" "ki_policy j = ki_policy i"
  using assms
  by (auto simp: ingest_kline_def ingest_update_def split: option.splits prod.splits sum.splits if_splits)

lemma ingest_recovery:
  assumes "ingest i raw q = (r, j)"
  shows "ki_recovery j = stream_run (ki_recovery i) (message_calls i raw q)" "ki_symbol j = ki_symbol i" "ki_interval j = ki_interval i"
proof -
  have "ki_recovery j = stream_run (ki_recovery i) (message_calls i raw q) \<and> ki_symbol j = ki_symbol i \<and> ki_interval j = ki_interval i"
  proof (cases "parse_message (ki_policy i) raw")
    case (Inr m)
    then show ?thesis
    proof (cases m)
      case (Kline u)
      then show ?thesis
        using assms Inr ingest_kline_recovery [of i u q r j]
        by (auto simp: ingest_def message_calls_def split: option.splits if_splits)
    next
      case (ServerShutdown t)
      then show ?thesis using assms Inr by (auto simp: ingest_def message_calls_def split: prod.splits sum.splits)
    qed
  qed (use assms in \<open>auto simp: ingest_def message_calls_def\<close>)
  then show "ki_recovery j = stream_run (ki_recovery i) (message_calls i raw q)" "ki_symbol j = ki_symbol i" "ki_interval j = ki_interval i"
    by blast+
qed

lemma bootstrap_recovery:
  "ki_recovery (snd (bootstrap i n t)) = stream_run (ki_recovery i) (bootstrap_calls i n t) \<and>
   ki_symbol (snd (bootstrap i n t)) = ki_symbol i \<and> ki_interval (snd (bootstrap i n t)) = ki_interval i \<and>
   ki_latest_closed_at (snd (bootstrap i n t)) = ki_latest_closed_at i"
  by (simp add: bootstrap_def bootstrap_calls_def split: prod.splits sum.splits)

lemma ingested_Inr:
  "ingested tr u cd bs e = Inr x \<Longrightarrow> ir_decision_eligible x = e \<and> ir_update x = u \<and> ir_candle x = cd"
  by (auto simp: ingested_def ingest_result_post_init_def)

text \<open>A message either leaves the mark of the latest closed kline alone, and nothing is eligible, or it is a newer closed kline.\<close>

lemma ingest_cases:
  assumes "ingest i raw q = (r, j)"
  obtains (ineligible) "ki_latest_closed_at j = ki_latest_closed_at i" "\<And>calls. eligible_of r calls = []"
  | (eligible) u cd where "kline_post_init u = Inr u" "ku_symbol u = ki_symbol i" "ku_interval u = ki_interval i" "ku_is_closed u"
      "\<not> old_kline i u" "as_candle u = Inr cd" "ki_latest_closed_at j = Some (ku_close_time u)" "\<And>calls. eligible_of r calls = [(u, cd, calls)]"
      "\<exists>n. sr_last_sequence (ki_recovery j) = Some n \<and> ku_last_trade_id u \<le> n"
proof (cases "parse_message (ki_policy i) raw")
  case (Inl e)
  then show thesis using assms by (intro ineligible) (auto simp: ingest_def eligible_of_def)
next
  case (Inr m)
  show thesis
  proof (cases m)
    case (ServerShutdown t)
    then show thesis using assms Inr
      by (intro ineligible) (auto simp: ingest_def eligible_of_def split: prod.splits sum.splits dest!: ingested_Inr)
  next
    case (Kline u)
    show thesis
    proof (cases "ku_symbol u = ki_symbol i \<and> ku_interval u = ki_interval i")
      case False
      then show thesis using assms Inr Kline by (intro ineligible) (auto simp: ingest_def eligible_of_def)
    next
      case same: True
      then have k: "ingest_kline i u q = (r, j)" using assms Inr Kline by (simp add: ingest_def)
      show thesis
      proof (cases "sequence_bounds u")
        case None
        then show thesis using k
          by (intro ineligible) (auto simp: ingest_kline_def eligible_of_def split: prod.splits sum.splits dest!: ingested_Inr)
      next
        case (Some b)
        obtain f l where b: "b = (f, l)" by fastforce
        obtain t s where ts: "stream_apply_update (ki_recovery i) f l (ku_event_time u) q = (t, s)" by fastforce
        show thesis
        proof (cases t)
          case (Inl e)
          then show thesis using k Some b ts by (intro ineligible) (auto simp: ingest_kline_def eligible_of_def)
        next
          case tr: (Inr tr)
          have u: "ingest_update (i\<lparr>ki_recovery := s\<rparr>) u tr = (r, j)" using k Some b ts tr by (simp add: ingest_kline_def)
          show thesis
          proof (cases "tr_blockers tr = [] \<and> ku_is_closed u \<and> \<not> old_kline (i\<lparr>ki_recovery := s\<rparr>) u")
            case False
            then show thesis using u
              by (intro ineligible) (auto simp: ingest_update_def eligible_of_def split: sum.splits if_splits dest!: ingested_Inr)
          next
            case True
            have ok: "kline_post_init u = Inr u" using parsed_kline Inr Kline by blast
            then obtain cd where cd: "as_candle u = Inr cd" using closed_kline_candle True by blast
            have "l = ku_last_trade_id u" using Some b by (auto simp: sequence_bounds_def split: if_splits)
            then obtain n where n: "sr_last_sequence s = Some n" "ku_last_trade_id u \<le> n" using unblocked_update ts tr True by metis
            have j: "j = i\<lparr>ki_recovery := s, ki_latest_closed_at := Some (ku_close_time u)\<rparr>" "r = ingested tr (Some u) (Some cd) [] True"
              using u True cd by (simp_all add: ingest_update_def)
            then have "eligible_of r calls = [(u, cd, calls)]" for calls
              by (simp add: ingested_def ingest_result_post_init_def validate.simps eligible_of_def)
            then show thesis using ok same True cd j(1) n by (intro eligible [of u cd]) (simp_all add: old_kline_def)
          qed
        qed
      qed
    qed
  qed
qed

definition eligible_kline :: "stream_policy \<Rightarrow> string \<Rightarrow> string \<Rightarrow> kline_update \<times> candle \<times> stream_call list \<Rightarrow> bool" where
  "eligible_kline p symbol interval = (\<lambda>(u, cd, calls). ku_symbol u = symbol \<and> ku_interval u = interval \<and> ku_is_closed u \<and>
     instant (ku_close_time u) \<le> instant (ku_event_time u) \<and> candle_post_init cd = Inr cd \<and> cd_timestamp cd = ku_open_time u \<and>
     (\<exists>n. sr_last_sequence (stream_run (new_stream p) calls) = Some n \<and> ku_last_trade_id u \<le> n))"

definition close_of :: "kline_update \<times> candle \<times> stream_call list \<Rightarrow> int" where
  "close_of e = instant (ku_close_time (fst e))"

definition ingest_ok :: "stream_policy \<Rightarrow> string \<Rightarrow> string \<Rightarrow> ingest_run \<Rightarrow> bool" where
  "ingest_ok p symbol interval g \<longleftrightarrow>
     ki_recovery (ig_ingestor g) = stream_run (new_stream p) (ig_calls g) \<and>
     ki_symbol (ig_ingestor g) = symbol \<and> ki_interval (ig_ingestor g) = interval \<and>
     list_all (eligible_kline p symbol interval) (ig_eligible g) \<and> sorted_wrt (<) (map close_of (ig_eligible g)) \<and>
     list_all (\<lambda>e. case ki_latest_closed_at (ig_ingestor g) of None \<Rightarrow> False | Some t \<Rightarrow> close_of e \<le> instant t) (ig_eligible g)"

lemma ingest_step_ok:
  assumes "ingest_ok p symbol interval g" shows "ingest_ok p symbol interval (ingest_step g c)"
proof (cases c)
  case (Bootstrap n t)
  then show ?thesis using assms bootstrap_recovery [of "ig_ingestor g" n t]
    by (simp add: ingest_ok_def stream_run_append)
next
  case (Recovery d)
  then show ?thesis using assms by (simp add: ingest_ok_def stream_run_append)
next
  case (Message raw q)
  obtain r j where rj: "ingest (ig_ingestor g) raw q = (r, j)" by fastforce
  let ?calls = "ig_calls g @ message_calls (ig_ingestor g) raw q"
  have g': "ingest_step g c = g\<lparr>ig_ingestor := j, ig_calls := ?calls, ig_eligible := ig_eligible g @ eligible_of r ?calls\<rparr>"
    using Message rj by (simp add: Let_def)
  have j: "ki_recovery j = stream_run (new_stream p) ?calls" "ki_symbol j = symbol" "ki_interval j = interval"
    using ingest_recovery [OF rj] assms by (simp_all add: ingest_ok_def stream_run_append)
  from rj show ?thesis
  proof (cases rule: ingest_cases)
    case ineligible
    then show ?thesis using assms j by (simp add: ingest_ok_def g')
  next
    case (eligible u cd)
    obtain n where n: "sr_last_sequence (ki_recovery j) = Some n" "ku_last_trade_id u \<le> n" using eligible(9) by blast
    obtain cd' where cd': "as_candle u = Inr cd'" "candle_post_init cd' = Inr cd'" "cd_timestamp cd' = ku_open_time u"
        "instant (ku_close_time u) \<le> instant (ku_event_time u)"
      using closed_kline_candle [OF eligible(1,4)] .
    then have "eligible_kline p symbol interval (u, cd, ?calls)"
      using eligible(2-4,6) assms n j(1) by (simp add: eligible_kline_def ingest_ok_def)
    moreover have "close_of e < close_of (u, cd, ?calls)" if "e \<in> set (ig_eligible g)" for e
    proof -
      have "case ki_latest_closed_at (ig_ingestor g) of None \<Rightarrow> False | Some t \<Rightarrow> close_of e \<le> instant t"
        using that assms by (simp add: ingest_ok_def list_all_iff)
      then show ?thesis using eligible(5) by (simp add: close_of_def old_kline_def split: option.splits)
    qed
    ultimately show ?thesis
      using assms j eligible(7,8)
      by (auto simp: ingest_ok_def g' sorted_wrt_append list_all_iff close_of_def intro: less_imp_le)
  qed
qed

lemma ingest_all_ok: "ingest_ok p symbol interval (ingest_all (new_ingestor symbol interval kp p) cs)"
proof -
  have "ingest_ok p symbol interval g \<Longrightarrow> ingest_ok p symbol interval (foldl ingest_step g cs)" for g
    by (induction cs arbitrary: g) (simp_all add: ingest_step_ok)
  then show ?thesis by (simp add: ingest_all_def ingest_ok_def new_ingestor_def)
qed


section \<open>One minute of trades\<close>

definition minute_payload :: "string \<Rightarrow> string \<Rightarrow> bool \<Rightarrow> json" where
  "minute_payload event_ms last_id finished = JObject
     [(''e'', JText ''kline''), (''E'', JNumber event_ms), (''s'', JText ''BTCUSDT''),
      (''k'', JObject [(''s'', JText ''BTCUSDT''), (''i'', JText ''1m''), (''t'', JNumber ''120000''), (''T'', JNumber ''179999''),
         (''f'', JNumber ''11''), (''L'', JNumber last_id), (''o'', JText ''100.0''), (''h'', JText ''103''), (''l'', JText ''99''),
         (''c'', JText ''102''), (''v'', JText ''5''), (''n'', JNumber ''4''), (''x'', JBool finished)])]"

definition minute_calls :: "ingest_call list" where
  "minute_calls = [Bootstrap 10 (Aware 0),
     Message \<lparr>rw_bytes = 300, rw_decoded = Some (minute_payload ''150000'' ''12'' False)\<rparr> 0,
     Message \<lparr>rw_bytes = 300, rw_decoded = Some (minute_payload ''180000'' ''14'' True)\<rparr> 0,
     Message \<lparr>rw_bytes = 300, rw_decoded = Some (minute_payload ''180001'' ''14'' True)\<rparr> 0]"

lemma minute_eligible:
  "map (\<lambda>(u, cd, calls). (ku_last_trade_id u, cd_close cd, calls))
     (ig_eligible (ingest_all (new_ingestor ''BTCUSDT'' ''1m'' default_kline_policy default_stream_policy) minute_calls)) =
   [(14, 102, [Call_start, Call_connected (Some (Aware 0)), Call_apply_snapshot 10 (Aware 0), Call_apply_update 11 12 (Aware 150000000) 0,
      Call_apply_update 11 14 (Aware 180000000) 0])] \<and>
   fst (accepted_log (new_stream default_stream_policy) (0, []) [Call_start, Call_connected (Some (Aware 0)), Call_apply_snapshot 10 (Aware 0),
      Call_apply_update 11 12 (Aware 150000000) 0, Call_apply_update 11 14 (Aware 180000000) 0]) = 10"
  by code_simp


end
