(* ===== verification/Provider_Continuity.thy ===== *)
theory Provider_Continuity
  imports Kline_Stream Order_Recovery Exchange_Health Text_Rules
begin

text \<open>
  \<^verbatim>\<open>exchange/continuity.py\<close> with the persistence evidence of \<^verbatim>\<open>portfolio/bucket_state.py\<close>: the verdict that puts
  connector readiness, provider freshness, the latest stream message, the restart recovery, the open-order
  reconciliation and the persisted portfolio state together. A latency is a float: finite, infinite or not a
  number.
\<close>

section \<open>Evidence\<close>

definition float_le :: "pydec \<Rightarrow> pydec \<Rightarrow> bool" where
  "float_le x y =
     (case (x, y) of
        (Finite a, Finite b) \<Rightarrow> a \<le> b
      | (NotANumber, _) \<Rightarrow> False | (_, NotANumber) \<Rightarrow> False
      | (Infinite neg, Infinite neg') \<Rightarrow> neg \<or> \<not> neg'
      | (Infinite neg, Finite _) \<Rightarrow> neg
      | (Finite _, Infinite neg) \<Rightarrow> \<not> neg)"

definition float_less :: "pydec \<Rightarrow> pydec \<Rightarrow> bool" where
  "float_less x y \<longleftrightarrow> float_le x y \<and> \<not> float_le y x"

record freshness =
  fr_provider_id :: string
  fr_observed_at :: datetime
  fr_source_published_at :: datetime
  fr_maximum_age :: timedelta
  fr_measured_latency_ms :: "pydec option"
  fr_maximum_latency_ms :: "pydec option"
  fr_execution_allowed :: bool
  fr_live_eligibility_status :: string

definition freshness_post_init :: "freshness \<Rightarrow> freshness result" where
  "freshness_post_init f = validate
     [(blank (fr_provider_id f), ''provider freshness identity is required''),
      (\<not> is_aware (fr_observed_at f) \<or> \<not> is_aware (fr_source_published_at f),
       ''provider freshness timestamps must be timezone-aware''),
      (fr_maximum_age f \<le> 0, ''provider freshness maximum_age must be positive''),
      (instant (fr_observed_at f) < instant (fr_source_published_at f), ''provider freshness chronology is invalid''),
      ((case fr_measured_latency_ms f of None \<Rightarrow> False | Some x \<Rightarrow> float_less x (Finite 0)),
       ''provider freshness measured latency cannot be negative''),
      ((case fr_maximum_latency_ms f of None \<Rightarrow> False | Some x \<Rightarrow> float_le x (Finite 0)),
       ''provider freshness maximum latency must be positive''),
      ((fr_measured_latency_ms f = None) \<noteq> (fr_maximum_latency_ms f = None),
       ''provider freshness latency evidence must bind measurement and budget''),
      (fr_execution_allowed f \<or> fr_live_eligibility_status f \<noteq> live_blocked, ''provider freshness cannot authorize execution'')] f"

definition age_ok :: "freshness \<Rightarrow> bool" where
  "age_ok f \<longleftrightarrow> instant (fr_observed_at f) - instant (fr_source_published_at f) \<le> fr_maximum_age f"

definition latency_ok :: "freshness \<Rightarrow> bool" where
  "latency_ok f =
     (case (fr_measured_latency_ms f, fr_maximum_latency_ms f) of (Some x, Some y) \<Rightarrow> float_le x y | _ \<Rightarrow> True)"

definition freshness_blockers :: "freshness \<Rightarrow> string list" where
  "freshness_blockers f =
     flag_if (\<not> age_ok f) ''PROVIDER_DATA_STALE'' @ flag_if (\<not> latency_ok f) ''PROVIDER_LATENCY_BUDGET_EXCEEDED''"

record provider_fixture =
  px_fixture_id :: string
  px_provider_id :: string
  px_observed_at :: datetime
  px_passed :: bool
  px_blockers :: "string list"
  px_execution_allowed :: bool
  px_live_eligibility_status :: string

definition provider_fixture_post_init :: "provider_fixture \<Rightarrow> provider_fixture result" where
  "provider_fixture_post_init f = validate
     [(blank (px_fixture_id f) \<or> blank (px_provider_id f), ''provider fixture identity is required''),
      (\<not> is_aware (px_observed_at f), ''provider fixture timestamp must be timezone-aware''),
      (px_passed f \<and> px_blockers f \<noteq> [], ''passing provider fixture cannot contain blockers''),
      (\<not> px_passed f \<and> px_blockers f = [], ''failed provider fixture must declare blockers''),
      (px_execution_allowed f \<or> px_live_eligibility_status f \<noteq> live_blocked,
       ''provider fixture evaluation cannot authorize execution'')] f"

record bucket_evidence =
  be_bucket_state_id :: string
  be_observed_at :: datetime
  be_path :: string
  be_persisted :: bool
  be_snapshot_hash :: string
  be_blockers :: "string list"
  be_execution_allowed :: bool
  be_live_eligibility_status :: string

definition bucket_evidence_post_init :: "bucket_evidence \<Rightarrow> bucket_evidence result" where
  "bucket_evidence_post_init b = validate
     [(blank (be_bucket_state_id b), ''portfolio bucket-state identity is required''),
      (\<not> is_aware (be_observed_at b), ''portfolio bucket-state timestamp must be timezone-aware''),
      (blank (be_path b), ''portfolio bucket-state path is required''),
      (be_persisted b \<and> be_blockers b \<noteq> [], ''persisted portfolio bucket-state cannot contain blockers''),
      (\<not> be_persisted b \<and> be_blockers b = [], ''failed portfolio bucket-state must declare blockers''),
      (\<not> hex_text 64 (be_snapshot_hash b), ''portfolio bucket-state hash must be lowercase SHA-256''),
      (be_execution_allowed b \<or> be_live_eligibility_status b \<noteq> live_blocked,
       ''portfolio bucket-state cannot authorize execution'')] b"

section \<open>Verdict\<close>

record continuity_input =
  ct_readiness :: connector_readiness
  ct_freshness :: freshness
  ct_latest_ingest :: "ingest_result option"
  ct_paper_recovery :: "recovery_report option"
  ct_open_order_reconciliation :: "reconciliation_report option"
  ct_portfolio_bucket_persistence :: "bucket_evidence option"
  ct_portfolio_bucket_persisted :: bool
  ct_provider_fixture :: "provider_fixture option"

record continuity =
  co_continuity_ready :: bool
  co_blockers :: "string list"
  co_execution_allowed :: bool
  co_live_eligibility_status :: string

definition continuity_post_init :: "continuity \<Rightarrow> continuity result" where
  "continuity_post_init c = validate
     [(co_continuity_ready c = (co_blockers c \<noteq> []), ''provider continuity readiness and blockers disagree''),
      (co_execution_allowed c \<or> co_live_eligibility_status c \<noteq> live_blocked, ''provider continuity cannot authorize execution'')] c"

definition stream_evidence_blockers :: "ingest_result option \<Rightarrow> string list" where
  "stream_evidence_blockers m =
     (case m of
        None \<Rightarrow> [''PUBLIC_STREAM_EVIDENCE_NOT_AVAILABLE'']
      | Some x \<Rightarrow> ir_blockers x @ (if \<not> tr_accepted (ir_transition x) then tr_blockers (ir_transition x) else []))"

definition recovery_evidence_blockers :: "recovery_report option \<Rightarrow> string list" where
  "recovery_evidence_blockers m =
     (case m of
        None \<Rightarrow> [''PAPER_RESTART_RECOVERY_NOT_EVALUATED'']
      | Some r \<Rightarrow> rr_blockers r
          @ flag_if (\<not> rr_recovery_complete r \<and> rr_blockers r = []) ''PAPER_RESTART_RECOVERY_INCOMPLETE'')"

definition bucket_evidence_blockers :: "bucket_evidence option \<Rightarrow> bool \<Rightarrow> string list" where
  "bucket_evidence_blockers m persisted =
     (case m of
        None \<Rightarrow> flag_if (\<not> persisted) ''PORTFOLIO_BUCKET_STATE_NOT_PERSISTED''
      | Some b \<Rightarrow> be_blockers b @ flag_if (\<not> be_persisted b) ''PORTFOLIO_BUCKET_STATE_NOT_PERSISTED'')"

definition assess_continuity :: "continuity_input \<Rightarrow> continuity result" where
  "assess_continuity x =
     (let blockers = dict_fromkeys (
            cr_blockers (ct_readiness x) @ freshness_blockers (ct_freshness x)
            @ stream_evidence_blockers (ct_latest_ingest x) @ recovery_evidence_blockers (ct_paper_recovery x)
            @ (case ct_open_order_reconciliation x of None \<Rightarrow> [''OPEN_ORDER_RECONCILIATION_NOT_EVALUATED'']
               | Some r \<Rightarrow> rp_blockers r)
            @ bucket_evidence_blockers (ct_portfolio_bucket_persistence x) (ct_portfolio_bucket_persisted x)
            @ (case ct_provider_fixture x of None \<Rightarrow> [''PROVIDER_FIXTURE_EVALUATION_MISSING''] | Some f \<Rightarrow> px_blockers f))
      in continuity_post_init \<lparr>co_continuity_ready = (blockers = []), co_blockers = blockers, co_execution_allowed = False,
           co_live_eligibility_status = live_blocked\<rparr>)"

section \<open>Continuity rests on every part\<close>

lemma ingested_blockers: "ingested tr u cd bs e = Inr x \<Longrightarrow> ir_blockers x = bs \<and> ir_decision_eligible x = e \<and> ir_transition x = tr"
  by (auto simp: ingested_def ingest_result_post_init_def)

lemma shutdown_blocked: "server_shutdown s = (Inr tr, s') \<Longrightarrow> tr_blockers tr \<noteq> []"
  by (auto simp: server_shutdown_def settle_def stream_result_def elim!: guarded_cases)

lemma ingest_update_blockers:
  assumes "fst (ingest_update i u tr) = Inr x"
  shows "ir_decision_eligible x = (ir_blockers x = [])" "ir_blockers x = [] \<Longrightarrow> tr_blockers (ir_transition x) = []"
  using assms by (auto simp: ingest_update_def split: if_splits dest!: ingested_blockers)

lemma ingest_kline_blockers:
  assumes "fst (ingest_kline i u q) = Inr x"
  shows "ir_decision_eligible x = (ir_blockers x = []) \<and> (ir_blockers x = [] \<longrightarrow> tr_blockers (ir_transition x) = [])"
proof (cases "sequence_bounds u")
  case None
  then show ?thesis using assms
    by (auto simp: ingest_kline_def split: prod.splits sum.splits dest!: ingested_blockers)
next
  case (Some b)
  then obtain tr r where "fst (ingest_update (i\<lparr>ki_recovery := r\<rparr>) u tr) = Inr x"
    using assms by (auto simp: ingest_kline_def split: prod.splits sum.splits)
  then show ?thesis using ingest_update_blockers by blast
qed

lemma ingest_blockers:
  assumes "fst (ingest i raw q) = Inr x"
  shows "stream_evidence_blockers (Some x) = [] \<longleftrightarrow> ir_decision_eligible x"
proof -
  have "ir_decision_eligible x = (ir_blockers x = []) \<and> (ir_blockers x = [] \<longrightarrow> tr_blockers (ir_transition x) = [])"
  proof (cases "parse_message (ki_policy i) raw")
    case (Inr m)
    then show ?thesis
    proof (cases m)
      case (Kline u)
      then show ?thesis using assms Inr ingest_kline_blockers [of i u q x] by (simp add: ingest_def split: if_splits)
    next
      case (ServerShutdown t)
      then obtain tr r where "server_shutdown (ki_recovery i) = (Inr tr, r)" "ingested tr None None (tr_blockers tr) False = Inr x"
        using assms Inr by (auto simp: ingest_def split: prod.splits sum.splits)
      then show ?thesis using shutdown_blocked ingested_blockers by metis
    qed
  qed (use assms in \<open>simp add: ingest_def\<close>)
  then show ?thesis by (auto simp: stream_evidence_blockers_def)
qed

text \<open>
  C17: the provider path is continuous exactly when every part of it is sound. When the evidence is what the
  other components produced, the verdict always comes back and never grants execution; it is ready exactly
  when the connector checks hold, the provider's data is fresh and its latency within budget, the latest
  message yielded a decision-eligible candle, every paper journal replays to one order and the open ones
  agree with the exchange, both views of the open orders agree, the portfolio state was persisted and the
  provider fixture passed.
\<close>

theorem continuity_ready_iff:
  assumes "assess_connector_readiness e = Inr (ct_readiness x)"
    and "ct_latest_ingest x = Some m" "fst (ingest i raw q) = Inr m"
    and "ct_paper_recovery x = Some r" "recover_paper_orders enc_len js exchange = Inr r" "list_all journal_decoded js"
      "case exchange of None \<Rightarrow> True | Some vs \<Rightarrow> distinct (view_ids vs)"
    and "ct_open_order_reconciliation x = Some rec" "reconcile_open_orders vs ws = Inr rec" "distinct (view_ids vs)" "distinct (view_ids ws)"
    and "ct_portfolio_bucket_persistence x = Some b" "bucket_evidence_post_init b = Inr b"
    and "ct_provider_fixture x = Some f" "provider_fixture_post_init f = Inr f"
  shows "\<exists>c. assess_continuity x = Inr c \<and> \<not> co_execution_allowed c \<and>
    (co_continuity_ready c \<longleftrightarrow>
       cr_ready_for_research (ct_readiness x) \<and> age_ok (ct_freshness x) \<and> latency_ok (ct_freshness x) \<and> ir_decision_eligible m \<and>
       (\<exists>ss. list_all2 (recovers enc_len) js ss \<and> distinct (map os_order_id ss) \<and> agrees ss exchange) \<and>
       set (map order_key vs) = set (map order_key ws) \<and> be_persisted b \<and> px_passed f)"
proof -
  have ready: "cr_blockers (ct_readiness x) = [] \<longleftrightarrow> cr_ready_for_research (ct_readiness x)"
    using assms(1) by (auto simp: assess_connector_readiness_def connector_readiness_post_init_def Let_def)
  have fresh: "freshness_blockers (ct_freshness x) = [] \<longleftrightarrow> age_ok (ct_freshness x) \<and> latency_ok (ct_freshness x)"
    by (simp add: freshness_blockers_def)
  have stream: "stream_evidence_blockers (ct_latest_ingest x) = [] \<longleftrightarrow> ir_decision_eligible m"
    using ingest_blockers [OF assms(3)] assms(2) by simp
  have "rr_recovery_complete r \<longleftrightarrow> (\<exists>ss. list_all2 (recovers enc_len) js ss \<and> distinct (map os_order_id ss) \<and> agrees ss exchange)"
    using recovery_exact [OF assms(6,7), of enc_len] assms(5) by auto
  moreover have "recovery_report_post_init r = Inr r"
    using assms(5) by (auto simp: recover_paper_orders_def recovery_report_post_init_def Let_def split: prod.splits)
  ultimately have recovery: "recovery_evidence_blockers (ct_paper_recovery x) = [] \<longleftrightarrow>
      (\<exists>ss. list_all2 (recovers enc_len) js ss \<and> distinct (map os_order_id ss) \<and> agrees ss exchange)"
    using assms(4) by (auto simp: recovery_evidence_blockers_def recovery_report_post_init_def)
  have views: "rp_blockers rec = [] \<longleftrightarrow> set (map order_key vs) = set (map order_key ws)"
    using reconcile_Inr [OF assms(10,11)] assms(9) by (metis sum.inject(2))
  have bucket: "bucket_evidence_blockers (ct_portfolio_bucket_persistence x) (ct_portfolio_bucket_persisted x) = [] \<longleftrightarrow> be_persisted b"
    using assms(12,13) by (auto simp: bucket_evidence_blockers_def bucket_evidence_post_init_def)
  have fixture: "px_blockers f = [] \<longleftrightarrow> px_passed f" using assms(15) by (auto simp: provider_fixture_post_init_def)
  show ?thesis
    using ready fresh stream recovery views bucket fixture assms(8,14)
    by (simp add: assess_continuity_def Let_def continuity_post_init_def)
qed

section \<open>A continuous provider\<close>

definition minute_ingestor :: kline_ingestor where
  "minute_ingestor = ig_ingestor (ingest_all (new_ingestor ''BTCUSDT'' ''1m'' default_kline_policy default_stream_policy) (take 2 minute_calls))"

definition closing_message :: raw_message where
  "closing_message = \<lparr>rw_bytes = 300, rw_decoded = Some (minute_payload ''180000'' ''14'' True)\<rparr>"

definition sound_connector :: connector_readiness_input where
  "sound_connector = \<lparr>ci_api_reachable = True, ci_server_time_synchronized = True, ci_exchange_info_fresh = True,
     ci_trading_rules_loaded = True, ci_order_book_snapshot_ready = True, ci_stream_connected = True, ci_sequence_contiguous = True,
     ci_rest_backfill_complete = True, ci_private_state_required = False, ci_wallet_known = False, ci_open_orders_reconciled = False\<rparr>"

definition example_bucket :: bucket_evidence where
  "example_bucket = \<lparr>be_bucket_state_id = ''bucket-1'', be_observed_at = Aware 0, be_path = ''state.json'', be_persisted = True,
     be_snapshot_hash = replicate 64 (CHR ''a''), be_blockers = [], be_execution_allowed = False, be_live_eligibility_status = live_blocked\<rparr>"

definition example_fixture :: provider_fixture where
  "example_fixture = \<lparr>px_fixture_id = ''fixture-1'', px_provider_id = ''binance'', px_observed_at = Aware 0, px_passed = True,
     px_blockers = [], px_execution_allowed = False, px_live_eligibility_status = live_blocked\<rparr>"

definition example_freshness :: freshness where
  "example_freshness = \<lparr>fr_provider_id = ''binance'', fr_observed_at = Aware 180000000, fr_source_published_at = Aware 170000000,
     fr_maximum_age = seconds 30, fr_measured_latency_ms = Some (Finite 40), fr_maximum_latency_ms = Some (Finite 250),
     fr_execution_allowed = False, fr_live_eligibility_status = live_blocked\<rparr>"

lemma closing_eligible: "case fst (ingest minute_ingestor closing_message 0) of Inl _ \<Rightarrow> False | Inr m \<Rightarrow> ir_decision_eligible m"
  by code_simp

lemma example_continuity_ok:
  "bucket_evidence_post_init example_bucket = Inr example_bucket \<and> provider_fixture_post_init example_fixture = Inr example_fixture \<and>
   age_ok example_freshness \<and> latency_ok example_freshness"
  by code_simp

lemma example_recovered:
  obtains s r where "recover_paper_orders (\<lambda>_. 200) [example_journal] (Some [example_view ''o1'' ''BTC'' 2]) = Inr r"
    "list_all2 (recovers (\<lambda>_. 200)) [example_journal] [s]" "agrees [s] (Some [example_view ''o1'' ''BTC'' 2])"
    "list_all journal_decoded [example_journal]" "distinct (view_ids [example_view ''o1'' ''BTC'' 2])"
proof -
  have "case replay_order [example_submission] of Inl _ \<Rightarrow> False
    | Inr s \<Rightarrow> set (map order_key (map state_view (open_orders [s]))) = set (map order_key [example_view ''o1'' ''BTC'' 2])"
    by code_simp
  then obtain s where s: "replay_order [example_submission] = Inr s" "agrees [s] (Some [example_view ''o1'' ''BTC'' 2])"
    by (auto simp: agrees_def split: sum.splits)
  have "fst (load_unlocked (\<lambda>_. 200) example_journal) = Inr [example_submission]" by code_simp
  then have "recovers (\<lambda>_. 200) example_journal s" using s(1) by (simp add: recovers_def)
  then have all: "list_all2 (recovers (\<lambda>_. 200)) [example_journal] [s]" by simp
  have dec: "list_all journal_decoded [example_journal] \<and> distinct (view_ids [example_view ''o1'' ''BTC'' 2])" by code_simp
  then have "\<exists>r. recover_paper_orders (\<lambda>_. 200) [example_journal] (Some [example_view ''o1'' ''BTC'' 2]) = Inr r"
    using recovery_exact [of "[example_journal]" "Some [example_view ''o1'' ''BTC'' 2]" "\<lambda>_. 200"] by auto
  then show thesis using that all s(2) dec by blast
qed

theorem continuity_ready_iff_witness:
  "\<exists>x c. assess_continuity x = Inr c \<and> co_continuity_ready c \<and> ct_freshness x = example_freshness"
proof -
  obtain k where k: "assess_connector_readiness sound_connector = Inr k" "cr_ready_for_research k"
    by (auto simp: assess_connector_readiness_def connector_readiness_post_init_def Let_def sound_connector_def failed_codes_def)
  obtain m where m: "fst (ingest minute_ingestor closing_message 0) = Inr m" "ir_decision_eligible m"
    using closing_eligible by (auto split: sum.splits)
  obtain s r where r: "recover_paper_orders (\<lambda>_. 200) [example_journal] (Some [example_view ''o1'' ''BTC'' 2]) = Inr r"
    "list_all2 (recovers (\<lambda>_. 200)) [example_journal] [s]" "agrees [s] (Some [example_view ''o1'' ''BTC'' 2])"
    "list_all journal_decoded [example_journal]" "distinct (view_ids [example_view ''o1'' ''BTC'' 2])"
    by (rule example_recovered)
  obtain rec where rec: "reconcile_open_orders [example_view ''o1'' ''BTC'' 2] [example_view ''o1'' ''BTC'' 2] = Inr rec"
    using reconcile_Inr [OF r(5) r(5)] by blast
  define x where "x = \<lparr>ct_readiness = k, ct_freshness = example_freshness, ct_latest_ingest = Some m, ct_paper_recovery = Some r,
    ct_open_order_reconciliation = Some rec, ct_portfolio_bucket_persistence = Some example_bucket,
    ct_portfolio_bucket_persisted = False, ct_provider_fixture = Some example_fixture\<rparr>"
  have x: "ct_readiness x = k" "ct_freshness x = example_freshness" "ct_latest_ingest x = Some m" "ct_paper_recovery x = Some r"
    "ct_open_order_reconciliation x = Some rec" "ct_portfolio_bucket_persistence x = Some example_bucket"
    "ct_provider_fixture x = Some example_fixture"
    by (simp_all add: x_def)
  have ok: "bucket_evidence_post_init example_bucket = Inr example_bucket" "provider_fixture_post_init example_fixture = Inr example_fixture"
    "be_persisted example_bucket" "px_passed example_fixture"
    using example_continuity_ok by (simp_all add: example_bucket_def example_fixture_def)
  have "distinct (map os_order_id [s])" by simp
  with r have all: "\<exists>ss. list_all2 (recovers (\<lambda>_. 200)) [example_journal] ss \<and> distinct (map os_order_id ss) \<and>
      agrees ss (Some [example_view ''o1'' ''BTC'' 2])" by blast
  have "\<exists>c. assess_continuity x = Inr c \<and> \<not> co_execution_allowed c \<and>
    (co_continuity_ready c \<longleftrightarrow>
       cr_ready_for_research (ct_readiness x) \<and> age_ok (ct_freshness x) \<and> latency_ok (ct_freshness x) \<and> ir_decision_eligible m \<and>
       (\<exists>ss. list_all2 (recovers (\<lambda>_. 200)) [example_journal] ss \<and> distinct (map os_order_id ss) \<and>
          agrees ss (Some [example_view ''o1'' ''BTC'' 2])) \<and>
       set (map order_key [example_view ''o1'' ''BTC'' 2]) = set (map order_key [example_view ''o1'' ''BTC'' 2]) \<and>
       be_persisted example_bucket \<and> px_passed example_fixture)"
    using k(1) r(5) unfolding x(1) [symmetric]
    by (intro continuity_ready_iff [OF _ x(3) m(1) x(4) r(1) r(4) _ x(5) rec r(5) r(5) x(6) ok(1) x(7) ok(2)]) simp_all
  then show ?thesis using k(2) m(2) all ok(3,4) x(1,2) example_continuity_ok by metis
qed

end
