(* ===== verification/Cost_Basis.thy ===== *)
theory Cost_Basis
  imports Trade_Attribution Int_Text "HOL-Library.Product_Lexorder" "HOL-Library.Multiset"
begin

text \<open>
  \<^verbatim>\<open>portfolio/cost_basis.py\<close>: the weighted-average cost of a Spot holding, rebuilt from the account's trade
  history. The history reader is a parameter: a page of rows, or an error, for a symbol, a first trade id and
  a limit. Rows are JSON objects; a number is the text \<^verbatim>\<open>str\<close> prints for it.
\<close>

section \<open>Trade rows\<close>

record trade_fill =
  tf_trade_id :: int
  tf_symbol :: string
  tf_price :: dec
  tf_quantity :: dec
  tf_quote_quantity :: dec
  tf_commission :: dec
  tf_commission_asset :: string
  tf_is_buyer :: bool
  tf_time_ms :: int

definition trade_fill_post_init :: "trade_fill \<Rightarrow> trade_fill result" where
  "trade_fill_post_init f = validate
     [(tf_trade_id f < 0 \<or> tf_symbol f = [] \<or>
       list_ex (\<lambda>x. x < 0) [tf_price f, tf_quantity f, tf_quote_quantity f, tf_commission f] \<or>
       tf_price f = 0 \<or> tf_quantity f = 0 \<or> tf_commission_asset f = [] \<or> tf_time_ms f < 0,
       ''Spot trade fill is invalid'')] f"

definition row_decimal :: "json option \<Rightarrow> string \<Rightarrow> dec result" where
  "row_decimal v name =
     (case json_decimal v of
        None \<Rightarrow> Inl (ValueError (name @ '' must be decimal-compatible''))
      | Some (Finite x) \<Rightarrow>
          if x < 0 then Inl (ValueError (name @ '' must be finite and non-negative'')) else Inr x
      | Some _ \<Rightarrow> Inl (ValueError (name @ '' must be finite and non-negative'')))"

definition row_integer :: "json option \<Rightarrow> string \<Rightarrow> int result" where
  "row_integer v name =
     (case (case v of Some (JNumber s) \<Rightarrow> py_int s | Some (JText s) \<Rightarrow> py_int s | _ \<Rightarrow> None) of
        None \<Rightarrow> Inl (ValueError (name @ '' must be an integer''))
      | Some n \<Rightarrow> if n < 0 then Inl (ValueError (name @ '' cannot be negative'')) else Inr n)"

definition row_text :: "json option \<Rightarrow> string \<Rightarrow> string result" where
  "row_text v name =
     (case v of
        Some (JText s) \<Rightarrow> if blank s then Inl (ValueError (name @ '' must be text'')) else Inr (py_upper (py_strip s))
      | _ \<Rightarrow> Inl (ValueError (name @ '' must be text'')))"

definition row_boolean :: "json option \<Rightarrow> string \<Rightarrow> bool result" where
  "row_boolean v name =
     (case v of Some (JBool b) \<Rightarrow> Inr b | _ \<Rightarrow> Inl (ValueError (name @ '' must be boolean'')))"

definition fill_of_row :: "string \<Rightarrow> json \<Rightarrow> trade_fill result" where
  "fill_of_row symbol row =
     bindE (row_integer (json_get (Some row) ''id'') ''id'') (\<lambda>i.
     bindE (row_decimal (json_get (Some row) ''price'') ''price'') (\<lambda>price.
     bindE (row_decimal (json_get (Some row) ''qty'') ''qty'') (\<lambda>qty.
     bindE (row_decimal (json_get (Some row) ''quoteQty'') ''quoteQty'') (\<lambda>quote.
     bindE (row_decimal (Some (case json_get (Some row) ''commission'' of None \<Rightarrow> JText ''0'' | Some c \<Rightarrow> c)) ''commission'')
       (\<lambda>commission.
     bindE (row_text (json_get (Some row) ''commissionAsset'') ''commissionAsset'') (\<lambda>asset.
     bindE (row_boolean (json_get (Some row) ''isBuyer'') ''isBuyer'') (\<lambda>buyer.
     bindE (row_integer (json_get (Some row) ''time'') ''time'') (\<lambda>time.
       trade_fill_post_init
         \<lparr>tf_trade_id = i, tf_symbol = symbol, tf_price = price, tf_quantity = qty, tf_quote_quantity = quote,
          tf_commission = commission, tf_commission_asset = asset, tf_is_buyer = buyer, tf_time_ms = time\<rparr>))))))))"

section \<open>The paged history\<close>

type_synonym history_reader = "string \<Rightarrow> int \<Rightarrow> int \<Rightarrow> json result"

definition is_object :: "json \<Rightarrow> bool" where
  "is_object v = (case v of JObject _ \<Rightarrow> True | _ \<Rightarrow> False)"

definition trade_page :: "string \<Rightarrow> int \<Rightarrow> json \<Rightarrow> trade_fill list result" where
  "trade_page symbol limit payload =
     (case payload of
        JList rows \<Rightarrow>
          if int (length rows) > limit then Inl (ValueError ''trade history page exceeds requested limit'')
          else bindE (mapE (fill_of_row symbol) (filter is_object rows)) (\<lambda>page.
            if length page \<noteq> length rows then Inl (ValueError ''trade history rows must be objects'') else Inr page)
      | _ \<Rightarrow> Inl (ValueError ''trade history must be an array''))"

fun load_pages :: "history_reader \<Rightarrow> string \<Rightarrow> int \<Rightarrow> nat \<Rightarrow> int \<Rightarrow> trade_fill list \<Rightarrow>
    (trade_fill list \<times> string list) result" where
  "load_pages reader symbol limit 0 from_id fills = Inr (fills, [''TRADE_HISTORY_PAGE_LIMIT_REACHED''])"
| "load_pages reader symbol limit (Suc pages) from_id fills =
     bindE (reader symbol from_id limit) (\<lambda>payload.
     bindE (trade_page symbol limit payload) (\<lambda>page.
       if list_ex (\<lambda>f. tf_trade_id f < from_id) page then Inr (fills, [''TRADE_HISTORY_PAGINATION_STALLED''])
       else if int (length page) < limit then Inr (fills @ page, [])
       else let next_from_id = Max (set (map tf_trade_id page)) + 1
            in if next_from_id \<le> from_id then Inr (fills @ page, [''TRADE_HISTORY_PAGINATION_STALLED''])
               else load_pages reader symbol limit pages next_from_id (fills @ page)))"

record cost_service =
  cs_reader :: history_reader
  cs_maximum_history_pages :: int

definition cost_service_post_init :: "cost_service \<Rightarrow> cost_service result" where
  "cost_service_post_init s = validate
     [(\<not> (1 \<le> cs_maximum_history_pages s \<and> cs_maximum_history_pages s \<le> 100),
       ''maximum history pages must be between 1 and 100'')] s"

definition load_trade_history :: "cost_service \<Rightarrow> string \<Rightarrow> int \<Rightarrow> (trade_fill list \<times> string list) result" where
  "load_trade_history s symbol limit = load_pages (cs_reader s) symbol limit (nat (cs_maximum_history_pages s)) 0 []"

section \<open>Symbols\<close>

definition basis_symbol :: "string \<Rightarrow> string result" where
  "basis_symbol v =
     (let n = py_upper (py_strip v)
      in if n = [] \<or> \<not> py_isascii n \<or> \<not> py_isalnum n then Inl (ValueError ''symbol must be ASCII alphanumeric'') else Inr n)"

definition quote_assets :: "string list" where
  "quote_assets = [''USDT'', ''FDUSD'', ''USDC'', ''BTC'', ''ETH'', ''BNB'']"

definition ends_with :: "string \<Rightarrow> string \<Rightarrow> bool" where
  "ends_with s e \<longleftrightarrow> length e \<le> length s \<and> drop (length s - length e) s = e"

definition basis_assets :: "string \<Rightarrow> (string \<times> string) result" where
  "basis_assets s =
     (case find (\<lambda>q. ends_with s q \<and> length q < length s) quote_assets of
        None \<Rightarrow> Inl (ValueError ''symbol quote asset is unsupported'')
      | Some q \<Rightarrow> Inr (take (length s - length q) s, q))"

section \<open>Reconstruction\<close>

record basis_acc =
  ba_quantity :: dec
  ba_cost :: dec
  ba_realized :: dec
  ba_quote_fees :: dec
  ba_blockers :: "string list"
  ba_seen :: "int list"

definition fee_in :: "string \<Rightarrow> trade_fill \<Rightarrow> dec" where
  "fee_in asset f = (if tf_commission_asset f = asset then tf_commission f else 0)"

definition fee_unconvertible :: "string \<Rightarrow> string \<Rightarrow> trade_fill \<Rightarrow> bool" where
  "fee_unconvertible base quote f \<longleftrightarrow> 0 < tf_commission f \<and> tf_commission_asset f \<notin> {base, quote}"

definition basis_buy :: "string \<Rightarrow> string \<Rightarrow> trade_fill \<Rightarrow> basis_acc \<Rightarrow> basis_acc" where
  "basis_buy base quote f a =
     (let acquired = d_sub (tf_quantity f) (fee_in base f)
      in if acquired \<le> 0 then a\<lparr>ba_blockers := ba_blockers a @ [''INVALID_NET_ACQUIRED_QUANTITY'']\<rparr>
         else a\<lparr>ba_quantity := d_add (ba_quantity a) acquired,
                ba_cost := d_add (ba_cost a) (d_add (tf_quote_quantity f) (fee_in quote f))\<rparr>)"

definition basis_sell :: "string \<Rightarrow> string \<Rightarrow> trade_fill \<Rightarrow> basis_acc \<Rightarrow> basis_acc" where
  "basis_sell base quote f a =
     (let wanted = d_add (tf_quantity f) (fee_in base f);
          excess = ba_quantity a < wanted;
          disposed = (if excess then ba_quantity a else wanted);
          a = a\<lparr>ba_blockers := ba_blockers a @ flag_if excess ''SELL_EXCEEDS_RECONSTRUCTED_INVENTORY''\<rparr>
      in if disposed \<le> 0 then a
         else let average = (if 0 < ba_quantity a then d_quot (ba_cost a) (ba_quantity a) else 0);
                  proceeds = d_sub (tf_quote_quantity f) (fee_in quote f)
              in a\<lparr>ba_realized := d_add (ba_realized a) (d_sub proceeds (d_mul average disposed)),
                   ba_quantity := d_sub (ba_quantity a) disposed,
                   ba_cost := d_sub (ba_cost a) (d_mul average disposed)\<rparr>)"

definition basis_step :: "string \<Rightarrow> string \<Rightarrow> basis_acc \<Rightarrow> trade_fill \<Rightarrow> basis_acc" where
  "basis_step base quote a f =
     (if tf_trade_id f \<in> set (ba_seen a) then a\<lparr>ba_blockers := ba_blockers a @ [''DUPLICATE_TRADE_ID'']\<rparr>
      else let a = a\<lparr>ba_seen := tf_trade_id f # ba_seen a,
                     ba_blockers := ba_blockers a @ flag_if (fee_unconvertible base quote f) ''TRADE_FEE_CONVERSION_UNAVAILABLE'',
                     ba_quote_fees := d_add (ba_quote_fees a) (fee_in quote f)\<rparr>
           in if tf_is_buyer f then basis_buy base quote f a else basis_sell base quote f a)"

definition basis_fold :: "string \<Rightarrow> string \<Rightarrow> string list \<Rightarrow> trade_fill list \<Rightarrow> basis_acc" where
  "basis_fold base quote blockers fs = foldl (basis_step base quote)
     \<lparr>ba_quantity = 0, ba_cost = 0, ba_realized = 0, ba_quote_fees = 0, ba_blockers = blockers, ba_seen = []\<rparr> fs"

record cost_report =
  cb_symbol :: string
  cb_base_asset :: string
  cb_quote_asset :: string
  cb_quantity :: dec
  cb_average_cost_quote :: "dec option"
  cb_realized_pnl_quote :: dec
  cb_quote_fees :: dec
  cb_trade_count :: int
  cb_blockers :: "string list"
  cb_execution_allowed :: bool
  cb_live_eligibility_status :: string

definition cost_report_post_init :: "cost_report \<Rightarrow> cost_report result" where
  "cost_report_post_init r = validate
     [(cb_symbol r = [] \<or> cb_base_asset r = [] \<or> cb_quote_asset r = [] \<or> cb_quantity r < 0 \<or> cb_trade_count r < 0 \<or>
       cb_execution_allowed r \<or> cb_live_eligibility_status r \<noteq> live_blocked, ''cost basis report is invalid''),
      ((case cb_average_cost_quote r of None \<Rightarrow> False | Some c \<Rightarrow> c < 0), ''average cost is invalid'')] r"

definition match_tolerance :: dec where
  "match_tolerance = 1 / 10 ^ 8"

definition in_trade_order :: "trade_fill list \<Rightarrow> trade_fill list" where
  "in_trade_order fs = sort_key (\<lambda>f. (tf_time_ms f, tf_trade_id f)) fs"

definition cost_report_of :: "string \<Rightarrow> string \<times> string \<Rightarrow> dec \<Rightarrow> trade_fill list \<Rightarrow> string list \<Rightarrow> cost_report" where
  "cost_report_of symbol assets wallet_quantity fills history_blockers =
     (let (base, quote) = assets;
          ordered = in_trade_order fills;
          a = basis_fold base quote history_blockers ordered
      in \<lparr>cb_symbol = symbol, cb_base_asset = base, cb_quote_asset = quote, cb_quantity = ba_quantity a,
          cb_average_cost_quote = (if 0 < ba_quantity a then Some (d_quot (ba_cost a) (ba_quantity a)) else None),
          cb_realized_pnl_quote = ba_realized a, cb_quote_fees = ba_quote_fees a, cb_trade_count = int (length ordered),
          cb_blockers = dict_fromkeys
            (ba_blockers a
             @ flag_if (match_tolerance < d_abs (d_sub (ba_quantity a) wallet_quantity)) ''WALLET_TRADE_HISTORY_QUANTITY_MISMATCH''
             @ flag_if (ordered = []) ''TRADE_HISTORY_UNAVAILABLE''),
          cb_execution_allowed = False, cb_live_eligibility_status = live_blocked\<rparr>)"

definition cost_evaluate :: "cost_service \<Rightarrow> string \<Rightarrow> pydec \<Rightarrow> int \<Rightarrow> cost_report result" where
  "cost_evaluate s symbol wallet limit =
     bindE (basis_symbol symbol) (\<lambda>n.
     bindE (basis_assets n) (\<lambda>assets.
       case wallet of
         Finite w \<Rightarrow>
           if w < 0 then Inl (ValueError ''wallet quantity must be finite and non-negative'')
           else if \<not> (1 \<le> limit \<and> limit \<le> 1000) then Inl (ValueError ''trade history limit must be between 1 and 1000'')
           else bindE (load_trade_history s n limit) (\<lambda>(fills, blockers). cost_report_post_init (cost_report_of n assets w fills blockers))
       | _ \<Rightarrow> Inl (ValueError ''wallet quantity must be finite and non-negative'')))"

section \<open>Complete histories\<close>

text \<open>
  What the history endpoint documents: from a trade id on, the account's trades in ascending id order, at
  most \<open>limit\<close> of them.
\<close>

definition serves :: "history_reader \<Rightarrow> string \<Rightarrow> int \<Rightarrow> trade_fill list \<Rightarrow> bool" where
  "serves reader symbol limit trades \<longleftrightarrow>
     sorted_wrt (<) (map tf_trade_id trades) \<and> list_all (\<lambda>f. 0 \<le> tf_trade_id f) trades \<and>
     (\<forall>from_id. 0 \<le> from_id \<longrightarrow> (\<exists>payload. reader symbol from_id limit = Inr payload \<and>
        trade_page symbol limit payload = Inr (take (nat limit) (filter (\<lambda>f. from_id \<le> tf_trade_id f) trades))))"

lemma serves_page:
  assumes "serves reader symbol limit (fills @ rest)" "0 \<le> from_id"
    "list_all (\<lambda>f. tf_trade_id f < from_id) fills" "list_all (\<lambda>f. from_id \<le> tf_trade_id f) rest"
  obtains payload where "reader symbol from_id limit = Inr payload" "trade_page symbol limit payload = Inr (take (nat limit) rest)"
proof -
  have "filter (\<lambda>f. from_id \<le> tf_trade_id f) (fills @ rest) = rest"
    using assms(3,4) by (auto simp: list_all_iff filter_empty_conv intro!: filter_True)
  then show thesis using assms(1,2) that unfolding serves_def by metis
qed

lemma next_page_ids:
  assumes "sorted_wrt (<) (map tf_trade_id (fills @ rest))" "0 < n" "n \<le> length rest"
    "list_all (\<lambda>f. tf_trade_id f < from_id) fills" "list_all (\<lambda>f. from_id \<le> tf_trade_id f) rest"
    and m: "m = Max (set (map tf_trade_id (take n rest)))"
  shows "from_id \<le> m" "list_all (\<lambda>f. tf_trade_id f < m + 1) (fills @ take n rest)" "list_all (\<lambda>f. m + 1 \<le> tf_trade_id f) (drop n rest)"
proof -
  let ?ids = "set (map tf_trade_id (take n rest))"
  have ids: "finite ?ids" "?ids \<noteq> {}" using assms(2,3) by auto
  then have mem: "m \<in> ?ids" using m Max_in by blast
  then show low: "from_id \<le> m" using assms(5) by (auto simp: list_all_iff dest!: in_set_takeD)
  show "list_all (\<lambda>f. tf_trade_id f < m + 1) (fills @ take n rest)"
    using assms(4) low Max_ge [OF ids(1)] by (fastforce simp: list_all_iff m)
  have "sorted_wrt (<) (map tf_trade_id (take n rest @ drop n rest))" using assms(1) by (simp add: sorted_wrt_append)
  then have "a < b" if "a \<in> ?ids" "b \<in> set (map tf_trade_id (drop n rest))" for a b
    using that unfolding map_append sorted_wrt_append by blast
  from this [OF mem] show "list_all (\<lambda>f. m + 1 \<le> tf_trade_id f) (drop n rest)" by (fastforce simp: list_all_iff)
qed

lemma load_pages_exact:
  assumes "serves reader symbol limit (fills @ rest)" "0 < limit" "0 \<le> from_id"
    "list_all (\<lambda>f. tf_trade_id f < from_id) fills" "list_all (\<lambda>f. from_id \<le> tf_trade_id f) rest"
  shows "load_pages reader symbol limit pages from_id fills =
    Inr (if length rest < pages * nat limit then (fills @ rest, [])
         else (fills @ take (pages * nat limit) rest, [''TRADE_HISTORY_PAGE_LIMIT_REACHED'']))"
  using assms
proof (induction pages arbitrary: from_id fills rest)
  case (Suc pages)
  obtain payload where p: "reader symbol from_id limit = Inr payload" "trade_page symbol limit payload = Inr (take (nat limit) rest)"
    using serves_page [OF Suc.prems(1,3-5)] .
  have fresh: "\<not> list_ex (\<lambda>f. tf_trade_id f < from_id) (take (nat limit) rest)"
    using Suc.prems(5) by (fastforce simp: list_all_iff list_ex_iff dest!: in_set_takeD)
  show ?case
  proof (cases "length rest < nat limit")
    case True
    then have "length rest < Suc pages * nat limit" by (simp add: trans_less_add1)
    moreover have "int (length (take (nat limit) rest)) < limit" using True by simp
    ultimately show ?thesis using True fresh by (simp add: p)
  next
    case False
    let ?m = "Max (set (map tf_trade_id (take (nat limit) rest)))"
    have "sorted_wrt (<) (map tf_trade_id (fills @ rest))" using Suc.prems(1) by (simp add: serves_def)
    note ids = next_page_ids [OF this _ _ Suc.prems(4,5) refl, of "nat limit"]
    have m: "from_id \<le> ?m" "list_all (\<lambda>f. tf_trade_id f < ?m + 1) (fills @ take (nat limit) rest)"
      "list_all (\<lambda>f. ?m + 1 \<le> tf_trade_id f) (drop (nat limit) rest)"
      using ids False Suc.prems(2) by simp_all
    have "load_pages reader symbol limit (Suc pages) from_id fills =
        load_pages reader symbol limit pages (?m + 1) (fills @ take (nat limit) rest)"
      using False m(1) by (simp add: p fresh Let_def)
    also have "\<dots> = Inr (if length (drop (nat limit) rest) < pages * nat limit
        then ((fills @ take (nat limit) rest) @ drop (nat limit) rest, [])
        else ((fills @ take (nat limit) rest) @ take (pages * nat limit) (drop (nat limit) rest), [''TRADE_HISTORY_PAGE_LIMIT_REACHED'']))"
      using Suc.prems(1-3) m by (intro Suc.IH) simp_all
    finally show ?thesis using False by (simp add: take_add [symmetric] less_diff_conv2 add.commute del: load_pages.simps)
  qed
qed simp

lemma history_exact:
  assumes "serves (cs_reader s) symbol limit trades" "0 < limit" "0 \<le> cs_maximum_history_pages s"
  shows "load_trade_history s symbol limit =
    Inr (if int (length trades) < cs_maximum_history_pages s * limit then (trades, [])
         else (take (nat (cs_maximum_history_pages s) * nat limit) trades, [''TRADE_HISTORY_PAGE_LIMIT_REACHED'']))"
proof -
  have "list_all (\<lambda>f. 0 \<le> tf_trade_id f) trades" using assms(1) by (simp add: serves_def)
  moreover have "length trades < nat (cs_maximum_history_pages s) * nat limit \<longleftrightarrow> int (length trades) < cs_maximum_history_pages s * limit"
    using assms(2,3) by (simp add: nat_mult_distrib [symmetric] zless_nat_eq_int_zless)
  ultimately show ?thesis
    using load_pages_exact [of "cs_reader s" symbol limit "[]" trades 0 "nat (cs_maximum_history_pages s)"] assms(1,2)
    by (simp add: load_trade_history_def)
qed

section \<open>Clear reports\<close>

lemma fill_of_row_ok: "fill_of_row symbol row = Inr f \<Longrightarrow> trade_fill_post_init f = Inr f"
  by (auto simp: fill_of_row_def trade_fill_post_init_def)

lemma mapE_all: "mapE g xs = Inr ys \<Longrightarrow> (\<And>x y. g x = Inr y \<Longrightarrow> P y) \<Longrightarrow> list_all P ys"
  by (induction xs arbitrary: ys) auto

lemma trade_page_ok: "trade_page symbol limit payload = Inr page \<Longrightarrow> list_all (\<lambda>f. trade_fill_post_init f = Inr f) page"
  by (auto simp: trade_page_def split: json.splits if_splits dest!: mapE_all [OF _ fill_of_row_ok])

lemma load_pages_ok:
  "load_pages reader symbol limit pages from_id fills = Inr (fs, bs) \<Longrightarrow> list_all (\<lambda>f. trade_fill_post_init f = Inr f) fills \<Longrightarrow>
   list_all (\<lambda>f. trade_fill_post_init f = Inr f) fs"
proof (induction pages arbitrary: from_id fills)
  case (Suc pages)
  obtain payload page where p: "reader symbol from_id limit = Inr payload" "trade_page symbol limit payload = Inr page"
    using Suc.prems(1) by auto
  have "list_all (\<lambda>f. trade_fill_post_init f = Inr f) (fills @ page)" using Suc.prems(2) trade_page_ok [OF p(2)] by simp
  with Suc show ?case by (auto simp: p Let_def split: if_splits)
qed simp

text \<open>
  The specification of the inventory: buys add what is left of them after a fee in the base asset, sells
  take their quantity and that fee, and there is no inventory when a buy is eaten by its fee or a sell
  exceeds what is held.
\<close>

fun inventory_after :: "string \<Rightarrow> dec \<Rightarrow> trade_fill list \<Rightarrow> dec option" where
  "inventory_after base q [] = Some q"
| "inventory_after base q (f # fs) =
     (if tf_is_buyer f
      then (if tf_quantity f \<le> fee_in base f then None
            else inventory_after base (d_add q (d_sub (tf_quantity f) (fee_in base f))) fs)
      else (if q < d_add (tf_quantity f) (fee_in base f) then None
            else inventory_after base (d_sub q (d_add (tf_quantity f) (fee_in base f))) fs))"

lemma d_sub_nonpos_iff: "d_sub x y \<le> 0 \<longleftrightarrow> x \<le> y"
  using d_sub_pos_iff [of x y] by (simp add: not_less [symmetric])

lemma fill_positive:
  assumes "trade_fill_post_init f = Inr f"
  shows "0 < tf_quantity f" "0 \<le> fee_in a f" "0 < d_add (tf_quantity f) (fee_in a f)"
proof -
  show q: "0 < tf_quantity f" and c: "0 \<le> fee_in a f" using assms by (auto simp: trade_fill_post_init_def fee_in_def)
  from q c have "0 < tf_quantity f + fee_in a f" by simp
  then show "0 < d_add (tf_quantity f) (fee_in a f)" by (simp add: d_add_def dround_pos)
qed

lemma basis_buy_fields:
  "ba_blockers (basis_buy base quote f a) = ba_blockers a @ flag_if (tf_quantity f \<le> fee_in base f) ''INVALID_NET_ACQUIRED_QUANTITY''"
  "ba_quantity (basis_buy base quote f a) =
     (if tf_quantity f \<le> fee_in base f then ba_quantity a else d_add (ba_quantity a) (d_sub (tf_quantity f) (fee_in base f)))"
  "ba_seen (basis_buy base quote f a) = ba_seen a"
  by (simp_all add: basis_buy_def Let_def d_sub_nonpos_iff flag_if_def)

lemma basis_sell_fields:
  assumes "trade_fill_post_init f = Inr f"
  shows "ba_blockers (basis_sell base quote f a) = ba_blockers a
      @ flag_if (ba_quantity a < d_add (tf_quantity f) (fee_in base f)) ''SELL_EXCEEDS_RECONSTRUCTED_INVENTORY''"
    "ba_quantity (basis_sell base quote f a) =
      (if ba_quantity a < d_add (tf_quantity f) (fee_in base f) then min 0 (ba_quantity a)
       else d_sub (ba_quantity a) (d_add (tf_quantity f) (fee_in base f)))"
    "ba_seen (basis_sell base quote f a) = ba_seen a"
proof -
  have "d_sub x x = 0" for x by simp
  then show "ba_blockers (basis_sell base quote f a) = ba_blockers a
      @ flag_if (ba_quantity a < d_add (tf_quantity f) (fee_in base f)) ''SELL_EXCEEDS_RECONSTRUCTED_INVENTORY''"
    "ba_quantity (basis_sell base quote f a) =
      (if ba_quantity a < d_add (tf_quantity f) (fee_in base f) then min 0 (ba_quantity a)
       else d_sub (ba_quantity a) (d_add (tf_quantity f) (fee_in base f)))"
    "ba_seen (basis_sell base quote f a) = ba_seen a"
    using fill_positive(3) [OF assms, of base] by (simp_all add: basis_sell_def Let_def min_def)
qed

lemma basis_step_fields:
  assumes "trade_fill_post_init f = Inr f" "tf_trade_id f \<notin> set (ba_seen a)"
  shows "ba_blockers (basis_step base quote a f) = ba_blockers a
      @ flag_if (fee_unconvertible base quote f) ''TRADE_FEE_CONVERSION_UNAVAILABLE''
      @ (if tf_is_buyer f then flag_if (tf_quantity f \<le> fee_in base f) ''INVALID_NET_ACQUIRED_QUANTITY''
         else flag_if (ba_quantity a < d_add (tf_quantity f) (fee_in base f)) ''SELL_EXCEEDS_RECONSTRUCTED_INVENTORY'')"
    "ba_quantity (basis_step base quote a f) =
      (if tf_is_buyer f
       then (if tf_quantity f \<le> fee_in base f then ba_quantity a else d_add (ba_quantity a) (d_sub (tf_quantity f) (fee_in base f)))
       else (if ba_quantity a < d_add (tf_quantity f) (fee_in base f) then min 0 (ba_quantity a)
             else d_sub (ba_quantity a) (d_add (tf_quantity f) (fee_in base f))))"
    "ba_seen (basis_step base quote a f) = tf_trade_id f # ba_seen a"
  using assms(2) by (simp_all add: basis_step_def Let_def basis_buy_fields basis_sell_fields [OF assms(1)])

lemma basis_step_seen: "tf_trade_id f \<in> set (ba_seen a) \<Longrightarrow>
    basis_step base quote a f = a\<lparr>ba_blockers := ba_blockers a @ [''DUPLICATE_TRADE_ID'']\<rparr>"
  by (simp add: basis_step_def)

lemma basis_step_blockers:
  assumes "trade_fill_post_init f = Inr f" shows "\<exists>bs. ba_blockers (basis_step base quote a f) = ba_blockers a @ bs"
  by (cases "tf_trade_id f \<in> set (ba_seen a)") (simp_all add: basis_step_seen basis_step_fields [OF assms])

lemma basis_step_quantity:
  assumes "trade_fill_post_init f = Inr f" "0 \<le> ba_quantity a"
  shows "0 \<le> ba_quantity (basis_step base quote a f)"
proof (cases "tf_trade_id f \<in> set (ba_seen a)")
  case False
  have "0 \<le> d_add (ba_quantity a) (d_sub (tf_quantity f) (fee_in base f))" if "\<not> tf_quantity f \<le> fee_in base f"
    using assms(2) that by (intro d_add_nonneg) simp_all
  then show ?thesis using assms(2) by (simp add: basis_step_fields [OF assms(1) False])
qed (simp add: basis_step_seen assms(2))

lemma basis_fold_blocked:
  "ba_blockers a \<noteq> [] \<Longrightarrow> list_all (\<lambda>f. trade_fill_post_init f = Inr f) fs \<Longrightarrow>
   ba_blockers (foldl (basis_step base quote) a fs) \<noteq> []"
proof (induction fs arbitrary: a)
  case (Cons f fs)
  from Cons.prems(2) obtain bs where "ba_blockers (basis_step base quote a f) = ba_blockers a @ bs"
    using basis_step_blockers [of f base quote a] by auto
  then show ?case using Cons.prems Cons.IH [of "basis_step base quote a f"] by simp
qed simp

lemma basis_step_clear:
  assumes f: "trade_fill_post_init f = Inr f" and a: "ba_blockers a = []" "tf_trade_id f \<notin> set (ba_seen a)"
  shows "ba_blockers (basis_step base quote a f) = [] \<longleftrightarrow> \<not> fee_unconvertible base quote f \<and>
      inventory_after base (ba_quantity a) [f] \<noteq> None"
    "ba_blockers (basis_step base quote a f) = [] \<Longrightarrow>
      inventory_after base (ba_quantity a) [f] = Some (ba_quantity (basis_step base quote a f))"
  using a(1) by (auto simp: basis_step_fields [OF f a(2)] split: if_splits)

lemma inventory_after_Cons:
  "inventory_after base q (f # fs) = (case inventory_after base q [f] of None \<Rightarrow> None | Some q' \<Rightarrow> inventory_after base q' fs)"
  by simp

lemma basis_fold_clear:
  assumes "list_all (\<lambda>f. trade_fill_post_init f = Inr f) fs" "distinct (map tf_trade_id fs)"
    "set (map tf_trade_id fs) \<inter> set (ba_seen a) = {}" "ba_blockers a = []"
  shows "(ba_blockers (foldl (basis_step base quote) a fs) = [] \<longleftrightarrow>
      list_all (\<lambda>f. \<not> fee_unconvertible base quote f) fs \<and> inventory_after base (ba_quantity a) fs \<noteq> None) \<and>
    (ba_blockers (foldl (basis_step base quote) a fs) = [] \<longrightarrow>
      inventory_after base (ba_quantity a) fs = Some (ba_quantity (foldl (basis_step base quote) a fs)))"
  using assms
proof (induction fs arbitrary: a)
  case (Cons f fs)
  let ?a = "basis_step base quote a f"
  have f: "trade_fill_post_init f = Inr f" "tf_trade_id f \<notin> set (ba_seen a)" using Cons.prems by auto
  note step = basis_step_clear [OF f(1) Cons.prems(4) f(2), of base quote]
  show ?case
  proof (cases "ba_blockers ?a = []")
    case True
    have "ba_seen ?a = tf_trade_id f # ba_seen a"
      by (rule basis_step_fields(3) [OF f])
    then have IH: "(ba_blockers (foldl (basis_step base quote) ?a fs) = [] \<longleftrightarrow>
        list_all (\<lambda>f. \<not> fee_unconvertible base quote f) fs \<and> inventory_after base (ba_quantity ?a) fs \<noteq> None) \<and>
      (ba_blockers (foldl (basis_step base quote) ?a fs) = [] \<longrightarrow>
        inventory_after base (ba_quantity ?a) fs = Some (ba_quantity (foldl (basis_step base quote) ?a fs)))"
      using Cons.prems True by (intro Cons.IH) auto
    have head: "inventory_after base (ba_quantity a) [f] = Some (ba_quantity ?a)" "\<not> fee_unconvertible base quote f"
      using step True by blast+
    have "inventory_after base (ba_quantity a) (f # fs) = inventory_after base (ba_quantity ?a) fs"
      by (subst inventory_after_Cons) (simp only: head option.case)
    then show ?thesis using IH head(2) by simp
  next
    case False
    then have "\<not> (\<not> fee_unconvertible base quote f \<and> inventory_after base (ba_quantity a) [f] \<noteq> None)" using step(1) by blast
    then have "\<not> (list_all (\<lambda>f. \<not> fee_unconvertible base quote f) (f # fs) \<and> inventory_after base (ba_quantity a) (f # fs) \<noteq> None)"
      by (subst inventory_after_Cons) auto
    then show ?thesis using basis_fold_blocked [OF False, of fs base quote] Cons.prems(1) by simp
  qed
qed simp

lemma basis_fold_quantity:
  "list_all (\<lambda>f. trade_fill_post_init f = Inr f) fs \<Longrightarrow> 0 \<le> ba_quantity a \<Longrightarrow>
   0 \<le> ba_quantity (foldl (basis_step base quote) a fs)"
  by (induction fs arbitrary: a) (simp_all add: basis_step_quantity)

lemma basis_fold_clear_iff:
  assumes "list_all (\<lambda>f. trade_fill_post_init f = Inr f) fs" "distinct (map tf_trade_id fs)"
  shows "ba_blockers (basis_fold base quote [] fs) = [] \<longleftrightarrow>
      list_all (\<lambda>f. \<not> fee_unconvertible base quote f) fs \<and> inventory_after base 0 fs \<noteq> None"
    "ba_blockers (basis_fold base quote [] fs) = [] \<Longrightarrow> inventory_after base 0 fs = Some (ba_quantity (basis_fold base quote [] fs))"
    "0 \<le> ba_quantity (basis_fold base quote bs fs)" "bs \<noteq> [] \<Longrightarrow> ba_blockers (basis_fold base quote bs fs) \<noteq> []"
  unfolding basis_fold_def
  subgoal using basis_fold_clear [OF assms, of "\<lparr>ba_quantity = 0, ba_cost = 0, ba_realized = 0, ba_quote_fees = 0, ba_blockers = [], ba_seen = []\<rparr>" base quote] by simp
  subgoal using basis_fold_clear [OF assms, of "\<lparr>ba_quantity = 0, ba_cost = 0, ba_realized = 0, ba_quote_fees = 0, ba_blockers = [], ba_seen = []\<rparr>" base quote] by simp
  subgoal using assms(1) by (intro basis_fold_quantity) simp_all
  subgoal using assms(1) by (intro basis_fold_blocked) simp_all
  done

text \<open>Blockers are only collected: they never change a number.\<close>

definition same_amounts :: "basis_acc \<Rightarrow> basis_acc \<Rightarrow> bool" where
  "same_amounts a b \<longleftrightarrow> ba_quantity a = ba_quantity b \<and> ba_cost a = ba_cost b \<and> ba_seen a = ba_seen b"

lemma basis_step_same: "same_amounts a b \<Longrightarrow> same_amounts (basis_step base quote a f) (basis_step base quote b f)"
  by (simp add: same_amounts_def basis_step_def basis_buy_def basis_sell_def Let_def)

lemma basis_fold_same: "same_amounts a b \<Longrightarrow> same_amounts (foldl (basis_step base quote) a fs) (foldl (basis_step base quote) b fs)"
  by (induction fs arbitrary: a b) (simp_all add: basis_step_same)

lemma basis_fold_amounts: "same_amounts (basis_fold base quote bs fs) (basis_fold base quote [] fs)"
  unfolding basis_fold_def by (intro basis_fold_same) (simp add: same_amounts_def)

lemma basis_assets_nonempty:
  assumes "basis_assets n = Inr (base, quote)" shows "n \<noteq> []" "base \<noteq> []" "quote \<noteq> []"
proof -
  let ?found = "find (\<lambda>q. ends_with n q \<and> length q < length n) quote_assets"
  have "?found \<noteq> None"
  proof
    assume none: "?found = None"
    from assms show False unfolding basis_assets_def none by (simp only: option.case sum.distinct)
  qed
  then obtain q where found: "?found = Some q" by blast
  from assms have q: "base = take (length n - length q) n" "quote = q"
    unfolding basis_assets_def found option.case sum.inject prod.inject by metis+
  from found have "\<exists>i<length quote_assets. (ends_with n (quote_assets ! i) \<and> length (quote_assets ! i) < length n) \<and> q = quote_assets ! i"
    unfolding find_Some_iff by blast
  then have "length q < length n" "q \<in> set quote_assets" by (metis, metis nth_mem)
  then show "n \<noteq> []" "base \<noteq> []" "quote \<noteq> []" using q by (auto simp: quote_assets_def)
qed

lemma in_trade_order_props [simp]:
  "set (in_trade_order fs) = set fs" "length (in_trade_order fs) = length fs" "in_trade_order fs = [] \<longleftrightarrow> fs = []"
  "distinct (map tf_trade_id (in_trade_order fs)) \<longleftrightarrow> distinct (map tf_trade_id fs)"
proof -
  have "mset (in_trade_order fs) = mset fs" by (simp add: in_trade_order_def)
  then have "mset (map tf_trade_id (in_trade_order fs)) = mset (map tf_trade_id fs)" by (metis mset_map)
  then show "distinct (map tf_trade_id (in_trade_order fs)) \<longleftrightarrow> distinct (map tf_trade_id fs)" by (metis mset_eq_imp_distinct_iff)
qed (simp_all add: in_trade_order_def flip: length_0_conv)

text \<open>The trades the service can see: as many pages as it may ask for.\<close>

definition visible :: "cost_service \<Rightarrow> int \<Rightarrow> trade_fill list \<Rightarrow> trade_fill list" where
  "visible s limit trades = take (nat (cs_maximum_history_pages s) * nat limit) trades"

lemma history_visible:
  assumes "serves (cs_reader s) n limit trades" "0 < limit" "cost_service_post_init s = Inr s"
  obtains bs where "load_trade_history s n limit = Inr (visible s limit trades, bs)"
    "bs = [] \<longleftrightarrow> int (length trades) < cs_maximum_history_pages s * limit"
    "bs = [] \<Longrightarrow> visible s limit trades = trades"
    "list_all (\<lambda>f. trade_fill_post_init f = Inr f) (visible s limit trades)" "distinct (map tf_trade_id (visible s limit trades))"
proof -
  have pages: "0 \<le> cs_maximum_history_pages s" using assms(3) by (simp add: cost_service_post_init_def)
  note exact = history_exact [OF assms(1,2) pages]
  have all: "visible s limit trades = trades" if "int (length trades) < cs_maximum_history_pages s * limit"
  proof -
    have "int (nat (cs_maximum_history_pages s) * nat limit) = cs_maximum_history_pages s * limit" using pages assms(2) by simp
    then have "length trades \<le> nat (cs_maximum_history_pages s) * nat limit" using that by linarith
    then show ?thesis by (simp add: visible_def)
  qed
  define bs where "bs = (if int (length trades) < cs_maximum_history_pages s * limit then []
    else [''TRADE_HISTORY_PAGE_LIMIT_REACHED''])"
  have l: "load_trade_history s n limit = Inr (visible s limit trades, bs)"
    using exact all by (simp add: bs_def visible_def split: if_splits)
  have "distinct (map tf_trade_id trades)"
    using assms(1) strict_sorted_iff [of "map tf_trade_id trades"] by (simp add: serves_def)
  then have "distinct (map tf_trade_id (visible s limit trades))" by (simp add: visible_def take_map [symmetric])
  moreover have "list_all (\<lambda>f. trade_fill_post_init f = Inr f) (visible s limit trades)"
    using load_pages_ok [OF l [unfolded load_trade_history_def]] by simp
  ultimately show thesis using that [OF l] all by (simp add: bs_def)
qed


text \<open>Two trades of one account: two units bought with a fee in the base asset, one of them sold.\<close>

definition bought :: trade_fill where
  "bought = \<lparr>tf_trade_id = 1, tf_symbol = ''BTCUSDT'', tf_price = 100, tf_quantity = 2, tf_quote_quantity = 200,
     tf_commission = 1 / 500, tf_commission_asset = ''BTC'', tf_is_buyer = True, tf_time_ms = 10\<rparr>"

definition sold :: trade_fill where
  "sold = \<lparr>tf_trade_id = 2, tf_symbol = ''BTCUSDT'', tf_price = 110, tf_quantity = 1, tf_quote_quantity = 110,
     tf_commission = 11 / 100, tf_commission_asset = ''USDT'', tf_is_buyer = False, tf_time_ms = 20\<rparr>"

definition bought_row :: json where
  "bought_row = JObject [(''id'', JNumber ''1''), (''price'', JText ''100.0''), (''qty'', JText ''2''), (''quoteQty'', JText ''200''),
     (''commission'', JText ''0.002''), (''commissionAsset'', JText ''BTC''), (''isBuyer'', JBool True), (''time'', JNumber ''10'')]"

definition sold_row :: json where
  "sold_row = JObject [(''id'', JNumber ''2''), (''price'', JText ''110.0''), (''qty'', JText ''1''), (''quoteQty'', JText ''110''),
     (''commission'', JText ''0.11''), (''commissionAsset'', JText ''USDT''), (''isBuyer'', JBool False), (''time'', JNumber ''20'')]"

definition example_service :: cost_service where
  "example_service = \<lparr>cs_reader = (\<lambda>_ from_id _. Inr (JList
      (if from_id \<le> 1 then [bought_row, sold_row] else if from_id \<le> 2 then [sold_row] else []))),
     cs_maximum_history_pages = 10\<rparr>"

lemma example_rows:
  "fill_of_row ''BTCUSDT'' bought_row = Inr bought \<and> fill_of_row ''BTCUSDT'' sold_row = Inr sold"
  by code_simp

lemma example_serves: "serves (cs_reader example_service) ''BTCUSDT'' 1000 [bought, sold]"
proof -
  have "is_object bought_row" "is_object sold_row" by (simp_all add: is_object_def bought_row_def sold_row_def)
  then have "trade_page ''BTCUSDT'' 1000 (JList (if from_id \<le> 1 then [bought_row, sold_row] else if from_id \<le> 2 then [sold_row] else [])) =
      Inr (take 1000 (filter (\<lambda>f. from_id \<le> tf_trade_id f) [bought, sold]))" for from_id
    by (simp add: trade_page_def example_rows) (simp add: bought_def sold_def)
  then show ?thesis unfolding serves_def example_service_def by (simp) (simp add: bought_def sold_def)
qed

lemma example_reconstruction:
  "basis_symbol ''btcusdt'' = Inr ''BTCUSDT'' \<and> basis_assets ''BTCUSDT'' = Inr (''BTC'', ''USDT'') \<and>
   in_trade_order [bought, sold] = [bought, sold] \<and> \<not> fee_unconvertible ''BTC'' ''USDT'' bought \<and>
   \<not> fee_unconvertible ''BTC'' ''USDT'' sold \<and> inventory_after ''BTC'' 0 [bought, sold] = Some (499 / 500) \<and>
   d_abs (d_sub (499 / 500) (499 / 500)) \<le> match_tolerance \<and>
   0 \<le> ba_cost (basis_fold ''BTC'' ''USDT'' [] [bought, sold])"
  by code_simp


end
