(* ===== verification/Capital_Funding.thy ===== *)
theory Capital_Funding
  imports Decimal28
begin

text \<open>
  What may pay for an opportunity: the asset policy and the classification of Spot balances
  (\<^verbatim>\<open>portfolio/asset_policy.py\<close>, the balance of \<^verbatim>\<open>portfolio/wallet.py\<close>), the allocation of a capital pool
  (\<^verbatim>\<open>allocation/capital_allocator.py\<close>) and the funding plan (\<^verbatim>\<open>funding/funding_plan.py\<close>). Amounts are
  finite decimals; a mapping that is iterated is the list of its items.
\<close>

section \<open>Asset policy\<close>

record asset_policy =
  ap_protected_assets :: "string list"
  ap_fee_reserve_assets :: "string list"
  ap_preferred_quote_assets :: "string list"
  ap_dust_value_threshold_usdt :: dec
  ap_automatic_conversion_enabled :: bool
  ap_automatic_wallet_transfer_enabled :: bool
  ap_automatic_position_reduction_enabled :: bool

definition normalize_asset :: "string \<Rightarrow> string result" where
  "normalize_asset asset =
     (let n = py_upper (py_strip asset)
      in if n = [] \<or> \<not> py_isalnum n then Inl (ValueError ''asset must be alphanumeric'') else Inr n)"

definition normalize_assets :: "string list \<Rightarrow> string \<Rightarrow> string list result" where
  "normalize_assets assets name =
     bindE (mapE normalize_asset assets) (\<lambda>ns.
       validate [(list_ex (\<lambda>n. n = []) (dict_fromkeys ns), name @ '' cannot contain empty assets'')] (dict_fromkeys ns))"

definition asset_policy_post_init :: "asset_policy \<Rightarrow> asset_policy result" where
  "asset_policy_post_init p =
     bindE (normalize_assets (ap_protected_assets p) ''protected_assets'') (\<lambda>protected.
     bindE (normalize_assets (ap_fee_reserve_assets p) ''fee_reserve_assets'') (\<lambda>fees.
     bindE (normalize_assets (ap_preferred_quote_assets p) ''preferred_quote_assets'') (\<lambda>quotes.
       validate
         [(quotes = [], ''preferred_quote_assets must not be empty''),
          (ap_dust_value_threshold_usdt p < 0, ''dust_value_threshold_usdt must be finite and non-negative'')]
         (p\<lparr>ap_protected_assets := protected, ap_fee_reserve_assets := fees, ap_preferred_quote_assets := quotes\<rparr>))))"

definition default_asset_policy :: asset_policy where
  "default_asset_policy = \<lparr>ap_protected_assets = [], ap_fee_reserve_assets = [''BNB''],
     ap_preferred_quote_assets = [''USDT'', ''USDC''], ap_dust_value_threshold_usdt = 5,
     ap_automatic_conversion_enabled = False, ap_automatic_wallet_transfer_enabled = False,
     ap_automatic_position_reduction_enabled = False\<rparr>"

definition is_protected :: "asset_policy \<Rightarrow> string \<Rightarrow> bool result" where
  "is_protected p asset = bindE (normalize_asset asset) (\<lambda>n. Inr (n \<in> set (ap_protected_assets p)))"

definition is_quote_asset :: "asset_policy \<Rightarrow> string \<Rightarrow> bool result" where
  "is_quote_asset p asset = bindE (normalize_asset asset) (\<lambda>n. Inr (n \<in> set (ap_preferred_quote_assets p)))"

section \<open>Classified balances\<close>

datatype asset_classification =
  CASH_EQUIVALENT | ACTIVE_POSITION | PROTECTED_POSITION | LOCKED_ASSET | FEE_RESERVE | DUST | ILLIQUID | CONVERTIBLE | UNSUPPORTED

record spot_balance =
  sb_asset :: string
  sb_free :: dec
  sb_locked :: dec

definition spot_balance_post_init :: "spot_balance \<Rightarrow> spot_balance result" where
  "spot_balance_post_init b = validate
     [(blank (sb_asset b) \<or> min (sb_free b) (sb_locked b) < 0, ''Spot balance is invalid'')] b"

record classified_asset =
  ca_asset :: string
  ca_classification :: asset_classification
  ca_reason :: string
  ca_free :: dec
  ca_locked :: dec
  ca_estimated_value_usdt :: "dec option"
  ca_available_for_new_spot_notional :: dec
  ca_funding_eligible :: bool

definition classified_asset_post_init :: "classified_asset \<Rightarrow> classified_asset result" where
  "classified_asset_post_init c = validate
     [(blank (ca_asset c) \<or> blank (ca_reason c), ''asset classification identity is required''),
      (list_ex (\<lambda>x. x < 0) [ca_free c, ca_locked c, ca_available_for_new_spot_notional c],
       ''asset classification values cannot be negative''),
      ((case ca_estimated_value_usdt c of None \<Rightarrow> False | Some v \<Rightarrow> v < 0),
       ''estimated_value_usdt must be finite and non-negative''),
      (ca_classification c = PROTECTED_POSITION \<and> ca_funding_eligible c, ''protected assets cannot be funding eligible'')] c"

definition price_for :: "string \<Rightarrow> (string \<Rightarrow> dec option) option \<Rightarrow> dec option result" where
  "price_for asset prices =
     (case (case prices of None \<Rightarrow> None | Some m \<Rightarrow> m asset) of
        None \<Rightarrow> Inr None
      | Some v \<Rightarrow> if v < 0 then Inl (ValueError ''asset prices must be finite and non-negative'') else Inr (Some v))"

definition classified_record :: "spot_balance \<Rightarrow> asset_classification \<Rightarrow> string \<Rightarrow> dec option \<Rightarrow> dec \<Rightarrow> bool \<Rightarrow>
    classified_asset result" where
  "classified_record b c reason value available eligible = classified_asset_post_init
     \<lparr>ca_asset = py_upper (py_strip (sb_asset b)), ca_classification = c, ca_reason = reason, ca_free = sb_free b,
      ca_locked = sb_locked b, ca_estimated_value_usdt = value, ca_available_for_new_spot_notional = available,
      ca_funding_eligible = eligible\<rparr>"

definition balance_value :: "asset_policy \<Rightarrow> string \<Rightarrow> dec option \<Rightarrow> dec \<Rightarrow> dec option" where
  "balance_value p asset price held =
     (if asset \<in> set (ap_preferred_quote_assets p) then Some held
      else case price of None \<Rightarrow> None | Some x \<Rightarrow> Some (d_mul x held))"

definition classify_spot_balance :: "asset_policy \<Rightarrow> spot_balance \<Rightarrow> (string \<Rightarrow> dec option) option \<Rightarrow> classified_asset result" where
  "classify_spot_balance p b prices =
     (let asset = py_upper (py_strip (sb_asset b)); held = d_add (sb_free b) (sb_locked b)
      in bindE (price_for asset prices) (\<lambda>price.
         let value = balance_value p asset price held
         in if asset \<in> set (ap_protected_assets p)
            then classified_record b PROTECTED_POSITION ''PROTECTED_ASSET_POLICY'' value 0 False
            else if asset \<in> set (ap_fee_reserve_assets p)
            then classified_record b FEE_RESERVE ''FEE_RESERVE_POLICY'' value 0 False
            else if asset \<in> set (ap_preferred_quote_assets p)
            then classified_record b CASH_EQUIVALENT
                   (if 0 < sb_locked b then ''PREFERRED_QUOTE_ASSET_WITH_LOCKED_BALANCE'' else ''PREFERRED_QUOTE_ASSET'')
                   value (sb_free b) True
            else if sb_free b \<le> 0 \<and> 0 < sb_locked b
            then classified_record b LOCKED_ASSET ''LOCKED_BY_OPEN_ORDER'' value 0 False
            else case value of
                   None \<Rightarrow> classified_record b UNSUPPORTED ''USDT_PRICE_UNAVAILABLE'' value 0 False
                 | Some v \<Rightarrow>
                     if v < ap_dust_value_threshold_usdt p
                     then classified_record b DUST ''BELOW_DUST_VALUE_THRESHOLD'' value 0 False
                     else classified_record b CONVERTIBLE ''MANUAL_CONVERSION_REQUIRED'' value 0
                            (ap_automatic_conversion_enabled p)))"

definition classify_spot_balances :: "asset_policy \<Rightarrow> spot_balance list \<Rightarrow> (string \<Rightarrow> dec option) option \<Rightarrow>
    classified_asset list result" where
  "classify_spot_balances p bs prices = mapE (\<lambda>b. classify_spot_balance p b prices) bs"

section \<open>Capital allocation\<close>

datatype capital_market = SPOT_CAPITAL | FUTURES_CAPITAL

datatype allocation_decision =
  AD_ELIGIBLE | AD_INSUFFICIENT_CAPITAL | AD_RISK_LIMIT_REACHED | AD_MIN_NOTIONAL_FAILED | AD_FUNDING_ACTION_REQUIRED | AD_NO_TRADE

record capital_pool =
  cl_market :: capital_market
  cl_available_amount :: dec
  cl_locked_amount :: dec
  cl_reserve_amount :: dec
  cl_source :: string
  cl_blockers :: "string list"

definition capital_pool_post_init :: "capital_pool \<Rightarrow> capital_pool result" where
  "capital_pool_post_init c = validate
     [(list_ex (\<lambda>x. x < 0) [cl_available_amount c, cl_locked_amount c, cl_reserve_amount c],
       ''capital pool amounts cannot be negative''),
      (blank (cl_source c), ''capital pool source is required''),
      (list_ex blank (cl_blockers c), ''capital pool blockers cannot be empty'')] c"

record capital_request =
  cq_market :: capital_market
  cq_symbol :: string
  cq_requested_notional :: dec
  cq_minimum_notional :: dec
  cq_risk_budget_available :: bool
  cq_requires_asset_sale :: bool
  cq_required_funding_asset :: "string option"
  cq_requires_transfer :: bool

definition capital_request_post_init :: "capital_request \<Rightarrow> capital_request result" where
  "capital_request_post_init q =
     (let symbol = py_upper (py_strip (cq_symbol q))
      in bindE (validate
           [(symbol = [], ''opportunity symbol is required''),
            (min (cq_requested_notional q) (cq_minimum_notional q) \<le> 0, ''opportunity notional values must be positive'')] ()) (\<lambda>_.
         case cq_required_funding_asset q of
           None \<Rightarrow> Inr (q\<lparr>cq_symbol := symbol\<rparr>)
         | Some asset \<Rightarrow>
             let n = py_upper (py_strip asset)
             in validate [(n = [] \<or> \<not> py_isalnum n, ''required_funding_asset must be alphanumeric'')]
                  (q\<lparr>cq_required_funding_asset := Some n, cq_symbol := symbol\<rparr>)))"

record allocation_proposal =
  al_market :: capital_market
  al_symbol :: string
  al_available_capital :: dec
  al_proposed_capital :: dec
  al_funding_source :: string
  al_requires_asset_sale :: bool
  al_requires_transfer :: bool
  al_decision :: allocation_decision
  al_blockers :: "string list"
  al_execution_allowed :: bool
  al_live_eligibility_status :: string

definition allocation_proposal_post_init :: "allocation_proposal \<Rightarrow> allocation_proposal result" where
  "allocation_proposal_post_init a = validate
     [(blank (al_symbol a) \<or> blank (al_funding_source a), ''allocation proposal identity is required''),
      (min (al_available_capital a) (al_proposed_capital a) < 0, ''allocation proposal amounts cannot be negative''),
      (al_execution_allowed a \<or> al_live_eligibility_status a \<noteq> live_blocked, ''allocation proposal cannot grant execution authority''),
      (al_decision a \<noteq> AD_ELIGIBLE \<and> al_blockers a = [], ''rejected allocation proposal must include blockers'')] a"

definition requires_protected_asset :: "asset_policy \<Rightarrow> capital_request \<Rightarrow> bool result" where
  "requires_protected_asset p q =
     (case cq_required_funding_asset q of None \<Rightarrow> Inr False | Some asset \<Rightarrow> is_protected p asset)"

definition allocation_verdict :: "asset_policy \<Rightarrow> capital_request \<Rightarrow> capital_pool \<Rightarrow>
    (string list \<times> allocation_decision \<times> dec) result" where
  "allocation_verdict p q c =
     (if cq_market q \<noteq> cl_market c then Inr ([''CAPITAL_POOL_MARKET_MISMATCH''], AD_NO_TRADE, cq_requested_notional q)
      else bindE (if cq_requires_asset_sale q then requires_protected_asset p q else Inr False) (\<lambda>protected.
        if protected then Inr ([''PROTECTED_ASSET_REQUIRES_EXPLICIT_OVERRIDE''], AD_FUNDING_ACTION_REQUIRED, 0)
        else if \<not> cq_risk_budget_available q then Inr ([''RISK_BUDGET_UNAVAILABLE''], AD_RISK_LIMIT_REACHED, 0)
        else if cq_requested_notional q < cq_minimum_notional q then Inr ([''MIN_NOTIONAL_FAILED''], AD_MIN_NOTIONAL_FAILED, 0)
        else if cl_available_amount c < cq_requested_notional q
        then Inr ([''INSUFFICIENT_AVAILABLE_CAPITAL''],
          if cq_requires_transfer q \<or> cq_requires_asset_sale q then AD_FUNDING_ACTION_REQUIRED else AD_INSUFFICIENT_CAPITAL, 0)
        else Inr ([], AD_ELIGIBLE, cq_requested_notional q)))"

definition allocate :: "asset_policy \<Rightarrow> capital_request \<Rightarrow> capital_pool \<Rightarrow> allocation_proposal result" where
  "allocate p q c =
     bindE (allocation_verdict p q c) (\<lambda>(codes, decision, proposed).
       allocation_proposal_post_init
         \<lparr>al_market = cq_market q, al_symbol = cq_symbol q, al_available_capital = cl_available_amount c,
          al_proposed_capital = proposed, al_funding_source = cl_source c, al_requires_asset_sale = cq_requires_asset_sale q,
          al_requires_transfer = cq_requires_transfer q, al_decision = decision,
          al_blockers = dict_fromkeys (cl_blockers c @ codes), al_execution_allowed = False,
          al_live_eligibility_status = live_blocked\<rparr>)"

section \<open>Funding plans\<close>

datatype funding_action =
  USE_FREE_STABLECOIN | REVIEW_LOCKED_ORDER | REQUEST_ASSET_CONVERSION | REQUEST_WALLET_TRANSFER | NO_AVAILABLE_FUNDING

datatype funding_decision = FD_PROPOSED | FD_REJECTED | FD_UNAVAILABLE

record funding_proposal =
  fp_action :: funding_action
  fp_decision :: funding_decision
  fp_asset :: string
  fp_estimated_free_capital_usdt :: dec
  fp_rationale :: string
  fp_approval_required :: bool
  fp_blockers :: "string list"
  fp_execution_allowed :: bool

definition funding_proposal_post_init :: "funding_proposal \<Rightarrow> funding_proposal result" where
  "funding_proposal_post_init f = validate
     [(blank (fp_asset f) \<or> blank (fp_rationale f), ''funding action identity is required''),
      (fp_estimated_free_capital_usdt f < 0, ''funding action amount cannot be negative''),
      (fp_execution_allowed f, ''funding action cannot authorize execution''),
      (fp_decision f \<noteq> FD_PROPOSED \<and> fp_blockers f = [], ''blocked funding action must include blockers'')] f"

definition rejected_proposal :: "funding_action \<Rightarrow> string \<Rightarrow> string \<Rightarrow> funding_proposal result" where
  "rejected_proposal action asset reason = funding_proposal_post_init
     \<lparr>fp_action = action, fp_decision = FD_REJECTED, fp_asset = py_upper (py_strip asset), fp_estimated_free_capital_usdt = 0,
      fp_rationale = reason, fp_approval_required = True, fp_blockers = [reason], fp_execution_allowed = False\<rparr>"

record funding_plan =
  fu_required_capital_usdt :: dec
  fu_proposals :: "funding_proposal list"
  fu_blockers :: "string list"
  fu_execution_allowed :: bool
  fu_live_eligibility_status :: string

definition funding_plan_post_init :: "funding_plan \<Rightarrow> funding_plan result" where
  "funding_plan_post_init f = validate
     [(fu_required_capital_usdt f \<le> 0, ''required_capital_usdt must be positive''),
      (fu_execution_allowed f \<or> fu_live_eligibility_status f \<noteq> live_blocked, ''funding plan cannot grant execution authority'')] f"

definition validate_amount :: "string \<Rightarrow> dec \<Rightarrow> bool \<Rightarrow> unit result" where
  "validate_amount name value positive = validate
     [(value < 0 \<or> positive \<and> value \<le> 0, name @ '' must be finite and '' @ (if positive then ''positive'' else ''non-negative''))] ()"

definition proposed_funding :: "funding_action \<Rightarrow> string \<Rightarrow> dec \<Rightarrow> string \<Rightarrow> bool \<Rightarrow> funding_proposal result" where
  "proposed_funding action asset amount rationale approval = funding_proposal_post_init
     \<lparr>fp_action = action, fp_decision = FD_PROPOSED, fp_asset = asset, fp_estimated_free_capital_usdt = amount,
      fp_rationale = rationale, fp_approval_required = approval, fp_blockers = [], fp_execution_allowed = False\<rparr>"

definition when_positive :: "dec \<Rightarrow> funding_proposal result \<Rightarrow> funding_proposal list result" where
  "when_positive amount m = (if 0 < amount then bindE m (\<lambda>f. Inr [f]) else Inr [])"

definition conversion_proposals :: "asset_policy \<Rightarrow> dec \<Rightarrow> string \<times> dec \<Rightarrow> funding_proposal list result" where
  "conversion_proposals p required = (\<lambda>(asset, value).
     let n = py_upper (py_strip asset)
     in bindE (validate_amount (''convertible_assets_usdt['' @ n @ '']'') value False) (\<lambda>_.
        if value \<le> 0 then Inr []
        else bindE (is_protected p n) (\<lambda>protected.
          bindE (if protected then rejected_proposal REQUEST_ASSET_CONVERSION n ''PROTECTED_ASSET_REQUIRES_EXPLICIT_OVERRIDE''
                 else proposed_funding REQUEST_ASSET_CONVERSION n (min required value)
                   ''Manual asset conversion can be reviewed as a funding option.'' True) (\<lambda>f. Inr [f]))))"

definition no_funding :: "funding_proposal result" where
  "no_funding = funding_proposal_post_init
     \<lparr>fp_action = NO_AVAILABLE_FUNDING, fp_decision = FD_UNAVAILABLE, fp_asset = ''NONE'', fp_estimated_free_capital_usdt = 0,
      fp_rationale = ''No non-protected funding source is available.'', fp_approval_required = True,
      fp_blockers = [''NO_AVAILABLE_FUNDING''], fp_execution_allowed = False\<rparr>"

definition build_plan :: "asset_policy \<Rightarrow> dec \<Rightarrow> dec \<Rightarrow> dec \<Rightarrow> (string \<times> dec) list \<Rightarrow> dec \<Rightarrow> funding_plan result" where
  "build_plan p required free locked convertible transferable =
     bindE (validate_amount ''required_capital_usdt'' required True) (\<lambda>_.
     bindE (validate_amount ''free_quote_capital_usdt'' free False) (\<lambda>_.
     bindE (validate_amount ''locked_order_capital_usdt'' locked False) (\<lambda>_.
     bindE (validate_amount ''transferable_capital_usdt'' transferable False) (\<lambda>_.
     bindE (when_positive free (proposed_funding USE_FREE_STABLECOIN ''QUOTE'' (min required free)
       ''Use free preferred quote balance before any asset conversion.'' False)) (\<lambda>use.
     bindE (when_positive locked (proposed_funding REVIEW_LOCKED_ORDER ''OPEN_ORDERS'' (min required locked)
       ''Review stale or invalid open orders; do not cancel automatically.'' True)) (\<lambda>review.
     bindE (mapE (conversion_proposals p required) convertible) (\<lambda>conversions.
     bindE (when_positive transferable (proposed_funding REQUEST_WALLET_TRANSFER ''USDT'' (min required transferable)
       ''Wallet transfer requires separate manual approval.'' True)) (\<lambda>transfer.
     let found = use @ review @ concat conversions @ transfer
     in bindE (if found = [] then bindE no_funding (\<lambda>f. Inr [f]) else Inr found) (\<lambda>proposals.
        funding_plan_post_init
          \<lparr>fu_required_capital_usdt = required, fu_proposals = proposals,
           fu_blockers = dict_fromkeys (concat (map fp_blockers proposals)), fu_execution_allowed = False,
           fu_live_eligibility_status = live_blocked\<rparr>)))))))))"

section \<open>Only what the policy leaves funds an opportunity\<close>

lemma normalize_asset_Inr:
  "normalize_asset a = Inr n \<longleftrightarrow> n = py_upper (py_strip a) \<and> n \<noteq> [] \<and> py_isalnum n"
  by (auto simp: normalize_asset_def Let_def)

lemma normalize_asset_again: "normalize_asset a = Inr n \<Longrightarrow> normalize_asset n = Inr n"
  unfolding normalize_asset_Inr by (metis normal_symbol_idem)

lemma alnum_not_space: "is_alnum_char c \<Longrightarrow> \<not> py_space c"
  by (auto simp: is_alnum_char_def py_space_def Let_def)

lemma alnum_not_blank: "py_isalnum n \<Longrightarrow> \<not> blank n"
  using alnum_not_space by (cases n) (auto simp: blank_code py_isalnum_def)

lemma normalized_not_blank: "normalize_asset a = Inr n \<Longrightarrow> \<not> blank n"
  using alnum_not_blank unfolding normalize_asset_Inr by blast

lemma funding_asset_normal:
  assumes "capital_request_post_init q = Inr q" "cq_required_funding_asset q = Some a"
  shows "normalize_asset a = Inr a"
proof -
  have "py_upper (py_strip a) = a" "py_isalnum (py_upper (py_strip a))"
    using assms by (auto simp: capital_request_post_init_def Let_def dest: arg_cong [where f = cq_required_funding_asset])
  then show ?thesis by (auto simp: normalize_asset_Inr py_isalnum_def)
qed

lemma requires_protected_total:
  assumes "capital_request_post_init q = Inr q"
  obtains b where "requires_protected_asset p q = Inr b"
  using funding_asset_normal [OF assms]
  by (cases "cq_required_funding_asset q") (auto simp: requires_protected_asset_def is_protected_def)

lemma request_values:
  assumes "capital_request_post_init q = Inr q"
  shows "0 < cq_requested_notional q" "0 < cq_minimum_notional q" "\<not> blank (cq_symbol q)"
proof -
  have c: "py_upper (py_strip (cq_symbol q)) \<noteq> []" "\<not> min (cq_requested_notional q) (cq_minimum_notional q) \<le> 0"
    using assms by (auto simp: capital_request_post_init_def Let_def)
  then show "0 < cq_requested_notional q" "0 < cq_minimum_notional q" by auto
  from c(1) show "\<not> blank (cq_symbol q)" by (auto simp: blank_def py_upper_def)
qed

lemma allocation_verdict_exact:
  assumes "0 < cq_requested_notional q" "requires_protected_asset p q = Inr b"
  shows "\<exists>codes d x. allocation_verdict p q c = Inr (codes, d, x) \<and> 0 \<le> x \<and> (d = AD_ELIGIBLE \<longleftrightarrow> codes = []) \<and>
    (d = AD_ELIGIBLE \<longleftrightarrow> cq_market q = cl_market c \<and> \<not> (cq_requires_asset_sale q \<and> b) \<and> cq_risk_budget_available q \<and>
       cq_minimum_notional q \<le> cq_requested_notional q \<and> cq_requested_notional q \<le> cl_available_amount c) \<and>
    (d = AD_ELIGIBLE \<longrightarrow> x = cq_requested_notional q) \<and> (cq_market q = cl_market c \<and> d \<noteq> AD_ELIGIBLE \<longrightarrow> x = 0)"
  using assms
  by (cases "cq_market q = cl_market c"; cases "cq_requires_asset_sale q"; cases b; cases "cq_risk_budget_available q";
      cases "cq_requested_notional q < cq_minimum_notional q"; cases "cl_available_amount c < cq_requested_notional q";
      simp add: allocation_verdict_def not_less)

text \<open>
  Capital is allocated exactly to what can be paid. For a validated request and pool the allocation
  returns a proposal, which never grants execution. It is eligible exactly when the pool is of the
  request's market, no protected asset would have to be sold, the risk budget is there, the notional reaches
  the minimum and the pool's available amount covers it; the full notional is then proposed. A request
  refused on its own market gets nothing and a blocker.
\<close>

theorem allocation_eligible_iff:
  assumes "capital_request_post_init q = Inr q" "capital_pool_post_init c = Inr c"
  shows "\<exists>a. allocate p q c = Inr a \<and> \<not> al_execution_allowed a \<and>
    (al_decision a = AD_ELIGIBLE \<longleftrightarrow> cq_market q = cl_market c \<and>
       \<not> (cq_requires_asset_sale q \<and> requires_protected_asset p q = Inr True) \<and> cq_risk_budget_available q \<and>
       cq_minimum_notional q \<le> cq_requested_notional q \<and> cq_requested_notional q \<le> cl_available_amount c) \<and>
    (al_decision a = AD_ELIGIBLE \<longrightarrow> al_proposed_capital a = cq_requested_notional q) \<and>
    (cq_market q = cl_market c \<and> al_decision a \<noteq> AD_ELIGIBLE \<longrightarrow> al_proposed_capital a = 0 \<and> al_blockers a \<noteq> [])"
proof -
  obtain b where b: "requires_protected_asset p q = Inr b" using requires_protected_total [OF assms(1)] .
  have pool: "0 \<le> cl_available_amount c" "\<not> blank (cl_source c)" using assms(2) by (auto simp: capital_pool_post_init_def)
  obtain codes d x where "allocation_verdict p q c = Inr (codes, d, x)" "0 \<le> x" "d = AD_ELIGIBLE \<longleftrightarrow> codes = []"
    "d = AD_ELIGIBLE \<longleftrightarrow> cq_market q = cl_market c \<and> \<not> (cq_requires_asset_sale q \<and> b) \<and> cq_risk_budget_available q \<and>
       cq_minimum_notional q \<le> cq_requested_notional q \<and> cq_requested_notional q \<le> cl_available_amount c"
    "d = AD_ELIGIBLE \<longrightarrow> x = cq_requested_notional q" "cq_market q = cl_market c \<and> d \<noteq> AD_ELIGIBLE \<longrightarrow> x = 0"
    using allocation_verdict_exact [OF request_values(1) [OF assms(1)] b] by blast
  moreover from this have "allocate p q c = Inr \<lparr>al_market = cq_market q, al_symbol = cq_symbol q, al_available_capital = cl_available_amount c,
      al_proposed_capital = x, al_funding_source = cl_source c, al_requires_asset_sale = cq_requires_asset_sale q,
      al_requires_transfer = cq_requires_transfer q, al_decision = d, al_blockers = dict_fromkeys (cl_blockers c @ codes),
      al_execution_allowed = False, al_live_eligibility_status = live_blocked\<rparr>"
    using pool request_values(3) [OF assms(1)] by (auto simp: allocate_def allocation_proposal_post_init_def)
  ultimately show ?thesis using b by auto
qed

text \<open>What a proposal of the plan may be.\<close>

definition proposal_sound :: "asset_policy \<Rightarrow> dec \<Rightarrow> funding_proposal \<Rightarrow> bool" where
  "proposal_sound p required f \<longleftrightarrow> \<not> fp_execution_allowed f \<and>
     (if fp_decision f = FD_PROPOSED
      then 0 < fp_estimated_free_capital_usdt f \<and> fp_estimated_free_capital_usdt f \<le> required
        \<and> (fp_action f = REQUEST_ASSET_CONVERSION \<longrightarrow> fp_asset f \<notin> set (ap_protected_assets p) \<and> fp_approval_required f)
      else fp_estimated_free_capital_usdt f = 0 \<and> fp_blockers f \<noteq> [])"

definition conversion_of :: "string \<Rightarrow> funding_proposal \<Rightarrow> bool" where
  "conversion_of n f \<longleftrightarrow> fp_action f = REQUEST_ASSET_CONVERSION \<and> fp_asset f = n"

lemma proposed_funding_sound:
  assumes "\<not> blank asset" "\<not> blank rationale" "0 < amount" "amount \<le> required"
    "action = REQUEST_ASSET_CONVERSION \<Longrightarrow> asset \<notin> set (ap_protected_assets p) \<and> approval"
  obtains f where "proposed_funding action asset amount rationale approval = Inr f" "proposal_sound p required f"
    "fp_decision f = FD_PROPOSED" "fp_action f = action" "fp_asset f = asset"
proof -
  let ?f = "\<lparr>fp_action = action, fp_decision = FD_PROPOSED, fp_asset = asset, fp_estimated_free_capital_usdt = amount,
      fp_rationale = rationale, fp_approval_required = approval, fp_blockers = [], fp_execution_allowed = False\<rparr>"
  have "proposed_funding action asset amount rationale approval = Inr ?f"
    using assms(1-3) by (simp add: proposed_funding_def funding_proposal_post_init_def)
  then show thesis using assms(3-5) by (intro that [of ?f]) (auto simp: proposal_sound_def)
qed

lemma when_positive_sound:
  assumes "0 \<le> amount" "\<not> blank asset" "\<not> blank rationale" "0 < required" "action \<noteq> REQUEST_ASSET_CONVERSION"
  obtains fs where "when_positive amount (proposed_funding action asset (min required amount) rationale approval) = Inr fs"
    "list_all (proposal_sound p required) fs" "list_all (\<lambda>f. fp_action f = action) fs" "fs = [] \<longleftrightarrow> amount = 0"
proof (cases "0 < amount")
  case True
  then obtain f where f: "proposed_funding action asset (min required amount) rationale approval = Inr f"
      "proposal_sound p required f" "fp_action f = action"
    using proposed_funding_sound [of asset rationale "min required amount" required action p approval] assms by auto
  with True show thesis using that [of "[f]"] by (simp add: when_positive_def)
next
  case False
  then show thesis using that [of "[]"] assms(1) by (simp add: when_positive_def)
qed

lemma conversion_sound:
  assumes "0 < required" "0 \<le> value" "0 < value \<longrightarrow> normalize_asset asset = Inr n"
  obtains fs where "conversion_proposals p required (asset, value) = Inr fs" "list_all (proposal_sound p required) fs"
    "list_all (\<lambda>f. fp_action f = REQUEST_ASSET_CONVERSION) fs" "fs = [] \<longleftrightarrow> value = 0"
proof (cases "0 < value")
  case True
  then have n: "normalize_asset asset = Inr n" using assms(3) by simp
  have u: "py_upper (py_strip asset) = n" using n by (simp add: normalize_asset_Inr)
  have again: "py_upper (py_strip n) = n" using normalize_asset_again [OF n] by (simp add: normalize_asset_Inr)
  have protected: "is_protected p n = Inr (n \<in> set (ap_protected_assets p))"
    using normalize_asset_again [OF n] by (simp add: is_protected_def)
  have "\<exists>f. (if n \<in> set (ap_protected_assets p)
      then rejected_proposal REQUEST_ASSET_CONVERSION n ''PROTECTED_ASSET_REQUIRES_EXPLICIT_OVERRIDE''
      else proposed_funding REQUEST_ASSET_CONVERSION n (min required value)
        ''Manual asset conversion can be reviewed as a funding option.'' True) = Inr f \<and>
      proposal_sound p required f \<and> fp_action f = REQUEST_ASSET_CONVERSION"
  proof (cases "n \<in> set (ap_protected_assets p)")
    case True
    have "\<not> blank ''PROTECTED_ASSET_REQUIRES_EXPLICIT_OVERRIDE''" by code_simp
    then show ?thesis using True normalized_not_blank [OF n]
      by (simp add: rejected_proposal_def again funding_proposal_post_init_def proposal_sound_def)
  next
    case False
    have "\<not> blank ''Manual asset conversion can be reviewed as a funding option.''" by code_simp
    then obtain f where "proposed_funding REQUEST_ASSET_CONVERSION n (min required value)
        ''Manual asset conversion can be reviewed as a funding option.'' True = Inr f" "proposal_sound p required f"
        "fp_action f = REQUEST_ASSET_CONVERSION"
      using proposed_funding_sound [OF normalized_not_blank [OF n], of _ "min required value" required REQUEST_ASSET_CONVERSION p True]
        False True assms(1) by auto
    then show ?thesis using False by simp
  qed
  then obtain f where "conversion_proposals p required (asset, value) = Inr [f]" "proposal_sound p required f"
      "fp_action f = REQUEST_ASSET_CONVERSION"
    using True unfolding conversion_proposals_def prod.case Let_def u
    by (auto simp: protected validate_amount_def validate.simps)
  then show thesis using True by (intro that [of "[f]"]) simp_all
next
  case False
  then show thesis using assms(2)
    by (intro that [of "[]"]) (simp_all add: conversion_proposals_def Let_def validate_amount_def validate.simps)
qed

lemma conversions_sound:
  assumes "0 < required" "list_all (\<lambda>(a, v). 0 \<le> v \<and> (0 < v \<longrightarrow> (\<exists>n. normalize_asset a = Inr n))) cs"
  shows "\<exists>fss. mapE (conversion_proposals p required) cs = Inr fss \<and> list_all (proposal_sound p required) (concat fss) \<and>
    list_all (\<lambda>f. fp_action f = REQUEST_ASSET_CONVERSION) (concat fss) \<and> (concat fss = [] \<longleftrightarrow> list_all (\<lambda>(a, v). v = 0) cs)"
  using assms(2)
proof (induction cs)
  case (Cons c cs)
  obtain a v where c: "c = (a, v)" by fastforce
  then obtain n where v: "0 \<le> v" "0 < v \<longrightarrow> normalize_asset a = Inr n" using Cons.prems by auto
  obtain fs where fs: "conversion_proposals p required (a, v) = Inr fs" "list_all (proposal_sound p required) fs"
      "list_all (\<lambda>f. fp_action f = REQUEST_ASSET_CONVERSION) fs" "fs = [] \<longleftrightarrow> v = 0"
    using conversion_sound [OF assms(1) v] .
  obtain fss where "mapE (conversion_proposals p required) cs = Inr fss" "list_all (proposal_sound p required) (concat fss)"
      "list_all (\<lambda>f. fp_action f = REQUEST_ASSET_CONVERSION) (concat fss)" "concat fss = [] \<longleftrightarrow> list_all (\<lambda>(a, v). v = 0) cs"
    using Cons by auto
  then show ?case using fs c by (intro exI [of _ "fs # fss"]) simp
qed simp

lemma rationales:
  "\<not> blank ''Use free preferred quote balance before any asset conversion.'' \<and>
   \<not> blank ''Review stale or invalid open orders; do not cancel automatically.'' \<and>
   \<not> blank ''Wallet transfer requires separate manual approval.'' \<and> \<not> blank ''No non-protected funding source is available.'' \<and>
   \<not> blank ''QUOTE'' \<and> \<not> blank ''OPEN_ORDERS'' \<and> \<not> blank ''USDT'' \<and> \<not> blank ''NONE''"
  by code_simp

lemma build_plan_sound:
  assumes "0 < required" "0 \<le> free" "0 \<le> locked" "0 \<le> transferable"
    and cs: "list_all (\<lambda>(a, v). 0 \<le> v \<and> (0 < v \<longrightarrow> (\<exists>n. normalize_asset a = Inr n))) cs"
  obtains plan where "build_plan p required free locked cs transferable = Inr plan" "\<not> fu_execution_allowed plan"
    "list_all (proposal_sound p required) (fu_proposals plan)"
    "list_ex (\<lambda>f. fp_action f = NO_AVAILABLE_FUNDING) (fu_proposals plan) \<longleftrightarrow>
       free = 0 \<and> locked = 0 \<and> transferable = 0 \<and> list_all (\<lambda>(a, v). v = 0) cs"
proof -
  obtain use1 where u: "when_positive free (proposed_funding USE_FREE_STABLECOIN ''QUOTE'' (min required free)
        ''Use free preferred quote balance before any asset conversion.'' False) = Inr use1"
      "list_all (proposal_sound p required) use1" "list_all (\<lambda>f. fp_action f = USE_FREE_STABLECOIN) use1" "use1 = [] \<longleftrightarrow> free = 0"
    using when_positive_sound [OF assms(2) _ _ assms(1)] rationales by (metis funding_action.distinct(3))
  obtain review where r: "when_positive locked (proposed_funding REVIEW_LOCKED_ORDER ''OPEN_ORDERS'' (min required locked)
        ''Review stale or invalid open orders; do not cancel automatically.'' True) = Inr review"
      "list_all (proposal_sound p required) review" "list_all (\<lambda>f. fp_action f = REVIEW_LOCKED_ORDER) review" "review = [] \<longleftrightarrow> locked = 0"
    using when_positive_sound [OF assms(3) _ _ assms(1)] rationales by (metis funding_action.distinct(9))
  obtain transfer where t: "when_positive transferable (proposed_funding REQUEST_WALLET_TRANSFER ''USDT'' (min required transferable)
        ''Wallet transfer requires separate manual approval.'' True) = Inr transfer"
      "list_all (proposal_sound p required) transfer" "list_all (\<lambda>f. fp_action f = REQUEST_WALLET_TRANSFER) transfer"
      "transfer = [] \<longleftrightarrow> transferable = 0"
    using when_positive_sound [OF assms(4) _ _ assms(1)] rationales by (metis funding_action.distinct(15))
  obtain fss where c: "mapE (conversion_proposals p required) cs = Inr fss" "list_all (proposal_sound p required) (concat fss)"
      "list_all (\<lambda>f. fp_action f = REQUEST_ASSET_CONVERSION) (concat fss)" "concat fss = [] \<longleftrightarrow> list_all (\<lambda>(a, v). v = 0) cs"
    using conversions_sound [OF assms(1) cs] by blast
  let ?found = "use1 @ review @ concat fss @ transfer"
  obtain f where f: "no_funding = Inr f" "proposal_sound p required f" "fp_action f = NO_AVAILABLE_FUNDING"
    using rationales by (auto simp: no_funding_def funding_proposal_post_init_def proposal_sound_def)
  let ?all = "if ?found = [] then [f] else ?found"
  have none: "?found = [] \<longleftrightarrow> free = 0 \<and> locked = 0 \<and> transferable = 0 \<and> list_all (\<lambda>(a, v). v = 0) cs"
    using u(4) r(4) t(4) c(4) by (simp only: append_is_Nil_conv) blast
  have acts: "list_all (\<lambda>f. fp_action f \<noteq> NO_AVAILABLE_FUNDING) ?found"
    using u(3) r(3) t(3) c(3) by (auto simp: list_all_iff)
  have sound: "list_all (proposal_sound p required) ?all" using u(2) r(2) t(2) c(2) f(2) by (simp del: concat_eq_Nil_conv)
  have listed: "list_ex (\<lambda>f. fp_action f = NO_AVAILABLE_FUNDING) ?all \<longleftrightarrow> ?found = []"
    using acts f(3) by (cases "?found = []") (simp_all only: if_True if_False list_ex_iff list_all_iff, auto)
  have "build_plan p required free locked cs transferable = Inr \<lparr>fu_required_capital_usdt = required, fu_proposals = ?all,
      fu_blockers = dict_fromkeys (concat (map fp_blockers ?all)), fu_execution_allowed = False, fu_live_eligibility_status = live_blocked\<rparr>"
    using assms(1-4) unfolding build_plan_def u(1) r(1) t(1) c(1)
    by (simp add: validate_amount_def validate.simps Let_def f(1) funding_plan_post_init_def del: concat_eq_Nil_conv)
  from that [OF this] show thesis
    using sound listed none by (simp only: funding_plan.select_convs not_False_eq_True simp_thms)
qed

lemma protected_classified:
  assumes "spot_balance_post_init b = Inr b" "normalize_asset (sb_asset b) = Inr n" "n \<in> set (ap_protected_assets p)"
    "price_for n prices = Inr price"
  obtains k where "classify_spot_balance p b prices = Inr k" "ca_classification k = PROTECTED_POSITION" "\<not> ca_funding_eligible k"
    "ca_available_for_new_spot_notional k = 0"
proof -
  have amounts: "0 \<le> sb_free b" "0 \<le> sb_locked b" using assms(1) by (auto simp: spot_balance_post_init_def)
  have u: "py_upper (py_strip (sb_asset b)) = n" using assms(2) by (simp add: normalize_asset_Inr)
  have price: "case price of None \<Rightarrow> True | Some x \<Rightarrow> 0 \<le> x"
    using assms(4) by (auto simp: price_for_def split: option.splits if_splits)
  have "0 \<le> d_add (sb_free b) (sb_locked b)" using amounts by (rule d_add_nonneg)
  then have v: "case balance_value p n price (d_add (sb_free b) (sb_locked b)) of None \<Rightarrow> True | Some v \<Rightarrow> 0 \<le> v"
    using price by (auto simp: balance_value_def split: option.splits intro!: d_mul_nonneg)
  have "\<not> blank ''PROTECTED_ASSET_POLICY''" by code_simp
  then have "\<exists>k. classified_record b PROTECTED_POSITION ''PROTECTED_ASSET_POLICY'' (balance_value p n price (d_add (sb_free b) (sb_locked b))) 0 False
      = Inr k \<and> ca_classification k = PROTECTED_POSITION \<and> \<not> ca_funding_eligible k \<and> ca_available_for_new_spot_notional k = 0"
    using amounts v normalized_not_blank [OF assms(2)] unfolding classified_record_def u
    by (auto simp: classified_asset_post_init_def not_less split: option.splits)
  then show thesis using that assms(3,4) unfolding classify_spot_balance_def Let_def u by auto
qed

text \<open>
  C35: a protected asset never pays. A balance of it is classified as a protected position, with nothing
  available and not eligible for funding; an allocation that would have to sell it is refused; and a funding
  plan, which always comes back for valid amounts, never proposes to convert it. Every proposal of the
  plan is for a positive amount within the capital required, or is refused with a blocker, none grants
  execution, and the plan reports that nothing is available exactly when every source is empty.
\<close>

theorem protected_assets_never_fund:
  assumes "n \<in> set (ap_protected_assets p)"
    and "spot_balance_post_init b = Inr b" "normalize_asset (sb_asset b) = Inr n" "price_for n prices = Inr price"
    and "capital_request_post_init q = Inr q" "cq_requires_asset_sale q" "cq_required_funding_asset q = Some n"
    and "capital_pool_post_init c = Inr c"
    and "0 < required" "0 \<le> free" "0 \<le> locked" "0 \<le> transferable"
    and "list_all (\<lambda>(a, v). 0 \<le> v \<and> (0 < v \<longrightarrow> (\<exists>n. normalize_asset a = Inr n))) cs"
  shows "(\<exists>k. classify_spot_balance p b prices = Inr k \<and> ca_classification k = PROTECTED_POSITION \<and> \<not> ca_funding_eligible k \<and>
        ca_available_for_new_spot_notional k = 0) \<and>
    (\<exists>a. allocate p q c = Inr a \<and> al_decision a \<noteq> AD_ELIGIBLE) \<and>
    (\<exists>plan. build_plan p required free locked cs transferable = Inr plan \<and> \<not> fu_execution_allowed plan \<and>
       list_all (proposal_sound p required) (fu_proposals plan) \<and>
       list_all (\<lambda>f. conversion_of n f \<longrightarrow> fp_decision f \<noteq> FD_PROPOSED) (fu_proposals plan) \<and>
       (list_ex (\<lambda>f. fp_action f = NO_AVAILABLE_FUNDING) (fu_proposals plan) \<longleftrightarrow>
          free = 0 \<and> locked = 0 \<and> transferable = 0 \<and> list_all (\<lambda>(a, v). v = 0) cs))"
proof (intro conjI)
  show "\<exists>k. classify_spot_balance p b prices = Inr k \<and> ca_classification k = PROTECTED_POSITION \<and> \<not> ca_funding_eligible k \<and>
      ca_available_for_new_spot_notional k = 0"
    using protected_classified [OF assms(2,3,1,4)] by metis
  have "requires_protected_asset p q = Inr True"
    using funding_asset_normal [OF assms(5,7)] assms(1,7) by (simp add: requires_protected_asset_def is_protected_def)
  moreover obtain codes d x where "allocation_verdict p q c = Inr (codes, d, x)" "d \<noteq> AD_ELIGIBLE" "codes \<noteq> []" "0 \<le> x"
    using allocation_verdict_exact [OF request_values(1) [OF assms(5)] calculation, of c] assms(6) by auto
  moreover have "0 \<le> cl_available_amount c" "\<not> blank (cl_source c)" using assms(8) by (auto simp: capital_pool_post_init_def)
  ultimately show "\<exists>a. allocate p q c = Inr a \<and> al_decision a \<noteq> AD_ELIGIBLE"
    using request_values(3) [OF assms(5)] by (simp add: allocate_def allocation_proposal_post_init_def)
  obtain plan where plan: "build_plan p required free locked cs transferable = Inr plan" "\<not> fu_execution_allowed plan"
      "list_all (proposal_sound p required) (fu_proposals plan)"
      "list_ex (\<lambda>f. fp_action f = NO_AVAILABLE_FUNDING) (fu_proposals plan) \<longleftrightarrow>
         free = 0 \<and> locked = 0 \<and> transferable = 0 \<and> list_all (\<lambda>(a, v). v = 0) cs"
    using build_plan_sound [OF assms(9-13)] .
  moreover have "list_all (\<lambda>f. conversion_of n f \<longrightarrow> fp_decision f \<noteq> FD_PROPOSED) (fu_proposals plan)"
    using plan(3) assms(1) by (auto simp: list_all_iff conversion_of_def proposal_sound_def)
  ultimately show "\<exists>plan. build_plan p required free locked cs transferable = Inr plan \<and> \<not> fu_execution_allowed plan \<and>
       list_all (proposal_sound p required) (fu_proposals plan) \<and>
       list_all (\<lambda>f. conversion_of n f \<longrightarrow> fp_decision f \<noteq> FD_PROPOSED) (fu_proposals plan) \<and>
       (list_ex (\<lambda>f. fp_action f = NO_AVAILABLE_FUNDING) (fu_proposals plan) \<longleftrightarrow>
          free = 0 \<and> locked = 0 \<and> transferable = 0 \<and> list_all (\<lambda>(a, v). v = 0) cs)"
    by blast
qed

section \<open>A protected holding\<close>

definition btc_policy :: asset_policy where
  "btc_policy = default_asset_policy\<lparr>ap_protected_assets := [''BTC'']\<rparr>"

definition btc_balance :: spot_balance where
  "btc_balance = \<lparr>sb_asset = ''btc'', sb_free = 2, sb_locked = 0\<rparr>"

definition spot_pool :: capital_pool where
  "spot_pool = \<lparr>cl_market = SPOT_CAPITAL, cl_available_amount = 150, cl_locked_amount = 0, cl_reserve_amount = 0,
     cl_source = ''SPOT_FREE_USDT'', cl_blockers = []\<rparr>"

definition plain_request :: capital_request where
  "plain_request = \<lparr>cq_market = SPOT_CAPITAL, cq_symbol = ''ETHUSDT'', cq_requested_notional = 100, cq_minimum_notional = 10,
     cq_risk_budget_available = True, cq_requires_asset_sale = False, cq_required_funding_asset = None, cq_requires_transfer = False\<rparr>"

definition sale_request :: capital_request where
  "sale_request = plain_request\<lparr>cq_requires_asset_sale := True, cq_required_funding_asset := Some ''BTC''\<rparr>"

lemma funding_example:
  "capital_request_post_init plain_request = Inr plain_request \<and> capital_request_post_init sale_request = Inr sale_request \<and>
   capital_pool_post_init spot_pool = Inr spot_pool \<and> spot_balance_post_init btc_balance = Inr btc_balance \<and>
   normalize_asset (sb_asset btc_balance) = Inr ''BTC'' \<and> normalize_asset ''btc'' = Inr ''BTC'' \<and>
   normalize_asset '' eth'' = Inr ''ETH''"
  by code_simp

theorem allocation_eligible_iff_witness:
  "\<exists>a :: allocation_proposal. allocate btc_policy plain_request spot_pool = Inr a \<and> al_decision a = AD_ELIGIBLE \<and> al_proposed_capital a = 100"
  using allocation_eligible_iff [of plain_request spot_pool btc_policy] funding_example
  by (auto simp: plain_request_def spot_pool_def)

theorem protected_assets_never_fund_witness:
  "\<exists>plan :: funding_plan. build_plan btc_policy 100 0 0 [(''btc'', 60), ('' eth'', 30)] 0 = Inr plan \<and>
     list_all (proposal_sound btc_policy 100) (fu_proposals plan) \<and> \<not> list_ex (\<lambda>f. fp_action f = NO_AVAILABLE_FUNDING) (fu_proposals plan)"
proof -
  have p: "''BTC'' \<in> set (ap_protected_assets btc_policy)" by (simp add: btc_policy_def)
  have price: "price_for ''BTC'' None = Inr None" by (simp add: price_for_def)
  have q: "cq_requires_asset_sale sale_request" "cq_required_funding_asset sale_request = Some ''BTC''" by (simp_all add: sale_request_def)
  have "list_all (\<lambda>(a, v). 0 \<le> v \<and> (0 < v \<longrightarrow> (\<exists>n. normalize_asset a = Inr n))) [(''btc'', 60), ('' eth'', 30 :: dec)]"
    using funding_example by auto
  from protected_assets_never_fund [OF p _ _ price _ q _ _ _ _ _ this, of btc_balance spot_pool 100 0 0 0] funding_example
  show ?thesis by auto
qed

text \<open>
  The blockers of a pool are reported and change nothing: a blocked pool still pays in full. Likewise a pool
  of the other market proposes the whole notional beside its refusal.
\<close>

lemma blocked_pool_still_pays:
  assumes "capital_request_post_init q = Inr q" "capital_pool_post_init c = Inr c" "cl_blockers c \<noteq> []"
    "cq_market q = cl_market c" "\<not> cq_requires_asset_sale q" "cq_risk_budget_available q"
    "cq_minimum_notional q \<le> cq_requested_notional q" "cq_requested_notional q \<le> cl_available_amount c"
  shows "\<exists>a. allocate p q c = Inr a \<and> al_decision a = AD_ELIGIBLE \<and> al_blockers a \<noteq> [] \<and> al_proposed_capital a = cq_requested_notional q"
proof -
  have "0 \<le> cl_available_amount c" "\<not> blank (cl_source c)" using assms(2) by (auto simp: capital_pool_post_init_def)
  then show ?thesis using assms(3-8) request_values [OF assms(1)]
    by (simp add: allocate_def allocation_verdict_def allocation_proposal_post_init_def)
qed

lemma mismatched_pool_proposes:
  assumes "capital_request_post_init q = Inr q" "capital_pool_post_init c = Inr c" "cq_market q \<noteq> cl_market c"
  shows "\<exists>a. allocate p q c = Inr a \<and> al_decision a = AD_NO_TRADE \<and> al_proposed_capital a = cq_requested_notional q"
proof -
  have "0 \<le> cl_available_amount c" "\<not> blank (cl_source c)" using assms(2) by (auto simp: capital_pool_post_init_def)
  then show ?thesis using assms(3) request_values [OF assms(1)]
    by (simp add: allocate_def allocation_verdict_def allocation_proposal_post_init_def)
qed

end
