(* ===== verification/Spec2Isabelle.thy ===== *)
theory Spec2Isabelle
  imports Order_State Symbol_Filters Order_Book Stream_Recovery Exchange_Health Live_Lifecycle
    Risk_Engine Portfolio_Risk Execution_Authority Paper_Lifecycle Order_Recovery Order_Preview Live_Adapter
    Virtual_History Provider_Continuity Cost_Basis Capital_Funding
begin

text \<open>
  AI4BINANCE: the path from a trade candidate to an order on the exchange, and the local record of it.
  All sources are under \<^verbatim>\<open>src/src/ai4binance/\<close>.

  \<^bold>\<open>How the program is put together.\<close> Research agents propose trade candidates (\<^verbatim>\<open>domain.py\<close>). The risk
  engine (\<^verbatim>\<open>risk.py\<close>) accepts or refuses each of them and sizes the position; the portfolio limits
  (\<^verbatim>\<open>domain/portfolio_risk.py\<close>) bound what may be open together. An accepted candidate takes one of two
  surfaces. On the virtual market it is filled by the paper broker and carried by the paper life cycle
  (\<^verbatim>\<open>execution/paper.py\<close>, \<^verbatim>\<open>domain/research/paper_lifecycle.py\<close>). On the Binance market it becomes a Spot order
  command (\<^verbatim>\<open>domain/order_command.py\<close>), previewed against the exchange's filters
  (\<^verbatim>\<open>execution/order_preview.py\<close>), approved by a human through the approval queue
  (\<^verbatim>\<open>execution/manual_approval.py\<close>), bound to an authorization envelope that a ledger lets through once
  (\<^verbatim>\<open>execution/authorization.py\<close>), gated by evidence registries and the live gate, placed by the gated
  executor (\<^verbatim>\<open>execution/live_spot.py\<close>), verified by reading it back, and recorded by the adapter in a
  hash-linked journal (\<^verbatim>\<open>execution/live_spot_adapter.py\<close>, \<^verbatim>\<open>execution/live_order_lifecycle.py\<close>, \<^verbatim>\<open>events/\<close>).
  Market data reaches the program through an order book and a stream recovery machine (\<^verbatim>\<open>exchange/\<close>).

  \<^bold>\<open>Theories and what they model.\<close>

  \<^item> Runtime. \<open>Py_Prelude\<close>: exceptions as values of a sum, the ordered checks of a dataclass's
    \<^verbatim>\<open>__post_init__\<close>, string methods, dictionaries, time stamps. \<open>Decimal28\<close>: \<^verbatim>\<open>decimal.Decimal\<close> in the
    default context (28 digits, half even), each operation rounding once. \<open>Decimal_Text\<close>: \<^verbatim>\<open>Decimal(text)\<close>
    with its special values. \<open>Int_Text\<close>: \<^verbatim>\<open>str\<close> and \<^verbatim>\<open>int\<close> of integers. \<open>Text_Rules\<close>: the normalisations and the newest-record rule that the approval,
    authorization and evidence records share. \<open>Domain_Enums\<close>: the enumerations of \<^verbatim>\<open>domain.py\<close>.
  \<^item> Events. \<open>Domain_Events\<close>: \<^verbatim>\<open>events/models.py\<close>, \<^verbatim>\<open>events/bus.py\<close> and the append path of
    \<^verbatim>\<open>events/journal.py\<close>. \<open>Event_Delivery\<close>: \<^verbatim>\<open>events/delivery.py\<close>, the checkpoints, recovery and the
    journaled runtime of \<^verbatim>\<open>events/journal.py\<close>. \<open>Aggregate\<close>: replay of an event-sourced record, a locale that
    both order machines interpret.
  \<^item> Orders. \<open>Order_State\<close>: \<^verbatim>\<open>execution/order_state.py\<close>. \<open>Live_Lifecycle\<close>: \<^verbatim>\<open>execution/live_order_lifecycle.py\<close>.
    \<open>Live_Adapter\<close>: \<^verbatim>\<open>execution/live_spot_adapter.py\<close>. \<open>Order_Recovery\<close>: \<^verbatim>\<open>execution/recovery.py\<close> and
    \<^verbatim>\<open>portfolio/reconciliation.py\<close>.
  \<^item> Admission to the exchange. \<open>Spot_Order\<close>, \<open>Order_Preview\<close>, \<open>Approval_Queue\<close>, \<open>Authorization\<close>,
    \<open>Gate_Evidence\<close>, \<open>Live_Gate\<close>, \<open>Spot_Executor\<close>, \<open>Execution_Authority\<close>: the files named above,
    \<^verbatim>\<open>validation/live_gate_evidence.py\<close>, \<^verbatim>\<open>validation/promotion_evidence.py\<close>, \<^verbatim>\<open>domain/live_gate.py\<close>,
    \<^verbatim>\<open>domain/execution_authority.py\<close> and \<^verbatim>\<open>domain/execution_envelope.py\<close>.
  \<^item> Risk. \<open>Trade_Candidate\<close>, \<open>Risk_Engine\<close>, \<open>Portfolio_Risk\<close>: \<^verbatim>\<open>domain.py\<close>, \<^verbatim>\<open>schemas.py\<close>, \<^verbatim>\<open>risk.py\<close>,
    \<^verbatim>\<open>core/contracts/risk.py\<close>, \<^verbatim>\<open>domain/risk_geometry.py\<close>, \<^verbatim>\<open>domain/portfolio_risk.py\<close>.
    \<open>Futures_Leverage\<close>: \<^verbatim>\<open>domain/research/virtual_runtime_risk.py\<close>, the maintenance brackets, the isolated
    liquidation price and the leverage governor.
  \<^item> Virtual market. \<open>Trade_Attribution\<close>, \<open>Virtual_Eligibility\<close>, \<open>Paper_Trading\<close>, \<open>Paper_Lifecycle\<close>:
    \<^verbatim>\<open>domain/research/virtual_runtime_attribution.py\<close>, \<^verbatim>\<open>domain/blocker_reduction.py\<close>,
    \<^verbatim>\<open>application/virtual_runtime_eligibility.py\<close>, \<^verbatim>\<open>execution/paper.py\<close>, \<^verbatim>\<open>domain/research/trailing.py\<close>,
    \<^verbatim>\<open>domain/research/paper_models.py\<close>, \<^verbatim>\<open>domain/research/paper_lifecycle.py\<close>.
    \<open>Virtual_Portfolio\<close>, \<open>Virtual_Fill\<close>, \<open>Halt_Review\<close>, \<open>Virtual_Runtime\<close>: one decision of the virtual market,
    \<^verbatim>\<open>VirtualMarketRuntime.evaluate\<close> of \<^verbatim>\<open>application/virtual_runtime_engine.py\<close>, with the wallet
    (\<^verbatim>\<open>domain/research/virtual_runtime_portfolio_state.py\<close>), the request
    (\<^verbatim>\<open>domain/research/virtual_runtime_request.py\<close>), liquidity (\<^verbatim>\<open>domain/research/liquidity.py\<close>), the fill preview
    and portfolio blockers (\<^verbatim>\<open>application/virtual_runtime_portfolio.py\<close>) and the halt review
    (\<^verbatim>\<open>application/virtual_runtime_evidence.py\<close>).
    \<open>Virtual_Position\<close>: \<^verbatim>\<open>materialize_managed_position\<close> and \<^verbatim>\<open>process_position\<close> of the same class, with the
    managed position, its exits, the wallet after a candle and the closed trade record;
    \<open>Virtual_History\<close>: the states reachable from an entry through candles and what holds of them.
  \<^item> Exchange data. \<open>Symbol_Filters\<close>, \<open>Order_Book\<close>, \<open>Stream_Recovery\<close>, \<open>Exchange_Health\<close>:
    \<^verbatim>\<open>exchange/filters.py\<close>, \<^verbatim>\<open>exchange/order_book.py\<close>, \<^verbatim>\<open>exchange/stream_state.py\<close>, \<^verbatim>\<open>exchange/resilience.py\<close>,
    \<^verbatim>\<open>exchange/readiness.py\<close>. \<open>Kline_Stream\<close>: \<^verbatim>\<open>exchange/public_stream.py\<close>, the parser of kline messages and the
    ingestor over the recovery machine. \<open>Provider_Continuity\<close>: \<^verbatim>\<open>exchange/continuity.py\<close>, the verdict over the
    evidence of connector, stream, recovery, reconciliation and persisted state.
  \<^item> Capital. \<open>Cost_Basis\<close>: \<^verbatim>\<open>portfolio/cost_basis.py\<close>, the cost of a holding from its paged trade history.
    \<open>Capital_Funding\<close>: \<^verbatim>\<open>portfolio/asset_policy.py\<close>, \<^verbatim>\<open>allocation/capital_allocator.py\<close>,
    \<^verbatim>\<open>funding/funding_plan.py\<close>.

  \<^bold>\<open>How state and operations correspond.\<close> A dataclass is a record with the source's fields under a short
  prefix, and its \<^verbatim>\<open>__post_init__\<close> a function \<open>*_post_init\<close> that returns the record it stores or the error it
  raises, in the order of the source's checks. A method that changes its object returns its result paired
  with the object it leaves behind, also when it raises. A raised exception is \<open>Inl\<close> of its class and
  message. Files are lists of decoded lines, the authorization database is its list of rows, and a
  consumer, a disk or an exchange session is a function of the calls made so far, so that it may answer
  every call differently.

  \<^bold>\<open>Parameters.\<close> Digests (SHA-256 over canonical JSON) are functions \<open>h\<close>, \<open>d\<close>, \<open>bd\<close>, \<open>eh\<close> of the values they are
  computed from; a theorem that needs more than a function says so (hexadecimal output, no collision
  among the values at hand). The printing of a computed decimal is \<open>shw\<close>; the length of an encoded event
  and the file signature after an append are \<open>enc_len\<close> and \<open>touch\<close>; the exchange session, the history
  readers, the authorization source, the public market client, the subscribers and durable consumers are
  arguments of the operations that call them.

  \<^bold>\<open>What the lemmas show.\<close> Order admission: an order reaches the exchange only under a standing approval,
  inside its window, once per authorization, with the evidence and the gate open, and it does when all of
  these hold. Risk: an approved assessment satisfies every limit and its size every bound; admission keeps
  the portfolio limits. Events: the bus and the journal hold a hash-linked chain, appends refine list
  appends, durable delivery is in order and at least once whatever fails, and a publication without
  failures reached everyone. Order records: every replay satisfies the record's invariant, moves along the
  life cycle and never loses a fill; what the adapter reports is what a restart replays. Paper trading:
  the broker fills exactly the allowed candidates, a position's accounting stays consistent and a candle
  is always processed. Exchange data: books stay well formed, gaps fail closed, streams cover every
  sequence number, rounding and filters agree; only finished klines with all their trades reach a decision,
  once and in order, and the continuity verdict is ready exactly when each component's evidence is sound.
  Capital: a clear cost basis rests on the whole history and reproduces the wallet; protected assets never
  fund an opportunity.
  Virtual market: a decision trades only what every gate admits and keeps the wallet valid, fills are
  bounded and never better than asked, wallets survive their payloads, the governor permits exactly the
  lowest feasible leverage, the liquidation price is where equity meets maintenance, and a permitted
  position is stopped out before it is liquidated. From the entry on the wallet shows exactly the managed
  position, each candle changes only what its exits explain, and a futures candle takes liquidation
  before the stop, the stop before a forced exit and targets last.
  \<^bold>\<open>Interfaces.\<close> The locale \<open>decimal_context\<close> states what a rounding context promises and is interpreted on
  \<open>dround\<close>; \<open>aggregate\<close> states an event-sourced record and is interpreted on the paper order and on the
  live order; \<open>single_use\<close> states a ledger that admits each key once and is interpreted on the ledger and
  on the executor, for ids and for nonces.

  \<^bold>\<open>Termination and bounds.\<close> No definition uses fuel. The loops of the program run over finite sequences
  and are structural recursions, folds, or functions with a measure (the staged exits of a Spot and of a futures candle). Python
  integers are unbounded and modelled by \<open>int\<close>; decimals are rationals rounded to 28 digits after every
  operation. The exponent limits of the decimal context (999999) are out of reach of the modelled
  quantities and not modelled; subnormal and overflow signals do not occur.

  \<^bold>\<open>Not modelled.\<close> Floating-point indicators, scoring, strategies and tuning (research values enter as plain
  fields); HTTP, websocket and signing code; file locks, JSON codecs and operating-system file
  identity; command line, dashboards, reports, governance and documentation tooling, retrieval and
  content, none of which holds trading state. Of the virtual runtime the entry decision and the management
  of open positions are modelled; its performance statistics, reports and file handling are not.
\<close>

section \<open>From the approval queue to the exchange\<close>

text \<open>
  The queue file holds, as the only newest record of its approval, an approved Spot placement whose
  authorization has the digest of the envelope at hand.
\<close>

definition approved_in :: "envelope_digest \<Rightarrow> queue_file \<Rightarrow> authorization \<Rightarrow> bool" where
  "approved_in d f a \<longleftrightarrow>
     (\<exists>rs r x. queue_records f = Inr rs \<and> r \<in> set rs \<and> qr_authorization r = Some x \<and> envelope_sha256 d x = envelope_sha256 d a
        \<and> mp_approval_status (qr_action r) = AP_APPROVED \<and> ar_approval_status (qr_approval r) = AP_APPROVED
        \<and> mp_action_type (qr_action r) = PLACE_SPOT_ORDER \<and> au_approval_id x = ar_approval_id (qr_approval r)
        \<and> (\<forall>y \<in> set rs. ar_approval_id (qr_approval y) = au_approval_id x \<longrightarrow>
             y = r \<or> instant (qr_created_at y) < instant (qr_created_at r)))"

lemma resolved_approved_in:
  assumes "resolve_execution_authorization f i = Inr (Some x)" "envelope_sha256 d x = envelope_sha256 d a"
  shows "approved_in d f a"
  using resolved_newest [OF assms(1)] assms(2) unfolding approved_in_def by blast

text \<open>
  C11: every order on the exchange was approved in the queue, before and after it was claimed. When the
  executor reads its authorizations from an approval queue whose file may change between the two reads
  (\<open>queue 0\<close> before the claim, \<open>queue 1\<close> after it), an order that reaches the exchange is the command of
  the authorization that was passed, and at both reads the queue held, as the newest record of its
  approval, an approved Spot placement with that envelope's digest.
\<close>

theorem placed_under_standing_approval:
  assumes "spot_place h d bd env l g auth t = (res, l', calls)" "Call_order_place p \<in> set calls"
    and "ev_source env = Some (\<lambda>n. resolve_execution_authorization (queue n))"
  shows "\<exists>a c. auth = Some a \<and> to_spot_order_command a = Inr c \<and> p = order_payload c \<and> claimed_row l l' a \<and>
    approved_in d (queue 0) a \<and> approved_in d (queue 1) a"
proof -
  from spot_place_requires [OF assms(1,2)] assms(3) obtain a c x where
    "auth = Some a" "to_spot_order_command a = Inr c" "p = order_payload c" "claimed_row l l' a"
    "resolve_execution_authorization (queue 0) (au_authorization_id a) = Inr (Some x)"
    "envelope_sha256 d x = envelope_sha256 d a" "still_approved d (\<lambda>n. resolve_execution_authorization (queue n)) 1 a"
    by auto
  then show ?thesis using resolved_approved_in unfolding still_approved_def by blast
qed

theorem placed_under_standing_approval_witness: "approved_in hash_a [Inr example_approved] example_authorization"
proof -
  obtain r row where "spot_place hash_a hash_a hash_a example_env [] example_gate (Some example_authorization)
      (Aware 20) = (Inr r, [row], [Call_order_test (order_payload example_command),
        Call_order_place (order_payload example_command)])"
    using example_place by blast
  from placed_under_standing_approval [OF this, of "order_payload example_command" "\<lambda>_. [Inr example_approved]"]
  show ?thesis by (auto simp: example_env_fields)
qed

end
